(* ===== verification/Prelude.thy ===== *)
theory Prelude
  imports Main "HOL-Library.Word" "HOL-Library.AList" 
begin

text \<open>
  Shared ground of the development: the machine types of the Go sources, the result type
  that makes every error return and every panic a value, and the generic facts on
  association lists, words and results that the component theories use.

  A Go \<^verbatim>\<open>string\<close> and a Go \<^verbatim>\<open>[]byte\<close> are both lists of bytes; both are \<^typ>\<open>string\<close> here (a HOL
  \<^typ>\<open>char\<close> is one byte). A Go \<^verbatim>\<open>map\<close> is an association list with distinct keys, because
  several handlers iterate over maps while changing them.
\<close>

section \<open>Types of the Go sources\<close>

type_synonym u8 = "8 word"
type_synonym u64 = "64 word"
type_synonym i64 = "64 word"
type_synonym bytes = string

text \<open>
  An \<^verbatim>\<open>error\<close> of Go is its message: the code only compares and prints messages.
\<close>

type_synonym error = string

text \<open>
  The outcome of a Go call: a value, an error return, or a run-time panic
  (nil dereference, index out of range, division by zero).
\<close>

datatype 'a result = Ok 'a | Err error | Panic error

fun rbind :: "'a result \<Rightarrow> ('a \<Rightarrow> 'b result) \<Rightarrow> 'b result" where
  "rbind (Ok x) f = f x"
| "rbind (Err e) f = Err e"
| "rbind (Panic e) f = Panic e"

fun rmap :: "('a \<Rightarrow> 'b) \<Rightarrow> 'a result \<Rightarrow> 'b result" where
  "rmap f (Ok x) = Ok (f x)"
| "rmap f (Err e) = Err e"
| "rmap f (Panic e) = Panic e"

fun is_ok :: "'a result \<Rightarrow> bool" where
  "is_ok (Ok _) = True"
| "is_ok (Err _) = False"
| "is_ok (Panic _) = False"

text \<open>A list of fallible steps, left to right, that stops at the first failure.\<close>

fun rlist :: "('a \<Rightarrow> 'b result) \<Rightarrow> 'a list \<Rightarrow> 'b list result" where
  "rlist f [] = Ok []"
| "rlist f (x # xs) = rbind (f x) (\<lambda>y. rbind (rlist f xs) (\<lambda>ys. Ok (y # ys)))"

text \<open>Reading a slice: an index out of range is a panic.\<close>

definition index :: "'a list \<Rightarrow> nat \<Rightarrow> 'a result" where
  "index xs i = (if i < length xs then Ok (xs ! i) else Panic ''index out of range'')"

section \<open>Collections of facts\<close>

named_theorems store_simps \<open>laws of the key-value store\<close>
named_theorems relay_simps \<open>field-wise behaviour of the relayer's operations\<close>
named_theorems wf_intros \<open>preservation of the relayer's invariant, one rule per operation\<close>

section \<open>Results\<close>

lemma rbind_eq_Ok [simp]: "(rbind r f = Ok y) = (\<exists>x. r = Ok x \<and> f x = Ok y)"
  by (cases r) auto

lemma rmap_eq_Ok [simp]: "(rmap f r = Ok y) = (\<exists>x. r = Ok x \<and> f x = y)"
  by (cases r) auto

lemma is_ok_iff: "is_ok r = (\<exists>x. r = Ok x)"
  by (cases r) auto

lemma rlist_Ok_length: "rlist f xs = Ok ys \<Longrightarrow> length ys = length xs"
  by (induction xs arbitrary: ys) auto

lemma rlist_Ok_all: "(\<And>x. x \<in> set xs \<Longrightarrow> f x = Ok (g x)) \<Longrightarrow> rlist f xs = Ok (map g xs)"
  by (induction xs) auto

lemma rlist_Ok_nth: "rlist f xs = Ok ys \<Longrightarrow> i < length xs \<Longrightarrow> f (xs ! i) = Ok (ys ! i)"
proof (induction xs arbitrary: ys i)
  case Nil
  then show ?case by simp
next
  case (Cons x xs)
  then show ?case by (cases i) auto
qed

lemma index_Ok [simp]: "(index xs i = Ok x) = (i < length xs \<and> xs ! i = x)"
  by (simp add: index_def)

section \<open>Association lists\<close>

lemma map_of_update [simp]: "map_of (AList.update k v al) = (map_of al)(k \<mapsto> v)"
  by (rule update_conv')

lemma map_of_delete [simp]: "map_of (AList.delete k al) = (map_of al)(k := None)"
  by (rule delete_conv')

lemma distinct_delete [simp]:
  "distinct (map fst al) \<Longrightarrow> distinct (map fst (AList.delete k al))"
  by (rule AList.distinct_delete)

lemma distinct_keys_update [simp]:
  "distinct (map fst al) \<Longrightarrow> distinct (map fst (AList.update k v al))"
  by (rule distinct_update)

lemma set_delete_subset: "set (AList.delete k al) \<subseteq> set al"
  by (auto simp: AList.delete_eq)

lemma in_set_delete [simp]:
  "((k', v) \<in> set (AList.delete k al)) = ((k', v) \<in> set al \<and> k' \<noteq> k)"
  by (auto simp: AList.delete_eq)

lemma in_set_update:
  "(k', v') \<in> set (AList.update k v al) \<Longrightarrow> (k', v') = (k, v) \<or> (k', v') \<in> set al"
  by (induction al) (auto split: if_splits)

lemma map_of_map_entry' [simp]:
  "map_of (AList.map_entry k f al) = (\<lambda>x. if x = k then map_option f (map_of al k) else map_of al x)"
  by (induction al) (auto split: option.splits)

lemma fst_map_entry [simp]: "map fst (AList.map_entry k f al) = map fst al"
  by (induction al) auto

section \<open>Words\<close>

lemma word_eq_unat: "(a = b) = (unat a = unat b)" for a b :: "'a::len word"
  by (metis word_unat_eq_iff)

lemma unat_less_power64: "unat (w::64 word) < 2 ^ 64"
  using unsigned_less [of w, where 'a = nat] by simp

lemma word_plus_no_overflow:
  fixes a b :: "'a::len word"
  assumes "unat a + unat b < 2 ^ LENGTH('a)"
  shows "unat (a + b) = unat a + unat b"
  using assms by (simp add: unat_word_ariths)

lemma word_times_no_overflow:
  fixes a b :: "'a::len word"
  assumes "unat a * unat b < 2 ^ LENGTH('a)"
  shows "unat (a * b) = unat a * unat b"
  using assms by (simp add: unat_word_ariths)

lemma word_minus_no_underflow:
  fixes a b :: "'a::len word"
  assumes "b \<le> a"
  shows "unat (a - b) = unat a - unat b"
  using assms by (rule unat_sub)

lemma unat_two_power:
  assumes "n < LENGTH('a)"
  shows "unat (2 ^ n :: 'a::len word) = 2 ^ n"
proof -
  have "(2 ^ n :: 'a word) = of_nat (2 ^ n)" by simp
  moreover have "(2::nat) ^ n < 2 ^ LENGTH('a)" using assms by (rule power_strict_increasing) simp
  ultimately show ?thesis by (simp only: unat_of_nat) simp
qed

lemma sint_eq_unat:
  fixes w :: i64
  assumes "unat w < 2 ^ 63"
  shows "sint w = int (unat w)"
proof -
  have u: "int (unat w) = uint w" by (rule uint_nat [symmetric])
  have "int (unat w) < int (2 ^ 63)" using assms by (simp only: of_nat_less_iff)
  then have "uint w < 2 ^ 63" by (simp only: u of_nat_power of_nat_numeral)
  moreover have "0 \<le> uint w" by simp
  then have "- (2 ^ 63) \<le> uint w" by (rule order_trans [rotated]) simp
  ultimately have "signed_take_bit 63 (uint w) = uint w"
    by (intro signed_take_bit_int_eq_self) simp_all
  then show ?thesis by (simp add: sint_uint u)
qed

end
