(* ===== verification/Go_Strings.thy ===== *)
theory Go_Strings
  imports Prelude
begin

text \<open>
  The parts of Go's standard library the relayer's data paths use: \<^verbatim>\<open>strings\<close>,
  \<^verbatim>\<open>strconv\<close>, \<^verbatim>\<open>encoding/hex\<close> and the conversions of \<^verbatim>\<open>math/big\<close>, on byte strings, with the
  round trips that key construction and the wire formats rely on.
\<close>

section \<open>Digits and numerals in a base\<close>

definition digit_char :: "nat \<Rightarrow> char" where
  "digit_char d = (if d < 10 then char_of (48 + d) else char_of (87 + d))"

definition digit_val :: "char \<Rightarrow> nat option" where
  "digit_val c = (let n = of_char c in
     if 48 \<le> n \<and> n \<le> 57 then Some (n - 48)
     else if 97 \<le> n \<and> n \<le> 102 then Some (n - 87)
     else if 65 \<le> n \<and> n \<le> 70 then Some (n - 55)
     else None)"

fun nat_str :: "nat \<Rightarrow> nat \<Rightarrow> string" where
  "nat_str b n =
     (if n < b \<or> b < 2 then [digit_char n] else nat_str b (n div b) @ [digit_char (n mod b)])"

declare nat_str.simps [simp del]

text \<open>\<^verbatim>\<open>big.Int.String\<close> (base 10) and \<^verbatim>\<open>strconv.FormatInt\<close> (base 16).\<close>

definition int_str :: "nat \<Rightarrow> int \<Rightarrow> string" where
  "int_str b i = (if i < 0 then CHR ''-'' # nat_str b (nat (- i)) else nat_str b (nat i))"

fun str_nat_aux :: "nat \<Rightarrow> nat \<Rightarrow> string \<Rightarrow> nat option" where
  "str_nat_aux b acc [] = Some acc"
| "str_nat_aux b acc (c # cs) =
     (case digit_val c of
        None \<Rightarrow> None
      | Some d \<Rightarrow> if d < b then str_nat_aux b (b * acc + d) cs else None)"

definition str_nat :: "nat \<Rightarrow> string \<Rightarrow> nat option" where
  "str_nat b s = (if s = [] then None else str_nat_aux b 0 s)"

text \<open>
  Signed numerals as \<^verbatim>\<open>strconv.ParseInt\<close> and \<^verbatim>\<open>big.Int.SetString\<close> with an explicit base read
  them: an optional sign, then at least one digit.
\<close>

definition str_int :: "nat \<Rightarrow> string \<Rightarrow> int option" where
  "str_int b s = (case s of
      [] \<Rightarrow> None
    | c # cs \<Rightarrow>
        if c = CHR ''-'' then map_option (\<lambda>n. - int n) (str_nat b cs)
        else if c = CHR ''+'' then map_option int (str_nat b cs)
        else map_option int (str_nat b s))"

text \<open>\<^verbatim>\<open>strconv.ParseInt(s, base, bits)\<close>: the syntax above, then the range of the bit size.\<close>

definition ParseInt :: "string \<Rightarrow> nat \<Rightarrow> nat \<Rightarrow> int result" where
  "ParseInt s b bits = (case str_int b s of
      None \<Rightarrow> Err ''invalid syntax''
    | Some i \<Rightarrow> if - (2 ^ (bits - 1)) \<le> i \<and> i < 2 ^ (bits - 1) then Ok i
                else Err ''value out of range'')"

section \<open>Package strings\<close>

definition HasPrefix :: "string \<Rightarrow> string \<Rightarrow> bool" where
  "HasPrefix s p = (take (length p) s = p)"

definition TrimPrefix :: "string \<Rightarrow> string \<Rightarrow> string" where
  "TrimPrefix s p = (if HasPrefix s p then drop (length p) s else s)"

fun Contains :: "string \<Rightarrow> string \<Rightarrow> bool" where
  "Contains [] p = (p = [])"
| "Contains (c # cs) p = (HasPrefix (c # cs) p \<or> Contains cs p)"

fun Join :: "string list \<Rightarrow> string \<Rightarrow> string" where
  "Join [] sep = []"
| "Join [x] sep = x"
| "Join (x # y # ys) sep = x @ sep @ Join (y # ys) sep"

text \<open>The first element of \<^verbatim>\<open>strings.SplitN(s, c, 2)\<close>, for a one-byte separator.\<close>

definition SplitN_fst :: "string \<Rightarrow> char \<Rightarrow> string" where
  "SplitN_fst s c = takeWhile (\<lambda>x. x \<noteq> c) s"

definition lower_char :: "char \<Rightarrow> char" where
  "lower_char c = (let n = of_char c :: nat in if 65 \<le> n \<and> n \<le> 90 then char_of (n + 32) else c)"

text \<open>\<^verbatim>\<open>strings.ToLower\<close> on ASCII text.\<close>

definition ToLower :: "string \<Rightarrow> string" where
  "ToLower s = map lower_char s"

section \<open>Package encoding/hex\<close>

fun hex_EncodeToString :: "bytes \<Rightarrow> string" where
  "hex_EncodeToString [] = []"
| "hex_EncodeToString (c # cs) =
     digit_char (of_char c div 16) # digit_char (of_char c mod 16) # hex_EncodeToString cs"

fun hex_DecodeString :: "string \<Rightarrow> bytes result" where
  "hex_DecodeString [] = Ok []"
| "hex_DecodeString [c] =
     (case digit_val c of None \<Rightarrow> Err ''invalid byte'' | Some _ \<Rightarrow> Err ''odd length hex string'')"
| "hex_DecodeString (a # b # cs) =
     (case digit_val a of
        None \<Rightarrow> Err ''invalid byte''
      | Some x \<Rightarrow>
        (case digit_val b of
           None \<Rightarrow> Err ''invalid byte''
         | Some y \<Rightarrow> rmap (\<lambda>ds. char_of (16 * x + y) # ds) (hex_DecodeString cs)))"

section \<open>Package math/big\<close>

text \<open>\<^verbatim>\<open>SetBytes\<close>: the bytes as a big-endian unsigned integer.\<close>

definition big_SetBytes :: "bytes \<Rightarrow> int" where
  "big_SetBytes bs = int (foldl (\<lambda>a c. 256 * a + of_char c) 0 bs)"

text \<open>\<^verbatim>\<open>Int64\<close> and \<^verbatim>\<open>Uint64\<close>: the low 64 bits.\<close>

definition big_Int64 :: "int \<Rightarrow> i64" where
  "big_Int64 i = word_of_int i"

definition big_Uint64 :: "int \<Rightarrow> u64" where
  "big_Uint64 i = word_of_int i"

definition SetString10 :: "string \<Rightarrow> int option" where
  "SetString10 s = str_int 10 s"

section \<open>Numerals read back\<close>

lemma of_char_char_of_small [simp]: "n < 256 \<Longrightarrow> of_char (char_of n :: char) = (n :: nat)"
  by simp

lemma digit_val_digit_char [simp]: "d < 16 \<Longrightarrow> digit_val (digit_char d) = Some d"
  by (auto simp: digit_val_def digit_char_def Let_def)

lemma of_char_digit_char: "d < 16 \<Longrightarrow> of_char (digit_char d) = (if d < 10 then 48 + d else 87 + d)"
  by (simp add: digit_char_def)

lemma digit_char_not_sign [simp]:
  assumes "d < 16"
  shows "digit_char d \<noteq> CHR ''-''" "digit_char d \<noteq> CHR ''+''" "digit_char d \<noteq> CHR ''x''"
    "CHR ''-'' \<noteq> digit_char d" "CHR ''+'' \<noteq> digit_char d" "CHR ''x'' \<noteq> digit_char d"
proof -
  have v: "of_char (digit_char d) = (if d < 10 then 48 + d else 87 + d)"
    using assms by (rule of_char_digit_char)
  have "of_char (digit_char d) \<noteq> (45::nat)" "of_char (digit_char d) \<noteq> (43::nat)"
    "of_char (digit_char d) \<noteq> (120::nat)"
    using v assms by (auto split: if_splits)
  then show "digit_char d \<noteq> CHR ''-''" "digit_char d \<noteq> CHR ''+''" "digit_char d \<noteq> CHR ''x''"
    by auto
  then show "CHR ''-'' \<noteq> digit_char d" "CHR ''+'' \<noteq> digit_char d" "CHR ''x'' \<noteq> digit_char d"
    by auto
qed

lemma str_nat_aux_append:
  "str_nat_aux b acc (xs @ ys) = Option.bind (str_nat_aux b acc xs) (\<lambda>a. str_nat_aux b a ys)"
  by (induction xs arbitrary: acc) (auto split: option.splits)

lemma nat_str_nonempty [simp]: "nat_str b n \<noteq> []"
  by (subst nat_str.simps) simp

lemma str_nat_aux_nat_str:
  assumes "2 \<le> b" "b \<le> 16"
  shows "str_nat_aux b 0 (nat_str b n) = Some n"
  using assms
proof (induction b n rule: nat_str.induct)
  case (1 b n)
  show ?case
  proof (cases "n < b")
    case True
    with "1.prems" show ?thesis by (subst nat_str.simps) simp
  next
    case False
    with "1.prems" "1.IH" have IH: "str_nat_aux b 0 (nat_str b (n div b)) = Some (n div b)" by simp
    have "n mod b < 16" using "1.prems" by (meson mod_less_divisor order_less_le_trans le_trans
        not_less zero_less_numeral order.strict_trans2)
    with False "1.prems" IH show ?thesis
      by (subst nat_str.simps) (simp add: str_nat_aux_append)
  qed
qed

lemma str_nat_nat_str [simp]: "2 \<le> b \<Longrightarrow> b \<le> 16 \<Longrightarrow> str_nat b (nat_str b n) = Some n"
  by (simp add: str_nat_def str_nat_aux_nat_str)

lemma nat_str_inj: "2 \<le> b \<Longrightarrow> b \<le> 16 \<Longrightarrow> nat_str b m = nat_str b n \<Longrightarrow> m = n"
  by (metis str_nat_nat_str option.inject)

lemma nat_str_digits:
  "2 \<le> b \<Longrightarrow> b \<le> 16 \<Longrightarrow> c \<in> set (nat_str b n) \<Longrightarrow> \<exists>d < 16. c = digit_char d"
proof (induction b n rule: nat_str.induct)
  case (1 b n)
  show ?case
  proof (cases "n < b")
    case True
    then have "c = digit_char n" using "1.prems"(3) by (subst (asm) nat_str.simps) simp
    moreover have "n < 16" using True "1.prems"(2) by simp
    ultimately show ?thesis by blast
  next
    case False
    have m: "n mod b < 16" using "1.prems" by (meson mod_less_divisor order_less_le_trans le_trans
        not_less zero_less_numeral order.strict_trans2)
    from "1.prems" False have "c \<in> set (nat_str b (n div b)) \<or> c = digit_char (n mod b)"
      by (subst (asm) nat_str.simps) auto
    then show ?thesis using "1.IH" "1.prems" False m by auto
  qed
qed

lemma nat_str_no_sign:
  assumes "2 \<le> b" "b \<le> 16"
  shows "CHR ''-'' \<notin> set (nat_str b n)" "CHR ''+'' \<notin> set (nat_str b n)"
  using nat_str_digits [OF assms] digit_char_not_sign by blast+

lemma hd_nat_str_not_sign:
  assumes "2 \<le> b" "b \<le> 16"
  shows "hd (nat_str b n) \<noteq> CHR ''-''" "hd (nat_str b n) \<noteq> CHR ''+''"
  using nat_str_no_sign [OF assms] hd_in_set [OF nat_str_nonempty] by metis+

lemma str_int_int_str [simp]:
  assumes "2 \<le> b" "b \<le> 16"
  shows "str_int b (int_str b i) = Some i"
proof (cases "i < 0")
  case True
  with assms show ?thesis by (simp add: str_int_def int_str_def)
next
  case False
  obtain c cs where s: "nat_str b (nat i) = c # cs"
    by (cases "nat_str b (nat i)") auto
  with hd_nat_str_not_sign [OF assms, of "nat i"] have "c \<noteq> CHR ''-''" "c \<noteq> CHR ''+''" by auto
  moreover have "str_nat b (c # cs) = Some (nat i)"
    using assms s by (metis str_nat_nat_str)
  ultimately show ?thesis using False s by (simp add: str_int_def int_str_def)
qed

lemma int_str_inj: "2 \<le> b \<Longrightarrow> b \<le> 16 \<Longrightarrow> int_str b i = int_str b j \<Longrightarrow> i = j"
  by (metis str_int_int_str option.inject)

lemma SetString10_int_str [simp]: "SetString10 (int_str 10 i) = Some i"
  by (simp add: SetString10_def)

section \<open>Hex strings read back\<close>

lemma hex_Decode_Encode [simp]: "hex_DecodeString (hex_EncodeToString bs) = Ok bs"
proof (induction bs)
  case (Cons c cs)
  have lt: "of_char c div 16 < (16::nat)" "of_char c mod 16 < (16::nat)"
    using nat_of_char_less_256 [of c] by (auto simp: less_mult_imp_div_less)
  have "16 * (of_char c div 16) + of_char c mod 16 = (of_char c :: nat)"
    by simp
  then show ?case using Cons lt by (simp del: of_char_of)
qed simp

lemma length_hex_Encode [simp]: "length (hex_EncodeToString bs) = 2 * length bs"
  by (induction bs) auto

lemma hex_Encode_inj: "hex_EncodeToString a = hex_EncodeToString b \<Longrightarrow> a = b"
  by (metis hex_Decode_Encode result.inject(1))

section \<open>Prefixes\<close>

lemma HasPrefix_iff: "HasPrefix s p = (\<exists>t. s = p @ t)"
  by (auto simp: HasPrefix_def) (metis append_take_drop_id)

lemma HasPrefix_append [simp]: "HasPrefix (p @ t) p"
  by (simp add: HasPrefix_def)

lemma HasPrefix_refl [simp]: "HasPrefix s s"
  by (simp add: HasPrefix_def)

lemma TrimPrefix_append [simp]: "TrimPrefix (p @ t) p = t"
  by (simp add: TrimPrefix_def)

lemma Contains_iff: "Contains s p = (\<exists>a b. s = a @ p @ b)"
proof (induction s)
  case Nil
  then show ?case by auto
next
  case (Cons c cs)
  show ?case
  proof
    assume "Contains (c # cs) p"
    then consider "HasPrefix (c # cs) p" | "Contains cs p" by auto
    then show "\<exists>a b. c # cs = a @ p @ b"
    proof cases
      case 1
      then obtain t where "c # cs = p @ t" by (auto simp: HasPrefix_iff)
      then have "c # cs = [] @ p @ t" by simp
      then show ?thesis by blast
    next
      case 2
      then obtain a b where "cs = a @ p @ b" using Cons.IH by auto
      then have "c # cs = (c # a) @ p @ b" by simp
      then show ?thesis by blast
    qed
  next
    assume "\<exists>a b. c # cs = a @ p @ b"
    then obtain a b where e: "c # cs = a @ p @ b" by blast
    show "Contains (c # cs) p"
    proof (cases a)
      case Nil
      then have "HasPrefix (c # cs) p" using e by (auto simp: HasPrefix_iff)
      then show ?thesis by simp
    next
      case (Cons x xs)
      then have "cs = xs @ p @ b" using e by simp
      then show ?thesis using Cons.IH by auto
    qed
  qed
qed

end
