(* ===== verification/Relay_Types.thy ===== *)
theory Relay_Types
  imports Go_Strings
begin

text \<open>
  Package \<^verbatim>\<open>relayer/types\<close> and \<^verbatim>\<open>relayer/events\<close>: messages, their keys, the routing state kept
  per message, the message cache, transaction objects and receipts.

  \<^bold>\<open>Pointers.\<close> \<^verbatim>\<open>MessageKey\<close> holds a \<^verbatim>\<open>*big.Int\<close> and is used as a key of a Go map, so two keys
  are equal only when they hold the same pointer, not when the numbers are equal. A \<^verbatim>\<open>*big.Int\<close>
  is therefore \<open>None\<close> (nil) or an address with the number stored there; numbers of messages
  are never changed after they are allocated. The records are parametric in the type of their
  numbers: \<^typ>\<open>(nat \<times> int) option\<close> in memory, \<^typ>\<open>int option\<close> on the wire and in the
  database, where an address has no meaning. Reading from the wire allocates new addresses.

  \<^bold>\<open>Time.\<close> A \<^verbatim>\<open>time.Time\<close> is the number of nanoseconds since Go's zero time; \<^verbatim>\<open>IsZero\<close> is \<open>= 0\<close>.
  A \<^verbatim>\<open>time.Duration\<close> is a signed 64-bit count of nanoseconds.
\<close>

section \<open>Constants\<close>

definition MaxTxRetry :: u8 where "MaxTxRetry = 5"
definition StaleMarkCount :: u8 where "StaleMarkCount = MaxTxRetry * 3"
definition RouteDuration :: i64 where "RouteDuration = 3000000000"
definition RetryInterval :: i64 where "RetryInterval = 3000000000 + RouteDuration"
definition XcallContract :: string where "XcallContract = ''xcall''"
definition ConnectionContract :: string where "ConnectionContract = ''connection''"
definition SupportedContracts :: "string list" where
  "SupportedContracts = [XcallContract, ConnectionContract]"

definition EmitMessage :: string where "EmitMessage = ''emitMessage''"
definition CallMessage :: string where "CallMessage = ''callMessage''"
definition RollbackMessage :: string where "RollbackMessage = ''rollbackMessage''"
definition RevertMessage :: string where "RevertMessage = ''revertMessage''"
definition SetAdmin :: string where "SetAdmin = ''setAdmin''"
definition GetFee :: string where "GetFee = ''getFee''"
definition SetFee :: string where "SetFee = ''setFee''"
definition ClaimFee :: string where "ClaimFee = ''claimFee''"

lemmas event_defs = EmitMessage_def CallMessage_def RollbackMessage_def RevertMessage_def
  SetAdmin_def GetFee_def SetFee_def ClaimFee_def

section \<open>Data\<close>

type_synonym gotime = int
type_synonym bigptr = "(nat \<times> int) option"
type_synonym wireint = "int option"

record 'p message =
  m_dst :: string
  m_src :: string
  m_sn :: 'p
  m_data :: bytes
  m_height :: u64
  m_event :: string
  m_reqid :: 'p

record 'p message_key =
  k_sn :: 'p
  k_src :: string
  k_dst :: string
  k_event :: string

record block_info =
  bi_height :: u64
  bi_messages :: "wireint message list"

record 'p route_message =
  rm_msg :: "'p message"
  rm_retry :: u8
  rm_processing :: bool
  rm_lasttry :: gotime

record 'p tx_object =
  to_key :: "'p message_key"
  to_msgheight :: u64
  to_txhash :: string
  to_txheight :: u64

datatype response_code = Failed | Success

record tx_response =
  tr_height :: i64
  tr_txhash :: string
  tr_codespace :: string
  tr_code :: response_code
  tr_data :: string

record receipt =
  rc_txhash :: string
  rc_height :: u64
  rc_status :: bool

record event_map =
  em_address :: string
  em_contract :: string
  em_sigtype :: "(string \<times> string) list"

type_synonym contract_config = "(string \<times> string) list"

section \<open>big.Int pointers\<close>

definition big_String :: "bigptr \<Rightarrow> string" where
  "big_String p = (case p of None \<Rightarrow> ''<nil>'' | Some (a, i) \<Rightarrow> int_str 10 i)"

definition unptr :: "bigptr \<Rightarrow> wireint" where
  "unptr p = map_option snd p"

text \<open>\<^verbatim>\<open>x.Uint64()\<close> and \<^verbatim>\<open>x.Int64()\<close> dereference \<^verbatim>\<open>x\<close>: on a nil pointer they panic.\<close>

definition ptr_Uint64 :: "wireint \<Rightarrow> u64 result" where
  "ptr_Uint64 p = (case p of None \<Rightarrow> Panic ''nil pointer dereference'' | Some i \<Rightarrow> Ok (big_Uint64 i))"

definition ptr_Int64 :: "wireint \<Rightarrow> i64 result" where
  "ptr_Int64 p = (case p of None \<Rightarrow> Panic ''nil pointer dereference'' | Some i \<Rightarrow> Ok (big_Int64 i))"

section \<open>Messages and keys\<close>

definition NewMessageKey :: "'p \<Rightarrow> string \<Rightarrow> string \<Rightarrow> string \<Rightarrow> 'p message_key" where
  "NewMessageKey sn src dst eventType =
     \<lparr>k_sn = sn, k_src = src, k_dst = dst, k_event = eventType\<rparr>"

definition MessageKey :: "'p message \<Rightarrow> 'p message_key" where
  "MessageKey m = NewMessageKey (m_sn m) (m_src m) (m_dst m) (m_event m)"

definition NewRouteMessage :: "'p message \<Rightarrow> 'p route_message" where
  "NewRouteMessage m = \<lparr>rm_msg = m, rm_retry = 0, rm_processing = False, rm_lasttry = 0\<rparr>"

definition GetMessage :: "'p route_message \<Rightarrow> 'p message" where
  "GetMessage r = rm_msg r"

definition ToggleProcessing :: "'p route_message \<Rightarrow> 'p route_message" where
  "ToggleProcessing r = r\<lparr>rm_processing := \<not> rm_processing r\<rparr>"

definition GetRetry :: "'p route_message \<Rightarrow> u8" where
  "GetRetry r = rm_retry r"

text \<open>
  \<^verbatim>\<open>time.Duration(math.Pow(2, float64(r.Retry)))\<close>: exact below \<open>2 ^ 63\<close>; above it the conversion
  from \<^verbatim>\<open>float64\<close> is out of range, which gives \<open>0x8000000000000000\<close> on amd64.
\<close>

definition pow2_duration :: "u8 \<Rightarrow> i64" where
  "pow2_duration r = (if unat r < 63 then 2 ^ unat r else 2 ^ 63)"

definition AddNextTry :: "gotime \<Rightarrow> 'p route_message \<Rightarrow> 'p route_message" where
  "AddNextTry now r = r\<lparr>rm_lasttry := now + sint (RetryInterval * pow2_duration (rm_retry r))\<rparr>"

definition IncrementRetry :: "gotime \<Rightarrow> 'p route_message \<Rightarrow> 'p route_message" where
  "IncrementRetry now r = AddNextTry now (r\<lparr>rm_retry := rm_retry r + 1\<rparr>)"

definition IsProcessing :: "gotime \<Rightarrow> 'p route_message \<Rightarrow> bool" where
  "IsProcessing now r = (rm_processing r \<or> \<not> (rm_lasttry r = 0 \<or> rm_lasttry r < now))"

definition IsStale :: "'p route_message \<Rightarrow> bool" where
  "IsStale r = (rm_retry r \<ge> StaleMarkCount)"

definition IsElasped :: "gotime \<Rightarrow> i64 \<Rightarrow> 'p route_message \<Rightarrow> bool" where
  "IsElasped now duration r = (rm_lasttry r + sint duration < now)"

definition NewTransactionObject ::
    "'p message_key \<Rightarrow> u64 \<Rightarrow> string \<Rightarrow> u64 \<Rightarrow> 'p tx_object" where
  "NewTransactionObject key mheight txHash height =
     \<lparr>to_key = key, to_msgheight = mheight, to_txhash = txHash, to_txheight = height\<rparr>"

section \<open>Wire forms and allocation\<close>

definition wire_message :: "bigptr message \<Rightarrow> wireint message" where
  "wire_message m = \<lparr>m_dst = m_dst m, m_src = m_src m, m_sn = unptr (m_sn m), m_data = m_data m,
     m_height = m_height m, m_event = m_event m, m_reqid = unptr (m_reqid m)\<rparr>"

definition wire_key :: "bigptr message_key \<Rightarrow> wireint message_key" where
  "wire_key k = \<lparr>k_sn = unptr (k_sn k), k_src = k_src k, k_dst = k_dst k, k_event = k_event k\<rparr>"

definition wire_route :: "bigptr route_message \<Rightarrow> wireint route_message" where
  "wire_route r = \<lparr>rm_msg = wire_message (rm_msg r), rm_retry = rm_retry r,
     rm_processing = rm_processing r, rm_lasttry = rm_lasttry r\<rparr>"

definition wire_tx :: "bigptr tx_object \<Rightarrow> wireint tx_object" where
  "wire_tx t = \<lparr>to_key = wire_key (to_key t), to_msgheight = to_msgheight t,
     to_txhash = to_txhash t, to_txheight = to_txheight t\<rparr>"

text \<open>A number read from the wire lives at a new address \<open>a\<close>.\<close>

definition alloc_int :: "nat \<Rightarrow> wireint \<Rightarrow> bigptr" where
  "alloc_int a p = map_option (Pair a) p"

definition alloc_message :: "nat \<Rightarrow> wireint message \<Rightarrow> bigptr message" where
  "alloc_message a w = \<lparr>m_dst = m_dst w, m_src = m_src w, m_sn = alloc_int a (m_sn w),
     m_data = m_data w, m_height = m_height w, m_event = m_event w,
     m_reqid = alloc_int (a + 1) (m_reqid w)\<rparr>"

definition alloc_key :: "nat \<Rightarrow> wireint message_key \<Rightarrow> bigptr message_key" where
  "alloc_key a w = \<lparr>k_sn = alloc_int a (k_sn w), k_src = k_src w, k_dst = k_dst w,
     k_event = k_event w\<rparr>"

definition alloc_route :: "nat \<Rightarrow> wireint route_message \<Rightarrow> bigptr route_message" where
  "alloc_route a w = \<lparr>rm_msg = alloc_message a (rm_msg w), rm_retry = rm_retry w,
     rm_processing = rm_processing w, rm_lasttry = rm_lasttry w\<rparr>"

definition alloc_tx :: "nat \<Rightarrow> wireint tx_object \<Rightarrow> bigptr tx_object" where
  "alloc_tx a w = \<lparr>to_key = alloc_key a (to_key w), to_msgheight = to_msgheight w,
     to_txhash = to_txhash w, to_txheight = to_txheight w\<rparr>"

section \<open>The message cache\<close>

text \<open>
  \<^verbatim>\<open>Messages map[MessageKey]*RouteMessage\<close>: the values are references to route messages, which
  the cache and the routing goroutines share. The mutex of the cache makes each of the
  operations atomic.
\<close>

type_synonym cache = "(bigptr message_key \<times> nat) list"

definition NewMessageCache :: cache where
  "NewMessageCache = []"

definition MessageCache_Add :: "bigptr route_message \<Rightarrow> nat \<Rightarrow> cache \<Rightarrow> cache" where
  "MessageCache_Add r ref c = AList.update (MessageKey (rm_msg r)) ref c"

definition MessageCache_Len :: "cache \<Rightarrow> nat" where
  "MessageCache_Len c = length c"

definition MessageCache_Remove :: "bigptr message_key \<Rightarrow> cache \<Rightarrow> cache" where
  "MessageCache_Remove key c = AList.delete key c"

definition MessageCache_Get :: "bigptr message_key \<Rightarrow> cache \<Rightarrow> nat option" where
  "MessageCache_Get key c = map_of c key"

definition cache_invar :: "cache \<Rightarrow> bool" where
  "cache_invar c = distinct (map fst c)"

section \<open>Contracts, event maps and coins\<close>

text \<open>
  \<^verbatim>\<open>Validate\<close> walks over the supported contracts and skips those that are absent or empty; no
  branch returns an error.
\<close>

fun validate_contracts :: "contract_config \<Rightarrow> string list \<Rightarrow> unit result" where
  "validate_contracts c [] = Ok ()"
| "validate_contracts c (contract # rest) =
     (case map_of c contract of
        None \<Rightarrow> validate_contracts c rest
      | Some val \<Rightarrow> if val = '''' then validate_contracts c rest else validate_contracts c rest)"

definition ContractConfigMap_Validate :: "contract_config \<Rightarrow> unit result" where
  "ContractConfigMap_Validate c = validate_contracts c SupportedContracts"

text \<open>The first key in the order in which the runtime ranges over the map.\<close>

definition GetWasmMsgType :: "event_map \<Rightarrow> string" where
  "GetWasmMsgType m = (case em_sigtype m of [] \<Rightarrow> '''' | (wasmType, _) # _ \<Rightarrow> wasmType)"

record coin =
  co_denom :: string
  co_amount :: u64

definition NewCoin :: "string \<Rightarrow> u64 \<Rightarrow> coin" where
  "NewCoin denom amount = \<lparr>co_denom = ToLower denom, co_amount = amount\<rparr>"

definition Coin_String :: "coin \<Rightarrow> string" where
  "Coin_String c = int_str 10 (uint (co_amount c)) @ co_denom c"

section \<open>Lemmas: wire forms\<close>

lemma unptr_alloc_int [simp]: "unptr (alloc_int a p) = p"
  by (cases p) (auto simp: unptr_def alloc_int_def)

lemma wire_alloc_message [simp]: "wire_message (alloc_message a w) = w"
  by (simp add: wire_message_def alloc_message_def)

lemma wire_alloc_key [simp]: "wire_key (alloc_key a w) = w"
  by (simp add: wire_key_def alloc_key_def)

lemma wire_alloc_route [simp]: "wire_route (alloc_route a w) = w"
  by (simp add: wire_route_def alloc_route_def)

lemma wire_alloc_tx [simp]: "wire_tx (alloc_tx a w) = w"
  by (simp add: wire_tx_def alloc_tx_def)

lemma wire_MessageKey: "wire_key (MessageKey m) = MessageKey (wire_message m)"
  by (simp add: wire_key_def MessageKey_def NewMessageKey_def wire_message_def)

lemma wire_route_fields [simp]:
  "rm_retry (wire_route r) = rm_retry r"
  "rm_processing (wire_route r) = rm_processing r"
  "rm_lasttry (wire_route r) = rm_lasttry r"
  "rm_msg (wire_route r) = wire_message (rm_msg r)"
  by (simp_all add: wire_route_def)

lemma alloc_route_fields [simp]:
  "rm_retry (alloc_route a w) = rm_retry w"
  "rm_processing (alloc_route a w) = rm_processing w"
  "rm_lasttry (alloc_route a w) = rm_lasttry w"
  "rm_msg (alloc_route a w) = alloc_message a (rm_msg w)"
  by (simp_all add: alloc_route_def)

lemma MessageKey_fields [simp]:
  "k_sn (MessageKey m) = m_sn m" "k_src (MessageKey m) = m_src m"
  "k_dst (MessageKey m) = m_dst m" "k_event (MessageKey m) = m_event m"
  by (simp_all add: MessageKey_def NewMessageKey_def)

lemma message_fields [simp]:
  "m_dst (wire_message m) = m_dst m" "m_src (wire_message m) = m_src m"
  "m_height (wire_message m) = m_height m" "m_event (wire_message m) = m_event m"
  "m_data (wire_message m) = m_data m" "m_sn (wire_message m) = unptr (m_sn m)"
  "m_dst (alloc_message a w) = m_dst w" "m_src (alloc_message a w) = m_src w"
  "m_height (alloc_message a w) = m_height w" "m_event (alloc_message a w) = m_event w"
  "m_data (alloc_message a w) = m_data w" "m_sn (alloc_message a w) = alloc_int a (m_sn w)"
  by (simp_all add: wire_message_def alloc_message_def)

lemma big_String_alloc: "big_String (alloc_int a p) = big_String (alloc_int b p)"
  by (cases p) (auto simp: big_String_def alloc_int_def)

lemma big_String_unptr: "unptr p = unptr q \<Longrightarrow> big_String p = big_String q"
  by (cases p; cases q) (auto simp: big_String_def unptr_def)

text \<open>Decimal text identifies the number: the database keys rest on this.\<close>

lemma nil_not_numeral: "int_str 10 i \<noteq> ''<nil>''"
proof
  assume "int_str 10 i = ''<nil>''"
  then have "str_int 10 (int_str 10 i) = str_int 10 ''<nil>''" by simp
  moreover have "str_int 10 ''<nil>'' = None" by code_simp
  ultimately show False by simp
qed

lemma big_String_inj: "big_String p = big_String q \<Longrightarrow> unptr p = unptr q"
  using nil_not_numeral int_str_inj [of 10]
  by (auto simp: big_String_def unptr_def split: option.splits)

section \<open>Lemmas: routing state\<close>

lemma route_message_simps [simp]:
  "rm_msg (ToggleProcessing r) = rm_msg r" "rm_retry (ToggleProcessing r) = rm_retry r"
  "rm_processing (ToggleProcessing r) = (\<not> rm_processing r)"
  "rm_lasttry (ToggleProcessing r) = rm_lasttry r"
  "rm_msg (NewRouteMessage m) = m" "rm_retry (NewRouteMessage m) = 0"
  "rm_processing (NewRouteMessage m) = False" "rm_lasttry (NewRouteMessage m) = 0"
  "rm_msg (IncrementRetry now r) = rm_msg r"
  "rm_retry (IncrementRetry now r) = rm_retry r + 1"
  "rm_processing (IncrementRetry now r) = rm_processing r"
  by (simp_all add: ToggleProcessing_def NewRouteMessage_def IncrementRetry_def AddNextTry_def)

lemma ToggleProcessing_twice [simp]: "ToggleProcessing (ToggleProcessing r) = r"
  by (simp add: ToggleProcessing_def)

text \<open>The delay before the next attempt, exact as long as the product fits 63 bits.\<close>

lemma backoff_no_overflow:
  assumes "unat r \<le> 30"
  shows "sint (RetryInterval * pow2_duration r) = 6000000000 * 2 ^ unat r"
proof -
  have p: "(2::nat) ^ unat r \<le> 2 ^ 30" using assms by (rule power_increasing) simp
  have u: "unat ((2::64 word) ^ unat r) = 2 ^ unat r"
    using assms by (simp add: unat_two_power)
  have R: "unat RetryInterval = 6000000000"
    by (simp add: RetryInterval_def RouteDuration_def)
  have lt: "6000000000 * (2::nat) ^ unat r < 2 ^ 63" using p by simp
  have m: "unat (RetryInterval * pow2_duration r) = 6000000000 * 2 ^ unat r"
    using assms u R lt by (subst word_times_no_overflow) (auto simp: pow2_duration_def)
  from m lt show ?thesis by (subst sint_eq_unat) simp_all
qed

section \<open>The cache as an interface\<close>

text \<open>
  What the relayer relies on: adding under the message's own key, lookup, removal. The cache
  of \<^verbatim>\<open>types.go\<close> provides it.
\<close>

locale keyed_cache =
  fixes key_of :: "'m \<Rightarrow> 'k"
    and add :: "'m \<Rightarrow> 'r \<Rightarrow> 'c \<Rightarrow> 'c"
    and remove :: "'k \<Rightarrow> 'c \<Rightarrow> 'c"
    and get :: "'k \<Rightarrow> 'c \<Rightarrow> 'r option"
    and invar :: "'c \<Rightarrow> bool"
    and size_of :: "'c \<Rightarrow> nat"
  assumes get_add: "get k (add m r c) = (if k = key_of m then Some r else get k c)"
    and get_remove: "get k' (remove k c) = (if k' = k then None else get k' c)"
    and invar_add: "invar c \<Longrightarrow> invar (add m r c)"
    and invar_remove: "invar c \<Longrightarrow> invar (remove k c)"
    and size_add: "invar c \<Longrightarrow>
      size_of (add m r c) = size_of c + (if get (key_of m) c = None then 1 else 0)"
    and size_remove: "invar c \<Longrightarrow> size_of (remove k c) = size_of c - (if get k c = None then 0 else 1)"
begin

lemma get_after_remove_add: "get (key_of m) (remove (key_of m) (add m r c)) = None"
  by (simp add: get_remove)

lemma remove_all: "get k (fold remove ks c) = (if k \<in> set ks then None else get k c)"
  by (induction ks arbitrary: c) (auto simp: get_remove)

lemma invar_remove_all: "invar c \<Longrightarrow> invar (fold remove ks c)"
  by (induction ks arbitrary: c) (auto simp: invar_remove)

lemma size_readd: "invar c \<Longrightarrow> get (key_of m) c \<noteq> None \<Longrightarrow> size_of (add m r c) = size_of c"
  by (simp add: size_add)

end

lemma length_update: "length (AList.update k v al) = length al + (if map_of al k = None then 1 else 0)"
  by (induction al) auto

lemma length_delete:
  "distinct (map fst al) \<Longrightarrow>
   length (AList.delete k al) = length al - (if map_of al k = None then 0 else 1)"
proof (induction al)
  case Nil
  then show ?case by simp
next
  case (Cons p al)
  show ?case
  proof (cases "fst p = k")
    case True
    with Cons.prems have "map_of al k = None" by (auto simp: map_of_eq_None_iff)
    with Cons True show ?thesis by (cases p) auto
  next
    case False
    then have "map_of al k \<noteq> None \<Longrightarrow> length al > 0" by (cases al) auto
    with Cons False show ?thesis by (cases p) auto
  qed
qed

interpretation mc: keyed_cache "\<lambda>r. MessageKey (rm_msg r)" MessageCache_Add MessageCache_Remove
  MessageCache_Get cache_invar MessageCache_Len
  by unfold_locales
     (auto simp: MessageCache_Add_def MessageCache_Get_def MessageCache_Remove_def cache_invar_def
        MessageCache_Len_def length_update length_delete)

end
