(* ===== verification/Evm_Nonce.thy ===== *)
theory Evm_Nonce
  imports Relay_Types
begin

text \<open>
  \<^verbatim>\<open>relayer/chains/evm/types/types.go\<close>: the nonce tracker of the EVM provider.

  \<^verbatim>\<open>big.Int.Add\<close> and \<^verbatim>\<open>Sub\<close> write into their receiver and return it, so the numbers of the tracker
  are shared: \<open>nt_mem\<close> is a store of big integers, and the tracker holds addresses into it. The
  mutex makes \<open>Get\<close> and \<open>Set\<close> atomic.
\<close>

section \<open>State and operations\<close>

record nonce_value =
  nv_LastUpdated :: gotime
  nv_Previous :: nat
  nv_Current :: nat

record nonce_tracker =
  nt_address :: "(string \<times> nonce_value) list"
  nt_mem :: "nat \<Rightarrow> int"
  nt_next :: nat

definition NonceUpdateInterval :: int where
  "NonceUpdateInterval = 3 * 60 * 1000000000"

definition NewNonceTracker :: nonce_tracker where
  "NewNonceTracker = \<lparr>nt_address = [], nt_mem = (\<lambda>_. 0), nt_next = 0\<rparr>"

text \<open>\<^verbatim>\<open>p.Add(p, i)\<close> in place, and a new number.\<close>

definition big_add_at :: "nat \<Rightarrow> int \<Rightarrow> nonce_tracker \<Rightarrow> nonce_tracker" where
  "big_add_at p i n = n\<lparr>nt_mem := (nt_mem n)(p := nt_mem n p + i)\<rparr>"

definition big_new :: "int \<Rightarrow> nonce_tracker \<Rightarrow> nat \<times> nonce_tracker" where
  "big_new i n = (nt_next n, n\<lparr>nt_mem := (nt_mem n)(nt_next n := i), nt_next := nt_next n + 1\<rparr>)"

definition put_value :: "string \<Rightarrow> nonce_value \<Rightarrow> nonce_tracker \<Rightarrow> nonce_tracker" where
  "put_value addr v n = n\<lparr>nt_address := AList.update addr v (nt_address n)\<rparr>"

text \<open>\<open>getter\<close> is the answer of \<^verbatim>\<open>PendingNonceAt\<close>: a nonce, at a new address, or an error.\<close>

definition Nonce_Get ::
    "gotime \<Rightarrow> error + int \<Rightarrow> string \<Rightarrow> nonce_tracker \<Rightarrow> (nat \<times> nonce_tracker) result" where
  "Nonce_Get now getter addr n =
     (case map_of (nt_address n) addr of
        None \<Rightarrow> Panic ''nil pointer dereference''
      | Some nonce \<Rightarrow>
         if now - nv_LastUpdated nonce > NonceUpdateInterval then
           (case getter of
              Inl err \<Rightarrow> Ok (nv_Current nonce, n)
            | Inr i \<Rightarrow>
               let (p, n1) = big_new i n;
                   n2 = big_add_at p (-1) n1
               in Ok (p, put_value addr \<lparr>nv_LastUpdated = now, nv_Previous = p, nv_Current = p\<rparr> n2))
         else if nt_mem n (nv_Current nonce) \<le> nt_mem n (nv_Previous nonce) then
           let n1 = big_add_at (nv_Current nonce) 1 n
           in Ok (nv_Current nonce, put_value addr (nonce\<lparr>nv_Previous := nv_Current nonce\<rparr>) n1)
         else Ok (nv_Current nonce, n))"

definition Nonce_Set :: "gotime \<Rightarrow> string \<Rightarrow> nat \<Rightarrow> nonce_tracker \<Rightarrow> nonce_tracker" where
  "Nonce_Set now addr nonce n =
     put_value addr \<lparr>nv_LastUpdated = now, nv_Previous = nonce, nv_Current = nonce\<rparr>
       (big_add_at nonce (-1) n)"

section \<open>The abstract counter\<close>

text \<open>
  Because both fields hold the same pointer, the comparison of \<open>Get\<close> always succeeds: the tracker
  is a counter. \<open>tracked\<close> is the last nonce handed out for an address.
\<close>

definition tracked :: "nonce_tracker \<Rightarrow> string \<Rightarrow> int option" where
  "tracked n addr = map_option (\<lambda>v. nt_mem n (nv_Current v)) (map_of (nt_address n) addr)"

definition tracker_ok :: "nonce_tracker \<Rightarrow> bool" where
  "tracker_ok n = (\<forall>addr v. map_of (nt_address n) addr = Some v \<longrightarrow>
     nv_Previous v = nv_Current v \<and> nv_Current v < nt_next n)"

lemma tracker_ok_new: "tracker_ok NewNonceTracker"
  by (simp add: tracker_ok_def NewNonceTracker_def)

lemma nonce_simps [simp]:
  "nt_address (big_add_at p i n) = nt_address n" "nt_next (big_add_at p i n) = nt_next n"
  "nt_mem (big_add_at p i n) = (nt_mem n)(p := nt_mem n p + i)"
  "nt_mem (put_value addr v n) = nt_mem n" "nt_next (put_value addr v n) = nt_next n"
  "map_of (nt_address (put_value addr v n)) = (map_of (nt_address n))(addr \<mapsto> v)"
  by (simp_all add: big_add_at_def put_value_def)

lemma Nonce_Set_ok:
  assumes "tracker_ok n" "p < nt_next n"
  shows "tracker_ok (Nonce_Set now addr p n)" "tracked (Nonce_Set now addr p n) addr = Some (nt_mem n p - 1)"
  using assms by (auto simp: Nonce_Set_def tracker_ok_def tracked_def)

lemma Nonce_Get_ok:
  assumes "tracker_ok n" "Nonce_Get now getter addr n = Ok (p, n')"
  shows "tracker_ok n'" "tracked n' addr = Some (nt_mem n' p)"
  using assms
  by (auto simp: Nonce_Get_def tracker_ok_def tracked_def big_new_def Let_def less_SucI
      split: option.splits if_splits sum.splits prod.splits)

text \<open>The nonces a run of \<open>Get\<close>s at the given times hands out.\<close>

fun get_many ::
    "string \<Rightarrow> (gotime \<times> (error + int)) list \<Rightarrow> nonce_tracker \<Rightarrow> (int list \<times> nonce_tracker) result" where
  "get_many addr [] n = Ok ([], n)"
| "get_many addr ((now, g) # ts) n =
     rbind (Nonce_Get now g addr n) (\<lambda>(p, n1).
     rbind (get_many addr ts n1) (\<lambda>(vs, n2). Ok (nt_mem n1 p # vs, n2)))"

lemma Nonce_Get_recent:
  assumes "tracker_ok n" "map_of (nt_address n) addr = Some v" "now - nv_LastUpdated v \<le> NonceUpdateInterval"
  shows "\<exists>n1. Nonce_Get now g addr n = Ok (nv_Current v, n1) \<and>
    nt_mem n1 (nv_Current v) = nt_mem n (nv_Current v) + 1 \<and>
    (\<exists>v'. map_of (nt_address n1) addr = Some v' \<and> nv_Current v' = nv_Current v \<and>
      nv_LastUpdated v' = nv_LastUpdated v) \<and> tracker_ok n1"
  using assms by (auto simp: Nonce_Get_def tracker_ok_def Let_def)

lemma get_many_counts:
  "tracker_ok n \<Longrightarrow> map_of (nt_address n) addr = Some v \<Longrightarrow>
   \<forall>t \<in> set (map fst ts). t - nv_LastUpdated v \<le> NonceUpdateInterval \<Longrightarrow>
   \<exists>n'. get_many addr ts n =
     Ok (map (\<lambda>i. nt_mem n (nv_Current v) + 1 + int i) [0..<length ts], n')"
proof (induction ts arbitrary: n v)
  case (Cons tg ts)
  obtain t g where tg: "tg = (t, g)" by (cases tg)
  have t: "t - nv_LastUpdated v \<le> NonceUpdateInterval" using Cons.prems(3) by (simp add: tg)
  from Nonce_Get_recent [OF Cons.prems(1,2) t, of g] obtain n1 v' where n1:
    "Nonce_Get t g addr n = Ok (nv_Current v, n1)" "nt_mem n1 (nv_Current v) = nt_mem n (nv_Current v) + 1"
    "map_of (nt_address n1) addr = Some v'" "nv_Current v' = nv_Current v"
    "nv_LastUpdated v' = nv_LastUpdated v" "tracker_ok n1" by blast
  have "\<forall>t \<in> set (map fst ts). t - nv_LastUpdated v' \<le> NonceUpdateInterval"
    using Cons.prems(3) n1(5) by simp
  from Cons.IH [OF n1(6,3) this] obtain n' where n':
    "get_many addr ts n1 = Ok (map (\<lambda>i. nt_mem n1 (nv_Current v') + 1 + int i) [0..<length ts], n')" by blast
  have shift: "map (\<lambda>i. nt_mem n (nv_Current v) + 1 + int i) [0..<length (tg # ts)] =
      (nt_mem n (nv_Current v) + 1) # map (\<lambda>i. nt_mem n1 (nv_Current v') + 1 + int i) [0..<length ts]"
    using n1(2,4) by (simp add: upt_conv_Cons map_Suc_upt [symmetric] del: upt_Suc)
  show ?case using n1(1,2) n' shift by (simp add: tg del: upt_Suc)
qed simp

text \<open>
  After \<^verbatim>\<open>Set\<close> with nonce \<open>m\<close>, the \<^verbatim>\<open>Get\<close>s of the next three minutes hand out \<open>m\<close>, \<open>m + 1\<close>, \<open>m + 2\<close>
  and so on: no nonce twice and none skipped, whatever \<^verbatim>\<open>PendingNonceAt\<close> would answer.
\<close>
theorem nonces_count_up:
  assumes "tracker_ok n" "p < nt_next n" "nt_mem n p = m"
    and "\<forall>t \<in> set (map fst ts). t - now \<le> NonceUpdateInterval"
  shows "\<exists>n'. get_many addr ts (Nonce_Set now addr p n) = Ok (map (\<lambda>i. m + int i) [0..<length ts], n')"
proof -
  let ?v = "\<lparr>nv_LastUpdated = now, nv_Previous = p, nv_Current = p\<rparr>"
  have v: "map_of (nt_address (Nonce_Set now addr p n)) addr = Some ?v" by (simp add: Nonce_Set_def)
  have mem: "nt_mem (Nonce_Set now addr p n) p + 1 = m" using assms(3) by (simp add: Nonce_Set_def)
  from get_many_counts [OF Nonce_Set_ok(1) [OF assms(1,2)] v, of ts] assms(4) mem
  show ?thesis by simp
qed

theorem nonces_count_up_witness:
  "\<exists>n'. get_many ''0xaa'' [(5, Inr 90), (6, Inl ''timeout''), (7, Inr 1)]
      (Nonce_Set 4 ''0xaa'' 0 (snd (big_new 17 NewNonceTracker))) = Ok ([17, 18, 19], n')"
proof -
  let ?n = "snd (big_new 17 NewNonceTracker)"
  have "tracker_ok ?n" "0 < nt_next ?n" "nt_mem ?n 0 = 17"
    by (simp_all add: big_new_def NewNonceTracker_def tracker_ok_def)
  moreover let ?ts = "[(5, Inr 90), (6, Inl ''timeout''), (7, Inr 1)] :: (gotime \<times> (error + int)) list"
  have "\<forall>t \<in> set (map fst ?ts). t - 4 \<le> NonceUpdateInterval" by (simp add: NonceUpdateInterval_def)
  ultimately have "\<exists>n'. get_many ''0xaa'' ?ts (Nonce_Set 4 ''0xaa'' 0 ?n) =
      Ok (map (\<lambda>i. 17 + int i) [0..<length ?ts], n')"
    by (rule nonces_count_up)
  then show ?thesis by (simp add: upt_conv_Cons)
qed

text \<open>
  C38. Three minutes after the last update \<^verbatim>\<open>Get\<close> asks the chain, but hands out one less than the
  pending nonce \<open>m\<close> it was told, a nonce that is already used; and when the chain does not answer it
  hands out the previous nonce a second time.
\<close>
theorem expired_nonce_is_reused:
  assumes "tracker_ok n" "map_of (nt_address n) addr = Some v" "now - nv_LastUpdated v > NonceUpdateInterval"
  shows "(\<exists>p n'. Nonce_Get now (Inr m) addr n = Ok (p, n') \<and> nt_mem n' p = m - 1) \<and>
    (\<exists>p. Nonce_Get now (Inl e) addr n = Ok (p, n) \<and> Some (nt_mem n p) = tracked n addr)"
  using assms by (auto simp: Nonce_Get_def big_new_def tracked_def Let_def)

theorem expired_nonce_is_reused_witness:
  "\<exists>p n'. Nonce_Get 1000000000000 (Inr 25) ''0xaa''
     (Nonce_Set 4 ''0xaa'' 0 (snd (big_new 17 NewNonceTracker))) = Ok (p, n') \<and> nt_mem n' p = 24"
proof -
  let ?n = "snd (big_new 17 NewNonceTracker)"
  have ok: "tracker_ok ?n" "0 < nt_next ?n"
    by (simp_all add: big_new_def NewNonceTracker_def tracker_ok_def)
  let ?v = "\<lparr>nv_LastUpdated = 4, nv_Previous = 0, nv_Current = 0\<rparr>"
  have v: "map_of (nt_address (Nonce_Set 4 ''0xaa'' 0 ?n)) ''0xaa'' = Some ?v" by (simp add: Nonce_Set_def)
  have t: "1000000000000 - nv_LastUpdated ?v > NonceUpdateInterval" by (simp add: NonceUpdateInterval_def)
  from expired_nonce_is_reused [OF Nonce_Set_ok(1) [OF ok] v t, of 25] show ?thesis by simp
qed

end
