(* ===== verification/Store.thy ===== *)
theory Store
  imports Relay_Types
begin

text \<open>
  Packages \<^verbatim>\<open>relayer/store\<close> and \<^verbatim>\<open>relayer/lvldb\<close>: database keys, the store interface and its
  LevelDB implementation, pagination, and the block, message and finality stores on top.

  LevelDB and the JSON codec are third-party code and enter as parameters: \<open>leveldb\<close> is the
  record of the operations of \<^verbatim>\<open>goleveldb\<close> the code calls, over an abstract database state
  \<^typ>\<open>'d\<close> and abstract values \<^typ>\<open>'v\<close> (the bytes a JSON document becomes); \<open>codec\<close> holds
  \<^verbatim>\<open>Marshal\<close> and \<^verbatim>\<open>Unmarshal\<close> at the three types the stores write. What the code relies on is
  stated by the locales \<open>leveldb_laws\<close> and \<open>codec_laws\<close>.
\<close>

section \<open>Keys\<close>

definition GetKey :: "string list \<Rightarrow> string" where
  "GetKey keys = Join keys ''-''"

section \<open>LevelDB and the JSON codec\<close>

record ('d, 'v) leveldb =
  ldb_Get :: "'d \<Rightarrow> string \<Rightarrow> error + 'v"
  ldb_Put :: "'d \<Rightarrow> string \<Rightarrow> 'v \<Rightarrow> error option \<times> 'd"
  ldb_Delete :: "'d \<Rightarrow> string \<Rightarrow> error option \<times> 'd"
  ldb_NewIterator :: "'d \<Rightarrow> string option \<Rightarrow> (string \<times> 'v) list \<times> error option"
  ldb_Write :: "'d \<Rightarrow> string list \<Rightarrow> error option \<times> 'd"

record 'v codec =
  enc_block :: "u64 \<Rightarrow> error + 'v"
  dec_block :: "'v \<Rightarrow> error + u64"
  enc_route :: "wireint route_message \<Rightarrow> error + 'v"
  dec_route :: "'v \<Rightarrow> error + wireint route_message"
  enc_tx :: "wireint tx_object \<Rightarrow> error + 'v"
  dec_tx :: "'v \<Rightarrow> error + wireint tx_object"

section \<open>The store interface and its LevelDB implementation\<close>

record ('d, 'v) store =
  st_GetByKey :: "'d \<Rightarrow> string \<Rightarrow> error + 'v"
  st_SetByKey :: "'d \<Rightarrow> string \<Rightarrow> 'v \<Rightarrow> error option \<times> 'd"
  st_DeleteByKey :: "'d \<Rightarrow> string \<Rightarrow> error option \<times> 'd"
  st_NewIterator :: "'d \<Rightarrow> string \<Rightarrow> (string \<times> 'v) list \<times> error option"
  st_ClearStore :: "'d \<Rightarrow> error option \<times> 'd"

definition LVLDB_GetByKey :: "('d, 'v) leveldb \<Rightarrow> 'd \<Rightarrow> string \<Rightarrow> error + 'v" where
  "LVLDB_GetByKey L db key = ldb_Get L db key"

definition LVLDB_SetByKey :: "('d, 'v) leveldb \<Rightarrow> 'd \<Rightarrow> string \<Rightarrow> 'v \<Rightarrow> error option \<times> 'd" where
  "LVLDB_SetByKey L db key v = ldb_Put L db key v"

definition LVLDB_DeleteByKey :: "('d, 'v) leveldb \<Rightarrow> 'd \<Rightarrow> string \<Rightarrow> error option \<times> 'd" where
  "LVLDB_DeleteByKey L db key = ldb_Delete L db key"

definition LVLDB_NewIterator ::
    "('d, 'v) leveldb \<Rightarrow> 'd \<Rightarrow> string \<Rightarrow> (string \<times> 'v) list \<times> error option" where
  "LVLDB_NewIterator L db prefix = ldb_NewIterator L db (Some prefix)"

definition LVLDB_ClearStore :: "('d, 'v) leveldb \<Rightarrow> 'd \<Rightarrow> error option \<times> 'd" where
  "LVLDB_ClearStore L db =
     (let (kvs, err) = ldb_NewIterator L db None; batch = map fst kvs
      in case err of Some e \<Rightarrow> (Some e, db) | None \<Rightarrow> ldb_Write L db batch)"

definition LVLDB :: "('d, 'v) leveldb \<Rightarrow> ('d, 'v) store" where
  "LVLDB L = \<lparr>st_GetByKey = LVLDB_GetByKey L, st_SetByKey = LVLDB_SetByKey L,
     st_DeleteByKey = LVLDB_DeleteByKey L, st_NewIterator = LVLDB_NewIterator L,
     st_ClearStore = LVLDB_ClearStore L\<rparr>"

section \<open>Pagination\<close>

record pagination =
  p_Limit :: u64
  p_Offset :: u64
  p_All :: bool

definition NewPagination :: pagination where
  "NewPagination = \<lparr>p_Limit = 0, p_Offset = 0, p_All = False\<rparr>"

definition Pagination_GetAll :: "pagination \<Rightarrow> pagination" where
  "Pagination_GetAll p = p\<lparr>p_All := True\<rparr>"

definition WithLimit :: "u64 \<Rightarrow> pagination \<Rightarrow> pagination" where
  "WithLimit l p = p\<lparr>p_Limit := l\<rparr>"

definition CalculateOffset :: "u64 \<Rightarrow> pagination \<Rightarrow> u64" where
  "CalculateOffset page p = (if page \<le> 1 then 0 else page * p_Limit p)"

definition WithPage :: "u64 \<Rightarrow> u64 \<Rightarrow> pagination \<Rightarrow> pagination" where
  "WithPage page limit p =
     (let p1 = p\<lparr>p_Limit := limit\<rparr> in p1\<lparr>p_Offset := CalculateOffset page p1\<rparr>)"

definition WithOffset :: "u64 \<Rightarrow> pagination \<Rightarrow> pagination" where
  "WithOffset o' p = p\<lparr>p_Offset := o'\<rparr>"

definition CalculateTotalPages :: "u64 \<Rightarrow> pagination \<Rightarrow> u64 result" where
  "CalculateTotalPages tot p =
     (if p_Limit p = 0 then Panic ''integer divide by zero''
      else Ok (tot div p_Limit p + (if tot mod p_Limit p \<noteq> 0 then 1 else 0)))"

section \<open>Counting\<close>

definition getCountByKey :: "('d, 'v) store \<Rightarrow> string \<Rightarrow> 'd \<Rightarrow> error + u64" where
  "getCountByKey S key db =
     (let (kvs, err) = st_NewIterator S db key
      in case err of Some e \<Rightarrow> Inl e | None \<Rightarrow> Inr (of_nat (length kvs)))"

section \<open>Block store\<close>

definition BlockStore_GetKey :: "string \<Rightarrow> string \<Rightarrow> string" where
  "BlockStore_GetKey prefix nId = GetKey [prefix, nId]"

definition StoreBlock ::
    "('d, 'v) store \<Rightarrow> 'v codec \<Rightarrow> string \<Rightarrow> u64 \<Rightarrow> string \<Rightarrow> 'd \<Rightarrow> error option \<times> 'd" where
  "StoreBlock S C prefix height nId db =
     (case enc_block C height of
        Inl e \<Rightarrow> (Some e, db)
      | Inr heightByte \<Rightarrow> st_SetByKey S db (BlockStore_GetKey prefix nId) heightByte)"

text \<open>
  \<^verbatim>\<open>return height, jsoniter.Unmarshal(v, &height)\<close>: the call is evaluated before \<^verbatim>\<open>height\<close> is
  read, as the Go compiler does (the specification leaves the order open).
\<close>

definition GetLastStoredBlock ::
    "('d, 'v) store \<Rightarrow> 'v codec \<Rightarrow> string \<Rightarrow> string \<Rightarrow> 'd \<Rightarrow> error + u64" where
  "GetLastStoredBlock S C prefix nId db =
     (case st_GetByKey S db (BlockStore_GetKey prefix nId) of
        Inl e \<Rightarrow> Inl e
      | Inr v \<Rightarrow> dec_block C v)"

section \<open>Message store\<close>

definition MessageStore_Key :: "string \<Rightarrow> string \<Rightarrow> bigptr \<Rightarrow> string" where
  "MessageStore_Key prefix src sn = GetKey [prefix, src, big_String sn]"

definition MessageStore_TotalCount :: "('d, 'v) store \<Rightarrow> string \<Rightarrow> 'd \<Rightarrow> error + u64" where
  "MessageStore_TotalCount S prefix db = getCountByKey S (GetKey [prefix]) db"

definition MessageStore_TotalCountByChain ::
    "('d, 'v) store \<Rightarrow> string \<Rightarrow> string \<Rightarrow> 'd \<Rightarrow> error + u64" where
  "MessageStore_TotalCountByChain S prefix nId db = getCountByKey S (GetKey [prefix, nId]) db"

definition StoreMessage ::
    "('d, 'v) store \<Rightarrow> 'v codec \<Rightarrow> string \<Rightarrow> bigptr route_message option \<Rightarrow> 'd
     \<Rightarrow> error option \<times> 'd" where
  "StoreMessage S C prefix message db =
     (case message of
        None \<Rightarrow> (Some ''error while storingMessage: message cannot be nil'', db)
      | Some m \<Rightarrow>
          (case enc_route C (wire_route m) of
             Inl e \<Rightarrow> (Some e, db)
           | Inr msgByte \<Rightarrow>
               st_SetByKey S db (MessageStore_Key prefix (m_src (rm_msg m)) (m_sn (rm_msg m))) msgByte))"

definition GetMessage_db ::
    "('d, 'v) store \<Rightarrow> 'v codec \<Rightarrow> string \<Rightarrow> bigptr message_key \<Rightarrow> 'd
     \<Rightarrow> error + wireint route_message" where
  "GetMessage_db S C prefix key db =
     (case st_GetByKey S db (MessageStore_Key prefix (k_src key) (k_sn key)) of
        Inl e \<Rightarrow> Inl e
      | Inr v \<Rightarrow> dec_route C v)"

text \<open>
  The loop of \<^verbatim>\<open>GetMessages\<close>: it stops after \<open>limit\<close> messages, at a value that does not decode, or
  at the end of the iterator, whose error is then returned.
\<close>

fun collect_messages ::
    "'v codec \<Rightarrow> u64 \<Rightarrow> wireint route_message list \<Rightarrow> (string \<times> 'v) list \<Rightarrow> error option
     \<Rightarrow> error + wireint route_message list" where
  "collect_messages C limit acc [] err =
     (case err of Some e \<Rightarrow> Inl e | None \<Rightarrow> Inr acc)"
| "collect_messages C limit acc ((k, v) # kvs) err =
     (case dec_route C v of
        Inl e \<Rightarrow> Inl e
      | Inr m \<Rightarrow>
          (if of_nat (length (acc @ [m])) = limit then Inr (acc @ [m])
           else collect_messages C limit (acc @ [m]) kvs err))"

definition GetMessages ::
    "('d, 'v) store \<Rightarrow> 'v codec \<Rightarrow> string \<Rightarrow> string \<Rightarrow> pagination \<Rightarrow> 'd
     \<Rightarrow> error + wireint route_message list" where
  "GetMessages S C prefix nId p db =
     (let (kvs, err) = st_NewIterator S db (GetKey [prefix, nId])
      in collect_messages C (p_Limit p) [] kvs err)"

definition DeleteMessage ::
    "('d, 'v) store \<Rightarrow> string \<Rightarrow> bigptr message_key \<Rightarrow> 'd \<Rightarrow> error option \<times> 'd" where
  "DeleteMessage S prefix key db =
     st_DeleteByKey S db (MessageStore_Key prefix (k_src key) (k_sn key))"

section \<open>Finality store\<close>

definition FinalityStore_Key :: "string \<Rightarrow> string \<Rightarrow> bigptr \<Rightarrow> string" where
  "FinalityStore_Key prefix dst sn = GetKey [prefix, dst, big_String sn]"

definition FinalityStore_TotalCount :: "('d, 'v) store \<Rightarrow> string \<Rightarrow> 'd \<Rightarrow> error + u64" where
  "FinalityStore_TotalCount S prefix db = getCountByKey S (GetKey [prefix]) db"

definition FinalityStore_TotalCountByChain ::
    "('d, 'v) store \<Rightarrow> string \<Rightarrow> string \<Rightarrow> 'd \<Rightarrow> error + u64" where
  "FinalityStore_TotalCountByChain S prefix nId db = getCountByKey S (GetKey [prefix, nId]) db"

definition StoreTxObject ::
    "('d, 'v) store \<Rightarrow> 'v codec \<Rightarrow> string \<Rightarrow> bigptr tx_object option \<Rightarrow> 'd
     \<Rightarrow> error option \<times> 'd" where
  "StoreTxObject S C prefix message db =
     (case message of
        None \<Rightarrow> (Some ''error while storingMessage: message cannot be nil'', db)
      | Some t \<Rightarrow>
          (case enc_tx C (wire_tx t) of
             Inl e \<Rightarrow> (Some e, db)
           | Inr msgByte \<Rightarrow>
               st_SetByKey S db (FinalityStore_Key prefix (k_dst (to_key t)) (k_sn (to_key t))) msgByte))"

definition GetTxObject ::
    "('d, 'v) store \<Rightarrow> 'v codec \<Rightarrow> string \<Rightarrow> bigptr message_key \<Rightarrow> 'd \<Rightarrow> error + wireint tx_object" where
  "GetTxObject S C prefix key db =
     (case st_GetByKey S db (FinalityStore_Key prefix (k_dst key) (k_sn key)) of
        Inl e \<Rightarrow> Inl e
      | Inr v \<Rightarrow> dec_tx C v)"

fun decode_txs ::
    "'v codec \<Rightarrow> (string \<times> 'v) list \<Rightarrow> error + wireint tx_object list" where
  "decode_txs C [] = Inr []"
| "decode_txs C ((k, v) # kvs) =
     (case dec_tx C v of
        Inl e \<Rightarrow> Inl e
      | Inr t \<Rightarrow> (case decode_txs C kvs of Inl e \<Rightarrow> Inl e | Inr ts \<Rightarrow> Inr (t # ts)))"

text \<open>
  With \<^verbatim>\<open>All\<close> the first loop drains the iterator and the second finds nothing; without it the
  second loop takes at most \<^verbatim>\<open>Limit\<close> values and asks for the next one only below the limit, so the
  iterator's error is seen only when the limit exceeds what it held.
\<close>

definition GetTxObjects ::
    "('d, 'v) store \<Rightarrow> 'v codec \<Rightarrow> string \<Rightarrow> string \<Rightarrow> pagination \<Rightarrow> 'd
     \<Rightarrow> error + wireint tx_object list" where
  "GetTxObjects S C prefix nId p db =
     (let (kvs, err) = st_NewIterator S db (GetKey [prefix, nId]);
          taken = (if p_All p then kvs else take (unat (p_Limit p)) kvs);
          drained = (p_All p \<or> length kvs < unat (p_Limit p))
      in case decode_txs C taken of
           Inl e \<Rightarrow> Inl e
         | Inr ts \<Rightarrow> (case err of Some e \<Rightarrow> if drained then Inl e else Inr ts | None \<Rightarrow> Inr ts))"

definition DeleteTxObject ::
    "('d, 'v) store \<Rightarrow> string \<Rightarrow> bigptr message_key \<Rightarrow> 'd \<Rightarrow> error option \<times> 'd" where
  "DeleteTxObject S prefix key db =
     st_DeleteByKey S db (FinalityStore_Key prefix (k_dst key) (k_sn key))"


section \<open>The contracts of LevelDB, of a store and of the codec\<close>

text \<open>
  A healthy LevelDB: \<open>view\<close> is the finite map it holds. \<^verbatim>\<open>Get\<close> fails on an absent key, \<^verbatim>\<open>Put\<close> and
  \<^verbatim>\<open>Delete\<close> change one key (deleting an absent key is no error), an iterator visits the keys in its
  range once, and a batch of deletions removes its keys.
\<close>

definition in_range :: "string option \<Rightarrow> string \<Rightarrow> bool" where
  "in_range r k = (case r of None \<Rightarrow> True | Some p \<Rightarrow> HasPrefix k p)"

locale leveldb_laws =
  fixes L :: "('d, 'v) leveldb" and view :: "'d \<Rightarrow> string \<Rightarrow> 'v option"
  assumes ldb_get_some: "view d k = Some v \<Longrightarrow> ldb_Get L d k = Inr v"
    and ldb_get_none: "view d k = None \<Longrightarrow> \<exists>e. ldb_Get L d k = Inl e"
    and ldb_put: "\<exists>d'. ldb_Put L d k v = (None, d') \<and> view d' = (view d)(k \<mapsto> v)"
    and ldb_delete: "\<exists>d'. ldb_Delete L d k = (None, d') \<and> view d' = (view d)(k := None)"
    and ldb_iter: "\<exists>kvs. ldb_NewIterator L d r = (kvs, None) \<and> distinct (map fst kvs) \<and>
                     set kvs = {(k, v). view d k = Some v \<and> in_range r k}"
    and ldb_write: "\<exists>d'. ldb_Write L d ks = (None, d') \<and>
                     view d' = (\<lambda>k. if k \<in> set ks then None else view d k)"

locale kv_store =
  fixes S :: "('d, 'v) store" and view :: "'d \<Rightarrow> string \<Rightarrow> 'v option"
  assumes get_some: "view d k = Some v \<Longrightarrow> st_GetByKey S d k = Inr v"
    and get_none: "view d k = None \<Longrightarrow> \<exists>e. st_GetByKey S d k = Inl e"
    and set_ok: "\<exists>d'. st_SetByKey S d k v = (None, d') \<and> view d' = (view d)(k \<mapsto> v)"
    and delete_ok: "\<exists>d'. st_DeleteByKey S d k = (None, d') \<and> view d' = (view d)(k := None)"
    and iter_ok: "\<exists>kvs. st_NewIterator S d p = (kvs, None) \<and> distinct (map fst kvs) \<and>
                    set kvs = {(k, v). view d k = Some v \<and> HasPrefix k p}"
    and clear_ok: "\<exists>d'. st_ClearStore S d = (None, d') \<and> view d' = (\<lambda>k. None)"
begin

lemma get_Inr_iff: "(st_GetByKey S d k = Inr v) = (view d k = Some v)"
  using get_some [of d k] get_none [of d k] by (cases "view d k") auto

lemma get_Inl_iff: "(\<exists>e. st_GetByKey S d k = Inl e) = (view d k = None)"
  using get_some [of d k] get_none [of d k] by (cases "view d k") auto

lemma set_result: "fst (st_SetByKey S d k v) = None"
  using set_ok [of d k v] by auto

lemma set_view: "view (snd (st_SetByKey S d k v)) = (view d)(k \<mapsto> v)"
  using set_ok [of d k v] by auto

lemma delete_result: "fst (st_DeleteByKey S d k) = None"
  using delete_ok [of d k] by auto

lemma delete_view: "view (snd (st_DeleteByKey S d k)) = (view d)(k := None)"
  using delete_ok [of d k] by auto

lemma clear_view: "view (snd (st_ClearStore S d)) = (\<lambda>k. None)"
  using clear_ok [of d] by auto

lemma clear_result: "fst (st_ClearStore S d) = None"
  using clear_ok [of d] by auto

lemma iter_error: "snd (st_NewIterator S d p) = None"
  using iter_ok [of d p] by auto

lemma iter_mem:
  "((k, v) \<in> set (fst (st_NewIterator S d p))) = (view d k = Some v \<and> HasPrefix k p)"
  using iter_ok [of d p] by auto

lemma iter_distinct: "distinct (map fst (fst (st_NewIterator S d p)))"
  using iter_ok [of d p] by auto

lemma iter_length:
  "length (fst (st_NewIterator S d p)) = card {k. view d k \<noteq> None \<and> HasPrefix k p}"
proof -
  let ?kvs = "fst (st_NewIterator S d p)"
  have "set (map fst ?kvs) = {k. view d k \<noteq> None \<and> HasPrefix k p}"
    using iter_mem [of _ _ d p] by (force simp: image_iff)
  moreover have "card (set (map fst ?kvs)) = length (map fst ?kvs)"
    by (rule distinct_card [OF iter_distinct])
  ultimately show ?thesis by simp
qed

lemma count_is_card:
  "getCountByKey S key d = Inr (of_nat (card {k. view d k \<noteq> None \<and> HasPrefix k key}))"
  using iter_error [of d key] iter_length [of d key]
  by (auto simp: getCountByKey_def split: prod.split option.split)

end

text \<open>\<^verbatim>\<open>LVLDB\<close> implements the store interface over any healthy LevelDB.\<close>

sublocale leveldb_laws \<subseteq> lv: kv_store "LVLDB L" view
proof
  fix d k v and p :: string
  show "view d k = Some v \<Longrightarrow> st_GetByKey (LVLDB L) d k = Inr v"
    by (simp add: LVLDB_def LVLDB_GetByKey_def ldb_get_some)
  show "view d k = None \<Longrightarrow> \<exists>e. st_GetByKey (LVLDB L) d k = Inl e"
    by (simp add: LVLDB_def LVLDB_GetByKey_def ldb_get_none)
  show "\<exists>d'. st_SetByKey (LVLDB L) d k v = (None, d') \<and> view d' = (view d)(k \<mapsto> v)"
    using ldb_put by (simp add: LVLDB_def LVLDB_SetByKey_def)
  show "\<exists>d'. st_DeleteByKey (LVLDB L) d k = (None, d') \<and> view d' = (view d)(k := None)"
    using ldb_delete by (simp add: LVLDB_def LVLDB_DeleteByKey_def)
  show "\<exists>kvs. st_NewIterator (LVLDB L) d p = (kvs, None) \<and> distinct (map fst kvs) \<and>
           set kvs = {(k, v). view d k = Some v \<and> HasPrefix k p}"
    using ldb_iter [of d "Some p"] by (simp add: LVLDB_def LVLDB_NewIterator_def in_range_def)
  show "\<exists>d'. st_ClearStore (LVLDB L) d = (None, d') \<and> view d' = (\<lambda>k. None)"
  proof -
    obtain kvs where it: "ldb_NewIterator L d None = (kvs, None)"
      and kvs: "set kvs = {(k, v). view d k = Some v \<and> in_range None k}"
      using ldb_iter [of d None] by blast
    obtain d' where w: "ldb_Write L d (map fst kvs) = (None, d')"
      and d': "view d' = (\<lambda>k. if k \<in> set (map fst kvs) then None else view d k)"
      using ldb_write [of d "map fst kvs"] by blast
    have "view d' k = None" for k
    proof (cases "view d k")
      case None
      then show ?thesis by (simp add: d')
    next
      case (Some v)
      then have "(k, v) \<in> set kvs" by (simp add: kvs in_range_def)
      then have "k \<in> set (map fst kvs)" by force
      then show ?thesis by (simp add: d')
    qed
    then show ?thesis using it w by (auto simp: LVLDB_def LVLDB_ClearStore_def)
  qed
qed

text \<open>
  JSON keeps text that is ASCII (other bytes are replaced when they are not UTF-8), times of the
  years 0 to 9999, and all numbers. The identifiers the relayer stores are ASCII.
\<close>

definition ascii :: "string \<Rightarrow> bool" where
  "ascii s = list_all (\<lambda>c. (of_char c :: nat) < 128) s"

definition json_key :: "wireint message_key \<Rightarrow> bool" where
  "json_key k = (ascii (k_src k) \<and> ascii (k_dst k) \<and> ascii (k_event k))"

definition json_route :: "wireint route_message \<Rightarrow> bool" where
  "json_route w = (json_key (MessageKey (rm_msg w)) \<and>
     0 \<le> rm_lasttry w \<and> rm_lasttry w < 315537897600000000000)"

definition json_tx :: "wireint tx_object \<Rightarrow> bool" where
  "json_tx t = (json_key (to_key t) \<and> ascii (to_txhash t))"

locale codec_laws =
  fixes C :: "'v codec"
  assumes block_rt: "\<exists>v. enc_block C h = Inr v \<and> dec_block C v = Inr h"
    and route_rt: "json_route w \<Longrightarrow> \<exists>v. enc_route C w = Inr v \<and> dec_route C v = Inr w"
    and tx_rt: "json_tx t \<Longrightarrow> \<exists>v. enc_tx C t = Inr v \<and> dec_tx C v = Inr t"

end
