(* ===== verification/Store_Spec.thy ===== *)
theory Store_Spec
  imports Store
begin

text \<open>
  What the stores promise. The message store refines a map from (source, sequence number) to
  stored messages and the finality store one from (destination, sequence number) to transaction
  objects, as long as sequence numbers are not negative; the three stores do not touch each
  other's keys. An in-memory database and codec show that the contracts of \<open>Store\<close> can hold.
\<close>

section \<open>Keys identify what they name\<close>

definition sn_string :: "wireint \<Rightarrow> string" where
  "sn_string n = (case n of None \<Rightarrow> ''<nil>'' | Some i \<Rightarrow> int_str 10 i)"

definition sn_ok :: "wireint \<Rightarrow> bool" where
  "sn_ok n = (case n of None \<Rightarrow> True | Some i \<Rightarrow> 0 \<le> i)"

lemma big_String_sn: "big_String p = sn_string (unptr p)"
  by (auto simp: big_String_def sn_string_def unptr_def split: option.splits)

lemma sn_string_inj: "sn_string a = sn_string b \<Longrightarrow> a = b"
  using nil_not_numeral int_str_inj [of 10] by (auto simp: sn_string_def split: option.splits)

lemma sn_string_no_dash: "sn_ok n \<Longrightarrow> CHR ''-'' \<notin> set (sn_string n)"
  using nat_str_no_sign [of 10] by (auto simp: sn_string_def sn_ok_def int_str_def split: option.splits)

lemma split_last_dash:
  assumes "s1 @ ''-'' @ n1 = s2 @ ''-'' @ n2" "CHR ''-'' \<notin> set n1" "CHR ''-'' \<notin> set n2"
  shows "s1 = s2 \<and> n1 = n2"
proof -
  have d: "n = rev (takeWhile (\<lambda>c. c \<noteq> CHR ''-'') (rev (s @ ''-'' @ n)))"
    if "CHR ''-'' \<notin> set n" for s n :: string
    proof -
    have "takeWhile (\<lambda>c. c \<noteq> CHR ''-'') (rev n @ CHR ''-'' # rev s) = rev n"
      using that by (subst takeWhile_append2) auto
    then show ?thesis by simp
  qed
  have "n1 = n2" using d [OF assms(2), of s1] d [OF assms(3), of s2] assms(1) by metis
  with assms(1) show ?thesis by simp
qed

lemma GetKey3: "GetKey [p, s, n] = p @ ''-'' @ s @ ''-'' @ n"
  by (simp add: GetKey_def)

lemma GetKey2: "GetKey [p, s] = p @ ''-'' @ s"
  by (simp add: GetKey_def)

lemma store_key_inj:
  assumes "GetKey [p, s1, sn_string n1] = GetKey [p, s2, sn_string n2]" "sn_ok n1" "sn_ok n2"
  shows "s1 = s2 \<and> n1 = n2"
  using assms split_last_dash [of s1 "sn_string n1" s2 "sn_string n2"]
  by (auto simp: GetKey3 dest: sn_string_inj sn_string_no_dash)

text \<open>The prefixes of the three stores start with different letters.\<close>

lemma store_keys_disjoint [simp]:
  "GetKey [''message'', a, b] \<noteq> GetKey [''block'', c]"
  "GetKey [''message'', a, b] \<noteq> GetKey [''finality'', c, d]"
  "GetKey [''finality'', a, b] \<noteq> GetKey [''block'', c]"
  "GetKey [''block'', c] \<noteq> GetKey [''message'', a, b]"
  "GetKey [''finality'', c, d] \<noteq> GetKey [''message'', a, b]"
  "GetKey [''block'', c] \<noteq> GetKey [''finality'', a, b]"
  by (simp_all add: GetKey3 GetKey2)

section \<open>The abstract contents of the stores\<close>

definition stored_msg ::
    "'v codec \<Rightarrow> (string \<Rightarrow> 'v option) \<Rightarrow> string \<Rightarrow> string \<Rightarrow> wireint \<Rightarrow> wireint route_message option" where
  "stored_msg C V prefix src sn =
     (case V (GetKey [prefix, src, sn_string sn]) of
        None \<Rightarrow> None
      | Some v \<Rightarrow> (case dec_route C v of Inl e \<Rightarrow> None | Inr w \<Rightarrow> Some w))"

definition stored_tx ::
    "'v codec \<Rightarrow> (string \<Rightarrow> 'v option) \<Rightarrow> string \<Rightarrow> string \<Rightarrow> wireint \<Rightarrow> wireint tx_object option" where
  "stored_tx C V prefix dst sn =
     (case V (GetKey [prefix, dst, sn_string sn]) of
        None \<Rightarrow> None
      | Some v \<Rightarrow> (case dec_tx C v of Inl e \<Rightarrow> None | Inr t \<Rightarrow> Some t))"

definition stored_block ::
    "'v codec \<Rightarrow> (string \<Rightarrow> 'v option) \<Rightarrow> string \<Rightarrow> string \<Rightarrow> u64 option" where
  "stored_block C V prefix nid =
     (case V (GetKey [prefix, nid]) of
        None \<Rightarrow> None
      | Some v \<Rightarrow> (case dec_block C v of Inl e \<Rightarrow> None | Inr h \<Rightarrow> Some h))"

lemma stored_msg_upd:
  assumes "sn_ok n" "sn_ok m"
  shows "stored_msg C (V(GetKey [p, s, sn_string n] := x)) p s' m =
    (if s' = s \<and> m = n then (case x of None \<Rightarrow> None | Some v \<Rightarrow>
        (case dec_route C v of Inl e \<Rightarrow> None | Inr w \<Rightarrow> Some w)) else stored_msg C V p s' m)"
  using assms by (auto simp: stored_msg_def dest!: store_key_inj)

lemma stored_tx_upd:
  assumes "sn_ok n" "sn_ok m"
  shows "stored_tx C (V(GetKey [p, s, sn_string n] := x)) p s' m =
    (if s' = s \<and> m = n then (case x of None \<Rightarrow> None | Some v \<Rightarrow>
        (case dec_tx C v of Inl e \<Rightarrow> None | Inr t \<Rightarrow> Some t)) else stored_tx C V p s' m)"
  using assms by (auto simp: stored_tx_def dest!: store_key_inj)

lemma stored_block_upd:
  "stored_block C (V(GetKey [p, n] := x)) p n' =
    (if n' = n then (case x of None \<Rightarrow> None | Some v \<Rightarrow>
        (case dec_block C v of Inl e \<Rightarrow> None | Inr h \<Rightarrow> Some h)) else stored_block C V p n')"
  by (auto simp: stored_block_def GetKey2)

section \<open>A store with a codec\<close>

locale message_db = kv_store S view + codec_laws C
  for S :: "('d, 'v) store" and view :: "'d \<Rightarrow> string \<Rightarrow> 'v option" and C :: "'v codec"
begin

lemma StoreMessage_view:
  assumes "json_route (wire_route m)"
  shows "\<exists>v d'. StoreMessage S C p (Some m) d = (None, d') \<and> dec_route C v = Inr (wire_route m) \<and>
    view d' = (view d)(GetKey [p, m_src (rm_msg m), sn_string (unptr (m_sn (rm_msg m)))] \<mapsto> v)"
proof -
  obtain v where v: "enc_route C (wire_route m) = Inr v" "dec_route C v = Inr (wire_route m)"
    using route_rt [OF assms] by blast
  then show ?thesis
    using set_ok [of d _ v] v(2) by (simp add: StoreMessage_def MessageStore_Key_def big_String_sn) blast
qed

lemma DeleteMessage_view:
  "\<exists>d'. DeleteMessage S p k d = (None, d') \<and>
    view d' = (view d)(GetKey [p, k_src k, sn_string (unptr (k_sn k))] := None)"
  using delete_ok by (simp add: DeleteMessage_def MessageStore_Key_def big_String_sn)

lemma GetMessage_iff:
  "(GetMessage_db S C p k d = Inr w) = (stored_msg C (view d) p (k_src k) (unptr (k_sn k)) = Some w)"
proof (cases "view d (GetKey [p, k_src k, sn_string (unptr (k_sn k))])")
  case None
  then obtain e where "st_GetByKey S d (GetKey [p, k_src k, sn_string (unptr (k_sn k))]) = Inl e"
    using get_none by blast
  with None show ?thesis
    by (simp add: GetMessage_db_def MessageStore_Key_def big_String_sn stored_msg_def)
next
  case (Some v)
  then show ?thesis
    by (auto simp: GetMessage_db_def MessageStore_Key_def big_String_sn stored_msg_def get_some
        split: sum.splits)
qed

lemma StoreMessage_refines:
  assumes "json_route (wire_route m)" "sn_ok (unptr (m_sn (rm_msg m)))" "sn_ok n"
  shows "stored_msg C (view (snd (StoreMessage S C p (Some m) d))) p s n =
    (if s = m_src (rm_msg m) \<and> n = unptr (m_sn (rm_msg m)) then Some (wire_route m)
     else stored_msg C (view d) p s n)"
  using StoreMessage_view [OF assms(1), of p d] assms(2,3) by (auto simp: stored_msg_upd)

lemma DeleteMessage_refines:
  assumes "sn_ok (unptr (k_sn k))" "sn_ok n"
  shows "stored_msg C (view (snd (DeleteMessage S p k d))) p s n =
    (if s = k_src k \<and> n = unptr (k_sn k) then None else stored_msg C (view d) p s n)"
  using DeleteMessage_view [of p k d] assms by (auto simp: stored_msg_upd)

lemma StoreTxObject_view:
  assumes "json_tx (wire_tx t)"
  shows "\<exists>v d'. StoreTxObject S C p (Some t) d = (None, d') \<and> dec_tx C v = Inr (wire_tx t) \<and>
    view d' = (view d)(GetKey [p, k_dst (to_key t), sn_string (unptr (k_sn (to_key t)))] \<mapsto> v)"
proof -
  obtain v where v: "enc_tx C (wire_tx t) = Inr v" "dec_tx C v = Inr (wire_tx t)"
    using tx_rt [OF assms] by blast
  then show ?thesis
    using set_ok [of d _ v] v(2) by (simp add: StoreTxObject_def FinalityStore_Key_def big_String_sn) blast
qed

lemma DeleteTxObject_view:
  "\<exists>d'. DeleteTxObject S p k d = (None, d') \<and>
    view d' = (view d)(GetKey [p, k_dst k, sn_string (unptr (k_sn k))] := None)"
  using delete_ok by (simp add: DeleteTxObject_def FinalityStore_Key_def big_String_sn)

lemma GetTxObject_iff:
  "(GetTxObject S C p k d = Inr t) = (stored_tx C (view d) p (k_dst k) (unptr (k_sn k)) = Some t)"
proof (cases "view d (GetKey [p, k_dst k, sn_string (unptr (k_sn k))])")
  case None
  then obtain e where "st_GetByKey S d (GetKey [p, k_dst k, sn_string (unptr (k_sn k))]) = Inl e"
    using get_none by blast
  with None show ?thesis
    by (simp add: GetTxObject_def FinalityStore_Key_def big_String_sn stored_tx_def)
next
  case (Some v)
  then show ?thesis
    by (auto simp: GetTxObject_def FinalityStore_Key_def big_String_sn stored_tx_def get_some
        split: sum.splits)
qed

lemma StoreTxObject_refines:
  assumes "json_tx (wire_tx t)" "sn_ok (unptr (k_sn (to_key t)))" "sn_ok n"
  shows "stored_tx C (view (snd (StoreTxObject S C p (Some t) d))) p s n =
    (if s = k_dst (to_key t) \<and> n = unptr (k_sn (to_key t)) then Some (wire_tx t)
     else stored_tx C (view d) p s n)"
  using StoreTxObject_view [OF assms(1), of p d] assms(2,3) by (auto simp: stored_tx_upd)

lemma StoreBlock_view:
  "\<exists>v d'. StoreBlock S C p h nid d = (None, d') \<and> dec_block C v = Inr h \<and>
    view d' = (view d)(GetKey [p, nid] \<mapsto> v)"
proof -
  obtain v where v: "enc_block C h = Inr v" "dec_block C v = Inr h"
    using block_rt by blast
  then show ?thesis
    using set_ok [of d _ v] v(2) by (simp add: StoreBlock_def BlockStore_GetKey_def) blast
qed

lemma GetLastStoredBlock_iff:
  "(GetLastStoredBlock S C p nid d = Inr h) = (stored_block C (view d) p nid = Some h)"
proof (cases "view d (GetKey [p, nid])")
  case None
  then obtain e where "st_GetByKey S d (GetKey [p, nid]) = Inl e" using get_none by blast
  with None show ?thesis
    by (simp add: GetLastStoredBlock_def BlockStore_GetKey_def stored_block_def)
next
  case (Some v)
  then show ?thesis
    by (auto simp: GetLastStoredBlock_def BlockStore_GetKey_def stored_block_def get_some
        split: sum.splits)
qed

lemma StoreBlock_refines:
  "stored_block C (view (snd (StoreBlock S C p h nid d))) p n =
    (if n = nid then Some h else stored_block C (view d) p n)"
  using StoreBlock_view [of p h nid d] by (auto simp: stored_block_upd)

end


section \<open>Reading a page of messages\<close>

lemma collect_messages_take:
  assumes "\<And>k v. (k, v) \<in> set kvs \<Longrightarrow> dec_route C v = Inr (f v)"
    and "length acc + length kvs < 2 ^ 64"
    and "lim = 0 \<or> length acc < unat lim"
  shows "collect_messages C lim acc kvs None =
    Inr (acc @ map (f \<circ> snd) (if lim = 0 then kvs else take (unat lim - length acc) kvs))"
  using assms
proof (induction kvs arbitrary: acc)
  case Nil
  then show ?case by simp
next
  case (Cons kv kvs)
  obtain k v where kv: "kv = (k, v)" by (cases kv)
  have dec: "dec_route C v = Inr (f v)" by (rule Cons.prems(1) [of k]) (simp add: kv)
  have small: "Suc (length acc) < 2 ^ 64" using Cons.prems(2) by simp
  have u: "unat (of_nat (Suc (length acc)) :: u64) = Suc (length acc)"
    using small by (simp only: unat_of_nat) simp
  have eq: "(of_nat (Suc (length acc)) = lim) = (unat lim = Suc (length acc))"
    using u by (metis word_eq_unat)
  show ?case
  proof (cases "unat lim = Suc (length acc)")
    case True
    then have "lim \<noteq> 0" by auto
    with True eq kv dec show ?thesis by (simp add: o_def)
  next
    case False
    then have ne: "of_nat (Suc (length acc)) \<noteq> lim" using eq by simp
    have lim: "lim = 0 \<or> length (acc @ [f v]) < unat lim" using Cons.prems(3) False by auto
    have len: "length (acc @ [f v]) + length kvs < 2 ^ 64" using Cons.prems(2) by simp
    have ih: "collect_messages C lim (acc @ [f v]) kvs None =
      Inr ((acc @ [f v]) @ map (f \<circ> snd)
        (if lim = 0 then kvs else take (unat lim - length (acc @ [f v])) kvs))"
      by (rule Cons.IH [OF _ len lim]) (use Cons.prems(1) in auto)
    have "lim \<noteq> 0 \<Longrightarrow> unat lim - length acc = Suc (unat lim - Suc (length acc))"
      using lim by auto
    then show ?thesis using ih kv dec ne by auto
  qed
qed

lemma collect_messages_bound:
  "collect_messages C lim acc kvs err = Inr ms \<Longrightarrow> lim = 0 \<or> length acc < unat lim \<Longrightarrow>
   length acc + length kvs < 2 ^ 64 \<Longrightarrow>
   length ms \<le> length acc + length kvs \<and> (lim = 0 \<or> length ms \<le> unat lim)"
proof (induction C lim acc kvs err rule: collect_messages.induct)
  case (1 C limit acc err)
  then show ?case by (auto split: option.splits)
next
  case (2 C limit acc k v kvs err)
  have small: "Suc (length acc) < 2 ^ 64" using "2.prems"(3) by simp
  have u: "unat (of_nat (Suc (length acc)) :: u64) = Suc (length acc)"
    using small by (simp only: unat_of_nat) simp
  obtain m where m: "dec_route C v = Inr m" using "2.prems"(1) by (auto split: sum.splits)
  show ?case
  proof (cases "of_nat (length (acc @ [m])) = limit")
    case True
    with "2.prems" m u show ?thesis by auto
  next
    case False
    then have lt: "limit = 0 \<or> length (acc @ [m]) < unat limit"
      using "2.prems"(2) u by (metis Suc_lessI length_append_singleton word_eq_unat)
    have "length ms \<le> length (acc @ [m]) + length kvs \<and> (limit = 0 \<or> length ms \<le> unat limit)"
      by (rule "2.IH" [OF m False _ lt]) (use "2.prems" m False in auto)
    then show ?thesis by simp
  qed
qed

context message_db
begin

lemma GetMessages_page:
  assumes dec: "\<And>k v. view d k = Some v \<Longrightarrow> HasPrefix k (GetKey [p, nid]) \<Longrightarrow>
                  dec_route C v = Inr (f v)"
    and small: "card {k. view d k \<noteq> None \<and> HasPrefix k (GetKey [p, nid])} < 2 ^ 64"
  shows "\<exists>kvs. GetMessages S C p nid pg d = Inr (map (f \<circ> snd) kvs) \<and>
    distinct (map fst kvs) \<and>
    (\<forall>(k, v) \<in> set kvs. view d k = Some v \<and> HasPrefix k (GetKey [p, nid])) \<and>
    length kvs = (let n = card {k. view d k \<noteq> None \<and> HasPrefix k (GetKey [p, nid])}
                  in if p_Limit pg = 0 then n else min (unat (p_Limit pg)) n)"
proof -
  let ?it = "fst (st_NewIterator S d (GetKey [p, nid]))"
  let ?kvs = "if p_Limit pg = 0 then ?it else take (unat (p_Limit pg)) ?it"
  have it: "st_NewIterator S d (GetKey [p, nid]) = (?it, None)"
    using iter_error [of d "GetKey [p, nid]"] by (metis prod.collapse)
  have mem: "(k, v) \<in> set ?it \<Longrightarrow> view d k = Some v \<and> HasPrefix k (GetKey [p, nid])" for k v
    by (simp add: iter_mem)
  have len: "length ?it = card {k. view d k \<noteq> None \<and> HasPrefix k (GetKey [p, nid])}"
    by (rule iter_length)
  have lim: "p_Limit pg = 0 \<or> length ([] :: wireint route_message list) < unat (p_Limit pg)"
    by (auto simp: unat_gt_0)
  have "GetMessages S C p nid pg d = collect_messages C (p_Limit pg) [] ?it None"
    unfolding GetMessages_def by (subst it) simp
  also have "\<dots> = Inr ([] @ map (f \<circ> snd) (if p_Limit pg = 0 then ?it
      else take (unat (p_Limit pg) - length ([] :: wireint route_message list)) ?it))"
  proof (rule collect_messages_take [OF _ _ lim])
    show "dec_route C v = Inr (f v)" if "(k, v) \<in> set ?it" for k v
      using dec mem [OF that] by blast
    show "length ([] :: wireint route_message list) + length ?it < 2 ^ 64"
      using small len by simp
  qed
  finally have "GetMessages S C p nid pg d = Inr (map (f \<circ> snd) ?kvs)" by simp
  moreover have "distinct (map fst ?kvs)"
    using iter_distinct [of d "GetKey [p, nid]"] by (auto simp: take_map [symmetric])
  moreover have "\<forall>(k, v) \<in> set ?kvs. view d k = Some v \<and> HasPrefix k (GetKey [p, nid])"
    using mem by (auto split: if_splits dest: in_set_takeD)
  moreover have "length ?kvs = (let n = card {k. view d k \<noteq> None \<and> HasPrefix k (GetKey [p, nid])}
                  in if p_Limit pg = 0 then n else min (unat (p_Limit pg)) n)"
    using len by (simp add: Let_def min.commute)
  ultimately show ?thesis by blast
qed

end

section \<open>An in-memory database and codec\<close>

text \<open>An instance of the contracts, on which the properties are evaluated.\<close>

datatype json = JBlock u64 | JRoute "wireint route_message" | JTx "wireint tx_object"

type_synonym memdb = "(string \<times> json) list"

definition mem_Get :: "memdb \<Rightarrow> string \<Rightarrow> error + json" where
  "mem_Get d k = (case map_of d k of None \<Rightarrow> Inl ''leveldb: not found'' | Some v \<Rightarrow> Inr v)"

definition mem_Iterator :: "memdb \<Rightarrow> string option \<Rightarrow> (string \<times> json) list \<times> error option" where
  "mem_Iterator d r = (filter (\<lambda>(k, v). in_range r k) (AList.clearjunk d), None)"

definition mem_leveldb :: "(memdb, json) leveldb" where
  "mem_leveldb = \<lparr>ldb_Get = mem_Get, ldb_Put = \<lambda>d k v. (None, AList.update k v d),
     ldb_Delete = \<lambda>d k. (None, AList.delete k d), ldb_NewIterator = mem_Iterator,
     ldb_Write = \<lambda>d ks. (None, fold AList.delete ks d)\<rparr>"

definition mem_codec :: "json codec" where
  "mem_codec = \<lparr>
     enc_block = \<lambda>h. Inr (JBlock h),
     dec_block = \<lambda>v. case v of JBlock h \<Rightarrow> Inr h | _ \<Rightarrow> Inl ''readUint64: unexpected character'',
     enc_route = \<lambda>w. Inr (JRoute w),
     dec_route = \<lambda>v. case v of JRoute w \<Rightarrow> Inr w | _ \<Rightarrow> Inl ''ReadObject: expect {'',
     enc_tx = \<lambda>t. Inr (JTx t),
     dec_tx = \<lambda>v. case v of JTx t \<Rightarrow> Inr t | _ \<Rightarrow> Inl ''ReadObject: expect {''\<rparr>"

definition mem_store :: "(memdb, json) store" where
  "mem_store = LVLDB mem_leveldb"

lemma map_of_fold_delete:
  "map_of (fold AList.delete ks d) k = (if k \<in> set ks then None else map_of d k)"
  by (induction ks arbitrary: d) auto

interpretation memldb: leveldb_laws mem_leveldb map_of
proof
  fix d :: memdb and k v r ks
  show "map_of d k = Some v \<Longrightarrow> ldb_Get mem_leveldb d k = Inr v"
    by (simp add: mem_leveldb_def mem_Get_def)
  show "map_of d k = None \<Longrightarrow> \<exists>e. ldb_Get mem_leveldb d k = Inl e"
    by (simp add: mem_leveldb_def mem_Get_def)
  show "\<exists>d'. ldb_Put mem_leveldb d k v = (None, d') \<and> map_of d' = (map_of d)(k \<mapsto> v)"
    by (simp add: mem_leveldb_def)
  show "\<exists>d'. ldb_Delete mem_leveldb d k = (None, d') \<and> map_of d' = (map_of d)(k := None)"
    by (simp add: mem_leveldb_def)
  have "distinct (map fst (filter (\<lambda>(k, v). in_range r k) (AList.clearjunk d)))"
    by (rule distinct_map_filter) (rule distinct_clearjunk)
  moreover have "((k, v) \<in> set (AList.clearjunk d)) = (map_of d k = Some v)" for k v
    by (metis distinct_clearjunk map_of_clearjunk map_of_eq_Some_iff)
  ultimately show "\<exists>kvs. ldb_NewIterator mem_leveldb d r = (kvs, None) \<and> distinct (map fst kvs) \<and>
           set kvs = {(k, v). map_of d k = Some v \<and> in_range r k}"
    by (auto simp: mem_leveldb_def mem_Iterator_def)
  show "\<exists>d'. ldb_Write mem_leveldb d ks = (None, d') \<and>
           map_of d' = (\<lambda>k. if k \<in> set ks then None else map_of d k)"
    by (auto simp: mem_leveldb_def map_of_fold_delete)
qed

interpretation memcodec: codec_laws mem_codec
  by unfold_locales (simp_all add: mem_codec_def)

interpretation mem: message_db mem_store map_of mem_codec
  unfolding mem_store_def by (rule message_db.intro) (rule memldb.lv.kv_store_axioms memcodec.codec_laws_axioms)+

end
