(* ===== verification/Chain.thy ===== *)
theory Chain
  imports Store_Spec
begin

text \<open>
  \<^verbatim>\<open>relayer/provider/provider.go\<close>, \<^verbatim>\<open>relayer/chain.go\<close> and \<^verbatim>\<open>relayer/chain_runtime.go\<close>: the provider
  interface, the configured chains and the run-time state the relayer keeps per chain.

  A provider talks to a blockchain, so its answers are not a function of the relayer's state: the
  record \<open>env\<close> holds the answers of the outside world during one step (the clock and, for every
  chain, the results of the interface methods), and every operation that asks takes an \<open>env\<close>.
  What is fixed per chain, its NID and the number of finality blocks, is the record \<open>provider\<close>.
  Providers get the numbers of messages and keys, never their addresses, so \<open>env\<close> speaks of wire
  forms.
\<close>

section \<open>The common configuration\<close>

record common_config =
  cc_ChainName :: string
  cc_RPCUrl :: string
  cc_StartHeight :: u64
  cc_Address :: string
  cc_Contracts :: contract_config
  cc_FinalityBlock :: u64
  cc_NID :: string
  cc_HomeDir :: string
  cc_Disabled :: bool

definition CommonConfig_Enabled :: "common_config \<Rightarrow> bool" where
  "CommonConfig_Enabled c = (\<not> cc_Disabled c)"

definition CommonConfig_SetWallet :: "string \<Rightarrow> common_config \<Rightarrow> common_config" where
  "CommonConfig_SetWallet addr pc = pc\<lparr>cc_Address := addr\<rparr>"

definition CommonConfig_GetWallet :: "common_config \<Rightarrow> string" where
  "CommonConfig_GetWallet pc = cc_Address pc"

definition CommonConfig_Validate :: "common_config \<Rightarrow> unit result" where
  "CommonConfig_Validate pc =
     (if cc_ChainName pc = '''' then Err ''chain-name cannot be empty''
      else if cc_HomeDir pc = '''' then Err ''home-dir cannot be empty''
      else Ok ())"

section \<open>Providers\<close>

record provider =
  pv_NID :: string
  pv_FinalityBlock :: u64

record env =
  ev_now :: gotime
  ev_QueryLatestHeight :: "string \<Rightarrow> error + u64"
  ev_QueryTransactionReceipt :: "string \<Rightarrow> string \<Rightarrow> error + receipt"
  ev_ShouldReceiveMessage :: "string \<Rightarrow> wireint message \<Rightarrow> error + bool"
  ev_ShouldSendMessage :: "string \<Rightarrow> wireint message \<Rightarrow> error + bool"
  ev_MessageReceived :: "string \<Rightarrow> wireint message_key \<Rightarrow> error + bool"
  ev_GenerateMessages :: "string \<Rightarrow> wireint message_key \<Rightarrow> u64 \<Rightarrow> error + wireint message list"
  ev_RevertMessage :: "string \<Rightarrow> wireint \<Rightarrow> error option"
  ev_GetFee :: "string \<Rightarrow> string \<Rightarrow> bool \<Rightarrow> error + u64"
  ev_SetFee :: "string \<Rightarrow> string \<Rightarrow> wireint \<Rightarrow> wireint \<Rightarrow> error option"
  ev_ClaimFee :: "string \<Rightarrow> error option"

section \<open>Chains\<close>

record chain =
  ch_ChainProvider :: provider
  ch_debug :: bool

text \<open>\<^verbatim>\<open>Chains\<close>: chains under their configured names, in the order the map is ranged over.\<close>

type_synonym chains = "(string \<times> chain) list"

definition NewChain :: "provider \<Rightarrow> bool \<Rightarrow> chain" where
  "NewChain prov debug = \<lparr>ch_ChainProvider = prov, ch_debug = debug\<rparr>"

definition Chain_NID :: "chain \<Rightarrow> string" where
  "Chain_NID c = pv_NID (ch_ChainProvider c)"

fun Chains_Get :: "string \<Rightarrow> chains \<Rightarrow> chain result" where
  "Chains_Get nid [] = Err (''chain with NID '' @ nid @ '' is not configured'')"
| "Chains_Get nid ((name, chain) # c) =
     (if nid = pv_NID (ch_ChainProvider chain) then Ok chain else Chains_Get nid c)"

fun Chains_GetAll_loop :: "chains \<Rightarrow> chains \<Rightarrow> chains" where
  "Chains_GetAll_loop out [] = out"
| "Chains_GetAll_loop out ((name, chain) # c) =
     Chains_GetAll_loop (AList.update (Chain_NID chain) chain out) c"

definition Chains_GetAll :: "chains \<Rightarrow> chains" where
  "Chains_GetAll c = Chains_GetAll_loop [] c"

section \<open>Chain runtimes\<close>

definition listenerChannelBufferSize :: nat where
  "listenerChannelBufferSize = 1000 * 5"

record chain_runtime =
  cr_Provider :: provider
  cr_listenerChan :: "block_info list"
  cr_LastBlockHeight :: u64
  cr_LastSavedHeight :: u64
  cr_MessageCache :: cache

definition NewChainRuntime :: "chain option \<Rightarrow> chain_runtime result" where
  "NewChainRuntime c = (case c of
      None \<Rightarrow> Err ''failed to construct chain runtime''
    | Some chain \<Rightarrow> Ok \<lparr>cr_Provider = ch_ChainProvider chain, cr_listenerChan = [],
        cr_LastBlockHeight = 0, cr_LastSavedHeight = 0, cr_MessageCache = NewMessageCache\<rparr>)"

text \<open>
  The objects the caches share with the routing goroutines: a heap of route messages. \<open>next\<close>
  is the next free address; one counter serves route messages and big integers.
\<close>

record heap =
  hp_routes :: "nat \<Rightarrow> bigptr route_message option"
  hp_next :: nat

definition new_route :: "bigptr route_message \<Rightarrow> heap \<Rightarrow> nat \<times> heap" where
  "new_route r h = (hp_next h, h\<lparr>hp_routes := (hp_routes h)(hp_next h \<mapsto> r), hp_next := hp_next h + 1\<rparr>)"

definition new_message :: "wireint message \<Rightarrow> heap \<Rightarrow> bigptr message \<times> heap" where
  "new_message w h = (alloc_message (hp_next h) w, h\<lparr>hp_next := hp_next h + 2\<rparr>)"

definition new_stored_route :: "wireint route_message \<Rightarrow> heap \<Rightarrow> bigptr route_message \<times> heap" where
  "new_stored_route w h = (alloc_route (hp_next h) w, h\<lparr>hp_next := hp_next h + 2\<rparr>)"

definition set_route :: "nat \<Rightarrow> bigptr route_message \<Rightarrow> heap \<Rightarrow> heap" where
  "set_route ref r h = h\<lparr>hp_routes := (hp_routes h)(ref \<mapsto> r)\<rparr>"

definition cache_add_new :: "bigptr route_message \<Rightarrow> cache \<times> heap \<Rightarrow> cache \<times> heap" where
  "cache_add_new r ch = (let (ref, h') = new_route r (snd ch) in (MessageCache_Add r ref (fst ch), h'))"

text \<open>
  \<^verbatim>\<open>mergeMessages\<close> adds every message as a new route message. The messages come from a provider,
  which allocated their numbers.
\<close>

fun mergeMessages :: "wireint message list \<Rightarrow> cache \<times> heap \<Rightarrow> cache \<times> heap" where
  "mergeMessages [] ch = ch"
| "mergeMessages (m # ms) ch =
     (let (bm, h') = new_message m (snd ch)
      in mergeMessages ms (cache_add_new (NewRouteMessage bm) (fst ch, h')))"

fun clearMessageFromCache :: "bigptr message_key list \<Rightarrow> cache \<Rightarrow> cache" where
  "clearMessageFromCache [] c = c"
| "clearMessageFromCache (m # msgs) c = clearMessageFromCache msgs (MessageCache_Remove m c)"

definition shouldSendMessage ::
    "env \<Rightarrow> string \<Rightarrow> bigptr route_message option \<Rightarrow> string \<Rightarrow> bool" where
  "shouldSendMessage E dst routeMessage src = (case routeMessage of
      None \<Rightarrow> False
    | Some r \<Rightarrow>
        if IsProcessing (ev_now E) r then False
        else if ev_ShouldReceiveMessage E dst (wire_message (rm_msg r)) \<noteq> Inr True then False
        else if ev_ShouldSendMessage E src (wire_message (rm_msg r)) \<noteq> Inr True then False
        else True)"

definition shouldExecuteCall :: "env \<Rightarrow> bigptr route_message \<Rightarrow> bool" where
  "shouldExecuteCall E msg = (\<not> IsProcessing (ev_now E) msg)"

section \<open>Lemmas\<close>

lemma clearMessageFromCache_fold: "clearMessageFromCache ks c = fold MessageCache_Remove ks c"
  by (induction ks c rule: clearMessageFromCache.induct) auto

lemma clearMessageFromCache_get:
  "MessageCache_Get k (clearMessageFromCache ks c) = (if k \<in> set ks then None else MessageCache_Get k c)"
  by (simp add: clearMessageFromCache_fold mc.remove_all)

lemma clearMessageFromCache_invar: "cache_invar c \<Longrightarrow> cache_invar (clearMessageFromCache ks c)"
  by (simp add: clearMessageFromCache_fold mc.invar_remove_all)

lemma new_route_simps [simp]:
  "fst (new_route r h) = hp_next h"
  "hp_next (snd (new_route r h)) = hp_next h + 1"
  "hp_routes (snd (new_route r h)) = (hp_routes h)(hp_next h \<mapsto> r)"
  by (simp_all add: new_route_def)

lemma new_message_simps [simp]:
  "hp_next (snd (new_message w h)) = hp_next h + 2"
  "hp_routes (snd (new_message w h)) = hp_routes h"
  "wire_message (fst (new_message w h)) = w"
  "fst (new_message w h) = alloc_message (hp_next h) w"
  by (simp_all add: new_message_def)

lemma set_route_simps [simp]:
  "hp_next (set_route ref r h) = hp_next h"
  "hp_routes (set_route ref r h) = (hp_routes h)(ref \<mapsto> r)"
  by (simp_all add: set_route_def)

lemma Chains_Get_Ok: "Chains_Get nid c = Ok ch \<Longrightarrow> Chain_NID ch = nid \<and> (\<exists>name. (name, ch) \<in> set c)"
  by (induction nid c rule: Chains_Get.induct) (auto simp: Chain_NID_def split: if_splits)

lemma Chains_Get_Err: "(\<exists>e. Chains_Get nid c = Err e) = (nid \<notin> (Chain_NID \<circ> snd) ` set c)"
  by (induction nid c rule: Chains_Get.induct) (auto simp: Chain_NID_def)

lemma Chains_GetAll_loop_keys:
  "(\<forall>(k, ch) \<in> set out. Chain_NID ch = k) \<Longrightarrow> distinct (map fst out) \<Longrightarrow>
   (\<forall>(k, ch) \<in> set (Chains_GetAll_loop out c). Chain_NID ch = k) \<and>
   distinct (map fst (Chains_GetAll_loop out c))"
proof (induction out c rule: Chains_GetAll_loop.induct)
  case (2 out name chain c)
  have "\<forall>(k, ch) \<in> set (AList.update (Chain_NID chain) chain out). Chain_NID ch = k"
    using "2.prems"(1) by (auto dest: in_set_update)
  with 2 show ?case by simp
qed simp

end
