(* ===== verification/Evm.thy ===== *)
theory Evm
  imports Evm_Nonce Chain
begin

text \<open>
  \<^verbatim>\<open>relayer/chains/evm\<close>: the provider for EVM chains, without its keystore.

  The Ethereum client, the generated contract bindings and the ABI encoder are third-party code:
  \<open>evm_client\<close> is the record of their answers during one operation. A query that is polled or
  retried takes the number of the attempt. What the provider sends is recorded in \<open>es_sent\<close> (the
  call, the nonce and the gas limit of every attempt).
\<close>

section \<open>Configuration\<close>

definition ErrorLessGas :: string where "ErrorLessGas = ''transaction underpriced''"
definition ErrorLimitLessThanGas :: string where
  "ErrorLimitLessThanGas = ''max fee per gas less than block base fee''"
definition ErrUnKnown :: string where "ErrUnKnown = ''unknown''"
definition ErrNonceTooLow :: string where "ErrNonceTooLow = ''nonce too low''"
definition ErrNonceTooHigh :: string where "ErrNonceTooHigh = ''nonce too high''"

definition maxBlockRange :: u64 where "maxBlockRange = 50"
definition DefaultFinalityBlock :: u64 where "DefaultFinalityBlock = 10"
definition BaseRetryInterval :: i64 where "BaseRetryInterval = 3000000000"
definition MaxRetryInterval :: i64 where "MaxRetryInterval = 300000000000"
definition MaxRetryCount :: nat where "MaxRetryCount = 5"
definition MaximumPollTry :: nat where "MaximumPollTry = 15"

definition MethodRecvMessage :: string where "MethodRecvMessage = ''recvMessage''"
definition MethodSetAdmin :: string where "MethodSetAdmin = ''setAdmin''"
definition MethodRevertMessage :: string where "MethodRevertMessage = ''revertMessage''"
definition MethodClaimFees :: string where "MethodClaimFees = ''claimFees''"
definition MethodSetFee :: string where "MethodSetFee = ''setFee''"
definition MethodExecuteCall :: string where "MethodExecuteCall = ''executeCall''"
definition MethodExecuteRollback :: string where "MethodExecuteRollback = ''executeRollback''"

definition EvmEmitMessage :: string where "EvmEmitMessage = ''Message(string,uint256,bytes)''"
definition EvmCallMessage :: string where
  "EvmCallMessage = ''CallMessage(string,string,uint256,uint256,bytes)''"
definition EvmRollbackMessage :: string where "EvmRollbackMessage = ''RollbackMessage(uint256)''"

record evm_config =
  ec_common :: common_config
  ec_WebsocketUrl :: string
  ec_GasMin :: u64
  ec_GasLimit :: u64
  ec_GasAdjustment :: u64
  ec_BlockBatchSize :: u64

definition Evm_Validate :: "evm_config \<Rightarrow> unit result" where
  "Evm_Validate p = (case ContractConfigMap_Validate (cc_Contracts (ec_common p)) of
      Err e \<Rightarrow> Err (''contracts are not valid: '' @ e) | r \<Rightarrow> r)"

definition Evm_sanitize :: "evm_config \<Rightarrow> evm_config" where
  "Evm_sanitize p =
     (let p1 = (if ec_GasAdjustment p = 0 then p\<lparr>ec_GasAdjustment := 50\<rparr> else p)
      in if ec_BlockBatchSize p1 = 0 then p1\<lparr>ec_BlockBatchSize := maxBlockRange\<rparr> else p1)"

text \<open>
  \<^verbatim>\<open>NewProvider\<close>: the configuration of the provider it makes; \<open>clientErr\<close> is the error of connecting.
\<close>

definition Evm_NewProvider :: "error option \<Rightarrow> evm_config \<Rightarrow> string \<Rightarrow> string \<Rightarrow> evm_config result" where
  "Evm_NewProvider clientErr p homepath chainName = rbind (Evm_Validate p) (\<lambda>_.
     let p1 = Evm_sanitize p;
         c1 = (ec_common p1)\<lparr>cc_HomeDir := homepath, cc_ChainName := chainName\<rparr>
     in case clientErr of
         Some e \<Rightarrow> Err (''error occured when creating client: '' @ e)
       | None \<Rightarrow> Ok (p1\<lparr>ec_common :=
           (if cc_FinalityBlock c1 = 0 then c1\<lparr>cc_FinalityBlock := DefaultFinalityBlock\<rparr> else c1)\<rparr>))"

section \<open>The client\<close>

record elog =
  lg_Topics :: "string list"
  lg_Data :: bytes
  lg_BlockNumber :: u64
  lg_TxHash :: string

record filter_query =
  fq_FromBlock :: "u64 option"
  fq_ToBlock :: "u64 option"
  fq_Addresses :: "string list"
  fq_Topics :: "string list"

record evm_receipt =
  er_BlockNumber :: int
  er_Status :: u64

datatype receipt_answer = NotFound | QueryError error | Receipt evm_receipt

text \<open>A tick of the polling loop, or the end of its context.\<close>

datatype tick = Done error | Tick receipt_answer

datatype abi_arg = AString string | ABig wireint | ABytes bytes

record call_msg =
  cm_From :: string
  cm_To :: string
  cm_Data :: bytes

datatype evm_call =
    ReceiveMessageCall string wireint bytes
  | ExecuteCallCall wireint bytes
  | SetAdminCall string
  | RevertMessageCall wireint
  | ClaimFeeCall
  | SetFeeCall string wireint wireint
  | ExecuteRollbackCall wireint

record evm_client =
  cl_GetBlockNumber :: "error + u64"
  cl_GetHeaderByHeight :: "u64 \<Rightarrow> error option"
  cl_FilterLogs :: "filter_query \<Rightarrow> nat \<Rightarrow> error + elog list"
  cl_SuggestGasPrice :: "error + int"
  cl_SuggestGasTip :: "error + int"
  cl_PendingNonceAt :: "string \<Rightarrow> error + int"
  cl_TransactionReceipt :: "string \<Rightarrow> nat \<Rightarrow> tick"
  cl_EstimateGas :: "call_msg \<Rightarrow> error + u64"
  cl_transact :: "evm_call \<Rightarrow> error + string"
  cl_MessageReceived :: "string \<Rightarrow> wireint \<Rightarrow> error + bool"
  cl_GetFee :: "string \<Rightarrow> error + int"
  cl_GetBalance :: "string \<Rightarrow> error + int"
  cl_ParseConnectionMessage :: "elog \<Rightarrow> error + (string \<times> int \<times> bytes)"
  cl_ParseCallMessage :: "elog \<Rightarrow> error + (int \<times> int \<times> bytes)"
  cl_ParseRollbackMessage :: "elog \<Rightarrow> error + int"
  cl_Pack :: "string \<Rightarrow> abi_arg list \<Rightarrow> error + bytes"
  cl_NewTransactor :: "error option"
  cl_RestoreKeystore :: "error + string"
  cl_HexToAddress :: "string \<Rightarrow> string"
  cl_Keccak256 :: "string \<Rightarrow> string"

section \<open>Events\<close>

fun evm_event_map :: "(string \<times> string) list \<Rightarrow> (string \<times> event_map) list \<Rightarrow> (string \<times> event_map) list" where
  "evm_event_map [] m = m"
| "evm_event_map ((contractName, addr) # rest) m =
     (let sig = (if contractName = XcallContract then
                   [(EvmCallMessage, CallMessage), (EvmRollbackMessage, RollbackMessage)]
                 else if contractName = ConnectionContract then [(EvmEmitMessage, EmitMessage)] else [])
      in evm_event_map rest
           (AList.update addr \<lparr>em_address = addr, em_contract = contractName, em_sigtype = sig\<rparr> m))"

definition Evm_eventMap :: "evm_config \<Rightarrow> (string \<times> event_map) list" where
  "Evm_eventMap p = evm_event_map (cc_Contracts (ec_common p)) []"

definition Evm_GetMonitorEventFilters :: "evm_client \<Rightarrow> evm_config \<Rightarrow> filter_query" where
  "Evm_GetMonitorEventFilters cl p = \<lparr>fq_FromBlock = None, fq_ToBlock = None,
     fq_Addresses = map (\<lambda>(addr, c). cl_HexToAddress cl addr) (Evm_eventMap p),
     fq_Topics = concat (map (\<lambda>(addr, c). map (\<lambda>(sig, ev). cl_Keccak256 cl sig) (em_sigtype c)) (Evm_eventMap p))\<rparr>"

fun Evm_GetEventName :: "string \<Rightarrow> (string \<times> event_map) list \<Rightarrow> string" where
  "Evm_GetEventName sig [] = ''''"
| "Evm_GetEventName sig ((addr, contract) # rest) =
     (case map_of (em_sigtype contract) sig of Some eventName \<Rightarrow> eventName | None \<Rightarrow> Evm_GetEventName sig rest)"

fun Evm_GetAddressByEventType :: "evm_client \<Rightarrow> string \<Rightarrow> (string \<times> event_map) list \<Rightarrow> string option" where
  "Evm_GetAddressByEventType cl eventType [] = None"
| "Evm_GetAddressByEventType cl eventType ((addr, contract) # rest) =
     (if list_ex (\<lambda>(sig, eventName). eventName = eventType) (em_sigtype contract)
      then Some (cl_HexToAddress cl (em_address contract))
      else Evm_GetAddressByEventType cl eventType rest)"

definition getRelayMessageFromLog :: "evm_client \<Rightarrow> evm_config \<Rightarrow> elog \<Rightarrow> wireint message result" where
  "getRelayMessageFromLog cl p log =
     (let nid = cc_NID (ec_common p);
          parse_error = (\<lambda>e. Err (''error parsing message:'' @ e @ '' '')) in
      case lg_Topics log of
        [] \<Rightarrow> Err ''topic length mismatch''
      | topic # _ \<Rightarrow>
         if topic = cl_Keccak256 cl EvmEmitMessage then
           (case cl_ParseConnectionMessage cl log of
              Inl e \<Rightarrow> parse_error e
            | Inr (target, sn, data) \<Rightarrow> Ok \<lparr>m_dst = target, m_src = nid, m_sn = Some sn, m_data = data,
                m_height = lg_BlockNumber log, m_event = Evm_GetEventName EvmEmitMessage (Evm_eventMap p),
                m_reqid = None\<rparr>)
         else if topic = cl_Keccak256 cl EvmCallMessage then
           (case cl_ParseCallMessage cl log of
              Inl e \<Rightarrow> parse_error e
            | Inr (sn, reqid, data) \<Rightarrow> Ok \<lparr>m_dst = nid, m_src = nid, m_sn = Some sn, m_data = data,
                m_height = lg_BlockNumber log, m_event = Evm_GetEventName EvmCallMessage (Evm_eventMap p),
                m_reqid = Some reqid\<rparr>)
         else if topic = cl_Keccak256 cl EvmRollbackMessage then
           (case cl_ParseRollbackMessage cl log of
              Inl e \<Rightarrow> parse_error e
            | Inr sn \<Rightarrow> Ok \<lparr>m_dst = nid, m_src = nid, m_sn = Some sn, m_data = '''',
                m_height = lg_BlockNumber log, m_event = Evm_GetEventName EvmRollbackMessage (Evm_eventMap p),
                m_reqid = None\<rparr>)
         else Err ''unknown topic'')"

text \<open>\<^verbatim>\<open>FindMessages\<close>: the guard \<^verbatim>\<open>lbn == nil && lbn.Logs == nil\<close> reads the logs of a nil notification.\<close>

definition Evm_FindMessages ::
    "evm_client \<Rightarrow> evm_config \<Rightarrow> elog list option \<Rightarrow> wireint message list result" where
  "Evm_FindMessages cl p lbn = (case lbn of
      None \<Rightarrow> Panic ''nil pointer dereference''
    | Some logs \<Rightarrow> rlist (getRelayMessageFromLog cl p) logs)"

section \<open>Listening\<close>

text \<open>
  \<^verbatim>\<open>startFromHeight\<close>; the subtraction of the finality blocks wraps around below zero.
\<close>

definition Evm_startFromHeight :: "evm_client \<Rightarrow> evm_config \<Rightarrow> u64 \<Rightarrow> error + u64" where
  "Evm_startFromHeight cl p lastSavedHeight =
     (case cl_GetBlockNumber cl of
        Inl e \<Rightarrow> Inl e
      | Inr latestHeight \<Rightarrow>
         let latestQueryHeight = latestHeight - cc_FinalityBlock (ec_common p);
             startHeight = cc_StartHeight (ec_common p)
         in if startHeight \<noteq> 0 \<and> startHeight < latestQueryHeight then Inr startHeight
            else if lastSavedHeight \<noteq> 0 \<and> lastSavedHeight < latestQueryHeight then Inr lastSavedHeight
            else Inr latestQueryHeight)"

text \<open>
  The loop that cuts the heights to synchronize into batches. It does not end when the batch size
  is 0 or the counter wraps around, so it is a partial function.
\<close>

partial_function (option) block_reqs :: "u64 \<Rightarrow> u64 \<Rightarrow> u64 \<Rightarrow> (u64 \<times> u64) list option" where
  "block_reqs batch latest start =
     (if start \<le> latest
      then Option.bind (block_reqs batch latest (start + batch))
             (\<lambda>rest. Some ((start, min (start + batch - 1) latest) # rest))
      else Some [])"

text \<open>The delay after the n-th failed attempt, in nanoseconds.\<close>

definition retry_delay :: "nat \<Rightarrow> i64" where
  "retry_delay attempts =
     (let delay = 2 ^ attempts * BaseRetryInterval
      in if sint delay > sint MaxRetryInterval then MaxRetryInterval else delay)"

function getLogsRetry_loop ::
    "(nat \<Rightarrow> error + 'a) \<Rightarrow> nat \<Rightarrow> error \<Rightarrow> (error + 'a) \<times> i64 list" where
  "getLogsRetry_loop query attempts err =
     (if attempts < MaxRetryCount then
        (case query attempts of
           Inr logs \<Rightarrow> (Inr logs, [])
         | Inl e \<Rightarrow>
             let (r, delays) = getLogsRetry_loop query (attempts + 1) e
             in (r, retry_delay (attempts + 1) # delays))
      else (Inl err, []))"
  by pat_completeness auto
termination by (relation "measure (\<lambda>(q, a, e). MaxRetryCount - a)") auto

declare getLogsRetry_loop.simps [simp del]

definition getLogsRetry :: "evm_client \<Rightarrow> filter_query \<Rightarrow> (error + elog list) \<times> i64 list" where
  "getLogsRetry cl flt = getLogsRetry_loop (cl_FilterLogs cl flt) 0 ''''"

definition Evm_GetConcurrency :: "nat \<Rightarrow> evm_config \<Rightarrow> u64 \<Rightarrow> u64 \<Rightarrow> int result" where
  "Evm_GetConcurrency cpu p startHeight currentHeight =
     (if ec_BlockBatchSize p = 0 then Panic ''integer divide by zero''
      else let diff = sint ((currentHeight - startHeight) div ec_BlockBatchSize p + 1)
           in if diff \<le> int cpu then Ok diff else Ok (int cpu))"

text \<open>
  The messages of one batch, and the batches one after the other: a batch whose logs cannot be
  fetched is skipped, as is a log that does not parse.
\<close>

definition sync_batch ::
    "evm_client \<Rightarrow> evm_config \<Rightarrow> filter_query \<Rightarrow> u64 \<times> u64 \<Rightarrow> block_info list" where
  "sync_batch cl p q br =
     (case fst (getLogsRetry cl (q\<lparr>fq_FromBlock := Some (fst br), fq_ToBlock := Some (snd br)\<rparr>)) of
        Inl e \<Rightarrow> []
      | Inr logs \<Rightarrow> concat (map (\<lambda>log. case getRelayMessageFromLog cl p log of
            Ok message \<Rightarrow> [\<lparr>bi_height = lg_BlockNumber log, bi_messages = [message]\<rparr>]
          | _ \<Rightarrow> []) logs))"

text \<open>What the listener sends when its start timer fires; \<open>None\<close> when the cutting loop never ends.\<close>

definition Evm_Listener_sync ::
    "evm_client \<Rightarrow> evm_config \<Rightarrow> u64 \<Rightarrow> (u64 \<times> block_info list) option" where
  "Evm_Listener_sync cl p startHeight =
     (let latestHeight = (case cl_GetBlockNumber cl of Inl e \<Rightarrow> 0 | Inr h \<Rightarrow> h);
          startHeight' = (if startHeight = 0 then latestHeight else startHeight);
          q = Evm_GetMonitorEventFilters cl p
      in map_option (\<lambda>brs. (startHeight', concat (map (sync_batch cl p q) brs)))
           (block_reqs (ec_BlockBatchSize p) latestHeight startHeight'))"

text \<open>One log of a subscription.\<close>

definition Evm_Subscribe_log :: "evm_client \<Rightarrow> evm_config \<Rightarrow> elog \<Rightarrow> block_info option" where
  "Evm_Subscribe_log cl p log = (case getRelayMessageFromLog cl p log of
      Ok message \<Rightarrow> Some \<lparr>bi_height = lg_BlockNumber log, bi_messages = [message]\<rparr>
    | _ \<Rightarrow> None)"

section \<open>Queries\<close>

definition Evm_MessageReceived :: "evm_client \<Rightarrow> wireint message_key \<Rightarrow> error + bool" where
  "Evm_MessageReceived cl key =
     (if k_event key = EmitMessage then cl_MessageReceived cl (k_src key) (k_sn key)
      else if k_event key = CallMessage then Inr False
      else if k_event key = RollbackMessage then Inr False
      else Inl ''unknown event type'')"

definition Evm_QueryBalance :: "evm_client \<Rightarrow> string \<Rightarrow> error + coin" where
  "Evm_QueryBalance cl addr = (case cl_GetBalance cl addr of
      Inl e \<Rightarrow> Inl e
    | Inr balance \<Rightarrow> Inr \<lparr>co_denom = ''eth'', co_amount = big_Uint64 balance\<rparr>)"

definition Evm_GenerateMessages ::
    "evm_client \<Rightarrow> evm_config \<Rightarrow> u64 \<Rightarrow> wireint message list result" where
  "Evm_GenerateMessages cl p height =
     (case cl_GetHeaderByHeight cl height of
        Some e \<Rightarrow> Err e
      | None \<Rightarrow>
         (case cl_FilterLogs cl ((Evm_GetMonitorEventFilters cl p)
                 \<lparr>fq_FromBlock := Some height, fq_ToBlock := Some height\<rparr>) 0 of
            Inl e \<Rightarrow> Err e
          | Inr logs \<Rightarrow> Evm_FindMessages cl p (Some logs)))"

definition Evm_QueryTransactionReceipt :: "evm_client \<Rightarrow> string \<Rightarrow> error + receipt" where
  "Evm_QueryTransactionReceipt cl txHash =
     (case cl_TransactionReceipt cl txHash 0 of
        Tick (Receipt r) \<Rightarrow> Inr \<lparr>rc_txhash = txHash, rc_height = big_Uint64 (er_BlockNumber r), rc_status = (er_Status r = 1)\<rparr>
      | Tick (QueryError e) \<Rightarrow> Inl (''queryTransactionReceipt: '' @ e)
      | Tick NotFound \<Rightarrow> Inl ''queryTransactionReceipt: not found''
      | Done e \<Rightarrow> Inl (''queryTransactionReceipt: '' @ e))"

section \<open>Sending transactions\<close>

record evm_state =
  es_tracker :: nonce_tracker
  es_wallet :: "string option"
  es_sent :: "(evm_call \<times> int \<times> u64) list"

record transact_opts =
  op_Nonce :: nat
  op_GasFeeCap :: int
  op_GasTipCap :: wireint
  op_GasLimit :: u64

text \<open>\<^verbatim>\<open>Wallet\<close>: the first call unlocks the keystore, then seeds the nonce tracker.\<close>

definition Evm_Wallet :: "evm_client \<Rightarrow> gotime \<Rightarrow> evm_state \<Rightarrow> string result \<times> evm_state" where
  "Evm_Wallet cl now s = (case es_wallet s of
      Some addr \<Rightarrow> (Ok addr, s)
    | None \<Rightarrow> (case cl_RestoreKeystore cl of
        Inl e \<Rightarrow> (Err e, s)
      | Inr addr \<Rightarrow>
         let s1 = s\<lparr>es_wallet := Some addr\<rparr> in
         (case cl_PendingNonceAt cl addr of
            Inl e \<Rightarrow> (Err e, s1)
          | Inr nonce \<Rightarrow>
             let (p, t) = big_new nonce (es_tracker s1)
             in (Ok addr, s1\<lparr>es_tracker := Nonce_Set now addr p t\<rparr>))))"

definition GetTransationOpts ::
    "evm_client \<Rightarrow> gotime \<Rightarrow> evm_state \<Rightarrow> transact_opts result \<times> evm_state" where
  "GetTransationOpts cl now s =
     (case Evm_Wallet cl now s of
        (Ok addr, s1) \<Rightarrow>
         (case cl_NewTransactor cl of
            Some e \<Rightarrow> (Err e, s1)
          | None \<Rightarrow>
             (case Nonce_Get now (cl_PendingNonceAt cl addr) addr (es_tracker s1) of
                Ok (nonce, t) \<Rightarrow>
                 let s2 = s1\<lparr>es_tracker := t\<rparr> in
                 (case cl_SuggestGasPrice cl of
                    Inl e \<Rightarrow> (Err (''failed to get gas price: '' @ e), s2)
                  | Inr gasPrice \<Rightarrow>
                     (Ok \<lparr>op_Nonce = nonce, op_GasFeeCap = gasPrice * 2,
                        op_GasTipCap = (case cl_SuggestGasTip cl of Inl e \<Rightarrow> None | Inr tip \<Rightarrow> Some tip),
                        op_GasLimit = 0\<rparr>, s2))
              | Err e \<Rightarrow> (Err e, s1)
              | Panic e \<Rightarrow> (Panic e, s1)))
      | (Err e, s1) \<Rightarrow> (Err e, s1)
      | (Panic e, s1) \<Rightarrow> (Panic e, s1))"

text \<open>The call \<^verbatim>\<open>EstimateGas\<close> estimates: method and arguments, and the contract it goes to.\<close>

definition estimate_call :: "wireint message \<Rightarrow> (string \<times> abi_arg list \<times> string) option" where
  "estimate_call m =
     (if m_event m = EmitMessage then
        Some (MethodRecvMessage, [AString (m_src m), ABig (m_sn m), ABytes (m_data m)], ConnectionContract)
      else if m_event m = SetAdmin then Some (MethodSetAdmin, [AString (m_src m)], ConnectionContract)
      else if m_event m = RevertMessage then Some (MethodRevertMessage, [ABig (m_sn m)], ConnectionContract)
      else if m_event m = ClaimFee then Some (MethodClaimFees, [], ConnectionContract)
      else if m_event m = SetFee then
        Some (MethodSetFee, [AString (m_src m), ABig (m_sn m), ABig (m_reqid m)], ConnectionContract)
      else if m_event m = CallMessage then
        Some (MethodExecuteCall, [ABig (m_reqid m), ABytes (m_data m)], XcallContract)
      else if m_event m = RollbackMessage then Some (MethodExecuteRollback, [ABig (m_sn m)], XcallContract)
      else None)"

definition config_contract :: "evm_config \<Rightarrow> string \<Rightarrow> string" where
  "config_contract p name = (case map_of (cc_Contracts (ec_common p)) name of None \<Rightarrow> '''' | Some a \<Rightarrow> a)"

definition Evm_EstimateGas ::
    "evm_client \<Rightarrow> evm_config \<Rightarrow> string \<Rightarrow> wireint message \<Rightarrow> error + u64" where
  "Evm_EstimateGas cl p wallet m =
     (case estimate_call m of
        None \<Rightarrow> cl_EstimateGas cl \<lparr>cm_From = wallet,
          cm_To = cl_HexToAddress cl (config_contract p ConnectionContract), cm_Data = ''''\<rparr>
      | Some (meth, args, contract) \<Rightarrow>
         (case cl_Pack cl meth args of
            Inl e \<Rightarrow> Inl e
          | Inr data \<Rightarrow> cl_EstimateGas cl \<lparr>cm_From = wallet,
              cm_To = cl_HexToAddress cl (config_contract p contract), cm_Data = data\<rparr>))"

definition Evm_parseErr :: "error \<Rightarrow> string" where
  "Evm_parseErr msg =
     (if Contains msg ErrorLimitLessThanGas then ErrorLimitLessThanGas
      else if Contains msg ErrorLessGas then ErrorLessGas
      else if Contains msg ErrNonceTooLow then ErrNonceTooLow
      else if Contains msg ErrNonceTooHigh then ErrNonceTooHigh
      else ErrUnKnown)"

definition transact_call :: "evm_client \<Rightarrow> wireint message \<Rightarrow> evm_call option" where
  "transact_call cl m =
     (if m_event m = EmitMessage then Some (ReceiveMessageCall (m_src m) (m_sn m) (m_data m))
      else if m_event m = CallMessage then Some (ExecuteCallCall (m_reqid m) (m_data m))
      else if m_event m = SetAdmin then Some (SetAdminCall (cl_HexToAddress cl (m_src m)))
      else if m_event m = RevertMessage then Some (RevertMessageCall (m_sn m))
      else if m_event m = ClaimFee then Some ClaimFeeCall
      else if m_event m = SetFee then Some (SetFeeCall (m_src m) (m_sn m) (m_reqid m))
      else if m_event m = RollbackMessage then Some (ExecuteRollbackCall (m_sn m))
      else None)"

text \<open>
  \<^verbatim>\<open>SendTransaction\<close>. The log line in the middle reads the gas tip and the sequence number through
  their pointers. After a nonce error the tracker is set anew, and the error is returned.
\<close>

definition SendTransaction ::
    "evm_client \<Rightarrow> evm_config \<Rightarrow> gotime \<Rightarrow> transact_opts \<Rightarrow> wireint message \<Rightarrow> evm_state
     \<Rightarrow> string result \<times> evm_state" where
  "SendTransaction cl p now opts m s =
     (let wallet = (case es_wallet s of Some a \<Rightarrow> a | None \<Rightarrow> '''') in
      case Evm_EstimateGas cl p wallet m of
        Inl e \<Rightarrow> (Err (''failed to estimate gas: '' @ e), s)
      | Inr gasLimit \<Rightarrow>
         if gasLimit > ec_GasLimit p then (Err (''gas limit exceeded: '' @ int_str 10 (uint gasLimit)), s)
         else if gasLimit < ec_GasMin p then
           (Err (''gas price less than minimum: '' @ int_str 10 (uint gasLimit)), s)
         else
           let gas = gasLimit + (gasLimit * ec_GasAdjustment p div 100);
               nonce = nt_mem (es_tracker s) (op_Nonce opts)
           in case rbind (ptr_Uint64 (op_GasTipCap opts)) (\<lambda>_. ptr_Uint64 (m_sn m)) of
                Panic e \<Rightarrow> (Panic e, s)
              | Err e \<Rightarrow> (Err e, s)
              | Ok _ \<Rightarrow>
                 (case transact_call cl m of
                    None \<Rightarrow> (Err (''unknown event type: '' @ m_event m), s)
                  | Some call \<Rightarrow>
                     let s1 = s\<lparr>es_sent := es_sent s @ [(call, nonce, gas)]\<rparr> in
                     (case cl_transact cl call of
                        Inr hash \<Rightarrow> (Ok hash, s1)
                      | Inl err \<Rightarrow>
                         if Evm_parseErr err \<in> {ErrNonceTooLow, ErrNonceTooHigh, ErrorLessGas} then
                           (case cl_PendingNonceAt cl wallet of
                              Inl e \<Rightarrow> (Err e, s1)
                            | Inr i \<Rightarrow>
                               let (q, t) = big_new i (es_tracker s1)
                               in (Err err, s1\<lparr>es_tracker := Nonce_Set now wallet q t\<rparr>))
                         else (Err err, s1))))"

text \<open>\<^verbatim>\<open>WaitForResults\<close> polls for the receipt, at most \<^verbatim>\<open>MaximumPollTry\<close> times.\<close>

function WaitForResults_loop :: "(nat \<Rightarrow> tick) \<Rightarrow> nat \<Rightarrow> evm_receipt result" where
  "WaitForResults_loop query counter =
     (case query counter of
        Done e \<Rightarrow> Err e
      | Tick answer \<Rightarrow>
         if counter \<ge> MaximumPollTry then
           Err (''failed to get receipt after '' @ int_str 10 (int counter) @ '' tries'')
         else (case answer of
            Receipt r \<Rightarrow> Ok r
          | NotFound \<Rightarrow> WaitForResults_loop query (counter + 1)
          | QueryError e \<Rightarrow> Err e))"
  by pat_completeness auto
termination by (relation "measure (\<lambda>(q, c). MaximumPollTry - c)") auto

declare WaitForResults_loop.simps [simp del]

definition Evm_WaitForResults :: "evm_client \<Rightarrow> string \<Rightarrow> evm_receipt result" where
  "Evm_WaitForResults cl hash = WaitForResults_loop (cl_TransactionReceipt cl hash) 0"

type_synonym callbacks = "(wireint message_key \<times> tx_response \<times> error option) list"

text \<open>The callbacks made and the error returned; a callback is always given by the relayer.\<close>

definition Evm_WaitForTxResult ::
    "evm_client \<Rightarrow> string \<Rightarrow> wireint message_key \<Rightarrow> (callbacks \<times> error option) result" where
  "Evm_WaitForTxResult cl tx m =
     (let res = \<lparr>tr_height = 0, tr_txhash = tx, tr_codespace = '''', tr_code = Failed, tr_data = ''''\<rparr> in
      case Evm_WaitForResults cl tx of
        Panic e \<Rightarrow> Panic e
      | Err e \<Rightarrow> Ok ([(m, res, Some e)], Some e)
      | Ok txReceipts \<Rightarrow>
         let res1 = res\<lparr>tr_height := big_Int64 (er_BlockNumber txReceipts)\<rparr> in
         if er_Status txReceipts \<noteq> 1 then
           rbind (ptr_Uint64 (k_sn m)) (\<lambda>_.
             Ok ([(m, res1, Some ''transaction failed to execute'')], Some ''transaction failed to execute''))
         else Ok ([(m, res1\<lparr>tr_code := Success\<rparr>, None)], None))"

definition Evm_Route ::
    "evm_client \<Rightarrow> evm_config \<Rightarrow> gotime \<Rightarrow> wireint message \<Rightarrow> evm_state
     \<Rightarrow> (callbacks \<times> error option) result \<times> evm_state" where
  "Evm_Route cl p now message s =
     (case GetTransationOpts cl now s of
        (Panic e, s1) \<Rightarrow> (Panic e, s1)
      | (Err e, s1) \<Rightarrow> (Ok ([], Some (''routing failed: '' @ e)), s1)
      | (Ok opts, s1) \<Rightarrow>
         (case SendTransaction cl p now opts message s1 of
            (Panic e, s2) \<Rightarrow> (Panic e, s2)
          | (Err e, s2) \<Rightarrow> (Ok ([], Some (''routing failed: '' @ e)), s2)
          | (Ok tx, s2) \<Rightarrow> (Evm_WaitForTxResult cl tx (MessageKey message), s2)))"

section \<open>Administration\<close>

definition admin_message :: "string \<Rightarrow> wireint message" where
  "admin_message ev = \<lparr>m_dst = '''', m_src = '''', m_sn = None, m_data = '''', m_height = 0,
     m_event = ev, m_reqid = None\<rparr>"

definition admin_call ::
    "evm_client \<Rightarrow> evm_config \<Rightarrow> gotime \<Rightarrow> wireint message \<Rightarrow> string \<Rightarrow> evm_state
     \<Rightarrow> unit result \<times> evm_state" where
  "admin_call cl p now msg failed s =
     (case GetTransationOpts cl now s of
        (Panic e, s1) \<Rightarrow> (Panic e, s1)
      | (Err e, s1) \<Rightarrow> (Err e, s1)
      | (Ok opts, s1) \<Rightarrow>
         (case SendTransaction cl p now opts msg s1 of
            (Panic e, s2) \<Rightarrow> (Panic e, s2)
          | (Err e, s2) \<Rightarrow> (Err e, s2)
          | (Ok tx, s2) \<Rightarrow>
             (case Evm_WaitForResults cl tx of
                Panic e \<Rightarrow> (Panic e, s2)
              | Err e \<Rightarrow> (Err e, s2)
              | Ok r \<Rightarrow> (if er_Status r \<noteq> 1 then Err (failed @ '': %!s(<nil>)'') else Ok (), s2))))"

definition Evm_RevertMessage where
  "Evm_RevertMessage cl p now sn s =
     admin_call cl p now ((admin_message RevertMessage)\<lparr>m_sn := sn\<rparr>) ''failed to revert message'' s"

definition Evm_ClaimFee where
  "Evm_ClaimFee cl p now s = admin_call cl p now (admin_message ClaimFee) ''failed to revert message'' s"

definition Evm_SetFee where
  "Evm_SetFee cl p now networkID msgFee resFee s =
     admin_call cl p now ((admin_message SetFee)\<lparr>m_src := networkID, m_sn := msgFee, m_reqid := resFee\<rparr>)
       ''failed to set fee'' s"

definition Evm_ExecuteRollback where
  "Evm_ExecuteRollback cl p now sn s =
     admin_call cl p now ((admin_message RollbackMessage)\<lparr>m_sn := sn\<rparr>) ''failed to execute rollback'' s"

text \<open>
  \<^verbatim>\<open>SetAdmin\<close> overwrites the error of \<^verbatim>\<open>SendTransaction\<close> and waits for the nil transaction it came
  with, whose hash the first tick of the polling loop reads.
\<close>

definition Evm_SetAdmin ::
    "evm_client \<Rightarrow> evm_config \<Rightarrow> gotime \<Rightarrow> string \<Rightarrow> evm_state \<Rightarrow> unit result \<times> evm_state" where
  "Evm_SetAdmin cl p now admin s =
     (case GetTransationOpts cl now s of
        (Panic e, s1) \<Rightarrow> (Panic e, s1)
      | (Err e, s1) \<Rightarrow> (Err e, s1)
      | (Ok opts, s1) \<Rightarrow>
         (case SendTransaction cl p now opts ((admin_message SetAdmin)\<lparr>m_dst := admin\<rparr>) s1 of
            (Panic e, s2) \<Rightarrow> (Panic e, s2)
          | (Err e, s2) \<Rightarrow>
             (case cl_TransactionReceipt cl '''' 0 of
                Done e' \<Rightarrow> (Err e', s2)
              | Tick answer \<Rightarrow> (Panic ''nil pointer dereference'', s2))
          | (Ok tx, s2) \<Rightarrow>
             (case Evm_WaitForResults cl tx of
                Panic e \<Rightarrow> (Panic e, s2)
              | Err e \<Rightarrow> (Err e, s2)
              | Ok r \<Rightarrow> (if er_Status r \<noteq> 1 then Err ''failed to set admin: %!s(<nil>)'' else Ok (), s2))))"

text \<open>\<^verbatim>\<open>GetFee\<close> does not look at \<open>responseFee\<close>.\<close>

definition Evm_GetFee :: "evm_client \<Rightarrow> string \<Rightarrow> bool \<Rightarrow> error + u64" where
  "Evm_GetFee cl networkID responseFee = (case cl_GetFee cl networkID of
      Inl e \<Rightarrow> Inl e | Inr fee \<Rightarrow> Inr (big_Uint64 fee))"

end
