(* ===== verification/Evm_Example.thy ===== *)
theory Evm_Example
  imports Evm
begin

text \<open>
  A concrete EVM chain for the witnesses: latest height 120, one connection contract, one message
  log at height 57, logs that are served at the second attempt, and a node that mines every
  transaction at height 121.
\<close>

definition ex_evm_config :: evm_config where
  "ex_evm_config = \<lparr>ec_common =
     \<lparr>cc_ChainName = ''avalanche'', cc_RPCUrl = '''', cc_StartHeight = 0, cc_Address = ''0xaa'',
      cc_Contracts = [(ConnectionContract, ''0xc0'')], cc_FinalityBlock = 10, cc_NID = ''evm'',
      cc_HomeDir = ''/'', cc_Disabled = False\<rparr>,
     ec_WebsocketUrl = '''', ec_GasMin = 100, ec_GasLimit = 1000, ec_GasAdjustment = 50,
     ec_BlockBatchSize = 50\<rparr>"

definition ex_log :: elog where
  "ex_log = \<lparr>lg_Topics = [EvmEmitMessage], lg_Data = ''data'', lg_BlockNumber = 57, lg_TxHash = ''0x01''\<rparr>"

definition ex_logs_at :: "nat \<Rightarrow> elog list" where
  "ex_logs_at h = (if h = 57 then [ex_log] else [])"

definition ex_filter :: "filter_query \<Rightarrow> nat \<Rightarrow> error + elog list" where
  "ex_filter f attempt =
     (if attempt = 0 then Inl ''timeout''
      else case (fq_FromBlock f, fq_ToBlock f) of
          (Some a, Some b) \<Rightarrow> Inr (concat (map ex_logs_at [unat a..<Suc (unat b)]))
        | _ \<Rightarrow> Inl ''no range'')"

definition ex_client :: evm_client where
  "ex_client =
     \<lparr>cl_GetBlockNumber = Inr 120, cl_GetHeaderByHeight = (\<lambda>_. None), cl_FilterLogs = ex_filter,
      cl_SuggestGasPrice = Inr 7, cl_SuggestGasTip = Inr 1, cl_PendingNonceAt = (\<lambda>_. Inr 17),
      cl_TransactionReceipt = (\<lambda>_ attempt. Tick (if attempt < 2 then NotFound
        else Receipt \<lparr>er_BlockNumber = 121, er_Status = 1\<rparr>)),
      cl_EstimateGas = (\<lambda>_. Inr 200), cl_transact = (\<lambda>_. Inr ''0xbeef''),
      cl_MessageReceived = (\<lambda>_ _. Inr False), cl_GetFee = (\<lambda>_. Inr 3), cl_GetBalance = (\<lambda>_. Inr 9),
      cl_ParseConnectionMessage = (\<lambda>log. Inr (''icon'', 4, lg_Data log)),
      cl_ParseCallMessage = (\<lambda>_. Inl ''no''), cl_ParseRollbackMessage = (\<lambda>_. Inl ''no''),
      cl_Pack = (\<lambda>_ _. Inr ''packed''), cl_NewTransactor = None, cl_RestoreKeystore = Inr ''0xaa'',
      cl_HexToAddress = (\<lambda>s. s), cl_Keccak256 = (\<lambda>s. s)\<rparr>"

definition ex_evm_state :: evm_state where
  "ex_evm_state = \<lparr>es_tracker = NewNonceTracker, es_wallet = None, es_sent = []\<rparr>"

definition ex_evm_message :: "wireint message" where
  "ex_evm_message = \<lparr>m_dst = ''evm'', m_src = ''icon'', m_sn = Some 4, m_data = ''data'', m_height = 3,
     m_event = EmitMessage, m_reqid = None\<rparr>"

end
