(* ===== verification/Relay.thy ===== *)
theory Relay
  imports Chain
begin

text \<open>
  \<^verbatim>\<open>relayer/relay.go\<close>: the relayer's state and every handler of it, as state transformers.

  A handler runs as a goroutine of its own in the program; here each is one function on the
  state, and \<open>Relay_Steps\<close> interleaves them. A Go map is ranged over in an arbitrary order, so the
  handlers that range over \<^verbatim>\<open>r.chains\<close> take the order as an argument (\<open>nids\<close>, or \<open>visits\<close> for the
  nested range of \<^verbatim>\<open>processMessages\<close>). Logging is left out, except for its one effect: a log line
  that evaluates \<^verbatim>\<open>message.Sn.Uint64()\<close> panics when \<^verbatim>\<open>Sn\<close> is nil (\<open>log_sn\<close>).

  A goroutine started by \<^verbatim>\<open>go r.RouteMessage(...)\<close> is a \<open>task\<close>: it has been spawned, is inside the
  provider's \<^verbatim>\<open>Route\<close>, or has returned (its callback may still be called then).
\<close>

section \<open>State\<close>

datatype task_phase = Spawned | Routing | Returned

record task =
  tk_ref :: nat
  tk_src :: string
  tk_dst :: string
  tk_phase :: task_phase

record 'd relayer =
  r_db :: 'd
  r_chains :: "(string \<times> chain_runtime) list"
  r_heap :: heap
  r_tasks :: "task list"

definition maxFlushMessage :: u64 where "maxFlushMessage = 10"
definition MessageExpiration :: i64 where "MessageExpiration = 24 * 3600 * 1000000000"
definition prefixMessageStore :: string where "prefixMessageStore = ''message''"
definition prefixBlockStore :: string where "prefixBlockStore = ''block''"
definition prefixFinalityStore :: string where "prefixFinalityStore = ''finality''"

lemmas prefix_defs = prefixMessageStore_def prefixBlockStore_def prefixFinalityStore_def

definition upd_chain :: "string \<Rightarrow> (chain_runtime \<Rightarrow> chain_runtime) \<Rightarrow> 'd relayer \<Rightarrow> 'd relayer" where
  "upd_chain nid f s = s\<lparr>r_chains := AList.map_entry nid f (r_chains s)\<rparr>"

definition upd_cache :: "string \<Rightarrow> (cache \<Rightarrow> cache) \<Rightarrow> 'd relayer \<Rightarrow> 'd relayer" where
  "upd_cache nid f s = upd_chain nid (\<lambda>rt. rt\<lparr>cr_MessageCache := f (cr_MessageCache rt)\<rparr>) s"

definition log_sn :: "bigptr \<Rightarrow> unit result" where
  "log_sn p = rmap (\<lambda>_. ()) (ptr_Uint64 (unptr p))"

section \<open>Construction\<close>

fun new_runtimes ::
    "('d, 'v) store \<Rightarrow> 'v codec \<Rightarrow> 'd \<Rightarrow> (string \<times> chain_runtime) list \<Rightarrow> (string \<times> chain option) list
     \<Rightarrow> (string \<times> chain_runtime) list result" where
  "new_runtimes S C db out [] = Ok out"
| "new_runtimes S C db out ((name, chain) # rest) =
     rbind (NewChainRuntime chain) (\<lambda>rt.
       let nid = pv_NID (cr_Provider rt);
           rt' = (case GetLastStoredBlock S C prefixBlockStore nid db of
                    Inl e \<Rightarrow> rt
                  | Inr h \<Rightarrow> rt\<lparr>cr_LastSavedHeight := h\<rparr>)
       in new_runtimes S C db (AList.update nid rt' out) rest)"

definition NewRelayer ::
    "('d, 'v) store \<Rightarrow> 'v codec \<Rightarrow> 'd \<Rightarrow> (string \<times> chain option) list \<Rightarrow> bool \<Rightarrow> 'd relayer result" where
  "NewRelayer S C db chs fresh =
     (let (err, db') = (if fresh then st_ClearStore S db else (None, db))
      in case err of
           Some e \<Rightarrow> Err e
         | None \<Rightarrow> rbind (new_runtimes S C db' [] chs) (\<lambda>rts.
             Ok \<lparr>r_db = db', r_chains = rts,
                 r_heap = \<lparr>hp_routes = (\<lambda>_. None), hp_next = 0\<rparr>, r_tasks = []\<rparr>))"

definition FindChainRuntime :: "string \<Rightarrow> 'd relayer \<Rightarrow> chain_runtime result" where
  "FindChainRuntime nId s = (case map_of (r_chains s) nId of
      Some chain \<Rightarrow> Ok chain
    | None \<Rightarrow> Err (''chain runtime not found, nId:'' @ nId @ '' ''))"

definition GetAllChainsRuntime :: "'d relayer \<Rightarrow> chain_runtime list" where
  "GetAllChainsRuntime s = map snd (r_chains s)"

section \<open>Clearing messages\<close>

fun delete_messages ::
    "('d, 'v) store \<Rightarrow> bigptr message_key list \<Rightarrow> 'd \<Rightarrow> error option \<times> 'd" where
  "delete_messages S [] db = (None, db)"
| "delete_messages S (m # msgs) db =
     (case DeleteMessage S prefixMessageStore m db of
        (Some e, db') \<Rightarrow> (Some e, db')
      | (None, db') \<Rightarrow> delete_messages S msgs db')"

definition ClearMessages ::
    "('d, 'v) store \<Rightarrow> bigptr message_key list \<Rightarrow> string \<Rightarrow> 'd relayer \<Rightarrow> error option \<times> 'd relayer" where
  "ClearMessages S msgs srcChain s =
     (let s1 = upd_cache srcChain (clearMessageFromCache msgs) s;
          (err, db') = delete_messages S msgs (r_db s1)
      in (err, s1\<lparr>r_db := db'\<rparr>))"

definition PruneDB :: "('d, 'v) store \<Rightarrow> 'd relayer \<Rightarrow> error option \<times> 'd relayer" where
  "PruneDB S s = (let (err, db') = st_ClearStore S (r_db s) in (err, s\<lparr>r_db := db'\<rparr>))"

section \<open>Flushing stored messages into the caches\<close>

definition getActiveMessagesFromStore ::
    "('d, 'v) store \<Rightarrow> 'v codec \<Rightarrow> string \<Rightarrow> u64 \<Rightarrow> 'd \<Rightarrow> error + wireint route_message list" where
  "getActiveMessagesFromStore S C nId maxMessages db =
     (case GetMessages S C prefixMessageStore nId (WithLimit maxMessages NewPagination) db of
        Inl e \<Rightarrow> Inl e
      | Inr msgs \<Rightarrow> Inr (filter (\<lambda>m. \<not> IsStale m) msgs))"

fun add_stored :: "wireint route_message list \<Rightarrow> cache \<times> heap \<Rightarrow> cache \<times> heap" where
  "add_stored [] ch = ch"
| "add_stored (w # ws) ch =
     (let (r, h') = new_stored_route w (snd ch) in add_stored ws (cache_add_new r (fst ch, h')))"

definition flush_chain ::
    "('d, 'v) store \<Rightarrow> 'v codec \<Rightarrow> string \<Rightarrow> 'd relayer \<Rightarrow> 'd relayer" where
  "flush_chain S C key s = (case map_of (r_chains s) key of
      None \<Rightarrow> s
    | Some chain \<Rightarrow>
       (case getActiveMessagesFromStore S C (pv_NID (cr_Provider chain)) maxFlushMessage (r_db s) of
          Inl e \<Rightarrow> s
        | Inr messages \<Rightarrow>
            let (c', h') = add_stored messages (cr_MessageCache chain, r_heap s)
            in upd_cache key (\<lambda>_. c') (s\<lparr>r_heap := h'\<rparr>)))"

definition flushMessages ::
    "('d, 'v) store \<Rightarrow> 'v codec \<Rightarrow> string list \<Rightarrow> 'd relayer \<Rightarrow> 'd relayer" where
  "flushMessages S C nids s = fold (flush_chain S C) nids s"

section \<open>Routing\<close>

definition toggle :: "nat \<Rightarrow> 'd relayer \<Rightarrow> 'd relayer" where
  "toggle ref s = (case hp_routes (r_heap s) ref of
      None \<Rightarrow> s
    | Some m \<Rightarrow> s\<lparr>r_heap := set_route ref (ToggleProcessing m) (r_heap s)\<rparr>)"

definition spawn :: "nat \<Rightarrow> string \<Rightarrow> string \<Rightarrow> 'd relayer \<Rightarrow> 'd relayer" where
  "spawn ref dst src s =
     s\<lparr>r_tasks := \<lparr>tk_ref = ref, tk_src = src, tk_dst = dst, tk_phase = Spawned\<rparr> # r_tasks s\<rparr>"

text \<open>The body of the inner loop of \<^verbatim>\<open>processMessages\<close>, for one entry of the cache of \<open>src\<close>.\<close>

definition process_entry ::
    "('d, 'v) store \<Rightarrow> env \<Rightarrow> string \<Rightarrow> bigptr message_key \<Rightarrow> nat \<Rightarrow> bigptr route_message
     \<Rightarrow> 'd relayer \<Rightarrow> 'd relayer result" where
  "process_entry S E src key ref message s =
     (case FindChainRuntime (m_dst (rm_msg message)) s of
        Err e \<Rightarrow> Ok (snd (ClearMessages S [key] src s))
      | Panic e \<Rightarrow> Panic e
      | Ok dst \<Rightarrow>
         if \<not> shouldSendMessage E (pv_NID (cr_Provider dst)) (Some message) src then Ok s
         else let s1 = toggle ref s in
          (case ev_MessageReceived E (pv_NID (cr_Provider dst)) (wire_key key) of
             Inl e \<Rightarrow> rbind (log_sn (m_sn (rm_msg message))) (\<lambda>_. Ok (toggle ref s1))
           | Inr True \<Rightarrow>
               rbind (log_sn (m_sn (rm_msg message))) (\<lambda>_. Ok (snd (ClearMessages S [key] src s1)))
           | Inr False \<Rightarrow> Ok (spawn ref (pv_NID (cr_Provider dst)) src s1)))"

text \<open>An entry that was removed before the range reached it is not visited.\<close>

definition process_message ::
    "('d, 'v) store \<Rightarrow> env \<Rightarrow> string \<Rightarrow> bigptr message_key \<Rightarrow> 'd relayer \<Rightarrow> 'd relayer result" where
  "process_message S E src key s = (case map_of (r_chains s) src of
      None \<Rightarrow> Ok s
    | Some rt \<Rightarrow> (case MessageCache_Get key (cr_MessageCache rt) of
        None \<Rightarrow> Ok s
      | Some ref \<Rightarrow> (case hp_routes (r_heap s) ref of
          None \<Rightarrow> Ok s
        | Some message \<Rightarrow> process_entry S E src key ref message s)))"

fun processMessages ::
    "('d, 'v) store \<Rightarrow> env \<Rightarrow> (string \<times> bigptr message_key) list \<Rightarrow> 'd relayer \<Rightarrow> 'd relayer result" where
  "processMessages S E [] s = Ok s"
| "processMessages S E ((src, key) # visits) s =
     rbind (process_message S E src key s) (processMessages S E visits)"

definition callback ::
    "('d, 'v) store \<Rightarrow> 'v codec \<Rightarrow> string \<Rightarrow> string \<Rightarrow> bigptr message_key \<Rightarrow> tx_response \<Rightarrow> error option
     \<Rightarrow> 'd relayer \<Rightarrow> 'd relayer result" where
  "callback S C src dst key response err s =
     (case (map_of (r_chains s) src, map_of (r_chains s) dst) of
        (Some srcrt, Some dstrt) \<Rightarrow>
          (case Option.bind (MessageCache_Get key (cr_MessageCache srcrt)) (hp_routes (r_heap s)) of
             None \<Rightarrow> Ok s
           | Some routeMessage \<Rightarrow>
             if tr_code response = Success then
               rbind (log_sn (k_sn key)) (\<lambda>_.
                 if pv_FinalityBlock (cr_Provider dstrt) > 0 then
                   let txObj = NewTransactionObject key (m_height (rm_msg routeMessage))
                                 (tr_txhash response) (tr_height response);
                       (e, db') = StoreTxObject S C prefixFinalityStore (Some txObj) (r_db s);
                       s1 = s\<lparr>r_db := db'\<rparr>
                   in case e of Some e' \<Rightarrow> Ok s1 | None \<Rightarrow> Ok (snd (ClearMessages S [key] src s1))
                 else Ok (snd (ClearMessages S [key] src s)))
             else Ok s)
      | _ \<Rightarrow> Ok s)"

definition HandleMessageFailed ::
    "('d, 'v) store \<Rightarrow> 'v codec \<Rightarrow> nat \<Rightarrow> string \<Rightarrow> 'd relayer \<Rightarrow> 'd relayer result" where
  "HandleMessageFailed S C ref src s =
     (let s1 = toggle ref s in
      case hp_routes (r_heap s1) ref of
        None \<Rightarrow> Ok s1
      | Some routeMessage \<Rightarrow>
         if rm_retry routeMessage \<ge> MaxTxRetry then
           let (err, db') = StoreMessage S C prefixMessageStore (Some routeMessage) (r_db s1);
               s2 = s1\<lparr>r_db := db'\<rparr>
           in case err of
                Some e \<Rightarrow> Ok s2
              | None \<Rightarrow>
                  rbind (log_sn (m_sn (rm_msg routeMessage)))
                    (\<lambda>_. Ok (upd_cache src (MessageCache_Remove (MessageKey (rm_msg routeMessage))) s2))
         else Ok s1)"

text \<open>
  \<^verbatim>\<open>RouteMessage\<close> up to the provider's \<^verbatim>\<open>Route\<close>, and from its return on. In between the provider
  may call the callback any number of times.
\<close>

definition RouteMessage_begin :: "env \<Rightarrow> nat \<Rightarrow> 'd relayer \<Rightarrow> 'd relayer" where
  "RouteMessage_begin E ref s = (case hp_routes (r_heap s) ref of
      None \<Rightarrow> s
    | Some m \<Rightarrow> s\<lparr>r_heap := set_route ref (IncrementRetry (ev_now E) m) (r_heap s)\<rparr>)"

definition RouteMessage_end ::
    "('d, 'v) store \<Rightarrow> 'v codec \<Rightarrow> nat \<Rightarrow> string \<Rightarrow> error option \<Rightarrow> 'd relayer \<Rightarrow> 'd relayer result" where
  "RouteMessage_end S C ref src err s =
     (case err of None \<Rightarrow> Ok s | Some e \<Rightarrow> HandleMessageFailed S C ref src s)"

fun run_callbacks ::
    "('d, 'v) store \<Rightarrow> 'v codec \<Rightarrow> string \<Rightarrow> string \<Rightarrow> (bigptr message_key \<times> tx_response \<times> error option) list
     \<Rightarrow> 'd relayer \<Rightarrow> 'd relayer result" where
  "run_callbacks S C src dst [] s = Ok s"
| "run_callbacks S C src dst ((key, response, err) # cbs) s =
     rbind (callback S C src dst key response err s) (run_callbacks S C src dst cbs)"

definition RouteMessage ::
    "('d, 'v) store \<Rightarrow> 'v codec \<Rightarrow> env \<Rightarrow> nat \<Rightarrow> string \<Rightarrow> string
     \<Rightarrow> (bigptr message_key \<times> tx_response \<times> error option) list \<Rightarrow> error option
     \<Rightarrow> 'd relayer \<Rightarrow> 'd relayer result" where
  "RouteMessage S C E ref dst src cbs err s =
     rbind (run_callbacks S C src dst cbs (RouteMessage_begin E ref s))
       (RouteMessage_end S C ref src err)"

section \<open>New blocks and heights\<close>

fun block_messages ::
    "('d, 'v) store \<Rightarrow> 'v codec \<Rightarrow> wireint message list \<Rightarrow> cache \<times> heap \<times> 'd \<Rightarrow> cache \<times> heap \<times> 'd" where
  "block_messages S C [] chd = chd"
| "block_messages S C (m # msgs) chd =
     (let (c, h, db) = chd;
          (bm, h1) = new_message m h;
          msg = NewRouteMessage bm;
          (c', h') = cache_add_new msg (c, h1);
          (err, db') = StoreMessage S C prefixMessageStore (Some msg) db
      in block_messages S C msgs (c', h', db'))"

definition processBlockInfo ::
    "('d, 'v) store \<Rightarrow> 'v codec \<Rightarrow> string \<Rightarrow> block_info \<Rightarrow> 'd relayer \<Rightarrow> 'd relayer" where
  "processBlockInfo S C src blockInfo s = (case map_of (r_chains s) src of
      None \<Rightarrow> s
    | Some rt \<Rightarrow>
       let (c', h', db') =
             block_messages S C (bi_messages blockInfo) (cr_MessageCache rt, r_heap s, r_db s)
       in upd_chain src (\<lambda>rt. rt\<lparr>cr_LastBlockHeight := bi_height blockInfo, cr_MessageCache := c'\<rparr>)
            (s\<lparr>r_heap := h', r_db := db'\<rparr>))"

definition SaveBlockHeight ::
    "('d, 'v) store \<Rightarrow> 'v codec \<Rightarrow> string \<Rightarrow> u64 \<Rightarrow> 'd relayer \<Rightarrow> error option \<times> 'd relayer" where
  "SaveBlockHeight S C nid height s = (case map_of (r_chains s) nid of
      None \<Rightarrow> (None, s)
    | Some rt \<Rightarrow>
       let s1 = upd_chain nid (\<lambda>rt. rt\<lparr>cr_LastSavedHeight := height, cr_LastBlockHeight := height\<rparr>) s;
           (err, db') = StoreBlock S C prefixBlockStore height (pv_NID (cr_Provider rt)) (r_db s1)
       in (err, s1\<lparr>r_db := db'\<rparr>))"

definition save_chain_height ::
    "('d, 'v) store \<Rightarrow> 'v codec \<Rightarrow> env \<Rightarrow> string \<Rightarrow> 'd relayer \<Rightarrow> 'd relayer" where
  "save_chain_height S C E nid s = (case map_of (r_chains s) nid of
      None \<Rightarrow> s
    | Some rt \<Rightarrow> (case ev_QueryLatestHeight E (pv_NID (cr_Provider rt)) of
        Inl e \<Rightarrow> s
      | Inr height \<Rightarrow> snd (SaveBlockHeight S C nid height s)))"

definition SaveChainsBlockHeight ::
    "('d, 'v) store \<Rightarrow> 'v codec \<Rightarrow> env \<Rightarrow> string list \<Rightarrow> 'd relayer \<Rightarrow> 'd relayer" where
  "SaveChainsBlockHeight S C E nids s = fold (save_chain_height S C E) nids s"

section \<open>Finality\<close>

definition merge_into :: "string \<Rightarrow> wireint message list \<Rightarrow> 'd relayer \<Rightarrow> 'd relayer" where
  "merge_into nid messages s = (case map_of (r_chains s) nid of
      None \<Rightarrow> s
    | Some rt \<Rightarrow>
       let (c', h') = mergeMessages messages (cr_MessageCache rt, r_heap s)
       in upd_cache nid (\<lambda>_. c') (s\<lparr>r_heap := h'\<rparr>))"

definition delete_tx ::
    "('d, 'v) store \<Rightarrow> wireint tx_object \<Rightarrow> 'd relayer \<Rightarrow> error option \<times> 'd relayer" where
  "delete_tx S t s =
     (let key = alloc_key (hp_next (r_heap s)) (to_key t);
          (err, db') = DeleteTxObject S prefixFinalityStore key (r_db s)
      in (err, s\<lparr>r_db := db', r_heap := (r_heap s)\<lparr>hp_next := hp_next (r_heap s) + 1\<rparr>\<rparr>))"

definition check_tx ::
    "('d, 'v) store \<Rightarrow> env \<Rightarrow> string \<Rightarrow> u64 \<Rightarrow> u64 \<Rightarrow> wireint tx_object \<Rightarrow> 'd relayer \<Rightarrow> 'd relayer" where
  "check_tx S E nid finalityBlock latestHeight t s =
     (if to_txheight t = 0 then s
      else if to_txheight t + finalityBlock > latestHeight then s
      else case ev_QueryTransactionReceipt E nid (to_txhash t) of
          Inl e \<Rightarrow> s
        | Inr receipt \<Rightarrow>
          if rc_status receipt then snd (delete_tx S t s)
          else case map_of (r_chains s) (k_src (to_key t)) of
              None \<Rightarrow> s
            | Some srcrt \<Rightarrow>
              (case delete_tx S t s of
                 (Some e, s1) \<Rightarrow> s1
               | (None, s1) \<Rightarrow>
                 (case ev_GenerateMessages E (pv_NID (cr_Provider srcrt)) (to_key t) (to_msgheight t) of
                    Inl e \<Rightarrow> s1
                  | Inr messages \<Rightarrow> merge_into (k_src (to_key t)) messages s1)))"

definition check_chain_finality ::
    "('d, 'v) store \<Rightarrow> 'v codec \<Rightarrow> env \<Rightarrow> string \<Rightarrow> 'd relayer \<Rightarrow> 'd relayer" where
  "check_chain_finality S C E nid s = (case map_of (r_chains s) nid of
      None \<Rightarrow> s
    | Some c \<Rightarrow>
       let finalityBlock = pv_FinalityBlock (cr_Provider c);
           latestHeight = cr_LastBlockHeight c
       in if finalityBlock > 0 then
            (case GetTxObjects S C prefixFinalityStore nid (WithLimit 10 NewPagination) (r_db s) of
               Inl e \<Rightarrow> s
             | Inr txObjects \<Rightarrow>
                 fold (check_tx S E (pv_NID (cr_Provider c)) finalityBlock latestHeight) txObjects s)
          else s)"

definition CheckFinality ::
    "('d, 'v) store \<Rightarrow> 'v codec \<Rightarrow> env \<Rightarrow> string list \<Rightarrow> 'd relayer \<Rightarrow> 'd relayer" where
  "CheckFinality S C E nids s = fold (check_chain_finality S C E) nids s"

section \<open>Expired messages\<close>

definition clean_message ::
    "('d, 'v) store \<Rightarrow> env \<Rightarrow> string \<Rightarrow> wireint route_message \<Rightarrow> 'd relayer \<Rightarrow> 'd relayer" where
  "clean_message S E nid w s =
     (let (m, h') = new_stored_route w (r_heap s);
          s1 = s\<lparr>r_heap := h'\<rparr>
      in if IsElasped (ev_now E) MessageExpiration m
         then snd (ClearMessages S [MessageKey (rm_msg m)] nid s1) else s1)"

definition clean_chain ::
    "('d, 'v) store \<Rightarrow> 'v codec \<Rightarrow> env \<Rightarrow> string \<Rightarrow> 'd relayer \<Rightarrow> 'd relayer" where
  "clean_chain S C E nid s =
     (case GetMessages S C prefixMessageStore nid (WithLimit maxFlushMessage NewPagination) (r_db s) of
        Inl e \<Rightarrow> s
      | Inr messages \<Rightarrow> fold (clean_message S E nid) messages s)"

definition cleanExpiredMessages ::
    "('d, 'v) store \<Rightarrow> 'v codec \<Rightarrow> env \<Rightarrow> string list \<Rightarrow> 'd relayer \<Rightarrow> 'd relayer" where
  "cleanExpiredMessages S C E nids s = fold (clean_chain S C E) nids s"

section \<open>Start and the router's timers\<close>

text \<open>The periods of the tickers in nanoseconds; a stopped ticker has period 0.\<close>

record timers =
  tm_route :: i64
  tm_flush :: i64
  tm_height :: i64
  tm_clean :: i64
  tm_reset :: i64

definition StartRouter_timers :: timers where
  "StartRouter_timers = \<lparr>tm_route = RouteDuration, tm_flush = 1000000000,
     tm_height = 5 * 60 * 1000000000, tm_clean = 1000000000, tm_reset = 3 * 1000000000\<rparr>"

datatype router_event = FlushTick | RouteTick | HeightTick | CleanTick | ResetTick

definition StartRouter_select ::
    "('d, 'v) store \<Rightarrow> 'v codec \<Rightarrow> env \<Rightarrow> i64 \<Rightarrow> string list \<Rightarrow> (string \<times> bigptr message_key) list
     \<Rightarrow> router_event \<Rightarrow> timers \<times> 'd relayer \<Rightarrow> (timers \<times> 'd relayer) result" where
  "StartRouter_select S C E flushInterval nids visits ev ts =
     (let (t, s) = ts in
      case ev of
        FlushTick \<Rightarrow> Ok (t, flushMessages S C nids s)
      | RouteTick \<Rightarrow> rmap (Pair t) (processMessages S E visits s)
      | HeightTick \<Rightarrow> Ok (t, SaveChainsBlockHeight S C E nids s)
      | CleanTick \<Rightarrow> Ok (t, cleanExpiredMessages S C E nids s)
      | ResetTick \<Rightarrow>
          Ok (t\<lparr>tm_reset := 0, tm_flush := flushInterval, tm_clean := 6 * 3600 * 1000000000\<rparr>, s))"

text \<open>What \<^verbatim>\<open>Start\<close> does before it starts the goroutines.\<close>

definition Start_flush ::
    "('d, 'v) store \<Rightarrow> 'v codec \<Rightarrow> string list \<Rightarrow> bool \<Rightarrow> 'd relayer \<Rightarrow> 'd relayer" where
  "Start_flush S C nids fresh s = (if fresh then flushMessages S C nids s else s)"

end
