(* ===== verification/Relay_Inv.thy ===== *)
theory Relay_Inv
  imports Relay
begin

text \<open>
  The relayer's invariant \<open>relayer_ok\<close> and its preservation by every operation of \<open>Relay\<close>: the chains are
  stored under their NIDs, every cache entry leads to a route message with exactly that key,
  every routing goroutine that has not returned owns an object that is marked as processing,
  and no two of them own the same object.
\<close>

section \<open>Heaps and caches\<close>

definition heap_ok :: "heap \<Rightarrow> bool" where
  "heap_ok h = (\<forall>ref. hp_routes h ref \<noteq> None \<longrightarrow> ref < hp_next h)"

text \<open>\<open>h'\<close> keeps all objects of \<open>h\<close>, possibly changed, but never their messages.\<close>

definition heap_le :: "heap \<Rightarrow> heap \<Rightarrow> bool" where
  "heap_le h h' = (hp_next h \<le> hp_next h' \<and>
     (\<forall>ref m. hp_routes h ref = Some m \<longrightarrow> (\<exists>m'. hp_routes h' ref = Some m' \<and> rm_msg m' = rm_msg m)))"

text \<open>\<open>h'\<close> only adds objects.\<close>

definition heap_grows :: "heap \<Rightarrow> heap \<Rightarrow> bool" where
  "heap_grows h h' = (hp_next h \<le> hp_next h' \<and> hp_routes h \<subseteq>\<^sub>m hp_routes h')"

definition key_below :: "nat \<Rightarrow> bigptr message_key \<Rightarrow> bool" where
  "key_below n k = (case k_sn k of None \<Rightarrow> True | Some (a, i) \<Rightarrow> a < n)"

definition cache_ok :: "heap \<Rightarrow> cache \<Rightarrow> bool" where
  "cache_ok h c = (cache_invar c \<and>
     (\<forall>k ref. MessageCache_Get k c = Some ref \<longrightarrow>
        key_below (hp_next h) k \<and> (\<exists>m. hp_routes h ref = Some m \<and> MessageKey (rm_msg m) = k)))"

lemma heap_grows_refl [simp]: "heap_grows h h"
  by (simp add: heap_grows_def)

lemma heap_le_refl [simp]: "heap_le h h"
  by (simp add: heap_le_def)

lemma heap_grows_le: "heap_grows h h' \<Longrightarrow> heap_le h h'"
  by (auto simp: heap_grows_def heap_le_def map_le_def dom_def)

lemma heap_grows_trans [trans]: "heap_grows a b \<Longrightarrow> heap_grows b c \<Longrightarrow> heap_grows a c"
  by (auto simp: heap_grows_def intro: map_le_trans)

lemma heap_growsD: "heap_grows h h' \<Longrightarrow> hp_routes h ref = Some m \<Longrightarrow> hp_routes h' ref = Some m"
  by (auto simp: heap_grows_def map_le_def dom_def)

lemma key_below_mono: "key_below n k \<Longrightarrow> n \<le> n' \<Longrightarrow> key_below n' k"
  by (auto simp: key_below_def split: option.splits)

lemma cache_ok_le:
  assumes "cache_ok h c" "heap_le h h'"
  shows "cache_ok h' c"
proof -
  have "key_below (hp_next h') k \<and> (\<exists>m. hp_routes h' ref = Some m \<and> MessageKey (rm_msg m) = k)"
    if g: "MessageCache_Get k c = Some ref" for k ref
  proof -
    obtain m where "key_below (hp_next h) k" "hp_routes h ref = Some m" "MessageKey (rm_msg m) = k"
      using assms(1) g by (auto simp: cache_ok_def)
    moreover then obtain m' where "hp_routes h' ref = Some m'" "rm_msg m' = rm_msg m"
      using assms(2) by (auto simp: heap_le_def)
    ultimately show ?thesis using assms(2) by (auto simp: heap_le_def intro: key_below_mono)
  qed
  then show ?thesis using assms(1) by (simp add: cache_ok_def)
qed

lemma cache_ok_ext: "cache_ok h c \<Longrightarrow> heap_grows h h' \<Longrightarrow> cache_ok h' c"
  using cache_ok_le heap_grows_le by blast

lemma cache_ok_remove [wf_intros]: "cache_ok h c \<Longrightarrow> cache_ok h (MessageCache_Remove k c)"
  by (auto simp: cache_ok_def mc.get_remove mc.invar_remove split: if_splits)

lemma cache_ok_clear [wf_intros]: "cache_ok h c \<Longrightarrow> cache_ok h (clearMessageFromCache ks c)"
  by (auto simp: cache_ok_def clearMessageFromCache_get clearMessageFromCache_invar split: if_splits)

lemma cache_ok_empty [simp]: "cache_ok h NewMessageCache"
  by (simp add: cache_ok_def cache_invar_def NewMessageCache_def MessageCache_Get_def)

lemma cache_add_new_ok:
  assumes "cache_ok h c" "heap_ok h" "key_below (hp_next h) (MessageKey (rm_msg r))"
    and "cache_add_new r (c, h) = (c', h')"
  shows "cache_ok h' c' \<and> heap_ok h' \<and> heap_grows h h'"
proof -
  have h': "h' = snd (new_route r h)" and c': "c' = MessageCache_Add r (hp_next h) c"
    using assms(4) by (auto simp: cache_add_new_def new_route_def Let_def)
  have fresh: "hp_routes h (hp_next h) = None" using assms(2) by (auto simp: heap_ok_def)
  have ext: "heap_grows h h'"
    using fresh by (auto simp: h' heap_grows_def map_le_def)
  have ok: "heap_ok h'" using assms(2) by (auto simp: h' heap_ok_def less_Suc_eq)
  have "cache_ok h' c" by (rule cache_ok_ext [OF assms(1) ext])
  then have "cache_ok h' c'"
    using assms(3) by (auto simp: cache_ok_def c' mc.get_add mc.invar_add h' key_below_def
        split: if_splits option.splits)
  with ok ext show ?thesis by blast
qed

text \<open>Keys of allocated messages are below the allocator; the allocation itself is an extension.\<close>

lemma new_message_ok:
  assumes "new_message w h = (bm, h')" "heap_ok h"
  shows "key_below (hp_next h') (MessageKey bm) \<and> heap_ok h' \<and> heap_grows h h' \<and> wire_message bm = w"
  using assms by (auto simp: new_message_def key_below_def alloc_int_def heap_ok_def heap_grows_def
      less_SucI split: option.splits)

lemma new_stored_route_ok:
  assumes "new_stored_route w h = (r, h')" "heap_ok h"
  shows "key_below (hp_next h') (MessageKey (rm_msg r)) \<and> heap_ok h' \<and> heap_grows h h' \<and> wire_route r = w"
  using assms by (auto simp: new_stored_route_def key_below_def alloc_int_def heap_ok_def heap_grows_def
      less_SucI split: option.splits)

lemma mergeMessages_ok:
  "mergeMessages ms (c, h) = (c', h') \<Longrightarrow> cache_ok h c \<Longrightarrow> heap_ok h \<Longrightarrow>
   cache_ok h' c' \<and> heap_ok h' \<and> heap_grows h h'"
proof (induction ms arbitrary: c h)
  case Nil
  then show ?case by simp
next
  case (Cons m ms)
  obtain bm h1 where nm: "new_message m h = (bm, h1)" by (cases "new_message m h")
  obtain c2 h2 where add: "cache_add_new (NewRouteMessage bm) (c, h1) = (c2, h2)"
    by (cases "cache_add_new (NewRouteMessage bm) (c, h1)")
  note n = new_message_ok [OF nm Cons.prems(3)]
  have s: "cache_ok h2 c2 \<and> heap_ok h2 \<and> heap_grows h1 h2"
    by (rule cache_add_new_ok [OF _ _ _ add]) (use n Cons.prems(2) cache_ok_ext in auto)
  have "mergeMessages ms (c2, h2) = (c', h')" using Cons.prems(1) nm add by simp
  from Cons.IH [OF this] s n show ?case by (blast intro: heap_grows_trans)
qed

lemma add_stored_ok:
  "add_stored ws (c, h) = (c', h') \<Longrightarrow> cache_ok h c \<Longrightarrow> heap_ok h \<Longrightarrow>
   cache_ok h' c' \<and> heap_ok h' \<and> heap_grows h h'"
proof (induction ws arbitrary: c h)
  case Nil
  then show ?case by simp
next
  case (Cons w ws)
  obtain r h1 where nr: "new_stored_route w h = (r, h1)" by (cases "new_stored_route w h")
  obtain c2 h2 where add: "cache_add_new r (c, h1) = (c2, h2)" by (cases "cache_add_new r (c, h1)")
  note n = new_stored_route_ok [OF nr Cons.prems(3)]
  have s: "cache_ok h2 c2 \<and> heap_ok h2 \<and> heap_grows h1 h2"
    by (rule cache_add_new_ok [OF _ _ _ add]) (use n Cons.prems(2) cache_ok_ext in auto)
  have "add_stored ws (c2, h2) = (c', h')" using Cons.prems(1) nr add by simp
  from Cons.IH [OF this] s n show ?case by (blast intro: heap_grows_trans)
qed

lemma block_messages_merge:
  "block_messages S C ms (c, h, d) = (c', h', d') \<Longrightarrow> mergeMessages ms (c, h) = (c', h')"
proof (induction ms arbitrary: c h d)
  case (Cons m ms)
  then show ?case by (auto split: prod.splits simp: Let_def)
qed simp

section \<open>The invariant\<close>

definition active :: "task \<Rightarrow> bool" where
  "active t = (tk_phase t \<noteq> Returned)"

definition chain_ok :: "heap \<Rightarrow> string \<times> chain_runtime \<Rightarrow> bool" where
  "chain_ok h p = (pv_NID (cr_Provider (snd p)) = fst p \<and> cache_ok h (cr_MessageCache (snd p)) \<and>
     length (cr_listenerChan (snd p)) \<le> listenerChannelBufferSize)"

definition tasks_ok :: "heap \<Rightarrow> task list \<Rightarrow> bool" where
  "tasks_ok h ts = ((\<forall>t \<in> set ts. active t \<longrightarrow>
       (\<exists>m. hp_routes h (tk_ref t) = Some m \<and> rm_processing m)) \<and>
     distinct (map tk_ref (filter active ts)))"

definition relayer_ok :: "'d relayer \<Rightarrow> bool" where
  "relayer_ok s = (distinct (map fst (r_chains s)) \<and> (\<forall>p \<in> set (r_chains s). chain_ok (r_heap s) p) \<and>
     heap_ok (r_heap s) \<and> tasks_ok (r_heap s) (r_tasks s))"

lemma tasks_ok_ext: "tasks_ok h ts \<Longrightarrow> heap_grows h h' \<Longrightarrow> tasks_ok h' ts"
  unfolding tasks_ok_def by (meson heap_growsD)

lemma chain_ok_le: "chain_ok h p \<Longrightarrow> heap_le h h' \<Longrightarrow> chain_ok h' p"
  by (auto simp: chain_ok_def intro: cache_ok_le)

lemma wf_chain:
  assumes "relayer_ok s" "map_of (r_chains s) nid = Some rt"
  shows "pv_NID (cr_Provider rt) = nid" "cache_ok (r_heap s) (cr_MessageCache rt)"
    "length (cr_listenerChan rt) \<le> listenerChannelBufferSize"
  using assms map_of_SomeD [OF assms(2)] by (auto simp: relayer_ok_def chain_ok_def)

lemma wf_heap: "relayer_ok s \<Longrightarrow> heap_ok (r_heap s)"
  by (simp add: relayer_ok_def)

lemma wf_cached:
  assumes "relayer_ok s" "map_of (r_chains s) nid = Some rt" "MessageCache_Get k (cr_MessageCache rt) = Some ref"
  shows "\<exists>m. hp_routes (r_heap s) ref = Some m \<and> MessageKey (rm_msg m) = k"
    "key_below (hp_next (r_heap s)) k"
  using wf_chain(2) [OF assms(1,2)] assms(3) by (auto simp: cache_ok_def)

text \<open>The rule for operations that extend the heap and change one chain.\<close>

lemma set_map_entry:
  "p \<in> set (AList.map_entry k f al) \<Longrightarrow> p \<in> set al \<or> (\<exists>v. (k, v) \<in> set al \<and> p = (k, f v))"
  by (induction al) (auto split: if_splits)

lemma wf_upd_chain:
  assumes "relayer_ok s" "heap_grows (r_heap s) (r_heap s')" "heap_ok (r_heap s')"
    and "r_chains s' = r_chains s" "r_tasks s' = r_tasks s"
    and f: "\<And>rt. map_of (r_chains s) nid = Some rt \<Longrightarrow> chain_ok (r_heap s') (nid, f rt)"
  shows "relayer_ok (upd_chain nid f s')"
proof -
  have d: "distinct (map fst (r_chains s))" using assms(1) by (simp add: relayer_ok_def)
  have "chain_ok (r_heap s') p" if "p \<in> set (AList.map_entry nid f (r_chains s))" for p
    using set_map_entry [OF that]
  proof
    assume "p \<in> set (r_chains s)"
    then have "chain_ok (r_heap s) p" using assms(1) by (simp add: relayer_ok_def)
    then show ?thesis using assms(2) by (blast intro: chain_ok_le heap_grows_le)
  next
    assume "\<exists>v. (nid, v) \<in> set (r_chains s) \<and> p = (nid, f v)"
    then show ?thesis using f d by auto
  qed
  then show ?thesis
    using assms by (auto simp: relayer_ok_def upd_chain_def intro: tasks_ok_ext)
qed

lemma wf_db [wf_intros]: "relayer_ok s \<Longrightarrow> relayer_ok (s\<lparr>r_db := d\<rparr>)"
  by (simp add: relayer_ok_def)

lemma wf_bump:
  assumes "relayer_ok s" "heap_grows (r_heap s) h'" "heap_ok h'"
  shows "relayer_ok (s\<lparr>r_heap := h'\<rparr>)"
proof -
  have "relayer_ok (upd_chain '''' (\<lambda>rt. rt) (s\<lparr>r_heap := h'\<rparr>))"
    by (rule wf_upd_chain [OF assms(1)])
      (use assms wf_chain [OF assms(1)] in \<open>auto simp: chain_ok_def intro: cache_ok_ext [OF _ assms(2)]\<close>)
  moreover have "AList.map_entry k (\<lambda>rt. rt) al = al" for k :: string and al :: "(string \<times> chain_runtime) list"
    by (induction al) auto
  ultimately show ?thesis by (simp add: upd_chain_def)
qed

text \<open>The rule for operations that change one cache only.\<close>

lemma wf_upd_cache:
  assumes "relayer_ok s" "\<And>c. cache_ok (r_heap s) c \<Longrightarrow> cache_ok (r_heap s) (f c)"
  shows "relayer_ok (upd_cache nid f s)"
  unfolding upd_cache_def
  by (rule wf_upd_chain [OF assms(1)])
    (use assms wf_chain [OF assms(1)] wf_heap in \<open>auto simp: chain_ok_def\<close>)

text \<open>The rule for operations that replace one cache and extend the heap.\<close>

lemma wf_new_cache:
  assumes "relayer_ok s" "cache_ok h' c'" "heap_ok h'" "heap_grows (r_heap s) h'"
  shows "relayer_ok (upd_cache nid (\<lambda>_. c') (s\<lparr>r_heap := h'\<rparr>))"
  unfolding upd_cache_def
  by (rule wf_upd_chain [OF assms(1)])
    (use assms wf_chain [OF assms(1)] in \<open>auto simp: chain_ok_def\<close>)

text \<open>The rule for changing one object, which keeps its message and, while a goroutine owns it, its mark.\<close>

lemma wf_set_route:
  assumes "relayer_ok s" "hp_routes (r_heap s) ref = Some m" "rm_msg m' = rm_msg m"
    and "\<And>t. t \<in> set (r_tasks s) \<Longrightarrow> active t \<Longrightarrow> tk_ref t = ref \<Longrightarrow> rm_processing m'"
  shows "relayer_ok (s\<lparr>r_heap := set_route ref m' (r_heap s)\<rparr>)"
proof -
  have le: "heap_le (r_heap s) (set_route ref m' (r_heap s))"
    using assms by (auto simp: heap_le_def)
  have "tasks_ok (set_route ref m' (r_heap s)) (r_tasks s)"
    using assms by (auto simp: relayer_ok_def tasks_ok_def)
  then show ?thesis
    using assms le by (auto simp: relayer_ok_def heap_ok_def intro: chain_ok_le split: if_splits)
qed

lemma wf_not_owned:
  assumes "relayer_ok s" "hp_routes (r_heap s) ref = Some m" "\<not> rm_processing m"
    and "t \<in> set (r_tasks s)" "active t"
  shows "tk_ref t \<noteq> ref"
  using assms by (auto simp: relayer_ok_def tasks_ok_def)


section \<open>Preservation\<close>

lemma upd_cache_db [simp]: "(upd_cache nid f s)\<lparr>r_db := d\<rparr> = upd_cache nid f (s\<lparr>r_db := d\<rparr>)"
  by (simp add: upd_cache_def upd_chain_def)

lemma upd_fields [simp]:
  "r_db (upd_chain nid g s) = r_db s" "r_db (upd_cache nid f s) = r_db s"
  "r_heap (upd_chain nid g s) = r_heap s" "r_heap (upd_cache nid f s) = r_heap s"
  "r_tasks (upd_chain nid g s) = r_tasks s" "r_tasks (upd_cache nid f s) = r_tasks s"
  by (simp_all add: upd_cache_def upd_chain_def)

lemma upd_chain_map_of [simp]:
  "map_of (r_chains (upd_chain nid g s)) n =
    (if n = nid then map_option g (map_of (r_chains s) nid) else map_of (r_chains s) n)"
  by (simp add: upd_chain_def)

lemma upd_cache_map_of [simp]:
  "map_of (r_chains (upd_cache nid f s)) n =
    (if n = nid then map_option (\<lambda>rt. rt\<lparr>cr_MessageCache := f (cr_MessageCache rt)\<rparr>) (map_of (r_chains s) nid)
     else map_of (r_chains s) n)"
  by (simp add: upd_cache_def)

lemma ClearMessages_eq:
  "snd (ClearMessages S ks nid s) =
     upd_cache nid (clearMessageFromCache ks) (s\<lparr>r_db := snd (delete_messages S ks (r_db s))\<rparr>)"
  by (simp add: ClearMessages_def Let_def split: prod.split)

lemma wf_ClearMessages [wf_intros]: "relayer_ok s \<Longrightarrow> relayer_ok (snd (ClearMessages S ks nid s))"
  unfolding ClearMessages_eq by (rule wf_upd_cache [OF wf_db]) (auto intro: cache_ok_clear)

lemma wf_PruneDB [wf_intros]: "relayer_ok s \<Longrightarrow> relayer_ok (snd (PruneDB S s))"
  by (auto simp: PruneDB_def wf_db split: prod.split)

lemma wf_flush_chain [wf_intros]:
  assumes "relayer_ok s"
  shows "relayer_ok (flush_chain S C key s)"
proof -
  have "relayer_ok (upd_cache key (\<lambda>_. c') (s\<lparr>r_heap := h'\<rparr>))"
    if "map_of (r_chains s) key = Some rt" "add_stored ws (cr_MessageCache rt, r_heap s) = (c', h')"
    for rt ws c' h'
    using add_stored_ok [OF that(2) wf_chain(2) [OF assms that(1)] wf_heap [OF assms]]
    by (auto intro: wf_new_cache [OF assms])
  then show ?thesis
    using assms by (auto simp: flush_chain_def split: option.splits sum.splits prod.splits)
qed

lemma fold_preserves: "(\<And>x s. P s \<Longrightarrow> P (f x s)) \<Longrightarrow> P s \<Longrightarrow> P (fold f xs s)"
  by (induction xs arbitrary: s) auto

lemma wf_flushMessages [wf_intros]: "relayer_ok s \<Longrightarrow> relayer_ok (flushMessages S C nids s)"
  unfolding flushMessages_def by (rule fold_preserves [of relayer_ok]) (rule wf_flush_chain)

lemma wf_toggle_free:
  assumes "relayer_ok s" "\<And>t. t \<in> set (r_tasks s) \<Longrightarrow> active t \<Longrightarrow> tk_ref t \<noteq> ref"
  shows "relayer_ok (toggle ref s)"
  using assms by (auto simp: toggle_def split: option.splits intro!: wf_set_route)

lemma toggle_simps [simp]:
  "r_tasks (toggle ref s) = r_tasks s" "r_chains (toggle ref s) = r_chains s"
  "r_db (toggle ref s) = r_db s"
  by (auto simp: toggle_def split: option.splits)

lemma toggle_routes:
  "hp_routes (r_heap (toggle ref s)) =
     (\<lambda>x. if x = ref then map_option ToggleProcessing (hp_routes (r_heap s) ref) else hp_routes (r_heap s) x)"
  by (auto simp: toggle_def split: option.splits)

lemma wf_spawn:
  assumes "relayer_ok s" "hp_routes (r_heap s) ref = Some m" "rm_processing m"
    and "\<And>t. t \<in> set (r_tasks s) \<Longrightarrow> active t \<Longrightarrow> tk_ref t \<noteq> ref"
  shows "relayer_ok (spawn ref dst src s)"
  using assms by (auto simp: relayer_ok_def spawn_def tasks_ok_def active_def)

lemma shouldSend_idle:
  "shouldSendMessage E d (Some m) src \<Longrightarrow> \<not> IsProcessing (ev_now E) m"
  by (auto simp: shouldSendMessage_def split: if_splits)

lemma idle_not_processing: "\<not> IsProcessing t m \<Longrightarrow> \<not> rm_processing m"
  by (simp add: IsProcessing_def)

lemma wf_process_entry:
  assumes "relayer_ok s" "hp_routes (r_heap s) ref = Some m"
    and "process_entry S E src key ref m s = Ok s'"
  shows "relayer_ok s'"
proof (cases "FindChainRuntime (m_dst (rm_msg m)) s")
  case (Ok dst)
  let ?d = "pv_NID (cr_Provider dst)"
  show ?thesis
  proof (cases "shouldSendMessage E ?d (Some m) src")
    case False
    with Ok assms show ?thesis by (simp add: process_entry_def)
  next
    case True
    then have idle: "\<not> rm_processing m" using shouldSend_idle idle_not_processing by blast
    note free = wf_not_owned [OF assms(1,2) idle]
    have w1: "relayer_ok (toggle ref s)" by (rule wf_toggle_free [OF assms(1)]) (rule free)
    have w2: "relayer_ok (toggle ref (toggle ref s))"
      by (rule wf_toggle_free [OF w1]) (use free in simp)
    have w3: "relayer_ok (spawn ref ?d src (toggle ref s))"
      by (rule wf_spawn [OF w1, of ref "ToggleProcessing m"])
        (use assms(2) idle free in \<open>auto simp: toggle_routes\<close>)
    show ?thesis
      using assms(3) Ok True w1 w2 w3
      by (auto simp: process_entry_def Let_def wf_ClearMessages split: sum.splits bool.splits)
  qed
next
  case (Err e)
  with assms show ?thesis by (auto simp: process_entry_def wf_ClearMessages)
next
  case (Panic e)
  with assms show ?thesis by (simp add: process_entry_def)
qed

lemma wf_process_message [wf_intros]:
  assumes "relayer_ok s" "process_message S E src key s = Ok s'"
  shows "relayer_ok s'"
  using assms wf_process_entry [OF assms(1)]
  by (auto simp: process_message_def split: option.splits)

lemma wf_processMessages [wf_intros]:
  "relayer_ok s \<Longrightarrow> processMessages S E visits s = Ok s' \<Longrightarrow> relayer_ok s'"
  by (induction S E visits s rule: processMessages.induct) (auto intro: wf_process_message)

lemma wf_callback [wf_intros]:
  assumes "relayer_ok s" "callback S C src dst key response err s = Ok s'"
  shows "relayer_ok s'"
  using assms
  by (auto simp: callback_def Let_def wf_ClearMessages wf_db
      split: option.splits if_splits prod.splits)

lemma wf_RouteMessage_begin [wf_intros]:
  assumes "relayer_ok s"
  shows "relayer_ok (RouteMessage_begin E ref s)"
proof (cases "hp_routes (r_heap s) ref")
  case (Some m)
  have "relayer_ok (s\<lparr>r_heap := set_route ref (IncrementRetry (ev_now E) m) (r_heap s)\<rparr>)"
    by (rule wf_set_route [OF assms Some])
      (use assms Some in \<open>auto simp: relayer_ok_def tasks_ok_def\<close>)
  with Some show ?thesis by (simp add: RouteMessage_begin_def)
qed (use assms in \<open>simp add: RouteMessage_begin_def\<close>)

text \<open>A failed route gives the object up: the goroutine has returned when the mark is cleared.\<close>

definition set_phase :: "nat \<Rightarrow> task_phase \<Rightarrow> 'd relayer \<Rightarrow> 'd relayer" where
  "set_phase i p s = s\<lparr>r_tasks := (r_tasks s)[i := (r_tasks s ! i)\<lparr>tk_phase := p\<rparr>]\<rparr>"

lemma wf_HandleMessageFailed:
  assumes "relayer_ok s" "\<And>t. t \<in> set (r_tasks s) \<Longrightarrow> active t \<Longrightarrow> tk_ref t \<noteq> ref"
    and "HandleMessageFailed S C ref src s = Ok s'"
  shows "relayer_ok s'"
proof -
  have "relayer_ok (toggle ref s)" by (rule wf_toggle_free [OF assms(1)]) (rule assms(2))
  with assms(3) show ?thesis
    by (auto simp: HandleMessageFailed_def Let_def intro!: wf_upd_cache cache_ok_remove intro: wf_db
        split: option.splits if_splits prod.splits)
qed

lemma wf_processBlockInfo [wf_intros]:
  assumes "relayer_ok s"
  shows "relayer_ok (processBlockInfo S C src bi s)"
proof (cases "map_of (r_chains s) src")
  case (Some rt)
  obtain c' h' d' where b: "block_messages S C (bi_messages bi) (cr_MessageCache rt, r_heap s, r_db s)
      = (c', h', d')" by (metis prod_cases3)
  have ok: "cache_ok h' c' \<and> heap_ok h' \<and> heap_grows (r_heap s) h'"
    by (rule mergeMessages_ok [OF block_messages_merge [OF b]])
      (use wf_chain(2) [OF assms Some] wf_heap [OF assms] in auto)
  have "relayer_ok (upd_chain src (\<lambda>rt. rt\<lparr>cr_LastBlockHeight := bi_height bi, cr_MessageCache := c'\<rparr>)
            (s\<lparr>r_heap := h', r_db := d'\<rparr>))"
    by (rule wf_upd_chain [OF assms]) (use ok wf_chain [OF assms] in \<open>auto simp: chain_ok_def\<close>)
  with Some b show ?thesis by (simp add: processBlockInfo_def)
qed (use assms in \<open>simp add: processBlockInfo_def\<close>)

lemma wf_upd_chain_static:
  assumes "relayer_ok s" "\<And>rt. cr_Provider (f rt) = cr_Provider rt"
    and "\<And>rt. cr_MessageCache (f rt) = cr_MessageCache rt"
    and "\<And>rt. map_of (r_chains s) nid = Some rt \<Longrightarrow>
           length (cr_listenerChan (f rt)) \<le> listenerChannelBufferSize"
  shows "relayer_ok (upd_chain nid f s)"
  by (rule wf_upd_chain [OF assms(1)])
    (use assms wf_chain [OF assms(1)] wf_heap in \<open>auto simp: chain_ok_def\<close>)

lemma wf_SaveBlockHeight [wf_intros]:
  assumes "relayer_ok s"
  shows "relayer_ok (snd (SaveBlockHeight S C nid h s))"
proof (cases "map_of (r_chains s) nid")
  case (Some rt)
  have "relayer_ok (upd_chain nid (\<lambda>rt. rt\<lparr>cr_LastSavedHeight := h, cr_LastBlockHeight := h\<rparr>) s)"
    by (rule wf_upd_chain_static [OF assms]) (use wf_chain [OF assms] in auto)
  with Some show ?thesis by (auto simp: SaveBlockHeight_def Let_def intro: wf_db split: prod.split)
qed (use assms in \<open>simp add: SaveBlockHeight_def\<close>)

lemma wf_SaveChainsBlockHeight [wf_intros]:
  "relayer_ok s \<Longrightarrow> relayer_ok (SaveChainsBlockHeight S C E nids s)"
  unfolding SaveChainsBlockHeight_def
  by (rule fold_preserves [of relayer_ok])
    (auto simp: save_chain_height_def intro: wf_SaveBlockHeight split: option.splits sum.splits)

lemma wf_merge_into [wf_intros]:
  assumes "relayer_ok s"
  shows "relayer_ok (merge_into nid ms s)"
proof (cases "map_of (r_chains s) nid")
  case (Some rt)
  obtain c' h' where m: "mergeMessages ms (cr_MessageCache rt, r_heap s) = (c', h')"
    by (cases "mergeMessages ms (cr_MessageCache rt, r_heap s)")
  from mergeMessages_ok [OF m wf_chain(2) [OF assms Some] wf_heap [OF assms]] Some m
  show ?thesis by (auto simp: merge_into_def intro: wf_new_cache [OF assms])
qed (use assms in \<open>simp add: merge_into_def\<close>)

lemma heap_bump:
  "heap_grows h (h\<lparr>hp_next := hp_next h + 1\<rparr>)"
  "heap_ok h \<Longrightarrow> heap_ok (h\<lparr>hp_next := hp_next h + 1\<rparr>)"
  by (auto simp: heap_grows_def heap_ok_def less_SucI)

lemma wf_delete_tx [wf_intros]:
  assumes "relayer_ok s"
  shows "relayer_ok (snd (delete_tx S t s))"
proof -
  have "relayer_ok (s\<lparr>r_db := d, r_heap := (r_heap s)\<lparr>hp_next := hp_next (r_heap s) + 1\<rparr>\<rparr>)" for d
    using wf_bump [OF wf_db [OF assms, of d], of "(r_heap s)\<lparr>hp_next := hp_next (r_heap s) + 1\<rparr>"]
      heap_bump [of "r_heap s"] wf_heap [OF assms] by simp
  then show ?thesis by (simp add: delete_tx_def Let_def split: prod.split)
qed

lemma wf_check_tx [wf_intros]:
  assumes "relayer_ok s"
  shows "relayer_ok (check_tx S E nid fin latest t s)"
proof -
  have "relayer_ok s1" if "delete_tx S t s = (e, s1)" for e s1
    using wf_delete_tx [OF assms, of S t] that by simp
  then show ?thesis
    using assms wf_delete_tx [OF assms]
    by (auto simp: check_tx_def wf_merge_into split: sum.splits option.splits prod.splits)
qed

lemma wf_CheckFinality [wf_intros]: "relayer_ok s \<Longrightarrow> relayer_ok (CheckFinality S C E nids s)"
  unfolding CheckFinality_def
proof (rule fold_preserves [of relayer_ok])
  fix nid and s :: "'a relayer"
  assume "relayer_ok s"
  then have "relayer_ok (fold (check_tx S E n fin latest) ts s)" for n fin latest ts
    by (rule fold_preserves [of relayer_ok, rotated]) (rule wf_check_tx)
  with \<open>relayer_ok s\<close> show "relayer_ok (check_chain_finality S C E nid s)"
    by (auto simp: check_chain_finality_def Let_def split: option.splits sum.splits)
qed

lemma wf_clean_message [wf_intros]:
  assumes "relayer_ok s"
  shows "relayer_ok (clean_message S E nid w s)"
proof -
  obtain r h' where n: "new_stored_route w (r_heap s) = (r, h')"
    by (cases "new_stored_route w (r_heap s)")
  have "relayer_ok (s\<lparr>r_heap := h'\<rparr>)"
    using new_stored_route_ok [OF n wf_heap [OF assms]] by (auto intro: wf_bump [OF assms])
  with n show ?thesis by (auto simp: clean_message_def Let_def intro: wf_ClearMessages)
qed

lemma wf_cleanExpiredMessages [wf_intros]:
  "relayer_ok s \<Longrightarrow> relayer_ok (cleanExpiredMessages S C E nids s)"
  unfolding cleanExpiredMessages_def
proof (rule fold_preserves [of relayer_ok])
  fix nid and s :: "'a relayer"
  assume "relayer_ok s"
  then have "relayer_ok (fold (clean_message S E nid) ws s)" for ws
    by (rule fold_preserves [of relayer_ok, rotated]) (rule wf_clean_message)
  with \<open>relayer_ok s\<close> show "relayer_ok (clean_chain S C E nid s)"
    by (auto simp: clean_chain_def split: sum.splits)
qed

text \<open>A relayer starts in the invariant, whatever the database holds.\<close>

lemma new_runtimes_keys:
  "new_runtimes S C db out cs = Ok rts \<Longrightarrow> distinct (map fst out) \<Longrightarrow>
   (\<forall>p \<in> set out. chain_ok h p) \<Longrightarrow> distinct (map fst rts) \<and> (\<forall>p \<in> set rts. chain_ok h p)"
proof (induction S C db out cs rule: new_runtimes.induct)
  case (1 S C db out)
  then show ?case by simp
next
  case (2 S C db out name ch rest)
  then obtain rt where rt: "NewChainRuntime ch = Ok rt" by auto
  let ?rt = "case GetLastStoredBlock S C prefixBlockStore (pv_NID (cr_Provider rt)) db of
      Inl e \<Rightarrow> rt | Inr x \<Rightarrow> rt\<lparr>cr_LastSavedHeight := x\<rparr>"
  have "cr_MessageCache rt = NewMessageCache" "cr_listenerChan rt = []"
    using rt by (auto simp: NewChainRuntime_def split: option.splits)
  then have ok: "chain_ok h (pv_NID (cr_Provider rt), ?rt)"
    by (auto simp: chain_ok_def split: sum.split)
  have "new_runtimes S C db (AList.update (pv_NID (cr_Provider rt)) ?rt out) rest = Ok rts"
    using "2.prems"(1) rt by (simp add: Let_def)
  moreover have "\<forall>p \<in> set (AList.update (pv_NID (cr_Provider rt)) ?rt out). chain_ok h p"
    using "2.prems"(3) ok by (auto dest!: in_set_update)
  ultimately show ?case
    using "2.IH" [OF refl refl] "2.prems"(2) by auto
qed

lemma wf_NewRelayer:
  assumes "NewRelayer S C db chs fresh = Ok s"
  shows "relayer_ok s"
proof -
  obtain db' rts where rts: "new_runtimes S C db' [] chs = Ok rts"
    and s: "s = \<lparr>r_db = db', r_chains = rts, r_heap = \<lparr>hp_routes = (\<lambda>_. None), hp_next = 0\<rparr>, r_tasks = []\<rparr>"
    using assms by (auto simp: NewRelayer_def split: prod.splits option.splits)
  from new_runtimes_keys [OF rts, of "r_heap s"] show ?thesis
    by (auto simp: relayer_ok_def s heap_ok_def tasks_ok_def)
qed

end
