(* ===== verification/Socket.thy ===== *)
theory Socket
  imports Relay_Inv
begin

text \<open>
  \<^verbatim>\<open>relayer/socket\<close>: the administration protocol. The server decodes a request, runs it on the
  relayer and answers with a message of the same event; the client encodes requests and decodes
  answers.

  JSON is a parameter: \<open>sock_codec\<close> has \<^verbatim>\<open>Marshal\<close> on the protocol's structs and \<^verbatim>\<open>Unmarshal\<close> into a
  struct of a given type, over abstract byte strings \<^typ>\<open>'w\<close>; \<open>sj_text\<close> gives the bytes of a text.
  The connection itself (sockets, the 100 KB read buffer) is left out: one request is one value.
\<close>

section \<open>Messages of the protocol\<close>

definition EventGetBlock :: string where "EventGetBlock = ''GetBlock''"
definition EventGetMessageList :: string where "EventGetMessageList = ''GetMessageList''"
definition EventRelayMessage :: string where "EventRelayMessage = ''RelayMessage''"
definition EventMessageRemove :: string where "EventMessageRemove = ''MessageRemove''"
definition EventPruneDB :: string where "EventPruneDB = ''PruneDB''"
definition EventRevertMessage :: string where "EventRevertMessage = ''RevertMessage''"
definition EventError :: string where "EventError = ''Error''"
definition EventGetFee :: string where "EventGetFee = ''GetFee''"
definition EventSetFee :: string where "EventSetFee = ''SetFee''"
definition EventClaimFee :: string where "EventClaimFee = ''ClaimFee''"

lemmas socket_event_defs = EventGetBlock_def EventGetMessageList_def EventRelayMessage_def
  EventMessageRemove_def EventPruneDB_def EventRevertMessage_def EventError_def EventGetFee_def
  EventSetFee_def EventClaimFee_def

datatype 'w payload =
    SockMessage (sm_Event: string) (sm_Data: 'w)
  | ReqGetBlock string bool
  | ReqMessageList string "pagination option"
  | ReqRelayMessage string wireint u64
  | ReqMessageRemove string wireint
  | ReqPruneDB string
  | ReqRevertMessage string u64
  | ReqGetFee string string bool
  | ReqSetFee string string wireint wireint
  | ReqClaimFee string
  | ResGetBlocks "(string \<times> u64) list"
  | ResMessageList "wireint route_message list" int
  | ResRelayMessage "wireint route_message"
  | ResMessageRemove wireint string string u64 string
  | ResPruneDB string
  | ResRevertMessage u64
  | ResGetFee string u64 bool
  | ResSetFee string
  | ResClaimFee string

text \<open>The Go type of a payload: what the pointer given to \<^verbatim>\<open>Unmarshal\<close> points to.\<close>

datatype ptype = TMessage | TReqGetBlock | TReqMessageList | TReqRelayMessage | TReqMessageRemove
  | TReqPruneDB | TReqRevertMessage | TReqGetFee | TReqSetFee | TReqClaimFee
  | TResGetBlocks | TResMessageList | TResRelayMessage | TResMessageRemove | TResPruneDB
  | TResRevertMessage | TResGetFee | TResSetFee | TResClaimFee

fun type_of :: "'w payload \<Rightarrow> ptype" where
  "type_of (SockMessage _ _) = TMessage"
| "type_of (ReqGetBlock _ _) = TReqGetBlock"
| "type_of (ReqMessageList _ _) = TReqMessageList"
| "type_of (ReqRelayMessage _ _ _) = TReqRelayMessage"
| "type_of (ReqMessageRemove _ _) = TReqMessageRemove"
| "type_of (ReqPruneDB _) = TReqPruneDB"
| "type_of (ReqRevertMessage _ _) = TReqRevertMessage"
| "type_of (ReqGetFee _ _ _) = TReqGetFee"
| "type_of (ReqSetFee _ _ _ _) = TReqSetFee"
| "type_of (ReqClaimFee _) = TReqClaimFee"
| "type_of (ResGetBlocks _) = TResGetBlocks"
| "type_of (ResMessageList _ _) = TResMessageList"
| "type_of (ResRelayMessage _) = TResRelayMessage"
| "type_of (ResMessageRemove _ _ _ _ _) = TResMessageRemove"
| "type_of (ResPruneDB _) = TResPruneDB"
| "type_of (ResRevertMessage _) = TResRevertMessage"
| "type_of (ResGetFee _ _ _) = TResGetFee"
| "type_of (ResSetFee _) = TResSetFee"
| "type_of (ResClaimFee _) = TResClaimFee"

record 'w sock_codec =
  sj_Marshal :: "'w payload \<Rightarrow> error + 'w"
  sj_Unmarshal :: "ptype \<Rightarrow> 'w \<Rightarrow> error + 'w payload"
  sj_text :: "string \<Rightarrow> 'w"

section \<open>The server\<close>

text \<open>
  The server's result: an answer, an error, or a panic, and the relayer afterwards. An error of
  \<^verbatim>\<open>Marshal\<close> or \<^verbatim>\<open>Unmarshal\<close> is returned as it is.
\<close>

definition of_sum :: "error + 'a \<Rightarrow> 'a result" where
  "of_sum r = (case r of Inl e \<Rightarrow> Err e | Inr x \<Rightarrow> Ok x)"

definition of_err :: "error option \<Rightarrow> unit result" where
  "of_err r = (case r of Some e \<Rightarrow> Err e | None \<Rightarrow> Ok ())"

definition reply :: "'w sock_codec \<Rightarrow> string \<Rightarrow> 'w payload \<Rightarrow> 'w payload result" where
  "reply J ev res = rbind (of_sum (sj_Marshal J res)) (\<lambda>data. Ok (SockMessage ev data))"

text \<open>\<^verbatim>\<open>GetMessages\<close> with the client's pagination: a nil pointer is read once a message is decoded.\<close>

definition GetMessages_at ::
    "('d, 'v) store \<Rightarrow> 'v codec \<Rightarrow> string \<Rightarrow> pagination option \<Rightarrow> 'd \<Rightarrow> wireint route_message list result" where
  "GetMessages_at S C nid pg db = (case pg of
      Some p \<Rightarrow> of_sum (GetMessages S C prefixMessageStore nid p db)
    | None \<Rightarrow> (case st_NewIterator S db (GetKey [prefixMessageStore, nid]) of
        ([], None) \<Rightarrow> Ok []
      | ([], Some e) \<Rightarrow> Err e
      | ((k, v) # kvs, err) \<Rightarrow> (case dec_route C v of
          Inl e \<Rightarrow> Err e
        | Inr m \<Rightarrow> Panic ''nil pointer dereference'')))"

fun on_GetBlock ::
    "('d, 'v) store \<Rightarrow> 'v codec \<Rightarrow> 'w sock_codec \<Rightarrow> 'w payload \<Rightarrow> 'd relayer \<Rightarrow> 'w payload result" where
  "on_GetBlock S C J (ReqGetBlock chain al) s =
     (if al then
        reply J EventGetBlock (ResGetBlocks (map (\<lambda>rt. (pv_NID (cr_Provider rt), cr_LastSavedHeight rt))
          (GetAllChainsRuntime s)))
      else rbind (of_sum (GetLastStoredBlock S C prefixBlockStore chain (r_db s))) (\<lambda>height.
        reply J EventGetBlock (ResGetBlocks [(chain, height)])))"
| "on_GetBlock S C J _ s = Err ''invalid request''"

fun on_GetMessageList ::
    "('d, 'v) store \<Rightarrow> 'v codec \<Rightarrow> 'w sock_codec \<Rightarrow> 'w payload \<Rightarrow> 'd relayer \<Rightarrow> 'w payload result" where
  "on_GetMessageList S C J (ReqMessageList chain pg) s =
     rbind (GetMessages_at S C chain pg (r_db s)) (\<lambda>messages.
     rbind (of_sum (MessageStore_TotalCountByChain S prefixMessageStore chain (r_db s))) (\<lambda>tot.
     reply J EventGetMessageList (ResMessageList messages (sint tot))))"
| "on_GetMessageList S C J _ s = Err ''invalid request''"

text \<open>The key the server builds: the number it decoded lives at a new address.\<close>

definition request_key :: "string \<Rightarrow> wireint \<Rightarrow> 'd relayer \<Rightarrow> bigptr message_key" where
  "request_key chain sn s = NewMessageKey (alloc_int (hp_next (r_heap s)) sn) chain '''' ''''"

definition bump :: "'d relayer \<Rightarrow> 'd relayer" where
  "bump s = s\<lparr>r_heap := (r_heap s)\<lparr>hp_next := hp_next (r_heap s) + 1\<rparr>\<rparr>"

fun on_MessageRemove ::
    "('d, 'v) store \<Rightarrow> 'v codec \<Rightarrow> 'w sock_codec \<Rightarrow> 'w payload \<Rightarrow> 'd relayer
     \<Rightarrow> 'w payload result \<times> 'd relayer" where
  "on_MessageRemove S C J (ReqMessageRemove chain sn) s =
     (let key = request_key chain sn s; s1 = bump s in
      case GetMessage_db S C prefixMessageStore key (r_db s1) of
        Inl e \<Rightarrow> (Err e, s1)
      | Inr message \<Rightarrow>
         (case DeleteMessage S prefixMessageStore key (r_db s1) of
            (Some e, db') \<Rightarrow> (Err e, s1\<lparr>r_db := db'\<rparr>)
          | (None, db') \<Rightarrow>
              (reply J EventMessageRemove (ResMessageRemove sn chain (m_dst (rm_msg message))
                 (m_height (rm_msg message)) (m_event (rm_msg message))), s1\<lparr>r_db := db'\<rparr>)))"
| "on_MessageRemove S C J _ s = (Err ''invalid request'', s)"

fun on_RelayMessage ::
    "('d, 'v) store \<Rightarrow> 'v codec \<Rightarrow> 'w sock_codec \<Rightarrow> env \<Rightarrow> 'w payload \<Rightarrow> 'd relayer
     \<Rightarrow> 'w payload result \<times> 'd relayer" where
  "on_RelayMessage S C J E (ReqRelayMessage chain sn height) s =
     (case FindChainRuntime chain s of
        Err e \<Rightarrow> (Err e, s)
      | Panic e \<Rightarrow> (Panic e, s)
      | Ok src \<Rightarrow>
         if height \<noteq> 0 then
           (case ev_GenerateMessages E (pv_NID (cr_Provider src)) (NewMessageKey sn chain '''' '''') height of
              Inl e \<Rightarrow> (Err e, s)
            | Inr msgs \<Rightarrow>
               let s1 = merge_into chain msgs s in
               (case msgs of
                  [] \<Rightarrow> (Panic ''index out of range'', s1)
                | m # _ \<Rightarrow> (reply J EventRelayMessage (ResRelayMessage (NewRouteMessage m)), s1)))
         else
           let key = request_key chain sn s; s1 = bump s in
           (case GetMessage_db S C prefixMessageStore key (r_db s1) of
              Inl e \<Rightarrow> (Err e, s1)
            | Inr message \<Rightarrow>
               let (c', h') = add_stored [message] (cr_MessageCache src, r_heap s1);
                   s2 = upd_cache chain (\<lambda>_. c') (s1\<lparr>r_heap := h'\<rparr>)
               in (reply J EventRelayMessage (ResRelayMessage message), s2)))"
| "on_RelayMessage S C J E _ s = (Err ''invalid request'', s)"

definition on_PruneDB ::
    "('d, 'v) store \<Rightarrow> 'w sock_codec \<Rightarrow> 'd relayer \<Rightarrow> 'w payload result \<times> 'd relayer" where
  "on_PruneDB S J s = (let (err, s1) = PruneDB S s in
     (rbind (of_err err) (\<lambda>_. reply J EventPruneDB (ResPruneDB ''Success'')), s1))"

fun on_chain_call ::
    "'w sock_codec \<Rightarrow> env \<Rightarrow> 'w payload \<Rightarrow> 'd relayer \<Rightarrow> 'w payload result" where
  "on_chain_call J E (ReqRevertMessage chain sn) s =
     rbind (FindChainRuntime chain s) (\<lambda>rt.
     rbind (of_err (ev_RevertMessage E (pv_NID (cr_Provider rt)) (Some (uint sn)))) (\<lambda>_.
     reply J EventRevertMessage (ResRevertMessage sn)))"
| "on_chain_call J E (ReqGetFee chain network response) s =
     rbind (FindChainRuntime chain s) (\<lambda>rt.
     rbind (of_sum (ev_GetFee E (pv_NID (cr_Provider rt)) network response)) (\<lambda>fee.
     reply J EventGetFee (ResGetFee chain fee False)))"
| "on_chain_call J E (ReqSetFee chain network msgFee resFee) s =
     rbind (FindChainRuntime chain s) (\<lambda>rt.
     rbind (of_err (ev_SetFee E (pv_NID (cr_Provider rt)) network msgFee resFee)) (\<lambda>_.
     reply J EventSetFee (ResSetFee ''Success'')))"
| "on_chain_call J E (ReqClaimFee chain) s =
     rbind (FindChainRuntime chain s) (\<lambda>rt.
     rbind (of_err (ev_ClaimFee E (pv_NID (cr_Provider rt)))) (\<lambda>_.
     reply J EventClaimFee (ResClaimFee ''Success'')))"
| "on_chain_call J E _ s = Err ''invalid request''"

definition with_req ::
    "'w sock_codec \<Rightarrow> ptype \<Rightarrow> 'w \<Rightarrow> 'd relayer
     \<Rightarrow> ('w payload \<Rightarrow> 'w payload result \<times> 'd relayer) \<Rightarrow> 'w payload result \<times> 'd relayer" where
  "with_req J T data s f = (case sj_Unmarshal J T data of Inl e \<Rightarrow> (Err e, s) | Inr req \<Rightarrow> f req)"

definition Server_parseEvent ::
    "('d, 'v) store \<Rightarrow> 'v codec \<Rightarrow> 'w sock_codec \<Rightarrow> env \<Rightarrow> string \<Rightarrow> 'w \<Rightarrow> 'd relayer
     \<Rightarrow> 'w payload result \<times> 'd relayer" where
  "Server_parseEvent S C J E ev data s =
     (if ev = EventGetBlock then with_req J TReqGetBlock data s (\<lambda>req. (on_GetBlock S C J req s, s))
      else if ev = EventGetMessageList then
        with_req J TReqMessageList data s (\<lambda>req. (on_GetMessageList S C J req s, s))
      else if ev = EventMessageRemove then
        with_req J TReqMessageRemove data s (\<lambda>req. on_MessageRemove S C J req s)
      else if ev = EventRelayMessage then
        with_req J TReqRelayMessage data s (\<lambda>req. on_RelayMessage S C J E req s)
      else if ev = EventPruneDB then on_PruneDB S J s
      else if ev = EventRevertMessage then
        with_req J TReqRevertMessage data s (\<lambda>req. (on_chain_call J E req s, s))
      else if ev = EventGetFee then
        with_req J TReqGetFee data s (\<lambda>req. (on_chain_call J E req s, s))
      else if ev = EventSetFee then
        with_req J TReqSetFee data s (\<lambda>req. (on_chain_call J E req s, s))
      else if ev = EventClaimFee then
        with_req J TReqClaimFee data s (\<lambda>req. (on_chain_call J E req s, s))
      else (Err ''invalid request'', s))"

definition Server_parse ::
    "('d, 'v) store \<Rightarrow> 'v codec \<Rightarrow> 'w sock_codec \<Rightarrow> env \<Rightarrow> 'w \<Rightarrow> 'd relayer
     \<Rightarrow> 'w result \<times> 'd relayer" where
  "Server_parse S C J E data s =
     (case sj_Unmarshal J TMessage data of
        Inl e \<Rightarrow> (Err e, s)
      | Inr msg \<Rightarrow>
         let (res, s1) = Server_parseEvent S C J E (sm_Event msg) (sm_Data msg) s
         in (rbind res (\<lambda>payload. of_sum (sj_Marshal J payload)), s1))"

definition makeError :: "'w sock_codec \<Rightarrow> error \<Rightarrow> 'w" where
  "makeError J err =
     (case sj_Marshal J (SockMessage EventError (sj_text J (''{\"message\": \"'' @ err @ ''\"}''))) of
        Inl e \<Rightarrow> sj_text J (''{\"error\": \"'' @ e @ ''\"}'')
      | Inr data \<Rightarrow> data)"

text \<open>One round of the server's loop: the bytes it writes back.\<close>

definition Server_serve ::
    "('d, 'v) store \<Rightarrow> 'v codec \<Rightarrow> 'w sock_codec \<Rightarrow> env \<Rightarrow> 'w \<Rightarrow> 'd relayer
     \<Rightarrow> 'w result \<times> 'd relayer" where
  "Server_serve S C J E data s =
     (case Server_parse S C J E data s of
        (Ok message, s1) \<Rightarrow> (Ok message, s1)
      | (Err e, s1) \<Rightarrow> (Ok (makeError J e), s1)
      | (Panic e, s1) \<Rightarrow> (Panic e, s1))"

section \<open>The client\<close>

definition ErrUnknownEvent :: error where "ErrUnknownEvent = ''unknown event''"
definition ErrUnknown :: error where "ErrUnknown = ''unknown error''"

definition ErrInvalidResponse :: "error option \<Rightarrow> error" where
  "ErrInvalidResponse err =
     ''invalid response: '' @ (case err of None \<Rightarrow> ''<nil>'' | Some e \<Rightarrow> e)"

definition Client_send :: "'w sock_codec \<Rightarrow> string \<Rightarrow> 'w payload \<Rightarrow> error + 'w" where
  "Client_send J event req = (case sj_Marshal J req of
      Inl e \<Rightarrow> Inl e
    | Inr data \<Rightarrow> sj_Marshal J (SockMessage event data))"

definition Client_parseEvent :: "'w sock_codec \<Rightarrow> string \<Rightarrow> 'w \<Rightarrow> error + 'w payload" where
  "Client_parseEvent J ev data =
     (if ev = EventGetBlock then sj_Unmarshal J TResGetBlocks data
      else if ev = EventGetMessageList then sj_Unmarshal J TResMessageList data
      else if ev = EventRelayMessage then sj_Unmarshal J TResRelayMessage data
      else if ev = EventMessageRemove then sj_Unmarshal J TResMessageRemove data
      else if ev = EventPruneDB then sj_Unmarshal J TResPruneDB data
      else if ev = EventError then Inl ErrUnknown
      else if ev = EventRevertMessage then sj_Unmarshal J TResRevertMessage data
      else if ev = EventGetFee then sj_Unmarshal J TResGetFee data
      else if ev = EventSetFee then sj_Unmarshal J TResSetFee data
      else if ev = EventClaimFee then sj_Unmarshal J TResClaimFee data
      else Inl ErrUnknownEvent)"

definition Client_read :: "'w sock_codec \<Rightarrow> 'w \<Rightarrow> error + 'w payload" where
  "Client_read J buf = (case sj_Unmarshal J TMessage buf of
      Inl e \<Rightarrow> Inl e
    | Inr msg \<Rightarrow> Client_parseEvent J (sm_Event msg) (sm_Data msg))"

text \<open>
  A request and its answer over a connection \<open>conn\<close> (what the server writes back for what the
  client wrote), with the type assertion of every client method on the answer.
\<close>

definition Client_call ::
    "'w sock_codec \<Rightarrow> ('w \<Rightarrow> error + 'w) \<Rightarrow> string \<Rightarrow> 'w payload \<Rightarrow> ptype \<Rightarrow> error + 'w payload" where
  "Client_call J conn event req T = (case Client_send J event req of
      Inl e \<Rightarrow> Inl e
    | Inr payload \<Rightarrow> (case conn payload of
        Inl e \<Rightarrow> Inl e
      | Inr buf \<Rightarrow> (case Client_read J buf of
          Inl e \<Rightarrow> Inl e
        | Inr data \<Rightarrow> if type_of data = T then Inr data else Inl (ErrInvalidResponse None))))"

definition Client_GetBlock where
  "Client_GetBlock J conn chain =
     Client_call J conn EventGetBlock (ReqGetBlock chain (chain = '''')) TResGetBlocks"

definition Client_GetMessageList where
  "Client_GetMessageList J conn chain pg =
     Client_call J conn EventGetMessageList (ReqMessageList chain pg) TResMessageList"

definition Client_RelayMessage where
  "Client_RelayMessage J conn chain height sn =
     Client_call J conn EventRelayMessage (ReqRelayMessage chain sn height) TResRelayMessage"

definition Client_MessageRemove where
  "Client_MessageRemove J conn chain sn =
     Client_call J conn EventMessageRemove (ReqMessageRemove chain sn) TResMessageRemove"

definition Client_PruneDB where
  "Client_PruneDB J conn = Client_call J conn EventPruneDB (ReqPruneDB '''') TResPruneDB"

definition Client_RevertMessage where
  "Client_RevertMessage J conn chain sn =
     Client_call J conn EventRevertMessage (ReqRevertMessage chain sn) TResRevertMessage"

definition Client_GetFee where
  "Client_GetFee J conn chain network isResponse =
     Client_call J conn EventGetFee (ReqGetFee chain network isResponse) TResGetFee"

definition Client_SetFee where
  "Client_SetFee J conn chain network msgFee resFee =
     Client_call J conn EventSetFee (ReqSetFee chain network msgFee resFee) TResSetFee"

definition Client_ClaimFee where
  "Client_ClaimFee J conn chain =
     Client_call J conn EventClaimFee (ReqClaimFee chain) TResClaimFee"


section \<open>The codec of the protocol as an interface\<close>

text \<open>
  JSON keeps the protocol's structs when their texts are ASCII, and decoding into a type gives a
  value of that type.
\<close>

fun json_payload :: "'w payload \<Rightarrow> bool" where
  "json_payload (SockMessage ev data) = ascii ev"
| "json_payload (ReqGetBlock chain al) = ascii chain"
| "json_payload (ReqMessageList chain pg) = ascii chain"
| "json_payload (ReqRelayMessage chain sn h) = ascii chain"
| "json_payload (ReqMessageRemove chain sn) = ascii chain"
| "json_payload (ReqPruneDB chain) = ascii chain"
| "json_payload (ReqRevertMessage chain sn) = ascii chain"
| "json_payload (ReqGetFee chain network r) = (ascii chain \<and> ascii network)"
| "json_payload (ReqSetFee chain network a b) = (ascii chain \<and> ascii network)"
| "json_payload (ReqClaimFee chain) = ascii chain"
| "json_payload (ResGetBlocks bs) = list_all (\<lambda>(n, h). ascii n) bs"
| "json_payload (ResMessageList ms n) = list_all json_route ms"
| "json_payload (ResRelayMessage m) = json_route m"
| "json_payload (ResMessageRemove sn chain dst h ev) = (ascii chain \<and> ascii dst \<and> ascii ev)"
| "json_payload (ResPruneDB st) = ascii st"
| "json_payload (ResRevertMessage sn) = True"
| "json_payload (ResGetFee chain fee r) = ascii chain"
| "json_payload (ResSetFee st) = ascii st"
| "json_payload (ResClaimFee st) = ascii st"

locale sock_laws =
  fixes J :: "'w sock_codec"
  assumes sock_rt: "json_payload p \<Longrightarrow>
      \<exists>w. sj_Marshal J p = Inr w \<and> sj_Unmarshal J (type_of p) w = Inr p"
    and sock_type: "sj_Unmarshal J T w = Inr p \<Longrightarrow> type_of p = T"
begin

lemma send_ok:
  assumes "json_payload req" "ascii ev"
  shows "\<exists>w data. Client_send J ev req = Inr w \<and> sj_Unmarshal J TMessage w = Inr (SockMessage ev data) \<and>
    sj_Unmarshal J (type_of req) data = Inr req"
proof -
  obtain data where d: "sj_Marshal J req = Inr data" "sj_Unmarshal J (type_of req) data = Inr req"
    using sock_rt [OF assms(1)] by blast
  obtain w where w: "sj_Marshal J (SockMessage ev data) = Inr w"
      "sj_Unmarshal J TMessage w = Inr (SockMessage ev data)"
    using sock_rt [of "SockMessage ev data"] assms(2) by auto
  from d w show ?thesis by (simp add: Client_send_def)
qed

lemma reply_ok:
  assumes "json_payload res"
  shows "\<exists>data. reply J ev res = Ok (SockMessage ev data) \<and> sj_Unmarshal J (type_of res) data = Inr res"
  using sock_rt [OF assms] by (auto simp: reply_def of_sum_def)

text \<open>What the client sees of an answer of the server's event switch.\<close>

lemma read_answer:
  assumes "ascii ev"
  shows "\<exists>w. of_sum (sj_Marshal J (SockMessage ev data)) = Ok w \<and>
    Client_read J w = Client_parseEvent J ev data"
  using sock_rt [of "SockMessage ev data"] assms by (auto simp: of_sum_def Client_read_def)

lemma read_error: "Client_read J (makeError J e) = Inl ErrUnknown"
proof -
  have "ascii EventError" by (simp add: ascii_def EventError_def)
  then show ?thesis
    using sock_rt [of "SockMessage EventError (sj_text J (''{\"message\": \"'' @ e @ ''\"}''))"]
    by (auto simp: makeError_def Client_read_def Client_parseEvent_def socket_event_defs)
qed

end

text \<open>The connection to a server in state \<open>s\<close>; a panic closes it.\<close>

definition conn_to ::
    "('d, 'v) store \<Rightarrow> 'v codec \<Rightarrow> 'w sock_codec \<Rightarrow> env \<Rightarrow> 'd relayer \<Rightarrow> 'w \<Rightarrow> error + 'w" where
  "conn_to S C J E s w = (case fst (Server_serve S C J E w s) of
      Ok buf \<Rightarrow> Inr buf | Err e \<Rightarrow> Inl e | Panic e \<Rightarrow> Inl ''EOF'')"

context sock_laws
begin

text \<open>A round trip: the client's call is the server's event switch on the client's request.\<close>

lemma call_answer:
  assumes req: "json_payload req" "ascii ev"
    and res: "\<And>data. sj_Unmarshal J (type_of req) data = Inr req \<Longrightarrow>
                fst (Server_parseEvent S C J E ev data s) = Ok (SockMessage ev' out)"
    and ev': "ascii ev'"
  shows "Client_call J (conn_to S C J E s) ev req T =
    (case Client_parseEvent J ev' out of Inl e \<Rightarrow> Inl e
     | Inr p \<Rightarrow> if type_of p = T then Inr p else Inl (ErrInvalidResponse None))"
proof -
  obtain w data where w: "Client_send J ev req = Inr w"
      "sj_Unmarshal J TMessage w = Inr (SockMessage ev data)" "sj_Unmarshal J (type_of req) data = Inr req"
    using send_ok [OF req] by blast
  obtain b where b: "of_sum (sj_Marshal J (SockMessage ev' out)) = Ok b"
      "Client_read J b = Client_parseEvent J ev' out"
    using read_answer [OF ev'] by blast
  have "fst (Server_serve S C J E w s) = Ok b"
    using w(2) res [OF w(3)] b(1)
    by (auto simp: Server_serve_def Server_parse_def split: prod.splits)
  then show ?thesis using w(1) b(2) by (simp add: Client_call_def conn_to_def)
qed

lemma call_error:
  assumes req: "json_payload req" "ascii ev"
    and res: "\<And>data. sj_Unmarshal J (type_of req) data = Inr req \<Longrightarrow>
                fst (Server_parseEvent S C J E ev data s) = Err e"
  shows "Client_call J (conn_to S C J E s) ev req T = Inl ErrUnknown"
proof -
  obtain w data where w: "Client_send J ev req = Inr w"
      "sj_Unmarshal J TMessage w = Inr (SockMessage ev data)" "sj_Unmarshal J (type_of req) data = Inr req"
    using send_ok [OF req] by blast
  have "fst (Server_serve S C J E w s) = Ok (makeError J e)"
    using w(2) res [OF w(3)]
    by (auto simp: Server_serve_def Server_parse_def split: prod.splits)
  then show ?thesis using w(1) read_error by (simp add: Client_call_def conn_to_def)
qed

end

section \<open>The relayer's invariant\<close>

lemma wf_bump_state: "relayer_ok s \<Longrightarrow> relayer_ok (bump s)"
  unfolding bump_def using heap_bump [of "r_heap s"] wf_heap [of s] by (blast intro: wf_bump)

lemma bump_simps [simp]:
  "r_db (bump s) = r_db s" "r_chains (bump s) = r_chains s" "r_tasks (bump s) = r_tasks s"
  by (simp_all add: bump_def)

lemma wf_on_MessageRemove: "relayer_ok s \<Longrightarrow> relayer_ok (snd (on_MessageRemove S C J req s))"
  by (cases "(S, C, J, req, s)" rule: on_MessageRemove.cases)
    (auto simp: Let_def intro: wf_db wf_bump_state split: sum.splits prod.splits option.splits)

lemma wf_on_RelayMessage:
  assumes "relayer_ok s"
  shows "relayer_ok (snd (on_RelayMessage S C J E req s))"
proof -
  have w: "relayer_ok (upd_cache chain (\<lambda>_. c') (bump s\<lparr>r_heap := h'\<rparr>))"
    if "FindChainRuntime chain s = Ok rt" "add_stored ws (cr_MessageCache rt, r_heap (bump s)) = (c', h')"
    for chain rt ws c' h'
  proof -
    have rt: "map_of (r_chains (bump s)) chain = Some rt"
      using that(1) by (auto simp: FindChainRuntime_def split: option.splits)
    note b = wf_bump_state [OF assms]
    from add_stored_ok [OF that(2) wf_chain(2) [OF b rt] wf_heap [OF b]]
    show ?thesis by (auto intro: wf_new_cache [OF b])
  qed
  show ?thesis
    by (cases "(S, C, J, E, req, s)" rule: on_RelayMessage.cases)
      (auto simp: Let_def assms w wf_bump_state wf_merge_into simp del: add_stored.simps
        split: sum.splits prod.splits result.splits list.splits)
qed

lemma wf_on_PruneDB: "relayer_ok s \<Longrightarrow> relayer_ok (snd (on_PruneDB S J s))"
  using wf_PruneDB [of s S] by (simp add: on_PruneDB_def case_prod_unfold Let_def)

lemma wf_with_req:
  "relayer_ok s \<Longrightarrow> (\<And>req. relayer_ok (snd (f req))) \<Longrightarrow> relayer_ok (snd (with_req J T data s f))"
  by (simp add: with_req_def split: sum.split)

lemma wf_Server_parseEvent:
  assumes "relayer_ok s"
  shows "relayer_ok (snd (Server_parseEvent S C J E ev data s))"
proof -
  note w = wf_with_req [OF assms]
  show ?thesis
    by (simp add: Server_parseEvent_def w wf_on_MessageRemove wf_on_RelayMessage wf_on_PruneDB assms)
qed

lemma wf_Server_serve:
  assumes "relayer_ok s"
  shows "relayer_ok (snd (Server_serve S C J E w s))"
proof -
  have "relayer_ok (snd (Server_parse S C J E w s))"
    by (simp add: Server_parse_def case_prod_unfold Let_def assms wf_Server_parseEvent [OF assms]
        split: sum.split)
  then show ?thesis
    by (cases "Server_parse S C J E w s") (auto simp: Server_serve_def split: result.splits)
qed

end
