(* ===== verification/Relay_Steps.thy ===== *)
theory Relay_Steps
  imports Socket
begin

text \<open>
  The relayer as a transition system. Its goroutines (listeners, block processors, the router's
  ticks, one goroutine per routed message, the finality processor, the socket server) interleave
  at the granularity of the handlers of \<open>Relay\<close> and \<open>Socket\<close>; \<^verbatim>\<open>processMessages\<close> is interleaved
  between any two entries it visits. A label names the handler with everything the outside world
  decides: the answers \<open>E\<close>, iteration orders, provider results. A panic has no successor: the
  process is gone.
\<close>

section \<open>Steps\<close>

datatype 'w label =
    LListen string block_info
  | LBlock string
  | LFlush "string list"
  | LProcess env string "bigptr message_key"
  | LRoute env nat
  | LCallback nat "bigptr message_key" tx_response "error option"
  | LReturn nat "error option"
  | LHeights env "string list"
  | LFinality env "string list"
  | LClean env "string list"
  | LSocket env 'w

inductive relay_step ::
    "('d, 'v) store \<Rightarrow> 'v codec \<Rightarrow> 'w sock_codec \<Rightarrow> 'w label \<Rightarrow> 'd relayer \<Rightarrow> 'd relayer \<Rightarrow> bool"
  for S :: "('d, 'v) store" and C :: "'v codec" and J :: "'w sock_codec" where
  listen: "map_of (r_chains s) nid = Some rt \<Longrightarrow>
     length (cr_listenerChan rt) < listenerChannelBufferSize \<Longrightarrow>
     relay_step S C J (LListen nid bi) s
       (upd_chain nid (\<lambda>rt. rt\<lparr>cr_listenerChan := cr_listenerChan rt @ [bi]\<rparr>) s)"
| block: "map_of (r_chains s) nid = Some rt \<Longrightarrow> cr_listenerChan rt = bi # rest \<Longrightarrow>
     relay_step S C J (LBlock nid) s
       (processBlockInfo S C nid bi (upd_chain nid (\<lambda>rt. rt\<lparr>cr_listenerChan := rest\<rparr>) s))"
| flush: "relay_step S C J (LFlush nids) s (flushMessages S C nids s)"
| process: "process_message S E src key s = Ok s' \<Longrightarrow> relay_step S C J (LProcess E src key) s s'"
| route: "i < length (r_tasks s) \<Longrightarrow> tk_phase (r_tasks s ! i) = Spawned \<Longrightarrow>
     relay_step S C J (LRoute E i) s
       (set_phase i Routing (RouteMessage_begin E (tk_ref (r_tasks s ! i)) s))"
| callback: "i < length (r_tasks s) \<Longrightarrow> tk_phase (r_tasks s ! i) \<noteq> Spawned \<Longrightarrow>
     callback S C (tk_src (r_tasks s ! i)) (tk_dst (r_tasks s ! i)) key response err s = Ok s' \<Longrightarrow>
     relay_step S C J (LCallback i key response err) s s'"
| return: "i < length (r_tasks s) \<Longrightarrow> tk_phase (r_tasks s ! i) = Routing \<Longrightarrow>
     RouteMessage_end S C (tk_ref (r_tasks s ! i)) (tk_src (r_tasks s ! i)) err
       (set_phase i Returned s) = Ok s' \<Longrightarrow>
     relay_step S C J (LReturn i err) s s'"
| heights: "relay_step S C J (LHeights E nids) s (SaveChainsBlockHeight S C E nids s)"
| finality: "relay_step S C J (LFinality E nids) s (CheckFinality S C E nids s)"
| clean: "relay_step S C J (LClean E nids) s (cleanExpiredMessages S C E nids s)"
| socket: "Server_serve S C J E w s = (Ok out, s') \<Longrightarrow> relay_step S C J (LSocket E w) s s'"

inductive_cases relay_stepE: "relay_step S C J l s s'"

inductive reachable ::
    "('d, 'v) store \<Rightarrow> 'v codec \<Rightarrow> 'w sock_codec \<Rightarrow> 'd \<Rightarrow> (string \<times> chain option) list \<Rightarrow> bool
     \<Rightarrow> 'd relayer \<Rightarrow> bool"
  for S :: "('d, 'v) store" and C :: "'v codec" and J :: "'w sock_codec" and db :: 'd
    and chs :: "(string \<times> chain option) list" and fresh :: bool where
  init: "NewRelayer S C db chs fresh = Ok s \<Longrightarrow> reachable S C J db chs fresh s"
| step: "reachable S C J db chs fresh s \<Longrightarrow> relay_step S C J l s s' \<Longrightarrow> reachable S C J db chs fresh s'"

section \<open>The invariant along steps\<close>

lemma RouteMessage_begin_simps [simp]:
  "r_tasks (RouteMessage_begin E ref s) = r_tasks s"
  "r_chains (RouteMessage_begin E ref s) = r_chains s"
  "r_db (RouteMessage_begin E ref s) = r_db s"
  by (auto simp: RouteMessage_begin_def split: option.splits)

lemma set_phase_simps [simp]:
  "r_chains (set_phase i p s) = r_chains s" "r_heap (set_phase i p s) = r_heap s"
  "r_db (set_phase i p s) = r_db s"
  "r_tasks (set_phase i p s) = (r_tasks s)[i := (r_tasks s ! i)\<lparr>tk_phase := p\<rparr>]"
  by (simp_all add: set_phase_def)

text \<open>Setting the phase of a task keeps the references of the others.\<close>

lemma filter_active_update:
  assumes "i < length ts" "active (ts ! i)"
  shows "map tk_ref (filter active (ts[i := (ts ! i)\<lparr>tk_phase := Routing\<rparr>])) = map tk_ref (filter active ts)"
    "map tk_ref (filter active (ts[i := (ts ! i)\<lparr>tk_phase := Returned\<rparr>])) =
       map tk_ref (filter active (take i ts)) @ map tk_ref (filter active (drop (Suc i) ts))"
    "map tk_ref (filter active ts) =
       map tk_ref (filter active (take i ts)) @ tk_ref (ts ! i) # map tk_ref (filter active (drop (Suc i) ts))"
proof -
  have t: "ts = take i ts @ ts ! i # drop (Suc i) ts" using assms(1) by (rule id_take_nth_drop)
  have f: "filter active ts = filter active (take i ts) @ ts ! i # filter active (drop (Suc i) ts)"
    using assms(2) by (subst t) simp
  then show "map tk_ref (filter active ts) =
       map tk_ref (filter active (take i ts)) @ tk_ref (ts ! i) # map tk_ref (filter active (drop (Suc i) ts))"
    by simp
  then show "map tk_ref (filter active (ts[i := (ts ! i)\<lparr>tk_phase := Routing\<rparr>])) = map tk_ref (filter active ts)"
    using assms(1) by (simp add: upd_conv_take_nth_drop active_def)
  show "map tk_ref (filter active (ts[i := (ts ! i)\<lparr>tk_phase := Returned\<rparr>])) =
       map tk_ref (filter active (take i ts)) @ map tk_ref (filter active (drop (Suc i) ts))"
    using assms(1) by (simp add: upd_conv_take_nth_drop active_def)
qed

lemma active_update:
  assumes "t \<in> set (ts[i := (ts ! i)\<lparr>tk_phase := p\<rparr>])" "active t" "i < length ts" "active (ts ! i)"
  shows "\<exists>u \<in> set ts. active u \<and> tk_ref u = tk_ref t"
proof -
  from assms(1) have "t \<in> insert ((ts ! i)\<lparr>tk_phase := p\<rparr>) (set ts)"
    by (rule set_update_subset_insert [THEN subsetD])
  then show ?thesis
  proof
    assume "t = (ts ! i)\<lparr>tk_phase := p\<rparr>"
    with assms(3,4) show ?thesis by (intro bexI [of _ "ts ! i"]) simp_all
  qed (use assms(2) in blast)
qed

lemma wf_set_phase:
  assumes "relayer_ok s" "i < length (r_tasks s)" "active (r_tasks s ! i)"
    and d: "distinct (map tk_ref (filter active (r_tasks (set_phase i p s))))"
  shows "relayer_ok (set_phase i p s)"
proof -
  have "\<exists>m. hp_routes (r_heap s) (tk_ref t) = Some m \<and> rm_processing m"
    if "t \<in> set (r_tasks (set_phase i p s))" "active t" for t
  proof -
    have "t \<in> set ((r_tasks s)[i := (r_tasks s ! i)\<lparr>tk_phase := p\<rparr>])" using that(1) by simp
    from active_update [OF this that(2) assms(2,3)] obtain u
      where "u \<in> set (r_tasks s)" "active u" "tk_ref u = tk_ref t" by blast
    with assms(1) show ?thesis unfolding relayer_ok_def tasks_ok_def by metis
  qed
  with d have "tasks_ok (r_heap s) (r_tasks (set_phase i p s))" by (simp only: tasks_ok_def) blast
  with assms(1) show ?thesis by (simp only: relayer_ok_def set_phase_simps) blast
qed

lemma wf_set_routing:
  assumes "relayer_ok s" "i < length (r_tasks s)" "active (r_tasks s ! i)"
  shows "relayer_ok (set_phase i Routing s)"
proof (rule wf_set_phase [OF assms])
  have "distinct (map tk_ref (filter active (r_tasks s)))"
    using assms(1) by (simp add: relayer_ok_def tasks_ok_def)
  then show "distinct (map tk_ref (filter active (r_tasks (set_phase i Routing s))))"
    by (simp only: set_phase_simps filter_active_update(1) [OF assms(2,3)])
qed

lemma wf_set_returned:
  assumes "relayer_ok s" "i < length (r_tasks s)" "active (r_tasks s ! i)"
  shows "relayer_ok (set_phase i Returned s)"
    and "\<And>t. t \<in> set (r_tasks (set_phase i Returned s)) \<Longrightarrow> active t \<Longrightarrow> tk_ref t \<noteq> tk_ref (r_tasks s ! i)"
proof -
  let ?ts = "r_tasks s"
  have d: "distinct (map tk_ref (filter active ?ts))" using assms(1) by (simp add: relayer_ok_def tasks_ok_def)
  note f = filter_active_update [OF assms(2,3)]
  show "relayer_ok (set_phase i Returned s)"
  proof (rule wf_set_phase [OF assms])
    show "distinct (map tk_ref (filter active (r_tasks (set_phase i Returned s))))"
      using d by (simp only: set_phase_simps f(2)) (simp only: f(3) distinct_append distinct.simps list.set; blast)
  qed
  fix t assume t: "t \<in> set (r_tasks (set_phase i Returned s))" "active t"
  then have "tk_ref t \<in> set (map tk_ref (filter active (?ts[i := (?ts ! i)\<lparr>tk_phase := Returned\<rparr>])))"
    by simp
  then have "tk_ref t \<in> set (map tk_ref (filter active (take i ?ts)) @ map tk_ref (filter active (drop (Suc i) ?ts)))"
    by (simp only: f(2))
  moreover have "tk_ref (?ts ! i) \<notin>
      set (map tk_ref (filter active (take i ?ts)) @ map tk_ref (filter active (drop (Suc i) ?ts)))"
    using d f(3) by simp
  ultimately show "tk_ref t \<noteq> tk_ref (?ts ! i)" by metis
qed

lemma wf_step:
  assumes "relay_step S C J l s s'" "relayer_ok s"
  shows "relayer_ok s'"
  using assms(1)
proof cases
  case (listen nid rt bi)
  show ?thesis unfolding listen(2)
    by (rule wf_upd_chain_static [OF assms(2)]) (use listen(3,4) in auto)
next
  case (block nid rt bi rest)
  have "relayer_ok (upd_chain nid (\<lambda>rt. rt\<lparr>cr_listenerChan := rest\<rparr>) s)"
    by (rule wf_upd_chain_static [OF assms(2)])
      (use block(3,4) wf_chain(3) [OF assms(2) block(3)] in auto)
  then show ?thesis unfolding block(2) by (rule wf_processBlockInfo)
next
  case (flush nids)
  then show ?thesis using assms(2) by (simp add: wf_flushMessages)
next
  case (process E src key)
  then show ?thesis using assms(2) by (blast intro: wf_process_message)
next
  case (route i E)
  show ?thesis unfolding route(2)
    by (rule wf_set_routing [OF wf_RouteMessage_begin [OF assms(2)]])
      (use route(3,4) in \<open>auto simp: active_def\<close>)
next
  case (callback i key response err)
  then show ?thesis using assms(2) by (blast intro: wf_callback)
next
  case (return i err)
  have a: "active (r_tasks s ! i)" using return(3) by (simp add: active_def)
  note r = wf_set_returned [OF assms(2) return(2) a]
  show ?thesis
    using return(4) r(1) wf_HandleMessageFailed [OF r(1) r(2)]
    by (auto simp: RouteMessage_end_def split: option.splits)
next
  case (heights E nids)
  then show ?thesis using assms(2) by (simp add: wf_SaveChainsBlockHeight)
next
  case (finality E nids)
  then show ?thesis using assms(2) by (simp add: wf_CheckFinality)
next
  case (clean E nids)
  then show ?thesis using assms(2) by (simp add: wf_cleanExpiredMessages)
next
  case (socket E w out)
  then show ?thesis using wf_Server_serve [OF assms(2)] by (metis snd_conv)
qed

lemma reachable_ok: "reachable S C J db chs fresh s \<Longrightarrow> relayer_ok s"
  by (induction rule: reachable.induct) (auto intro: wf_NewRelayer wf_step)

end
