(* ===== verification/Example.thy ===== *)
theory Example
  imports Relay_Steps
begin

text \<open>
  A concrete relayer on which the properties are evaluated: two chains \<open>a\<close> and \<open>b\<close> on the
  in-memory store, a codec of the socket protocol that keeps the payloads as they are, and a
  world in which every query succeeds. \<open>b\<close> waits for finality, \<open>a\<close> does not.
\<close>

section \<open>A codec for the socket protocol\<close>

datatype sjson = SJ "sjson payload" | SText string

definition mem_sock :: "sjson sock_codec" where
  "mem_sock = \<lparr>sj_Marshal = \<lambda>p. Inr (SJ p),
     sj_Unmarshal = \<lambda>T w. case w of
         SJ p \<Rightarrow> if type_of p = T then Inr p else Inl ''readObjectStart: expect {''
       | SText t \<Rightarrow> Inl ''readObjectStart: expect {'',
     sj_text = SText\<rparr>"

interpretation memsock: sock_laws mem_sock
  by unfold_locales (auto simp: mem_sock_def split: sjson.splits if_splits)

section \<open>Two chains and a quiet world\<close>

definition ex_chains :: "(string \<times> chain option) list" where
  "ex_chains = [(''alpha'', Some (NewChain \<lparr>pv_NID = ''a'', pv_FinalityBlock = 0\<rparr> False)),
     (''beta'', Some (NewChain \<lparr>pv_NID = ''b'', pv_FinalityBlock = 5\<rparr> False))]"

definition ex_now :: gotime where "ex_now = 63000000000000000000"

definition ex_env :: env where
  "ex_env = \<lparr>ev_now = ex_now, ev_QueryLatestHeight = \<lambda>_. Inr 100,
     ev_QueryTransactionReceipt = \<lambda>_ h. Inr \<lparr>rc_txhash = h, rc_height = 0, rc_status = True\<rparr>,
     ev_ShouldReceiveMessage = \<lambda>_ _. Inr True, ev_ShouldSendMessage = \<lambda>_ _. Inr True,
     ev_MessageReceived = \<lambda>_ _. Inr False, ev_GenerateMessages = \<lambda>_ _ _. Inr [],
     ev_RevertMessage = \<lambda>_ _. None, ev_GetFee = \<lambda>_ _ _. Inr 7, ev_SetFee = \<lambda>_ _ _ _. None,
     ev_ClaimFee = \<lambda>_. None\<rparr>"

definition ex_msg :: "string \<Rightarrow> string \<Rightarrow> int \<Rightarrow> wireint message" where
  "ex_msg src dst sn = \<lparr>m_dst = dst, m_src = src, m_sn = Some sn, m_data = ''d'', m_height = 3,
     m_event = ''emitMessage'', m_reqid = None\<rparr>"

definition ex_response :: tx_response where
  "ex_response = \<lparr>tr_height = 9, tr_txhash = ''tx'', tr_codespace = '''', tr_code = Success, tr_data = ''''\<rparr>"

section \<open>Running a list of labels\<close>

text \<open>The step relation as a function, for evaluation.\<close>

fun ok_of :: "'a result \<Rightarrow> 'a option" where
  "ok_of (Ok x) = Some x"
| "ok_of (Err e) = None"
| "ok_of (Panic e) = None"

fun run1 ::
    "('d, 'v) store \<Rightarrow> 'v codec \<Rightarrow> 'w sock_codec \<Rightarrow> 'w label \<Rightarrow> 'd relayer \<Rightarrow> 'd relayer option" where
  "run1 S C J (LListen nid bi) s = (case map_of (r_chains s) nid of None \<Rightarrow> None | Some rt \<Rightarrow>
     if length (cr_listenerChan rt) < listenerChannelBufferSize
     then Some (upd_chain nid (\<lambda>rt. rt\<lparr>cr_listenerChan := cr_listenerChan rt @ [bi]\<rparr>) s) else None)"
| "run1 S C J (LBlock nid) s = (case map_of (r_chains s) nid of None \<Rightarrow> None | Some rt \<Rightarrow>
     (case cr_listenerChan rt of [] \<Rightarrow> None | bi # rest \<Rightarrow>
       Some (processBlockInfo S C nid bi (upd_chain nid (\<lambda>rt. rt\<lparr>cr_listenerChan := rest\<rparr>) s))))"
| "run1 S C J (LFlush nids) s = Some (flushMessages S C nids s)"
| "run1 S C J (LProcess E src key) s = ok_of (process_message S E src key s)"
| "run1 S C J (LRoute E i) s =
     (if i < length (r_tasks s) \<and> tk_phase (r_tasks s ! i) = Spawned
      then Some (set_phase i Routing (RouteMessage_begin E (tk_ref (r_tasks s ! i)) s)) else None)"
| "run1 S C J (LCallback i key response err) s =
     (if i < length (r_tasks s) \<and> tk_phase (r_tasks s ! i) \<noteq> Spawned
      then ok_of (callback S C (tk_src (r_tasks s ! i)) (tk_dst (r_tasks s ! i)) key response err s)
      else None)"
| "run1 S C J (LReturn i err) s =
     (if i < length (r_tasks s) \<and> tk_phase (r_tasks s ! i) = Routing
      then ok_of (RouteMessage_end S C (tk_ref (r_tasks s ! i)) (tk_src (r_tasks s ! i)) err
        (set_phase i Returned s)) else None)"
| "run1 S C J (LHeights E nids) s = Some (SaveChainsBlockHeight S C E nids s)"
| "run1 S C J (LFinality E nids) s = Some (CheckFinality S C E nids s)"
| "run1 S C J (LClean E nids) s = Some (cleanExpiredMessages S C E nids s)"
| "run1 S C J (LSocket E w) s = (case Server_serve S C J E w s of (Ok out, s') \<Rightarrow> Some s' | _ \<Rightarrow> None)"

lemma ok_of_Some [simp]: "(ok_of r = Some x) = (r = Ok x)"
  by (cases r) auto

lemma run1_step: "run1 S C J l s = Some s' \<Longrightarrow> relay_step S C J l s s'"
  by (cases l) (auto intro: relay_step.intros split: option.splits list.splits if_splits prod.splits result.splits)

fun run ::
    "('d, 'v) store \<Rightarrow> 'v codec \<Rightarrow> 'w sock_codec \<Rightarrow> 'w label list \<Rightarrow> 'd relayer \<Rightarrow> 'd relayer option" where
  "run S C J [] s = Some s"
| "run S C J (l # ls) s = Option.bind (run1 S C J l s) (run S C J ls)"

lemma run_reachable:
  "run S C J ls s = Some s' \<Longrightarrow> reachable S C J db chs fresh s \<Longrightarrow> reachable S C J db chs fresh s'"
  by (induction ls arbitrary: s) (auto simp: bind_eq_Some_conv intro: run1_step reachable.step)

definition ex_start :: "memdb relayer" where
  "ex_start = \<lparr>r_db = [], r_chains =
     [(''a'', \<lparr>cr_Provider = \<lparr>pv_NID = ''a'', pv_FinalityBlock = 0\<rparr>, cr_listenerChan = [],
         cr_LastBlockHeight = 0, cr_LastSavedHeight = 0, cr_MessageCache = []\<rparr>),
      (''b'', \<lparr>cr_Provider = \<lparr>pv_NID = ''b'', pv_FinalityBlock = 5\<rparr>, cr_listenerChan = [],
         cr_LastBlockHeight = 0, cr_LastSavedHeight = 0, cr_MessageCache = []\<rparr>)],
     r_heap = \<lparr>hp_routes = (\<lambda>_. None), hp_next = 0\<rparr>, r_tasks = []\<rparr>"

lemma ex_start_reachable: "reachable mem_store mem_codec mem_sock [] ex_chains False ex_start"
  by (rule reachable.init)
    (simp add: NewRelayer_def ex_chains_def ex_start_def NewChain_def NewChainRuntime_def
      GetLastStoredBlock_def mem_store_def LVLDB_def LVLDB_GetByKey_def mem_leveldb_def mem_Get_def
      NewMessageCache_def Let_def)

definition ex_key :: "nat \<Rightarrow> string \<Rightarrow> string \<Rightarrow> int \<Rightarrow> bigptr message_key" where
  "ex_key addr src dst sn = \<lparr>k_sn = Some (addr, sn), k_src = src, k_dst = dst, k_event = ''emitMessage''\<rparr>"

text \<open>One message from \<open>a\<close> to \<open>b\<close>: seen in a block, visited by the router, being routed.\<close>

definition ex_labels :: "sjson label list" where
  "ex_labels = [LListen ''a'' \<lparr>bi_height = 3, bi_messages = [ex_msg ''a'' ''b'' 1]\<rparr>, LBlock ''a'',
     LProcess ex_env ''a'' (ex_key 0 ''a'' ''b'' 1), LRoute ex_env 0]"

definition ex_routing :: "memdb relayer" where
  "ex_routing = the (run mem_store mem_codec mem_sock ex_labels ex_start)"

definition run_ok :: "sjson label list \<Rightarrow> memdb relayer \<Rightarrow> bool" where
  "run_ok ls s = (case run mem_store mem_codec mem_sock ls s of Some s' \<Rightarrow> True | None \<Rightarrow> False)"

lemma run_okD: "run_ok ls s \<Longrightarrow>
    run mem_store mem_codec mem_sock ls s = Some (the (run mem_store mem_codec mem_sock ls s))"
  by (simp add: run_ok_def split: option.splits)

lemma ex_labels_ok: "run_ok ex_labels ex_start"
  by code_simp

lemma ex_routing_reachable: "reachable mem_store mem_codec mem_sock [] ex_chains False ex_routing"
  unfolding ex_routing_def
  by (rule run_reachable [OF run_okD [OF ex_labels_ok] ex_start_reachable])

end
