(* ===== verification/Relay_Safety.thy ===== *)
theory Relay_Safety
  imports Example
begin

text \<open>
  What leaves a cache, and when: frame lemmas for every operation of the relayer, and from them
  the safety properties of its steps.
\<close>

section \<open>Cache contents\<close>

definition cached_ref :: "'d relayer \<Rightarrow> string \<Rightarrow> bigptr message_key \<Rightarrow> nat option" where
  "cached_ref s nid k =
     Option.bind (map_of (r_chains s) nid) (\<lambda>rt. MessageCache_Get k (cr_MessageCache rt))"

definition keeps :: "'d relayer \<Rightarrow> 'd relayer \<Rightarrow> bool" where
  "keeps s s' = (\<forall>nid k. cached_ref s nid k \<noteq> None \<longrightarrow> cached_ref s' nid k \<noteq> None)"

lemma keeps_refl [simp]: "keeps s s"
  by (simp add: keeps_def)

lemma keeps_trans [trans]: "keeps a b \<Longrightarrow> keeps b c \<Longrightarrow> keeps a c"
  by (simp add: keeps_def)

lemma keepsD: "keeps s s' \<Longrightarrow> cached_ref s nid k = Some ref \<Longrightarrow> cached_ref s' nid k \<noteq> None"
  by (auto simp: keeps_def)

lemma fold_keeps: "(\<And>x s. keeps s (f x s)) \<Longrightarrow> keeps s (fold f xs s)"
  by (induction xs arbitrary: s) (auto intro: keeps_trans)

lemma cached_ref_cong:
  "r_chains s' = r_chains s \<Longrightarrow> cached_ref s' = cached_ref s"
  by (auto simp: cached_ref_def fun_eq_iff)

lemma cached_ref_simps [simp]:
  "cached_ref (s\<lparr>r_db := d\<rparr>) nid k = cached_ref s nid k"
  "cached_ref (s\<lparr>r_heap := h\<rparr>) nid k = cached_ref s nid k"
  "cached_ref (s\<lparr>r_tasks := ts\<rparr>) nid k = cached_ref s nid k"
  "cached_ref (toggle ref s) nid k = cached_ref s nid k"
  "cached_ref (spawn ref dst src s) nid k = cached_ref s nid k"
  "cached_ref (set_phase i p s) nid k = cached_ref s nid k"
  "cached_ref (RouteMessage_begin E ref s) nid k = cached_ref s nid k"
  "cached_ref (bump s) nid k = cached_ref s nid k"
  by (rule cached_ref_cong [THEN fun_cong, THEN fun_cong]; simp add: spawn_def)+

lemma cached_ref_upd_cache:
  "cached_ref (upd_cache src f s) nid k =
     (if nid = src then Option.bind (map_of (r_chains s) nid) (\<lambda>rt. MessageCache_Get k (f (cr_MessageCache rt)))
      else cached_ref s nid k)"
  by (auto simp: cached_ref_def split: bind_split)

lemma cached_ref_clear:
  "cached_ref (snd (ClearMessages S ks src s)) nid k =
     (if nid = src \<and> k \<in> set ks then None else cached_ref s nid k)"
  by (auto simp: ClearMessages_eq cached_ref_upd_cache clearMessageFromCache_get) (auto simp: cached_ref_def)

lemma cached_ref_remove:
  "cached_ref (upd_cache src (MessageCache_Remove k') s) nid k =
     (if nid = src \<and> k = k' then None else cached_ref s nid k)"
  by (auto simp: cached_ref_upd_cache mc.get_remove) (auto simp: cached_ref_def)

lemma keeps_upd_chain:
  assumes "\<And>rt k. map_of (r_chains s) nid = Some rt \<Longrightarrow> MessageCache_Get k (cr_MessageCache rt) \<noteq> None \<Longrightarrow>
             MessageCache_Get k (cr_MessageCache (f rt)) \<noteq> None"
  shows "keeps s (upd_chain nid f s)"
  using assms by (auto simp: keeps_def cached_ref_def split: bind_splits if_splits)

lemma keeps_chains: "r_chains s = r_chains s' \<Longrightarrow> keeps s t = keeps s' t \<and> keeps t s = keeps t s'"
  by (simp add: keeps_def cached_ref_def)

section \<open>Operations that only add\<close>

definition cache_grows :: "cache \<Rightarrow> cache \<Rightarrow> bool" where
  "cache_grows c c' = (\<forall>k. MessageCache_Get k c \<noteq> None \<longrightarrow> MessageCache_Get k c' \<noteq> None)"

lemma cache_add_new_grows: "cache_grows c (fst (cache_add_new r (c, h)))"
  by (auto simp: cache_grows_def cache_add_new_def new_route_def Let_def mc.get_add)

lemma cache_grows_trans: "cache_grows a b \<Longrightarrow> cache_grows b c \<Longrightarrow> cache_grows a c"
  by (simp add: cache_grows_def)

lemma mergeMessages_grows: "mergeMessages ms (c, h) = (c', h') \<Longrightarrow> cache_grows c c'"
proof (induction ms arbitrary: c h)
  case (Cons m ms)
  obtain bm h1 where nm: "new_message m h = (bm, h1)" by (cases "new_message m h")
  obtain c2 h2 where add: "cache_add_new (NewRouteMessage bm) (c, h1) = (c2, h2)"
    by (cases "cache_add_new (NewRouteMessage bm) (c, h1)")
  have "cache_grows c c2" using cache_add_new_grows [of c "NewRouteMessage bm" h1] add by simp
  moreover have "cache_grows c2 c'" using Cons nm add by simp
  ultimately show ?case by (rule cache_grows_trans)
qed (simp add: cache_grows_def)

lemma add_stored_grows: "add_stored ws (c, h) = (c', h') \<Longrightarrow> cache_grows c c'"
proof (induction ws arbitrary: c h)
  case (Cons w ws)
  obtain r h1 where nr: "new_stored_route w h = (r, h1)" by (cases "new_stored_route w h")
  obtain c2 h2 where add: "cache_add_new r (c, h1) = (c2, h2)" by (cases "cache_add_new r (c, h1)")
  have "cache_grows c c2" using cache_add_new_grows [of c r h1] add by simp
  moreover have "cache_grows c2 c'" using Cons nr add by simp
  ultimately show ?case by (rule cache_grows_trans)
qed (simp add: cache_grows_def)

lemma keeps_new_cache:
  assumes "map_of (r_chains s) nid = Some rt" "cache_grows (cr_MessageCache rt) c'" "r_chains s1 = r_chains s"
  shows "keeps s (upd_cache nid (\<lambda>_. c') s1)"
proof -
  have "keeps s1 (upd_cache nid (\<lambda>_. c') s1)"
    unfolding upd_cache_def by (rule keeps_upd_chain) (use assms in \<open>auto simp: cache_grows_def\<close>)
  then show ?thesis using keeps_chains [of s s1] assms(3) by simp
qed

lemma keeps_flush_chain: "keeps s (flush_chain S C key s)"
  by (auto simp: flush_chain_def intro: keeps_new_cache add_stored_grows
      split: option.splits sum.splits prod.splits)

lemma keeps_flushMessages: "keeps s (flushMessages S C nids s)"
  unfolding flushMessages_def by (rule fold_keeps) (rule keeps_flush_chain)

lemma keeps_merge_into: "keeps s (merge_into nid ms s)"
  by (auto simp: merge_into_def intro: keeps_new_cache mergeMessages_grows split: option.splits prod.splits)

lemma keeps_processBlockInfo: "keeps s (processBlockInfo S C src bi s)"
proof (cases "map_of (r_chains s) src")
  case (Some rt)
  obtain c' h' d' where b: "block_messages S C (bi_messages bi) (cr_MessageCache rt, r_heap s, r_db s)
      = (c', h', d')" by (metis prod_cases3)
  have "cache_grows (cr_MessageCache rt) c'"
    by (rule mergeMessages_grows [OF block_messages_merge [OF b]])
  moreover have "keeps (s\<lparr>r_heap := h', r_db := d'\<rparr>) (upd_chain src
      (\<lambda>rt. rt\<lparr>cr_LastBlockHeight := bi_height bi, cr_MessageCache := c'\<rparr>) (s\<lparr>r_heap := h', r_db := d'\<rparr>))"
    by (rule keeps_upd_chain) (use Some calculation in \<open>auto simp: cache_grows_def\<close>)
  ultimately show ?thesis
    using Some b keeps_chains [of s "s\<lparr>r_heap := h', r_db := d'\<rparr>"] by (simp add: processBlockInfo_def)
qed (simp add: processBlockInfo_def)

lemma keeps_SaveBlockHeight: "keeps s (snd (SaveBlockHeight S C nid h s))"
proof -
  have "keeps s (upd_chain nid (\<lambda>rt. rt\<lparr>cr_LastSavedHeight := h, cr_LastBlockHeight := h\<rparr>) s)"
    by (rule keeps_upd_chain) auto
  then show ?thesis
    by (auto simp: SaveBlockHeight_def Let_def keeps_def split: option.splits prod.splits)
qed

lemma keeps_heights: "keeps s (SaveChainsBlockHeight S C E nids s)"
  unfolding SaveChainsBlockHeight_def
  by (rule fold_keeps) (auto simp: save_chain_height_def keeps_SaveBlockHeight split: option.splits sum.splits)

lemma keeps_delete_tx: "keeps s (snd (delete_tx S t s))"
  by (auto simp: delete_tx_def Let_def keeps_def split: prod.splits)

lemma keeps_check_tx: "keeps s (check_tx S E nid fin latest t s)"
proof -
  have d: "keeps s s1" if "delete_tx S t s = (e, s1)" for e s1
    using keeps_delete_tx [of s S t] that by simp
  have "keeps s (merge_into n ms s1)" if "delete_tx S t s = (e, s1)" for e s1 n ms
    using d [OF that] keeps_merge_into by (rule keeps_trans)
  with d show ?thesis
    by (auto simp: check_tx_def keeps_delete_tx split: sum.splits option.splits prod.splits)
qed

lemma keeps_CheckFinality: "keeps s (CheckFinality S C E nids s)"
  unfolding CheckFinality_def
proof (rule fold_keeps)
  fix nid and s :: "'a relayer"
  have "keeps s (fold (check_tx S E n fin latest) ts s)" for n fin latest ts
    by (rule fold_keeps) (rule keeps_check_tx)
  then show "keeps s (check_chain_finality S C E nid s)"
    by (auto simp: check_chain_finality_def Let_def split: option.splits sum.splits)
qed

lemma keeps_on_MessageRemove: "keeps s (snd (on_MessageRemove S C J req s))"
  by (cases "(S, C, J, req, s)" rule: on_MessageRemove.cases)
    (auto simp: Let_def keeps_def split: sum.splits prod.splits option.splits)

lemma keeps_on_RelayMessage: "keeps s (snd (on_RelayMessage S C J E req s))"
proof -
  have k: "keeps s (upd_cache chain (\<lambda>_. c') (bump s\<lparr>r_heap := h'\<rparr>))"
    if "FindChainRuntime chain s = Ok rt" "add_stored ws (cr_MessageCache rt, r_heap (bump s)) = (c', h')"
    for chain rt ws c' h'
    by (rule keeps_new_cache [OF _ add_stored_grows [OF that(2)]])
      (use that(1) in \<open>auto simp: FindChainRuntime_def split: option.splits\<close>)
  show ?thesis
    by (cases "(S, C, J, E, req, s)" rule: on_RelayMessage.cases)
      (auto simp: Let_def k keeps_merge_into keeps_def [of s "bump s"] simp del: add_stored.simps
        split: sum.splits prod.splits result.splits list.splits)
qed

lemma keeps_Server_serve: "keeps s (snd (Server_serve S C J E w s))"
proof -
  have w: "(\<And>req. keeps s (snd (f req))) \<Longrightarrow> keeps s (snd (with_req J T data s f))" for T data f
    by (simp add: with_req_def split: sum.split)
  have p: "keeps s (snd (on_PruneDB S J s))"
    by (simp add: on_PruneDB_def PruneDB_def keeps_def case_prod_unfold Let_def)
  have "keeps s (snd (Server_parseEvent S C J E ev data s))" for ev data
    by (simp add: Server_parseEvent_def w p keeps_on_MessageRemove keeps_on_RelayMessage)
  then have "keeps s (snd (Server_parse S C J E w s))"
    by (simp add: Server_parse_def case_prod_unfold Let_def split: sum.split)
  then show ?thesis
    by (cases "Server_parse S C J E w s") (auto simp: Server_serve_def split: result.splits)
qed


section \<open>Operations that remove\<close>

lemma cached_refE:
  assumes "cached_ref s nid k = Some ref"
  obtains rt where "map_of (r_chains s) nid = Some rt" "MessageCache_Get k (cr_MessageCache rt) = Some ref"
  using assms by (auto simp: cached_ref_def bind_eq_Some_conv)

lemma cached_ref_object:
  assumes "relayer_ok s" "cached_ref s nid k = Some ref"
  shows "\<exists>m. hp_routes (r_heap s) ref = Some m \<and> MessageKey (rm_msg m) = k"
    "key_below (hp_next (r_heap s)) k"
  using assms by (auto elim!: cached_refE dest: wf_cached)

lemma FindChainRuntime_Ok: "(FindChainRuntime n s = Ok rt) = (map_of (r_chains s) n = Some rt)"
  by (auto simp: FindChainRuntime_def split: option.splits)

lemma FindChainRuntime_cases:
  "(\<exists>rt. FindChainRuntime n s = Ok rt \<and> map_of (r_chains s) n = Some rt) \<or>
   (\<exists>e. FindChainRuntime n s = Err e \<and> map_of (r_chains s) n = None)"
  by (auto simp: FindChainRuntime_def split: option.splits)

lemma process_message_removes:
  assumes ok: "relayer_ok s" and p: "process_message S E src key s = Ok s'"
    and c: "cached_ref s nid k = Some ref" "cached_ref s' nid k = None"
  shows "src = nid \<and> key = k \<and>
    (map_of (r_chains s) (k_dst k) = None \<or> ev_MessageReceived E (k_dst k) (wire_key k) = Inr True)"
proof -
  from p c obtain rt ref' m where rt: "map_of (r_chains s) src = Some rt"
      and g: "MessageCache_Get key (cr_MessageCache rt) = Some ref'"
      and m: "hp_routes (r_heap s) ref' = Some m" and e: "process_entry S E src key ref' m s = Ok s'"
    by (auto simp: process_message_def split: option.splits)
  from wf_cached(1) [OF ok rt g] m have key: "MessageKey (rm_msg m) = key" by auto
  then have dst: "m_dst (rm_msg m) = k_dst key" by auto
  show ?thesis
  proof (cases "map_of (r_chains s) (k_dst key)")
    case None
    then obtain err where "FindChainRuntime (m_dst (rm_msg m)) s = Err err"
      by (auto simp: FindChainRuntime_def dst)
    with e c None show ?thesis by (auto simp: process_entry_def cached_ref_clear split: if_splits)
  next
    case (Some d)
    have nid: "pv_NID (cr_Provider d) = k_dst key" by (rule wf_chain(1) [OF ok Some])
    have f: "FindChainRuntime (m_dst (rm_msg m)) s = Ok d" by (simp add: FindChainRuntime_Ok dst Some)
    from e c f nid show ?thesis
      by (auto simp: process_entry_def Let_def cached_ref_clear split: if_splits sum.splits bool.splits)
  qed
qed

lemma callback_removes:
  assumes "callback S C src dst key response err s = Ok s'"
    and "cached_ref s nid k = Some ref" "cached_ref s' nid k = None"
  shows "src = nid \<and> key = k \<and> tr_code response = Success"
  using assms
  by (auto simp: callback_def Let_def cached_ref_clear split: option.splits if_splits prod.splits)

lemma HandleMessageFailed_removes:
  assumes "HandleMessageFailed S C r src s = Ok s'"
    and "cached_ref s nid k = Some ref" "cached_ref s' nid k = None"
  shows "src = nid \<and> (\<exists>m. hp_routes (r_heap s) r = Some m \<and> MessageKey (rm_msg m) = k \<and>
    MaxTxRetry \<le> rm_retry m)"
  using assms
  by (auto simp: HandleMessageFailed_def Let_def cached_ref_remove toggle_routes
      split: option.splits if_splits prod.splits)

text \<open>Cleaning looks for the key of a message just read from the database: a new pointer, unless nil.\<close>

lemma clean_message_keeps:
  assumes "relayer_ok s" "cached_ref s nid k = Some ref" "k_sn k \<noteq> None"
  shows "cached_ref (clean_message S E n w s) nid k = Some ref"
proof -
  obtain r h' where nr: "new_stored_route w (r_heap s) = (r, h')" by (cases "new_stored_route w (r_heap s)")
  have "k \<noteq> MessageKey (rm_msg r)"
  proof
    assume "k = MessageKey (rm_msg r)"
    with assms(3) nr have "\<exists>i. k_sn k = Some (hp_next (r_heap s), i)"
      by (auto simp: new_stored_route_def alloc_int_def)
    with cached_ref_object(2) [OF assms(1,2)] show False by (auto simp: key_below_def)
  qed
  then show ?thesis
    using assms(2) nr by (simp add: clean_message_def Let_def cached_ref_clear)
qed

lemma cleanExpired_keeps:
  assumes "relayer_ok s" "cached_ref s nid k = Some ref" "k_sn k \<noteq> None"
  shows "cached_ref (cleanExpiredMessages S C E nids s) nid k = Some ref"
proof -
  let ?P = "\<lambda>s. relayer_ok s \<and> cached_ref s nid k = Some ref"
  have m: "?P (clean_message S E n w s)" if "?P s" for n w and s :: "'a relayer"
    using that assms(3) clean_message_keeps wf_clean_message by blast
  have c: "?P (clean_chain S C E n s)" if "?P s" for n and s :: "'a relayer"
  proof -
    have "?P (fold (clean_message S E n) ws s)" for ws
      by (rule fold_preserves [of ?P]) (use m that in blast)+
    with that show ?thesis by (auto simp: clean_chain_def split: sum.split)
  qed
  have "?P (cleanExpiredMessages S C E nids s)"
    unfolding cleanExpiredMessages_def
    by (rule fold_preserves [of ?P]) (use c assms(1,2) in blast)+
  then show ?thesis by blast
qed

section \<open>Safety of the steps\<close>

lemma distinct_active:
  assumes "distinct (map tk_ref (filter active ts))" "i < length ts" "active (ts ! i)"
    and "j < length ts" "active (ts ! j)" "j \<noteq> i"
  shows "tk_ref (ts ! j) \<noteq> tk_ref (ts ! i)"
proof -
  have out: "tk_ref (ts ! i) \<notin> tk_ref ` {t \<in> set (take i ts) \<union> set (drop (Suc i) ts). active t}"
    using assms(1) unfolding filter_active_update(3) [OF assms(2,3)] by auto
  have "ts ! j \<in> set (take i ts) \<union> set (drop (Suc i) ts)"
  proof (cases "j < i")
    case True
    then show ?thesis using assms(2) by (auto simp: in_set_conv_nth intro!: exI [of _ j])
  next
    case False
    then have "drop (Suc i) ts ! (j - Suc i) = ts ! j" "j - Suc i < length (drop (Suc i) ts)"
      using assms(4,6) by auto
    then show ?thesis by (metis UnI2 nth_mem)
  qed
  then have "tk_ref (ts ! j) \<in> tk_ref ` {t \<in> set (take i ts) \<union> set (drop (Suc i) ts). active t}"
    using assms(5) by blast
  with out show ?thesis by metis
qed

text \<open>Why a step may remove the entry of \<open>k\<close> from the cache of \<open>nid\<close>.\<close>

definition removal_reason :: "'d relayer \<Rightarrow> string \<Rightarrow> bigptr message_key \<Rightarrow> 'w label \<Rightarrow> bool" where
  "removal_reason s nid k l = (case l of
      LProcess E src key \<Rightarrow> src = nid \<and> key = k \<and> (map_of (r_chains s) (k_dst k) = None \<or>
          ev_MessageReceived E (k_dst k) (wire_key k) = Inr True)
    | LCallback i key response err \<Rightarrow>
        key = k \<and> tk_src (r_tasks s ! i) = nid \<and> tr_code response = Success
    | LReturn i err \<Rightarrow> err \<noteq> None \<and> tk_src (r_tasks s ! i) = nid \<and>
        (case hp_routes (r_heap s) (tk_ref (r_tasks s ! i)) of None \<Rightarrow> False
         | Some m \<Rightarrow> MessageKey (rm_msg m) = k \<and> MaxTxRetry \<le> rm_retry m)
    | LClean E nids \<Rightarrow> k_sn k = None
    | _ \<Rightarrow> False)"

text \<open>The steps of the listeners, the block processors and the timers, except the router and the cleaner.\<close>

definition quiet :: "'w label \<Rightarrow> bool" where
  "quiet l = (case l of LListen nid bi \<Rightarrow> True | LBlock nid \<Rightarrow> True | LFlush nids \<Rightarrow> True
    | LHeights E nids \<Rightarrow> True | LFinality E nids \<Rightarrow> True | LSocket E w \<Rightarrow> True | _ \<Rightarrow> False)"

lemma quiet_keeps:
  assumes "relay_step S C J l s s'" "quiet l"
  shows "keeps s s'"
  using assms(1)
proof cases
  case (block nid rt bi rest)
  have "keeps s (upd_chain nid (\<lambda>rt. rt\<lparr>cr_listenerChan := rest\<rparr>) s)" by (rule keeps_upd_chain) simp
  then show ?thesis unfolding block(2) using keeps_processBlockInfo by (rule keeps_trans)
next
  case (listen nid rt bi)
  show ?thesis unfolding listen(2) by (rule keeps_upd_chain) simp
next
  case (socket E w out)
  then show ?thesis using keeps_Server_serve [of s S C J E w] by simp
qed (use assms(2) in \<open>simp_all add: quiet_def keeps_flushMessages keeps_heights keeps_CheckFinality\<close>)

lemma return_removes:
  assumes "RouteMessage_end S C (tk_ref (r_tasks s ! i)) (tk_src (r_tasks s ! i)) err (set_phase i Returned s) = Ok s'"
    and "i < length (r_tasks s)" "cached_ref s nid k = Some ref" "cached_ref s' nid k = None"
  shows "removal_reason s nid k (LReturn i err)"
proof (cases err)
  case None
  then have "s' = set_phase i Returned s" using assms(1) by (simp add: RouteMessage_end_def)
  with assms(3,4) show ?thesis by simp
next
  case (Some e)
  have h: "HandleMessageFailed S C (tk_ref (r_tasks s ! i)) (tk_src (r_tasks s ! i)) (set_phase i Returned s) = Ok s'"
    using assms(1) Some by (simp add: RouteMessage_end_def)
  have "cached_ref (set_phase i Returned s) nid k = Some ref" using assms(3) by simp
  from HandleMessageFailed_removes [OF h this assms(4)] Some show ?thesis by (auto simp: removal_reason_def)
qed

text \<open>
  C3. No message disappears from a cache without a reason. When a step of the relayer removes the
  entry of \<open>k\<close> from the cache of chain \<open>nid\<close>, then either the router visited it and its destination
  is not configured or reported it as received; or a success callback came for it; or its route
  failed with the retries used up; or it expired and carries no sequence number.
\<close>
theorem removal_reasons:
  assumes "reachable S C J db chs fresh s" "relay_step S C J l s s'"
    and "cached_ref s nid k = Some ref" "cached_ref s' nid k = None"
  shows "removal_reason s nid k l"
proof -
  have ok: "relayer_ok s" by (rule reachable_ok [OF assms(1)])
  have loud: "\<not> quiet l" using quiet_keeps [OF assms(2)] assms(3,4) by (auto dest: keepsD)
  from assms(2) show ?thesis
  proof cases
    case (process E src key)
    from process_message_removes [OF ok process(2) assms(3,4)] process(1) show ?thesis
      by (simp add: removal_reason_def)
  next
    case (callback i key response err)
    from callback_removes [OF callback(4) assms(3,4)] callback(1) show ?thesis
      by (simp add: removal_reason_def)
  next
    case (return i err)
    from return_removes [OF return(4,2) assms(3,4)] return(1) show ?thesis by simp
  next
    case (clean E nids)
    have "k_sn k = None"
    proof (rule ccontr)
      assume "k_sn k \<noteq> None"
      from cleanExpired_keeps [OF ok assms(3) this, of S C E nids] clean(2) assms(4) show False by simp
    qed
    with clean(1) show ?thesis by (simp add: removal_reason_def)
  qed (use assms(3,4) loud in \<open>simp_all add: quiet_def\<close>)
qed

definition ex_callback :: "sjson label" where
  "ex_callback = LCallback 0 (ex_key 0 ''a'' ''b'' 1) ex_response None"

definition ex_delivered :: "memdb relayer" where
  "ex_delivered = the (run1 mem_store mem_codec mem_sock ex_callback ex_routing)"

lemma ex_callback_step: "relay_step mem_store mem_codec mem_sock ex_callback ex_routing ex_delivered"
proof -
  have "run1 mem_store mem_codec mem_sock ex_callback ex_routing \<noteq> None" by code_simp
  then have "run1 mem_store mem_codec mem_sock ex_callback ex_routing = Some ex_delivered"
    by (simp add: ex_delivered_def)
  then show ?thesis by (rule run1_step)
qed

theorem removal_reasons_witness:
  "cached_ref ex_routing ''a'' (ex_key 0 ''a'' ''b'' 1) = Some 2 \<and>
   cached_ref ex_delivered ''a'' (ex_key 0 ''a'' ''b'' 1) = None \<and>
   removal_reason ex_routing ''a'' (ex_key 0 ''a'' ''b'' 1) ex_callback"
proof -
  have c: "cached_ref ex_routing ''a'' (ex_key 0 ''a'' ''b'' 1) = Some 2"
    "cached_ref ex_delivered ''a'' (ex_key 0 ''a'' ''b'' 1) = None" by code_simp+
  from removal_reasons [OF ex_routing_reachable ex_callback_step c] c show ?thesis by simp
qed

text \<open>
  C5. At any time at most one goroutine that has not returned from its provider routes a given
  route message, and that message is marked as processing.
\<close>
theorem one_goroutine_per_message:
  assumes "reachable S C J db chs fresh s"
    and "i < length (r_tasks s)" "active (r_tasks s ! i)"
  shows "(\<exists>m. hp_routes (r_heap s) (tk_ref (r_tasks s ! i)) = Some m \<and> rm_processing m) \<and>
    (\<forall>j. j < length (r_tasks s) \<and> active (r_tasks s ! j) \<and>
         tk_ref (r_tasks s ! j) = tk_ref (r_tasks s ! i) \<longrightarrow> j = i)"
proof -
  have t: "tasks_ok (r_heap s) (r_tasks s)" using reachable_ok [OF assms(1)] by (simp add: relayer_ok_def)
  have "\<exists>m. hp_routes (r_heap s) (tk_ref (r_tasks s ! i)) = Some m \<and> rm_processing m"
    using t assms(2,3) nth_mem by (auto simp: tasks_ok_def)
  moreover have "distinct (map tk_ref (filter active (r_tasks s)))" using t by (simp add: tasks_ok_def)
  ultimately show ?thesis using distinct_active [of "r_tasks s" i] assms(2,3) by blast
qed

theorem one_goroutine_per_message_witness:
  "length (r_tasks ex_routing) = 1 \<and>
   (\<exists>m. hp_routes (r_heap ex_routing) (tk_ref (r_tasks ex_routing ! 0)) = Some m \<and> rm_processing m)"
proof -
  have "0 < length (r_tasks ex_routing)" "active (r_tasks ex_routing ! 0)"
    "length (r_tasks ex_routing) = 1" by code_simp+
  then show ?thesis using one_goroutine_per_message [OF ex_routing_reachable, of 0] by simp
qed

text \<open>
  C19. In every reachable state the objects are well formed: a runtime is filed under its network,
  its channel holds at most 5000 blocks, and every entry of its cache points to a route message that
  exists and whose message has the entry's key.
\<close>
theorem reachable_well_typed:
  assumes "reachable S C J db chs fresh s" "map_of (r_chains s) nid = Some rt"
  shows "pv_NID (cr_Provider rt) = nid \<and> length (cr_listenerChan rt) \<le> 5000 \<and>
    (\<forall>k ref. MessageCache_Get k (cr_MessageCache rt) = Some ref \<longrightarrow>
       (\<exists>m. hp_routes (r_heap s) ref = Some m \<and> MessageKey (rm_msg m) = k))"
proof -
  have ok: "relayer_ok s" by (rule reachable_ok [OF assms(1)])
  then have "chain_ok (r_heap s) (nid, rt)"
    using map_of_SomeD [OF assms(2)] by (auto simp: relayer_ok_def)
  with wf_cached(1) [OF ok assms(2)] show ?thesis by (simp add: chain_ok_def listenerChannelBufferSize_def)
qed

theorem reachable_well_typed_witness:
  "\<exists>rt k ref m. map_of (r_chains ex_routing) ''a'' = Some rt \<and> MessageCache_Get k (cr_MessageCache rt) = Some ref \<and>
     hp_routes (r_heap ex_routing) ref = Some m \<and> MessageKey (rm_msg m) = k"
proof -
  have "(case map_of (r_chains ex_routing) ''a'' of None \<Rightarrow> False | Some rt \<Rightarrow>
      (case cr_MessageCache rt of [] \<Rightarrow> False | (k, ref) # _ \<Rightarrow> MessageCache_Get k (cr_MessageCache rt) = Some ref))"
    by code_simp
  then obtain rt k ref where "map_of (r_chains ex_routing) ''a'' = Some rt" "MessageCache_Get k (cr_MessageCache rt) = Some ref"
    by (auto split: option.splits list.splits)
  with reachable_well_typed [OF ex_routing_reachable this(1)] show ?thesis by blast
qed

end
