(* ===== verification/Store_Props.thy ===== *)
theory Store_Props
  imports Store_Spec
begin

text \<open>
  The properties of the database layer, for every healthy store with a faithful codec.
\<close>

section \<open>Stores do not disturb each other\<close>

lemma stored_other [simp]:
  "stored_tx C (V(GetKey [''message'', a, b] := x)) ''finality'' d n = stored_tx C V ''finality'' d n"
  "stored_tx C (V(GetKey [''block'', c] := x)) ''finality'' d n = stored_tx C V ''finality'' d n"
  "stored_msg C (V(GetKey [''finality'', a, b] := x)) ''message'' d n = stored_msg C V ''message'' d n"
  "stored_msg C (V(GetKey [''block'', c] := x)) ''message'' d n = stored_msg C V ''message'' d n"
  "stored_block C (V(GetKey [''message'', a, b] := x)) ''block'' m = stored_block C V ''block'' m"
  "stored_block C (V(GetKey [''finality'', a, b] := x)) ''block'' m = stored_block C V ''block'' m"
  by (simp_all add: stored_tx_def stored_msg_def stored_block_def)

section \<open>The message store\<close>

text \<open>
  C26. The message store refines a map from source chain and sequence number: after storing a route
  message, reading its source and number gives it back unchanged, reading any other pair gives
  what it gave before, and after deleting it the pair reads as absent. (Sequence numbers are nil
  or not negative.)
\<close>
theorem message_store_refines_map:
  assumes "message_db S view C" and "json_route (wire_route m)"
    and "sn_ok (unptr (m_sn (rm_msg m)))" "sn_ok (unptr (k_sn k))"
    and key: "here = (k_src k = m_src (rm_msg m) \<and> unptr (k_sn k) = unptr (m_sn (rm_msg m)))"
    and store: "StoreMessage S C p (Some m) d = (err, d')"
    and delete: "DeleteMessage S p (MessageKey (rm_msg m)) d' = (err', d'')"
  shows "err = None \<and> err' = None \<and>
    (GetMessage_db S C p k d' = Inr w) = (if here then w = wire_route m else GetMessage_db S C p k d = Inr w) \<and>
    (GetMessage_db S C p k d'' = Inr w) = (\<not> here \<and> GetMessage_db S C p k d = Inr w)"
proof -
  note db = assms(1)
  have e: "err = None" using message_db.StoreMessage_view [OF db assms(2), of p d] store by auto
  have e': "err' = None" using message_db.DeleteMessage_view [OF db, of p "MessageKey (rm_msg m)" d'] delete by auto
  have d': "d' = snd (StoreMessage S C p (Some m) d)" and
    d'': "d'' = snd (DeleteMessage S p (MessageKey (rm_msg m)) d')" using store delete by simp_all
  have s: "stored_msg C (view d') p (k_src k) (unptr (k_sn k)) =
      (if here then Some (wire_route m) else stored_msg C (view d) p (k_src k) (unptr (k_sn k)))"
    unfolding d' by (subst message_db.StoreMessage_refines [OF db assms(2,3,4)]) (simp add: key)
  have "stored_msg C (view d'') p (k_src k) (unptr (k_sn k)) =
      (if here then None else stored_msg C (view d') p (k_src k) (unptr (k_sn k)))"
    unfolding d'' by (subst message_db.DeleteMessage_refines [OF db]) (use assms(3,4) key in auto)
  with s e e' show ?thesis by (auto simp: message_db.GetMessage_iff [OF db])
qed

definition ex_route :: "string \<Rightarrow> string \<Rightarrow> int \<Rightarrow> bigptr route_message" where
  "ex_route src dst sn = NewRouteMessage \<lparr>m_dst = dst, m_src = src, m_sn = Some (0, sn), m_data = ''d'',
     m_height = 3, m_event = ''emitMessage'', m_reqid = None\<rparr>"

lemma ex_route_ok: "json_route (wire_route (ex_route ''a'' ''b'' 1))"
  by (simp add: ex_route_def wire_route_def wire_message_def NewRouteMessage_def MessageKey_def
      NewMessageKey_def json_route_def json_key_def ascii_def)

theorem message_store_refines_map_witness:
  "GetMessage_db mem_store mem_codec ''message'' (MessageKey (rm_msg (ex_route ''a'' ''b'' 1)))
     (snd (StoreMessage mem_store mem_codec ''message'' (Some (ex_route ''a'' ''b'' 1)) [])) =
   Inr (wire_route (ex_route ''a'' ''b'' 1))"
proof -
  let ?m = "ex_route ''a'' ''b'' 1"
  have ok: "sn_ok (unptr (m_sn (rm_msg ?m)))" by (simp add: ex_route_def unptr_def sn_ok_def)
  from message_store_refines_map [OF mem.message_db_axioms ex_route_ok ok, of "MessageKey (rm_msg ?m)",
      OF _ refl, of "''message''" "[]" _ _ _ _ "wire_route ?m"] ok
  show ?thesis by (metis MessageKey_fields(1,2) prod.collapse)
qed

section \<open>The finality store\<close>

text \<open>
  C27. The finality store refines a map from destination chain and sequence number in the same
  way. The source is not part of the key: storing the transaction of another source with the same
  destination and number replaces the first one, which is then no longer checked for finality.
\<close>
theorem finality_store_refines_map:
  assumes "message_db S view C" "json_tx (wire_tx t)"
    and "sn_ok (unptr (k_sn (to_key t)))" "sn_ok (unptr (k_sn k))"
    and store: "StoreTxObject S C p (Some t) d = (err, d')"
  shows "err = None \<and> (GetTxObject S C p k d' = Inr u) =
    (if k_dst k = k_dst (to_key t) \<and> unptr (k_sn k) = unptr (k_sn (to_key t)) then u = wire_tx t
     else GetTxObject S C p k d = Inr u)"
proof -
  have e: "err = None" using message_db.StoreTxObject_view [OF assms(1,2), of p d] store by auto
  have d': "d' = snd (StoreTxObject S C p (Some t) d)" using store by simp
  show ?thesis
    using e by (auto simp: message_db.GetTxObject_iff [OF assms(1)] d'
        message_db.StoreTxObject_refines [OF assms(1-4)])
qed

definition ex_tx :: "string \<Rightarrow> string \<Rightarrow> bigptr tx_object" where
  "ex_tx src hash = NewTransactionObject \<lparr>k_sn = Some (0, 1), k_src = src, k_dst = ''b'',
     k_event = ''emitMessage''\<rparr> 3 hash 9"

text \<open>The witness: the transaction of source \<open>c\<close> has replaced that of source \<open>a\<close>.\<close>

theorem finality_store_refines_map_witness:
  "GetTxObject mem_store mem_codec ''finality'' (to_key (ex_tx ''a'' ''x''))
     (snd (StoreTxObject mem_store mem_codec ''finality'' (Some (ex_tx ''c'' ''y''))
       (snd (StoreTxObject mem_store mem_codec ''finality'' (Some (ex_tx ''a'' ''x'')) [])))) =
   Inr (wire_tx (ex_tx ''c'' ''y''))"
proof -
  let ?t = "ex_tx ''c'' ''y''" and ?k = "to_key (ex_tx ''a'' ''x'')"
  have j: "json_tx (wire_tx ?t)"
    by (simp add: ex_tx_def NewTransactionObject_def wire_tx_def wire_key_def json_tx_def json_key_def ascii_def)
  have ok: "sn_ok (unptr (k_sn (to_key ?t)))" "sn_ok (unptr (k_sn ?k))"
    and same: "k_dst ?k = k_dst (to_key ?t)" "unptr (k_sn ?k) = unptr (k_sn (to_key ?t))"
    by (simp_all add: ex_tx_def NewTransactionObject_def unptr_def sn_ok_def)
  from finality_store_refines_map [OF mem.message_db_axioms j ok, of "''finality''" _ _ _ "wire_tx ?t"] same
  show ?thesis by (metis prod.collapse)
qed

section \<open>Reading a chain's messages\<close>

text \<open>
  \<^verbatim>\<open>GetMessages\<close> with a limit returns that many different stored messages, all of them when
  there are fewer (or when the limit is 0), whatever the pagination says about offset and
  \<^verbatim>\<open>All\<close>. The messages are those whose key starts with the prefix and the chain's NID.
\<close>
theorem GetMessages_returns_page:
  assumes "message_db S view C"
    and "\<And>k v. view d k = Some v \<Longrightarrow> HasPrefix k (GetKey [p, nid]) \<Longrightarrow> dec_route C v = Inr (f v)"
    and "card {k. view d k \<noteq> None \<and> HasPrefix k (GetKey [p, nid])} < 2 ^ 64"
  shows "\<exists>kvs. GetMessages S C p nid pg d = Inr (map (f \<circ> snd) kvs) \<and>
    distinct (map fst kvs) \<and>
    (\<forall>(k, v) \<in> set kvs. view d k = Some v \<and> HasPrefix k (GetKey [p, nid])) \<and>
    length kvs = (let n = card {k. view d k \<noteq> None \<and> HasPrefix k (GetKey [p, nid])}
                  in if p_Limit pg = 0 then n else min (unat (p_Limit pg)) n)"
  by (rule message_db.GetMessages_page [OF assms])

definition ex_stored :: memdb where
  "ex_stored = [(GetKey [''message'', ''a'', ''1''], JRoute (wire_route (ex_route ''a'' ''b'' 1))),
     (GetKey [''message'', ''ab'', ''1''], JRoute (wire_route (ex_route ''ab'' ''b'' 1)))]"

definition json_msg :: "json \<Rightarrow> wireint route_message" where
  "json_msg v = (case v of JRoute w \<Rightarrow> w | _ \<Rightarrow> wire_route (ex_route '''' '''' 0))"

text \<open>
  The witness: asked for the messages of chain \<open>a\<close>, the store also returns that of chain \<open>ab\<close>,
  because the key prefix does not end with the separator.
\<close>

theorem GetMessages_returns_page_witness:
  "\<exists>kvs :: memdb. GetMessages mem_store mem_codec ''message'' ''a'' NewPagination ex_stored =
      Inr (map (json_msg \<circ> snd) kvs) \<and> length kvs = 2"
proof -
  have keys: "{k. map_of ex_stored k \<noteq> None \<and> HasPrefix k (GetKey [''message'', ''a''])} =
      {GetKey [''message'', ''a'', ''1''], GetKey [''message'', ''ab'', ''1'']}"
    by (auto simp: ex_stored_def GetKey3 GetKey2 HasPrefix_def split: if_splits)
  have card: "card {k. map_of ex_stored k \<noteq> None \<and> HasPrefix k (GetKey [''message'', ''a''])} = 2"
    unfolding keys by (simp add: GetKey3)
  have dec: "dec_route mem_codec v = Inr (json_msg v)" if "map_of ex_stored k = Some v" "HasPrefix k (GetKey [''message'', ''a''])" for k v
    using that(1) by (auto simp: ex_stored_def mem_codec_def json_msg_def split: if_splits)
  have small: "card {k. map_of ex_stored k \<noteq> None \<and> HasPrefix k (GetKey [''message'', ''a''])} < 2 ^ 64"
    unfolding card by simp
  have "\<exists>kvs :: memdb. GetMessages mem_store mem_codec ''message'' ''a'' NewPagination ex_stored =
      Inr (map (json_msg \<circ> snd) kvs) \<and> distinct (map fst kvs) \<and>
      (\<forall>(k, v) \<in> set kvs. map_of ex_stored k = Some v \<and> HasPrefix k (GetKey [''message'', ''a''])) \<and>
      length kvs = (let n = card {k. map_of ex_stored k \<noteq> None \<and>
        HasPrefix k (GetKey [''message'', ''a''])} in if p_Limit NewPagination = 0 then n
        else min (unat (p_Limit NewPagination)) n)"
    by (rule GetMessages_returns_page [OF mem.message_db_axioms _ small]) (rule dec)
  then obtain kvs :: memdb where g: "GetMessages mem_store mem_codec ''message'' ''a'' NewPagination ex_stored =
      Inr (map (json_msg \<circ> snd) kvs)"
    and l: "length kvs = (let n = card {k. map_of ex_stored k \<noteq> None \<and>
        HasPrefix k (GetKey [''message'', ''a''])} in if p_Limit NewPagination = 0 then n
        else min (unat (p_Limit NewPagination)) n)"
    by (elim exE conjE) (rule that; assumption)
  from l have "length kvs = 2" unfolding card by (simp add: NewPagination_def)
  with g show ?thesis by blast
qed

lemma page_bound:
  assumes "GetMessages S C p nid pg d = Inr ms" "p_Limit pg \<noteq> 0"
  shows "length ms \<le> unat (p_Limit pg)"
proof -
  have step: "collect_messages C lim acc kvs err = Inr ms \<Longrightarrow> length acc < unat lim \<Longrightarrow> length ms \<le> unat lim"
    for C :: "'b codec" and lim acc kvs err ms
  proof (induction C lim acc kvs err rule: collect_messages.induct)
    case (1 C limit acc err)
    then show ?case by (auto split: option.splits)
  next
    case (2 C limit acc k v kvs err)
    obtain m where m: "dec_route C v = Inr m" using "2.prems"(1) by (auto split: sum.splits)
    have "Suc (length acc) \<le> unat limit" using "2.prems"(2) by simp
    also have "unat limit < 2 ^ 64" by (rule unat_less_power64)
    finally have u: "unat (of_nat (Suc (length acc)) :: u64) = Suc (length acc)"
      by (simp only: unat_of_nat) simp
    show ?case
    proof (cases "of_nat (length (acc @ [m])) = limit")
      case True
      with "2.prems" m u show ?thesis by auto
    next
      case False
      then have "length (acc @ [m]) < unat limit"
        using "2.prems"(2) u by (metis Suc_lessI length_append_singleton word_eq_unat)
      with "2.IH" [OF m False] "2.prems"(1) m False show ?thesis by simp
    qed
  qed
  have "0 < unat (p_Limit pg)" using assms(2) by (simp add: unat_gt_0)
  with assms(1) step show ?thesis by (auto simp: GetMessages_def split: prod.splits)
qed

text \<open>
  With a limit, \<^verbatim>\<open>GetMessages\<close> never returns more messages than the limit, whatever the
  store holds and however it fails.
\<close>
theorem GetMessages_limit:
  assumes "GetMessages S C p nid pg d = Inr ms" "p_Limit pg \<noteq> 0"
  shows "length ms \<le> unat (p_Limit pg)"
  by (rule page_bound [OF assms])

theorem GetMessages_limit_witness:
  "\<exists>ms. GetMessages mem_store mem_codec ''message'' ''a'' (WithLimit 1 NewPagination) ex_stored = Inr ms \<and>
     length ms \<le> 1"
proof -
  let ?pg = "WithLimit 1 NewPagination"
  have "(case GetMessages mem_store mem_codec ''message'' ''a'' ?pg ex_stored of Inl e \<Rightarrow> False | Inr ms \<Rightarrow> True)"
    by code_simp
  then obtain ms where ms: "GetMessages mem_store mem_codec ''message'' ''a'' ?pg ex_stored = Inr ms"
    by (auto split: sum.splits)
  have "p_Limit ?pg = 1" by (simp add: WithLimit_def)
  with GetMessages_limit [OF ms] ms show ?thesis by simp
qed

section \<open>Pagination\<close>

text \<open>
  \<^verbatim>\<open>CalculateTotalPages\<close> is the least number of pages of the given limit that hold all items; a
  limit of 0 panics.
\<close>
theorem CalculateTotalPages_ceiling:
  shows "CalculateTotalPages tot p = Ok n \<longleftrightarrow>
    p_Limit p \<noteq> 0 \<and> unat tot \<le> unat n * unat (p_Limit p) \<and> (\<forall>m < unat n. m * unat (p_Limit p) < unat tot)"
proof (cases "p_Limit p = 0")
  case True
  then show ?thesis by (simp add: CalculateTotalPages_def)
next
  case False
  let ?t = "unat tot" and ?l = "unat (p_Limit p)"
  have l: "0 < ?l" using False by (simp add: unat_gt_0)
  have tm: "(tot mod p_Limit p \<noteq> 0) = (?t mod ?l \<noteq> 0)"
    by (simp add: word_eq_unat unat_mod)
  have lt: "?t < 2 ^ 64" by (rule unat_less_power64)
  have fits: "?t div ?l + 1 < 2 ^ 64 \<or> ?t mod ?l = 0"
  proof (cases "?l = 1")
    case False
    with l have "2 \<le> ?l" by simp
    then have "?t div ?l * 2 \<le> ?t div ?l * ?l" by (rule mult_le_mono2)
    also have "\<dots> \<le> ?t" by simp
    finally have "?t div ?l * 2 \<le> ?t" .
    with lt show ?thesis by simp
  qed simp
  let ?n = "?t div ?l + (if ?t mod ?l \<noteq> 0 then 1 else 0)"
  define n0 where "n0 = tot div p_Limit p + (if tot mod p_Limit p \<noteq> 0 then 1 else 0)"
  have n0: "unat n0 = ?n"
    using fits le_less_trans [OF div_le_dividend lt, of ?l] unfolding n0_def tm
    by (auto simp: unat_word_ariths unat_div)
  have up: "?t \<le> ?n * ?l"
  proof -
    have e: "?t div ?l * ?l + ?t mod ?l = ?t" by (rule div_mult_mod_eq)
    show ?thesis
    proof (cases "?t mod ?l = 0")
      case True
      with e show ?thesis by simp
    next
      case False
      then have "?n * ?l = ?t div ?l * ?l + ?l" by simp
      with e mod_less_divisor [OF l, of ?t] show ?thesis by linarith
    qed
  qed
  have least: "m * ?l < ?t" if "m < ?n" for m
  proof -
    have e: "?t div ?l * ?l + ?t mod ?l = ?t" by (rule div_mult_mod_eq)
    show ?thesis
    proof (cases "?t mod ?l = 0")
      case True
      with that have "Suc m \<le> ?t div ?l" by simp
      then have "Suc m * ?l \<le> ?t div ?l * ?l" by (rule mult_le_mono1)
      with e True l show ?thesis by simp
    next
      case False
      with that have "m \<le> ?t div ?l" by simp
      then have "m * ?l \<le> ?t div ?l * ?l" by (rule mult_le_mono1)
      with e False show ?thesis by linarith
    qed
  qed
  have uniq: "?t \<le> k * ?l \<Longrightarrow> (\<forall>m < k. m * ?l < ?t) \<Longrightarrow> k = ?n" for k
    using up least by (metis linorder_neqE_nat not_le)
  have "CalculateTotalPages tot p = Ok n \<longleftrightarrow> n = n0"
    using False by (auto simp: CalculateTotalPages_def n0_def)
  also have "\<dots> \<longleftrightarrow> unat n = ?n" by (simp only: word_eq_unat n0)
  also have "\<dots> \<longleftrightarrow> ?t \<le> unat n * ?l \<and> (\<forall>m < unat n. m * ?l < ?t)"
  proof
    assume "unat n = ?n"
    with up least show "?t \<le> unat n * ?l \<and> (\<forall>m < unat n. m * ?l < ?t)" by metis
  next
    assume "?t \<le> unat n * ?l \<and> (\<forall>m < unat n. m * ?l < ?t)"
    then show "unat n = ?n" by (intro uniq) blast+
  qed
  finally show ?thesis using False by blast
qed

theorem CalculateTotalPages_ceiling_witness:
  "CalculateTotalPages 7 (WithLimit 2 NewPagination) = Ok 4"
  by (subst CalculateTotalPages_ceiling) (auto simp: WithLimit_def)

end
