(* ===== verification/Relay_Props.thy ===== *)
theory Relay_Props
  imports Relay_Safety Store_Props
begin

text \<open>
  The functional properties of the relayer's handlers: what a delivered, a failed, an expired and
  a new message leave in the caches and in the database, when a message is routed and when it is
  retried, what a restart finds, and what the finality check regenerates.
\<close>

section \<open>What an entry of a cache points to\<close>

definition cached_msg :: "'d relayer \<Rightarrow> string \<Rightarrow> bigptr message_key \<Rightarrow> bigptr route_message option" where
  "cached_msg s nid k = Option.bind (cached_ref s nid k) (hp_routes (r_heap s))"

lemma cached_msg_Some:
  "(cached_msg s nid k = Some m) = (\<exists>ref. cached_ref s nid k = Some ref \<and> hp_routes (r_heap s) ref = Some m)"
  by (auto simp: cached_msg_def bind_eq_Some_conv)

lemma delete_messages_one:
  "delete_messages S [k] d = DeleteMessage S prefixMessageStore k d"
  by (auto split: prod.splits option.splits)

lemma ClearMessages_db: "r_db (snd (ClearMessages S [k] src s)) = snd (DeleteMessage S prefixMessageStore k (r_db s))"
  by (simp add: ClearMessages_eq delete_messages_one del: delete_messages.simps)

lemma stored_tx_after_delete:
  assumes "message_db S view C"
  shows "stored_tx C (view (snd (DeleteMessage S ''message'' k d))) ''finality'' a n =
    stored_tx C (view d) ''finality'' a n"
  using message_db.DeleteMessage_view [OF assms, of "''message''" k d] by auto

section \<open>Delivered messages\<close>

lemma callback_delivers:
  assumes "message_db S view C"
    and chains: "map_of (r_chains s) src = Some srcrt" "map_of (r_chains s) dst = Some dstrt"
    and m: "cached_msg s src key = Some m"
    and sn: "k_sn key = Some (a, i)" "0 \<le> i"
    and plain: "json_key (wire_key key)" "ascii (tr_txhash response)"
    and code: "tr_code response = Success"
  shows "\<exists>s'. callback S C src dst key response err s = Ok s' \<and>
    cached_msg s' src key = None \<and>
    stored_msg C (view (r_db s')) ''message'' (k_src key) (Some i) = None \<and>
    (pv_FinalityBlock (cr_Provider dstrt) > 0 \<longrightarrow>
      stored_tx C (view (r_db s')) ''finality'' (k_dst key) (Some i) =
        Some \<lparr>to_key = wire_key key, to_msgheight = m_height (rm_msg m),
              to_txhash = tr_txhash response, to_txheight = tr_height response\<rparr>)"
proof -
  let ?t = "NewTransactionObject key (m_height (rm_msg m)) (tr_txhash response) (tr_height response)"
  have b: "Option.bind (MessageCache_Get key (cr_MessageCache srcrt)) (hp_routes (r_heap s)) = Some m"
    using m chains by (simp add: cached_msg_def cached_ref_def)
  have sok: "sn_ok (unptr (k_sn key))" "unptr (k_sn key) = Some i"
    using sn by (simp_all add: unptr_def sn_ok_def)
  have log: "log_sn (k_sn key) = Ok ()" using sn by (simp add: log_sn_def ptr_Uint64_def unptr_def)
  have gone: "cached_msg (snd (ClearMessages S [key] src x)) src key = None" for x :: "'a relayer"
    by (simp add: cached_msg_def cached_ref_clear)
  have del: "stored_msg C (view (snd (DeleteMessage S ''message'' key d))) ''message'' (k_src key) (Some i) = None" for d
    using message_db.DeleteMessage_refines [OF assms(1) sok(1), of "Some i"] sok sn by simp
  have j: "json_tx (wire_tx ?t)"
    using plain by (simp add: NewTransactionObject_def wire_tx_def json_tx_def)
  have tk: "to_key ?t = key" by (simp add: NewTransactionObject_def)
  obtain v d' where st: "StoreTxObject S C ''finality'' (Some ?t) (r_db s) = (None, d')"
    using message_db.StoreTxObject_view [OF assms(1) j] by blast
  have tx: "stored_tx C (view d') ''finality'' (k_dst key) (Some i) = Some (wire_tx ?t)"
    using message_db.StoreTxObject_refines [OF assms(1) j, of "Some i" "''finality''" "r_db s" "k_dst key"]
      st tk sok sn by simp
  have w: "wire_tx ?t = \<lparr>to_key = wire_key key, to_msgheight = m_height (rm_msg m),
      to_txhash = tr_txhash response, to_txheight = tr_height response\<rparr>"
    by (simp add: NewTransactionObject_def wire_tx_def)
  show ?thesis
  proof (cases "pv_FinalityBlock (cr_Provider dstrt) > 0")
    case True
    then have "callback S C src dst key response err s = Ok (snd (ClearMessages S [key] src (s\<lparr>r_db := d'\<rparr>)))"
      using chains b code log st by (simp add: callback_def prefixFinalityStore_def)
    then show ?thesis
      using gone del tx w by (simp add: ClearMessages_db prefixMessageStore_def stored_tx_after_delete [OF assms(1)])
  next
    case False
    then have "callback S C src dst key response err s = Ok (snd (ClearMessages S [key] src s))"
      using chains b code log by (simp add: callback_def)
    then show ?thesis using False gone del by (simp add: ClearMessages_db prefixMessageStore_def)
  qed
qed

text \<open>With finality the object is stored first: what happens to the message depends on the outcome.\<close>

lemma callback_stores_first:
  assumes chains: "map_of (r_chains s) src = Some srcrt" "map_of (r_chains s) dst = Some dstrt"
    and "cached_msg s src key = Some m" "k_sn key = Some (a, i)" "tr_code response = Success"
    and "pv_FinalityBlock (cr_Provider dstrt) > 0"
    and "StoreTxObject S C ''finality'' (Some (NewTransactionObject key (m_height (rm_msg m)) (tr_txhash response)
           (tr_height response))) (r_db s) = (e, d')"
  shows "callback S C src dst key response err s =
    Ok (if e = None then snd (ClearMessages S [key] src (s\<lparr>r_db := d'\<rparr>)) else s\<lparr>r_db := d'\<rparr>)"
proof -
  have b: "Option.bind (MessageCache_Get key (cr_MessageCache srcrt)) (hp_routes (r_heap s)) = Some m"
    using assms(3) chains by (simp add: cached_msg_def cached_ref_def)
  have "log_sn (k_sn key) = Ok ()" using assms(4) by (simp add: log_sn_def ptr_Uint64_def unptr_def)
  with b assms show ?thesis by (cases e) (simp_all add: callback_def prefixFinalityStore_def)
qed

text \<open>
  C7. When a success response comes back for a cached message, the message leaves the cache and
  the message store. If the destination waits for finality, the transaction is in the finality
  store afterwards under the destination and the sequence number, with the height of the message
  at its source and the height of the transaction. It is stored first, in whatever database: the
  message is cleared from the state the storing left, and if storing fails nothing is cleared and the
  message stays in the cache.
\<close>
theorem callback_success:
  assumes "message_db S view C"
    and chains: "map_of (r_chains s) src = Some srcrt" "map_of (r_chains s) dst = Some dstrt"
    and m: "cached_msg s src key = Some m"
    and sn: "k_sn key = Some (a, i)" "0 \<le> i"
    and plain: "json_key (wire_key key)" "ascii (tr_txhash response)"
    and code: "tr_code response = Success"
    and tx: "tx = NewTransactionObject key (m_height (rm_msg m)) (tr_txhash response) (tr_height response)"
  shows "(\<exists>s'. callback S C src dst key response err s = Ok s' \<and>
      cached_msg s' src key = None \<and>
      stored_msg C (view (r_db s')) ''message'' (k_src key) (Some i) = None \<and>
      (pv_FinalityBlock (cr_Provider dstrt) > 0 \<longrightarrow>
        stored_tx C (view (r_db s')) ''finality'' (k_dst key) (Some i) =
          Some \<lparr>to_key = wire_key key, to_msgheight = m_height (rm_msg m),
                to_txhash = tr_txhash response, to_txheight = tr_height response\<rparr>)) \<and>
    (\<forall>e d'. pv_FinalityBlock (cr_Provider dstrt) > 0 \<and> StoreTxObject S' C' ''finality'' (Some tx) (r_db s) = (e, d') \<longrightarrow>
      (if e = None then callback S' C' src dst key response err s = Ok (snd (ClearMessages S' [key] src (s\<lparr>r_db := d'\<rparr>)))
       else \<exists>s'. callback S' C' src dst key response err s = Ok s' \<and> cached_msg s' src key = Some m \<and> r_db s' = d'))"
proof (intro conjI allI impI)
  fix e d'
  assume f: "pv_FinalityBlock (cr_Provider dstrt) > 0 \<and> StoreTxObject S' C' ''finality'' (Some tx) (r_db s) = (e, d')"
  have k: "cached_msg (s\<lparr>r_db := d'\<rparr>) src key = Some m" using m by (simp add: cached_msg_def cached_ref_def)
  show "if e = None then callback S' C' src dst key response err s = Ok (snd (ClearMessages S' [key] src (s\<lparr>r_db := d'\<rparr>)))
       else \<exists>s'. callback S' C' src dst key response err s = Ok s' \<and> cached_msg s' src key = Some m \<and> r_db s' = d'"
    using callback_stores_first [OF chains m sn(1) code _, of S' C' e d' err] f tx k by auto
qed (rule callback_delivers [OF assms(1-9)])

theorem callback_success_witness:
  "\<exists>s'. callback mem_store mem_codec ''a'' ''b'' (ex_key 0 ''a'' ''b'' 1) ex_response None ex_routing = Ok s' \<and>
    cached_msg s' ''a'' (ex_key 0 ''a'' ''b'' 1) = None \<and>
    stored_tx mem_codec (map_of (r_db s')) ''finality'' ''b'' (Some 1) =
      Some \<lparr>to_key = wire_key (ex_key 0 ''a'' ''b'' 1), to_msgheight = 3, to_txhash = ''tx'', to_txheight = 9\<rparr>"
proof -
  let ?k = "ex_key 0 ''a'' ''b'' 1"
  have "(case map_of (r_chains ex_routing) ''a'' of Some rt \<Rightarrow> True | None \<Rightarrow> False)"
    "(case map_of (r_chains ex_routing) ''b'' of Some rt \<Rightarrow> pv_FinalityBlock (cr_Provider rt) > 0 | None \<Rightarrow> False)"
    "(case cached_msg ex_routing ''a'' ?k of Some m \<Rightarrow> m_height (rm_msg m) = 3 | None \<Rightarrow> False)"
    by code_simp+
  then obtain a b m where chains: "map_of (r_chains ex_routing) ''a'' = Some a" "map_of (r_chains ex_routing) ''b'' = Some b"
    and m: "cached_msg ex_routing ''a'' ?k = Some m"
    and f: "pv_FinalityBlock (cr_Provider b) > 0" "m_height (rm_msg m) = 3" by (auto split: option.splits)
  have sn: "k_sn ?k = Some (0, 1)" "(0::int) \<le> 1" and t: "json_key (wire_key ?k)" "ascii (tr_txhash ex_response)"
    and c: "tr_code ex_response = Success"
    by (simp_all add: ex_key_def wire_key_def json_key_def ascii_def ex_response_def)
  from callback_success [OF mem.message_db_axioms chains m sn t c refl, where err = None, THEN conjunct1] f show ?thesis
    by (auto simp: ex_key_def ex_response_def)
qed

section \<open>Failed messages\<close>

lemma ex_key_sn: "k_sn (ex_key n src dst i) = Some (n, i)"
  by (simp add: ex_key_def)

lemma HandleMessageFailed_keeps:
  assumes "message_db S view C" "relayer_ok s"
    and ref: "cached_ref s src key = Some ref" "hp_routes (r_heap s) ref = Some m"
    and sn: "k_sn key = Some (a, i)" "0 \<le> i"
    and plain: "json_route (wire_route m)"
    and proc: "rm_processing m"
  shows "\<exists>s'. HandleMessageFailed S C ref src s = Ok s' \<and>
    (if rm_retry m < MaxTxRetry then cached_msg s' src key = Some (m\<lparr>rm_processing := False\<rparr>) \<and> r_db s' = r_db s
     else cached_msg s' src key = None \<and>
       stored_msg C (view (r_db s')) ''message'' (k_src key) (Some i) =
         Some (wire_route (m\<lparr>rm_processing := False\<rparr>)))"
proof -
  have key: "MessageKey (rm_msg m) = key" using cached_ref_object(1) [OF assms(2) ref(1)] ref(2) by auto
  let ?m = "m\<lparr>rm_processing := False\<rparr>"
  have t: "ToggleProcessing m = ?m" using proc by (simp add: ToggleProcessing_def)
  have h: "hp_routes (r_heap (toggle ref s)) ref = Some ?m" by (simp add: toggle_routes ref t)
  show ?thesis
  proof (cases "rm_retry m < MaxTxRetry")
    case True
    then have "HandleMessageFailed S C ref src s = Ok (toggle ref s)"
      using h by (simp add: HandleMessageFailed_def not_le [symmetric])
    moreover have "cached_msg (toggle ref s) src key = Some ?m" by (simp add: cached_msg_def ref h)
    ultimately show ?thesis using True by simp
  next
    case False
    have j: "json_route (wire_route ?m)" using plain by (simp add: json_route_def wire_route_def)
    have sn': "unptr (m_sn (rm_msg m)) = Some i" "m_src (rm_msg m) = k_src key"
      using key sn by (auto simp: unptr_def MessageKey_def NewMessageKey_def)
    obtain v d' where st: "StoreMessage S C ''message'' (Some ?m) (r_db s) = (None, d')"
      using message_db.StoreMessage_view [OF assms(1) j] by blast
    have "stored_msg C (view d') ''message'' (k_src key) (Some i) = Some (wire_route ?m)"
      using message_db.StoreMessage_refines [OF assms(1) j, of "Some i" "''message''" "r_db s" "k_src key"]
        st sn' sn(2) by (simp add: sn_ok_def)
    moreover have "log_sn (m_sn (rm_msg m)) = Ok ()"
      using sn'(1) by (simp add: log_sn_def ptr_Uint64_def)
    then have "HandleMessageFailed S C ref src s =
        Ok (upd_cache src (MessageCache_Remove key) ((toggle ref s)\<lparr>r_db := d'\<rparr>))"
      using False h st key by (simp add: HandleMessageFailed_def prefixMessageStore_def Let_def not_less)
    ultimately show ?thesis
      using False by (simp add: cached_msg_def cached_ref_remove)
  qed
qed

text \<open>
  C8. A failed route never loses its message. Below the retry limit the message stays in the cache,
  no longer marked as processing; at the limit it leaves the cache, and the message store holds
  it, unmarked and with its count of retries.
\<close>
theorem failed_message_is_kept:
  assumes "message_db S view C" "relayer_ok s"
    and ref: "cached_ref s src key = Some ref" "hp_routes (r_heap s) ref = Some m"
    and sn: "k_sn key = Some (a, i)" "0 \<le> i"
    and plain: "json_route (wire_route m)"
    and proc: "rm_processing m"
  shows "\<exists>s'. HandleMessageFailed S C ref src s = Ok s' \<and>
    (if rm_retry m < MaxTxRetry then cached_msg s' src key = Some (m\<lparr>rm_processing := False\<rparr>) \<and> r_db s' = r_db s
     else cached_msg s' src key = None \<and>
       stored_msg C (view (r_db s')) ''message'' (k_src key) (Some i) =
         Some (wire_route (m\<lparr>rm_processing := False\<rparr>)))"
  by (rule HandleMessageFailed_keeps [OF assms])

text \<open>The witness: a first attempt failed, the message stays.\<close>

theorem failed_message_is_kept_witness:
  "\<exists>s' m. HandleMessageFailed mem_store mem_codec 2 ''a'' ex_routing = Ok s' \<and>
    cached_msg s' ''a'' (ex_key 0 ''a'' ''b'' 1) = Some m \<and> \<not> rm_processing m"
proof -
  let ?k = "ex_key 0 ''a'' ''b'' 1"
  have r: "cached_ref ex_routing ''a'' ?k = Some 2" by code_simp
  have "(case hp_routes (r_heap ex_routing) 2 of None \<Rightarrow> False
     | Some m \<Rightarrow> rm_processing m \<and> rm_retry m < MaxTxRetry \<and> json_route (wire_route m))" by code_simp
  then obtain m where m: "hp_routes (r_heap ex_routing) 2 = Some m" "rm_processing m" "rm_retry m < MaxTxRetry"
    "json_route (wire_route m)" by (auto split: option.splits)
  from failed_message_is_kept [OF mem.message_db_axioms reachable_ok [OF ex_routing_reachable] r m(1)
      ex_key_sn _ m(4,2)] m(3)
  show ?thesis by auto
qed

text \<open>
  C20. Exponential backoff. After a failed attempt that started at time \<open>t\<close> and raised the retry
  count to \<open>n\<close>, the router passes over the message until 6 s times \<open>2 ^ n\<close> have gone by since \<open>t\<close>.
\<close>
theorem no_retry_before_backoff:
  assumes "relayer_ok s" "cached_ref s src key = Some ref" "hp_routes (r_heap s) ref = Some m"
    and "rm_processing m" "rm_retry m + 1 < MaxTxRetry" "0 \<le> ev_now E"
    and "RouteMessage_end S C ref src (Some e) (RouteMessage_begin E ref s) = Ok s'"
    and "map_of (r_chains s) (k_dst key) \<noteq> None"
    and "ev_now E' \<le> ev_now E + 6000000000 * 2 ^ unat (rm_retry m + 1)"
  shows "process_message S E' src key s' = Ok s'"
proof -
  have key: "MessageKey (rm_msg m) = key" using cached_ref_object(1) [OF assms(1,2)] assms(3) by auto
  let ?m = "IncrementRetry (ev_now E) m" and ?s1 = "RouteMessage_begin E ref s"
  have h1: "hp_routes (r_heap ?s1) ref = Some ?m" using assms(3) by (simp add: RouteMessage_begin_def)
  have le: "unat (rm_retry m + 1) \<le> 30"
  proof -
    have "rm_retry m + 1 \<le> (30 :: u8)" using assms(5) by (rule order_trans [OF less_imp_le]) (simp add: MaxTxRetry_def)
    then show ?thesis by (simp add: word_le_nat_alt)
  qed
  have last: "rm_lasttry ?m = ev_now E + 6000000000 * 2 ^ unat (rm_retry m + 1)"
    using backoff_no_overflow [OF le] by (simp add: IncrementRetry_def AddNextTry_def)
  have s': "s' = toggle ref ?s1"
    using assms(5,7) h1 by (simp add: RouteMessage_end_def HandleMessageFailed_def toggle_routes not_le [symmetric])
  have h': "hp_routes (r_heap s') ref = Some (ToggleProcessing ?m)" by (simp add: s' toggle_routes h1)
  have pos: "0 < ev_now E + 6000000000 * 2 ^ unat (rm_retry m + 1)"
    using assms(6) by (simp add: add_nonneg_pos)
  have busy: "IsProcessing (ev_now E') (ToggleProcessing ?m)"
    using assms(9) last pos by (simp add: IsProcessing_def)
  obtain rt where rt: "map_of (r_chains s) src = Some rt" "MessageCache_Get key (cr_MessageCache rt) = Some ref"
    using assms(2) by (rule cached_refE)
  obtain d where d: "map_of (r_chains s) (k_dst key) = Some d" using assms(8) by auto
  have f: "FindChainRuntime (m_dst (rm_msg (ToggleProcessing ?m))) s' = Ok d"
    using d key by (auto simp: FindChainRuntime_Ok s')
  have "process_entry S E' src key ref (ToggleProcessing ?m) s' = Ok s'"
    using busy by (simp only: process_entry_def f) (simp add: shouldSendMessage_def)
  then show ?thesis using rt h' by (simp add: process_message_def s')
qed

definition ex_spawned :: "memdb relayer" where
  "ex_spawned = the (run mem_store mem_codec mem_sock (take 3 ex_labels) ex_start)"

lemma ex_spawned_reachable: "reachable mem_store mem_codec mem_sock [] ex_chains False ex_spawned"
proof -
  have "run_ok (take 3 ex_labels) ex_start" by code_simp
  from run_reachable [OF run_okD [OF this] ex_start_reachable] show ?thesis by (simp add: ex_spawned_def)
qed

text \<open>The witness: twelve seconds after the first attempt nothing happens yet.\<close>

theorem no_retry_before_backoff_witness:
  "\<exists>s'. RouteMessage_end mem_store mem_codec 2 ''a'' (Some ''failed'')
      (RouteMessage_begin ex_env 2 ex_spawned) = Ok s' \<and>
    process_message mem_store (ex_env\<lparr>ev_now := ex_now + 12000000000\<rparr>) ''a'' (ex_key 0 ''a'' ''b'' 1) s' = Ok s'"
proof -
  let ?k = "ex_key 0 ''a'' ''b'' 1"
  let ?e = "RouteMessage_end mem_store mem_codec 2 ''a'' (Some ''failed'') (RouteMessage_begin ex_env 2 ex_spawned)"
  have r: "cached_ref ex_spawned ''a'' ?k = Some 2" by code_simp
  have "(case hp_routes (r_heap ex_spawned) 2 of None \<Rightarrow> False | Some m \<Rightarrow> rm_processing m \<and> rm_retry m = 0)"
    "is_ok ?e" "(case map_of (r_chains ex_spawned) ''b'' of None \<Rightarrow> False | Some rt \<Rightarrow> True)" by code_simp+
  then obtain m s' where m: "hp_routes (r_heap ex_spawned) 2 = Some m" "rm_processing m" "rm_retry m = 0"
    and s': "?e = Ok s'" and b: "map_of (r_chains ex_spawned) (k_dst ?k) \<noteq> None"
    by (auto simp: is_ok_iff ex_key_def split: option.splits)
  have n: "rm_retry m + 1 < MaxTxRetry" "0 \<le> ev_now ex_env"
    "ev_now (ex_env\<lparr>ev_now := ex_now + 12000000000\<rparr>) \<le> ev_now ex_env + 6000000000 * 2 ^ unat (rm_retry m + 1)"
    using m(3) by (simp_all add: MaxTxRetry_def ex_env_def ex_now_def)
  from no_retry_before_backoff [OF reachable_ok [OF ex_spawned_reachable] r m(1,2) n(1,2) s' b n(3)] s'
  show ?thesis by blast
qed

section \<open>Routing decisions\<close>

text \<open>
  C6. When the router visits a cached message, a goroutine is started for it exactly when its
  destination is configured, the message is neither being processed nor waiting for its next try,
  both chains want it and the destination has not received it; the new goroutine routes this
  message from this source to its destination, and the message is marked.
\<close>
theorem process_message_routes:
  assumes "relayer_ok s" "cached_ref s src key = Some ref" "hp_routes (r_heap s) ref = Some m"
    and "process_message S E src key s = Ok s'"
  shows "r_tasks s' = (if map_of (r_chains s) (k_dst key) \<noteq> None \<and> \<not> IsProcessing (ev_now E) m \<and>
        ev_ShouldReceiveMessage E (k_dst key) (wire_message (rm_msg m)) = Inr True \<and>
        ev_ShouldSendMessage E src (wire_message (rm_msg m)) = Inr True \<and>
        ev_MessageReceived E (k_dst key) (wire_key key) = Inr False
      then \<lparr>tk_ref = ref, tk_src = src, tk_dst = k_dst key, tk_phase = Spawned\<rparr> # r_tasks s
      else r_tasks s) \<and>
    (length (r_tasks s') > length (r_tasks s) \<longrightarrow>
      cached_msg s' src key = Some (m\<lparr>rm_processing := True\<rparr>))"
proof -
  have key: "MessageKey (rm_msg m) = key" using cached_ref_object(1) [OF assms(1,2)] assms(3) by auto
  then have dst: "m_dst (rm_msg m) = k_dst key" by auto
  obtain rt where rt: "map_of (r_chains s) src = Some rt" "MessageCache_Get key (cr_MessageCache rt) = Some ref"
    using assms(2) by (rule cached_refE)
  have e: "process_entry S E src key ref m s = Ok s'" using assms(3,4) rt by (simp add: process_message_def)
  have clear: "r_tasks (snd (ClearMessages S [key] src x)) = r_tasks x" for x :: "'a relayer"
    by (simp add: ClearMessages_eq)
  show ?thesis
  proof (cases "map_of (r_chains s) (k_dst key)")
    case None
    then have "FindChainRuntime (m_dst (rm_msg m)) s = Err (''chain runtime not found, nId:'' @ k_dst key @ '' '')"
      by (simp add: FindChainRuntime_def dst)
    with e clear None show ?thesis by (auto simp: process_entry_def)
  next
    case (Some d)
    have nid: "pv_NID (cr_Provider d) = k_dst key" by (rule wf_chain(1) [OF assms(1) Some])
    have f: "FindChainRuntime (m_dst (rm_msg m)) s = Ok d" by (simp add: FindChainRuntime_Ok dst Some)
    have t: "\<not> rm_processing m \<Longrightarrow> ToggleProcessing m = m\<lparr>rm_processing := True\<rparr>"
      by (simp add: ToggleProcessing_def)
    from e f nid Some t assms(2,3) clear show ?thesis
      by (auto simp: process_entry_def shouldSendMessage_def Let_def spawn_def cached_msg_def toggle_routes
          dest: idle_not_processing split: if_splits sum.splits bool.splits)
  qed
qed

definition ex_seen :: "memdb relayer" where
  "ex_seen = the (run mem_store mem_codec mem_sock (take 2 ex_labels) ex_start)"

lemma ex_seen_reachable: "reachable mem_store mem_codec mem_sock [] ex_chains False ex_seen"
proof -
  have "run_ok (take 2 ex_labels) ex_start" by code_simp
  from run_reachable [OF run_okD [OF this] ex_start_reachable] show ?thesis by (simp add: ex_seen_def)
qed

theorem process_message_routes_witness:
  "\<exists>s'. process_message mem_store ex_env ''a'' (ex_key 0 ''a'' ''b'' 1) ex_seen = Ok s' \<and>
    r_tasks s' = [\<lparr>tk_ref = 2, tk_src = ''a'', tk_dst = ''b'', tk_phase = Spawned\<rparr>]"
proof -
  let ?k = "ex_key 0 ''a'' ''b'' 1"
  let ?p = "process_message mem_store ex_env ''a'' ?k ex_seen"
  have r: "cached_ref ex_seen ''a'' ?k = Some 2" by code_simp
  have "(case hp_routes (r_heap ex_seen) 2 of None \<Rightarrow> False | Some m \<Rightarrow> \<not> IsProcessing (ev_now ex_env) m)"
    "is_ok ?p" "(case map_of (r_chains ex_seen) ''b'' of None \<Rightarrow> False | Some rt \<Rightarrow> True)"
    "length (r_tasks ex_seen) = 0" by code_simp+
  then obtain m s' where m: "hp_routes (r_heap ex_seen) 2 = Some m" "\<not> IsProcessing (ev_now ex_env) m"
    and s': "?p = Ok s'" and b: "map_of (r_chains ex_seen) ''b'' \<noteq> None" "r_tasks ex_seen = []"
    by (auto simp: is_ok_iff split: option.splits)
  have k: "k_dst ?k = ''b''" by (simp add: ex_key_def)
  from process_message_routes [OF reachable_ok [OF ex_seen_reachable] r m(1) s'] m(2) b s'
  show ?thesis by (simp add: k ex_env_def)
qed

end
