(* ===== verification/Routing.thy ===== *)
theory Routing
  imports Relay_Props
begin

text \<open>
  The contract between the relayer and the \<^verbatim>\<open>Route\<close> of a provider. The relayer clears the mark of a
  message only in a success callback, which removes it, and when \<^verbatim>\<open>Route\<close> returns an error; so a
  provider must report exactly one of the two for every message. A provider that does settles every
  message it is given: it is delivered, or it is kept for another try.
\<close>

section \<open>The contract\<close>

type_synonym outcome = "((wireint message_key \<times> tx_response \<times> error option) list \<times> error option) result"

definition settles :: "wireint message \<Rightarrow> outcome \<Rightarrow> bool" where
  "settles m out = (case out of
      Ok (cbs, err) \<Rightarrow>
        list_all (\<lambda>(k, r, e). k = MessageKey m) cbs \<and>
        length (filter (\<lambda>(k, r, e). tr_code r = Success) cbs) = (if err = None then 1 else 0)
    | _ \<Rightarrow> True)"

text \<open>The relayer's callback runs with the key the relayer holds: the provider passes it on.\<close>

definition with_key ::
    "bigptr message_key \<Rightarrow> (wireint message_key \<times> tx_response \<times> error option) list
     \<Rightarrow> (bigptr message_key \<times> tx_response \<times> error option) list" where
  "with_key key cbs = map (\<lambda>(k, r, e). (key, r, e)) cbs"

lemma callback_failure:
  "tr_code r \<noteq> Success \<Longrightarrow> callback S C src dst key r err s = Ok s"
  by (auto simp: callback_def split: option.splits)

lemma callback_uncached:
  "cached_msg s src key = None \<Longrightarrow> callback S C src dst key r err s = Ok s"
  by (auto simp: callback_def cached_msg_def cached_ref_def split: option.splits)

lemma run_callbacks_uncached:
  "cached_msg s src key = None \<Longrightarrow> run_callbacks S C src dst (with_key key cbs) s = Ok s"
  by (induction cbs) (auto simp: with_key_def callback_uncached)

lemma run_callbacks_no_success:
  "filter (\<lambda>(k, r, e). tr_code r = Success) cbs = [] \<Longrightarrow>
   run_callbacks S C src dst (with_key key cbs) s = Ok s"
  by (induction cbs) (auto simp: with_key_def callback_failure split: if_splits)

lemma run_callbacks_one_success:
  "length (filter (\<lambda>(k, r, e). tr_code r = Success) cbs) = 1 \<Longrightarrow>
   \<exists>r e. tr_code r = Success \<and> (\<exists>k. (k, r, e) \<in> set cbs) \<and>
     (\<forall>s'. callback S C src dst key r e s = Ok s' \<longrightarrow> cached_msg s' src key = None \<longrightarrow>
       run_callbacks S C src dst (with_key key cbs) s = Ok s')"
proof (induction cbs)
  case (Cons c cbs)
  obtain k r e where c: "c = (k, r, e)" by (cases c)
  show ?case
  proof (cases "tr_code r = Success")
    case True
    have "run_callbacks S C src dst (with_key key (c # cbs)) s = Ok s'"
      if "callback S C src dst key r e s = Ok s'" "cached_msg s' src key = None" for s'
      using that run_callbacks_uncached [OF that(2)] by (simp add: with_key_def c)
    with True c show ?thesis by (intro exI [of _ r] exI [of _ e]) auto
  next
    case False
    then have l: "length (filter (\<lambda>(k, r, e). tr_code r = Success) cbs) = 1" using Cons.prems c by simp
    from Cons.IH [OF l] obtain r' e' where "tr_code r' = Success" "\<exists>k. (k, r', e') \<in> set cbs"
      "\<And>s'. callback S C src dst key r' e' s = Ok s' \<Longrightarrow> cached_msg s' src key = None \<Longrightarrow>
       run_callbacks S C src dst (with_key key cbs) s = Ok s'" by blast
    then show ?thesis
      using False c by (intro exI [of _ r'] exI [of _ e']) (auto simp: with_key_def callback_failure)
  qed
qed simp

section \<open>What the relayer gets from it\<close>

locale routing_provider =
  fixes route :: "'s \<Rightarrow> wireint message \<Rightarrow> outcome \<times> 's"
  assumes route_settles: "settles m (fst (route st m))"
begin

lemma message_settles:
  assumes "message_db S view C" "relayer_ok s"
    and chains: "map_of (r_chains s) src = Some srcrt" "map_of (r_chains s) dst = Some dstrt"
    and ref: "cached_ref s src key = Some ref" "hp_routes (r_heap s) ref = Some m" "rm_processing m"
    and sn: "k_sn key = Some (a, i)" "0 \<le> i"
    and plain: "json_route (wire_route (IncrementRetry (ev_now E) m))" "json_key (wire_key key)"
      "\<And>k r e. (k, r, e) \<in> set cbs \<Longrightarrow> ascii (tr_txhash r)"
    and route: "fst (route st (wire_message (rm_msg m))) = Ok (cbs, err)"
  shows "\<exists>s'. RouteMessage S C E ref dst src (with_key key cbs) err s = Ok s' \<and>
    (if err = None then cached_msg s' src key = None \<and>
       stored_msg C (view (r_db s')) ''message'' (k_src key) (Some i) = None
     else if rm_retry m + 1 < MaxTxRetry then
       (\<exists>m'. cached_msg s' src key = Some m' \<and> rm_msg m' = rm_msg m \<and> \<not> rm_processing m' \<and> rm_retry m' = rm_retry m + 1)
     else cached_msg s' src key = None \<and>
       (\<exists>w. stored_msg C (view (r_db s')) ''message'' (k_src key) (Some i) = Some w \<and>
         \<not> rm_processing w \<and> rm_retry w = rm_retry m + 1))"
proof -
  let ?m = "IncrementRetry (ev_now E) m" and ?s1 = "RouteMessage_begin E ref s"
  have st: "settles (wire_message (rm_msg m)) (Ok (cbs, err))"
    using route_settles [of "wire_message (rm_msg m)" st] route by simp
  have h: "hp_routes (r_heap ?s1) ref = Some ?m" using ref(2) by (simp add: RouteMessage_begin_def)
  have c1: "cached_ref ?s1 src key = Some ref" using ref(1) by simp
  have cm: "cached_msg ?s1 src key = Some ?m" by (simp add: cached_msg_def ref(1) h)
  have ch: "map_of (r_chains ?s1) src = Some srcrt" "map_of (r_chains ?s1) dst = Some dstrt" using chains by simp_all
  show ?thesis
  proof (cases err)
    case None
    then have one: "length (filter (\<lambda>(k, r, e). tr_code r = Success) cbs) = 1" using st by (simp add: settles_def)
    obtain r e where r: "tr_code r = Success" "\<exists>k. (k, r, e) \<in> set cbs"
      "\<And>s'. callback S C src dst key r e ?s1 = Ok s' \<Longrightarrow> cached_msg s' src key = None \<Longrightarrow>
       run_callbacks S C src dst (with_key key cbs) ?s1 = Ok s'"
      using run_callbacks_one_success [OF one] by blast
    have t: "ascii (tr_txhash r)" using r(2) plain(3) by blast
    obtain s' where s': "callback S C src dst key r e ?s1 = Ok s'" "cached_msg s' src key = None"
      "stored_msg C (view (r_db s')) ''message'' (k_src key) (Some i) = None"
      using callback_delivers [OF assms(1) ch cm sn plain(2) t r(1)] by blast
    have "RouteMessage S C E ref dst src (with_key key cbs) err s = Ok s'"
      using r(3) [OF s'(1,2)] None by (simp add: RouteMessage_def RouteMessage_end_def)
    with s' None show ?thesis by simp
  next
    case (Some e)
    then have "filter (\<lambda>(k, r, e). tr_code r = Success) cbs = []" using st by (simp add: settles_def)
    then have run: "run_callbacks S C src dst (with_key key cbs) ?s1 = Ok ?s1" by (rule run_callbacks_no_success)
    have p: "rm_processing ?m" using ref(3) by simp
    obtain s' where s': "HandleMessageFailed S C ref src ?s1 = Ok s'"
      "if rm_retry ?m < MaxTxRetry then cached_msg s' src key = Some (?m\<lparr>rm_processing := False\<rparr>) \<and> r_db s' = r_db ?s1
       else cached_msg s' src key = None \<and>
         stored_msg C (view (r_db s')) ''message'' (k_src key) (Some i) = Some (wire_route (?m\<lparr>rm_processing := False\<rparr>))"
      using HandleMessageFailed_keeps [OF assms(1) wf_RouteMessage_begin [OF assms(2)] c1 h sn plain(1) p] by blast
    have "RouteMessage S C E ref dst src (with_key key cbs) err s = Ok s'"
      using run s'(1) Some by (simp add: RouteMessage_def RouteMessage_end_def)
    with s'(2) Some show ?thesis by (auto split: if_splits)
  qed
qed

end

end
