(* ===== verification/Evm_Send.thy ===== *)
theory Evm_Send
  imports Evm_Example Routing
begin

text \<open>
  Properties of the EVM provider's transactions: the gas and the nonce they are sent with, how long
  a result is awaited, what \<^verbatim>\<open>Route\<close> reports to the relayer, and the administration calls.
\<close>

section \<open>One transaction\<close>

definition wallet_address :: "evm_state \<Rightarrow> string" where
  "wallet_address s = (case es_wallet s of Some a \<Rightarrow> a | None \<Rightarrow> '''')"

lemma gas_no_wrap:
  fixes g adj :: u64
  assumes "unat lim * (100 + unat adj) < 2 ^ 64" "g \<le> lim"
  shows "unat (g + g * adj div 100) = unat g + unat g * unat adj div 100"
proof -
  have g: "unat g \<le> unat lim" using assms(2) by (simp add: word_le_nat_alt)
  have "unat g * (100 + unat adj) < 2 ^ 64"
    using mult_le_mono1 [OF g] assms(1) by (rule le_less_trans)
  then have b: "unat g * 100 + unat g * unat adj < 2 ^ LENGTH(64)" by (simp only: distrib_left len_num0 len_bit0 len_num1 mult.commute) simp
  have "unat g * unat adj < 2 ^ LENGTH(64)" using b by linarith
  then have m: "unat (g * adj) = unat g * unat adj" by (rule unat_mult_lem [THEN iffD1])
  then have d: "unat (g * adj div 100) = unat g * unat adj div 100" by (simp add: unat_div)
  have "unat g * unat adj div 100 \<le> unat g * unat adj" by simp
  then have "unat g + unat (g * adj div 100) < 2 ^ LENGTH(64)" using b d by simp
  then have "unat (g + g * adj div 100) = unat g + unat (g * adj div 100)" by (rule unat_add_lem [THEN iffD1])
  with d show ?thesis by simp
qed

text \<open>
  C25. A transaction that is sent calls the contract method of its message with the nonce of its
  options, once; its gas estimate lies within the configured bounds, and its gas limit is the
  estimate raised by the configured percentage, exactly when the bounds leave room for it in 64
  bits. Nothing else of the provider's state changes.
\<close>
theorem sent_transaction:
  assumes "SendTransaction cl p now opts m s = (Ok hash, s')"
    and "unat (ec_GasLimit p) * (100 + unat (ec_GasAdjustment p)) < 2 ^ 64"
  shows "\<exists>call estimate gas. transact_call cl m = Some call \<and> cl_transact cl call = Inr hash \<and>
    Evm_EstimateGas cl p (wallet_address s) m = Inr estimate \<and>
    ec_GasMin p \<le> estimate \<and> estimate \<le> ec_GasLimit p \<and>
    unat gas = unat estimate + unat estimate * unat (ec_GasAdjustment p) div 100 \<and>
    s' = s\<lparr>es_sent := es_sent s @ [(call, nt_mem (es_tracker s) (op_Nonce opts), gas)]\<rparr>"
proof -
  obtain g where g: "Evm_EstimateGas cl p (wallet_address s) m = Inr g"
    using assms(1) by (cases "Evm_EstimateGas cl p (wallet_address s) m")
      (auto simp: SendTransaction_def wallet_address_def)
  note eq = g [unfolded wallet_address_def]
  have b: "ec_GasMin p \<le> g" "g \<le> ec_GasLimit p"
    using assms(1) by (auto simp: SendTransaction_def eq Let_def not_less split: if_splits)
  have n: "\<not> g > ec_GasLimit p" "\<not> g < ec_GasMin p" using b by (simp_all add: not_less)
  let ?gas = "g + (g * ec_GasAdjustment p div 100)"
  obtain call where call: "transact_call cl m = Some call" "cl_transact cl call = Inr hash"
    "s' = s\<lparr>es_sent := es_sent s @ [(call, nt_mem (es_tracker s) (op_Nonce opts), ?gas)]\<rparr>"
    using assms(1)
    by (auto simp: SendTransaction_def eq Let_def n split: result.splits option.splits sum.splits if_splits prod.splits)
  show ?thesis using call g b gas_no_wrap [OF assms(2) b(2)] by blast
qed

definition ex_evm_ready :: "transact_opts \<times> evm_state" where
  "ex_evm_ready = (case GetTransationOpts ex_client 100 ex_evm_state of
      (Ok opts, s) \<Rightarrow> (opts, s) | (_, s) \<Rightarrow> (\<lparr>op_Nonce = 0, op_GasFeeCap = 0, op_GasTipCap = None, op_GasLimit = 0\<rparr>, s))"

theorem sent_transaction_witness:
  "\<exists>gas. unat gas = 300 \<and> es_sent (snd (SendTransaction ex_client ex_evm_config 100 (fst ex_evm_ready) ex_evm_message
     (snd ex_evm_ready))) = [(ReceiveMessageCall ''icon'' (Some 4) ''data'', 17, gas)]"
proof -
  let ?r = "SendTransaction ex_client ex_evm_config 100 (fst ex_evm_ready) ex_evm_message (snd ex_evm_ready)"
  have "fst ?r = Ok ''0xbeef''" by code_simp
  then have r: "?r = (Ok ''0xbeef'', snd ?r)" by (metis prod.collapse)
  have b: "unat (ec_GasLimit ex_evm_config) * (100 + unat (ec_GasAdjustment ex_evm_config)) < 2 ^ 64"
    by (simp add: ex_evm_config_def)
  have f: "transact_call ex_client ex_evm_message = Some (ReceiveMessageCall ''icon'' (Some 4) ''data'')"
    "Evm_EstimateGas ex_client ex_evm_config (wallet_address (snd ex_evm_ready)) ex_evm_message = Inr 200"
    "es_sent (snd ex_evm_ready) = []" "nt_mem (es_tracker (snd ex_evm_ready)) (op_Nonce (fst ex_evm_ready)) = 17"
    by code_simp+
  have a: "ec_GasAdjustment ex_evm_config = 50" by (simp add: ex_evm_config_def)
  from sent_transaction [OF r b] obtain call est gas where g: "transact_call ex_client ex_evm_message = Some call"
    "Evm_EstimateGas ex_client ex_evm_config (wallet_address (snd ex_evm_ready)) ex_evm_message = Inr est"
    "unat gas = unat est + unat est * unat (ec_GasAdjustment ex_evm_config) div 100"
    "snd ?r = (snd ex_evm_ready)\<lparr>es_sent := es_sent (snd ex_evm_ready) @
       [(call, nt_mem (es_tracker (snd ex_evm_ready)) (op_Nonce (fst ex_evm_ready)), gas)]\<rparr>" by blast
  have e: "call = ReceiveMessageCall ''icon'' (Some 4) ''data''" "est = 200"
    using g(1,2) unfolding f by simp_all
  have "es_sent (snd ?r) = [(ReceiveMessageCall ''icon'' (Some 4) ''data'', 17, gas)]"
    unfolding g(4) f e by (simp add: f)
  moreover have "unat gas = 300" using g(3) unfolding a e by simp
  ultimately show ?thesis by blast
qed

section \<open>Waiting for the receipt\<close>

definition pending :: "tick \<Rightarrow> bool" where
  "pending t = (case t of Tick NotFound \<Rightarrow> True | _ \<Rightarrow> False)"

lemma WaitForResults_loop_answer:
  assumes "query i = Tick (Receipt r)" "i < MaximumPollTry" "n \<le> i" "\<And>j. n \<le> j \<Longrightarrow> j < i \<Longrightarrow> pending (query j)"
  shows "WaitForResults_loop query n = Ok r"
  using assms(3,4)
proof (induction "i - n" arbitrary: n)
  case 0
  then show ?case using assms by (simp add: WaitForResults_loop.simps [of query n])
next
  case (Suc k)
  then have n: "n < i" by simp
  then have "query n = Tick NotFound"
    using Suc.prems(2) [of n] by (auto simp: pending_def split: tick.splits receipt_answer.splits)
  moreover have "WaitForResults_loop query (Suc n) = Ok r" using Suc by (intro Suc.hyps) auto
  ultimately show ?case using n assms(2) by (simp add: WaitForResults_loop.simps [of query n])
qed

lemma WaitForResults_loop_gives_up:
  assumes "n \<le> MaximumPollTry" "\<And>j. n \<le> j \<Longrightarrow> j < MaximumPollTry \<Longrightarrow> pending (query j)" "query MaximumPollTry = Tick a"
  shows "WaitForResults_loop query n = Err (''failed to get receipt after '' @ int_str 10 (int MaximumPollTry) @ '' tries'')"
  using assms(1,2)
proof (induction "MaximumPollTry - n" arbitrary: n)
  case 0
  then have "n = MaximumPollTry" by simp
  then show ?case using assms(3) by (simp add: WaitForResults_loop.simps [of query MaximumPollTry])
next
  case (Suc k)
  then have n: "n < MaximumPollTry" by simp
  then have "query n = Tick NotFound"
    using Suc.prems(2) [of n] by (auto simp: pending_def split: tick.splits receipt_answer.splits)
  moreover have "WaitForResults_loop query (Suc n) =
      Err (''failed to get receipt after '' @ int_str 10 (int MaximumPollTry) @ '' tries'')"
    using Suc by (intro Suc.hyps) auto
  ultimately show ?case using n by (simp add: WaitForResults_loop.simps [of query n])
qed

lemma WaitForResults_loop_not_Panic: "WaitForResults_loop query n \<noteq> Panic e"
proof (induction query n rule: WaitForResults_loop.induct)
  case (1 query n)
  then show ?case
    by (subst WaitForResults_loop.simps) (auto split: tick.splits receipt_answer.splits)
qed

text \<open>
  The wait for a receipt ends after at most fifteen polls: the receipt of the first poll that
  has one is returned when every earlier one found nothing; when fifteen polls find nothing the
  wait fails. It never panics.
\<close>
theorem receipt_wait:
  "(\<forall>i r. i < MaximumPollTry \<and> cl_TransactionReceipt cl hash i = Tick (Receipt r) \<and>
       list_all (\<lambda>j. pending (cl_TransactionReceipt cl hash j)) [0..<i] \<longrightarrow> Evm_WaitForResults cl hash = Ok r) \<and>
   (\<forall>a. list_all (\<lambda>j. pending (cl_TransactionReceipt cl hash j)) [0..<MaximumPollTry] \<and>
       cl_TransactionReceipt cl hash MaximumPollTry = Tick a \<longrightarrow>
       Evm_WaitForResults cl hash = Err ''failed to get receipt after 15 tries'') \<and>
   (\<forall>e. Evm_WaitForResults cl hash \<noteq> Panic e)"
proof -
  have n: "int_str 10 (int MaximumPollTry) = ''15''" by code_simp
  show ?thesis
    using WaitForResults_loop_answer [of "cl_TransactionReceipt cl hash" _ _ 0]
      WaitForResults_loop_gives_up [of 0 "cl_TransactionReceipt cl hash"]
    by (auto simp: Evm_WaitForResults_def list_all_iff WaitForResults_loop_not_Panic n)
qed

theorem receipt_wait_witness:
  "Evm_WaitForResults ex_client ''0xbeef'' = Ok \<lparr>er_BlockNumber = 121, er_Status = 1\<rparr>"
proof -
  have "2 < MaximumPollTry" "cl_TransactionReceipt ex_client ''0xbeef'' 2 = Tick (Receipt \<lparr>er_BlockNumber = 121, er_Status = 1\<rparr>)"
    "list_all (\<lambda>j. pending (cl_TransactionReceipt ex_client ''0xbeef'' j)) [0..<2]"
    by code_simp+
  with receipt_wait [of ex_client "''0xbeef''"] show ?thesis by blast
qed

section \<open>What the relayer is told\<close>

lemma WaitForTxResult_settles:
  "settles m (Evm_WaitForTxResult cl tx (MessageKey m))"
proof (cases "Evm_WaitForResults cl tx")
  case (Ok r)
  show ?thesis
  proof (cases "ptr_Uint64 (k_sn (MessageKey m))")
  qed (auto simp: Ok settles_def Evm_WaitForTxResult_def Let_def)
qed (simp_all add: settles_def Evm_WaitForTxResult_def Let_def)

lemma Evm_Route_settles: "settles m (fst (Evm_Route cl p now m s))"
  by (auto simp: Evm_Route_def WaitForTxResult_settles settles_def [of m "Ok ([], Some x)" for x]
      settles_def [of m "Panic x" for x] split: prod.splits result.splits)

interpretation evm: routing_provider "\<lambda>s m. Evm_Route cl p now m s" for cl p now
  by unfold_locales (rule Evm_Route_settles)

section \<open>Administration\<close>

lemma no_tip_or_sn_never_Ok:
  "m_sn m = None \<Longrightarrow> fst (SendTransaction cl p now opts m s) \<noteq> Ok hash \<and> es_sent (snd (SendTransaction cl p now opts m s)) = es_sent s"
  by (auto simp: SendTransaction_def Let_def ptr_Uint64_def split: sum.splits option.splits)

lemma opts_es_sent: "es_sent (snd (GetTransationOpts cl now s)) = es_sent s"
  by (auto simp: GetTransationOpts_def Evm_Wallet_def Let_def split: prod.splits result.splits option.splits sum.splits)

text \<open>
  The administration calls \<^verbatim>\<open>SetAdmin\<close> and \<^verbatim>\<open>ClaimFee\<close> never succeed and never send anything: their
  messages have no sequence number, and the log line of \<^verbatim>\<open>SendTransaction\<close> reads it
  through a nil pointer.
\<close>
theorem admin_calls_never_succeed:
  "fst (Evm_ClaimFee cl p now s) \<noteq> Ok () \<and> es_sent (snd (Evm_ClaimFee cl p now s)) = es_sent s \<and>
   fst (Evm_SetAdmin cl p now admin s) \<noteq> Ok () \<and> es_sent (snd (Evm_SetAdmin cl p now admin s)) = es_sent s"
proof -
  have sn: "m_sn (admin_message ClaimFee) = None" "m_sn ((admin_message SetAdmin)\<lparr>m_dst := admin\<rparr>) = None"
    by (simp_all add: admin_message_def)
  note no = no_tip_or_sn_never_Ok [OF sn(1)] no_tip_or_sn_never_Ok [OF sn(2)]
  show ?thesis
  proof (cases "GetTransationOpts cl now s")
    case (Pair r s1)
    have e: "es_sent s1 = es_sent s" using opts_es_sent [of cl now s] by (simp add: Pair)
    show ?thesis
    proof (cases r)
      case (Ok opts)
      obtain r1 t1 where 1: "SendTransaction cl p now opts (admin_message ClaimFee) s1 = (r1, t1)" by force
      obtain r2 t2 where 2: "SendTransaction cl p now opts ((admin_message SetAdmin)\<lparr>m_dst := admin\<rparr>) s1 = (r2, t2)" by force
      have "es_sent t1 = es_sent s" "es_sent t2 = es_sent s" "\<And>h. r1 \<noteq> Ok h" "\<And>h. r2 \<noteq> Ok h"
        using no(1) [of cl p now opts s1] no(2) [of cl p now opts s1] e by (simp_all add: 1 2)
      then show ?thesis
        by (cases r1; cases r2) (auto simp: Evm_ClaimFee_def admin_call_def Evm_SetAdmin_def Pair Ok 1 2 split: tick.splits)
    qed (simp_all add: Evm_ClaimFee_def admin_call_def Evm_SetAdmin_def Pair e)
  qed
qed

end
