(* ===== verification/Evm_Routes.thy ===== *)
theory Evm_Routes
  imports Evm_Send
begin

text \<open>
  Several messages routed to one EVM chain, one after the other as the route mutex orders them: the
  nonces their transactions are sent with.
\<close>

section \<open>The state between two routes\<close>

definition tracking :: "string \<Rightarrow> gotime \<Rightarrow> int \<Rightarrow> evm_state \<Rightarrow> bool" where
  "tracking addr since last_nonce s = (tracker_ok (es_tracker s) \<and> es_wallet s = Some addr \<and>
     (\<exists>v. map_of (nt_address (es_tracker s)) addr = Some v \<and> nv_LastUpdated v = since \<and>
       nt_mem (es_tracker s) (nv_Current v) = last_nonce))"

lemma opts_tracking:
  assumes "tracking addr since n s" "now - since \<le> NonceUpdateInterval"
  shows "es_sent (snd (GetTransationOpts cl now s)) = es_sent s \<and>
    (case fst (GetTransationOpts cl now s) of
       Ok opts \<Rightarrow> tracking addr since (n + 1) (snd (GetTransationOpts cl now s)) \<and>
         nt_mem (es_tracker (snd (GetTransationOpts cl now s))) (op_Nonce opts) = n + 1
     | Err e \<Rightarrow> (\<exists>k. n \<le> k \<and> k \<le> n + 1 \<and> tracking addr since k (snd (GetTransationOpts cl now s)))
     | Panic e \<Rightarrow> False)"
proof -
  obtain v where v: "tracker_ok (es_tracker s)" "es_wallet s = Some addr"
    "map_of (nt_address (es_tracker s)) addr = Some v" "nv_LastUpdated v = since"
    "nt_mem (es_tracker s) (nv_Current v) = n" using assms(1) by (auto simp: tracking_def)
  have w: "Evm_Wallet cl now s = (Ok addr, s)" using v(2) by (simp add: Evm_Wallet_def)
  obtain t where t: "Nonce_Get now (cl_PendingNonceAt cl addr) addr (es_tracker s) = Ok (nv_Current v, t)"
    "nt_mem t (nv_Current v) = n + 1" "tracker_ok t"
    "\<exists>v'. map_of (nt_address t) addr = Some v' \<and> nv_Current v' = nv_Current v \<and> nv_LastUpdated v' = since"
  proof -
    have "now - nv_LastUpdated v \<le> NonceUpdateInterval" using assms(2) v(4) by simp
    from Nonce_Get_recent [OF v(1,3) this, of "cl_PendingNonceAt cl addr"] that show thesis
      using v(4,5) by auto
  qed
  have tr: "tracking addr since (n + 1) (s\<lparr>es_tracker := t\<rparr>)" using t v(2) by (auto simp: tracking_def)
  show ?thesis
  proof (cases "cl_NewTransactor cl")
    case None
    then show ?thesis
      using tr t(2) by (cases "cl_SuggestGasPrice cl") (auto simp: GetTransationOpts_def w t(1) intro: exI [of _ "n + 1"])
  next
    case (Some e)
    then show ?thesis using assms(1) by (auto simp: GetTransationOpts_def w intro: exI [of _ n])
  qed
qed

definition transacts :: "evm_client \<Rightarrow> bool" where
  "transacts cl = (\<forall>call. \<exists>hash. cl_transact cl call = Inr hash)"

lemma send_tracker:
  assumes "transacts cl"
  shows "es_tracker (snd (SendTransaction cl p now opts m s)) = es_tracker s \<and>
    es_wallet (snd (SendTransaction cl p now opts m s)) = es_wallet s \<and>
    (\<exists>ns. es_sent (snd (SendTransaction cl p now opts m s)) = es_sent s @ ns \<and>
      (ns = [] \<or> (\<exists>call gas. ns = [(call, nt_mem (es_tracker s) (op_Nonce opts), gas)])))"
proof -
  have "\<And>call e. cl_transact cl call \<noteq> Inl e" using assms by (metis Inl_Inr_False transacts_def)
  then show ?thesis
    by (auto simp: SendTransaction_def Let_def split: sum.splits result.splits option.splits)
qed

lemma route_tracking:
  assumes "tracking addr since n s" "now - since \<le> NonceUpdateInterval" "transacts cl"
  shows "\<exists>k ns. n \<le> k \<and> k \<le> n + 1 \<and> tracking addr since k (snd (Evm_Route cl p now m s)) \<and>
    es_sent (snd (Evm_Route cl p now m s)) = es_sent s @ ns \<and>
    (ns = [] \<or> k = n + 1 \<and> (\<exists>call gas. ns = [(call, k, gas)]))"
proof (cases "GetTransationOpts cl now s")
  case (Pair r s1)
  note o = opts_tracking [OF assms(1,2), of cl, unfolded Pair, simplified]
  show ?thesis
  proof (cases r)
    case (Ok opts)
    have o1: "es_sent s1 = es_sent s" "tracking addr since (n + 1) s1" "nt_mem (es_tracker s1) (op_Nonce opts) = n + 1"
      using o by (simp_all add: Ok)
    let ?s2 = "snd (SendTransaction cl p now opts m s1)"
    have s2: "snd (Evm_Route cl p now m s) = ?s2"
      by (simp add: Evm_Route_def Pair Ok split: prod.splits result.splits)
    obtain ns where ns: "es_tracker ?s2 = es_tracker s1" "es_wallet ?s2 = es_wallet s1" "es_sent ?s2 = es_sent s @ ns"
      "ns = [] \<or> (\<exists>call gas. ns = [(call, n + 1, gas)])"
      using send_tracker [OF assms(3), of p now opts m s1] o1 by auto
    have "tracking addr since (n + 1) ?s2" using o1(2) ns(1,2) by (simp add: tracking_def)
    then show ?thesis unfolding s2 using ns(3,4) by (intro exI [of _ "n + 1"] exI [of _ ns]) auto
  next
    case (Err e)
    then show ?thesis using o by (auto simp: Evm_Route_def Pair)
  next
    case (Panic e)
    then show ?thesis using o by simp
  qed
qed

fun route_many ::
    "(evm_client \<times> gotime \<times> wireint message) list \<Rightarrow> evm_config \<Rightarrow> evm_state \<Rightarrow> evm_state" where
  "route_many [] p s = s"
| "route_many ((cl, now, m) # rs) p s = route_many rs p (snd (Evm_Route cl p now m s))"

definition sent_nonces :: "(evm_call \<times> int \<times> u64) list \<Rightarrow> int list" where
  "sent_nonces sent = map (\<lambda>(c, n, g). n) sent"

lemma sent_nonces_simps [simp]:
  "sent_nonces [] = []" "sent_nonces ((c, n, g) # xs) = n # sent_nonces xs"
  "sent_nonces (xs @ ys) = sent_nonces xs @ sent_nonces ys"
  by (simp_all add: sent_nonces_def)

lemma route_many_nonces:
  assumes "tracking addr since n s"
    and "\<forall>(cl, now, m) \<in> set rs. now - since \<le> NonceUpdateInterval \<and> transacts cl"
  shows "\<exists>ns. es_sent (route_many rs p s) = es_sent s @ ns \<and> sorted_wrt (<) (sent_nonces ns) \<and>
    (\<forall>k \<in> set (sent_nonces ns). n < k \<and> k \<le> n + int (length rs))"
  using assms
proof (induction rs arbitrary: n s)
  case Nil
  then show ?case by simp
next
  case (Cons r rs)
  obtain cl now m where r: "r = (cl, now, m)" by (cases r)
  have a: "now - since \<le> NonceUpdateInterval" "transacts cl" using Cons.prems(2) by (simp_all add: r)
  let ?s1 = "snd (Evm_Route cl p now m s)"
  obtain k ns1 where 1: "n \<le> k" "k \<le> n + 1" "tracking addr since k ?s1" "es_sent ?s1 = es_sent s @ ns1"
    "ns1 = [] \<or> k = n + 1 \<and> (\<exists>call gas. ns1 = [(call, k, gas)])"
    using route_tracking [OF Cons.prems(1) a, of p m] by blast
  have "\<forall>(cl, now, m) \<in> set rs. now - since \<le> NonceUpdateInterval \<and> transacts cl" using Cons.prems(2) by simp
  from Cons.IH [OF 1(3) this] obtain ns2 where 2: "es_sent (route_many rs p ?s1) = es_sent ?s1 @ ns2"
    "sorted_wrt (<) (sent_nonces ns2)" "\<forall>j \<in> set (sent_nonces ns2). k < j \<and> j \<le> k + int (length rs)" by blast
  have "sorted_wrt (<) (sent_nonces (ns1 @ ns2))" using 1(5) 2(2,3) by auto
  moreover have "\<forall>j \<in> set (sent_nonces (ns1 @ ns2)). n < j \<and> j \<le> n + int (length (r # rs))"
    using 1(1,2,5) 2(3) by fastforce
  ultimately show ?case using 1(4) 2(1) by (intro exI [of _ "ns1 @ ns2"]) (simp add: r)
qed

text \<open>
  C16. Within three minutes of the tracker's last update no two messages are sent with the same
  nonce: while the node takes the transactions, the nonces of any number of routes, failing ones
  among them, go strictly up from the last one handed out, and by at most one per route.
\<close>
theorem nonces_strictly_increase:
  assumes "tracking addr since n s"
    and "\<forall>(cl, now, m) \<in> set rs. now - since \<le> NonceUpdateInterval \<and> transacts cl"
  shows "\<exists>ns. es_sent (route_many rs p s) = es_sent s @ ns \<and> sorted_wrt (<) (sent_nonces ns) \<and>
    (\<forall>k \<in> set (sent_nonces ns). n < k \<and> k \<le> n + int (length rs))"
  by (rule route_many_nonces [OF assms])

definition ex_tracked :: evm_state where
  "ex_tracked = snd (Evm_Wallet ex_client 100 ex_evm_state)"

lemma ex_tracked_tracking: "tracking ''0xaa'' 100 16 ex_tracked"
  by (simp add: tracking_def ex_tracked_def Evm_Wallet_def ex_evm_state_def ex_client_def big_new_def
      Nonce_Set_def NewNonceTracker_def tracker_ok_def)

theorem nonces_strictly_increase_witness:
  "sent_nonces (es_sent (route_many [(ex_client, 101, ex_evm_message),
     (ex_client\<lparr>cl_EstimateGas := (\<lambda>_. Inl ''reverted'')\<rparr>, 102, ex_evm_message),
     (ex_client, 103, ex_evm_message)] ex_evm_config ex_tracked)) = [17, 19] \<and> (17 :: int) < 19"
proof -
  let ?rs = "[(ex_client, 101, ex_evm_message),
     (ex_client\<lparr>cl_EstimateGas := (\<lambda>_. Inl ''reverted'')\<rparr>, 102, ex_evm_message),
     (ex_client, 103, ex_evm_message)] :: (evm_client \<times> gotime \<times> wireint message) list"
  have "\<forall>(cl, now, m) \<in> set ?rs. now - 100 \<le> NonceUpdateInterval \<and> transacts cl"
    by (simp add: NonceUpdateInterval_def transacts_def ex_client_def)
  note n = nonces_strictly_increase [OF ex_tracked_tracking this, of ex_evm_config]
  have e: "sent_nonces (es_sent (route_many ?rs ex_evm_config ex_tracked)) = [17, 19]" "es_sent ex_tracked = []"
    by code_simp+
  from n have "sorted_wrt (<) (sent_nonces (es_sent (route_many ?rs ex_evm_config ex_tracked)))" by (auto simp: e(2))
  then show ?thesis unfolding e(1) by simp
qed

section \<open>A gap in the nonces\<close>

lemma sent_grows:
  "fst (SendTransaction cl p now opts m s) = Ok h \<Longrightarrow> es_sent (snd (SendTransaction cl p now opts m s)) \<noteq> es_sent s"
  by (auto simp: SendTransaction_def Let_def split: sum.splits result.splits option.splits if_splits prod.splits)

lemma delivered_sent:
  assumes "fst (Evm_Route cl p now m s) = Ok (cbs, None)"
  shows "es_sent (snd (Evm_Route cl p now m s)) \<noteq> es_sent s"
proof (cases "GetTransationOpts cl now s")
  case (Pair r s2)
  have e: "es_sent s2 = es_sent s" using opts_es_sent [of cl now s] by (simp add: Pair)
  obtain opts where r: "r = Ok opts" using assms by (cases r) (auto simp: Evm_Route_def Pair)
  obtain r3 s3 where 3: "SendTransaction cl p now opts m s2 = (r3, s3)" by force
  obtain h where h: "r3 = Ok h" using assms by (cases r3) (auto simp: Evm_Route_def Pair r 3)
  have "snd (Evm_Route cl p now m s) = s3" by (simp add: Evm_Route_def Pair r 3 h)
  with sent_grows [of cl p now opts m s2 h] 3 h e show ?thesis by simp
qed

lemma Nonce_Get_no_Err: "Nonce_Get now g a n \<noteq> Err e"
  by (auto simp: Nonce_Get_def Let_def big_new_def split: option.splits sum.splits)

lemma estimate_fails:
  assumes "tracking addr since n s" "now - since \<le> NonceUpdateInterval"
    and "cl_NewTransactor cl = None" "cl_SuggestGasPrice cl = Inr price" "Evm_EstimateGas cl p addr m = Inl e"
  shows "fst (Evm_Route cl p now m s) = Ok ([], Some (''routing failed: failed to estimate gas: '' @ e)) \<and>
    tracking addr since (n + 1) (snd (Evm_Route cl p now m s)) \<and> es_sent (snd (Evm_Route cl p now m s)) = es_sent s"
proof (cases "GetTransationOpts cl now s")
  case (Pair r s1)
  note o = opts_tracking [OF assms(1,2), of cl, unfolded Pair, simplified]
  have "\<And>e. r \<noteq> Err e"
    using Pair assms by (auto simp: GetTransationOpts_def Evm_Wallet_def tracking_def Nonce_Get_no_Err split: result.splits)
  then obtain opts where r: "r = Ok opts" using o by (cases r) auto
  have o1: "es_sent s1 = es_sent s" "tracking addr since (n + 1) s1" using o by (simp_all add: r)
  then have "es_wallet s1 = Some addr" by (simp add: tracking_def)
  then have "SendTransaction cl p now opts m s1 = (Err (''failed to estimate gas: '' @ e), s1)"
    using assms(5) by (simp add: SendTransaction_def)
  then show ?thesis using o1 by (simp add: Evm_Route_def Pair r)
qed

text \<open>
  A route whose gas estimate fails has already taken a nonce, and nothing gives it back: the
  next message that is sent skips it, so until the tracker is set anew there is a nonce below its
  own that no transaction has.
\<close>
theorem failed_estimate_skips_nonce:
  assumes "tracking addr since n s" "now1 - since \<le> NonceUpdateInterval" "now2 - since \<le> NonceUpdateInterval"
    and "cl_NewTransactor cl1 = None" "cl_SuggestGasPrice cl1 = Inr price" "Evm_EstimateGas cl1 p addr m1 = Inl e"
    and "transacts cl2" "fst (Evm_Route cl2 p now2 m2 (snd (Evm_Route cl1 p now1 m1 s))) = Ok (cbs, None)"
  shows "\<exists>call gas. es_sent (route_many [(cl1, now1, m1), (cl2, now2, m2)] p s) = es_sent s @ [(call, n + 2, gas)]"
proof -
  let ?s1 = "snd (Evm_Route cl1 p now1 m1 s)"
  have s1: "tracking addr since (n + 1) ?s1" "es_sent ?s1 = es_sent s"
    using estimate_fails [OF assms(1,2,4,5,6)] by blast+
  obtain k ns where k: "n + 1 \<le> k" "k \<le> n + 1 + 1" "es_sent (snd (Evm_Route cl2 p now2 m2 ?s1)) = es_sent ?s1 @ ns"
    "ns = [] \<or> k = n + 1 + 1 \<and> (\<exists>call gas. ns = [(call, k, gas)])"
    using route_tracking [OF s1(1) assms(3,7)] by blast
  have "es_sent (snd (Evm_Route cl2 p now2 m2 ?s1)) \<noteq> es_sent ?s1" by (rule delivered_sent [OF assms(8)])
  then have "\<exists>call gas. ns = [(call, n + 2, gas)]" using k by auto
  then show ?thesis using k(3) s1(2) by auto
qed

theorem failed_estimate_skips_nonce_witness:
  "\<exists>call gas. es_sent (route_many [(ex_client\<lparr>cl_EstimateGas := (\<lambda>_. Inl ''reverted'')\<rparr>, 101, ex_evm_message),
     (ex_client, 102, ex_evm_message)] ex_evm_config ex_tracked) = es_sent ex_tracked @ [(call, 18, gas)]"
proof -
  let ?cl1 = "ex_client\<lparr>cl_EstimateGas := (\<lambda>_. Inl ''reverted'')\<rparr>"
  have a: "101 - 100 \<le> NonceUpdateInterval" "102 - 100 \<le> NonceUpdateInterval" by (simp_all add: NonceUpdateInterval_def)
  have c: "cl_NewTransactor ?cl1 = None" "cl_SuggestGasPrice ?cl1 = Inr 7"
    "Evm_EstimateGas ?cl1 ex_evm_config ''0xaa'' ex_evm_message = Inl ''reverted''" by code_simp+
  have t: "transacts ex_client" by (simp add: transacts_def ex_client_def)
  have "(case fst (Evm_Route ex_client ex_evm_config 102 ex_evm_message
      (snd (Evm_Route ?cl1 ex_evm_config 101 ex_evm_message ex_tracked))) of Ok (cbs, None) \<Rightarrow> True | _ \<Rightarrow> False)"
    by code_simp
  then obtain cbs where "fst (Evm_Route ex_client ex_evm_config 102 ex_evm_message
      (snd (Evm_Route ?cl1 ex_evm_config 101 ex_evm_message ex_tracked))) = Ok (cbs, None)"
    by (auto split: result.splits option.splits prod.splits)
  from failed_estimate_skips_nonce [OF ex_tracked_tracking a c t this] show ?thesis by simp
qed

end
