(* ===== verification/Evm_Listen.thy ===== *)
theory Evm_Listen
  imports Evm_Example
begin

text \<open>
  Properties of the EVM listener: where it starts, how it cuts the heights to synchronize into
  batches, how often it asks for the logs of a batch, and that together these deliver every message
  of the synchronized heights once and in order.
\<close>

section \<open>Cutting heights into batches\<close>

definition covers :: "(u64 \<times> u64) list \<Rightarrow> nat list" where
  "covers brs = concat (map (\<lambda>(a, b). [unat a..<Suc (unat b)]) brs)"

lemma covers_simps [simp]:
  "covers [] = []" "covers ((a, b) # brs) = [unat a..<Suc (unat b)] @ covers brs"
  by (simp_all add: covers_def)

lemma batch_end:
  fixes start latest batch :: u64
  assumes "0 < batch" "unat latest + unat batch < 2 ^ 64" "start \<le> latest"
  shows "unat (start + batch) = unat start + unat batch"
    "unat (min (start + batch - 1) latest) = min (unat start + unat batch - 1) (unat latest)"
    "start \<le> min (start + batch - 1) latest"
proof -
  have b: "0 < unat batch" using assms(1) by (simp add: word_less_nat_alt)
  have s: "unat start \<le> unat latest" using assms(3) by (simp add: word_le_nat_alt)
  have "unat start + unat batch < 2 ^ LENGTH(64)" using s assms(2) by simp
  then show 1: "unat (start + batch) = unat start + unat batch" by (rule unat_add_lem [THEN iffD1])
  have "1 \<le> start + batch" using 1 b by (simp add: word_le_nat_alt)
  then have 2: "unat (start + batch - 1) = unat start + unat batch - 1" using 1 by (simp add: unat_sub)
  show 3: "unat (min (start + batch - 1) latest) = min (unat start + unat batch - 1) (unat latest)"
    by (simp add: min_def word_le_nat_alt 2)
  show "start \<le> min (start + batch - 1) latest"
    using b s by (simp add: word_le_nat_alt 3)
qed

lemma upt_split_batch:
  assumes "a \<le> l" "0 < n"
  shows "[a..<Suc (min (a + n - 1) l)] @ [a + n..<Suc l] = [a..<Suc l]"
proof (cases "a + n \<le> Suc l")
  case True
  then have "Suc (min (a + n - 1) l) = a + n" using assms by simp
  moreover obtain k where "Suc l = a + n + k" using True le_Suc_ex by blast
  ultimately show ?thesis using upt_add_eq_append [of a "a + n" k] by simp
next
  case False
  then have "min (a + n - 1) l = l" "[a + n..<Suc l] = []" using assms by auto
  then show ?thesis by simp
qed

lemma block_reqs_covers:
  assumes "0 < batch" "unat latest + unat batch < 2 ^ 64"
  shows "\<exists>brs. block_reqs batch latest start = Some brs \<and> covers brs = [unat start..<Suc (unat latest)] \<and>
    list_all (\<lambda>(a, b). a \<le> b \<and> unat b - unat a < unat batch) brs"
proof (induction "Suc (unat latest) - unat start" arbitrary: start rule: less_induct)
  case less
  show ?case
  proof (cases "start \<le> latest")
    case True
    note e = batch_end [OF assms True]
    have b: "0 < unat batch" using assms(1) by (simp add: word_less_nat_alt)
    have "Suc (unat latest) - unat (start + batch) < Suc (unat latest) - unat start"
      using True b e(1) by (simp add: word_le_nat_alt)
    from less.hyps [OF this] obtain brs where brs: "block_reqs batch latest (start + batch) = Some brs"
      "covers brs = [unat (start + batch)..<Suc (unat latest)]"
      "list_all (\<lambda>(a, b). a \<le> b \<and> unat b - unat a < unat batch) brs" by blast
    have "block_reqs batch latest start = Some ((start, min (start + batch - 1) latest) # brs)"
      using True brs(1) by (subst block_reqs.simps) simp
    moreover have "covers ((start, min (start + batch - 1) latest) # brs) = [unat start..<Suc (unat latest)]"
      using upt_split_batch [of "unat start" "unat latest" "unat batch"] True b brs(2) e(1,2)
      by (simp add: word_le_nat_alt del: upt_Suc)
    moreover have "unat (min (start + batch - 1) latest) - unat start < unat batch"
      unfolding e(2) using b by (simp add: min_def) linarith
    ultimately show ?thesis using brs(3) e(3) by auto
  next
    case False
    then have "block_reqs batch latest start = Some []" by (subst block_reqs.simps) simp
    moreover have "[unat start..<Suc (unat latest)] = []" using False by (simp add: word_le_nat_alt)
    ultimately show ?thesis by simp
  qed
qed

section \<open>Asking for logs\<close>

definition failed :: "(nat \<Rightarrow> error + 'a) \<Rightarrow> nat \<Rightarrow> bool" where
  "failed query i = (case query i of Inl _ \<Rightarrow> True | Inr _ \<Rightarrow> False)"

lemma failed_simps [simp]:
  "query i = Inl e \<Longrightarrow> failed query i" "query i = Inr x \<Longrightarrow> \<not> failed query i"
  by (simp_all add: failed_def)

lemma getLogsRetry_loop_succeeds:
  assumes "query i = Inr logs" "i < MaxRetryCount" "n \<le> i" "\<And>j. n \<le> j \<Longrightarrow> j < i \<Longrightarrow> failed query j"
  shows "getLogsRetry_loop query n e = (Inr logs, map (retry_delay \<circ> Suc) [n..<i])"
  using assms(3,4)
proof (induction "i - n" arbitrary: n e)
  case 0
  then show ?case using assms by (simp add: getLogsRetry_loop.simps [of query n])
next
  case (Suc k)
  then have n: "n < i" by simp
  then obtain e' where "query n = Inl e'" using Suc.prems(2) [of n] by (auto simp: failed_def split: sum.splits)
  moreover have "getLogsRetry_loop query (Suc n) e' = (Inr logs, map (retry_delay \<circ> Suc) [Suc n..<i])"
    using Suc by (intro Suc.hyps) auto
  ultimately show ?case using n assms(2)
    by (simp add: getLogsRetry_loop.simps [of query n] upt_rec [of n i])
qed

lemma getLogsRetry_loop_fails:
  assumes "n \<le> MaxRetryCount" "\<And>j. n \<le> j \<Longrightarrow> j < MaxRetryCount \<Longrightarrow> failed query j"
  shows "getLogsRetry_loop query n e =
    (if n = MaxRetryCount then Inl e else query (MaxRetryCount - 1), map (retry_delay \<circ> Suc) [n..<MaxRetryCount])"
  using assms
proof (induction "MaxRetryCount - n" arbitrary: n e)
  case 0
  then have "n = MaxRetryCount" by simp
  then show ?case by (simp add: getLogsRetry_loop.simps [of query MaxRetryCount])
next
  case (Suc k)
  then have n: "n < MaxRetryCount" by simp
  then obtain e' where q: "query n = Inl e'" using Suc.prems(2) [of n] by (auto simp: failed_def split: sum.splits)
  have "getLogsRetry_loop query (Suc n) e' = (if Suc n = MaxRetryCount then Inl e' else query (MaxRetryCount - 1),
      map (retry_delay \<circ> Suc) [Suc n..<MaxRetryCount])"
    using Suc by (intro Suc.hyps) auto
  moreover have "(if Suc n = MaxRetryCount then Inl e' else query (MaxRetryCount - 1)) = query (MaxRetryCount - 1)"
  proof (cases "Suc n = MaxRetryCount")
    case True
    then have "MaxRetryCount - 1 = n" by simp
    with q show ?thesis by simp
  qed simp
  ultimately show ?case using n q
    by (simp add: getLogsRetry_loop.simps [of query n] upt_rec [of n MaxRetryCount])
qed

text \<open>
  A query is answered when one of its five attempts succeeds; \<open>answered\<close> also says with what.
\<close>

definition answered :: "(nat \<Rightarrow> error + 'a) \<Rightarrow> 'a \<Rightarrow> bool" where
  "answered query x = list_ex (\<lambda>i. query i = Inr x \<and> list_all (failed query) [0..<i]) [0..<MaxRetryCount]"

lemma getLogsRetry_answered:
  assumes "answered (cl_FilterLogs cl f) logs"
  shows "fst (getLogsRetry cl f) = Inr logs"
proof -
  obtain i where "i < MaxRetryCount" "cl_FilterLogs cl f i = Inr logs" "list_all (failed (cl_FilterLogs cl f)) [0..<i]"
    using assms by (auto simp: answered_def list_ex_iff)
  then show ?thesis
    using getLogsRetry_loop_succeeds [of "cl_FilterLogs cl f" i logs 0] by (simp add: getLogsRetry_def list_all_iff)
qed

section \<open>The messages of a range of heights\<close>

definition delivered :: "evm_client \<Rightarrow> evm_config \<Rightarrow> elog list \<Rightarrow> block_info list" where
  "delivered cl p logs = concat (map (\<lambda>log. case Evm_Subscribe_log cl p log of None \<Rightarrow> [] | Some b \<Rightarrow> [b]) logs)"

lemma delivered_append [simp]: "delivered cl p (xs @ ys) = delivered cl p xs @ delivered cl p ys"
  by (simp add: delivered_def)

lemma delivered_concat:
  "delivered cl p (concat (map f hs)) = concat (map (\<lambda>h. delivered cl p (f h)) hs)"
  by (induction hs) (simp_all add: delivered_def)

definition range_query :: "evm_client \<Rightarrow> evm_config \<Rightarrow> u64 \<Rightarrow> u64 \<Rightarrow> filter_query" where
  "range_query cl p a b = (Evm_GetMonitorEventFilters cl p)\<lparr>fq_FromBlock := Some a, fq_ToBlock := Some b\<rparr>"

lemma sync_batch_delivers:
  assumes "answered (cl_FilterLogs cl (range_query cl p a b)) logs"
  shows "sync_batch cl p (Evm_GetMonitorEventFilters cl p) (a, b) = delivered cl p logs"
proof -
  have "(\<lambda>log. case getRelayMessageFromLog cl p log of
      Ok message \<Rightarrow> [\<lparr>bi_height = lg_BlockNumber log, bi_messages = [message]\<rparr>] | _ \<Rightarrow> []) =
    (\<lambda>log. case Evm_Subscribe_log cl p log of None \<Rightarrow> [] | Some b \<Rightarrow> [b])"
    by (rule ext) (simp add: Evm_Subscribe_log_def split: result.splits)
  then show ?thesis
    using getLogsRetry_answered [OF assms] by (simp add: sync_batch_def range_query_def delivered_def)
qed

lemma sync_batches:
  assumes "\<And>a b. a \<le> b \<Longrightarrow>
      answered (cl_FilterLogs cl (range_query cl p a b)) (concat (map logs_at [unat a..<Suc (unat b)]))"
    and "list_all (\<lambda>(a, b). a \<le> b \<and> P a b) brs"
  shows "concat (map (sync_batch cl p (Evm_GetMonitorEventFilters cl p)) brs) =
    concat (map (\<lambda>h. delivered cl p (logs_at h)) (covers brs))"
  using assms(2)
  by (induction brs) (auto simp: sync_batch_delivers [OF assms(1)] delivered_concat simp del: upt_Suc)

text \<open>The batches of a pass, asked for one after another, deliver the messages of all its heights.\<close>

lemma pass_delivers:
  assumes "0 < batch" "unat latest + unat batch < 2 ^ 64"
    and "\<And>a b. a \<le> b \<Longrightarrow>
      answered (cl_FilterLogs cl (range_query cl p a b)) (concat (map logs_at [unat a..<Suc (unat b)]))"
  shows "map_option (\<lambda>brs. concat (map (sync_batch cl p (Evm_GetMonitorEventFilters cl p)) brs))
      (block_reqs batch latest start) =
    Some (concat (map (\<lambda>h. delivered cl p (logs_at h)) [unat start..<Suc (unat latest)]))"
proof -
  obtain brs where "block_reqs batch latest start = Some brs" "covers brs = [unat start..<Suc (unat latest)]"
    "list_all (\<lambda>(a, b). a \<le> b \<and> unat b - unat a < unat batch) brs"
    using block_reqs_covers [OF assms(1,2)] by blast
  then show ?thesis using sync_batches [OF assms(3)] by simp
qed

text \<open>
  C9. When the chain answers every range of heights within five attempts, one pass of the listener
  from a height \<open>start\<close> delivers the messages of all heights from \<open>start\<close> to the latest one, each
  log once, in the order of the chain, and as a subscription would deliver it: the batches leave no
  gap and do not overlap. The loop that cuts the batches ends.
\<close>
theorem listener_delivers_all:
  assumes "cl_GetBlockNumber cl = Inr latest" "start \<noteq> 0"
    and "0 < ec_BlockBatchSize p" "unat latest + unat (ec_BlockBatchSize p) < 2 ^ 64"
    and "\<And>a b. a \<le> b \<Longrightarrow>
      answered (cl_FilterLogs cl (range_query cl p a b)) (concat (map logs_at [unat a..<Suc (unat b)]))"
  shows "Evm_Listener_sync cl p start =
    Some (start, concat (map (\<lambda>h. delivered cl p (logs_at h)) [unat start..<Suc (unat latest)]))"
  using pass_delivers [OF assms(3-5), where start = start] assms(1,2) by (auto simp: Evm_Listener_sync_def)

lemma ex_client_answers:
  "answered (cl_FilterLogs ex_client (range_query ex_client p a b))
     (concat (map ex_logs_at [unat a..<Suc (unat b)]))"
proof -
  let ?q = "cl_FilterLogs ex_client (range_query ex_client p a b)"
  have "failed ?q 0" "?q 1 = Inr (concat (map ex_logs_at [unat a..<Suc (unat b)]))"
    by (simp_all add: ex_client_def ex_filter_def failed_def range_query_def)
  then show ?thesis by (auto simp: answered_def list_ex_iff MaxRetryCount_def intro!: bexI [of _ 1])
qed

theorem listener_delivers_all_witness:
  "map_option (\<lambda>(h, bs). (h, map (\<lambda>b. (bi_height b, map m_dst (bi_messages b))) bs))
     (Evm_Listener_sync ex_client ex_evm_config 3) = Some (3, [(57, [''icon''])])"
proof -
  have c: "cl_GetBlockNumber ex_client = Inr 120" "(3 :: u64) \<noteq> 0" "0 < ec_BlockBatchSize ex_evm_config"
    "unat (120 :: u64) + unat (ec_BlockBatchSize ex_evm_config) < 2 ^ 64"
    by (simp_all add: ex_client_def ex_evm_config_def)
  have "map (\<lambda>b. (bi_height b, map m_dst (bi_messages b)))
      (concat (map (\<lambda>h. delivered ex_client ex_evm_config (ex_logs_at h)) [unat (3::u64)..<Suc (unat (120::u64))])) =
    [(57, [''icon''])]" by code_simp
  with listener_delivers_all [OF c ex_client_answers] show ?thesis by simp
qed

section \<open>Where to start\<close>

text \<open>
  On a chain with at least as many blocks as it waits for finality, the listener starts at or
  before the latest final height. Without a configured start height it starts at or before the
  height it was saved at, so a restart leaves no height out; and it starts at the configured or
  the saved height whenever that is final.
\<close>
theorem listener_start:
  assumes "cl_GetBlockNumber cl = Inr latest" "cc_FinalityBlock (ec_common p) \<le> latest"
    and "Evm_startFromHeight cl p saved = Inr h"
  shows "unat h + unat (cc_FinalityBlock (ec_common p)) \<le> unat latest \<and>
    (cc_StartHeight (ec_common p) = 0 \<and> saved \<noteq> 0 \<longrightarrow> h \<le> saved) \<and>
    (cc_StartHeight (ec_common p) = 0 \<and> saved \<noteq> 0 \<and>
       unat saved + unat (cc_FinalityBlock (ec_common p)) < unat latest \<longrightarrow> h = saved)"
proof -
  let ?f = "cc_FinalityBlock (ec_common p)"
  have q: "unat (latest - ?f) = unat latest - unat ?f" using assms(2) by (simp add: unat_sub)
  have le: "unat ?f \<le> unat latest" using assms(2) by (simp add: word_le_nat_alt)
  have "h \<le> latest - ?f" using assms(1,3) by (auto simp: Evm_startFromHeight_def Let_def split: if_splits)
  then have "unat h + unat ?f \<le> unat latest" using q le by (simp add: word_le_nat_alt)
  moreover have "cc_StartHeight (ec_common p) = 0 \<and> saved \<noteq> 0 \<longrightarrow> h \<le> saved"
    using assms(1,3) by (auto simp: Evm_startFromHeight_def Let_def split: if_splits)
  moreover have "saved < latest - ?f" if "unat saved + unat ?f < unat latest"
    using that q by (simp add: word_less_nat_alt)
  then have "cc_StartHeight (ec_common p) = 0 \<and> saved \<noteq> 0 \<and> unat saved + unat ?f < unat latest \<longrightarrow> h = saved"
    using assms(1,3) by (auto simp: Evm_startFromHeight_def Let_def split: if_splits)
  ultimately show ?thesis by blast
qed

theorem listener_start_witness:
  "Evm_startFromHeight ex_client ex_evm_config 90 = Inr 90 \<and> unat (90 :: u64) + 10 \<le> 120"
proof -
  have c: "cl_GetBlockNumber ex_client = Inr 120" "cc_FinalityBlock (ec_common ex_evm_config) \<le> 120"
    by (simp_all add: ex_client_def ex_evm_config_def)
  have e: "Evm_startFromHeight ex_client ex_evm_config 90 = Inr 90" by code_simp
  from listener_start [OF c e] e show ?thesis by (simp add: ex_evm_config_def)
qed

end
