(* ===== verification/Icon_Types.thy ===== *)
theory Icon_Types
  imports Chain "HOL-Library.Signed_Division"
begin

text \<open>
  \<^verbatim>\<open>relayer/chains/icon/types/types.go\<close>: the hexadecimal text forms of the ICON JSON-RPC interface, with
  the round trips between them and the numbers and bytes they stand for.
\<close>

type_synonym hexint = string
type_synonym hexbytes = string
type_synonym address = string

section \<open>HexBytes\<close>

text \<open>The slice \<^verbatim>\<open>hs[2:]\<close> panics on a single byte; nil and empty bytes are the same here.\<close>

definition HexBytes_Value :: "hexbytes \<Rightarrow> bytes result" where
  "HexBytes_Value hs =
     (if hs = '''' then Ok ''''
      else if length hs < 2 then Panic ''slice bounds out of range''
      else hex_DecodeString (drop 2 hs))"

definition NewHexBytes :: "bytes \<Rightarrow> hexbytes" where
  "NewHexBytes b = ''0x'' @ hex_EncodeToString b"

section \<open>HexInt\<close>

definition HexInt_Value :: "hexint \<Rightarrow> int result" where
  "HexInt_Value i = ParseInt (TrimPrefix i ''0x'') 16 64"

definition HexInt_Int64 :: "hexint \<Rightarrow> int result" where
  "HexInt_Int64 i = ParseInt (TrimPrefix i ''0x'') 16 32"

definition HexInt_Int :: "hexint \<Rightarrow> int result" where
  "HexInt_Int i = HexInt_Int64 i"

definition decodeHexNumber :: "string \<Rightarrow> bool \<times> bytes result" where
  "decodeHexNumber s =
     (let negative = (s \<noteq> '''' \<and> hd s = CHR ''-'');
          s1 = (if negative then tl s else s);
          s2 = (if length s1 > 2 \<and> take 2 s1 = ''0x'' then drop 2 s1 else s1);
          s3 = (if length s2 mod 2 = 1 then CHR ''0'' # s2 else s2)
      in (negative, hex_DecodeString s3))"

definition ParseBigInt :: "string \<Rightarrow> int result" where
  "ParseBigInt s = (let (neg, bs) = decodeHexNumber s
     in rmap (\<lambda>b. if neg then - big_SetBytes b else big_SetBytes b) bs)"

definition HexInt_BigInt :: "hexint \<Rightarrow> int result" where
  "HexInt_BigInt i = ParseBigInt i"

definition NewHexInt :: "i64 \<Rightarrow> hexint" where
  "NewHexInt v = ''0x'' @ int_str 16 (sint v)"

definition NewHexString :: "string \<Rightarrow> hexint" where
  "NewHexString s = ''0x'' @ s"

section \<open>Address\<close>

definition Address_Value :: "address \<Rightarrow> bytes result" where
  "Address_Value a =
     (if length a < 2 then Panic ''slice bounds out of range''
      else let p = take 2 a; rest = drop 2 a in
        if p \<noteq> ''cx'' \<and> p \<noteq> ''hx'' then Err (''invalid prefix '' @ p)
        else if length rest div 2 > 20 then
          rbind (hex_DecodeString (take 42 rest)) (\<lambda>_. Panic ''index out of range'')
        else rbind (hex_DecodeString rest) (\<lambda>b.
          if length b \<noteq> 20 then Err (''invalid length '' @ int_str 10 (int (length b)))
          else Ok ((if p = ''cx'' then CHR 0x01 else CHR 0x00) # b)))"

definition NewAddress :: "bytes \<Rightarrow> address" where
  "NewAddress b =
     (if length b \<noteq> 21 then ''''
      else if hd b = CHR 0x01 then ''cx'' @ hex_EncodeToString (tl b)
      else if hd b = CHR 0x00 then ''hx'' @ hex_EncodeToString (tl b)
      else '''')"

section \<open>Round trips\<close>

lemma HexBytes_roundtrip [simp]: "HexBytes_Value (NewHexBytes b) = Ok b"
  by (simp add: HexBytes_Value_def NewHexBytes_def)

lemma HexInt_Value_New [simp]: "HexInt_Value (NewHexInt v) = Ok (sint v)"
proof -
  have t: "TrimPrefix (''0x'' @ int_str 16 (sint v)) ''0x'' = int_str 16 (sint v)" by (rule TrimPrefix_append)
  have r: "- (2 ^ 63) \<le> sint v" "sint v < 2 ^ 63"
    using sint_ge [of v] sint_lt [of v] by simp_all
  show ?thesis unfolding HexInt_Value_def NewHexInt_def t ParseInt_def using r by simp
qed

text \<open>An even number of hex digits decodes to the bytes of the number.\<close>

lemma hex_Decode_number:
  "even (length s) \<Longrightarrow> str_nat_aux 16 acc s = Some v \<Longrightarrow>
   \<exists>bs. hex_DecodeString s = Ok bs \<and> foldl (\<lambda>a c. 256 * a + of_char c) acc bs = v"
proof (induction s arbitrary: acc rule: hex_DecodeString.induct)
  case (3 a b cs)
  obtain x where x: "digit_val a = Some x" "x < 16" using "3.prems" by (auto split: option.splits if_splits)
  obtain y where y: "digit_val b = Some y" "y < 16" using "3.prems" x by (auto split: option.splits if_splits)
  have "str_nat_aux 16 (16 * (16 * acc + x) + y) cs = Some v" using "3.prems" x y by simp
  then have v: "str_nat_aux 16 (256 * acc + (16 * x + y)) cs = Some v" by (simp add: algebra_simps)
  have "even (length cs)" using "3.prems"(1) by simp
  from "3.IH" [OF x(1) y(1) this v] obtain bs where
    "hex_DecodeString cs = Ok bs" "foldl (\<lambda>a c. 256 * a + of_char c) (256 * acc + (16 * x + y)) bs = v" by blast
  moreover have "16 * x + y < 256" using x(2) y(2) by simp
  ultimately show ?case using x y by simp
qed auto

lemma hex_nat_str_head: "hd (nat_str 16 n) \<noteq> CHR ''x''"
  using nat_str_digits [of 16 "hd (nat_str 16 n)" n] by auto

lemma HexInt_BigInt_hex [simp]: "HexInt_BigInt (''0x'' @ nat_str 16 n) = Ok (int n)"
proof -
  let ?s = "nat_str 16 n"
  let ?p = "if length ?s mod 2 = 1 then CHR ''0'' # ?s else ?s"
  have v: "str_nat_aux 16 0 ?s = Some n" by (rule str_nat_aux_nat_str) simp_all
  have z: "digit_val (CHR ''0'') = Some 0" by code_simp
  have "even (length ?p)" "str_nat_aux 16 0 ?p = Some n" using v z by auto
  from hex_Decode_number [OF this] obtain bs where bs: "hex_DecodeString ?p = Ok bs"
    "foldl (\<lambda>a c. 256 * a + of_char c) 0 bs = n" by blast
  have "decodeHexNumber (''0x'' @ ?s) = (False, hex_DecodeString ?p)"
    by (simp add: decodeHexNumber_def Let_def)
  then show ?thesis using bs by (simp add: HexInt_BigInt_def ParseBigInt_def big_SetBytes_def)
qed

lemma HexInt_BigInt_New:
  assumes "0 \<le> sint v"
  shows "HexInt_BigInt (NewHexInt v) = Ok (sint v)"
  using assms HexInt_BigInt_hex [of "nat (sint v)"] by (simp add: NewHexInt_def int_str_def del: HexInt_BigInt_hex)

lemma Address_roundtrip:
  assumes "length b = 20" "c = CHR 0x00 \<or> c = CHR 0x01"
  shows "Address_Value (NewAddress (c # b)) = Ok (c # b)"
  using assms by (auto simp: NewAddress_def Address_Value_def Let_def)

end
