(* ===== verification/Icon.thy ===== *)
theory Icon
  imports Icon_Types
begin

text \<open>
  \<^verbatim>\<open>relayer/chains/icon\<close>: the provider for ICON chains, without its keystore and its websocket.

  The JSON-RPC node and the signing library are not part of the sources: \<open>icon_client\<close> is the record
  of their answers, and a query that is polled takes the number of the attempt.
\<close>

section \<open>Configuration\<close>

definition Icon_EmitMessage :: string where "Icon_EmitMessage = ''Message(str,int,bytes)''"
definition Icon_CallMessage :: string where "Icon_CallMessage = ''CallMessage(str,str,int,int,bytes)''"
definition Icon_RollbackMessage :: string where "Icon_RollbackMessage = ''RollbackMessage(int)''"

definition Icon_MethodRecvMessage :: string where "Icon_MethodRecvMessage = ''recvMessage''"
definition Icon_MethodGetReceipts :: string where "Icon_MethodGetReceipts = ''getReceipts''"
definition Icon_MethodSetAdmin :: string where "Icon_MethodSetAdmin = ''setAdmin''"
definition Icon_MethodRevertMessage :: string where "Icon_MethodRevertMessage = ''revertMessage''"
definition Icon_MethodGetFee :: string where "Icon_MethodGetFee = ''getFee''"
definition Icon_MethodSetFee :: string where "Icon_MethodSetFee = ''setFee''"
definition Icon_MethodClaimFees :: string where "Icon_MethodClaimFees = ''claimFees''"
definition Icon_MethodExecuteCall :: string where "Icon_MethodExecuteCall = ''executeCall''"
definition Icon_MethodExecuteRollback :: string where "Icon_MethodExecuteRollback = ''executeRollback''"

definition JsonrpcApiVersion :: i64 where "JsonrpcApiVersion = 3"

record icon_config =
  nc_common :: common_config
  nc_StepMin :: i64
  nc_StepLimit :: i64
  nc_StepAdjustment :: i64

definition Icon_Validate :: "icon_config \<Rightarrow> unit result" where
  "Icon_Validate c =
     (if cc_RPCUrl (nc_common c) = '''' then Err ''icon provider rpc endpoint is empty''
      else case ContractConfigMap_Validate (cc_Contracts (nc_common c)) of
          Err e \<Rightarrow> Err (''contracts are not valid: '' @ e) | r \<Rightarrow> r)"

definition Icon_sanitize :: "icon_config \<Rightarrow> icon_config" where
  "Icon_sanitize c = (if nc_StepAdjustment c = 0 then c\<lparr>nc_StepAdjustment := 50\<rparr> else c)"

text \<open>\<open>networkErr\<close> is the error of \<^verbatim>\<open>GetNetworkInfo\<close>.\<close>

definition Icon_NewProvider :: "error option \<Rightarrow> icon_config \<Rightarrow> string \<Rightarrow> string \<Rightarrow> icon_config result" where
  "Icon_NewProvider networkErr c homepath chainName = rbind (Icon_Validate c) (\<lambda>_.
     let c1 = Icon_sanitize c
     in case networkErr of
         Some e \<Rightarrow> Err (''failed to get network id: '' @ e)
       | None \<Rightarrow> Ok (c1\<lparr>nc_common := (nc_common c1)\<lparr>cc_ChainName := chainName, cc_HomeDir := homepath\<rparr>\<rparr>))"

definition Icon_NID :: "icon_config \<Rightarrow> string" where
  "Icon_NID p = cc_NID (nc_common p)"

definition Icon_contract :: "icon_config \<Rightarrow> string \<Rightarrow> address" where
  "Icon_contract p name = (case map_of (cc_Contracts (nc_common p)) name of None \<Rightarrow> '''' | Some a \<Rightarrow> a)"

section \<open>Data of the node\<close>

text \<open>
  \<open>icon_log\<close> is \<^verbatim>\<open>EventNotificationLog\<close> and \<^verbatim>\<open>EventLogStr\<close>, two structs with the same fields;
  \<open>raw_log\<close> is \<^verbatim>\<open>EventLog\<close>.
\<close>

record icon_log =
  il_Addr :: address
  il_Indexed :: "string list"
  il_Data :: "string list"

record raw_log =
  rl_Addr :: address
  rl_Indexed :: "bytes list"
  rl_Data :: "bytes list"

record event_notification =
  en_Hash :: hexbytes
  en_Height :: hexint
  en_Logs :: "icon_log list"
  en_Progress :: hexint

record icon_result =
  ir_EventLogs :: "icon_log list"
  ir_Status :: hexint
  ir_BlockHeight :: hexint
  ir_TxHash :: hexbytes

text \<open>The parameters of a call: the structs of \<^verbatim>\<open>types.go\<close>, a map, or nil.\<close>

datatype icon_params =
    RecvMessageParams string hexint hexbytes
  | ExecuteCallParams hexint hexbytes
  | ExecuteRollbackParams hexint
  | SetAdminParams string
  | RevertMessageParams hexint
  | SetFeeParams string hexint hexint
  | MapParams "(string \<times> string) list"
  | NilParams

record icon_message =
  im_Address :: address
  im_Params :: icon_params
  im_Method :: string

record tx_param =
  tp_Version :: hexint
  tp_FromAddress :: address
  tp_ToAddress :: address
  tp_NetworkID :: hexint
  tp_DataType :: string
  tp_Method :: string
  tp_Params :: icon_params
  tp_StepLimit :: hexint
  tp_TxHash :: hexbytes

record call_param =
  cp_FromAddress :: address
  cp_ToAddress :: address
  cp_DataType :: string
  cp_Method :: string
  cp_Params :: "(string \<times> string) list"

text \<open>
  The answer to \<^verbatim>\<open>icx_getTransactionResult\<close>: a result, a JSON-RPC error whose code says that the
  transaction is pending, unknown or executing, or another error.
\<close>

datatype icon_answer = Unfinished error | RpcError error | TxResult icon_result

datatype icon_tick = Cancelled error | Ticked icon_answer

record icon_client =
  ic_GetLastBlock :: "error + i64"
  ic_GetBlockByHeight :: "hexint \<Rightarrow> error + hexbytes list"
  ic_GetTransactionResult :: "hexbytes \<Rightarrow> nat \<Rightarrow> icon_tick"
  ic_EstimateStep :: "tx_param \<Rightarrow> error + hexint"
  ic_SignTransaction :: "tx_param \<Rightarrow> error + hexbytes"
  ic_SendTransaction :: "tx_param \<Rightarrow> error + hexbytes"
  ic_Call :: "call_param \<Rightarrow> error + hexint"
  ic_getBalance :: "address \<Rightarrow> error + hexint"
  ic_networkID :: hexint
  ic_RestoreKeystore :: "error + bytes"

section \<open>Events\<close>

fun icon_event_map :: "(string \<times> string) list \<Rightarrow> (string \<times> event_map) list \<Rightarrow> (string \<times> event_map) list" where
  "icon_event_map [] m = m"
| "icon_event_map ((contractName, addr) # rest) m =
     (let sig = (if contractName = XcallContract then
                   [(Icon_CallMessage, CallMessage), (Icon_RollbackMessage, RollbackMessage)]
                 else if contractName = ConnectionContract then [(Icon_EmitMessage, EmitMessage)] else [])
      in icon_event_map rest
           (AList.update addr \<lparr>em_address = addr, em_contract = contractName, em_sigtype = sig\<rparr> m))"

definition Icon_eventMap :: "icon_config \<Rightarrow> (string \<times> event_map) list" where
  "Icon_eventMap p = icon_event_map (cc_Contracts (nc_common p)) []"

fun icon_address_by_event :: "string \<Rightarrow> (string \<times> event_map) list \<Rightarrow> address" where
  "icon_address_by_event eventType [] = ''''"
| "icon_address_by_event eventType ((addr, contract) # rest) =
     (if list_ex (\<lambda>(sig, name). name = eventType) (em_sigtype contract) then em_address contract
      else icon_address_by_event eventType rest)"

definition Icon_GetAddressByEventType :: "icon_config \<Rightarrow> string \<Rightarrow> address" where
  "Icon_GetAddressByEventType p eventType = icon_address_by_event eventType (Icon_eventMap p)"

definition Icon_GetMonitorEventFilters :: "icon_config \<Rightarrow> (address \<times> string) list" where
  "Icon_GetMonitorEventFilters p =
     concat (map (\<lambda>(addr, contract). map (\<lambda>(sig, name). (addr, sig)) (em_sigtype contract)) (Icon_eventMap p))"

fun icon_event_name :: "string \<Rightarrow> (string \<times> event_map) list \<Rightarrow> string" where
  "icon_event_name sig [] = ''''"
| "icon_event_name sig ((addr, contract) # rest) =
     (case map_of (em_sigtype contract) sig of Some name \<Rightarrow> name | None \<Rightarrow> icon_event_name sig rest)"

definition Icon_GetEventName :: "icon_config \<Rightarrow> string \<Rightarrow> string" where
  "Icon_GetEventName p sig = icon_event_name sig (Icon_eventMap p)"

section \<open>Parsing event notifications\<close>

text \<open>
  The guards join their two conditions with \<^verbatim>\<open>&&\<close>: a log passes when one of the two lengths is the
  expected one, and the other is then read out of range.
\<close>

definition parseEmitMessageEvent :: "icon_config \<Rightarrow> u64 \<Rightarrow> icon_log \<Rightarrow> wireint message result" where
  "parseEmitMessageEvent p height e =
     (if length (il_Indexed e) \<noteq> 3 \<and> length (il_Data e) \<noteq> 1 then Err ''expected indexed: 3 & data: 1''
      else rbind (index (il_Indexed e) 1) (\<lambda>dst.
        rbind (index (il_Indexed e) 2) (\<lambda>i2.
        case HexInt_BigInt i2 of
          Panic x \<Rightarrow> Panic x
        | Err x \<Rightarrow> Err (''failed to parse sn: '' @ i2)
        | Ok sn \<Rightarrow>
        rbind (index (il_Data e) 0) (\<lambda>d0.
        case HexBytes_Value d0 of
          Panic x \<Rightarrow> Panic x
        | Err x \<Rightarrow> Err (''failed to parse data: '' @ d0)
        | Ok data \<Rightarrow>
        rbind (index (il_Indexed e) 0) (\<lambda>sig.
        Ok \<lparr>m_dst = dst, m_src = Icon_NID p, m_sn = Some sn, m_data = data, m_height = height,
          m_event = Icon_GetEventName p sig, m_reqid = None\<rparr>)))))"

definition parseCallMessageEvent :: "icon_config \<Rightarrow> u64 \<Rightarrow> icon_log \<Rightarrow> wireint message result" where
  "parseCallMessageEvent p height e =
     (if length (il_Indexed e) \<noteq> 4 \<and> length (il_Data e) \<noteq> 2 then Err ''expected indexed: 4 & data: 2''
      else rbind (index (il_Indexed e) 1) (\<lambda>i1.
        rbind (index (il_Indexed e) 3) (\<lambda>i3.
        case HexInt_BigInt i3 of
          Panic x \<Rightarrow> Panic x
        | Err x \<Rightarrow> rbind (index (il_Indexed e) 2) (\<lambda>i2. Err (''failed to parse sn: '' @ i2))
        | Ok sn \<Rightarrow>
        rbind (index (il_Data e) 0) (\<lambda>d0.
        case HexInt_BigInt d0 of
          Panic x \<Rightarrow> Panic x
        | Err x \<Rightarrow> Err (''failed to parse reqID: '' @ d0)
        | Ok reqID \<Rightarrow>
        rbind (index (il_Data e) 1) (\<lambda>d1.
        case HexBytes_Value d1 of
          Panic x \<Rightarrow> Panic x
        | Err x \<Rightarrow> Err (''failed to parse data: '' @ d1)
        | Ok data \<Rightarrow>
        rbind (index (il_Indexed e) 0) (\<lambda>sig.
        Ok \<lparr>m_dst = Icon_NID p, m_src = SplitN_fst i1 (CHR ''/''), m_sn = Some sn, m_data = data,
          m_height = height, m_event = Icon_GetEventName p sig, m_reqid = Some reqID\<rparr>))))))"

definition parseRollbackMessageEvent :: "icon_config \<Rightarrow> u64 \<Rightarrow> icon_log \<Rightarrow> wireint message result" where
  "parseRollbackMessageEvent p height e =
     (if length (il_Indexed e) \<noteq> 2 then Err ''expected indexed: 2''
      else rbind (index (il_Indexed e) 1) (\<lambda>i1.
        case HexInt_BigInt i1 of
          Panic x \<Rightarrow> Panic x
        | Err x \<Rightarrow> Err (''failed to parse sn: '' @ i1)
        | Ok sn \<Rightarrow>
        rbind (index (il_Indexed e) 0) (\<lambda>sig.
        Ok \<lparr>m_dst = Icon_NID p, m_src = Icon_NID p, m_sn = Some sn, m_data = '''', m_height = height,
          m_event = Icon_GetEventName p sig, m_reqid = None\<rparr>)))"

text \<open>One log: a message, or nothing when its signature is none of the three.\<close>

definition parse_log :: "icon_config \<Rightarrow> u64 \<Rightarrow> icon_log \<Rightarrow> wireint message list result" where
  "parse_log p height e = rbind (index (il_Indexed e) 0) (\<lambda>sig.
     if sig = Icon_EmitMessage then rmap (\<lambda>m. [m]) (parseEmitMessageEvent p height e)
     else if sig = Icon_CallMessage then rmap (\<lambda>m. [m]) (parseCallMessageEvent p height e)
     else if sig = Icon_RollbackMessage then rmap (\<lambda>m. [m]) (parseRollbackMessageEvent p height e)
     else Ok [])"

definition parseMessageEvent ::
    "icon_config \<Rightarrow> event_notification \<Rightarrow> wireint message list result" where
  "parseMessageEvent p n = rbind (HexInt_BigInt (en_Height n)) (\<lambda>height.
     rmap concat (rlist (parse_log p (big_Uint64 height)) (en_Logs n)))"

text \<open>The older parser of raw logs, which no handler calls.\<close>

definition parseEmitMessage :: "icon_config \<Rightarrow> raw_log \<Rightarrow> string \<Rightarrow> u64 \<Rightarrow> wireint message result" where
  "parseEmitMessage p e eventType height =
     (if length (rl_Indexed e) \<noteq> 3 \<and> length (rl_Data e) \<noteq> 1 then Err ''expected indexed: 3 & data: 1''
      else rbind (index (rl_Indexed e) 1) (\<lambda>dst. rbind (index (rl_Indexed e) 2) (\<lambda>i2.
        rbind (index (rl_Data e) 0) (\<lambda>d0.
        Ok \<lparr>m_dst = dst, m_src = Icon_NID p, m_sn = Some (big_SetBytes i2), m_data = d0,
          m_height = height, m_event = eventType, m_reqid = None\<rparr>))))"

definition parseCallMessage :: "icon_config \<Rightarrow> raw_log \<Rightarrow> string \<Rightarrow> u64 \<Rightarrow> wireint message result" where
  "parseCallMessage p e eventType height =
     (if length (rl_Indexed e) \<noteq> 4 \<and> length (rl_Data e) \<noteq> 2 then Err ''expected indexed: 4 & data: 2''
      else rbind (index (rl_Indexed e) 1) (\<lambda>i1. rbind (index (rl_Indexed e) 2) (\<lambda>i2.
        rbind (index (rl_Data e) 0) (\<lambda>d0. rbind (index (rl_Data e) 1) (\<lambda>d1.
        Ok \<lparr>m_dst = Icon_NID p, m_src = SplitN_fst i1 (CHR ''/''), m_sn = Some (big_SetBytes i2),
          m_data = d1, m_height = height, m_event = eventType, m_reqid = Some (big_SetBytes d0)\<rparr>)))))"

definition parseMessageFromEvent ::
    "icon_config \<Rightarrow> raw_log \<Rightarrow> u64 \<Rightarrow> wireint message option result" where
  "parseMessageFromEvent p event height = rbind (index (rl_Indexed event) 0) (\<lambda>eventName.
     let eventType = Icon_GetEventName p eventName;
         message = (\<lambda>r. case r of Ok m \<Rightarrow> Ok (Some m) | Err e \<Rightarrow> Ok None | Panic e \<Rightarrow> Panic e) in
     if eventName = Icon_EmitMessage then message (parseEmitMessage p event eventType height)
     else if eventName = Icon_CallMessage then message (parseCallMessage p event eventType height)
     else Ok None)"

definition parseMessagesFromEventlogs ::
    "icon_config \<Rightarrow> raw_log list \<Rightarrow> u64 \<Rightarrow> wireint message list result" where
  "parseMessagesFromEventlogs p eventlogs height =
     rmap (\<lambda>ms. concat (map (\<lambda>m. case m of None \<Rightarrow> [] | Some x \<Rightarrow> [x]) ms))
       (rlist (\<lambda>el. parseMessageFromEvent p el height) eventlogs)"

section \<open>Listening\<close>

definition Icon_QueryLatestHeight :: "icon_client \<Rightarrow> error + u64" where
  "Icon_QueryLatestHeight cl = ic_GetLastBlock cl"

text \<open>The heights are returned as \<^verbatim>\<open>int64\<close>, which keeps the bits.\<close>

definition Icon_StartFromHeight :: "icon_client \<Rightarrow> icon_config \<Rightarrow> u64 \<Rightarrow> error + i64" where
  "Icon_StartFromHeight cl p lastSavedHeight =
     (case Icon_QueryLatestHeight cl of
        Inl e \<Rightarrow> Inl e
      | Inr latestHeight \<Rightarrow>
         let startHeight = cc_StartHeight (nc_common p)
         in if startHeight \<noteq> 0 \<and> startHeight < latestHeight then Inr startHeight
            else if lastSavedHeight \<noteq> 0 \<and> lastSavedHeight < latestHeight then Inr lastSavedHeight
            else Inr latestHeight)"

text \<open>
  The callback of \<^verbatim>\<open>MonitorEvent\<close>: the height of the request, from which a reconnect resumes, and the
  blocks sent to the relayer. Its error is only logged.
\<close>

definition icon_on_event ::
    "icon_config \<Rightarrow> event_notification \<Rightarrow> hexint \<Rightarrow> (hexint \<times> block_info list) result" where
  "icon_on_event p v reqHeight =
     (if en_Progress v \<noteq> '''' then
        (case HexInt_Value (en_Progress v) of
           Panic e \<Rightarrow> Panic e
         | Err e \<Rightarrow> Ok (reqHeight, [])
         | Ok height \<Rightarrow> Ok (if height > 0 then NewHexInt (word_of_int height) else reqHeight, []))
      else (case parseMessageEvent p v of
           Panic e \<Rightarrow> Panic e
         | Err e \<Rightarrow> Ok (reqHeight, [])
         | Ok msgs \<Rightarrow> Ok (reqHeight, map (\<lambda>m. \<lparr>bi_height = m_height m, bi_messages = [m]\<rparr>) msgs)))"

fun icon_on_events ::
    "icon_config \<Rightarrow> event_notification list \<Rightarrow> hexint \<Rightarrow> (hexint \<times> block_info list) result" where
  "icon_on_events p [] reqHeight = Ok (reqHeight, [])"
| "icon_on_events p (v # vs) reqHeight = rbind (icon_on_event p v reqHeight) (\<lambda>(h1, bs1).
     rmap (\<lambda>(h2, bs2). (h2, bs1 @ bs2)) (icon_on_events p vs h1))"

text \<open>The request \<^verbatim>\<open>Listener\<close> starts with: height, filters, and the notifications it then gets.\<close>

definition Icon_Listener ::
    "icon_client \<Rightarrow> icon_config \<Rightarrow> u64 \<Rightarrow> event_notification list \<Rightarrow> (hexint \<times> block_info list) result" where
  "Icon_Listener cl p lastSavedHeight vs =
     (case Icon_StartFromHeight cl p lastSavedHeight of
        Inl e \<Rightarrow> Err (''failed to calculate start height: '' @ e)
      | Inr processedheight \<Rightarrow> icon_on_events p vs (NewHexInt processedheight))"

section \<open>Queries\<close>

definition prepareCallParams ::
    "icon_config \<Rightarrow> string \<Rightarrow> address \<Rightarrow> (string \<times> string) list \<Rightarrow> call_param" where
  "prepareCallParams p methodName addr param =
     \<lparr>cp_FromAddress = cc_Address (nc_common p), cp_ToAddress = addr, cp_DataType = ''call'',
      cp_Method = methodName, cp_Params = param\<rparr>"

definition Icon_ShouldReceiveMessage :: "wireint message \<Rightarrow> error + bool" where
  "Icon_ShouldReceiveMessage m = Inr True"

definition Icon_ShouldSendMessage :: "wireint message \<Rightarrow> error + bool" where
  "Icon_ShouldSendMessage m = Inr True"

definition Icon_Client_GetBalance :: "icon_client \<Rightarrow> address \<Rightarrow> int result" where
  "Icon_Client_GetBalance cl addr = (case ic_getBalance cl addr of
      Inl e \<Rightarrow> Err e | Inr result \<Rightarrow> HexInt_BigInt result)"

definition Icon_QueryBalance :: "icon_client \<Rightarrow> address \<Rightarrow> coin result" where
  "Icon_QueryBalance cl addr = rmap (\<lambda>balance. NewCoin ''ICX'' (big_Uint64 balance)) (Icon_Client_GetBalance cl addr)"

text \<open>One event log of a transaction result; \<open>[]\<close> where the loop continues without a message.\<close>

definition generate_from_log ::
    "icon_config \<Rightarrow> wireint message_key \<Rightarrow> hexint \<Rightarrow> icon_log \<Rightarrow> wireint message list result" where
  "generate_from_log p key blockHeight el = rbind (index (il_Indexed el) 0) (\<lambda>sig.
     case HexInt_BigInt blockHeight of
       Panic e \<Rightarrow> Panic e
     | Err e \<Rightarrow> Err (''GenerateMessage: bigIntConversion '' @ e)
     | Ok height \<Rightarrow>
        if sig = Icon_EmitMessage then
          (if il_Addr el \<noteq> Icon_contract p ConnectionContract \<or> length (il_Indexed el) \<noteq> 3 \<or> length (il_Data el) \<noteq> 1
           then Ok []
           else case HexInt_BigInt (il_Indexed el ! 2) of
               Panic e \<Rightarrow> Panic e
             | Err e \<Rightarrow> Ok []
             | Ok sn \<Rightarrow>
                (case HexBytes_Value (il_Data el ! 0) of
                   Panic e \<Rightarrow> Panic e
                 | Err e \<Rightarrow> Ok []
                 | Ok data \<Rightarrow> Ok [\<lparr>m_dst = il_Indexed el ! 1, m_src = k_src key, m_sn = Some sn, m_data = data,
                     m_height = big_Uint64 height, m_event = Icon_GetEventName p sig, m_reqid = None\<rparr>]))
        else if sig = Icon_CallMessage then
          (if il_Addr el \<noteq> Icon_contract p XcallContract \<or> length (il_Indexed el) \<noteq> 4 \<or> length (il_Data el) \<noteq> 2
           then Ok []
           else case HexInt_BigInt (il_Indexed el ! 3) of
               Panic e \<Rightarrow> Panic e
             | Err e \<Rightarrow> Err (''failed to parse sn: '' @ il_Indexed el ! 2)
             | Ok sn \<Rightarrow>
                (case HexInt_BigInt (il_Data el ! 0) of
                   Panic e \<Rightarrow> Panic e
                 | Err e \<Rightarrow> Err (''failed to parse reqID: '' @ il_Data el ! 0)
                 | Ok requestID \<Rightarrow>
                    (case HexBytes_Value (il_Data el ! 1) of
                       Panic e \<Rightarrow> Panic e
                     | Err e \<Rightarrow> Ok []
                     | Ok data \<Rightarrow> Ok [\<lparr>m_dst = Icon_NID p, m_src = SplitN_fst (il_Indexed el ! 1) (CHR ''/''),
                         m_sn = Some sn, m_data = data, m_height = big_Uint64 height,
                         m_event = Icon_GetEventName p sig, m_reqid = Some requestID\<rparr>])))
        else if sig = Icon_RollbackMessage then
          (if il_Addr el \<noteq> Icon_contract p XcallContract \<or> length (il_Indexed el) \<noteq> 2 then Ok []
           else case HexInt_BigInt (il_Indexed el ! 1) of
               Panic e \<Rightarrow> Panic e
             | Err e \<Rightarrow> Err (''failed to parse sn: '' @ il_Indexed el ! 1)
             | Ok sn \<Rightarrow> Ok [\<lparr>m_dst = Icon_NID p, m_src = Icon_NID p, m_sn = Some sn, m_data = '''',
                 m_height = big_Uint64 height, m_event = Icon_GetEventName p sig, m_reqid = None\<rparr>])
        else Ok [])"

definition icon_tx_result :: "icon_client \<Rightarrow> hexbytes \<Rightarrow> nat \<Rightarrow> error + icon_result" where
  "icon_tx_result cl hash attempt = (case ic_GetTransactionResult cl hash attempt of
      Ticked (TxResult r) \<Rightarrow> Inr r | Ticked (Unfinished e) \<Rightarrow> Inl e | Ticked (RpcError e) \<Rightarrow> Inl e
    | Cancelled e \<Rightarrow> Inl e)"

definition generate_from_tx ::
    "icon_client \<Rightarrow> icon_config \<Rightarrow> wireint message_key \<Rightarrow> hexbytes \<Rightarrow> wireint message list result" where
  "generate_from_tx cl p key hash = (case icon_tx_result cl hash 0 of
      Inl e \<Rightarrow> Err (''GenerateMessage:GetTransactionResult '' @ e)
    | Inr txResult \<Rightarrow> rmap concat (rlist (generate_from_log p key (ir_BlockHeight txResult)) (ir_EventLogs txResult)))"

definition Icon_GenerateMessages ::
    "icon_client \<Rightarrow> icon_config \<Rightarrow> (wireint message_key \<times> u64) option \<Rightarrow> wireint message list result" where
  "Icon_GenerateMessages cl p k = (case k of
      None \<Rightarrow> Err ''GenerateMessage: message key cannot be nil''
    | Some (key, height) \<Rightarrow>
       (case ic_GetBlockByHeight cl (NewHexInt height) of
          Inl e \<Rightarrow> Err (''GenerateMessage:GetBlockByHeight '' @ e)
        | Inr hashes \<Rightarrow> rbind (rlist (generate_from_tx cl p key) hashes) (\<lambda>mss.
            if concat mss = [] then Err ''GenerateMessage: no messages found'' else Ok (concat mss))))"

definition Icon_QueryTransactionReceipt :: "icon_client \<Rightarrow> string \<Rightarrow> receipt result" where
  "Icon_QueryTransactionReceipt cl txHash = (case icon_tx_result cl txHash 0 of
      Inl e \<Rightarrow> Err (''QueryTransactionReceipt: GetTransactionResult: '' @ e)
    | Inr res \<Rightarrow>
       (case HexInt_BigInt (ir_BlockHeight res) of
          Panic e \<Rightarrow> Panic e
        | Err e \<Rightarrow> Err (''QueryTransactionReceipt: bigIntConversion '' @ e)
        | Ok height \<Rightarrow>
           (case HexInt_Int (ir_Status res) of
              Panic e \<Rightarrow> Panic e
            | Err e \<Rightarrow> Err (''QueryTransactionReceipt: bigIntConversion '' @ e)
            | Ok status \<Rightarrow> Ok \<lparr>rc_txhash = txHash, rc_height = big_Uint64 height, rc_status = (status = 1)\<rparr>)))"

text \<open>
  \<^verbatim>\<open>MessageReceived\<close> returns \<^verbatim>\<open>status == types.NewHexInt(1), p.client.Call(callParam, &status)\<close>. Go does
  not say whether \<^verbatim>\<open>status\<close> is read before or after the call writes it; \<open>late\<close> is the compiler's choice.
\<close>

definition Icon_MessageReceived ::
    "bool \<Rightarrow> icon_client \<Rightarrow> icon_config \<Rightarrow> wireint message_key \<Rightarrow> (bool \<times> error option) result" where
  "Icon_MessageReceived late cl p key =
     (if k_event key = EmitMessage then
        rbind (ptr_Int64 (k_sn key)) (\<lambda>sn.
          let callParam = prepareCallParams p Icon_MethodGetReceipts (Icon_contract p ConnectionContract)
                [(''srcNetwork'', k_src key), (''_connSn'', NewHexInt sn)]
          in case ic_Call cl callParam of
              Inl e \<Rightarrow> Ok ('''' = NewHexInt 1, Some e)
            | Inr status \<Rightarrow> Ok ((if late then status else '''') = NewHexInt 1, None))
      else if k_event key = CallMessage then Ok (False, None)
      else if k_event key = RollbackMessage then Ok (False, None)
      else Ok (True, Some ''unknown event type''))"

text \<open>\<^verbatim>\<open>GetFee\<close> does not look at \<open>responseFee\<close>.\<close>

definition Icon_GetFee :: "icon_client \<Rightarrow> icon_config \<Rightarrow> string \<Rightarrow> bool \<Rightarrow> u64 result" where
  "Icon_GetFee cl p networkID responseFee =
     (let callParam = prepareCallParams p Icon_MethodGetFee (Icon_contract p ConnectionContract)
            [(''to'', networkID), (''response'', NewHexInt 1)]
      in case ic_Call cl callParam of
          Inl e \<Rightarrow> Err (''GetFee: '' @ e)
        | Inr status \<Rightarrow>
           (case HexInt_BigInt status of
              Panic e \<Rightarrow> Panic e | Err e \<Rightarrow> Err (''GetFee: '' @ e) | Ok fee \<Rightarrow> Ok (big_Uint64 fee)))"

section \<open>Routing\<close>

record icon_state =
  is_wallet :: "bytes option"
  is_sent :: "tx_param list"

definition Icon_Wallet :: "icon_client \<Rightarrow> icon_state \<Rightarrow> bytes result \<times> icon_state" where
  "Icon_Wallet cl s = (case is_wallet s of
      Some w \<Rightarrow> (Ok w, s)
    | None \<Rightarrow> (case ic_RestoreKeystore cl of
        Inl e \<Rightarrow> (Err e, s) | Inr w \<Rightarrow> (Ok w, s\<lparr>is_wallet := Some w\<rparr>)))"

definition NewIconMessage :: "address \<Rightarrow> icon_params \<Rightarrow> string \<Rightarrow> icon_message" where
  "NewIconMessage addr msg meth = \<lparr>im_Address = addr, im_Params = msg, im_Method = meth\<rparr>"

definition MakeIconMessage :: "icon_config \<Rightarrow> wireint message \<Rightarrow> icon_message result" where
  "MakeIconMessage p message =
     (let new = NewIconMessage (Icon_GetAddressByEventType p (m_event message)) in
      if m_event message = EmitMessage then
        rmap (\<lambda>sn. new (RecvMessageParams (m_src message) (NewHexInt sn) (NewHexBytes (m_data message))) Icon_MethodRecvMessage)
          (ptr_Int64 (m_sn message))
      else if m_event message = CallMessage then
        rmap (\<lambda>reqID. new (ExecuteCallParams (NewHexInt reqID) (NewHexBytes (m_data message))) Icon_MethodExecuteCall)
          (ptr_Int64 (m_reqid message))
      else if m_event message = RollbackMessage then
        rmap (\<lambda>sn. new (ExecuteRollbackParams (NewHexInt sn)) Icon_MethodExecuteRollback) (ptr_Int64 (m_sn message))
      else if m_event message = SetAdmin then Ok (new (SetAdminParams (m_src message)) Icon_MethodSetAdmin)
      else if m_event message = RevertMessage then
        rmap (\<lambda>sn. new (RevertMessageParams (NewHexInt sn)) Icon_MethodRevertMessage) (ptr_Int64 (m_sn message))
      else if m_event message = ClaimFee then Ok (new NilParams Icon_MethodClaimFees)
      else if m_event message = SetFee then
        rbind (ptr_Int64 (m_sn message)) (\<lambda>msgFee. rmap (\<lambda>resFee.
          new (SetFeeParams (m_src message) (NewHexInt msgFee) (NewHexInt resFee)) Icon_MethodSetFee)
          (ptr_Int64 (m_reqid message)))
      else Err (''can't generate message for unknown event type: '' @ m_event message @ '' ''))"

text \<open>\<^verbatim>\<open>steps += steps * StepAdjustment / 100\<close> on \<^verbatim>\<open>int64\<close>, whose division truncates towards zero.\<close>

definition adjust_steps :: "i64 \<Rightarrow> i64 \<Rightarrow> i64" where
  "adjust_steps steps adjustment = steps + word_of_int (sint (steps * adjustment) sdiv 100)"

definition Icon_SendTransaction ::
    "icon_client \<Rightarrow> icon_config \<Rightarrow> icon_message \<Rightarrow> icon_state \<Rightarrow> bytes result \<times> icon_state" where
  "Icon_SendTransaction cl p msg s =
     (case Icon_Wallet cl s of
        (Err e, s1) \<Rightarrow> (Err e, s1)
      | (Panic e, s1) \<Rightarrow> (Panic e, s1)
      | (Ok wallet, s1) \<Rightarrow>
         let txParam = \<lparr>tp_Version = NewHexInt JsonrpcApiVersion, tp_FromAddress = NewAddress wallet,
               tp_ToAddress = im_Address msg, tp_NetworkID = ic_networkID cl, tp_DataType = ''call'',
               tp_Method = im_Method msg, tp_Params = im_Params msg, tp_StepLimit = '''', tp_TxHash = ''''\<rparr>
         in case ic_EstimateStep cl txParam of
             Inl e \<Rightarrow> (Err (''failed estimating step: '' @ e), s1)
           | Inr step \<Rightarrow>
              (case HexInt_Int64 step of
                 Err e \<Rightarrow> (Err e, s1)
               | Panic e \<Rightarrow> (Panic e, s1)
               | Ok i \<Rightarrow>
                  let steps = word_of_int i :: i64 in
                  if sint steps > sint (nc_StepLimit p) then (Err (''step limit is too high: '' @ int_str 10 i), s1)
                  else if sint steps < sint (nc_StepMin p) then (Err (''step limit is too low: '' @ int_str 10 i), s1)
                  else
                    let tx = txParam\<lparr>tp_StepLimit := NewHexInt (adjust_steps steps (nc_StepAdjustment p))\<rparr> in
                    (case ic_SignTransaction cl tx of
                       Inl e \<Rightarrow> (Err e, s1)
                     | Inr hash \<Rightarrow>
                        let tx1 = tx\<lparr>tp_TxHash := hash\<rparr>;
                            s2 = s1\<lparr>is_sent := is_sent s1 @ [tx1]\<rparr>
                        in case ic_SendTransaction cl tx1 of
                            Inl e \<Rightarrow> (Err e, s2)
                          | Inr _ \<Rightarrow> (HexBytes_Value hash, s2))))"

text \<open>\<^verbatim>\<open>WaitForResults\<close> of the client: at most \<^verbatim>\<open>MaxTxRetry\<close> polls.\<close>

function Icon_WaitForResults_loop :: "(nat \<Rightarrow> icon_tick) \<Rightarrow> hexbytes \<Rightarrow> nat \<Rightarrow> icon_result result" where
  "Icon_WaitForResults_loop query hash retryCounter =
     (case query retryCounter of
        Cancelled e \<Rightarrow> Err e
      | Ticked answer \<Rightarrow>
         if retryCounter \<ge> unat MaxTxRetry then Err (''max retry reached for tx '' @ hash)
         else (case answer of
             Unfinished e \<Rightarrow> Icon_WaitForResults_loop query hash (retryCounter + 1)
           | RpcError e \<Rightarrow> Err e
           | TxResult r \<Rightarrow> Ok r))"
  by pat_completeness auto
termination by (relation "measure (\<lambda>(q, h, c). unat MaxTxRetry - c)") auto

declare Icon_WaitForResults_loop.simps [simp del]

definition Icon_WaitForResults :: "icon_client \<Rightarrow> hexbytes \<Rightarrow> icon_result result" where
  "Icon_WaitForResults cl hash = Icon_WaitForResults_loop (ic_GetTransactionResult cl hash) hash 0"

text \<open>The number \<^verbatim>\<open>strconv.ParseInt\<close> returns beside an error: zero, or the nearest bound.\<close>

definition ParseInt_number :: "string \<Rightarrow> nat \<Rightarrow> nat \<Rightarrow> int" where
  "ParseInt_number s b bits = (case str_int b s of
      None \<Rightarrow> 0 | Some i \<Rightarrow> max (- (2 ^ (bits - 1))) (min (2 ^ (bits - 1) - 1) i))"

text \<open>
  \<^verbatim>\<open>WaitForTxResult\<close>: the callbacks made and the error returned. A height that does not parse is
  reported as a failure, and then the status is reported as well.
\<close>

type_synonym icon_callbacks = "(wireint message_key \<times> tx_response \<times> error option) list"

definition Icon_WaitForTxResult ::
    "icon_client \<Rightarrow> bytes \<Rightarrow> wireint message_key \<Rightarrow> (icon_callbacks \<times> error option) result" where
  "Icon_WaitForTxResult cl txHash messageKey =
     (let txhash = NewHexBytes txHash;
          res = \<lparr>tr_height = 0, tr_txhash = txhash, tr_codespace = '''', tr_code = Failed, tr_data = ''''\<rparr>
      in case Icon_WaitForResults cl txhash of
          Panic e \<Rightarrow> Panic e
        | Err e \<Rightarrow> Ok ([(messageKey, res, Some e)], Some e)
        | Ok txRes \<Rightarrow>
           let cbs = (case HexInt_Value (ir_BlockHeight txRes) of
                 Err e \<Rightarrow> [(messageKey, res, Some e)] | _ \<Rightarrow> []);
               res1 = res\<lparr>tr_height := word_of_int (ParseInt_number (TrimPrefix (ir_BlockHeight txRes) ''0x'') 16 64)\<rparr>
           in case HexInt_Int (ir_Status txRes) of
               Panic e \<Rightarrow> Panic e
             | Err e \<Rightarrow> Ok (cbs @ [(messageKey, res1, Some (''error: '' @ e))], Some (''error: '' @ e))
             | Ok status \<Rightarrow>
                if status \<noteq> 1 then
                  Ok (cbs @ [(messageKey, res1, Some ''error: %!s(<nil>)'')], Some ''error: %!s(<nil>)'')
                else Ok (cbs @ [(messageKey, res1\<lparr>tr_code := Success\<rparr>, None)], None))"

definition Icon_Route ::
    "icon_client \<Rightarrow> icon_config \<Rightarrow> wireint message \<Rightarrow> icon_state
     \<Rightarrow> (icon_callbacks \<times> error option) result \<times> icon_state" where
  "Icon_Route cl p message s =
     (case MakeIconMessage p message of
        Panic e \<Rightarrow> (Panic e, s)
      | Err e \<Rightarrow> (Ok ([], Some e), s)
      | Ok iconMessage \<Rightarrow>
         (case Icon_SendTransaction cl p iconMessage s of
            (Panic e, s1) \<Rightarrow> (Panic e, s1)
          | (Err e, s1) \<Rightarrow> (Ok ([], Some (''error occured while sending transaction: '' @ e)), s1)
          | (Ok txhash, s1) \<Rightarrow> (Icon_WaitForTxResult cl txhash (MessageKey message), s1)))"

section \<open>Administration\<close>

text \<open>Send, wait for the transaction under its hash in the form \<open>hexed\<close> gives it, and compare the status.\<close>

definition icon_admin_call ::
    "icon_client \<Rightarrow> icon_config \<Rightarrow> (bytes \<Rightarrow> hexbytes) \<Rightarrow> icon_message \<Rightarrow> string \<Rightarrow> string \<Rightarrow> string \<Rightarrow> icon_state
     \<Rightarrow> unit result \<times> icon_state" where
  "icon_admin_call cl p hexed message sendErr waitErr statusErr s =
     (case Icon_SendTransaction cl p message s of
        (Panic e, s1) \<Rightarrow> (Panic e, s1)
      | (Err e, s1) \<Rightarrow> (Err (sendErr @ e), s1)
      | (Ok txHash, s1) \<Rightarrow>
         (case Icon_WaitForResults cl (hexed txHash) of
            Panic e \<Rightarrow> (Panic e, s1)
          | Err e \<Rightarrow> (Err (waitErr @ e), s1)
          | Ok txr \<Rightarrow> (if ir_Status txr \<noteq> NewHexInt 1 then Err (statusErr @ ir_TxHash txr) else Ok (), s1)))"

definition Icon_RevertMessage ::
    "icon_client \<Rightarrow> icon_config \<Rightarrow> wireint \<Rightarrow> icon_state \<Rightarrow> unit result \<times> icon_state" where
  "Icon_RevertMessage cl p sn s = (case ptr_Int64 sn of
      Err e \<Rightarrow> (Err e, s) | Panic e \<Rightarrow> (Panic e, s)
    | Ok v \<Rightarrow> icon_admin_call cl p NewHexBytes
        (NewIconMessage (Icon_contract p ConnectionContract) (MapParams [(''sn'', NewHexInt v)]) Icon_MethodRevertMessage)
        '''' '''' ''failed: '' s)"

text \<open>\<^verbatim>\<open>SetAdmin\<close> asks for the transaction under its raw hash bytes.\<close>

definition Icon_SetAdmin ::
    "icon_client \<Rightarrow> icon_config \<Rightarrow> string \<Rightarrow> icon_state \<Rightarrow> unit result \<times> icon_state" where
  "Icon_SetAdmin cl p admin s = icon_admin_call cl p (\<lambda>txHash. txHash)
     (NewIconMessage (Icon_contract p ConnectionContract) (MapParams [(''_relayer'', admin)]) Icon_MethodSetAdmin)
     ''SetAdmin: '' ''SetAdmin: WaitForResults: '' ''SetAdmin: failed to set admin: '' s"

definition Icon_SetFee ::
    "icon_client \<Rightarrow> icon_config \<Rightarrow> string \<Rightarrow> wireint \<Rightarrow> wireint \<Rightarrow> icon_state \<Rightarrow> unit result \<times> icon_state" where
  "Icon_SetFee cl p networkID msgFee resFee s =
     (case rbind (ptr_Int64 msgFee) (\<lambda>m. rmap (Pair m) (ptr_Int64 resFee)) of
        Err e \<Rightarrow> (Err e, s) | Panic e \<Rightarrow> (Panic e, s)
      | Ok (m, r) \<Rightarrow> icon_admin_call cl p NewHexBytes
          (NewIconMessage (Icon_contract p ConnectionContract)
            (MapParams [(''networkId'', networkID), (''messageFee'', NewHexInt m), (''responseFee'', NewHexInt r)])
            Icon_MethodSetFee)
          ''SetFee: '' ''SetFee: WaitForResults: '' ''SetFee: failed to claim fees: '' s)"

definition Icon_ClaimFee :: "icon_client \<Rightarrow> icon_config \<Rightarrow> icon_state \<Rightarrow> unit result \<times> icon_state" where
  "Icon_ClaimFee cl p s = icon_admin_call cl p NewHexBytes
     (NewIconMessage (Icon_contract p ConnectionContract) (MapParams []) Icon_MethodClaimFees)
     ''ClaimFees: '' ''ClaimFees: WaitForResults: '' ''ClaimFees: failed to claim fees: '' s"

definition Icon_ExecuteRollback ::
    "icon_client \<Rightarrow> icon_config \<Rightarrow> i64 \<Rightarrow> icon_state \<Rightarrow> unit result \<times> icon_state" where
  "Icon_ExecuteRollback cl p sn s = icon_admin_call cl p NewHexBytes
     (NewIconMessage (Icon_contract p XcallContract) (MapParams [(''_sn'', NewHexInt sn)]) Icon_MethodExecuteRollback)
     '''' '''' ''failed: '' s"

end
