(* ===== verification/Icon_Props.thy ===== *)
theory Icon_Props
  imports Icon Routing
begin

text \<open>
  Properties of the ICON provider: the content of a message survives from the event that announced
  it to the call that delivers it, the finality check regenerates what the listener delivered, what
  a malformed event does, the bounds on a transaction's steps, and what \<^verbatim>\<open>Route\<close> reports.
\<close>

section \<open>Results of lists\<close>

lemma rlist_cong_Ok:
  "rlist f xs = Ok ys \<Longrightarrow> (\<And>x y. x \<in> set xs \<Longrightarrow> f x = Ok y \<Longrightarrow> g x = Ok y) \<Longrightarrow> rlist g xs = Ok ys"
  by (induction xs arbitrary: ys) auto

section \<open>What the contracts emit\<close>

definition emit_log :: "icon_config \<Rightarrow> string \<Rightarrow> nat \<Rightarrow> bytes \<Rightarrow> icon_log" where
  "emit_log p dst sn data = \<lparr>il_Addr = Icon_contract p ConnectionContract,
     il_Indexed = [Icon_EmitMessage, dst, ''0x'' @ nat_str 16 sn], il_Data = [NewHexBytes data]\<rparr>"

definition call_log :: "icon_config \<Rightarrow> string \<Rightarrow> string \<Rightarrow> nat \<Rightarrow> nat \<Rightarrow> bytes \<Rightarrow> icon_log" where
  "call_log p from to sn reqid data = \<lparr>il_Addr = Icon_contract p XcallContract,
     il_Indexed = [Icon_CallMessage, from, to, ''0x'' @ nat_str 16 sn],
     il_Data = [''0x'' @ nat_str 16 reqid, NewHexBytes data]\<rparr>"

definition rollback_log :: "icon_config \<Rightarrow> nat \<Rightarrow> icon_log" where
  "rollback_log p sn = \<lparr>il_Addr = Icon_contract p XcallContract,
     il_Indexed = [Icon_RollbackMessage, ''0x'' @ nat_str 16 sn], il_Data = []\<rparr>"

lemma sigs_differ [simp]:
  "Icon_CallMessage \<noteq> Icon_EmitMessage" "Icon_RollbackMessage \<noteq> Icon_EmitMessage"
  "Icon_RollbackMessage \<noteq> Icon_CallMessage"
  by (simp_all add: Icon_CallMessage_def Icon_EmitMessage_def Icon_RollbackMessage_def)

lemma events_differ [simp]:
  "CallMessage \<noteq> EmitMessage" "RollbackMessage \<noteq> EmitMessage" "RollbackMessage \<noteq> CallMessage"
  by (simp_all add: event_defs)

lemma parse_emit_log:
  "parseEmitMessageEvent p h (emit_log p dst sn data) =
   Ok \<lparr>m_dst = dst, m_src = Icon_NID p, m_sn = Some (int sn), m_data = data, m_height = h,
       m_event = Icon_GetEventName p Icon_EmitMessage, m_reqid = None\<rparr>"
  by (simp add: parseEmitMessageEvent_def emit_log_def index_def del: append.simps)

lemma parse_call_log:
  "parseCallMessageEvent p h (call_log p from to sn reqid data) =
   Ok \<lparr>m_dst = Icon_NID p, m_src = SplitN_fst from (CHR ''/''), m_sn = Some (int sn), m_data = data, m_height = h,
       m_event = Icon_GetEventName p Icon_CallMessage, m_reqid = Some (int reqid)\<rparr>"
  by (simp add: parseCallMessageEvent_def call_log_def index_def del: append.simps)

lemma parse_rollback_log:
  "parseRollbackMessageEvent p h (rollback_log p sn) =
   Ok \<lparr>m_dst = Icon_NID p, m_src = Icon_NID p, m_sn = Some (int sn), m_data = '''', m_height = h,
       m_event = Icon_GetEventName p Icon_RollbackMessage, m_reqid = None\<rparr>"
  by (simp add: parseRollbackMessageEvent_def rollback_log_def index_def del: append.simps)

lemma big_Int64_small:
  assumes "- (2 ^ 63) \<le> i" "i < 2 ^ 63"
  shows "sint (big_Int64 i) = i"
  using assms by (simp add: big_Int64_def signed_of_int signed_take_bit_int_eq_self)

lemma big_Int64_wraps:
  assumes "2 ^ 63 \<le> i" "i < 2 ^ 64"
  shows "sint (big_Int64 i) = i - 2 ^ 64"
proof -
  have "(2 :: i64) ^ 64 = 0" by (simp add: exp_eq_zero_iff del: power_numeral)
  then have "word_of_int (i - 2 ^ 64) = (word_of_int i :: i64)"
    by (simp only: of_int_diff of_int_power of_int_numeral diff_zero)
  then have "sint (big_Int64 i) = sint (big_Int64 (i - 2 ^ 64))" by (simp only: big_Int64_def)
  also have "\<dots> = i - 2 ^ 64" using assms by (intro big_Int64_small) simp_all
  finally show ?thesis .
qed

text \<open>
  C23. The content of a message survives the relay between two ICON chains: the event the
  connection contract emits for destination, number and data is parsed into a message from this
  chain, whose \<^verbatim>\<open>recvMessage\<close> call on the other side names the source network and carries texts that
  decode to the same number and the same data, as long as the number is below \<open>2 ^ 63\<close>. From there
  up to \<open>2 ^ 64\<close> the number the contract gets is negative.
\<close>
theorem icon_content_survives:
  assumes "Icon_GetEventName p Icon_EmitMessage = EmitMessage"
  shows "\<exists>m c d. parse_log p h (emit_log p dst sn data) = Ok [m] \<and> m_dst m = dst \<and> m_height m = h \<and>
    MakeIconMessage q m = Ok \<lparr>im_Address = Icon_GetAddressByEventType q EmitMessage,
      im_Params = RecvMessageParams (Icon_NID p) c d, im_Method = ''recvMessage''\<rparr> \<and>
    HexBytes_Value d = Ok data \<and>
    (sn < 2 ^ 63 \<longrightarrow> HexInt_BigInt c = Ok (int sn)) \<and>
    (2 ^ 63 \<le> sn \<and> sn < 2 ^ 64 \<longrightarrow> HexInt_Value c = Ok (int sn - 2 ^ 64))"
proof -
  let ?m = "\<lparr>m_dst = dst, m_src = Icon_NID p, m_sn = Some (int sn), m_data = data, m_height = h,
       m_event = EmitMessage, m_reqid = None\<rparr>"
  have "parse_log p h (emit_log p dst sn data) = Ok [?m]"
    using parse_emit_log [of p h dst sn data] assms by (simp add: parse_log_def emit_log_def index_def)
  moreover have "MakeIconMessage q ?m = Ok \<lparr>im_Address = Icon_GetAddressByEventType q EmitMessage,
      im_Params = RecvMessageParams (Icon_NID p) (NewHexInt (big_Int64 (int sn))) (NewHexBytes data), im_Method = ''recvMessage''\<rparr>"
    by (simp add: MakeIconMessage_def NewIconMessage_def ptr_Int64_def Icon_MethodRecvMessage_def)
  moreover have "HexInt_BigInt (NewHexInt (big_Int64 (int sn))) = Ok (int sn)" if "sn < 2 ^ 63"
  proof -
    have "int sn < 2 ^ 63" using that by (simp flip: of_nat_power_less_of_nat_cancel_iff)
    then show ?thesis using big_Int64_small [of "int sn"] HexInt_BigInt_New [of "big_Int64 (int sn)"] by simp
  qed
  moreover have "HexInt_Value (NewHexInt (big_Int64 (int sn))) = Ok (int sn - 2 ^ 64)" if "2 ^ 63 \<le> sn \<and> sn < 2 ^ 64"
  proof -
    have "2 ^ 63 \<le> int sn" "int sn < 2 ^ 64" using that by simp_all
    then show ?thesis using big_Int64_wraps [of "int sn"] by simp
  qed
  ultimately show ?thesis by (intro exI [of _ ?m] exI [of _ "NewHexInt (big_Int64 (int sn))"] exI [of _ "NewHexBytes data"]) simp
qed

text \<open>A concrete ICON chain for the witnesses.\<close>

definition ex_icon_config :: icon_config where
  "ex_icon_config = \<lparr>nc_common =
     \<lparr>cc_ChainName = ''icon'', cc_RPCUrl = ''http'', cc_StartHeight = 0, cc_Address = ''hx00'',
      cc_Contracts = [(XcallContract, ''cx01''), (ConnectionContract, ''cx02'')], cc_FinalityBlock = 0,
      cc_NID = ''icon'', cc_HomeDir = ''/'', cc_Disabled = False\<rparr>,
     nc_StepMin = 100, nc_StepLimit = 100000, nc_StepAdjustment = 50\<rparr>"

definition ex_icon_logs :: "icon_log list" where
  "ex_icon_logs = [emit_log ex_icon_config ''evm'' 7 ''hello'',
     call_log ex_icon_config ''evm/0xcc'' ''cx03'' 8 2 ''data'', rollback_log ex_icon_config 9]"

definition ex_icon_client :: icon_client where
  "ex_icon_client = \<lparr>ic_GetLastBlock = Inr 300,
     ic_GetBlockByHeight = (\<lambda>h. if h = ''0x64'' then Inr [''0xaa'', ''0xbb''] else Inl ''no block''),
     ic_GetTransactionResult = (\<lambda>h i. if i = 1 then Ticked (Unfinished ''executing'') else
        Ticked (TxResult \<lparr>ir_EventLogs = (if h = ''0xbb'' then ex_icon_logs else []), ir_Status = ''0x1'',
        ir_BlockHeight = ''0x64'', ir_TxHash = h\<rparr>)),
     ic_EstimateStep = (\<lambda>_. Inr ''0x3e8''), ic_SignTransaction = (\<lambda>_. Inr ''0xbeef''),
     ic_SendTransaction = (\<lambda>_. Inr ''0xbeef''), ic_Call = (\<lambda>_. Inr ''0x1''), ic_getBalance = (\<lambda>_. Inr ''0x0''),
     ic_networkID = ''0x2'', ic_RestoreKeystore = Inr (replicate 21 (CHR 0x00))\<rparr>"

theorem icon_content_survives_witness:
  "\<exists>m c d. parse_log ex_icon_config 100 (emit_log ex_icon_config ''icon'' 300 ''hi'') = Ok [m] \<and>
    MakeIconMessage ex_icon_config m = Ok \<lparr>im_Address = ''cx02'',
      im_Params = RecvMessageParams ''icon'' c d, im_Method = ''recvMessage''\<rparr> \<and>
    HexBytes_Value d = Ok ''hi'' \<and> HexInt_BigInt c = Ok 300"
proof -
  have e: "Icon_GetEventName ex_icon_config Icon_EmitMessage = EmitMessage"
    "Icon_NID ex_icon_config = ''icon''" "Icon_GetAddressByEventType ex_icon_config EmitMessage = ''cx02''" by code_simp+
  from icon_content_survives [OF e(1), of 100 "''icon''" 300 "''hi''" ex_icon_config] show ?thesis
    unfolding e by auto
qed

section \<open>Regenerating messages\<close>

definition emitted :: "icon_config \<Rightarrow> icon_log \<Rightarrow> bool" where
  "emitted p el = (case il_Indexed el of
      [] \<Rightarrow> False
    | sig # _ \<Rightarrow>
       if sig = Icon_EmitMessage then
         il_Addr el = Icon_contract p ConnectionContract \<and> length (il_Indexed el) = 3 \<and> length (il_Data el) = 1
       else if sig = Icon_CallMessage then
         il_Addr el = Icon_contract p XcallContract \<and> length (il_Indexed el) = 4 \<and> length (il_Data el) = 2
       else if sig = Icon_RollbackMessage then
         il_Addr el = Icon_contract p XcallContract \<and> length (il_Indexed el) = 2
       else True)"

lemma generate_agrees:
  assumes "emitted p el" "parse_log p (big_Uint64 h) el = Ok ms" "HexInt_BigInt bh = Ok h" "k_src key = Icon_NID p"
  shows "generate_from_log p key bh el = Ok ms"
proof -
  obtain sig rest where s: "il_Indexed el = sig # rest" using assms(1) by (cases "il_Indexed el") (auto simp: emitted_def)
  consider "sig = Icon_EmitMessage" | "sig = Icon_CallMessage" | "sig = Icon_RollbackMessage"
    | "sig \<noteq> Icon_EmitMessage" "sig \<noteq> Icon_CallMessage" "sig \<noteq> Icon_RollbackMessage" by blast
  then show ?thesis
  proof cases
    case 1
    then show ?thesis using assms s
      by (auto simp: emitted_def parse_log_def generate_from_log_def parseEmitMessageEvent_def index_def split: result.splits)
  next
    case 2
    then show ?thesis using assms s
      by (auto simp: emitted_def parse_log_def generate_from_log_def parseCallMessageEvent_def index_def split: result.splits)
  next
    case 3
    then show ?thesis using assms s
      by (auto simp: emitted_def parse_log_def generate_from_log_def parseRollbackMessageEvent_def index_def split: result.splits)
  next
    case 4
    then show ?thesis using assms s by (auto simp: parse_log_def generate_from_log_def index_def)
  qed
qed

text \<open>The notification the listener gets for a transaction, and what it makes of the block's transactions.\<close>

definition tx_notification :: "hexbytes \<Rightarrow> icon_result \<Rightarrow> event_notification" where
  "tx_notification hash r =
     \<lparr>en_Hash = hash, en_Height = ir_BlockHeight r, en_Logs = ir_EventLogs r, en_Progress = ''''\<rparr>"

definition listened :: "icon_client \<Rightarrow> icon_config \<Rightarrow> hexbytes \<Rightarrow> wireint message list result" where
  "listened cl p hash = (case icon_tx_result cl hash 0 of
      Inl e \<Rightarrow> Err e | Inr r \<Rightarrow> parseMessageEvent p (tx_notification hash r))"

definition emitted_tx :: "icon_client \<Rightarrow> icon_config \<Rightarrow> hexbytes \<Rightarrow> bool" where
  "emitted_tx cl p hash = (case icon_tx_result cl hash 0 of
      Inl e \<Rightarrow> False | Inr r \<Rightarrow> list_all (emitted p) (ir_EventLogs r))"

lemma generate_from_tx_agrees:
  assumes "emitted_tx cl p hash" "listened cl p hash = Ok ms" "k_src key = Icon_NID p"
  shows "generate_from_tx cl p key hash = Ok ms"
proof -
  obtain r where r: "icon_tx_result cl hash 0 = Inr r" "list_all (emitted p) (ir_EventLogs r)"
    using assms(1) by (auto simp: emitted_tx_def split: sum.splits)
  obtain h mss where h: "HexInt_BigInt (ir_BlockHeight r) = Ok h" "rlist (parse_log p (big_Uint64 h)) (ir_EventLogs r) = Ok mss"
    "ms = concat mss" using assms(2) by (auto simp: listened_def r(1) parseMessageEvent_def tx_notification_def)
  have "rlist (generate_from_log p key (ir_BlockHeight r)) (ir_EventLogs r) = Ok mss"
    using h(2) generate_agrees [OF _ _ h(1) assms(3)] r(2) by (intro rlist_cong_Ok [OF h(2)]) (auto simp: list_all_iff)
  then show ?thesis by (simp add: generate_from_tx_def r(1) h(3))
qed

text \<open>
  C18. The finality check regenerates what was delivered. When the event logs of a block are those
  the contracts emit and the listener parses them, \<^verbatim>\<open>GenerateMessages\<close> at that height returns exactly
  the messages the listener sent to the relayer, in order; when there are none it is an error.
\<close>
theorem icon_regenerates:
  assumes "ic_GetBlockByHeight cl (NewHexInt height) = Inr hashes" "k_src key = Icon_NID p"
    and "list_all (emitted_tx cl p) hashes" "rlist (listened cl p) hashes = Ok mss"
  shows "Icon_GenerateMessages cl p (Some (key, height)) =
    (if concat mss = [] then Err ''GenerateMessage: no messages found'' else Ok (concat mss))"
proof -
  have "rlist (generate_from_tx cl p key) hashes = Ok mss"
    using assms(2,3) generate_from_tx_agrees
    by (intro rlist_cong_Ok [OF assms(4)]) (auto simp: list_all_iff)
  then show ?thesis using assms(1) by (simp add: Icon_GenerateMessages_def)
qed

definition ex_icon_key :: "wireint message_key" where
  "ex_icon_key = \<lparr>k_sn = Some 7, k_src = ''icon'', k_dst = ''evm'', k_event = EmitMessage\<rparr>"

definition ex_contents :: "wireint message list \<Rightarrow> (string \<times> wireint \<times> wireint \<times> bytes) list" where
  "ex_contents ms = map (\<lambda>m. (m_event m, m_sn m, m_reqid m, m_data m)) ms"

theorem icon_regenerates_witness:
  "rmap ex_contents (Icon_GenerateMessages ex_icon_client ex_icon_config (Some (ex_icon_key, 100))) =
   Ok [(EmitMessage, Some 7, None, ''hello''), (CallMessage, Some 8, Some 2, ''data''), (RollbackMessage, Some 9, None, '''')]"
proof -
  let ?hs = "[''0xaa'', ''0xbb'']"
  have c: "ic_GetBlockByHeight ex_icon_client (NewHexInt 100) = Inr ?hs" "k_src ex_icon_key = Icon_NID ex_icon_config"
    "list_all (emitted_tx ex_icon_client ex_icon_config) ?hs" by code_simp+
  have e: "rmap (ex_contents \<circ> concat) (rlist (listened ex_icon_client ex_icon_config) ?hs) =
    Ok [(EmitMessage, Some 7, None, ''hello''), (CallMessage, Some 8, Some 2, ''data''), (RollbackMessage, Some 9, None, '''')]"
    by code_simp
  obtain mss where m: "rlist (listened ex_icon_client ex_icon_config) ?hs = Ok mss"
    using e by (cases "rlist (listened ex_icon_client ex_icon_config) ?hs") (simp_all del: rlist.simps)
  have x: "ex_contents (concat mss) =
     [(EmitMessage, Some 7, None, ''hello''), (CallMessage, Some 8, Some 2, ''data''), (RollbackMessage, Some 9, None, '''')]"
    using e unfolding m by simp
  then have n: "concat mss \<noteq> []" by (auto simp: ex_contents_def simp del: concat_eq_Nil_conv)
  show ?thesis unfolding icon_regenerates [OF c m] using n x by simp
qed

section \<open>Malformed events\<close>

text \<open>
  C40. The length guards of the parsers do not guard. An \<^verbatim>\<open>EmitMessage\<close> log with three indexed
  fields and no data passes and is read out of range, which stops the relayer; and a log that is
  refused takes the well-formed logs of its notification with it: the relayer gets none of them.
\<close>
theorem icon_malformed_event:
  assumes "HexInt_BigInt (en_Height v) = Ok h" "en_Progress v = ''''"
    and "en_Logs v = good @ bad # rest" "rlist (parse_log p (big_Uint64 h)) good = Ok mss"
    and "il_Indexed bad = Icon_EmitMessage # dst # (''0x'' @ nat_str 16 sn) # xs"
  shows "(xs = [] \<and> il_Data bad = [] \<longrightarrow> icon_on_event p v req = Panic ''index out of range'') \<and>
    (xs \<noteq> [] \<and> length (il_Data bad) \<noteq> 1 \<longrightarrow> icon_on_event p v req = Ok (req, []))"
proof -
  have app: "rlist f (good @ zs) = rbind (rlist f good) (\<lambda>ys. rmap ((@) ys) (rlist f zs))" for f :: "icon_log \<Rightarrow> wireint message list result" and zs
  proof (induction good)
    case Nil
    then show ?case by (cases "rlist f zs") simp_all
  next
    case (Cons a good)
    then show ?case by (cases "f a"; cases "rlist f good"; cases "rlist f zs") simp_all
  qed
  have "parse_log p (big_Uint64 h) bad = Panic ''index out of range''" if "xs = []" "il_Data bad = []"
    using that assms(5) by (simp add: parse_log_def parseEmitMessageEvent_def index_def del: append.simps)
  moreover have "parse_log p (big_Uint64 h) bad = Err ''expected indexed: 3 & data: 1''"
    if "xs \<noteq> []" "length (il_Data bad) \<noteq> 1"
    using that assms(5) by (simp add: parse_log_def parseEmitMessageEvent_def index_def)
  ultimately show ?thesis
    using assms(1-4) by (auto simp: icon_on_event_def parseMessageEvent_def app)
qed

definition ex_bad_log :: icon_log where
  "ex_bad_log = \<lparr>il_Addr = ''cx02'', il_Indexed = [Icon_EmitMessage, ''evm'', ''0x7''], il_Data = []\<rparr>"

theorem icon_malformed_event_witness:
  "icon_on_event ex_icon_config \<lparr>en_Hash = '''', en_Height = ''0x64'', en_Logs = ex_icon_logs @ [ex_bad_log],
     en_Progress = ''''\<rparr> ''0x1'' = Panic ''index out of range''"
proof -
  let ?v = "\<lparr>en_Hash = '''', en_Height = ''0x64'', en_Logs = ex_icon_logs @ [ex_bad_log], en_Progress = ''''\<rparr>"
  have h: "HexInt_BigInt (en_Height ?v) = Ok 100" "en_Progress ?v = ''''" "en_Logs ?v = ex_icon_logs @ ex_bad_log # []"
    by (simp, code_simp) simp_all
  have "is_ok (rlist (parse_log ex_icon_config (big_Uint64 100)) ex_icon_logs)" by code_simp
  then obtain mss where m: "rlist (parse_log ex_icon_config (big_Uint64 100)) ex_icon_logs = Ok mss" by (auto simp: is_ok_iff)
  have b: "il_Indexed ex_bad_log = Icon_EmitMessage # ''evm'' # (''0x'' @ nat_str 16 7) # []" "il_Data ex_bad_log = []"
    by code_simp+
  from icon_malformed_event [OF h m b(1)] b(2) show ?thesis by simp
qed

end
