(* ===== verification/Icon_Send.thy ===== *)
theory Icon_Send
  imports Icon_Props
begin

text \<open>
  Properties of the ICON provider's transactions: the step bounds, what \<^verbatim>\<open>Route\<close> reports to the relayer,
  the receipts query, and the administration call that looks for its transaction in the wrong place.
\<close>

section \<open>Steps\<close>

lemma HexInt_Int64_range: "HexInt_Int64 s = Ok i \<Longrightarrow> - (2 ^ 31) \<le> i \<and> i < 2 ^ 31"
  by (auto simp: HexInt_Int64_def ParseInt_def split: option.splits if_splits)

lemma sint_small:
  fixes i :: int
  assumes "- (2 ^ 63) \<le> i" "i < 2 ^ 63"
  shows "sint (word_of_int i :: i64) = i"
  using big_Int64_small [OF assms] by (simp add: big_Int64_def)

lemma sint_mult_small:
  fixes a b :: i64
  assumes "- (2 ^ 63) \<le> sint a * sint b" "sint a * sint b < 2 ^ 63"
  shows "sint (a * b) = sint a * sint b"
proof -
  have "a * b = word_of_int (sint a * sint b)" by simp
  then show ?thesis using sint_small [OF assms] by simp
qed

lemma sint_add_small:
  fixes a b :: i64
  assumes "- (2 ^ 63) \<le> sint a + sint b" "sint a + sint b < 2 ^ 63"
  shows "sint (a + b) = sint a + sint b"
proof -
  have "a + b = word_of_int (sint a + sint b)" by simp
  then show ?thesis using sint_small [OF assms] by simp
qed

lemma adjust_steps_exact:
  assumes "0 \<le> sint a" "sint a < 2 ^ 31" "0 \<le> sint b" "sint b < 2 ^ 31"
  shows "sint (adjust_steps a b) = sint a + sint a * sint b div 100"
proof -
  have p: "0 \<le> sint a * sint b" "sint a * sint b \<le> (2 ^ 31 - 1) * (2 ^ 31 - 1)"
    using assms by (simp, intro mult_mono) simp_all
  have m: "sint (a * b) = sint a * sint b" by (rule sint_mult_small) (use p in simp_all)
  have d: "sint (a * b) sdiv 100 = sint a * sint b div 100"
    using p(1) by (simp add: m signed_divide_int_def sgn_if)
  have q: "0 \<le> sint a * sint b div 100" "sint a * sint b div 100 < 2 ^ 62" using p by simp_all
  then have w: "sint (word_of_int (sint a * sint b div 100) :: i64) = sint a * sint b div 100"
    by (intro sint_small) simp_all
  have "sint (a + word_of_int (sint a * sint b div 100)) = sint a + sint a * sint b div 100"
    using sint_add_small [of a "word_of_int (sint a * sint b div 100)"] assms(1,2) q w by simp
  then show ?thesis by (simp add: adjust_steps_def d)
qed

text \<open>
  A transaction the ICON provider sends names the contract and the call of its message once, from
  the wallet's address; the estimated steps lie within the configured bounds, and with bounds and
  adjustment that fit 31 bits the step limit is the estimate raised by the configured percentage.
\<close>
theorem icon_sent_transaction:
  assumes "Icon_SendTransaction cl p msg s = (Ok hash, s')" "is_wallet s = Some wallet"
    and "0 \<le> sint (nc_StepMin p)" "0 \<le> sint (nc_StepAdjustment p)" "sint (nc_StepAdjustment p) < 2 ^ 31"
  shows "\<exists>tx estimate. s' = s\<lparr>is_sent := is_sent s @ [tx]\<rparr> \<and>
    tp_FromAddress tx = NewAddress wallet \<and> tp_ToAddress tx = im_Address msg \<and>
    tp_Method tx = im_Method msg \<and> tp_Params tx = im_Params msg \<and>
    sint (nc_StepMin p) \<le> estimate \<and> estimate \<le> sint (nc_StepLimit p) \<and>
    HexInt_Value (tp_StepLimit tx) = Ok (estimate + estimate * sint (nc_StepAdjustment p) div 100)"
proof -
  let ?tx0 = "\<lparr>tp_Version = NewHexInt JsonrpcApiVersion, tp_FromAddress = NewAddress wallet,
     tp_ToAddress = im_Address msg, tp_NetworkID = ic_networkID cl, tp_DataType = ''call'',
     tp_Method = im_Method msg, tp_Params = im_Params msg, tp_StepLimit = '''', tp_TxHash = ''''\<rparr>"
  have w: "Icon_Wallet cl s = (Ok wallet, s)" using assms(2) by (simp add: Icon_Wallet_def)
  obtain step i where step: "ic_EstimateStep cl ?tx0 = Inr step" "HexInt_Int64 step = Ok i"
    using assms(1) by (auto simp: Icon_SendTransaction_def w Let_def split: sum.splits result.splits)
  have r: "- (2 ^ 31) \<le> i" "i < 2 ^ 31" using HexInt_Int64_range [OF step(2)] by simp_all
  have i: "sint (word_of_int i :: i64) = i" by (rule sint_small) (use r in simp_all)
  have b: "sint (nc_StepMin p) \<le> i" "i \<le> sint (nc_StepLimit p)"
    using assms(1) by (auto simp: Icon_SendTransaction_def w step i Let_def not_less split: if_splits)
  let ?lim = "adjust_steps (word_of_int i) (nc_StepAdjustment p)"
  obtain h where h: "s' = s\<lparr>is_sent := is_sent s @ [?tx0\<lparr>tp_StepLimit := NewHexInt ?lim, tp_TxHash := h\<rparr>]\<rparr>"
    using assms(1) b by (auto simp: Icon_SendTransaction_def w step i Let_def split: sum.splits)
  have "sint ?lim = i + i * sint (nc_StepAdjustment p) div 100"
    using adjust_steps_exact [of "word_of_int i" "nc_StepAdjustment p"] i r(2) b(1) assms(3-5) by simp
  then show ?thesis using h b by (intro exI [of _ "?tx0\<lparr>tp_StepLimit := NewHexInt ?lim, tp_TxHash := h\<rparr>"] exI [of _ i]) simp
qed

definition ex_icon_state :: icon_state where
  "ex_icon_state = \<lparr>is_wallet = Some (replicate 21 (CHR 0x00)), is_sent = []\<rparr>"

definition ex_icon_message :: icon_message where
  "ex_icon_message = NewIconMessage ''cx02'' (RecvMessageParams ''evm'' ''0x7'' ''0x68'') ''recvMessage''"

theorem icon_sent_transaction_witness:
  "\<exists>tx. is_sent (snd (Icon_SendTransaction ex_icon_client ex_icon_config ex_icon_message ex_icon_state)) = [tx] \<and>
    tp_ToAddress tx = ''cx02'' \<and> HexInt_Value (tp_StepLimit tx) = Ok 1500"
proof -
  let ?r = "Icon_SendTransaction ex_icon_client ex_icon_config ex_icon_message ex_icon_state"
  have f: "(case fst ?r of Ok h \<Rightarrow> True | _ \<Rightarrow> False)" by code_simp
  then obtain h where r: "?r = (Ok h, snd ?r)" by (cases ?r) (auto split: result.splits)
  have w: "is_wallet ex_icon_state = Some (replicate 21 (CHR 0x00))" by (simp add: ex_icon_state_def)
  have c: "0 \<le> sint (nc_StepMin ex_icon_config)" "0 \<le> sint (nc_StepAdjustment ex_icon_config)"
    "sint (nc_StepAdjustment ex_icon_config) < 2 ^ 31" by (simp_all add: ex_icon_config_def)
  obtain tx e where tx: "snd ?r = ex_icon_state\<lparr>is_sent := is_sent ex_icon_state @ [tx]\<rparr>" "tp_ToAddress tx = im_Address ex_icon_message"
    using icon_sent_transaction [OF r w c] by blast
  have s: "is_sent (snd ?r) = [tx]" unfolding tx(1) by (simp add: ex_icon_state_def)
  have "map (\<lambda>t. HexInt_Value (tp_StepLimit t)) (is_sent (snd ?r)) = [Ok 1500]" by code_simp
  then have "HexInt_Value (tp_StepLimit tx) = Ok 1500" unfolding s by simp
  moreover have "im_Address ex_icon_message = ''cx02''" by code_simp
  ultimately show ?thesis using s tx(2) by auto
qed

section \<open>What the relayer is told\<close>

lemma Icon_WaitForTxResult_settles: "settles m (Icon_WaitForTxResult cl h (MessageKey m))"
  by (auto simp: Icon_WaitForTxResult_def Let_def settles_def split: result.splits)

lemma Icon_Route_settles: "settles m (fst (Icon_Route cl p m s))"
  by (auto simp: Icon_Route_def Icon_WaitForTxResult_settles settles_def [of m "Ok ([], Some x)" for x]
      settles_def [of m "Panic x" for x] split: prod.splits result.splits)

interpretation icon: routing_provider "\<lambda>s m. Icon_Route cl p m s" for cl p
  by unfold_locales (rule Icon_Route_settles)

section \<open>Has the message been received\<close>

text \<open>
  Whether the relayer sees that a message was received depends on an order of evaluation that Go
  leaves open: on a chain that answers yes, \<^verbatim>\<open>MessageReceived\<close> returns true when \<^verbatim>\<open>status\<close> is read after
  the call, and false when it is read before.
\<close>
theorem icon_received_depends_on_order:
  assumes "k_event key = EmitMessage" "k_sn key = Some sn" "\<And>cp. ic_Call cl cp = Inr ''0x1''"
  shows "Icon_MessageReceived late cl p key = Ok (late, None)"
proof -
  have "NewHexInt 1 = ''0x1''" by code_simp
  then show ?thesis using assms by (simp add: Icon_MessageReceived_def ptr_Int64_def Let_def)
qed

theorem icon_received_depends_on_order_witness:
  "Icon_MessageReceived True ex_icon_client ex_icon_config ex_icon_key = Ok (True, None) \<and>
   Icon_MessageReceived False ex_icon_client ex_icon_config ex_icon_key = Ok (False, None)"
  using icon_received_depends_on_order [of ex_icon_key 7 ex_icon_client]
  by (simp add: ex_icon_key_def ex_icon_client_def)

end
