(* ===== verification/Wasm_Types.thy ===== *)
theory Wasm_Types
  imports Chain
begin

text \<open>
  \<^verbatim>\<open>relayer/chains/wasm/types\<close> and \<^verbatim>\<open>utils/hexstr\<close>: hex strings, the messages for the contracts, and the
  queries for a CosmWasm chain's transaction search.

  The JSON encoder is third-party code. A message to a contract is kept as the value that is encoded;
  what the code decodes is a parameter of the definition that does it.
\<close>

section \<open>Hex strings\<close>

definition HexPrefix :: string where "HexPrefix = ''0x''"

definition hexstr_NewFromString :: "string \<Rightarrow> string" where
  "hexstr_NewFromString val = (if HasPrefix val HexPrefix then val else HexPrefix @ val)"

definition hexstr_NewFromByte :: "bytes \<Rightarrow> string" where
  "hexstr_NewFromByte val = HexPrefix @ hex_EncodeToString val"

definition hexstr_ToByte :: "string \<Rightarrow> bytes result" where
  "hexstr_ToByte h = (if h = '''' then Ok '''' else hex_DecodeString (TrimPrefix h HexPrefix))"

lemma hexstr_roundtrip [simp]: "hexstr_ToByte (hexstr_NewFromByte b) = Ok b"
proof -
  have "TrimPrefix (HexPrefix @ hex_EncodeToString b) HexPrefix = hex_EncodeToString b" by (rule TrimPrefix_append)
  then show ?thesis by (simp add: hexstr_ToByte_def hexstr_NewFromByte_def HexPrefix_def)
qed

lemma hexstr_from_text [simp]: "hexstr_NewFromString (hexstr_NewFromByte b) = hexstr_NewFromByte b"
  by (simp add: hexstr_NewFromString_def hexstr_NewFromByte_def HexPrefix_def del: append.simps)

lemma hexstr_bare_text: "\<not> HasPrefix (hex_EncodeToString b) HexPrefix \<Longrightarrow>
  hexstr_NewFromString (hex_EncodeToString b) = hexstr_NewFromByte b"
  by (simp add: hexstr_NewFromString_def hexstr_NewFromByte_def)

text \<open>
  \<^verbatim>\<open>HexBytes\<close> of \<^verbatim>\<open>types.go\<close> are bytes whose JSON is their digits in capitals, between quotes, as the
  node prints hashes; \<^verbatim>\<open>strings.ToUpper\<close> is on the digits alone.
\<close>

definition upper_char :: "char \<Rightarrow> char" where
  "upper_char c = (let n = of_char c :: nat in if 97 \<le> n \<and> n \<le> 122 then char_of (n - 32) else c)"

definition NewWasmHexBytes :: "bytes \<Rightarrow> bytes" where
  "NewWasmHexBytes bz = bz"

definition WasmHexBytes_MarshalJSON :: "bytes \<Rightarrow> bytes result" where
  "WasmHexBytes_MarshalJSON bz = (let s = map upper_char (hex_EncodeToString bz) in Ok (CHR 0x22 # s @ [CHR 0x22]))"

lemma digit_val_upper: "d < 16 \<Longrightarrow> digit_val (upper_char (digit_char d)) = Some d"
  by (auto simp: upper_char_def digit_val_def digit_char_def Let_def)

text \<open>What the JSON shows is the bytes: reading the digits gives them back.\<close>

lemma MarshalJSON_digits:
  "\<exists>s. WasmHexBytes_MarshalJSON (NewWasmHexBytes bz) = Ok (CHR 0x22 # s @ [CHR 0x22]) \<and> hex_DecodeString s = Ok bz"
proof -
  have "hex_DecodeString (map upper_char (hex_EncodeToString bz)) = Ok bz"
  proof (induction bz)
    case (Cons c cs)
    have lt: "of_char c div 16 < (16::nat)" "of_char c mod 16 < (16::nat)"
      using nat_of_char_less_256 [of c] by (auto simp: less_mult_imp_div_less)
    have "16 * (of_char c div 16) + of_char c mod 16 = (of_char c :: nat)" by simp
    then show ?case using Cons lt by (simp add: digit_val_upper del: of_char_of)
  qed simp
  then show ?thesis by (simp add: WasmHexBytes_MarshalJSON_def NewWasmHexBytes_def Let_def)
qed

section \<open>Messages to the contracts\<close>

definition wire_String :: "wireint \<Rightarrow> string" where
  "wire_String p = (case p of None \<Rightarrow> ''<nil>'' | Some i \<Rightarrow> int_str 10 i)"

text \<open>\<open>NullMsg\<close> is the encoding of the nil pointer \<^verbatim>\<open>NewExecExecMsg\<close> returns when it fails.\<close>

datatype exec_msg =
    ExecRecvMsg string string string
  | ExecExecMsg string "int list"
  | NullMsg
  | ExecRevertMsg string
  | ExecSetAdmin string
  | ExecClaimFee
  | ExecSetFee string string string
  | ExecExecuteRollback string

definition NewExecRecvMsg :: "wireint message \<Rightarrow> exec_msg" where
  "NewExecRecvMsg message = ExecRecvMsg (m_src message) (wire_String (m_sn message)) (hexstr_NewFromByte (m_data message))"

text \<open>\<open>ints\<close> decodes a JSON array of integers.\<close>

definition NewExecExecMsg :: "(bytes \<Rightarrow> error + int list) \<Rightarrow> wireint message \<Rightarrow> exec_msg" where
  "NewExecExecMsg ints message = (case ints (m_data message) of
      Inl e \<Rightarrow> NullMsg | Inr data \<Rightarrow> ExecExecMsg (wire_String (m_reqid message)) data)"

definition NewExecRevertMsg :: "wireint message \<Rightarrow> exec_msg" where
  "NewExecRevertMsg message = ExecRevertMsg (wire_String (m_sn message))"

definition NewExecSetAdmin :: "string \<Rightarrow> exec_msg" where
  "NewExecSetAdmin addr = ExecSetAdmin addr"

definition NewExecClaimFee :: exec_msg where
  "NewExecClaimFee = ExecClaimFee"

definition NewExecSetFee :: "string \<Rightarrow> wireint \<Rightarrow> wireint \<Rightarrow> exec_msg" where
  "NewExecSetFee networkID msgFee resFee = ExecSetFee networkID (wire_String msgFee) (wire_String resFee)"

definition NewExecExecuteRollback :: "wireint \<Rightarrow> exec_msg" where
  "NewExecExecuteRollback sn = ExecExecuteRollback (wire_String sn)"

datatype query_msg = GetReceiptMsg string string | GetFeeMsg string bool

definition NewExecGetFee :: "string \<Rightarrow> bool \<Rightarrow> query_msg" where
  "NewExecGetFee networkID response = GetFeeMsg networkID response"

section \<open>Events and queries\<close>

record abci_event =
  ae_Type :: string
  ae_Attributes :: "(string \<times> string) list"

datatype query_expr = Query string string string | CompositeQuery bool "query_expr list"

fun GetQuery :: "query_expr \<Rightarrow> string" where
  "GetQuery (Query field operator value) =
     field @ (if operator \<noteq> '''' then operator else ''='') @ value"
| "GetQuery (CompositeQuery isOr qs) =
     foldl (\<lambda>resultQuery q.
         if q \<noteq> '''' \<and> resultQuery \<noteq> '''' then resultQuery @ '' '' @ (if isOr then ''OR'' else ''AND'') @ '' '' @ q
         else if q \<noteq> '''' then q else resultQuery)
       '''' (map GetQuery qs)"

record tx_search_param =
  sp_StartHeight :: u64
  sp_EndHeight :: u64
  sp_Events :: "abci_event list"
  sp_Page :: "int option"
  sp_PerPage :: "int option"

definition BuildQuery :: "tx_search_param \<Rightarrow> string" where
  "BuildQuery param =
     (let height = (\<lambda>op h. Query ''tx.height'' op (int_str 10 (uint (h :: u64))));
          queries = (if sp_EndHeight param - sp_StartHeight param = 0 then [height ''='' (sp_StartHeight param)]
            else [height ''>='' (sp_StartHeight param), height ''<='' (sp_EndHeight param)]);
          attribQueries = concat (map (\<lambda>event. map (\<lambda>(key, value).
            Query (ae_Type event @ ''.'' @ key) '''' value) (ae_Attributes event)) (sp_Events param))
      in GetQuery (CompositeQuery False (queries @ [CompositeQuery False attribQueries])))"

record height_range =
  hr_Start :: u64
  hr_End :: u64

record subscribe_opts =
  so_Height :: u64
  so_Address :: string
  so_Method :: string

text \<open>A transaction of a search, and of a subscription; \<open>tq_Code\<close> is \<^verbatim>\<open>uint32(Code)\<close>, the only form the code reads it in.\<close>

record result_tx =
  rt_Height :: i64
  rt_Events :: "abci_event list"

record tx_result_response =
  tq_Height :: i64
  tq_Code :: "32 word"
  tq_Codespace :: string
  tq_Data :: bytes
  tq_Log :: string
  tq_Events :: "abci_event list"

end
