(* ===== verification/Go_Files.thy ===== *)
theory Go_Files
  imports Go_Strings
begin

text \<open>
  The parts of Go's \<^verbatim>\<open>path\<close>, \<^verbatim>\<open>path/filepath\<close> and \<^verbatim>\<open>os\<close> the code uses: cleaned paths, and a file system
  of files and directories. Two spellings of one path, links and permissions are not modelled; that
  the operating system refuses an operation on a path is the parameter \<open>fs_fault\<close>.
\<close>

section \<open>Errors of calls without panics\<close>

fun ebind :: "error + 'a \<Rightarrow> ('a \<Rightarrow> error + 'b) \<Rightarrow> error + 'b" where
  "ebind (Inl e) f = Inl e"
| "ebind (Inr x) f = f x"

lemma ebind_Inr [simp]: "(ebind r f = Inr y) = (\<exists>x. r = Inr x \<and> f x = Inr y)"
  by (cases r) auto

section \<open>Strings\<close>

fun Split :: "string \<Rightarrow> char \<Rightarrow> string list" where
  "Split [] c = [[]]"
| "Split (x # xs) c = (if x = c then [] # Split xs c
     else (case Split xs c of [] \<Rightarrow> [[x]] | y # ys \<Rightarrow> (x # y) # ys))"

definition HasSuffix :: "string \<Rightarrow> string \<Rightarrow> bool" where
  "HasSuffix s suffix = (length suffix \<le> length s \<and> drop (length s - length suffix) s = suffix)"

definition TrimSuffix :: "string \<Rightarrow> string \<Rightarrow> string" where
  "TrimSuffix s suffix = (if HasSuffix s suffix then take (length s - length suffix) s else s)"

lemma HasSuffix_append [simp]: "HasSuffix (s @ t) t"
  by (simp add: HasSuffix_def)

lemma TrimSuffix_append [simp]: "TrimSuffix (s @ t) t = s"
  by (simp add: TrimSuffix_def)

lemma Split_nonempty [simp]: "Split s c \<noteq> []"
  by (induction s) (auto split: list.splits)

lemma Split_append: "Split (s @ c # t) c = Split s c @ Split t c"
  by (induction s) (auto split: list.splits)

lemma Split_single: "c \<notin> set s \<Longrightarrow> Split s c = [s]"
  by (induction s) auto

section \<open>Paths\<close>

definition clean_step :: "bool \<Rightarrow> string list \<Rightarrow> string \<Rightarrow> string list" where
  "clean_step rooted out c =
     (if c = '''' \<or> c = ''.'' then out
      else if c = ''..'' then
        (if out \<noteq> [] \<and> last out \<noteq> ''..'' then butlast out else if rooted then out else out @ [c])
      else out @ [c])"

definition path_elems :: "string \<Rightarrow> string list" where
  "path_elems p = foldl (clean_step (HasPrefix p ''/'')) [] (Split p (CHR ''/''))"

definition path_of :: "bool \<Rightarrow> string list \<Rightarrow> string" where
  "path_of rooted elems =
     (let s = (if rooted then ''/'' else '''') @ Join elems ''/'' in if s = '''' then ''.'' else s)"

definition path_Clean :: "string \<Rightarrow> string" where
  "path_Clean p = path_of (HasPrefix p ''/'') (path_elems p)"

definition path_Join :: "string list \<Rightarrow> string" where
  "path_Join elem = (let parts = dropWhile (\<lambda>e. e = '''') elem
     in if parts = [] then '''' else path_Clean (Join parts ''/''))"

definition path_Dir :: "string \<Rightarrow> string" where
  "path_Dir p = path_Clean (rev (dropWhile (\<lambda>c. c \<noteq> CHR ''/'') (rev p)))"

definition path_Base :: "string \<Rightarrow> string" where
  "path_Base p =
     (if p = '''' then ''.''
      else let q = dropWhile (\<lambda>c. c = CHR ''/'') (rev p)
        in if q = [] then ''/'' else rev (takeWhile (\<lambda>c. c \<noteq> CHR ''/'') q))"

text \<open>A name that is one element of a path.\<close>

definition plain_name :: "string \<Rightarrow> bool" where
  "plain_name a = (a \<notin> {'''', ''.'', ''..''} \<and> CHR ''/'' \<notin> set a)"

lemma plain_pass: "plain_name a \<Longrightarrow> plain_name (a @ ''.pass'')"
  by (auto simp: plain_name_def append_eq_Cons_conv)

lemma Join_snoc: "xs \<noteq> [] \<Longrightarrow> Join (xs @ [x]) s = Join xs s @ s @ x"
  by (induction xs s rule: Join.induct) auto

lemma path_of_snoc:
  "plain_name a \<Longrightarrow> path_of r (xs @ [a]) =
     (if r then ''/'' else '''') @ (if xs = [] then a else Join xs ''/'' @ ''/'' @ a)"
  by (auto simp: path_of_def Join_snoc plain_name_def)

lemma path_Clean_name:
  assumes "p \<noteq> ''''" "plain_name a"
  shows "path_Clean (p @ ''/'' @ a) = path_of (HasPrefix p ''/'') (path_elems p @ [a])"
proof -
  have "HasPrefix (p @ ''/'' @ a) ''/'' = HasPrefix p ''/''" using assms(1) by (cases p) (auto simp: HasPrefix_def)
  with assms(2) show ?thesis
    by (simp add: path_Clean_def path_elems_def Split_append Split_single plain_name_def clean_step_def)
qed

section \<open>Files\<close>

record fs =
  fs_files :: "(string \<times> bytes) list"
  fs_dirs :: "string list"
  fs_fault :: "string \<Rightarrow> error option"

definition no_file :: "string \<Rightarrow> string \<Rightarrow> error" where
  "no_file oper p = oper @ '' '' @ p @ '': no such file or directory''"

definition os_Exists :: "string \<Rightarrow> fs \<Rightarrow> bool" where
  "os_Exists p fs = (p \<in> set (fs_dirs fs) \<or> map_of (fs_files fs) p \<noteq> None)"

definition os_ReadFile :: "string \<Rightarrow> fs \<Rightarrow> error + bytes" where
  "os_ReadFile p fs =
     (case fs_fault fs p of
        Some e \<Rightarrow> Inl e
      | None \<Rightarrow>
         if p \<in> set (fs_dirs fs) then Inl (''read '' @ p @ '': is a directory'')
         else (case map_of (fs_files fs) p of None \<Rightarrow> Inl (no_file ''open'' p) | Some d \<Rightarrow> Inr d))"

definition os_WriteFile :: "string \<Rightarrow> bytes \<Rightarrow> fs \<Rightarrow> error option \<times> fs" where
  "os_WriteFile p d fs =
     (case fs_fault fs p of
        Some e \<Rightarrow> (Some e, fs)
      | None \<Rightarrow>
         if p \<in> set (fs_dirs fs) then (Some (''open '' @ p @ '': is a directory''), fs)
         else if path_Dir p \<notin> set (fs_dirs fs) then (Some (no_file ''open'' p), fs)
         else (None, fs\<lparr>fs_files := AList.update p d (fs_files fs)\<rparr>))"

definition os_Remove :: "string \<Rightarrow> fs \<Rightarrow> error option \<times> fs" where
  "os_Remove p fs =
     (case fs_fault fs p of
        Some e \<Rightarrow> (Some e, fs)
      | None \<Rightarrow>
         if map_of (fs_files fs) p = None then (Some (no_file ''remove'' p), fs)
         else (None, fs\<lparr>fs_files := AList.delete p (fs_files fs)\<rparr>))"

text \<open>\<^verbatim>\<open>MkdirAll\<close> makes the directory and all its parents.\<close>

definition os_MkdirAll :: "string \<Rightarrow> fs \<Rightarrow> error option \<times> fs" where
  "os_MkdirAll p fs =
     (let es = path_elems p;
          dirs = map (\<lambda>i. path_of (HasPrefix p ''/'') (take i es)) [0..<Suc (length es)]
      in case fs_fault fs p of
          Some e \<Rightarrow> (Some e, fs)
        | None \<Rightarrow>
           if list_ex (\<lambda>d. map_of (fs_files fs) d \<noteq> None) dirs
           then (Some (''mkdir '' @ p @ '': not a directory''), fs)
           else (None, fs\<lparr>fs_dirs := dirs @ fs_dirs fs\<rparr>))"

text \<open>The names in a directory.\<close>

definition os_ReadDir :: "string \<Rightarrow> fs \<Rightarrow> error + string list" where
  "os_ReadDir p fs =
     (case fs_fault fs p of
        Some e \<Rightarrow> Inl e
      | None \<Rightarrow>
         if p \<notin> set (fs_dirs fs) then Inl (no_file ''open'' p)
         else Inr (map path_Base (filter (\<lambda>f. path_Dir f = p) (remdups (map fst (fs_files fs) @ fs_dirs fs)))))"

lemma os_WriteFile_None:
  "os_WriteFile p d fs = (None, fs') \<Longrightarrow>
     fs_fault fs p = None \<and> p \<notin> set (fs_dirs fs) \<and> fs' = fs\<lparr>fs_files := AList.update p d (fs_files fs)\<rparr>"
  by (auto simp: os_WriteFile_def split: option.splits if_splits)

lemma os_WriteFile_cases:
  "os_WriteFile p d fs = (err, fs') \<Longrightarrow>
     fs' = fs \<or> fs' = fs\<lparr>fs_files := AList.update p d (fs_files fs)\<rparr>"
  by (auto simp: os_WriteFile_def split: option.splits if_splits)

lemma os_Remove_cases:
  "os_Remove p fs = (err, fs') \<Longrightarrow> fs' = fs \<or> fs' = fs\<lparr>fs_files := AList.delete p (fs_files fs)\<rparr>"
  by (auto simp: os_Remove_def split: option.splits if_splits)

lemma read_update:
  "os_ReadFile p (fs\<lparr>fs_files := AList.update q d (fs_files fs)\<rparr>) =
     (if p = q \<and> fs_fault fs p = None \<and> p \<notin> set (fs_dirs fs) then Inr d else os_ReadFile p fs)"
  by (auto simp: os_ReadFile_def split: option.splits)

lemma read_delete:
  "p \<noteq> q \<Longrightarrow> os_ReadFile p (fs\<lparr>fs_files := AList.delete q (fs_files fs)\<rparr>) = os_ReadFile p fs"
  by (auto simp: os_ReadFile_def split: option.splits)

end
