(* ===== verification/Wasm.thy ===== *)
theory Wasm
  imports Wasm_Types Go_Files
begin

text \<open>
  \<^verbatim>\<open>relayer/chains/wasm\<close>: the provider for CosmWasm chains, without its keyring.

  The Cosmos SDK and CometBFT clients are third-party code: \<open>wasm_client\<close> is the record of their
  answers. The calls of \<^verbatim>\<open>prepareAndPushTxToMemPool\<close> take the number of the attempt, because a wrong
  sequence number is retried once.
\<close>

section \<open>Configuration\<close>

definition EventTypeWasmMessage :: string where "EventTypeWasmMessage = ''wasm-Message''"
definition EventTypeWasmCallMessage :: string where "EventTypeWasmCallMessage = ''wasm-CallMessage''"
definition EventTypeWasmRollbackMessage :: string where "EventTypeWasmRollbackMessage = ''wasm-RollbackMessage''"

definition EventAttrKeyMsg :: string where "EventAttrKeyMsg = ''msg''"
definition EventAttrKeyTargetNetwork :: string where "EventAttrKeyTargetNetwork = ''targetNetwork''"
definition EventAttrKeyConnSn :: string where "EventAttrKeyConnSn = ''connSn''"
definition EventAttrKeyReqID :: string where "EventAttrKeyReqID = ''reqId''"
definition EventAttrKeyData :: string where "EventAttrKeyData = ''data''"
definition EventAttrKeyFrom :: string where "EventAttrKeyFrom = ''from''"
definition EventAttrKeySn :: string where "EventAttrKeySn = ''sn''"
definition EventAttrKeyContractAddress :: string where "EventAttrKeyContractAddress = ''_contract_address''"

definition CodeTypeOK :: "32 word" where "CodeTypeOK = 0"

record wasm_config =
  wc_common :: common_config
  wc_KeyringDir :: string
  wc_AccountPrefix :: string
  wc_Denomination :: string
  wc_GasPrices :: string
  wc_MinGasAmount :: u64
  wc_MaxGasAmount :: u64
  wc_TxConfirmationInterval :: i64
  wc_BlockBatchSize :: u64

definition Wasm_Validate :: "wasm_config \<Rightarrow> unit result" where
  "Wasm_Validate pc =
     (if cc_ChainName (wc_common pc) = '''' then Err ''chain-name cannot be empty''
      else if cc_HomeDir (wc_common pc) = '''' then Err ''home-dir cannot be empty''
      else Ok ())"

definition Wasm_sanitize :: "wasm_config \<Rightarrow> wasm_config" where
  "Wasm_sanitize pc = (if wc_BlockBatchSize pc = 0 then pc\<lparr>wc_BlockBatchSize := 50\<rparr> else pc)"

text \<open>\<open>contextErr\<close> is the error of connecting the client.\<close>

definition Wasm_NewProvider :: "error option \<Rightarrow> wasm_config \<Rightarrow> string \<Rightarrow> string \<Rightarrow> wasm_config result" where
  "Wasm_NewProvider contextErr pc homePath chainName =
     (let c = (wc_common pc)\<lparr>cc_HomeDir := homePath, cc_ChainName := chainName\<rparr>;
          pc1 = pc\<lparr>wc_common := c, wc_KeyringDir :=
            (if wc_KeyringDir pc = '''' then path_Join [cc_HomeDir c, cc_NID c] else wc_KeyringDir pc)\<rparr>
      in rbind (Wasm_Validate pc1) (\<lambda>_.
         case contextErr of Some e \<Rightarrow> Err e | None \<Rightarrow> Ok (Wasm_sanitize pc1)))"

definition Wasm_NID :: "wasm_config \<Rightarrow> string" where
  "Wasm_NID p = cc_NID (wc_common p)"

definition Wasm_contract :: "wasm_config \<Rightarrow> string \<Rightarrow> string" where
  "Wasm_contract p name = (case map_of (cc_Contracts (wc_common p)) name of None \<Rightarrow> '''' | Some a \<Rightarrow> a)"

definition Wasm_Init :: "wasm_config \<Rightarrow> unit result" where
  "Wasm_Init p = ContractConfigMap_Validate (cc_Contracts (wc_common p))"

section \<open>The clients\<close>

record account =
  ac_Address :: bytes
  ac_AccountNumber :: u64
  ac_Sequence :: u64

text \<open>A transaction factory: whether it simulates, its gas, and what the provider sets.\<close>

record tx_factory =
  tf_SimulateAndExecute :: bool
  tf_Gas :: u64
  tf_GasPrices :: string
  tf_AccountNumber :: u64
  tf_Sequence :: u64

record execute_contract =
  ec_Sender :: string
  ec_Contract :: string
  ec_Msg :: exec_msg

record broadcast_response =
  br_TxHash :: string
  br_Code :: "32 word"
  br_RawLog :: string

record tx_receipt =
  tc_Height :: i64
  tc_Code :: "32 word"

text \<open>What the loop of \<^verbatim>\<open>subscribeTxResult\<close> receives: the end of its context, or an event.\<close>

datatype tx_event = CtxDone error | BadEvent error | TxEvent tx_result_response

record wasm_client =
  wk_GetLatestBlockHeight :: "error + u64"
  wk_GetTransactionReceipt :: "string \<Rightarrow> error + tx_receipt"
  wk_GetBalance :: "string \<Rightarrow> string \<Rightarrow> error + (string \<times> int)"
  wk_BuildTxFactory :: "nat \<Rightarrow> error + tx_factory"
  wk_EstimateGas :: "nat \<Rightarrow> tx_factory \<Rightarrow> execute_contract \<Rightarrow> error + u64"
  wk_PrepareTx :: "nat \<Rightarrow> tx_factory \<Rightarrow> execute_contract \<Rightarrow> error + bytes"
  wk_BroadcastTx :: "nat \<Rightarrow> bytes \<Rightarrow> error + broadcast_response"
  wk_TxSearch :: "tx_search_param \<Rightarrow> error + (result_tx list \<times> int)"
  wk_GetAccountInfo :: "string \<Rightarrow> error + account"
  wk_SetSequence :: "u64 \<Rightarrow> account \<Rightarrow> account \<times> error option"
  wk_SetAddress :: "bytes \<Rightarrow> bytes"
  wk_AddressString :: "bytes \<Rightarrow> string"
  wk_RestoreKeystore :: "error option"
  wk_QuerySmartContract :: "string \<Rightarrow> query_msg \<Rightarrow> error + bytes"
  wk_UnmarshalBool :: "bytes \<Rightarrow> bool \<times> error option"
  wk_UnmarshalInts :: "bytes \<Rightarrow> error + int list"
  wk_GetFee :: "string \<Rightarrow> query_msg \<Rightarrow> error + u64"
  wk_Subscribe :: "string \<Rightarrow> error option"
  wk_TxEvent :: "string \<Rightarrow> tx_event"
  wk_ErrWrongSequence :: string

section \<open>Events\<close>

fun wasm_event_map :: "(string \<times> string) list \<Rightarrow> (string \<times> event_map) list \<Rightarrow> (string \<times> event_map) list" where
  "wasm_event_map [] m = m"
| "wasm_event_map ((contractName, addr) # rest) m =
     (let sig = (if contractName = XcallContract then
                   [(EventTypeWasmCallMessage, CallMessage), (EventTypeWasmRollbackMessage, RollbackMessage)]
                 else if contractName = ConnectionContract then [(EventTypeWasmMessage, EmitMessage)] else [])
      in wasm_event_map rest
           (AList.update addr \<lparr>em_address = addr, em_contract = contractName, em_sigtype = sig\<rparr> m))"

definition Wasm_eventMap :: "wasm_config \<Rightarrow> (string \<times> event_map) list" where
  "Wasm_eventMap p = wasm_event_map (cc_Contracts (wc_common p)) []"

fun Wasm_GetAddressByEventType :: "string \<Rightarrow> (string \<times> event_map) list \<Rightarrow> string" where
  "Wasm_GetAddressByEventType eventType [] = ''''"
| "Wasm_GetAddressByEventType eventType ((addr, contract) # rest) =
     (if list_ex (\<lambda>(sig, name). name = eventType) (em_sigtype contract) then em_address contract
      else Wasm_GetAddressByEventType eventType rest)"

definition wasm_monitor_event :: "string \<Rightarrow> string \<Rightarrow> abci_event" where
  "wasm_monitor_event addr eventType =
     \<lparr>ae_Type = (if eventType = EmitMessage then EventTypeWasmMessage
        else if eventType = CallMessage then EventTypeWasmCallMessage
        else if eventType = RollbackMessage then EventTypeWasmRollbackMessage else ''''),
      ae_Attributes = [(EventAttrKeyContractAddress, [CHR 0x27] @ addr @ [CHR 0x27])]\<rparr>"

definition Wasm_GetMonitorEventFilters :: "(string \<times> event_map) list \<Rightarrow> abci_event list" where
  "Wasm_GetMonitorEventFilters eventMap =
     concat (map (\<lambda>(addr, contract). map (\<lambda>(sig, eventType). wasm_monitor_event addr eventType) (em_sigtype contract)) eventMap)"

fun Wasm_GetEventName :: "string \<Rightarrow> (string \<times> event_map) list \<Rightarrow> string" where
  "Wasm_GetEventName addr [] = ''''"
| "Wasm_GetEventName addr ((a, contract) # rest) =
     (case map_of (em_sigtype contract) addr of Some name \<Rightarrow> name | None \<Rightarrow> Wasm_GetEventName addr rest)"

definition parse_sn :: "string \<Rightarrow> (int \<Rightarrow> wireint message) \<Rightarrow> wireint message result" where
  "parse_sn val f = (case SetString10 val of None \<Rightarrow> Err ''failed to parse connSn from event'' | Some sn \<Rightarrow> Ok (f sn))"

fun parse_emit_attrs :: "(string \<times> string) list \<Rightarrow> wireint message \<Rightarrow> wireint message result" where
  "parse_emit_attrs [] msg = Ok msg"
| "parse_emit_attrs ((key, val) # attrs) msg =
     (if key = EventAttrKeyMsg then
        (case hexstr_ToByte (hexstr_NewFromString val) of
           Panic e \<Rightarrow> Panic e
         | Err e \<Rightarrow> Err (''failed to parse msg data from event: '' @ e)
         | Ok data \<Rightarrow> parse_emit_attrs attrs (msg\<lparr>m_data := data\<rparr>))
      else if key = EventAttrKeyConnSn then
        rbind (parse_sn val (\<lambda>sn. msg\<lparr>m_sn := Some sn\<rparr>)) (parse_emit_attrs attrs)
      else if key = EventAttrKeyTargetNetwork then parse_emit_attrs attrs (msg\<lparr>m_dst := val\<rparr>)
      else if key = EventAttrKeyFrom then parse_emit_attrs attrs (msg\<lparr>m_src := val\<rparr>)
      else parse_emit_attrs attrs msg)"

fun parse_call_attrs :: "(string \<times> string) list \<Rightarrow> wireint message \<Rightarrow> wireint message result" where
  "parse_call_attrs [] msg = Ok msg"
| "parse_call_attrs ((key, val) # attrs) msg =
     (if key = EventAttrKeyReqID then
        rbind (parse_sn val (\<lambda>reqID. msg\<lparr>m_reqid := Some reqID\<rparr>)) (parse_call_attrs attrs)
      else if key = EventAttrKeyData then parse_call_attrs attrs (msg\<lparr>m_data := val\<rparr>)
      else if key = EventAttrKeyFrom then parse_call_attrs attrs (msg\<lparr>m_src := val\<rparr>)
      else if key = EventAttrKeySn then
        rbind (parse_sn val (\<lambda>sn. msg\<lparr>m_sn := Some sn\<rparr>)) (parse_call_attrs attrs)
      else parse_call_attrs attrs msg)"

fun parse_rollback_attrs :: "(string \<times> string) list \<Rightarrow> wireint message \<Rightarrow> wireint message result" where
  "parse_rollback_attrs [] msg = Ok msg"
| "parse_rollback_attrs ((key, val) # attrs) msg =
     (if key = EventAttrKeySn then
        rbind (parse_sn val (\<lambda>sn. msg\<lparr>m_sn := Some sn\<rparr>)) (parse_rollback_attrs attrs)
      else parse_rollback_attrs attrs msg)"

definition wasm_message :: "string \<Rightarrow> string \<Rightarrow> string \<Rightarrow> wireint message" where
  "wasm_message ev src dst = \<lparr>m_dst = dst, m_src = src, m_sn = None, m_data = '''', m_height = 0,
     m_event = ev, m_reqid = None\<rparr>"

text \<open>One event: a message, or none for an unknown type.\<close>

definition parse_event :: "wasm_config \<Rightarrow> abci_event \<Rightarrow> wireint message list result" where
  "parse_event p ev =
     (if ae_Type ev = EventTypeWasmMessage then
        rmap (\<lambda>m. [m]) (parse_emit_attrs (ae_Attributes ev) (wasm_message EmitMessage (Wasm_NID p) ''''))
      else if ae_Type ev = EventTypeWasmCallMessage then
        rmap (\<lambda>m. [m]) (parse_call_attrs (ae_Attributes ev) (wasm_message CallMessage '''' (Wasm_NID p)))
      else if ae_Type ev = EventTypeWasmRollbackMessage then
        rmap (\<lambda>m. [m]) (parse_rollback_attrs (ae_Attributes ev) (wasm_message RollbackMessage (Wasm_NID p) (Wasm_NID p)))
      else Ok [])"

definition ParseMessageFromEvents :: "wasm_config \<Rightarrow> abci_event list \<Rightarrow> wireint message list result" where
  "ParseMessageFromEvents p eventsList = rmap concat (rlist (parse_event p) eventsList)"

section \<open>Searching blocks\<close>

definition perPage :: int where "perPage = 25"

text \<open>One search for one monitored event: the first page, then the pages 2 to \<^verbatim>\<open>TotalCount/perPage + 1\<close>.\<close>

fun search_pages :: "wasm_client \<Rightarrow> tx_search_param \<Rightarrow> int list \<Rightarrow> error + result_tx list" where
  "search_pages cl param [] = Inr []"
| "search_pages cl param (i # pages) =
     (case wk_TxSearch cl (param\<lparr>sp_Page := Some i\<rparr>) of
        Inl e \<Rightarrow> Inl e
      | Inr (txs, totalCount) \<Rightarrow> map_sum id ((@) txs) (search_pages cl param pages))"

definition search_event ::
    "wasm_client \<Rightarrow> height_range \<Rightarrow> abci_event \<Rightarrow> error + result_tx list" where
  "search_event cl heightInfo event =
     (let param = \<lparr>sp_StartHeight = hr_Start heightInfo, sp_EndHeight = hr_End heightInfo, sp_Events = [event],
            sp_Page = None, sp_PerPage = Some perPage\<rparr>
      in case wk_TxSearch cl param of
          Inl e \<Rightarrow> Inl e
        | Inr (txs, totalCount) \<Rightarrow>
           if totalCount > perPage then map_sum id ((@) txs) (search_pages cl param [2..totalCount div perPage + 1])
           else Inr txs)"

text \<open>The log line reads the sequence number of every message through its pointer.\<close>

definition messages_of_tx :: "wasm_config \<Rightarrow> result_tx \<Rightarrow> block_info result" where
  "messages_of_tx p resultTx = rbind (ParseMessageFromEvents p (rt_Events resultTx)) (\<lambda>msgs.
     if list_ex (\<lambda>m. m_sn m = None) msgs then Panic ''nil pointer dereference''
     else Ok \<lparr>bi_height = rt_Height resultTx, bi_messages = map (\<lambda>m. m\<lparr>m_height := rt_Height resultTx\<rparr>) msgs\<rparr>)"

definition getMessagesFromTxList :: "wasm_config \<Rightarrow> result_tx list \<Rightarrow> block_info list result" where
  "getMessagesFromTxList p resultTxList = rlist (messages_of_tx p) resultTxList"

text \<open>A search that fails is only logged: its event contributes nothing.\<close>

definition fetchBlockMessages ::
    "wasm_client \<Rightarrow> wasm_config \<Rightarrow> abci_event list \<Rightarrow> height_range \<Rightarrow> block_info list result" where
  "fetchBlockMessages cl p eventList heightInfo =
     getMessagesFromTxList p (concat (map (\<lambda>event.
       case search_event cl heightInfo event of Inl e \<Rightarrow> [] | Inr txs \<Rightarrow> txs) eventList))"

definition Wasm_GenerateMessages ::
    "wasm_client \<Rightarrow> wasm_config \<Rightarrow> abci_event list \<Rightarrow> u64 \<Rightarrow> wireint message list result" where
  "Wasm_GenerateMessages cl p eventList height =
     rmap (\<lambda>blocks. concat (map bi_messages blocks))
       (fetchBlockMessages cl p eventList \<lparr>hr_Start = height, hr_End = height\<rparr>)"

section \<open>Listening\<close>

definition getStartHeight :: "wasm_config \<Rightarrow> u64 \<Rightarrow> u64 \<Rightarrow> error + u64" where
  "getStartHeight p latestHeight lastSavedHeight =
     (if cc_StartHeight (wc_common p) > 0 \<and> cc_StartHeight (wc_common p) < latestHeight
      then Inr (cc_StartHeight (wc_common p))
      else if lastSavedHeight > latestHeight then Inl ''last saved height cannot be greater than latest height''
      else if lastSavedHeight \<noteq> 0 \<and> lastSavedHeight < latestHeight then Inr lastSavedHeight
      else Inr latestHeight)"

text \<open>
  The ranges \<^verbatim>\<open>getHeightStream\<close> sends; their ends are not cut at \<open>toHeight\<close>. The loop need not end, so
  it is a partial function.
\<close>

partial_function (option) getHeightStream :: "u64 \<Rightarrow> u64 \<Rightarrow> u64 \<Rightarrow> height_range list option" where
  "getHeightStream batch fromHeight toHeight =
     (if fromHeight \<le> toHeight
      then Option.bind (getHeightStream batch (fromHeight + batch) toHeight)
             (\<lambda>rest. Some (\<lparr>hr_Start = fromHeight, hr_End = fromHeight + batch - 1\<rparr> # rest))
      else Some [])"

text \<open>The blocks of the ranges that parse, each with the end of its range as height.\<close>

fun query_ranges ::
    "wasm_client \<Rightarrow> wasm_config \<Rightarrow> abci_event list \<Rightarrow> height_range list \<Rightarrow> block_info list result" where
  "query_ranges cl p eventList [] = Ok []"
| "query_ranges cl p eventList (heightRange # rest) =
     (case fetchBlockMessages cl p eventList heightRange of
        Panic e \<Rightarrow> Panic e
      | Err e \<Rightarrow> query_ranges cl p eventList rest
      | Ok blockInfo \<Rightarrow> rmap ((#) \<lparr>bi_height = hr_End heightRange, bi_messages = concat (map bi_messages blockInfo)\<rparr>)
          (query_ranges cl p eventList rest))"

definition runBlockQuery ::
    "wasm_client \<Rightarrow> wasm_config \<Rightarrow> abci_event list \<Rightarrow> u64 \<Rightarrow> u64 \<Rightarrow> (block_info list result \<times> u64) option" where
  "runBlockQuery cl p eventList fromHeight toHeight =
     map_option (\<lambda>ranges. (query_ranges cl p eventList ranges, toHeight + 1))
       (getHeightStream (wc_BlockBatchSize p) fromHeight toHeight)"

text \<open>
  The listener's two timers: \<open>subscribeStarter\<close> synchronizes, \<open>pollHeightTicker\<close> reads the heights
  anew after a subscription was lost. The pair is (\<open>startHeight\<close>, \<open>latestHeight\<close>).
\<close>

definition Wasm_Listener_start :: "wasm_client \<Rightarrow> wasm_config \<Rightarrow> u64 \<Rightarrow> error + (u64 \<times> u64)" where
  "Wasm_Listener_start cl p lastSavedHeight = (case wk_GetLatestBlockHeight cl of
      Inl e \<Rightarrow> Inl e
    | Inr latestHeight \<Rightarrow> map_sum id (\<lambda>startHeight. (startHeight, latestHeight)) (getStartHeight p latestHeight lastSavedHeight))"

definition Wasm_Listener_subscribe ::
    "wasm_client \<Rightarrow> wasm_config \<Rightarrow> abci_event list \<Rightarrow> u64 \<times> u64 \<Rightarrow> (block_info list result \<times> (u64 \<times> u64)) option" where
  "Wasm_Listener_subscribe cl p eventList hs =
     (if fst hs < snd hs
      then map_option (\<lambda>(bs, startHeight). (bs, (startHeight, snd hs))) (runBlockQuery cl p eventList (fst hs) (snd hs))
      else Some (Ok [], hs))"

definition Wasm_Listener_poll :: "wasm_client \<Rightarrow> u64 \<Rightarrow> u64 \<times> u64 \<Rightarrow> u64 \<times> u64" where
  "Wasm_Listener_poll cl lastSaved hs =
     (if lastSaved = 0 then snd hs else lastSaved,
      case wk_GetLatestBlockHeight cl of Inl e \<Rightarrow> 0 | Inr h \<Rightarrow> h)"

definition Wasm_subscriptions :: "(string \<times> event_map) list \<Rightarrow> u64 \<Rightarrow> subscribe_opts list" where
  "Wasm_subscriptions contracts latestHeight =
     concat (map (\<lambda>(addr, event). map (\<lambda>(msgType, name).
       \<lparr>so_Height = latestHeight, so_Address = em_address event, so_Method = msgType\<rparr>) (em_sigtype event)) contracts)"

definition subscribe_query :: "subscribe_opts \<Rightarrow> string" where
  "subscribe_query opts = Join
     [''tm.event = '' @ [CHR 0x27] @ ''Tx'' @ [CHR 0x27],
      ''tx.height >= '' @ int_str 10 (uint (so_Height opts)) @ '' '',
      so_Method opts @ ''._contract_address = '' @ [CHR 0x27] @ so_Address opts @ [CHR 0x27]] '' AND ''"

text \<open>An event of a subscription; it is sent before the log line reads the sequence numbers.\<close>

definition on_subscribed_event ::
    "wasm_config \<Rightarrow> subscribe_opts \<Rightarrow> tx_result_response \<Rightarrow> (block_info option \<times> subscribe_opts) result" where
  "on_subscribed_event p opts res = (case ParseMessageFromEvents p (tq_Events res) of
      Panic e \<Rightarrow> Panic e
    | Err e \<Rightarrow> Ok (None, opts)
    | Ok messages \<Rightarrow>
       if list_ex (\<lambda>m. m_sn m = None) messages then Panic ''nil pointer dereference''
       else Ok (Some \<lparr>bi_height = tq_Height res, bi_messages = messages\<rparr>, opts\<lparr>so_Height := tq_Height res\<rparr>))"

section \<open>Queries\<close>

definition Wasm_QueryTransactionReceipt :: "wasm_client \<Rightarrow> string \<Rightarrow> error + receipt" where
  "Wasm_QueryTransactionReceipt cl txHash = (case wk_GetTransactionReceipt cl txHash of
      Inl e \<Rightarrow> Inl e
    | Inr res \<Rightarrow> Inr \<lparr>rc_txhash = txHash, rc_height = tc_Height res, rc_status = (CodeTypeOK = tc_Code res)\<rparr>)"

definition Wasm_MessageReceived ::
    "bool \<Rightarrow> wasm_client \<Rightarrow> wasm_config \<Rightarrow> wireint message_key \<Rightarrow> bool \<times> error option" where
  "Wasm_MessageReceived late cl p key =
     (if k_event key = EmitMessage then
        (case wk_QuerySmartContract cl (Wasm_contract p ConnectionContract)
                (GetReceiptMsg (k_src key) (wire_String (k_sn key))) of
           Inl e \<Rightarrow> (False, Some e)
         | Inr data \<Rightarrow> (late \<and> fst (wk_UnmarshalBool cl data), snd (wk_UnmarshalBool cl data)))
      else if k_event key = CallMessage then (False, None)
      else if k_event key = RollbackMessage then (False, None)
      else (True, Some ''unknown event type''))"

definition Wasm_QueryBalance :: "wasm_client \<Rightarrow> wasm_config \<Rightarrow> string \<Rightarrow> error + coin" where
  "Wasm_QueryBalance cl p addr = (case wk_GetBalance cl addr (wc_Denomination p) of
      Inl e \<Rightarrow> Inl e | Inr (denom, amount) \<Rightarrow> Inr \<lparr>co_denom = denom, co_amount = big_Uint64 amount\<rparr>)"

definition Wasm_ShouldReceiveMessage :: "wireint message \<Rightarrow> error + bool" where
  "Wasm_ShouldReceiveMessage m = Inr True"

definition Wasm_ShouldSendMessage :: "wireint message \<Rightarrow> error + bool" where
  "Wasm_ShouldSendMessage m = Inr True"

definition Wasm_GetFee :: "wasm_client \<Rightarrow> wasm_config \<Rightarrow> string \<Rightarrow> bool \<Rightarrow> error + u64" where
  "Wasm_GetFee cl p networkID responseFee =
     wk_GetFee cl (Wasm_contract p ConnectionContract) (NewExecGetFee networkID responseFee)"

definition getNumOfPipelines :: "int \<Rightarrow> int \<Rightarrow> int" where
  "getNumOfPipelines cpu diff = (if diff \<le> cpu then diff else cpu)"

section \<open>Sending transactions\<close>

text \<open>\<open>ws_sent\<close> records every transaction handed to \<^verbatim>\<open>BroadcastTx\<close>: the call and its sequence number.\<close>

record wasm_state =
  ws_wallet :: "account option"
  ws_sent :: "(execute_contract \<times> u64 \<times> u64) list"

definition Wasm_Wallet :: "wasm_client \<Rightarrow> wasm_config \<Rightarrow> wasm_state \<Rightarrow> bytes \<times> wasm_state" where
  "Wasm_Wallet cl p s =
     (let restore = (case wk_RestoreKeystore cl of
            Some e \<Rightarrow> ('''', s)
          | None \<Rightarrow> (case wk_GetAccountInfo cl (cc_Address (wc_common p)) of
              Inl e \<Rightarrow> ('''', s)
            | Inr acc \<Rightarrow> (wk_SetAddress cl (ac_Address acc), s\<lparr>ws_wallet := Some acc\<rparr>)))
      in case ws_wallet s of
          None \<Rightarrow> restore
        | Some acc \<Rightarrow> if ac_Address acc = '''' then restore else (ac_Address acc, s))"

definition getRawContractMessage :: "wasm_client \<Rightarrow> wireint message \<Rightarrow> exec_msg result" where
  "getRawContractMessage cl message =
     (if m_event message = EmitMessage then Ok (NewExecRecvMsg message)
      else if m_event message = CallMessage then Ok (NewExecExecMsg (wk_UnmarshalInts cl) message)
      else if m_event message = RevertMessage then Ok (NewExecRevertMsg message)
      else if m_event message = SetAdmin then Ok (NewExecSetAdmin (m_dst message))
      else if m_event message = ClaimFee then Ok NewExecClaimFee
      else if m_event message = SetFee then Ok (NewExecSetFee (m_src message) (m_sn message) (m_reqid message))
      else if m_event message = RollbackMessage then Ok (NewExecExecuteRollback (m_sn message))
      else Err (''unknown event type: '' @ m_event message @ '' ''))"

definition prepareAndPushTxToMemPool ::
    "wasm_client \<Rightarrow> wasm_config \<Rightarrow> nat \<Rightarrow> u64 \<Rightarrow> u64 \<Rightarrow> execute_contract \<Rightarrow> wasm_state
     \<Rightarrow> broadcast_response result \<times> wasm_state" where
  "prepareAndPushTxToMemPool cl p attempt acc seq msg s =
     (case wk_BuildTxFactory cl attempt of
        Inl e \<Rightarrow> (Err e, s)
      | Inr txf0 \<Rightarrow>
         let txf1 = txf0\<lparr>tf_GasPrices := wc_GasPrices p, tf_AccountNumber := acc, tf_Sequence := seq\<rparr> in
         (case (if tf_SimulateAndExecute txf1 then
                  map_sum id (\<lambda>adjusted. txf1\<lparr>tf_Gas := adjusted\<rparr>) (wk_EstimateGas cl attempt txf1 msg)
                else Inr txf1) of
            Inl e \<Rightarrow> (Err e, s)
          | Inr txf \<Rightarrow>
             if tf_Gas txf < wc_MinGasAmount p then
               (Err (''gas amount '' @ int_str 10 (uint (tf_Gas txf)) @ '' is too low; the minimum allowed gas amount is ''
                  @ int_str 10 (uint (wc_MinGasAmount p))), s)
             else if tf_Gas txf > wc_MaxGasAmount p then
               (Err (''gas amount '' @ int_str 10 (uint (tf_Gas txf)) @ '' exceeds the maximum allowed limit of ''
                  @ int_str 10 (uint (wc_MaxGasAmount p))), s)
             else (case wk_PrepareTx cl attempt txf msg of
                Inl e \<Rightarrow> (Err e, s)
              | Inr txBytes \<Rightarrow>
                 let s1 = s\<lparr>ws_sent := ws_sent s @ [(msg, seq, tf_Gas txf)]\<rparr> in
                 (case wk_BroadcastTx cl attempt txBytes of
                    Inl e \<Rightarrow> (Err e, s1)
                  | Inr res \<Rightarrow>
                     if br_Code res \<noteq> CodeTypeOK then (Err (''failed to send tx: '' @ br_RawLog res), s1)
                     else (Ok res, s1)))))"

definition Wasm_sendMessage ::
    "wasm_client \<Rightarrow> wasm_config \<Rightarrow> nat \<Rightarrow> execute_contract \<Rightarrow> wasm_state \<Rightarrow> broadcast_response result \<times> wasm_state" where
  "Wasm_sendMessage cl p attempt msg s = (case ws_wallet s of
      None \<Rightarrow> (Panic ''nil pointer dereference'', s)
    | Some w \<Rightarrow> prepareAndPushTxToMemPool cl p attempt (ac_AccountNumber w) (ac_Sequence w) msg s)"

definition handleSequence :: "wasm_client \<Rightarrow> wasm_config \<Rightarrow> wasm_state \<Rightarrow> error option result \<times> wasm_state" where
  "handleSequence cl p s =
     (let (addr, s1) = Wasm_Wallet cl p s
      in case wk_GetAccountInfo cl (wk_AddressString cl addr) of
          Inl e \<Rightarrow> (Ok (Some e), s1)
        | Inr acc \<Rightarrow> (case ws_wallet s1 of
            None \<Rightarrow> (Panic ''nil pointer dereference'', s1)
          | Some w \<Rightarrow> let (w', e) = wk_SetSequence cl (ac_Sequence acc) w in (Ok e, s1\<lparr>ws_wallet := Some w'\<rparr>)))"

definition call_contract :: "wasm_config \<Rightarrow> string \<Rightarrow> string option" where
  "call_contract p ev =
     (if ev \<in> {EmitMessage, RevertMessage, SetAdmin, ClaimFee, SetFee} then Some (Wasm_contract p ConnectionContract)
      else if ev \<in> {CallMessage, RollbackMessage} then Some (Wasm_contract p XcallContract)
      else None)"

definition Wasm_call ::
    "wasm_client \<Rightarrow> wasm_config \<Rightarrow> wireint message \<Rightarrow> wasm_state \<Rightarrow> broadcast_response result \<times> wasm_state" where
  "Wasm_call cl p message s = (case getRawContractMessage cl message of
      Panic e \<Rightarrow> (Panic e, s)
    | Err e \<Rightarrow> (Err e, s)
    | Ok rawMsg \<Rightarrow>
       (case call_contract p (m_event message) of
          None \<Rightarrow> (Err (''unknown event type: '' @ m_event message @ '' ''), s)
        | Some contract \<Rightarrow>
           let (addr, s1) = Wasm_Wallet cl p s;
               msg = \<lparr>ec_Sender = wk_AddressString cl addr, ec_Contract = contract, ec_Msg = rawMsg\<rparr>
           in case Wasm_sendMessage cl p 0 msg s1 of
               (Err err, s2) \<Rightarrow>
                 if Contains err (wk_ErrWrongSequence cl) then
                   (case handleSequence cl p s2 of
                      (Panic e, s3) \<Rightarrow> (Panic e, s3)
                    | (Err e, s3) \<Rightarrow> (Err e, s3)
                    | (Ok (Some mmErr), s3) \<Rightarrow>
                        (Err (''failed to handle sequence mismatch error: '' @ mmErr @ '' || '' @ err), s3)
                    | (Ok None, s3) \<Rightarrow> Wasm_sendMessage cl p 1 msg s3)
                 else (Err err, s2)
             | r \<Rightarrow> r))"

text \<open>
  \<^verbatim>\<open>subscribeTxResult\<close>: the response and the error. The wait itself has no time limit: the context with
  the timeout is the subscription's, the loop selects on the caller's.
\<close>

definition subscribeTxResult :: "wasm_client \<Rightarrow> string \<Rightarrow> tx_response \<times> error option" where
  "subscribeTxResult cl txHash =
     (let none = \<lparr>tr_height = 0, tr_txhash = txHash, tr_codespace = '''', tr_code = Failed, tr_data = ''''\<rparr>;
          query = ''tm.event = '' @ [CHR 0x27] @ ''Tx'' @ [CHR 0x27] @ '' AND tx.hash = '' @ [CHR 0x27] @ txHash @ [CHR 0x27]
      in case wk_Subscribe cl query of
          Some e \<Rightarrow> (none, Some e)
        | None \<Rightarrow> (case wk_TxEvent cl query of
            CtxDone e \<Rightarrow> (none, Some e)
          | BadEvent e \<Rightarrow> (none, Some e)
          | TxEvent txRes \<Rightarrow>
             let res = \<lparr>tr_height = tq_Height txRes, tr_txhash = txHash, tr_codespace = tq_Codespace txRes,
                   tr_code = Failed, tr_data = tq_Data txRes\<rparr>
             in if tq_Code txRes \<noteq> CodeTypeOK then (res, Some (''transaction failed with error: '' @ tq_Log txRes))
                else (res\<lparr>tr_code := Success\<rparr>, None)))"

type_synonym wasm_callbacks = "(wireint message_key \<times> tx_response \<times> error option) list"

definition Wasm_waitForTxResult ::
    "wasm_client \<Rightarrow> wireint message_key \<Rightarrow> broadcast_response \<Rightarrow> wasm_callbacks \<times> error option" where
  "Wasm_waitForTxResult cl mk tx = (case subscribeTxResult cl (br_TxHash tx) of
      (res, Some err) \<Rightarrow> ([(mk, res, Some err)], Some err)
    | (res, None) \<Rightarrow> ([(mk, res, None)], None))"

text \<open>An error of \<^verbatim>\<open>SetSequence\<close> is only logged.\<close>

definition Wasm_Route ::
    "wasm_client \<Rightarrow> wasm_config \<Rightarrow> wireint message \<Rightarrow> wasm_state
     \<Rightarrow> (wasm_callbacks \<times> error option) result \<times> wasm_state" where
  "Wasm_Route cl p message s = (case Wasm_call cl p message s of
      (Panic e, s1) \<Rightarrow> (Panic e, s1)
    | (Err e, s1) \<Rightarrow> (Ok ([], Some e), s1)
    | (Ok res, s1) \<Rightarrow> (case ws_wallet s1 of
        None \<Rightarrow> (Panic ''nil pointer dereference'', s1)
      | Some w \<Rightarrow>
         (Ok (Wasm_waitForTxResult cl (MessageKey message) res),
          s1\<lparr>ws_wallet := Some (fst (wk_SetSequence cl (ac_Sequence w + 1) w))\<rparr>)))"

section \<open>Administration\<close>

definition wasm_admin ::
    "wasm_client \<Rightarrow> wasm_config \<Rightarrow> wireint message \<Rightarrow> wasm_state \<Rightarrow> unit result \<times> wasm_state" where
  "wasm_admin cl p msg s = (let (r, s1) = Wasm_call cl p msg s in (rmap (\<lambda>_. ()) r, s1))"

definition Wasm_RevertMessage where
  "Wasm_RevertMessage cl p sn s = wasm_admin cl p ((wasm_message RevertMessage '''' '''')\<lparr>m_sn := sn\<rparr>) s"

definition Wasm_SetFee where
  "Wasm_SetFee cl p networkdID msgFee resFee s =
     wasm_admin cl p ((wasm_message SetFee networkdID '''')\<lparr>m_sn := msgFee, m_reqid := resFee\<rparr>) s"

definition Wasm_ClaimFee where
  "Wasm_ClaimFee cl p s = wasm_admin cl p (wasm_message ClaimFee '''' '''') s"

text \<open>\<^verbatim>\<open>SetAdmin\<close> puts the address into \<open>Src\<close>; the contract message takes it from \<open>Dst\<close>.\<close>

definition Wasm_SetAdmin where
  "Wasm_SetAdmin cl p addr s = wasm_admin cl p (wasm_message SetAdmin addr '''') s"

definition Wasm_ExecuteRollback where
  "Wasm_ExecuteRollback cl p sn s = wasm_admin cl p ((wasm_message RollbackMessage '''' '''')\<lparr>m_sn := sn\<rparr>) s"

end
