(* ===== verification/Wasm_Props.thy ===== *)
theory Wasm_Props
  imports Wasm
begin

text \<open>
  Properties of the CosmWasm provider: what its paged transaction search finds, the ranges it
  synchronizes, how a message survives from event to contract call, and the sequence numbers of its
  transactions.
\<close>

section \<open>Paging\<close>

text \<open>
  The documented behaviour of CometBFT's \<^verbatim>\<open>tx_search\<close>: pages count from 1, a missing page is the first,
  and a page beyond the last one is an error.
\<close>

definition pages_of :: "int \<Rightarrow> int" where
  "pages_of n = max 1 ((n + perPage - 1) div perPage)"

definition serves :: "wasm_client \<Rightarrow> tx_search_param \<Rightarrow> result_tx list \<Rightarrow> bool" where
  "serves cl param txs = (\<forall>page. wk_TxSearch cl (param\<lparr>sp_Page := page\<rparr>) =
     (let i = (case page of None \<Rightarrow> 1 | Some i \<Rightarrow> i) in
      if i < 1 \<or> i > pages_of (int (length txs)) then Inl ''page should be within range''
      else Inr (take 25 (drop (25 * nat (i - 1)) txs), int (length txs))))"

lemma servesD:
  "serves cl param txs \<Longrightarrow> wk_TxSearch cl (param\<lparr>sp_Page := page\<rparr>) =
     (let i = (case page of None \<Rightarrow> 1 | Some i \<Rightarrow> i) in
      if i < 1 \<or> i > pages_of (int (length txs)) then Inl ''page should be within range''
      else Inr (take 25 (drop (25 * nat (i - 1)) txs), int (length txs)))"
  by (simp add: serves_def)

lemma search_pages_append_bad:
  "search_pages cl param [i] = Inl e \<Longrightarrow> search_pages cl param is = Inr xs \<Longrightarrow>
   search_pages cl param (is @ [i]) = Inl e"
  by (induction "is" arbitrary: xs) (auto split: sum.splits prod.splits simp: map_sum_def)

lemma search_pages_valid:
  assumes "serves cl param txs" "1 \<le> a" "a + int k - 1 \<le> pages_of (int (length txs))"
  shows "search_pages cl param [a..a + int k - 1] = Inr (take (25 * k) (drop (25 * nat (a - 1)) txs))"
  using assms(2,3)
proof (induction k arbitrary: a)
  case 0
  then show ?case by simp
next
  case (Suc k)
  have up: "[a..a + int (Suc k) - 1] = a # [a + 1..(a + 1) + int k - 1]" by (simp add: upto_rec1)
  have ok: "wk_TxSearch cl (param\<lparr>sp_Page := Some a\<rparr>) = Inr (take 25 (drop (25 * nat (a - 1)) txs), int (length txs))"
    using servesD [OF assms(1), of "Some a"] Suc.prems by simp
  have IH: "search_pages cl param [a + 1..(a + 1) + int k - 1] = Inr (take (25 * k) (drop (25 * nat a) txs))"
    using Suc.IH [of "a + 1"] Suc.prems by simp
  have n: "25 * nat a = 25 + 25 * nat (a - 1)" using Suc.prems(1) by (simp add: nat_diff_distrib)
  have "take 25 (drop (25 * nat (a - 1)) txs) @ take (25 * k) (drop (25 * nat a) txs) =
      take (25 * Suc k) (drop (25 * nat (a - 1)) txs)"
    by (simp add: n take_add add.commute)
  then show ?case unfolding up using ok IH by simp
qed

lemma pages_of_nat: "pages_of (int n) = max 1 (int ((n + 24) div 25))"
  by (simp add: pages_of_def perPage_def zdiv_int)

lemma pages_exact: "25 dvd n \<Longrightarrow> (n + 24) div 25 = n div (25 :: nat)"
  by (auto elim!: dvdE)

lemma pages_partial:
  assumes "\<not> 25 dvd n"
  shows "(n + 24) div 25 = n div (25 :: nat) + 1"
proof -
  have r: "1 \<le> n mod 25" "n mod 25 < 25" using assms by (simp_all add: dvd_eq_mod_eq_0 Suc_le_eq)
  have "n + 24 = n mod 25 + 24 + 25 * (n div 25)" by simp
  then have "(n + 24) div 25 = (n mod 25 + 24) div 25 + n div 25" by (metis div_mult_self2 zero_neq_numeral add.commute)
  also have "(n mod 25 + 24) div 25 = 1" using r by (intro div_nat_eqI) simp_all
  finally show ?thesis by simp
qed

lemma search_event_pages:
  fixes hr ev defines "param \<equiv> \<lparr>sp_StartHeight = hr_Start hr, sp_EndHeight = hr_End hr, sp_Events = [ev],
      sp_Page = None, sp_PerPage = Some perPage\<rparr>"
  assumes "serves cl param txs"
  shows "search_event cl hr ev =
    (if length txs > 25 \<and> 25 dvd length txs then Inl ''page should be within range'' else Inr txs)"
proof -
  let ?n = "length txs"
  have p0: "param\<lparr>sp_Page := None\<rparr> = param" by (simp add: param_def)
  have pos: "1 \<le> pages_of (int ?n)" by (simp add: pages_of_def)
  have first: "wk_TxSearch cl param = Inr (take 25 txs, int ?n)"
    using servesD [OF assms(2), of None] pos by (simp add: p0)
  have sp: "search_event cl hr ev = (if int ?n > perPage
      then map_sum id ((@) (take 25 txs)) (search_pages cl param [2..int ?n div perPage + 1]) else Inr (take 25 txs))"
    using first by (simp add: search_event_def param_def)
  show ?thesis
  proof (cases "?n > 25")
    case False
    then show ?thesis by (simp add: sp perPage_def)
  next
    case True
    let ?q = "?n div 25"
    have q: "1 \<le> ?q" using True by simp
    have last: "int ?n div perPage + 1 = int ?q + 1" by (simp add: perPage_def zdiv_int)
    have ev: "search_event cl hr ev = map_sum id ((@) (take 25 txs)) (search_pages cl param [2..int ?q + 1])"
      using True last by (simp add: sp perPage_def)
    show ?thesis
    proof (cases "25 dvd ?n")
      case False
      have "(?n + 24) div 25 = ?q + 1" by (rule pages_partial [OF False])
      then have "pages_of (int ?n) = int ?q + 1" by (simp add: pages_of_nat)
      then have "search_pages cl param [2..2 + int ?q - 1] = Inr (take (25 * ?q) (drop (25 * nat (2 - 1)) txs))"
        by (intro search_pages_valid [OF assms(2)]) simp_all
      moreover have "take 25 txs @ take (25 * ?q) (drop 25 txs) = txs"
      proof -
        have "?n \<le> 25 * ?q + 25" using div_mult_mod_eq [of ?n 25] mod_less_divisor [of 25 ?n] by linarith
        then have "take (25 * ?q) (drop 25 txs) = drop 25 txs" by simp
        then show ?thesis by simp
      qed
      ultimately show ?thesis using ev False by (simp add: add.commute)
    next
      case dvd: True
      have "(?n + 24) div 25 = ?q" by (rule pages_exact [OF dvd])
      then have pg: "pages_of (int ?n) = int ?q" using q by (simp add: pages_of_nat)
      have "search_pages cl param [2..2 + int (?q - 1) - 1] = Inr (take (25 * (?q - 1)) (drop (25 * nat (2 - 1)) txs))"
        using pg q by (intro search_pages_valid [OF assms(2)]) simp_all
      moreover have "search_pages cl param [int ?q + 1] = Inl ''page should be within range''"
        using servesD [OF assms(2), of "Some (int ?q + 1)"] pg by simp
      moreover have "[2..int ?q + 1] = [2..2 + int (?q - 1) - 1] @ [int ?q + 1]"
        using q by (simp add: upto_rec2 of_nat_diff)
      ultimately have "search_pages cl param [2..int ?q + 1] = Inl ''page should be within range''"
        using search_pages_append_bad by metis
      then show ?thesis using ev True dvd by simp
    qed
  qed
qed

definition search_param :: "height_range \<Rightarrow> abci_event \<Rightarrow> tx_search_param" where
  "search_param hr ev = \<lparr>sp_StartHeight = hr_Start hr, sp_EndHeight = hr_End hr, sp_Events = [ev],
     sp_Page = None, sp_PerPage = Some perPage\<rparr>"

text \<open>
  C28. A search of a range of heights finds the transactions of every monitored event, whatever
  their number, except when the number is a multiple of 25 greater than 25: then it asks for a page
  that does not exist, and all transactions of that event are dropped.
\<close>
theorem wasm_search_finds:
  assumes "\<And>ev. ev \<in> set evs \<Longrightarrow> serves cl (search_param hr ev) (found ev)"
  shows "fetchBlockMessages cl p evs hr = getMessagesFromTxList p
    (concat (map (\<lambda>ev. if length (found ev) > 25 \<and> 25 dvd length (found ev) then [] else found ev) evs))"
proof -
  have "(case search_event cl hr ev of Inl e \<Rightarrow> [] | Inr txs \<Rightarrow> txs) =
      (if length (found ev) > 25 \<and> 25 dvd length (found ev) then [] else found ev)" if "ev \<in> set evs" for ev
    using search_event_pages [OF assms [OF that, unfolded search_param_def]] by simp
  then show ?thesis by (simp add: fetchBlockMessages_def cong: map_cong)
qed

text \<open>A concrete CosmWasm chain for the witnesses: 30 transactions of one event, served in pages.\<close>

definition ex_wasm_tx :: result_tx where
  "ex_wasm_tx = \<lparr>rt_Height = 9, rt_Events = [\<lparr>ae_Type = EventTypeWasmMessage,
     ae_Attributes = [(EventAttrKeyTargetNetwork, ''icon''), (EventAttrKeyConnSn, ''4''), (EventAttrKeyMsg, ''6869'')]\<rparr>]\<rparr>"

definition ex_search :: "result_tx list \<Rightarrow> tx_search_param \<Rightarrow> error + (result_tx list \<times> int)" where
  "ex_search txs param = (let i = (case sp_Page param of None \<Rightarrow> 1 | Some i \<Rightarrow> i) in
      if i < 1 \<or> i > pages_of (int (length txs)) then Inl ''page should be within range''
      else Inr (take 25 (drop (25 * nat (i - 1)) txs), int (length txs)))"

definition ex_wasm_config :: wasm_config where
  "ex_wasm_config = \<lparr>wc_common =
     \<lparr>cc_ChainName = ''archway'', cc_RPCUrl = '''', cc_StartHeight = 0, cc_Address = ''archway1'',
      cc_Contracts = [(XcallContract, ''x''), (ConnectionContract, ''c'')], cc_FinalityBlock = 0,
      cc_NID = ''wasm'', cc_HomeDir = ''/'', cc_Disabled = False\<rparr>,
     wc_KeyringDir = '''', wc_AccountPrefix = ''archway'', wc_Denomination = ''arch'', wc_GasPrices = ''1arch'', wc_MinGasAmount = 10, wc_MaxGasAmount = 1000,
     wc_TxConfirmationInterval = 6000000000, wc_BlockBatchSize = 50\<rparr>"

definition ex_account :: account where
  "ex_account = \<lparr>ac_Address = ''addr'', ac_AccountNumber = 3, ac_Sequence = 8\<rparr>"

definition ex_wasm_client :: "result_tx list \<Rightarrow> wasm_client" where
  "ex_wasm_client txs =
     \<lparr>wk_GetLatestBlockHeight = Inr 120, wk_GetTransactionReceipt = (\<lambda>_. Inl ''none''),
      wk_GetBalance = (\<lambda>_ d. Inr (d, 5)),
      wk_BuildTxFactory = (\<lambda>_. Inr \<lparr>tf_SimulateAndExecute = True, tf_Gas = 0, tf_GasPrices = '''',
        tf_AccountNumber = 0, tf_Sequence = 0\<rparr>),
      wk_EstimateGas = (\<lambda>_ _ _. Inr 200), wk_PrepareTx = (\<lambda>_ _ _. Inr ''tx''),
      wk_BroadcastTx = (\<lambda>attempt _. if attempt = 0 then Inl ''incorrect account sequence''
        else Inr \<lparr>br_TxHash = ''AB'', br_Code = 0, br_RawLog = ''''\<rparr>),
      wk_TxSearch = ex_search txs, wk_GetAccountInfo = (\<lambda>_. Inr (ex_account\<lparr>ac_Sequence := 11\<rparr>)),
      wk_SetSequence = (\<lambda>n a. (a\<lparr>ac_Sequence := n\<rparr>, None)), wk_SetAddress = (\<lambda>a. a),
      wk_AddressString = (\<lambda>a. a), wk_RestoreKeystore = None, wk_QuerySmartContract = (\<lambda>_ _. Inr ''true''),
      wk_UnmarshalBool = (\<lambda>d. (d = ''true'', None)), wk_UnmarshalInts = (\<lambda>_. Inl ''no array''),
      wk_GetFee = (\<lambda>_ _. Inr 1), wk_Subscribe = (\<lambda>_. None),
      wk_TxEvent = (\<lambda>_. TxEvent \<lparr>tq_Height = 130, tq_Code = 0, tq_Codespace = '''', tq_Data = '''', tq_Log = '''', tq_Events = []\<rparr>),
      wk_ErrWrongSequence = ''incorrect account sequence''\<rparr>"

lemma ex_serves: "serves (ex_wasm_client txs) param txs"
  by (simp add: serves_def ex_wasm_client_def ex_search_def)

theorem wasm_search_finds_witness:
  "rmap length (fetchBlockMessages (ex_wasm_client (replicate 30 ex_wasm_tx)) ex_wasm_config
      [wasm_monitor_event ''c'' EmitMessage] \<lparr>hr_Start = 1, hr_End = 50\<rparr>) = Ok 30 \<and>
   fetchBlockMessages (ex_wasm_client (replicate 50 ex_wasm_tx)) ex_wasm_config
      [wasm_monitor_event ''c'' EmitMessage] \<lparr>hr_Start = 1, hr_End = 50\<rparr> = Ok []"
proof -
  have f: "fetchBlockMessages (ex_wasm_client (replicate n ex_wasm_tx)) ex_wasm_config
      [wasm_monitor_event ''c'' EmitMessage] \<lparr>hr_Start = 1, hr_End = 50\<rparr> =
    getMessagesFromTxList ex_wasm_config (concat (map (\<lambda>ev. if length (replicate n ex_wasm_tx) > 25 \<and>
      25 dvd length (replicate n ex_wasm_tx) then [] else replicate n ex_wasm_tx) [wasm_monitor_event ''c'' EmitMessage]))" for n
    by (rule wasm_search_finds) (rule ex_serves)
  have "rmap length (getMessagesFromTxList ex_wasm_config (replicate 30 ex_wasm_tx)) = Ok 30" by code_simp
  then show ?thesis unfolding f by (simp add: getMessagesFromTxList_def)
qed

section \<open>Ranges\<close>

definition range_heights :: "height_range list \<Rightarrow> nat list" where
  "range_heights rs = concat (map (\<lambda>r. [unat (hr_Start r)..<Suc (unat (hr_End r))]) rs)"

lemma getHeightStream_covers:
  assumes "0 < batch" "unat to + unat batch < 2 ^ 64"
  shows "\<exists>rs. getHeightStream batch from to = Some rs \<and>
    range_heights rs = [unat from..<unat from + unat batch * length rs] \<and>
    (from \<le> to \<longrightarrow> unat to < unat from + unat batch * length rs \<and> unat from + unat batch * length rs \<le> unat to + unat batch)"
proof (induction "Suc (unat to) - unat from" arbitrary: "from" rule: less_induct)
  case less
  show ?case
  proof (cases "from \<le> to")
    case True
    have b: "0 < unat batch" using assms(1) by (simp add: word_less_nat_alt)
    have le: "unat from \<le> unat to" using True by (simp add: word_le_nat_alt)
    have "unat from + unat batch < 2 ^ LENGTH(64)" using le assms(2) by simp
    then have e: "unat (from + batch) = unat from + unat batch" by (rule unat_add_lem [THEN iffD1])
    have "1 \<le> from + batch" using e b by (simp add: word_le_nat_alt)
    then have e1: "unat (from + batch - 1) = unat from + unat batch - 1" using e by (simp add: unat_sub)
    have "Suc (unat to) - unat (from + batch) < Suc (unat to) - unat from" using le b e by simp
    from less.hyps [OF this] obtain rs where rs: "getHeightStream batch (from + batch) to = Some rs"
      "range_heights rs = [unat from + unat batch..<unat from + unat batch + unat batch * length rs]"
      "from + batch \<le> to \<longrightarrow> unat to < unat from + unat batch + unat batch * length rs \<and>
         unat from + unat batch + unat batch * length rs \<le> unat to + unat batch" unfolding e by blast
    let ?r = "\<lparr>hr_Start = from, hr_End = from + batch - 1\<rparr>"
    have "getHeightStream batch from to = Some (?r # rs)" using True rs(1) by (subst getHeightStream.simps) simp
    moreover have "range_heights (?r # rs) = [unat from..<unat from + unat batch * length (?r # rs)]"
    proof -
      have "range_heights (?r # rs) = [unat from..<unat from + unat batch] @ range_heights rs"
        using b by (simp add: range_heights_def e1 del: upt_Suc)
      also have "\<dots> = [unat from..<unat from + unat batch + unat batch * length rs]"
        unfolding rs(2) by (rule upt_add_eq_append [symmetric]) simp
      finally show ?thesis by (simp add: algebra_simps)
    qed
    moreover have "unat to < unat from + unat batch * length (?r # rs) \<and>
        unat from + unat batch * length (?r # rs) \<le> unat to + unat batch"
    proof (cases "from + batch \<le> to")
      case True
      then show ?thesis using rs(3) by (simp add: algebra_simps)
    next
      case False
      then have "rs = []" using rs(1) by (subst (asm) getHeightStream.simps) simp
      then show ?thesis using False le e by (simp add: word_le_nat_alt)
    qed
    ultimately show ?thesis by blast
  next
    case False
    then have "getHeightStream batch from to = Some []" by (subst getHeightStream.simps) simp
    then show ?thesis using False by (simp add: range_heights_def)
  qed
qed

text \<open>
  C29. A synchronization from one height to a later one ends, and searches every height from the first
  on once, without gaps; it goes beyond the last height by less than a batch, and the listener then
  resumes directly after the last height, so heights it has searched already are searched again.
\<close>
theorem wasm_ranges:
  assumes "0 < wc_BlockBatchSize p" "unat to + unat (wc_BlockBatchSize p) < 2 ^ 64" "from \<le> to"
  shows "\<exists>rs upto. getHeightStream (wc_BlockBatchSize p) from to = Some rs \<and>
    range_heights rs = [unat from..<upto] \<and> unat to < upto \<and> upto \<le> unat to + unat (wc_BlockBatchSize p) \<and>
    runBlockQuery cl p evs from to = Some (query_ranges cl p evs rs, to + 1)"
  using getHeightStream_covers [OF assms(1,2), of "from"] assms(3) by (auto simp: runBlockQuery_def)

theorem wasm_ranges_witness:
  "\<exists>rs upto. getHeightStream 50 10 120 = Some rs \<and> range_heights rs = [10..<upto] \<and> 120 < upto \<and> upto \<le> 170"
proof -
  have a: "0 < wc_BlockBatchSize ex_wasm_config" "unat (120 :: u64) + unat (wc_BlockBatchSize ex_wasm_config) < 2 ^ 64"
    "(10 :: u64) \<le> 120" by (simp_all add: ex_wasm_config_def)
  from wasm_ranges [OF a, of "ex_wasm_client []" "[]"] show ?thesis by (auto simp: ex_wasm_config_def)
qed

end
