(* ===== verification/Wasm_Send.thy ===== *)
theory Wasm_Send
  imports Wasm_Props Routing
begin

text \<open>
  Properties of the CosmWasm provider's messages and transactions: their content, their sequence
  numbers, and what \<^verbatim>\<open>Route\<close> reports to the relayer.
\<close>

section \<open>Content\<close>

lemma hex_Encode_digits: "c \<in> set (hex_EncodeToString b) \<Longrightarrow> c \<noteq> CHR ''x''"
proof (induction b)
  case (Cons a b)
  have "of_char a div 16 < (16 :: nat)" "of_char a mod 16 < (16 :: nat)"
    using nat_of_char_less_256 [of a] by (auto simp: less_mult_imp_div_less)
  then show ?case using Cons by auto
qed simp

lemma hex_no_prefix: "\<not> HasPrefix (hex_EncodeToString b) HexPrefix"
proof
  assume "HasPrefix (hex_EncodeToString b) HexPrefix"
  then obtain t where "hex_EncodeToString b = HexPrefix @ t" by (auto simp: HasPrefix_iff)
  then have "CHR ''x'' \<in> set (hex_EncodeToString b)" by (simp add: HexPrefix_def)
  then show False using hex_Encode_digits by blast
qed

text \<open>The event a connection contract emits.\<close>

definition wasm_emit_event :: "string \<Rightarrow> string \<Rightarrow> int \<Rightarrow> bytes \<Rightarrow> abci_event" where
  "wasm_emit_event addr dst sn data = \<lparr>ae_Type = EventTypeWasmMessage, ae_Attributes =
     [(EventAttrKeyContractAddress, addr), (EventAttrKeyTargetNetwork, dst),
      (EventAttrKeyConnSn, int_str 10 sn), (EventAttrKeyMsg, hex_EncodeToString data)]\<rparr>"

lemmas attr_keys = EventAttrKeyContractAddress_def EventAttrKeyTargetNetwork_def EventAttrKeyConnSn_def
  EventAttrKeyMsg_def EventAttrKeyFrom_def

lemma parse_wasm_emit:
  "parse_event p (wasm_emit_event addr dst sn data) = Ok [\<lparr>m_dst = dst, m_src = Wasm_NID p, m_sn = Some sn,
     m_data = data, m_height = 0, m_event = EmitMessage, m_reqid = None\<rparr>]"
  by (simp add: parse_event_def wasm_emit_event_def attr_keys parse_sn_def wasm_message_def hexstr_bare_text [OF hex_no_prefix])

text \<open>
  C24. The content of a message survives the relay between two CosmWasm chains, for sequence numbers
  of any size: the \<^verbatim>\<open>recv_message\<close> built from the message names the source network and carries texts
  that decode to the emitted number and data. A synchronized message has the height of its
  transaction, but the same message received by subscription has height 0.
\<close>
theorem wasm_content_survives:
  shows "\<exists>m. messages_of_tx p \<lparr>rt_Height = h, rt_Events = [wasm_emit_event addr dst sn data]\<rparr> =
      Ok \<lparr>bi_height = h, bi_messages = [m\<lparr>m_height := h\<rparr>]\<rparr> \<and>
    on_subscribed_event p opts \<lparr>tq_Height = h, tq_Code = 0, tq_Codespace = '''', tq_Data = '''', tq_Log = '''',
      tq_Events = [wasm_emit_event addr dst sn data]\<rparr> =
      Ok (Some \<lparr>bi_height = h, bi_messages = [m]\<rparr>, opts\<lparr>so_Height := h\<rparr>) \<and>
    m_height m = 0 \<and> m_dst m = dst \<and>
    (\<exists>c d. getRawContractMessage cl m = Ok (ExecRecvMsg (Wasm_NID p) c d) \<and>
      SetString10 c = Some sn \<and> hexstr_ToByte d = Ok data)"
  by (intro exI [of _ "\<lparr>m_dst = dst, m_src = Wasm_NID p, m_sn = Some sn, m_data = data, m_height = 0,
        m_event = EmitMessage, m_reqid = None\<rparr>"])
    (simp add: messages_of_tx_def on_subscribed_event_def ParseMessageFromEvents_def parse_wasm_emit
      getRawContractMessage_def NewExecRecvMsg_def wire_String_def)

section \<open>Sequence numbers\<close>

text \<open>The documented behaviour of an account: \<^verbatim>\<open>SetSequence\<close> sets it.\<close>

definition sets_sequence :: "wasm_client \<Rightarrow> bool" where
  "sets_sequence cl = (\<forall>n a. wk_SetSequence cl n a = (a\<lparr>ac_Sequence := n\<rparr>, None))"

definition sent_with :: "wasm_config \<Rightarrow> exec_msg \<Rightarrow> u64 \<Rightarrow> wasm_state \<Rightarrow> bool" where
  "sent_with p raw seq s = (case rev (ws_sent s) of
      [] \<Rightarrow> False
    | (msg, n, gas) # _ \<Rightarrow> ec_Msg msg = raw \<and> n = seq \<and> wc_MinGasAmount p \<le> gas \<and> gas \<le> wc_MaxGasAmount p)"

lemma sent_with_wallet [simp]: "sent_with p raw n (s\<lparr>ws_wallet := w\<rparr>) = sent_with p raw n s"
  by (simp add: sent_with_def)

lemma push_sends:
  assumes "prepareAndPushTxToMemPool cl p k acc seq msg s = (Ok res, s')"
  shows "sent_with p (ec_Msg msg) seq s' \<and> ws_wallet s' = ws_wallet s \<and> br_Code res = CodeTypeOK"
  using assms
  by (auto simp: prepareAndPushTxToMemPool_def Let_def sent_with_def not_less split: sum.splits if_splits)

lemma send_sends:
  assumes "Wasm_sendMessage cl p k msg s = (Ok res, s')"
  shows "\<exists>w. ws_wallet s = Some w \<and> ws_wallet s' = Some w \<and> sent_with p (ec_Msg msg) (ac_Sequence w) s' \<and> br_Code res = CodeTypeOK"
  using assms push_sends by (auto simp: Wasm_sendMessage_def split: option.splits)

lemma call_sends:
  assumes "Wasm_call cl p m s = (Ok res, s')"
  shows "\<exists>w raw. ws_wallet s' = Some w \<and> getRawContractMessage cl m = Ok raw \<and> sent_with p raw (ac_Sequence w) s' \<and> br_Code res = CodeTypeOK"
proof -
  obtain raw where raw: "getRawContractMessage cl m = Ok raw" using assms by (auto simp: Wasm_call_def split: result.splits)
  obtain c where c: "call_contract p (m_event m) = Some c" using assms raw by (auto simp: Wasm_call_def split: option.splits)
  obtain addr s1 where w: "Wasm_Wallet cl p s = (addr, s1)" by force
  let ?msg = "\<lparr>ec_Sender = wk_AddressString cl addr, ec_Contract = c, ec_Msg = raw\<rparr>"
  obtain r s2 where 2: "Wasm_sendMessage cl p 0 ?msg s1 = (r, s2)" by force
  show ?thesis
  proof (cases r)
    case (Ok x)
    then have "res = x" "s' = s2" using assms by (simp_all add: Wasm_call_def raw c w 2)
    then show ?thesis using send_sends [of cl p 0 ?msg s1 x s2] 2 Ok raw by auto
  next
    case (Err err)
    then obtain s3 where 3: "Wasm_sendMessage cl p 1 ?msg s3 = (Ok res, s')"
      using assms by (auto simp: Wasm_call_def raw c w 2 split: if_splits prod.splits result.splits option.splits)
    then show ?thesis using send_sends [OF 3] raw by auto
  next
    case (Panic e)
    then show ?thesis using assms by (simp add: Wasm_call_def raw c w 2)
  qed
qed

text \<open>
  C17. A route that reaches the chain (one that makes a callback) has sent the contract message of its
  message, with a gas amount within the configured bounds, and leaves the wallet one sequence number
  after the one it was sent with, also when the first attempt met a wrong sequence number.
\<close>
theorem wasm_route_sequence:
  assumes "sets_sequence cl" "Wasm_Route cl p m s = (Ok (cb # cbs, err), s')"
  shows "\<exists>w raw. ws_wallet s' = Some w \<and> getRawContractMessage cl m = Ok raw \<and>
    sent_with p raw (ac_Sequence w - 1) s' \<and> cbs = []"
proof -
  obtain r s1 where c: "Wasm_call cl p m s = (r, s1)" by force
  obtain res where r: "r = Ok res" using assms(2) by (cases r) (simp_all add: Wasm_Route_def c)
  obtain w raw where w: "ws_wallet s1 = Some w" "getRawContractMessage cl m = Ok raw" "sent_with p raw (ac_Sequence w) s1"
    using call_sends [of cl p m s res s1] c r by blast
  have s': "s' = s1\<lparr>ws_wallet := Some (w\<lparr>ac_Sequence := ac_Sequence w + 1\<rparr>)\<rparr>"
    using assms by (simp add: Wasm_Route_def c r w(1) sets_sequence_def)
  have "cbs = []" using assms(2) by (auto simp: Wasm_Route_def c r w(1) Wasm_waitForTxResult_def split: prod.splits option.splits)
  then show ?thesis using w by (simp add: s')
qed

definition ex_wasm_state :: wasm_state where
  "ex_wasm_state = \<lparr>ws_wallet = Some ex_account, ws_sent = []\<rparr>"

definition ex_wasm_message :: "wireint message" where
  "ex_wasm_message = \<lparr>m_dst = ''wasm'', m_src = ''icon'', m_sn = Some 4, m_data = ''hi'', m_height = 3,
     m_event = EmitMessage, m_reqid = None\<rparr>"

theorem wasm_route_sequence_witness:
  "map (\<lambda>(msg, n, gas). (n, gas)) (ws_sent (snd (Wasm_Route (ex_wasm_client []) ex_wasm_config ex_wasm_message ex_wasm_state))) =
     [(8, 200), (11, 200)] \<and>
   (\<exists>w. ws_wallet (snd (Wasm_Route (ex_wasm_client []) ex_wasm_config ex_wasm_message ex_wasm_state)) = Some w \<and>
     ac_Sequence w - 1 = 11)"
proof -
  let ?r = "Wasm_Route (ex_wasm_client []) ex_wasm_config ex_wasm_message ex_wasm_state"
  have l: "sets_sequence (ex_wasm_client [])" by (simp add: sets_sequence_def ex_wasm_client_def)
  have "(case fst ?r of Ok (cb # cbs, err) \<Rightarrow> True | _ \<Rightarrow> False)" by code_simp
  then obtain cb cbs err where r: "?r = (Ok (cb # cbs, err), snd ?r)"
    by (cases ?r) (auto split: result.splits prod.splits list.splits)
  have s: "map (\<lambda>(msg, n, gas). (n, gas)) (ws_sent (snd ?r)) = [(8, 200), (11, 200)]" by code_simp
  then have last: "map (\<lambda>(msg, n, gas). (n, gas)) (rev (ws_sent (snd ?r))) = [(11, 200), (8, 200)]"
    by (simp add: rev_map [symmetric])
  obtain w raw where w: "ws_wallet (snd ?r) = Some w" "sent_with ex_wasm_config raw (ac_Sequence w - 1) (snd ?r)"
    using wasm_route_sequence [OF l r] by blast
  have "ac_Sequence w - 1 = 11"
    using w(2) last by (cases "rev (ws_sent (snd ?r))") (auto simp: sent_with_def simp del: rev_is_Nil_conv)
  with w(1) s show ?thesis by blast
qed

section \<open>What the relayer is told\<close>

lemma Wasm_Route_settles: "settles m (fst (Wasm_Route cl p m s))"
  by (auto simp: Wasm_Route_def Wasm_waitForTxResult_def subscribeTxResult_def Let_def settles_def
      split: prod.splits result.splits option.splits tx_event.splits)

interpretation wasm: routing_provider "\<lambda>s m. Wasm_Route cl p m s" for cl p
  by unfold_locales (rule Wasm_Route_settles)

end
