(* ===== verification/Providers.thy ===== *)
theory Providers
  imports Evm_Routes Evm_Listen Icon_Send Wasm_Send
begin

text \<open>
  The relayer together with its providers: all three satisfy the contract of the theory \<open>Routing\<close>, so
  a routed message is settled whichever chain it goes to.
\<close>

lemma any_provider_settles:
  assumes "message_db S view C" "relayer_ok s"
    and "map_of (r_chains s) src = Some srcrt" "map_of (r_chains s) dst = Some dstrt"
    and "cached_ref s src key = Some ref" "hp_routes (r_heap s) ref = Some m" "rm_processing m"
    and "k_sn key = Some (a, i)" "0 \<le> i"
    and "json_route (wire_route (IncrementRetry (ev_now E) m))" "json_key (wire_key key)"
      "\<And>k r e. (k, r, e) \<in> set cbs \<Longrightarrow> ascii (tr_txhash r)"
    and "Ok (cbs, err) \<in> {fst (Evm_Route evm_cl evm_cfg now (wire_message (rm_msg m)) evm_st),
      fst (Icon_Route icon_cl icon_cfg (wire_message (rm_msg m)) icon_st),
      fst (Wasm_Route wasm_cl wasm_cfg (wire_message (rm_msg m)) wasm_st)}"
  shows "\<exists>s'. RouteMessage S C E ref dst src (with_key key cbs) err s = Ok s' \<and>
    (if err = None then cached_msg s' src key = None \<and>
       stored_msg C (view (r_db s')) ''message'' (k_src key) (Some i) = None
     else if rm_retry m + 1 < MaxTxRetry then
       (\<exists>m'. cached_msg s' src key = Some m' \<and> rm_msg m' = rm_msg m \<and> \<not> rm_processing m' \<and> rm_retry m' = rm_retry m + 1)
     else cached_msg s' src key = None \<and>
       (\<exists>w. stored_msg C (view (r_db s')) ''message'' (k_src key) (Some i) = Some w \<and>
         \<not> rm_processing w \<and> rm_retry w = rm_retry m + 1))"
proof -
  from assms(13) consider
      "fst (Evm_Route evm_cl evm_cfg now (wire_message (rm_msg m)) evm_st) = Ok (cbs, err)"
    | "fst (Icon_Route icon_cl icon_cfg (wire_message (rm_msg m)) icon_st) = Ok (cbs, err)"
    | "fst (Wasm_Route wasm_cl wasm_cfg (wire_message (rm_msg m)) wasm_st) = Ok (cbs, err)" by auto
  then show ?thesis
  proof cases
    case 1
    with assms(1-12) show ?thesis by (rule evm.message_settles)
  next
    case 2
    with assms(1-12) show ?thesis by (rule icon.message_settles)
  next
    case 3
    with assms(1-12) show ?thesis by (rule wasm.message_settles)
  qed
qed

section \<open>When a route returns\<close>

text \<open>
  A \<^verbatim>\<open>Route\<close> can panic, which ends the process. It returns on an EVM chain if the tip can be suggested (the
  log line of \<^verbatim>\<open>SendTransaction\<close> reads it) and the wallet's nonce was read when the wallet was unlocked; on
  ICON if a message that needs a request number has one, and a signed transaction has the prefix of its
  hash; on CosmWasm if there is a wallet or it can be restored.
\<close>

definition evm_routes :: "evm_client \<Rightarrow> gotime \<Rightarrow> evm_state \<Rightarrow> bool" where
  "evm_routes cl now s = ((\<exists>tip. cl_SuggestGasTip cl = Inr tip) \<and>
     (case Evm_Wallet cl now s of (Ok addr, s1) \<Rightarrow> map_of (nt_address (es_tracker s1)) addr \<noteq> None | _ \<Rightarrow> True))"

definition icon_routes :: "icon_client \<Rightarrow> wireint message \<Rightarrow> bool" where
  "icon_routes cl m = ((m_event m \<in> {CallMessage, SetFee} \<longrightarrow> m_reqid m \<noteq> None) \<and>
     (\<forall>tx hash. ic_SignTransaction cl tx = Inr hash \<longrightarrow> 2 \<le> length hash))"

definition wasm_routes :: "wasm_client \<Rightarrow> wasm_config \<Rightarrow> wasm_state \<Rightarrow> bool" where
  "wasm_routes cl p s = (ws_wallet (snd (Wasm_Wallet cl p s)) \<noteq> None)"

fun panics :: "'a result \<Rightarrow> bool" where
  "panics (Panic e) = True"
| "panics r = False"

lemma panics_iff: "panics r \<longleftrightarrow> (\<exists>e. r = Panic e)"
  by (cases r) simp_all

lemma ptr_returns [simp]: "ptr_Uint64 (Some i) = Ok (big_Uint64 i)" "ptr_Int64 (Some i) = Ok (big_Int64 i)"
  by (simp_all add: ptr_Uint64_def ptr_Int64_def)

lemma evm_opts_return:
  assumes "evm_routes cl now s"
  shows "case fst (GetTransationOpts cl now s) of Ok opts \<Rightarrow> op_GasTipCap opts \<noteq> None | Err e \<Rightarrow> True | Panic e \<Rightarrow> False"
proof (cases "Evm_Wallet cl now s")
  case (Pair r s1)
  show ?thesis
  proof (cases r)
    case (Ok addr)
    then obtain v where v: "map_of (nt_address (es_tracker s1)) addr = Some v" using assms Pair by (auto simp: evm_routes_def)
    have "\<exists>n t. Nonce_Get now g addr (es_tracker s1) = Ok (n, t)" for g
      by (cases g) (simp_all add: Nonce_Get_def Let_def v split: prod.split)
    then obtain n t where "Nonce_Get now (cl_PendingNonceAt cl addr) addr (es_tracker s1) = Ok (n, t)" by blast
    with assms Pair Ok show ?thesis
      by (cases "cl_SuggestGasPrice cl") (auto simp: GetTransationOpts_def evm_routes_def Let_def split: option.split)
  next
    case (Panic e)
    then show ?thesis using Pair by (auto simp: Evm_Wallet_def Let_def split: option.splits sum.splits prod.splits)
  qed (simp add: Pair GetTransationOpts_def)
qed

lemma evm_send_returns:
  assumes "op_GasTipCap opts \<noteq> None" "m_sn m = Some i"
  shows "\<not> panics (fst (SendTransaction cl p now opts m s))"
  using assms
  by (auto simp: SendTransaction_def Let_def panics_iff split: sum.splits option.splits prod.splits if_splits)

lemma Evm_Route_returns:
  assumes "evm_routes cl now s" "m_sn m = Some i"
  shows "\<exists>cbs err. fst (Evm_Route cl p now m s) = Ok (cbs, err)"
proof (cases "GetTransationOpts cl now s")
  case (Pair r s1)
  note o = evm_opts_return [OF assms(1)]
  show ?thesis
  proof (cases r)
    case (Ok opts)
    then have tip: "op_GasTipCap opts \<noteq> None" using o Pair by simp
    have wait: "\<exists>cbs err. Evm_WaitForTxResult cl tx (MessageKey m) = Ok (cbs, err)" for tx
      using assms(2) WaitForResults_loop_not_Panic [of "cl_TransactionReceipt cl tx" 0]
      by (auto simp: Evm_WaitForTxResult_def Evm_WaitForResults_def Let_def MessageKey_def NewMessageKey_def
          split: result.split)
    obtain r2 s2 where 2: "SendTransaction cl p now opts m s1 = (r2, s2)" by force
    then have "\<not> panics r2" using evm_send_returns [OF tip assms(2), of cl p now s1] by simp
    then show ?thesis using wait by (cases r2) (simp_all add: Evm_Route_def Pair Ok 2)
  next
    case (Panic e)
    then show ?thesis using o Pair by simp
  qed (simp add: Evm_Route_def Pair)
qed

lemma HexInt_returns [simp]: "HexInt_Value h \<noteq> Panic e" "HexInt_Int64 h \<noteq> Panic e" "HexInt_Int h \<noteq> Panic e"
  by (simp_all add: HexInt_Value_def HexInt_Int_def HexInt_Int64_def ParseInt_def split: option.split)

lemma hex_DecodeString_returns [simp]: "hex_DecodeString s \<noteq> Panic e"
proof (induction s rule: hex_DecodeString.induct)
  case (3 a b cs)
  then show ?case by (cases "hex_DecodeString cs") (auto split: option.split)
qed (auto split: option.split)

lemma MakeIconMessage_returns:
  assumes "icon_routes cl m" "m_sn m = Some i"
  shows "\<not> panics (MakeIconMessage p m)"
  using assms by (auto simp: MakeIconMessage_def icon_routes_def Let_def)

lemma Icon_SendTransaction_returns:
  assumes "icon_routes cl m"
  shows "\<not> panics (fst (Icon_SendTransaction cl p msg s))"
proof -
  have "\<not> panics (HexBytes_Value hash)" if "ic_SignTransaction cl tx = Inr hash" for tx hash
  proof -
    have "2 \<le> length hash" using assms that unfolding icon_routes_def by blast
    then show ?thesis by (auto simp: HexBytes_Value_def panics_iff)
  qed
  moreover have "\<not> panics (fst (Icon_Wallet cl s))" by (auto simp: Icon_Wallet_def split: option.split sum.split)
  ultimately show ?thesis
    by (auto simp: Icon_SendTransaction_def Let_def split: prod.split result.split sum.split)
qed

lemma Icon_Route_returns:
  assumes "icon_routes cl m" "m_sn m = Some i"
  shows "\<exists>cbs err. fst (Icon_Route cl p m s) = Ok (cbs, err)"
proof -
  have loop: "Icon_WaitForResults_loop q h n \<noteq> Panic e" for q h n e
    by (induction q h n rule: Icon_WaitForResults_loop.induct)
      (subst Icon_WaitForResults_loop.simps, auto split: icon_tick.split icon_answer.split)
  have wait: "\<exists>cbs err. Icon_WaitForTxResult cl h k = Ok (cbs, err)" for h k
    using loop
    by (auto simp: Icon_WaitForTxResult_def Icon_WaitForResults_def Let_def split: result.split)
  show ?thesis
  proof (cases "MakeIconMessage p m")
    case (Ok msg)
    obtain r s1 where 1: "Icon_SendTransaction cl p msg s = (r, s1)" by force
    then have "\<not> panics r" using Icon_SendTransaction_returns [OF assms(1), of p msg s] by simp
    then show ?thesis using wait by (cases r) (simp_all add: Icon_Route_def Ok 1)
  next
    case (Panic e)
    then show ?thesis using MakeIconMessage_returns [OF assms, of p] by simp
  qed (simp add: Icon_Route_def)
qed

lemma wasm_wallet_stays: "ws_wallet s \<noteq> None \<Longrightarrow> ws_wallet (snd (Wasm_Wallet cl p s)) \<noteq> None"
  by (auto simp: Wasm_Wallet_def split: option.splits sum.splits)

lemma wasm_push_returns:
  assumes "ws_wallet s \<noteq> None"
  shows "\<not> panics (fst (Wasm_sendMessage cl p n msg s))" "ws_wallet (snd (Wasm_sendMessage cl p n msg s)) \<noteq> None"
  using assms
  by (auto simp: Wasm_sendMessage_def prepareAndPushTxToMemPool_def Let_def split: sum.split option.split)

lemma wasm_sequence_returns:
  assumes "ws_wallet s \<noteq> None"
  shows "\<not> panics (fst (handleSequence cl p s))" "ws_wallet (snd (handleSequence cl p s)) \<noteq> None"
  using wasm_wallet_stays [OF assms, of cl p]
  by (auto simp: handleSequence_def Let_def split: prod.split sum.split option.split)

lemma Wasm_call_returns:
  assumes "wasm_routes cl p s"
  shows "\<not> panics (fst (Wasm_call cl p m s))"
proof (cases "getRawContractMessage cl m")
  case (Ok raw)
  show ?thesis
  proof (cases "call_contract p (m_event m)")
    case (Some c)
    obtain addr s1 where w: "Wasm_Wallet cl p s = (addr, s1)" by force
    have s1: "ws_wallet s1 \<noteq> None" using assms by (simp add: wasm_routes_def w)
    let ?msg = "\<lparr>ec_Sender = wk_AddressString cl addr, ec_Contract = c, ec_Msg = raw\<rparr>"
    obtain r s2 where 2: "Wasm_sendMessage cl p 0 ?msg s1 = (r, s2)" by force
    have s2: "\<not> panics r" "ws_wallet s2 \<noteq> None" using wasm_push_returns [OF s1, of cl p 0 ?msg] 2 by simp_all
    obtain x s3 where 3: "handleSequence cl p s2 = (x, s3)" by force
    have s3: "\<not> panics x" "ws_wallet s3 \<noteq> None" using wasm_sequence_returns [OF s2(2), of cl p] 3 by simp_all
    show ?thesis using s2(1) s3(1) wasm_push_returns(1) [OF s3(2), of cl p 1 ?msg]
      by (cases r; cases x) (auto simp: Wasm_call_def Ok Some w 2 3 split: option.split)
  qed (simp add: Wasm_call_def Ok)
next
  case (Panic e)
  then show ?thesis by (simp add: getRawContractMessage_def split: if_splits)
qed (simp add: Wasm_call_def)

lemma Wasm_Route_returns:
  assumes "wasm_routes cl p s"
  shows "\<exists>cbs err. fst (Wasm_Route cl p m s) = Ok (cbs, err)"
proof -
  obtain r s1 where 1: "Wasm_call cl p m s = (r, s1)" by force
  show ?thesis
  proof (cases r)
    case (Ok res)
    then obtain w where "ws_wallet s1 = Some w" using call_sends [of cl p m s res s1] 1 by blast
    with 1 Ok show ?thesis by (cases "Wasm_waitForTxResult cl (MessageKey m) res") (simp add: Wasm_Route_def)
  next
    case (Panic e)
    then show ?thesis using Wasm_call_returns [OF assms, of m] 1 by simp
  qed (simp add: Wasm_Route_def 1)
qed



end
