(* ===== verification/Relay_Blocks.thy ===== *)
theory Relay_Blocks
  imports Relay_Props
begin

text \<open>
  How messages enter the caches and the database: blocks, flushes, regenerated messages; what a
  restart finds; and what the cleaner and the finality check do to the database.
\<close>

section \<open>Adding messages to a cache\<close>

text \<open>An entry with a number stays where it is when fresh messages are added.\<close>

lemma cache_add_new_get:
  "MessageCache_Get k (fst (cache_add_new r (c, h))) =
     (if k = MessageKey (rm_msg r) then Some (hp_next h) else MessageCache_Get k c)"
  "hp_routes (snd (cache_add_new r (c, h))) = (hp_routes h)(hp_next h \<mapsto> r)"
  "hp_next (snd (cache_add_new r (c, h))) = hp_next h + 1"
  by (simp_all add: cache_add_new_def new_route_def Let_def mc.get_add)

lemma mergeMessages_old:
  "mergeMessages ms (c, h) = (c', h') \<Longrightarrow> MessageCache_Get k c = Some ref \<Longrightarrow> ref < hp_next h \<Longrightarrow>
   k_sn k = Some (a, i) \<Longrightarrow> a < hp_next h \<Longrightarrow>
   MessageCache_Get k c' = Some ref \<and> hp_routes h' ref = hp_routes h ref"
proof (induction ms arbitrary: c h)
  case (Cons m ms)
  obtain bm h1 where nm: "new_message m h = (bm, h1)" by (cases "new_message m h")
  obtain c2 h2 where add: "cache_add_new (NewRouteMessage bm) (c, h1) = (c2, h2)"
    by (cases "cache_add_new (NewRouteMessage bm) (c, h1)")
  have h1: "hp_next h1 = hp_next h + 2" "hp_routes h1 = hp_routes h" "bm = alloc_message (hp_next h) m"
    using nm by (auto simp: new_message_def)
  have "k \<noteq> MessageKey bm" using Cons.prems(4,5) h1(3) by (auto simp: alloc_int_def)
  then have g: "MessageCache_Get k c2 = Some ref" "hp_routes h2 ref = hp_routes h ref" "hp_next h2 = hp_next h + 3"
    using cache_add_new_get(1) [of _ "NewRouteMessage bm" c h1]
      cache_add_new_get(2,3) [of "NewRouteMessage bm" c h1] add Cons.prems(2,3) h1 by auto
  have "mergeMessages ms (c2, h2) = (c', h')" using Cons.prems(1) nm add by simp
  from Cons.IH [OF this g(1) _ Cons.prems(4)] g Cons.prems(3,5) show ?case by simp
qed simp

text \<open>Every merged message with a number is cached as a new route message.\<close>

lemma mergeMessages_new:
  "mergeMessages ms (c, h) = (c', h') \<Longrightarrow> w \<in> set ms \<Longrightarrow> m_sn w \<noteq> None \<Longrightarrow>
   \<exists>k ref r. MessageCache_Get k c' = Some ref \<and> hp_routes h' ref = Some r \<and>
     wire_key k = MessageKey w \<and> wire_route r = NewRouteMessage w"
proof (induction ms arbitrary: c h)
  case (Cons m ms)
  obtain bm h1 where nm: "new_message m h = (bm, h1)" by (cases "new_message m h")
  obtain c2 h2 where add: "cache_add_new (NewRouteMessage bm) (c, h1) = (c2, h2)"
    by (cases "cache_add_new (NewRouteMessage bm) (c, h1)")
  have merge: "mergeMessages ms (c2, h2) = (c', h')" using Cons.prems(1) nm add by simp
  have h1: "hp_next h1 = hp_next h + 2" "bm = alloc_message (hp_next h) m"
    using nm by (auto simp: new_message_def)
  have g: "MessageCache_Get (MessageKey bm) c2 = Some (hp_next h1)" "hp_routes h2 (hp_next h1) = Some (NewRouteMessage bm)"
    "hp_next h2 = hp_next h + 3"
    using cache_add_new_get(1) [of _ "NewRouteMessage bm" c h1]
      cache_add_new_get(2,3) [of "NewRouteMessage bm" c h1] add h1 by auto
  have wm: "wire_message bm = m" using h1(2) by simp
  have w1: "wire_key (MessageKey bm) = MessageKey m" using wire_MessageKey [of bm] by (simp add: wm)
  have w2: "wire_route (NewRouteMessage bm) = NewRouteMessage m"
    by (simp add: wire_route_def NewRouteMessage_def wm)
  show ?case
  proof (cases "w = m")
    case True
    then obtain i where i: "k_sn (MessageKey bm) = Some (hp_next h, i)"
      using Cons.prems(3) h1(2) by (auto simp: alloc_int_def)
    from mergeMessages_old [OF merge g(1) _ i] g h1 True w1 w2 show ?thesis
      by (intro exI [of _ "MessageKey bm"] exI [of _ "hp_next h1"] exI [of _ "NewRouteMessage bm"]) simp
  next
    case False
    with Cons.IH [OF merge] Cons.prems(2,3) show ?thesis by auto
  qed
qed simp

section \<open>New blocks\<close>

text \<open>
  The last of several messages with a source and a number: a message and a call of one chain can share
  them, and the later one is stored over the earlier one.
\<close>

definition last_with :: "string \<Rightarrow> wireint \<Rightarrow> wireint message list \<Rightarrow> wireint message option" where
  "last_with src n ms = find (\<lambda>w. m_src w = src \<and> m_sn w = n) (rev ms)"

lemma find_append: "find P (xs @ ys) = (case find P xs of None \<Rightarrow> find P ys | Some x \<Rightarrow> Some x)"
  by (induction xs) auto

lemma last_with_simps [simp]:
  "last_with src n [] = None"
  "last_with src n (m # ms) = (case last_with src n ms of
     None \<Rightarrow> if m_src m = src \<and> m_sn m = n then Some m else None | Some w \<Rightarrow> Some w)"
  "last_with src n (ms @ ms') = (case last_with src n ms' of None \<Rightarrow> last_with src n ms | Some w \<Rightarrow> Some w)"
  by (auto simp: last_with_def find_append split: option.split)

lemma last_with_None: "last_with src n ms = None \<longleftrightarrow> (src, n) \<notin> (\<lambda>w. (m_src w, m_sn w)) ` set ms"
  by (auto simp: last_with_def find_None_iff image_iff)

lemma last_with_Some: "last_with src n ms = Some w \<Longrightarrow> w \<in> set ms \<and> m_src w = src \<and> m_sn w = n"
proof (induction ms)
  case (Cons m ms)
  then show ?case by (cases "last_with src n ms") (auto split: if_splits)
qed simp

lemma last_with_only:
  assumes "w \<in> set ms" "\<forall>v \<in> set ms. m_src v = m_src w \<and> m_sn v = m_sn w \<longrightarrow> v = w"
  shows "last_with (m_src w) (m_sn w) ms = Some w"
proof (cases "last_with (m_src w) (m_sn w) ms")
  case None
  then show ?thesis using assms(1) by (auto simp: last_with_None image_iff)
next
  case (Some v)
  then show ?thesis using assms(2) last_with_Some [OF Some] by blast
qed

lemma block_messages_db:
  assumes db: "message_db S view C"
  shows "block_messages S C ms (c, h, d) = (c', h', d') \<Longrightarrow>
   (\<And>w. w \<in> set ms \<Longrightarrow> json_route (NewRouteMessage w) \<and> sn_ok (m_sn w)) \<Longrightarrow> sn_ok n \<Longrightarrow>
   stored_msg C (view d') ''message'' src n =
     (case last_with src n ms of
        None \<Rightarrow> stored_msg C (view d) ''message'' src n
      | Some w \<Rightarrow> Some (NewRouteMessage w))"
proof (induction ms arbitrary: c h d)
  case (Cons m ms)
  obtain bm h1 where nm: "new_message m h = (bm, h1)" by (cases "new_message m h")
  obtain c2 h2 where add: "cache_add_new (NewRouteMessage bm) (c, h1) = (c2, h2)"
    by (cases "cache_add_new (NewRouteMessage bm) (c, h1)")
  obtain e d2 where st: "StoreMessage S C ''message'' (Some (NewRouteMessage bm)) d = (e, d2)"
    by (cases "StoreMessage S C ''message'' (Some (NewRouteMessage bm)) d")
  have b: "bm = alloc_message (hp_next h) m" using nm by (auto simp: new_message_def)
  have w: "wire_route (NewRouteMessage bm) = NewRouteMessage m"
    by (simp add: wire_route_def NewRouteMessage_def b)
  have rest: "block_messages S C ms (c2, h2, d2) = (c', h', d')"
    using Cons.prems(1) nm add st by (simp add: Let_def prefixMessageStore_def)
  have j: "json_route (wire_route (NewRouteMessage bm))" "sn_ok (m_sn m)" using Cons.prems(2) [of m] w by auto
  have d2: "stored_msg C (view d2) ''message'' src n =
      (if src = m_src m \<and> n = m_sn m then Some (NewRouteMessage m) else stored_msg C (view d) ''message'' src n)"
    using message_db.StoreMessage_refines [OF db j(1), of n "''message''" d src] j(2) Cons.prems(3) st w
    by (simp add: b)
  have ih: "stored_msg C (view d') ''message'' src n =
     (case last_with src n ms of
        None \<Rightarrow> stored_msg C (view d2) ''message'' src n | Some w \<Rightarrow> Some (NewRouteMessage w))"
    by (rule Cons.IH [OF rest]) (use Cons.prems in auto)
  with d2 show ?case by (auto split: option.split)
qed simp

lemma processBlockInfo_cached:
  assumes "map_of (r_chains s) nid = Some rt" "w \<in> set (bi_messages bi)" "m_sn w \<noteq> None"
  shows "\<exists>k ref r. cached_ref (processBlockInfo S C nid bi s) nid k = Some ref \<and>
    hp_routes (r_heap (processBlockInfo S C nid bi s)) ref = Some r \<and>
    wire_key k = MessageKey w \<and> wire_route r = NewRouteMessage w"
proof -
  obtain c' h' d' where b: "block_messages S C (bi_messages bi) (cr_MessageCache rt, r_heap s, r_db s)
      = (c', h', d')" by (metis prod_cases3)
  have eq: "processBlockInfo S C nid bi s =
      upd_chain nid (\<lambda>rt. rt\<lparr>cr_LastBlockHeight := bi_height bi, cr_MessageCache := c'\<rparr>) (s\<lparr>r_heap := h', r_db := d'\<rparr>)"
    using assms(1) b by (simp add: processBlockInfo_def)
  from mergeMessages_new [OF block_messages_merge [OF b] assms(2,3)] assms(1) show ?thesis
    by (force simp: eq cached_ref_def)
qed

text \<open>
  Every message of a processed block is cached as a fresh message of its source chain, ready to
  be routed; the message store has, for every source and number, the last message of the block with
  them, and is as before where there is none; the block's height becomes the chain's last height.
\<close>
theorem processBlockInfo_records:
  assumes "message_db S view C"
    and rt: "map_of (r_chains s) nid = Some rt"
    and "\<And>w. w \<in> set (bi_messages bi) \<Longrightarrow> json_route (NewRouteMessage w) \<and> sn_ok (m_sn w) \<and> m_sn w \<noteq> None"
    and s': "s' = processBlockInfo S C nid bi s"
  shows "(\<forall>w \<in> set (bi_messages bi).
      \<exists>k r. cached_msg s' nid k = Some r \<and> wire_key k = MessageKey w \<and> wire_route r = NewRouteMessage w) \<and>
    (\<forall>src n. sn_ok n \<longrightarrow> stored_msg C (view (r_db s')) ''message'' src n =
      (case last_with src n (bi_messages bi) of
         None \<Rightarrow> stored_msg C (view (r_db s)) ''message'' src n | Some w \<Rightarrow> Some (NewRouteMessage w))) \<and>
    map_option cr_LastBlockHeight (map_of (r_chains s') nid) = Some (bi_height bi)"
proof -
  obtain c' h' d' where b: "block_messages S C (bi_messages bi) (cr_MessageCache rt, r_heap s, r_db s)
      = (c', h', d')" by (metis prod_cases3)
  have eq: "s' = upd_chain nid (\<lambda>rt. rt\<lparr>cr_LastBlockHeight := bi_height bi, cr_MessageCache := c'\<rparr>)
            (s\<lparr>r_heap := h', r_db := d'\<rparr>)"
    using s' rt b by (simp add: processBlockInfo_def)
  have new: "\<exists>k r. cached_msg s' nid k = Some r \<and> wire_key k = MessageKey w \<and> wire_route r = NewRouteMessage w"
    if w: "w \<in> set (bi_messages bi)" for w
  proof -
    obtain k ref r where "cached_ref s' nid k = Some ref" "hp_routes (r_heap s') ref = Some r"
      "wire_key k = MessageKey w" "wire_route r = NewRouteMessage w"
      using processBlockInfo_cached [OF rt w, of S C] assms(3) [OF w] s' by blast
    then show ?thesis by (intro exI [of _ k] exI [of _ r]) (simp add: cached_msg_def)
  qed
  have st: "stored_msg C (view d') ''message'' src n =
     (case last_with src n (bi_messages bi) of
        None \<Rightarrow> stored_msg C (view (r_db s)) ''message'' src n
      | Some w \<Rightarrow> Some (NewRouteMessage w))" if "sn_ok n" for src n
    by (rule block_messages_db [OF assms(1) b _ that]) (use assms(3) in auto)
  have db: "r_db s' = d'" by (simp add: eq)
  have "map_option cr_LastBlockHeight (map_of (r_chains s') nid) = Some (bi_height bi)"
    using rt by (simp add: eq)
  with new st show ?thesis unfolding db by blast
qed

theorem processBlockInfo_records_witness:
  "stored_msg mem_codec (map_of (r_db (processBlockInfo mem_store mem_codec ''a''
      \<lparr>bi_height = 3, bi_messages = [ex_msg ''a'' ''b'' 1]\<rparr> ex_start))) ''message'' ''a'' (Some 1) =
    Some (NewRouteMessage (ex_msg ''a'' ''b'' 1))"
proof -
  let ?w = "ex_msg ''a'' ''b'' 1"
  have "(case map_of (r_chains ex_start) ''a'' of None \<Rightarrow> False | Some rt \<Rightarrow> True)" by code_simp
  then obtain rt where rt: "map_of (r_chains ex_start) ''a'' = Some rt" by (auto split: option.splits)
  have j: "json_route (NewRouteMessage ?w)" "sn_ok (m_sn ?w)" "m_sn ?w \<noteq> None" "m_src ?w = ''a''" "m_sn ?w = Some 1"
    by (simp_all add: ex_msg_def NewRouteMessage_def json_route_def json_key_def ascii_def sn_ok_def)
  let ?s = "processBlockInfo mem_store mem_codec ''a'' \<lparr>bi_height = 3, bi_messages = [?w]\<rparr> ex_start"
  have "\<forall>src n. sn_ok n \<longrightarrow> stored_msg mem_codec (map_of (r_db ?s)) ''message'' src n =
      (case last_with src n [?w] of None \<Rightarrow> stored_msg mem_codec (map_of (r_db ex_start)) ''message'' src n
       | Some w \<Rightarrow> Some (NewRouteMessage w))"
    using processBlockInfo_records [OF mem.message_db_axioms rt _ HOL.refl,
        of "\<lparr>bi_height = 3, bi_messages = [?w]\<rparr>"] j by simp
  then show ?thesis by (simp add: j sn_ok_def)
qed

section \<open>Flushing\<close>

lemma add_stored_len:
  "add_stored ws (c, h) = (c', h') \<Longrightarrow> cache_invar c \<Longrightarrow>
   cache_invar c' \<and> MessageCache_Len c' \<le> MessageCache_Len c + length ws"
proof (induction ws arbitrary: c h)
  case (Cons w ws)
  obtain r h1 where nr: "new_stored_route w h = (r, h1)" by (cases "new_stored_route w h")
  have add: "cache_add_new r (c, h1) = (MessageCache_Add r (hp_next h1) c, snd (new_route r h1))"
    by (simp add: cache_add_new_def new_route_def)
  have "add_stored ws (MessageCache_Add r (hp_next h1) c, snd (new_route r h1)) = (c', h')"
    using Cons.prems(1) nr add by simp
  from Cons.IH [OF this mc.invar_add [OF Cons.prems(2)]] mc.size_add [OF Cons.prems(2), of r "hp_next h1"]
  show ?case by (auto split: if_splits)
qed simp

lemma add_stored_objects:
  "add_stored ws (c, h) = (c', h') \<Longrightarrow> MessageCache_Get k c' = Some ref \<Longrightarrow>
   (ref < hp_next h \<longrightarrow> hp_routes h' ref = hp_routes h ref) \<and>
   (MessageCache_Get k c \<noteq> Some ref \<longrightarrow> (\<exists>r \<in> set ws. map_option wire_route (hp_routes h' ref) = Some r))"
proof (induction ws arbitrary: c h)
  case (Cons w ws)
  obtain r h1 where nr: "new_stored_route w h = (r, h1)" by (cases "new_stored_route w h")
  obtain c2 h2 where add: "cache_add_new r (c, h1) = (c2, h2)" by (cases "cache_add_new r (c, h1)")
  have h1: "hp_next h1 = hp_next h + 2" "hp_routes h1 = hp_routes h" "wire_route r = w"
    using nr by (auto simp: new_stored_route_def)
  have g: "MessageCache_Get k c2 = (if k = MessageKey (rm_msg r) then Some (hp_next h1) else MessageCache_Get k c)"
    "hp_routes h2 = (hp_routes h)(hp_next h1 \<mapsto> r)" "hp_next h2 = hp_next h1 + 1"
    using cache_add_new_get(1) [of k r c h1] cache_add_new_get(2,3) [of r c h1] add h1 by simp_all
  have "add_stored ws (c2, h2) = (c', h')" using Cons.prems(1) nr add by simp
  from Cons.IH [OF this Cons.prems(2)] g h1 show ?case
    by (auto split: if_splits)
qed simp

text \<open>
  C35. One flush adds at most ten entries to the cache of a chain and removes none; whatever it
  adds is a stored message that is not stale.
\<close>
theorem flush_adds_active:
  assumes "relayer_ok s" "map_of (r_chains s) nid = Some rt"
    and "map_of (r_chains (flush_chain S C nid s)) nid = Some rt'"
  shows "MessageCache_Len (cr_MessageCache rt') \<le> MessageCache_Len (cr_MessageCache rt) + 10 \<and>
    (\<forall>k. cached_ref s nid k \<noteq> None \<longrightarrow> cached_ref (flush_chain S C nid s) nid k \<noteq> None) \<and>
    (\<forall>k ref. cached_ref (flush_chain S C nid s) nid k = Some ref \<and> cached_ref s nid k \<noteq> Some ref \<longrightarrow>
      (\<exists>m. hp_routes (r_heap (flush_chain S C nid s)) ref = Some m \<and> \<not> IsStale m))"
proof -
  have k: "\<forall>k. cached_ref s nid k \<noteq> None \<longrightarrow> cached_ref (flush_chain S C nid s) nid k \<noteq> None"
    using keeps_flush_chain [of s S C nid] by (simp add: keeps_def)
  show ?thesis
  proof (cases "getActiveMessagesFromStore S C nid maxFlushMessage (r_db s)")
    case (Inl e)
    then have "flush_chain S C nid s = s"
      using assms(2) wf_chain(1) [OF assms(1,2)] by (simp add: flush_chain_def)
    with assms(2,3) k show ?thesis by simp
  next
    case (Inr ws)
    then obtain ms where ms: "GetMessages S C prefixMessageStore nid (WithLimit maxFlushMessage NewPagination) (r_db s) = Inr ms"
      and ws: "ws = filter (\<lambda>m. \<not> IsStale m) ms"
      by (auto simp: getActiveMessagesFromStore_def split: sum.splits)
    obtain c' h' where a: "add_stored ws (cr_MessageCache rt, r_heap s) = (c', h')"
      by (cases "add_stored ws (cr_MessageCache rt, r_heap s)")
    have eq: "flush_chain S C nid s = upd_cache nid (\<lambda>_. c') (s\<lparr>r_heap := h'\<rparr>)"
      using assms(2) wf_chain(1) [OF assms(1,2)] Inr a by (simp add: flush_chain_def)
    have rt': "cr_MessageCache rt' = c'" using assms(2,3) by (simp add: eq) auto
    have "cache_invar (cr_MessageCache rt)" using wf_chain(2) [OF assms(1,2)] by (simp add: cache_ok_def)
    from add_stored_len [OF a this] have "MessageCache_Len c' \<le> MessageCache_Len (cr_MessageCache rt) + length ws" by simp
    moreover have "length ms \<le> 10"
    proof -
      have "length ms \<le> unat (p_Limit (WithLimit maxFlushMessage NewPagination))"
        by (rule page_bound [OF ms]) (simp add: WithLimit_def maxFlushMessage_def)
      then show ?thesis by (simp add: WithLimit_def maxFlushMessage_def)
    qed
    then have "length ws \<le> 10" unfolding ws by (rule order_trans [OF length_filter_le])
    moreover have "\<exists>m. hp_routes h' ref = Some m \<and> \<not> IsStale m"
      if "MessageCache_Get k c' = Some ref" "MessageCache_Get k (cr_MessageCache rt) \<noteq> Some ref" for k ref
      using add_stored_objects [OF a that(1)] that(2) ws by (auto simp: IsStale_def)
    ultimately show ?thesis
      using k assms(2) by (auto simp: rt' eq cached_ref_def)
  qed
qed

theorem flush_adds_active_witness:
  "\<exists>rt rt'. map_of (r_chains ex_seen) ''a'' = Some rt \<and>
    map_of (r_chains (flush_chain mem_store mem_codec ''a'' ex_seen)) ''a'' = Some rt' \<and>
    MessageCache_Len (cr_MessageCache rt') \<le> MessageCache_Len (cr_MessageCache rt) + 10"
proof -
  have "(case map_of (r_chains ex_seen) ''a'' of None \<Rightarrow> False | Some rt \<Rightarrow> True)"
    "(case map_of (r_chains (flush_chain mem_store mem_codec ''a'' ex_seen)) ''a'' of None \<Rightarrow> False | Some rt \<Rightarrow> True)"
    by code_simp+
  then obtain rt rt' where "map_of (r_chains ex_seen) ''a'' = Some rt"
    "map_of (r_chains (flush_chain mem_store mem_codec ''a'' ex_seen)) ''a'' = Some rt'"
    by (auto split: option.splits)
  with flush_adds_active [OF reachable_ok [OF ex_seen_reachable] this] show ?thesis by blast
qed

section \<open>Restarts\<close>

definition loaded :: "('d, 'v) store \<Rightarrow> 'v codec \<Rightarrow> 'd \<Rightarrow> string \<times> chain_runtime \<Rightarrow> bool" where
  "loaded S C db p = (cr_MessageCache (snd p) = [] \<and> cr_listenerChan (snd p) = [] \<and>
     cr_LastSavedHeight (snd p) =
       (case GetLastStoredBlock S C prefixBlockStore (fst p) db of Inl e \<Rightarrow> 0 | Inr h \<Rightarrow> h))"

lemma new_runtimes_loaded:
  "new_runtimes S C db out cs = Ok rts \<Longrightarrow> (\<forall>p \<in> set out. loaded S C db p) \<Longrightarrow> (\<forall>p \<in> set rts. loaded S C db p)"
proof (induction S C db out cs rule: new_runtimes.induct)
  case (2 S C db out name ch rest)
  then obtain rt where rt: "NewChainRuntime ch = Ok rt" by auto
  let ?rt = "case GetLastStoredBlock S C prefixBlockStore (pv_NID (cr_Provider rt)) db of
      Inl e \<Rightarrow> rt | Inr x \<Rightarrow> rt\<lparr>cr_LastSavedHeight := x\<rparr>"
  have "cr_MessageCache rt = []" "cr_listenerChan rt = []" "cr_LastSavedHeight rt = 0"
    using rt by (auto simp: NewChainRuntime_def NewMessageCache_def split: option.splits)
  then have ok: "loaded S C db (pv_NID (cr_Provider rt), ?rt)"
    by (auto simp: loaded_def split: sum.split)
  have "new_runtimes S C db (AList.update (pv_NID (cr_Provider rt)) ?rt out) rest = Ok rts"
    using "2.prems"(1) rt by (simp add: Let_def)
  moreover have "\<forall>p \<in> set (AList.update (pv_NID (cr_Provider rt)) ?rt out). loaded S C db p"
    using "2.prems"(2) ok by (auto dest!: in_set_update)
  ultimately show ?case using "2.IH" [OF refl refl] by auto
qed simp

lemma NewRelayer_state:
  assumes "message_db S view C" "NewRelayer S C db chs fresh = Ok s"
    and "map_of (r_chains s) nid = Some rt"
  shows "cr_MessageCache rt = [] \<and> cr_listenerChan rt = [] \<and> pv_NID (cr_Provider rt) = nid \<and>
    cr_LastSavedHeight rt = (case stored_block C (view (r_db s)) ''block'' nid of None \<Rightarrow> 0 | Some h \<Rightarrow> h) \<and>
    (fresh \<longrightarrow> view (r_db s) = (\<lambda>k. None) \<and> cr_LastSavedHeight rt = 0) \<and>
    (\<not> fresh \<longrightarrow> r_db s = db)"
proof -
  obtain err db' rts where c: "(if fresh then st_ClearStore S db else (None, db)) = (err, db')"
    and e: "err = None" and rts: "new_runtimes S C db' [] chs = Ok rts"
    and s: "s = \<lparr>r_db = db', r_chains = rts, r_heap = \<lparr>hp_routes = (\<lambda>_. None), hp_next = 0\<rparr>, r_tasks = []\<rparr>"
    using assms(2) by (auto simp: NewRelayer_def split: prod.splits option.splits)
  have "(nid, rt) \<in> set rts" using assms(3) s by (simp add: map_of_SomeD)
  then have l: "loaded S C db' (nid, rt)" using new_runtimes_loaded [OF rts] by simp
  have g: "(case GetLastStoredBlock S C prefixBlockStore nid db' of Inl e \<Rightarrow> 0 | Inr h \<Rightarrow> h) =
      (case stored_block C (view db') ''block'' nid of None \<Rightarrow> 0 | Some h \<Rightarrow> h)"
    using message_db.GetLastStoredBlock_iff [OF assms(1), of "''block''" nid db']
    by (cases "stored_block C (view db') ''block'' nid"; cases "GetLastStoredBlock S C ''block'' nid db'")
      (auto simp: prefixBlockStore_def)
  have "fresh \<Longrightarrow> view db' = (\<lambda>k. None)"
    using kv_store.clear_view [OF message_db.axioms(1) [OF assms(1)], of db] c by auto
  then have "fresh \<Longrightarrow> view db' = (\<lambda>k. None) \<and> stored_block C (view db') ''block'' nid = None"
    by (simp add: stored_block_def)
  with l g c wf_chain(1) [OF wf_NewRelayer [OF assms(2)] assms(3)] s show ?thesis
    by (auto simp: loaded_def)
qed

text \<open>
  A new relayer starts with empty caches and queues, and every chain at the height last saved
  for its NID (0 if none was); with the fresh flag the database is empty first, so every height
  is 0 and no message is left.
\<close>
theorem NewRelayer_loads:
  assumes "message_db S view C" "NewRelayer S C db chs fresh = Ok s"
    and "map_of (r_chains s) nid = Some rt"
  shows "cr_MessageCache rt = [] \<and> cr_listenerChan rt = [] \<and> pv_NID (cr_Provider rt) = nid \<and>
    cr_LastSavedHeight rt = (case stored_block C (view (r_db s)) ''block'' nid of None \<Rightarrow> 0 | Some h \<Rightarrow> h) \<and>
    (fresh \<longrightarrow> view (r_db s) = (\<lambda>k. None) \<and> cr_LastSavedHeight rt = 0) \<and>
    (\<not> fresh \<longrightarrow> r_db s = db)"
  by (rule NewRelayer_state [OF assms])

definition ex_saved :: "memdb relayer" where
  "ex_saved = snd (SaveBlockHeight mem_store mem_codec ''a'' 77 ex_start)"

theorem NewRelayer_loads_witness:
  "\<exists>s rt. NewRelayer mem_store mem_codec (r_db ex_saved) ex_chains True = Ok s \<and>
    map_of (r_chains s) ''a'' = Some rt \<and> cr_LastSavedHeight rt = 0 \<and> map_of (r_db s) = (\<lambda>k. None)"
proof -
  have "is_ok (NewRelayer mem_store mem_codec (r_db ex_saved) ex_chains True)"
    "(case NewRelayer mem_store mem_codec (r_db ex_saved) ex_chains True of
        Ok s \<Rightarrow> (case map_of (r_chains s) ''a'' of None \<Rightarrow> False | Some rt \<Rightarrow> True) | _ \<Rightarrow> False)"
    by code_simp+
  then obtain s rt where s: "NewRelayer mem_store mem_codec (r_db ex_saved) ex_chains True = Ok s"
    "map_of (r_chains s) ''a'' = Some rt" by (auto simp: is_ok_iff split: option.splits)
  from NewRelayer_loads [OF mem.message_db_axioms s] s show ?thesis by blast
qed

text \<open>A height saved for a chain is loaded by a restarted relayer, and the running relayer has it at once.\<close>

lemma saved_height_loaded:
  assumes "message_db S view C" "relayer_ok s" "map_of (r_chains s) nid = Some rt"
    and "SaveBlockHeight S C nid h s = (err, s1)"
    and "NewRelayer S C (r_db s1) chs False = Ok s2" "map_of (r_chains s2) nid = Some rt2"
  shows "err = None \<and> cr_LastSavedHeight rt2 = h \<and>
    map_option cr_LastSavedHeight (map_of (r_chains s1) nid) = Some h"
proof -
  have nid: "pv_NID (cr_Provider rt) = nid" by (rule wf_chain(1) [OF assms(2,3)])
  obtain v d' where st: "StoreBlock S C ''block'' h nid (r_db s) = (None, d')"
    using message_db.StoreBlock_view [OF assms(1)] by blast
  have b: "stored_block C (view d') ''block'' nid = Some h"
    using message_db.StoreBlock_refines [OF assms(1), of "''block''" h nid "r_db s" nid] st by simp
  have s1: "err = None" "r_db s1 = d'" "map_option cr_LastSavedHeight (map_of (r_chains s1) nid) = Some h"
    using assms(3,4) nid st by (auto simp: SaveBlockHeight_def prefixBlockStore_def Let_def)
  have "NewRelayer S C d' chs False = Ok s2" using assms(5) s1(2) by simp
  from NewRelayer_state [OF assms(1) this assms(6)] b s1 show ?thesis by simp
qed

end
