(* ===== verification/Evm_Intake.thy ===== *)
theory Evm_Intake
  imports Evm_Listen Relay_Blocks
begin

text \<open>
  The EVM listener together with the relayer: what a pass of the listener delivers, processed block
  by block, ends up in the cache of the chain and in the message store.
\<close>

section \<open>Processing several blocks\<close>

text \<open>A cached message with a number stays as it is when another block of its chain is processed.\<close>

lemma processBlockInfo_keeps_cached:
  assumes "relayer_ok s" "cached_msg s nid k = Some r" "k_sn k \<noteq> None"
  shows "cached_msg (processBlockInfo S C nid bi s) nid k = Some r"
proof -
  obtain ref where ref: "cached_ref s nid k = Some ref" "hp_routes (r_heap s) ref = Some r"
    using assms(2) by (auto simp: cached_msg_Some)
  obtain rt where rt: "map_of (r_chains s) nid = Some rt" "MessageCache_Get k (cr_MessageCache rt) = Some ref"
    using ref(1) by (rule cached_refE)
  obtain c' h' d' where b: "block_messages S C (bi_messages bi) (cr_MessageCache rt, r_heap s, r_db s)
      = (c', h', d')" by (metis prod_cases3)
  obtain a i where sn: "k_sn k = Some (a, i)" using assms(3) by auto
  have "ref < hp_next (r_heap s)" "a < hp_next (r_heap s)"
    using wf_heap [OF assms(1)] ref(2) cached_ref_object(2) [OF assms(1) ref(1)] sn
    by (auto simp: heap_ok_def key_below_def)
  from mergeMessages_old [OF block_messages_merge [OF b] rt(2) this(1) sn this(2)]
  show ?thesis using rt(1) b ref(2) by (simp add: processBlockInfo_def cached_msg_def cached_ref_def)
qed

lemma processed_blocks_keep_cached:
  "relayer_ok s \<Longrightarrow> cached_msg s nid k = Some r \<Longrightarrow> k_sn k \<noteq> None \<Longrightarrow>
   cached_msg (fold (processBlockInfo S C nid) bs s) nid k = Some r"
  by (induction bs arbitrary: s) (simp_all add: wf_processBlockInfo processBlockInfo_keeps_cached del: not_None_eq)

text \<open>Processing a block configures no chain and starts no goroutine.\<close>

lemma processBlockInfo_same:
  "(map_of (r_chains (processBlockInfo S C nid bi s)) n = None) = (map_of (r_chains s) n = None)"
  "r_tasks (processBlockInfo S C nid bi s) = r_tasks s"
  by (auto simp: processBlockInfo_def upd_chain_def map_of_map_entry split: option.split prod.split)

lemma cached_number:
  assumes "wire_key k = MessageKey w" "m_sn w \<noteq> None"
  shows "k_sn k \<noteq> None"
  using assms by (auto simp: wire_key_def MessageKey_def NewMessageKey_def unptr_def)

text \<open>
  The blocks of a chain, processed in order: every message of every block is cached as a fresh
  message, and the message store has, for every source and number, the last message with them.
\<close>

lemma processed_blocks_record:
  assumes db: "message_db S view C"
  shows "relayer_ok s \<Longrightarrow> map_of (r_chains s) nid \<noteq> None \<Longrightarrow>
    (\<And>w. w \<in> set (concat (map bi_messages bs)) \<Longrightarrow> json_route (NewRouteMessage w) \<and> sn_ok (m_sn w) \<and> m_sn w \<noteq> None) \<Longrightarrow>
    (\<forall>w \<in> set (concat (map bi_messages bs)).
      \<exists>k r. cached_msg (fold (processBlockInfo S C nid) bs s) nid k = Some r \<and>
         wire_key k = MessageKey w \<and> wire_route r = NewRouteMessage w) \<and>
    (\<forall>src n. sn_ok n \<longrightarrow>
      stored_msg C (view (r_db (fold (processBlockInfo S C nid) bs s))) ''message'' src n =
        (case last_with src n (concat (map bi_messages bs)) of
           None \<Rightarrow> stored_msg C (view (r_db s)) ''message'' src n | Some w \<Rightarrow> Some (NewRouteMessage w)))"
proof (induction bs arbitrary: s)
  case (Cons b bs)
  let ?s1 = "processBlockInfo S C nid b s"
  let ?s2 = "fold (processBlockInfo S C nid) bs ?s1"
  obtain rt where rt: "map_of (r_chains s) nid = Some rt" using Cons.prems(2) by auto
  have ok1: "relayer_ok ?s1" by (rule wf_processBlockInfo [OF Cons.prems(1)])
  have now: "(\<forall>w \<in> set (bi_messages b).
      \<exists>k r. cached_msg ?s1 nid k = Some r \<and> wire_key k = MessageKey w \<and> wire_route r = NewRouteMessage w) \<and>
    (\<forall>src n. sn_ok n \<longrightarrow> stored_msg C (view (r_db ?s1)) ''message'' src n =
      (case last_with src n (bi_messages b) of
         None \<Rightarrow> stored_msg C (view (r_db s)) ''message'' src n | Some w \<Rightarrow> Some (NewRouteMessage w))) \<and>
    map_option cr_LastBlockHeight (map_of (r_chains ?s1) nid) = Some (bi_height b)"
    by (rule processBlockInfo_records [OF db rt]) (use Cons.prems(3) in auto)
  have later: "(\<forall>w \<in> set (concat (map bi_messages bs)).
      \<exists>k r. cached_msg ?s2 nid k = Some r \<and> wire_key k = MessageKey w \<and> wire_route r = NewRouteMessage w) \<and>
    (\<forall>src n. sn_ok n \<longrightarrow> stored_msg C (view (r_db ?s2)) ''message'' src n =
      (case last_with src n (concat (map bi_messages bs)) of
         None \<Rightarrow> stored_msg C (view (r_db ?s1)) ''message'' src n | Some w \<Rightarrow> Some (NewRouteMessage w)))"
  proof (rule Cons.IH [OF ok1])
    show "map_of (r_chains ?s1) nid \<noteq> None" using Cons.prems(2) processBlockInfo_same(1) by metis
    show "json_route (NewRouteMessage w) \<and> sn_ok (m_sn w) \<and> m_sn w \<noteq> None"
      if "w \<in> set (concat (map bi_messages bs))" for w using Cons.prems(3) [of w] that by simp
  qed
  have first: "\<exists>k r. cached_msg ?s2 nid k = Some r \<and> wire_key k = MessageKey w \<and> wire_route r = NewRouteMessage w"
    if w: "w \<in> set (bi_messages b)" for w
  proof -
    have sn: "m_sn w \<noteq> None" using Cons.prems(3) [of w] w by auto
    obtain k r where k: "cached_msg ?s1 nid k = Some r" "wire_key k = MessageKey w" "wire_route r = NewRouteMessage w"
      using now w by blast
    from processed_blocks_keep_cached [OF ok1 k(1) cached_number [OF k(2) sn]] k(2,3) show ?thesis by blast
  qed
  from now later have "\<forall>src n. sn_ok n \<longrightarrow> stored_msg C (view (r_db ?s2)) ''message'' src n =
      (case last_with src n (bi_messages b @ concat (map bi_messages bs)) of
         None \<Rightarrow> stored_msg C (view (r_db s)) ''message'' src n | Some w \<Rightarrow> Some (NewRouteMessage w))"
    by (simp split: option.split)
  with first later show ?case by auto
qed simp

section \<open>What a pass of the listener leaves in the relayer\<close>

text \<open>The messages that the listener reads from logs; a log it cannot parse is passed over.\<close>

definition log_messages :: "evm_client \<Rightarrow> evm_config \<Rightarrow> elog list \<Rightarrow> wireint message list" where
  "log_messages cl p logs = concat (map (\<lambda>log. case getRelayMessageFromLog cl p log of Ok m \<Rightarrow> [m] | _ \<Rightarrow> []) logs)"

lemma delivered_messages: "concat (map bi_messages (delivered cl p logs)) = log_messages cl p logs"
  by (induction logs) (auto simp: delivered_def log_messages_def Evm_Subscribe_log_def split: result.split)

lemma log_messages_concat:
  "concat (map bi_messages (concat (map (\<lambda>h. delivered cl p (logs_at h)) hs))) =
   log_messages cl p (concat (map logs_at hs))"
  by (induction hs) (simp_all add: delivered_messages log_messages_def)

lemma parsed_number: "getRelayMessageFromLog cl p log = Ok w \<Longrightarrow> m_sn w \<noteq> None"
  by (auto simp: getRelayMessageFromLog_def Let_def split: list.splits if_splits sum.splits)

lemma log_messages_number: "w \<in> set (log_messages cl p logs) \<Longrightarrow> m_sn w \<noteq> None"
  by (auto simp: log_messages_def dest: parsed_number parsed_number [OF sym] split: result.splits)

text \<open>
  C10. What the listener finds reaches the relayer. When the chain answers every range of heights
  within five attempts, one pass of the EVM listener ends, and after the relayer has processed its
  blocks in order, every message in a log of a height from \<open>start\<close> to the latest one is cached as a
  fresh message of its chain, ready to be routed. The message store is keyed by source and number,
  which a message and a call of one chain can share: for every source and number it has the last
  message of the pass with them, so a message that shares them with no other one is stored, and it is
  as before where the pass has none.
\<close>
theorem listened_messages_are_recorded:
  assumes "message_db S view C" "relayer_ok s" "nid = cc_NID (ec_common p)" "map_of (r_chains s) nid \<noteq> None"
    and "cl_GetBlockNumber cl = Inr latest" "start \<noteq> 0"
    and "0 < ec_BlockBatchSize p" "unat latest + unat (ec_BlockBatchSize p) < 2 ^ 64"
    and "\<And>a b. a \<le> b \<Longrightarrow>
      answered (cl_FilterLogs cl (range_query cl p a b)) (concat (map logs_at [unat a..<Suc (unat b)]))"
    and msgs: "msgs = log_messages cl p (concat (map logs_at [unat start..<Suc (unat latest)]))"
    and "\<And>w. w \<in> set msgs \<Longrightarrow> json_route (NewRouteMessage w) \<and> sn_ok (m_sn w)"
  shows "\<exists>bs s'. Evm_Listener_sync cl p start = Some (start, bs) \<and> s' = fold (processBlockInfo S C nid) bs s \<and>
    (\<forall>w \<in> set msgs.
      (\<exists>k r. cached_msg s' nid k = Some r \<and> wire_key k = MessageKey w \<and> wire_route r = NewRouteMessage w) \<and>
      ((\<forall>v \<in> set msgs. m_src v = m_src w \<and> m_sn v = m_sn w \<longrightarrow> v = w) \<longrightarrow>
        stored_msg C (view (r_db s')) ''message'' (m_src w) (m_sn w) = Some (NewRouteMessage w))) \<and>
    (\<forall>src n. sn_ok n \<longrightarrow> stored_msg C (view (r_db s')) ''message'' src n =
      (case last_with src n msgs of
         None \<Rightarrow> stored_msg C (view (r_db s)) ''message'' src n | Some w \<Rightarrow> Some (NewRouteMessage w)))"
proof -
  let ?bs = "concat (map (\<lambda>h. delivered cl p (logs_at h)) [unat start..<Suc (unat latest)])"
  let ?s' = "fold (processBlockInfo S C nid) ?bs s"
  have bs: "concat (map bi_messages ?bs) = msgs" unfolding msgs by (rule log_messages_concat)
  have sync: "Evm_Listener_sync cl p start = Some (start, ?bs)"
    using pass_delivers [OF assms(7-9), where start = start] assms(5,6) by (auto simp: Evm_Listener_sync_def)
  have ok: "json_route (NewRouteMessage w) \<and> sn_ok (m_sn w) \<and> m_sn w \<noteq> None" if "w \<in> set msgs" for w
    using assms(11) [OF that] log_messages_number that unfolding msgs by blast
  note rec = processed_blocks_record [OF assms(1,2,4), of ?bs, unfolded bs, OF ok]
  have "stored_msg C (view (r_db ?s')) ''message'' (m_src w) (m_sn w) = Some (NewRouteMessage w)"
    if "w \<in> set msgs" "\<forall>v \<in> set msgs. m_src v = m_src w \<and> m_sn v = m_sn w \<longrightarrow> v = w" for w
    using rec [THEN conjunct2] ok [OF that(1)] last_with_only [OF that] by simp
  with sync rec show ?thesis by blast
qed

theorem listened_messages_are_recorded_witness:
  "\<exists>s' k r. cached_msg s' ''a'' k = Some r \<and> m_dst (rm_msg r) = ''icon'' \<and>
    stored_msg mem_codec (map_of (r_db s')) ''message'' ''a'' (Some 4) \<noteq> None"
proof -
  let ?p = "ex_evm_config\<lparr>ec_common := (ec_common ex_evm_config)\<lparr>cc_NID := ''a''\<rparr>\<rparr>"
  let ?ms = "log_messages ex_client ?p (concat (map ex_logs_at [unat (3::u64)..<Suc (unat (120::u64))]))"
  let ?w = "\<lparr>m_dst = ''icon'', m_src = ''a'', m_sn = Some 4, m_data = ''data'', m_height = 57,
     m_event = EmitMessage, m_reqid = None\<rparr> :: wireint message"
  have c: "cl_GetBlockNumber ex_client = Inr 120" "(3 :: u64) \<noteq> 0" "0 < ec_BlockBatchSize ?p"
    "unat (120 :: u64) + unat (ec_BlockBatchSize ?p) < 2 ^ 64"
    by (simp_all add: ex_client_def ex_evm_config_def)
  have i: "''a'' = cc_NID (ec_common ?p)" by simp
  have n: "map_of (r_chains ex_start) ''a'' \<noteq> None" by code_simp
  have ms: "?ms = [?w]" by code_simp
  have j: "json_route (NewRouteMessage w) \<and> sn_ok (m_sn w)" if "w \<in> set [?w]" for w
    using that by (simp add: NewRouteMessage_def json_route_def json_key_def ascii_def sn_ok_def EmitMessage_def)
  obtain bs s' where "s' = fold (processBlockInfo mem_store mem_codec ''a'') bs ex_start"
    and r: "\<forall>w \<in> set [?w].
      (\<exists>k r. cached_msg s' ''a'' k = Some r \<and> wire_key k = MessageKey w \<and> wire_route r = NewRouteMessage w) \<and>
      ((\<forall>v \<in> set [?w]. m_src v = m_src w \<and> m_sn v = m_sn w \<longrightarrow> v = w) \<longrightarrow>
        stored_msg mem_codec (map_of (r_db s')) ''message'' (m_src w) (m_sn w) = Some (NewRouteMessage w))"
    using listened_messages_are_recorded [OF mem.message_db_axioms reachable_ok [OF ex_start_reachable] i n c
        ex_client_answers ms [symmetric] j] by blast
  then obtain k r where k: "cached_msg s' ''a'' k = Some r" "wire_route r = NewRouteMessage ?w"
    and st: "stored_msg mem_codec (map_of (r_db s')) ''message'' ''a'' (Some 4) = Some (NewRouteMessage ?w)" by auto
  have "m_dst (rm_msg r) = m_dst (wire_message (rm_msg r))" by simp
  also have "\<dots> = ''icon''" using arg_cong [OF k(2), of rm_msg] by (simp add: wire_route_def NewRouteMessage_def)
  finally show ?thesis using k(1) st by blast
qed

end
