(* ===== verification/Delivery.thy ===== *)
theory Delivery
  imports Providers Evm_Intake
begin

text \<open>
  The way of one message through the relayer and the provider of its destination, from the block in
  which it is observed to its delivery or its next attempt.
\<close>

section \<open>From the block to the goroutine\<close>

lemma fresh_route:
  assumes "wire_route r = NewRouteMessage w"
  shows "wire_message (rm_msg r) = w" "rm_retry r = 0" "\<not> rm_processing r" "rm_lasttry r = 0"
    "\<not> IsProcessing now r"
  using assms by (auto simp: wire_route_def NewRouteMessage_def IsProcessing_def)

text \<open>The visit that starts the goroutine of an idle message its destination wants.\<close>

lemma process_message_spawns:
  assumes "relayer_ok s" "cached_ref s src key = Some ref" "hp_routes (r_heap s) ref = Some m"
    and "map_of (r_chains s) (k_dst key) = Some d" "\<not> IsProcessing (ev_now E) m"
    and "ev_ShouldReceiveMessage E (k_dst key) (wire_message (rm_msg m)) = Inr True"
    and "ev_ShouldSendMessage E src (wire_message (rm_msg m)) = Inr True"
    and "ev_MessageReceived E (k_dst key) (wire_key key) = Inr False"
  shows "process_message S E src key s = Ok (spawn ref (k_dst key) src (toggle ref s))"
proof -
  have key: "MessageKey (rm_msg m) = key" using cached_ref_object(1) [OF assms(1,2)] assms(3) by auto
  then have dst: "m_dst (rm_msg m) = k_dst key" by auto
  obtain rt where rt: "map_of (r_chains s) src = Some rt" "MessageCache_Get key (cr_MessageCache rt) = Some ref"
    using assms(2) by (rule cached_refE)
  have nid: "pv_NID (cr_Provider d) = k_dst key" by (rule wf_chain(1) [OF assms(1,4)])
  have f: "FindChainRuntime (m_dst (rm_msg m)) s = Ok d" by (simp add: FindChainRuntime_Ok dst assms(4))
  have "process_entry S E src key ref m s = Ok (spawn ref (k_dst key) src (toggle ref s))"
    unfolding process_entry_def f using assms(5-8) by (simp add: nid shouldSendMessage_def Let_def)
  with rt assms(3) show ?thesis by (simp add: process_message_def)
qed

text \<open>A retried message can be written to the message store.\<close>

lemma retry_fields:
  assumes "unat (rm_retry m) < 5"
  shows "unat (rm_retry (IncrementRetry t m)) = Suc (unat (rm_retry m))"
    "rm_lasttry (IncrementRetry t m) = t + 6000000000 * 2 ^ Suc (unat (rm_retry m))"
proof -
  show n: "unat (rm_retry (IncrementRetry t m)) = Suc (unat (rm_retry m))"
    using assms by (simp add: IncrementRetry_def AddNextTry_def unat_word_ariths)
  have "rm_lasttry (IncrementRetry t m) = t + sint (RetryInterval * pow2_duration (rm_retry m + 1))"
    by (simp add: IncrementRetry_def AddNextTry_def)
  moreover have "unat (rm_retry m + 1) = Suc (unat (rm_retry m))" using n by simp
  ultimately show "rm_lasttry (IncrementRetry t m) = t + 6000000000 * 2 ^ Suc (unat (rm_retry m))"
    using backoff_no_overflow [of "rm_retry m + 1"] assms by simp
qed

lemma retry_json:
  assumes "unat (rm_retry m) < 5" "json_key (MessageKey (wire_message (rm_msg m)))" "0 \<le> t" "t < 315537000000000000000"
  shows "json_route (wire_route (IncrementRetry t m))"
proof -
  have "(2 :: int) ^ Suc (unat (rm_retry m)) \<le> 2 ^ 5" using assms(1) by (intro power_increasing) simp_all
  then show ?thesis using assms(2-4) retry_fields(2) [OF assms(1), of t] by (simp add: json_route_def)
qed

text \<open>
  C1. End to end. A message of a processed block, alone or among others, whose chains are configured,
  which both chains want and the destination has not received, is routed by the next visit of the
  router, in a goroutine that calls the provider of its destination with exactly this message. When
  \<^verbatim>\<open>Route\<close> of the EVM, ICON or CosmWasm provider returns without error, the message is gone from the
  cache and from the message store; when it returns an error, the message is cached, idle, and has
  one retry. (A \<^verbatim>\<open>Route\<close> that panics ends the process; \<open>Providers\<close> says when it does not.)
\<close>
theorem observed_message_is_delivered:
  assumes "message_db S view C" "relayer_ok s" "m_sn w = Some i" "0 \<le> i" "json_key (MessageKey w)"
    and "map_of (r_chains s) (m_src w) \<noteq> None" "map_of (r_chains s) (m_dst w) \<noteq> None"
    and "w \<in> set (bi_messages bi)" "s1 = processBlockInfo S C (m_src w) bi s"
    and "ev_ShouldReceiveMessage E (m_dst w) w = Inr True" "ev_ShouldSendMessage E (m_src w) w = Inr True"
    and "ev_MessageReceived E (m_dst w) (MessageKey w) = Inr False"
    and "0 \<le> ev_now E'" "ev_now E' < 315537000000000000000"
    and "Ok (cbs, err) \<in> {fst (Evm_Route evm_cl evm_cfg now w evm_st), fst (Icon_Route icon_cl icon_cfg w icon_st),
      fst (Wasm_Route wasm_cl wasm_cfg w wasm_st)}" "\<And>k r e. (k, r, e) \<in> set cbs \<Longrightarrow> ascii (tr_txhash r)"
  shows "\<exists>key ref s2 s3. wire_key key = MessageKey w \<and> process_message S E (m_src w) key s1 = Ok s2 \<and>
    r_tasks s2 = \<lparr>tk_ref = ref, tk_src = m_src w, tk_dst = m_dst w, tk_phase = Spawned\<rparr> # r_tasks s \<and>
    RouteMessage S C E' ref (m_dst w) (m_src w) (with_key key cbs) err s2 = Ok s3 \<and>
    (if err = None then cached_msg s3 (m_src w) key = None \<and>
       stored_msg C (view (r_db s3)) ''message'' (m_src w) (m_sn w) = None
     else \<exists>m. cached_msg s3 (m_src w) key = Some m \<and> wire_message (rm_msg m) = w \<and> \<not> rm_processing m \<and> rm_retry m = 1)"
proof -
  let ?src = "m_src w"
  obtain rt where rt: "map_of (r_chains s) ?src = Some rt" using assms(6) by auto
  have ok1: "relayer_ok s1" unfolding assms(9) by (rule wf_processBlockInfo [OF assms(2)])
  obtain key ref r where c: "cached_ref s1 ?src key = Some ref" "hp_routes (r_heap s1) ref = Some r"
    "wire_key key = MessageKey w" "wire_route r = NewRouteMessage w"
    using processBlockInfo_cached [OF rt assms(8), of S C] assms(3,9) by auto
  note r = fresh_route [OF c(4)]
  have kd: "k_dst key = m_dst w" "k_src key = ?src" "unptr (k_sn key) = Some i"
    using c(3) assms(3) by (auto simp: wire_key_def MessageKey_def NewMessageKey_def)
  note ch1 = processBlockInfo_same(1) [of S C ?src bi s, folded assms(9)]
  have "map_of (r_chains s1) (k_dst key) \<noteq> None" using assms(7) kd(1) ch1 by simp
  then obtain d where d: "map_of (r_chains s1) (k_dst key) = Some d" by auto
  obtain rt1 where rt1: "map_of (r_chains s1) ?src = Some rt1" using ch1 [of ?src] rt by auto
  let ?s2 = "spawn ref (k_dst key) ?src (toggle ref s1)"
  have p: "process_message S E ?src key s1 = Ok ?s2"
    using assms(10-12) r kd c(3) by (intro process_message_spawns [OF ok1 c(1,2) d]) simp_all
  note t = processBlockInfo_same(2) [of S C ?src bi s, folded assms(9)]
  have ok2: "relayer_ok ?s2" by (rule wf_process_message [OF ok1 p])
  let ?m = "r\<lparr>rm_processing := True\<rparr>"
  have m2: "hp_routes (r_heap ?s2) ref = Some ?m" using c(2) r(3) by (simp add: spawn_def toggle_routes ToggleProcessing_def)
  obtain a where sn: "k_sn key = Some (a, i)" using kd(3) by (auto simp: unptr_def split: option.splits)
  have j: "json_route (wire_route (IncrementRetry (ev_now E') ?m))"
    by (rule retry_json) (use r assms(5,13,14) in simp_all)
  have out: "Ok (cbs, err) \<in> {fst (Evm_Route evm_cl evm_cfg now (wire_message (rm_msg ?m)) evm_st),
      fst (Icon_Route icon_cl icon_cfg (wire_message (rm_msg ?m)) icon_st),
      fst (Wasm_Route wasm_cl wasm_cfg (wire_message (rm_msg ?m)) wasm_st)}" using assms(15) r(1) by simp
  have ch2: "map_of (r_chains ?s2) ?src = Some rt1" "map_of (r_chains ?s2) (m_dst w) = Some d"
    using rt1 d kd(1) by (simp_all add: spawn_def)
  have c2: "cached_ref ?s2 ?src key = Some ref" using c(1) by simp
  have retry: "rm_retry ?m + 1 < MaxTxRetry" using r(2) by (simp add: MaxTxRetry_def)
  have task: "r_tasks ?s2 = \<lparr>tk_ref = ref, tk_src = ?src, tk_dst = m_dst w, tk_phase = Spawned\<rparr> # r_tasks s"
    using t kd(1) by (simp add: spawn_def)
  have jk: "json_key (wire_key key)" and pm: "rm_processing ?m" using c(3) assms(5) by simp_all
  obtain s3 where s3: "RouteMessage S C E' ref (m_dst w) ?src (with_key key cbs) err ?s2 = Ok s3"
    "if err = None then cached_msg s3 ?src key = None \<and>
       stored_msg C (view (r_db s3)) ''message'' (k_src key) (Some i) = None
     else if rm_retry ?m + 1 < MaxTxRetry then
       (\<exists>m'. cached_msg s3 ?src key = Some m' \<and> rm_msg m' = rm_msg ?m \<and> \<not> rm_processing m' \<and> rm_retry m' = rm_retry ?m + 1)
     else cached_msg s3 ?src key = None \<and>
       (\<exists>w. stored_msg C (view (r_db s3)) ''message'' (k_src key) (Some i) = Some w \<and>
         \<not> rm_processing w \<and> rm_retry w = rm_retry ?m + 1)"
    using any_provider_settles [OF assms(1) ok2 ch2 c2 m2 pm sn assms(4) j jk _ out] assms(16) by blast
  from s3(2) retry r kd assms(3) have "if err = None then cached_msg s3 ?src key = None \<and>
       stored_msg C (view (r_db s3)) ''message'' ?src (m_sn w) = None
     else \<exists>m. cached_msg s3 ?src key = Some m \<and> wire_message (rm_msg m) = w \<and> \<not> rm_processing m \<and> rm_retry m = 1"
    by (auto split: if_splits)
  with c(3) p task s3(1) show ?thesis by blast
qed

theorem observed_message_is_delivered_witness:
  "\<exists>key ref cbs s2 s3. process_message mem_store ex_env ''a'' key
      (processBlockInfo mem_store mem_codec ''a''
        \<lparr>bi_height = 3, bi_messages = [ex_msg ''a'' ''b'' 2, ex_msg ''a'' ''b'' 1]\<rparr> ex_start) = Ok s2 \<and>
    RouteMessage mem_store mem_codec ex_env ref ''b'' ''a'' cbs None s2 = Ok s3 \<and> cached_msg s3 ''a'' key = None"
proof -
  let ?w = "ex_msg ''a'' ''b'' 1"
  let ?bi = "\<lparr>bi_height = 3, bi_messages = [ex_msg ''a'' ''b'' 2, ?w]\<rparr>"
  let ?r = "\<lparr>tr_height = 121, tr_txhash = ''0xbeef'', tr_codespace = '''', tr_code = Success, tr_data = ''''\<rparr>"
  let ?cbs = "[(MessageKey ?w, ?r, None)]"
  have "fst (Evm_Route ex_client ex_evm_config 100 ?w ex_evm_state) = Ok (?cbs, None)" by code_simp
  then have o: "Ok (?cbs, None) \<in> {fst (Evm_Route ex_client ex_evm_config 100 ?w ex_evm_state),
      fst (Icon_Route ex_icon_client ex_icon_config ?w ex_icon_state),
      fst (Wasm_Route (ex_wasm_client []) ex_wasm_config ?w ex_wasm_state)}" by simp
  have c: "map_of (r_chains ex_start) (m_src ?w) \<noteq> None" "map_of (r_chains ex_start) (m_dst ?w) \<noteq> None"
    by (code_simp, code_simp)
  have b: "?w \<in> set (bi_messages ?bi)" by simp
  have e: "ev_ShouldReceiveMessage ex_env (m_dst ?w) ?w = Inr True" "ev_ShouldSendMessage ex_env (m_src ?w) ?w = Inr True"
    "ev_MessageReceived ex_env (m_dst ?w) (MessageKey ?w) = Inr False" "0 \<le> ev_now ex_env"
    "ev_now ex_env < 315537000000000000000" by (simp_all add: ex_env_def ex_now_def)
  have w: "m_sn ?w = Some 1" "(0 :: int) \<le> 1" "json_key (MessageKey ?w)" "m_src ?w = ''a''" "m_dst ?w = ''b''"
    by (simp_all add: ex_msg_def json_key_def ascii_def)
  have "\<exists>key ref s2 s3. wire_key key = MessageKey ?w \<and> process_message mem_store ex_env (m_src ?w) key
        (processBlockInfo mem_store mem_codec (m_src ?w) ?bi ex_start) = Ok s2 \<and>
    r_tasks s2 = \<lparr>tk_ref = ref, tk_src = m_src ?w, tk_dst = m_dst ?w, tk_phase = Spawned\<rparr> # r_tasks ex_start \<and>
    RouteMessage mem_store mem_codec ex_env ref (m_dst ?w) (m_src ?w) (with_key key ?cbs) None s2 = Ok s3 \<and>
    (if None = (None :: error option) then cached_msg s3 (m_src ?w) key = None \<and>
       stored_msg mem_codec (map_of (r_db s3)) ''message'' (m_src ?w) (m_sn ?w) = None
     else \<exists>m. cached_msg s3 (m_src ?w) key = Some m \<and> wire_message (rm_msg m) = ?w \<and> \<not> rm_processing m \<and> rm_retry m = 1)"
    by (rule observed_message_is_delivered [OF mem.message_db_axioms reachable_ok [OF ex_start_reachable] w(1-3) c b refl
      e o]) (auto simp: ascii_def)
  then show ?thesis unfolding w if_P [OF refl] by blast
qed

end
