(* ===== verification/Relay_Retry.thy ===== *)
theory Relay_Retry
  imports Delivery
begin

text \<open>
  The attempts to deliver one message: visits of the router, goroutines, callbacks and returns as steps
  of \<open>Relay_Steps\<close>, one attempt after the other with the back-off in between.
\<close>

section \<open>One attempt\<close>

text \<open>
  What decides an attempt: the answers when the router visits the message and when its goroutine
  starts, the callbacks the provider makes and what \<^verbatim>\<open>Route\<close> returns. The goroutine of the latest
  visit is the first of the list.
\<close>

record attempt =
  at_visit :: env
  at_route :: env
  at_cbs :: "(wireint message_key \<times> tx_response \<times> error option) list"
  at_err :: "error option"

definition callback_labels :: "bigptr message_key \<Rightarrow> attempt \<Rightarrow> 'w label list" where
  "callback_labels key a = map (\<lambda>(k, r, e). LCallback 0 key r e) (at_cbs a)"

definition attempt_labels :: "string \<Rightarrow> bigptr message_key \<Rightarrow> attempt \<Rightarrow> 'w label list" where
  "attempt_labels src key a =
     LProcess (at_visit a) src key # LRoute (at_route a) 0 # callback_labels key a @ [LReturn 0 (at_err a)]"

definition wanted :: "wireint message \<Rightarrow> attempt \<Rightarrow> bool" where
  "wanted w a = (ev_ShouldReceiveMessage (at_visit a) (m_dst w) w = Inr True \<and>
     ev_ShouldSendMessage (at_visit a) (m_src w) w = Inr True \<and>
     ev_MessageReceived (at_visit a) (m_dst w) (MessageKey w) = Inr False)"

definition reported :: "wireint message \<Rightarrow> attempt \<Rightarrow> bool" where
  "reported w a = (settles w (Ok (at_cbs a, at_err a)) \<and> list_all (\<lambda>(k, r, e). ascii (tr_txhash r)) (at_cbs a))"

lemma run_append: "run S C J (xs @ ys) s = Option.bind (run S C J xs s) (run S C J ys)"
  by (induction xs arbitrary: s) (auto split: bind_split)

lemma run_wf: "run S C J ls s = Some s' \<Longrightarrow> relayer_ok s \<Longrightarrow> relayer_ok s'"
  by (induction ls arbitrary: s) (auto simp: bind_eq_Some_conv dest!: run1_step wf_step)

lemma callback_tasks: "callback S C src dst key r e s = Ok s' \<Longrightarrow> r_tasks s' = r_tasks s"
  by (auto simp: callback_def ClearMessages_def upd_cache_def upd_chain_def Let_def
      split: option.splits if_splits prod.splits)

lemma run_callback_labels:
  "r_tasks s = t # ts \<Longrightarrow> tk_phase t \<noteq> Spawned \<Longrightarrow>
   run_callbacks S C (tk_src t) (tk_dst t) (with_key key cbs) s = Ok s' \<Longrightarrow>
   run S C J (map (\<lambda>(k, r, e). LCallback 0 key r e) cbs) s = Some s' \<and> r_tasks s' = t # ts"
proof (induction cbs arbitrary: s)
  case (Cons c cbs)
  obtain k r e where c: "c = (k, r, e)" by (cases c)
  obtain s1 where s1: "callback S C (tk_src t) (tk_dst t) key r e s = Ok s1"
    "run_callbacks S C (tk_src t) (tk_dst t) (with_key key cbs) s1 = Ok s'"
    using Cons.prems(3) by (auto simp: c with_key_def rbind_eq_Ok)
  have "r_tasks s1 = t # ts" using callback_tasks [OF s1(1)] Cons.prems(1) by simp
  from Cons.IH [OF this Cons.prems(2) s1(2)] show ?case using Cons.prems(1,2) s1(1) by (simp add: c)
qed (simp add: with_key_def)

lemma HandleMessageFailed_chains:
  "HandleMessageFailed S C ref src s = Ok s' \<Longrightarrow>
   (map_of (r_chains s') n = None) = (map_of (r_chains s) n = None)"
  by (auto simp: HandleMessageFailed_def upd_cache_def upd_chain_def map_of_map_entry Let_def rbind_eq_Ok
      split: option.splits if_splits prod.splits)

text \<open>The visit and the start of the goroutine.\<close>

lemma attempt_starts:
  assumes "relayer_ok s" "cached_msg s src key = Some m" "w = wire_message (rm_msg m)"
    and "\<not> IsProcessing (ev_now (at_visit a)) m" "src = m_src w" "map_of (r_chains s) (m_dst w) \<noteq> None" "wanted w a"
  shows "\<exists>ref s2. run S C J [LProcess (at_visit a) src key, LRoute (at_route a) 0] s = Some s2 \<and> relayer_ok s2 \<and>
    r_tasks s2 = \<lparr>tk_ref = ref, tk_src = src, tk_dst = m_dst w, tk_phase = Routing\<rparr> # r_tasks s \<and>
    cached_ref s2 src key = Some ref \<and> r_chains s2 = r_chains s \<and>
    hp_routes (r_heap s2) ref = Some (IncrementRetry (ev_now (at_route a)) (m\<lparr>rm_processing := True\<rparr>)) \<and>
    (\<forall>x. x \<noteq> ref \<longrightarrow> hp_routes (r_heap s2) x = hp_routes (r_heap s) x)"
proof -
  obtain ref where ref: "cached_ref s src key = Some ref" "hp_routes (r_heap s) ref = Some m"
    using assms(2) by (auto simp: cached_msg_Some)
  have key: "MessageKey (rm_msg m) = key" using cached_ref_object(1) [OF assms(1) ref(1)] ref(2) by auto
  have wk: "wire_key key = MessageKey w" "k_dst key = m_dst w"
    using key assms(3) by (auto simp: wire_MessageKey [symmetric])
  obtain d where d: "map_of (r_chains s) (k_dst key) = Some d" using assms(6) wk(2) by auto
  let ?s1 = "spawn ref (k_dst key) src (toggle ref s)"
  let ?s2 = "set_phase 0 Routing (RouteMessage_begin (at_route a) ref ?s1)"
  have visit: "process_message S (at_visit a) src key s = Ok ?s1"
    using assms(3,5,7) wk
    by (intro process_message_spawns [OF assms(1) ref d assms(4)]) (simp_all add: wanted_def)
  have ok1: "relayer_ok ?s1" by (rule wf_process_message [OF assms(1) visit])
  have t1: "r_tasks ?s1 = \<lparr>tk_ref = ref, tk_src = src, tk_dst = m_dst w, tk_phase = Spawned\<rparr> # r_tasks s"
    using wk(2) by (simp add: spawn_def)
  have "relayer_ok ?s2"
    by (rule wf_set_routing [OF wf_RouteMessage_begin [OF ok1]]) (simp_all add: t1 active_def)
  moreover have "hp_routes (r_heap ?s1) ref = Some (m\<lparr>rm_processing := True\<rparr>)"
    using ref(2) assms(4) by (simp add: spawn_def toggle_routes ToggleProcessing_def IsProcessing_def)
  then have "hp_routes (r_heap ?s2) ref = Some (IncrementRetry (ev_now (at_route a)) (m\<lparr>rm_processing := True\<rparr>))"
    by (simp add: RouteMessage_begin_def)
  moreover have "\<forall>x. x \<noteq> ref \<longrightarrow> hp_routes (r_heap ?s2) x = hp_routes (r_heap s) x"
    by (simp add: RouteMessage_begin_def spawn_def toggle_routes split: option.split)
  moreover have "r_chains ?s2 = r_chains s" by (simp add: spawn_def)
  moreover have "cached_ref ?s2 src key = Some ref" using ref(1) calculation(3) by (simp add: cached_ref_cong [of ?s2 s])
  moreover have "run S C J [LProcess (at_visit a) src key, LRoute (at_route a) 0] s = Some ?s2"
    using visit t1 by simp
  ultimately show ?thesis using t1 by (intro exI [of _ ref] exI [of _ ?s2]) simp
qed

text \<open>The callbacks and the return of a goroutine that delivers.\<close>

lemma attempt_delivers:
  assumes "message_db S view C" "r_tasks s = t # ts" "tk_phase t = Routing" "tk_src t = src" "tk_dst t = dst"
    and "map_of (r_chains s) src = Some rt" "map_of (r_chains s) dst = Some d" "cached_msg s src key = Some m"
    and "k_sn key = Some (x, i)" "0 \<le> i" "json_key (wire_key key)" "reported w a" "at_err a = None"
  shows "\<exists>s'. run S C J (callback_labels key a @ [LReturn 0 (at_err a)]) s = Some s' \<and>
    cached_msg s' src key = None \<and> stored_msg C (view (r_db s')) ''message'' (k_src key) (Some i) = None"
proof -
  have one: "length (filter (\<lambda>(k, r, e). tr_code r = Success) (at_cbs a)) = 1"
    using assms(12,13) by (simp add: reported_def settles_def)
  obtain r e where r: "tr_code r = Success" "\<exists>k. (k, r, e) \<in> set (at_cbs a)"
    "\<And>s'. callback S C src dst key r e s = Ok s' \<Longrightarrow> cached_msg s' src key = None \<Longrightarrow>
     run_callbacks S C src dst (with_key key (at_cbs a)) s = Ok s'"
    using run_callbacks_one_success [OF one] by blast
  have t: "ascii (tr_txhash r)" using assms(12) r(2) by (auto simp: reported_def list_all_iff)
  obtain s3 where s3: "callback S C src dst key r e s = Ok s3" "cached_msg s3 src key = None"
    "stored_msg C (view (r_db s3)) ''message'' (k_src key) (Some i) = None"
    using callback_delivers [OF assms(1,6-11) t r(1)] by blast
  have ph: "tk_phase t \<noteq> Spawned" using assms(3) by simp
  have "run_callbacks S C (tk_src t) (tk_dst t) (with_key key (at_cbs a)) s = Ok s3"
    using r(3) [OF s3(1,2)] assms(4,5) by simp
  from run_callback_labels [OF assms(2) ph this, of J]
  have run: "run S C J (callback_labels key a) s = Some s3" "r_tasks s3 = t # ts" by (simp_all add: callback_labels_def)
  have "run S C J (callback_labels key a @ [LReturn 0 (at_err a)]) s = Some (set_phase 0 Returned s3)"
    using run assms(3,13) by (simp add: run_append RouteMessage_end_def)
  moreover have "cached_msg (set_phase 0 Returned s3) src key = None"
    using s3(2) by (simp add: cached_msg_def cached_ref_cong [of "set_phase 0 Returned s3" s3])
  ultimately show ?thesis using s3(3) by simp
qed

text \<open>The callbacks and the return of a goroutine that fails.\<close>

lemma attempt_fails:
  assumes "message_db S view C" "relayer_ok s" "r_tasks s = t # ts" "tk_phase t = Routing" "tk_ref t = ref"
    and "tk_src t = src" "tk_dst t = dst" "cached_ref s src key = Some ref" "hp_routes (r_heap s) ref = Some m"
    and "k_sn key = Some (x, i)" "0 \<le> i" "json_route (wire_route m)" "rm_processing m" "reported w a" "at_err a = Some e"
  shows "\<exists>s'. run S C J (callback_labels key a @ [LReturn 0 (at_err a)]) s = Some s' \<and>
    (\<forall>n. map_of (r_chains s') n = None \<longleftrightarrow> map_of (r_chains s) n = None) \<and>
    (if rm_retry m < MaxTxRetry then cached_msg s' src key = Some (m\<lparr>rm_processing := False\<rparr>)
     else cached_msg s' src key = None \<and>
       stored_msg C (view (r_db s')) ''message'' (k_src key) (Some i) = Some (wire_route (m\<lparr>rm_processing := False\<rparr>)))"
proof -
  let ?s3 = "set_phase 0 Returned s"
  have "filter (\<lambda>(k, r, e). tr_code r = Success) (at_cbs a) = []"
    using assms(14,15) by (simp add: reported_def settles_def)
  then have r: "run_callbacks S C (tk_src t) (tk_dst t) (with_key key (at_cbs a)) s = Ok s"
    by (rule run_callbacks_no_success)
  have ph: "tk_phase t \<noteq> Spawned" using assms(4) by simp
  from run_callback_labels [OF assms(3) ph r, of J]
  have run: "run S C J (callback_labels key a) s = Some s" by (simp add: callback_labels_def)
  have "relayer_ok ?s3" by (rule wf_set_returned(1) [OF assms(2)]) (simp_all add: assms(3,4) active_def)
  moreover have c: "cached_ref ?s3 src key = Some ref" "hp_routes (r_heap ?s3) ref = Some m"
    using assms(8,9) by (simp_all add: cached_ref_cong [of ?s3 s])
  ultimately obtain s4 where s4: "HandleMessageFailed S C ref src ?s3 = Ok s4"
    "if rm_retry m < MaxTxRetry then cached_msg s4 src key = Some (m\<lparr>rm_processing := False\<rparr>) \<and> r_db s4 = r_db ?s3
     else cached_msg s4 src key = None \<and>
       stored_msg C (view (r_db s4)) ''message'' (k_src key) (Some i) = Some (wire_route (m\<lparr>rm_processing := False\<rparr>))"
    using HandleMessageFailed_keeps [OF assms(1) _ c assms(10-13)] by blast
  have "run S C J (callback_labels key a @ [LReturn 0 (at_err a)]) s = Some s4"
    using run s4(1) assms(3-6,15) by (simp add: run_append RouteMessage_end_def)
  moreover have "map_of (r_chains s4) n = None \<longleftrightarrow> map_of (r_chains s) n = None" for n
    using HandleMessageFailed_chains [OF s4(1), of n] by simp
  ultimately show ?thesis using s4(2) by (auto split: if_splits)
qed

text \<open>
  An attempt on an idle message that both chains want and the destination has not received runs through
  to the return of its goroutine. It delivers the message; or the message is idle again, with one more
  retry and the time of its next try; or, at the limit, it is in the message store.
\<close>

lemma attempt_runs:
  assumes "message_db S view C" "relayer_ok s" "cached_msg s src key = Some m" "w = wire_message (rm_msg m)"
    and "\<not> IsProcessing (ev_now (at_visit a)) m" "src = m_src w" "map_of (r_chains s) (m_dst w) \<noteq> None"
    and "m_sn w = Some i" "0 \<le> i" "json_route (wire_route (IncrementRetry (ev_now (at_route a)) m))"
    and "wanted w a" "reported w a"
  shows "\<exists>s'. run S C J (attempt_labels src key a) s = Some s' \<and>
    (if at_err a = None then cached_msg s' src key = None \<and>
       stored_msg C (view (r_db s')) ''message'' src (m_sn w) = None
     else (\<forall>n. map_of (r_chains s') n = None \<longleftrightarrow> map_of (r_chains s) n = None) \<and>
       (let m' = IncrementRetry (ev_now (at_route a)) m in
        if rm_retry m + 1 < MaxTxRetry then cached_msg s' src key = Some m'
        else cached_msg s' src key = None \<and>
          stored_msg C (view (r_db s')) ''message'' src (m_sn w) = Some (wire_route m')))"
proof -
  let ?m2 = "IncrementRetry (ev_now (at_route a)) (m\<lparr>rm_processing := True\<rparr>)"
  obtain ref s2 where s2: "run S C J [LProcess (at_visit a) src key, LRoute (at_route a) 0] s = Some s2" "relayer_ok s2"
    "r_tasks s2 = \<lparr>tk_ref = ref, tk_src = src, tk_dst = m_dst w, tk_phase = Routing\<rparr> # r_tasks s"
    "cached_ref s2 src key = Some ref" "r_chains s2 = r_chains s" "hp_routes (r_heap s2) ref = Some ?m2"
    using attempt_starts [OF assms(2-7,11)] by blast
  have "MessageKey (rm_msg m) = key"
    using assms(3) by (auto simp: cached_msg_Some dest: cached_ref_object(1) [OF assms(2)])
  then have wk: "wire_key key = MessageKey w" "k_src key = src" "unptr (k_sn key) = m_sn w"
    using assms(4,6) by (auto simp: wire_MessageKey [symmetric])
  obtain x where sn: "k_sn key = Some (x, i)" using wk(3) assms(8) by (auto simp: unptr_def split: option.splits)
  have split: "attempt_labels src key a =
      [LProcess (at_visit a) src key, LRoute (at_route a) 0] @ callback_labels key a @ [LReturn 0 (at_err a)]"
    by (simp add: attempt_labels_def)
  have run: "run S C J (attempt_labels src key a) s = run S C J (callback_labels key a @ [LReturn 0 (at_err a)]) s2"
    unfolding split run_append [of S C J "[LProcess (at_visit a) src key, LRoute (at_route a) 0]"] s2(1) by simp
  show ?thesis
  proof (cases "at_err a")
    case None
    obtain d rt where ch: "map_of (r_chains s2) src = Some rt" "map_of (r_chains s2) (m_dst w) = Some d"
      using s2(4,5) assms(7) by (auto elim: cached_refE)
    have j: "json_key (wire_key key)" using assms(4,10) wk(1) by (simp add: json_route_def)
    have cm: "cached_msg s2 src key = Some ?m2" using s2(4,6) by (simp add: cached_msg_def)
    from attempt_delivers [OF assms(1) s2(3) _ _ _ ch cm sn assms(9) j assms(12) None, of J]
    show ?thesis using run None wk(2) assms(8) by simp
  next
    case (Some e)
    have m': "?m2\<lparr>rm_processing := False\<rparr> = IncrementRetry (ev_now (at_route a)) m"
      using assms(5) by (simp add: IncrementRetry_def AddNextTry_def IsProcessing_def)
    have j: "json_route (wire_route ?m2)"
      using assms(10) by (simp add: json_route_def wire_route_def IncrementRetry_def AddNextTry_def)
    from attempt_fails [OF assms(1) s2(2,3) _ _ _ _ s2(4,6) sn assms(9) j _ assms(12) Some, of "m_dst w" J, unfolded m']
    show ?thesis using run Some wk(2) assms(8) s2(5) by (auto simp: Let_def split: if_splits)
  qed
qed

section \<open>One attempt after the other\<close>

text \<open>
  The times of the attempts on a message that has had \<open>n\<close> retries and waits until \<open>due\<close>: each visit
  is later than the back-off of the attempt before allows. The years of the clock have four digits.
\<close>

fun spaced :: "gotime \<Rightarrow> nat \<Rightarrow> attempt list \<Rightarrow> bool" where
  "spaced due n [] = True"
| "spaced due n (a # as) = (due < ev_now (at_visit a) \<and> 0 \<le> ev_now (at_route a) \<and>
     ev_now (at_route a) < 315537000000000000000 \<and> spaced (ev_now (at_route a) + 6000000000 * 2 ^ Suc n) (Suc n) as)"

lemma attempts_run:
  assumes db: "message_db S view C"
    and w: "m_sn w = Some i" "0 \<le> i" "json_key (MessageKey w)" "src = m_src w"
  shows "relayer_ok s \<Longrightarrow> cached_msg s src key = Some m \<Longrightarrow> wire_message (rm_msg m) = w \<Longrightarrow> \<not> rm_processing m \<Longrightarrow>
    map_of (r_chains s) (m_dst w) \<noteq> None \<Longrightarrow> unat (rm_retry m) + length as < 5 \<Longrightarrow>
    spaced (rm_lasttry m) (unat (rm_retry m)) (as @ [a]) \<Longrightarrow>
    list_all (\<lambda>b. wanted w b \<and> reported w b) (as @ [a]) \<Longrightarrow> list_all (\<lambda>b. at_err b \<noteq> None) as \<Longrightarrow>
    \<exists>s'. run S C J (concat (map (attempt_labels src key) (as @ [a]))) s = Some s' \<and>
      (if at_err a = None then cached_msg s' src key = None \<and>
         stored_msg C (view (r_db s')) ''message'' src (m_sn w) = None
       else if unat (rm_retry m) + length as + 1 < 5 then \<exists>m'. cached_msg s' src key = Some m' \<and>
         wire_message (rm_msg m') = w \<and> \<not> rm_processing m' \<and> unat (rm_retry m') = unat (rm_retry m) + length as + 1
       else cached_msg s' src key = None \<and> (\<exists>v. stored_msg C (view (r_db s')) ''message'' src (m_sn w) = Some v \<and>
         rm_msg v = w \<and> \<not> rm_processing v \<and> unat (rm_retry v) = 5))"
proof (induction as arbitrary: s m)
  case Nil
  let ?m' = "IncrementRetry (ev_now (at_route a)) m"
  have r: "unat (rm_retry m) < 5" using Nil.prems(6) by simp
  have j: "json_route (wire_route ?m')" by (rule retry_json [OF r]) (use Nil.prems(3,7) w(3) in simp_all)
  have idle: "\<not> IsProcessing (ev_now (at_visit a)) m" using Nil.prems(4,7) by (simp add: IsProcessing_def)
  have max: "(rm_retry m + 1 < MaxTxRetry) = (unat (rm_retry m) + 1 < 5)"
    using retry_fields(1) [OF r, of 0] by (simp add: word_less_nat_alt MaxTxRetry_def)
  obtain s' where s': "run S C J (attempt_labels src key a) s = Some s'"
    "if at_err a = None then cached_msg s' src key = None \<and>
       stored_msg C (view (r_db s')) ''message'' src (m_sn w) = None
     else (\<forall>n. map_of (r_chains s') n = None \<longleftrightarrow> map_of (r_chains s) n = None) \<and>
       (let m' = ?m' in if rm_retry m + 1 < MaxTxRetry then cached_msg s' src key = Some m'
        else cached_msg s' src key = None \<and>
          stored_msg C (view (r_db s')) ''message'' src (m_sn w) = Some (wire_route m'))"
    using attempt_runs [OF db Nil.prems(1,2) Nil.prems(3) [symmetric] idle w(4) Nil.prems(5) w(1,2) j, of J] Nil.prems(8)
    by auto
  have f: "wire_message (rm_msg ?m') = w" "\<not> rm_processing ?m'" "unat (rm_retry ?m') = unat (rm_retry m) + 1"
    using Nil.prems(3,4) retry_fields(1) [OF r] by simp_all
  show ?case using s' r f max by (auto simp: Let_def split: if_splits)
next
  case (Cons b bs)
  let ?m' = "IncrementRetry (ev_now (at_route b)) m"
  have r: "unat (rm_retry m) < 5" "unat (rm_retry m) + 1 < 5" using Cons.prems(6) by simp_all
  have j: "json_route (wire_route ?m')" by (rule retry_json [OF r(1)]) (use Cons.prems(3,7) w(3) in simp_all)
  have idle: "\<not> IsProcessing (ev_now (at_visit b)) m" using Cons.prems(4,7) by (simp add: IsProcessing_def)
  have max: "rm_retry m + 1 < MaxTxRetry"
    using retry_fields(1) [OF r(1), of 0] r(2) by (simp add: word_less_nat_alt MaxTxRetry_def)
  obtain s1 where s1: "run S C J (attempt_labels src key b) s = Some s1" "cached_msg s1 src key = Some ?m'"
    "\<forall>n. map_of (r_chains s1) n = None \<longleftrightarrow> map_of (r_chains s) n = None"
    using attempt_runs [OF db Cons.prems(1,2) Cons.prems(3) [symmetric] idle w(4) Cons.prems(5) w(1,2) j, of J]
      Cons.prems(8,9) max by (auto simp: Let_def)
  have f: "wire_message (rm_msg ?m') = w" "\<not> rm_processing ?m'" "unat (rm_retry ?m') = Suc (unat (rm_retry m))"
    "rm_lasttry ?m' = ev_now (at_route b) + 6000000000 * 2 ^ Suc (unat (rm_retry m))"
    using Cons.prems(3,4) retry_fields [OF r(1)] by simp_all
  have sp: "spaced (rm_lasttry ?m') (unat (rm_retry ?m')) (bs @ [a])" using Cons.prems(7) unfolding f(3,4) by simp
  have "\<exists>s'. run S C J (concat (map (attempt_labels src key) (bs @ [a]))) s1 = Some s' \<and>
      (if at_err a = None then cached_msg s' src key = None \<and>
         stored_msg C (view (r_db s')) ''message'' src (m_sn w) = None
       else if unat (rm_retry ?m') + length bs + 1 < 5 then \<exists>m'. cached_msg s' src key = Some m' \<and>
         wire_message (rm_msg m') = w \<and> \<not> rm_processing m' \<and> unat (rm_retry m') = unat (rm_retry ?m') + length bs + 1
       else cached_msg s' src key = None \<and> (\<exists>v. stored_msg C (view (r_db s')) ''message'' src (m_sn w) = Some v \<and>
         rm_msg v = w \<and> \<not> rm_processing v \<and> unat (rm_retry v) = 5))"
    by (rule Cons.IH [OF run_wf [OF s1(1) Cons.prems(1)] s1(2) f(1,2) _ _ sp])
      (use Cons.prems(5,6,8,9) s1(3) f(3) in simp_all)
  moreover have n: "unat (rm_retry ?m') + length bs = unat (rm_retry m) + length (b # bs)" using f(3) by simp
  moreover have "run S C J (concat (map (attempt_labels src key) ((b # bs) @ [a]))) s =
      run S C J (concat (map (attempt_labels src key) (bs @ [a]))) s1"
    using s1(1) by (simp only: append_Cons list.map concat.simps run_append Option.bind.bind_lunit)
  ultimately show ?case by (simp only:)
qed

text \<open>
  C2. The life of a message that both chains want and the destination has not received, over any
  number of attempts up to the limit of five. After failed attempts \<open>as\<close>, each later than the back-off
  of the one before allows, a further attempt \<open>a\<close> takes place as well, as steps of the relayer. If it
  succeeds, the message is gone from the cache and the message store; if it fails below the limit,
  the message waits in the cache with its attempts counted; if it is the fifth failure, the message
  is kept in the message store with five retries.
\<close>
theorem retried_until_delivered:
  assumes "message_db S view C" "relayer_ok s" "cached_msg s src key = Some m" "\<not> rm_processing m"
    and "w = wire_message (rm_msg m)" "m_sn w = Some i" "0 \<le> i" "json_key (MessageKey w)" "src = m_src w"
    and "map_of (r_chains s) (m_dst w) \<noteq> None" "unat (rm_retry m) + length as < 5"
    and "spaced (rm_lasttry m) (unat (rm_retry m)) (as @ [a])"
    and "list_all (\<lambda>b. wanted w b \<and> reported w b) (as @ [a])" "list_all (\<lambda>b. at_err b \<noteq> None) as"
  shows "\<exists>s'. run S C J (concat (map (attempt_labels src key) (as @ [a]))) s = Some s' \<and>
    (if at_err a = None then cached_msg s' src key = None \<and>
       stored_msg C (view (r_db s')) ''message'' src (m_sn w) = None
     else if unat (rm_retry m) + length as + 1 < 5 then \<exists>m'. cached_msg s' src key = Some m' \<and>
       wire_message (rm_msg m') = w \<and> \<not> rm_processing m' \<and> unat (rm_retry m') = unat (rm_retry m) + length as + 1
     else cached_msg s' src key = None \<and> (\<exists>v. stored_msg C (view (r_db s')) ''message'' src (m_sn w) = Some v \<and>
       rm_msg v = w \<and> \<not> rm_processing v \<and> unat (rm_retry v) = 5))"
  by (rule attempts_run [OF assms(1,6-9,2,3) assms(5) [symmetric] assms(4,10-14)])

text \<open>The witness: two attempts fail, 20 s and 40 s apart, the third one delivers.\<close>

definition ex_attempt :: "gotime \<Rightarrow> error option \<Rightarrow> attempt" where
  "ex_attempt t err = \<lparr>at_visit = ex_env\<lparr>ev_now := t\<rparr>, at_route = ex_env\<lparr>ev_now := t\<rparr>,
     at_cbs = (if err = None then [(MessageKey (ex_msg ''a'' ''b'' 1), ex_response, None)] else []), at_err = err\<rparr>"

definition ex_failures :: "attempt list" where
  "ex_failures = [ex_attempt ex_now (Some ''no gas''), ex_attempt (ex_now + 20000000000) (Some ''no gas'')]"

theorem retried_until_delivered_witness:
  "\<exists>s'. run mem_store mem_codec mem_sock (concat (map (attempt_labels ''a'' (ex_key 0 ''a'' ''b'' 1))
      (ex_failures @ [ex_attempt (ex_now + 60000000000) None]))) ex_seen = Some s' \<and>
    cached_msg s' ''a'' (ex_key 0 ''a'' ''b'' 1) = None \<and>
    stored_msg mem_codec (map_of (r_db s')) ''message'' ''a'' (Some 1) = None"
proof -
  let ?k = "ex_key 0 ''a'' ''b'' 1" and ?w = "ex_msg ''a'' ''b'' 1" and ?a = "ex_attempt (ex_now + 60000000000) None"
  have ok: "relayer_ok ex_seen" by (rule reachable_ok [OF ex_seen_reachable])
  have "(case cached_msg ex_seen ''a'' ?k of None \<Rightarrow> False
    | Some m \<Rightarrow> \<not> rm_processing m \<and> wire_message (rm_msg m) = ?w \<and> rm_retry m = 0 \<and> rm_lasttry m = 0)"
    "(case map_of (r_chains ex_seen) ''b'' of None \<Rightarrow> False | Some rt \<Rightarrow> True)" by code_simp+
  then obtain m where m: "cached_msg ex_seen ''a'' ?k = Some m" "\<not> rm_processing m" "?w = wire_message (rm_msg m)"
    "rm_retry m = 0" "rm_lasttry m = 0" and b: "map_of (r_chains ex_seen) ''b'' \<noteq> None"
    by (auto split: option.splits)
  have d: "map_of (r_chains ex_seen) (m_dst ?w) \<noteq> None" using b by (simp add: ex_msg_def)
  have w: "m_sn ?w = Some 1" "(0 :: int) \<le> 1" "json_key (MessageKey ?w)" "''a'' = m_src ?w"
    by (simp_all add: ex_msg_def json_key_def ascii_def)
  have l: "unat (rm_retry m) + length ex_failures < 5" by (simp add: m(4) ex_failures_def)
  have sp: "spaced (rm_lasttry m) (unat (rm_retry m)) (ex_failures @ [?a])"
    by (simp add: m(4,5) ex_failures_def ex_attempt_def ex_env_def ex_now_def)
  have r: "list_all (\<lambda>b. wanted ?w b \<and> reported ?w b) (ex_failures @ [?a])" "list_all (\<lambda>b. at_err b \<noteq> None) ex_failures"
    by (simp_all add: ex_failures_def ex_attempt_def wanted_def reported_def settles_def ex_env_def ex_response_def
        ascii_def)
  have none: "at_err ?a = None" by (simp add: ex_attempt_def)
  from retried_until_delivered [OF mem.message_db_axioms ok m(1-3) w d l sp r, of mem_sock]
  show ?thesis by (simp only: none if_P [OF refl] w(1))
qed

section \<open>One message, two goroutines\<close>

text \<open>
  A flush reads a message back from the message store although it is cached already. Keys compare the
  pointer of the sequence number, so the copy becomes a second entry.
\<close>

lemma add_stored_old:
  "add_stored ws (c, h) = (c', h') \<Longrightarrow> MessageCache_Get k c = Some ref \<Longrightarrow> ref < hp_next h \<Longrightarrow>
   k_sn k = Some (a, i) \<Longrightarrow> a < hp_next h \<Longrightarrow>
   MessageCache_Get k c' = Some ref \<and> hp_routes h' ref = hp_routes h ref"
proof (induction ws arbitrary: c h)
  case (Cons w ws)
  obtain r h1 where nr: "new_stored_route w h = (r, h1)" by (cases "new_stored_route w h")
  obtain c2 h2 where add: "cache_add_new r (c, h1) = (c2, h2)" by (cases "cache_add_new r (c, h1)")
  have h1: "hp_next h1 = hp_next h + 2" "hp_routes h1 = hp_routes h" "r = alloc_route (hp_next h) w"
    using nr by (auto simp: new_stored_route_def)
  have "k \<noteq> MessageKey (rm_msg r)" using Cons.prems(4,5) h1(3) by (auto simp: alloc_int_def)
  then have g: "MessageCache_Get k c2 = Some ref" "hp_routes h2 ref = hp_routes h ref" "hp_next h2 = hp_next h + 3"
    using cache_add_new_get(1) [of _ r c h1] cache_add_new_get(2,3) [of r c h1] add Cons.prems(2,3) h1 by auto
  have "add_stored ws (c2, h2) = (c', h')" using Cons.prems(1) nr add by simp
  from Cons.IH [OF this g(1) _ Cons.prems(4)] g Cons.prems(3,5) show ?case by simp
qed simp

lemma add_stored_new:
  "add_stored ws (c, h) = (c', h') \<Longrightarrow> w \<in> set ws \<Longrightarrow> m_sn (rm_msg w) = Some i \<Longrightarrow>
   \<exists>k ref r x. MessageCache_Get k c' = Some ref \<and> hp_routes h' ref = Some r \<and> wire_route r = w \<and>
     wire_key k = MessageKey (rm_msg w) \<and> k_sn k = Some (x, i) \<and> hp_next h \<le> x"
proof (induction ws arbitrary: c h)
  case (Cons v ws)
  obtain r h1 where nr: "new_stored_route v h = (r, h1)" by (cases "new_stored_route v h")
  obtain c2 h2 where add: "cache_add_new r (c, h1) = (c2, h2)" by (cases "cache_add_new r (c, h1)")
  have rest: "add_stored ws (c2, h2) = (c', h')" using Cons.prems(1) nr add by simp
  have h1: "hp_next h1 = hp_next h + 2" "r = alloc_route (hp_next h) v" using nr by (auto simp: new_stored_route_def)
  have g: "MessageCache_Get (MessageKey (rm_msg r)) c2 = Some (hp_next h1)" "hp_routes h2 (hp_next h1) = Some r"
    "hp_next h2 = hp_next h + 3"
    using cache_add_new_get(1) [of _ r c h1] cache_add_new_get(2,3) [of r c h1] add h1 by auto
  show ?case
  proof (cases "v = w")
    case True
    let ?k = "MessageKey (rm_msg r)"
    have k: "k_sn ?k = Some (hp_next h, i)" using Cons.prems(3) True by (simp add: h1(2) alloc_int_def)
    have wk: "wire_key ?k = MessageKey (rm_msg w)" using wire_MessageKey [of "rm_msg r"] True by (simp add: h1(2))
    have "wire_route r = w" using True by (simp add: h1(2))
    with add_stored_old [OF rest g(1) _ k] g h1(1) k wk show ?thesis
      by (intro exI [of _ ?k] exI [of _ "hp_next h1"] exI [of _ r] exI [of _ "hp_next h"]) simp
  next
    case False
    then have "w \<in> set ws" using Cons.prems(2) by simp
    from Cons.IH [OF rest this Cons.prems(3)] g(3) show ?thesis by (metis le_add1 le_trans)
  qed
qed simp

lemma flush_duplicates:
  assumes "relayer_ok s" "cached_ref s src key = Some ref" "k_sn key = Some (a, i)"
    and "getActiveMessagesFromStore S C src maxFlushMessage (r_db s) = Inr ws" "w \<in> set ws"
    and "MessageKey (rm_msg w) = wire_key key"
  shows "\<exists>key' ref' r'. cached_ref (flush_chain S C src s) src key = Some ref \<and>
    hp_routes (r_heap (flush_chain S C src s)) ref = hp_routes (r_heap s) ref \<and>
    cached_ref (flush_chain S C src s) src key' = Some ref' \<and>
    hp_routes (r_heap (flush_chain S C src s)) ref' = Some r' \<and> wire_route r' = w \<and>
    key' \<noteq> key \<and> wire_key key' = wire_key key"
proof -
  obtain rt where rt: "map_of (r_chains s) src = Some rt" "MessageCache_Get key (cr_MessageCache rt) = Some ref"
    using assms(2) by (rule cached_refE)
  obtain c' h' where add: "add_stored ws (cr_MessageCache rt, r_heap s) = (c', h')"
    by (cases "add_stored ws (cr_MessageCache rt, r_heap s)")
  have eq: "flush_chain S C src s = upd_cache src (\<lambda>_. c') (s\<lparr>r_heap := h'\<rparr>)"
    using rt(1) wf_chain(1) [OF assms(1) rt(1)] assms(4) add by (simp add: flush_chain_def)
  have below: "ref < hp_next (r_heap s)" "a < hp_next (r_heap s)"
    using wf_heap [OF assms(1)] cached_ref_object [OF assms(1,2)] assms(3) by (auto simp: heap_ok_def key_below_def)
  have sn: "m_sn (rm_msg w) = Some i"
    using assms(3,6) by (auto simp: wire_key_def MessageKey_def NewMessageKey_def unptr_def)
  obtain k ref' r' x where n: "MessageCache_Get k c' = Some ref'" "hp_routes h' ref' = Some r'" "wire_route r' = w"
    "wire_key k = MessageKey (rm_msg w)" "k_sn k = Some (x, i)" "hp_next (r_heap s) \<le> x"
    using add_stored_new [OF add assms(5) sn] by blast
  have "k \<noteq> key" using n(5,6) assms(3) below(2) by auto
  with n add_stored_old [OF add rt(2) below(1) assms(3) below(2)] rt(1) assms(6) show ?thesis
    by (intro exI [of _ k] exI [of _ ref'] exI [of _ r']) (simp add: eq cached_ref_upd_cache)
qed

lemma upd_cache_known: "(map_of (r_chains (upd_cache nid f s)) n = None) = (map_of (r_chains s) n = None)"
  by (auto simp: upd_cache_def upd_chain_def map_of_map_entry split: option.split)

lemma flush_chain_same:
  "(map_of (r_chains (flush_chain S C nid s)) n = None) = (map_of (r_chains s) n = None)"
  "r_tasks (flush_chain S C nid s) = r_tasks s"
  by (auto simp: flush_chain_def upd_cache_known upd_cache_def upd_chain_def split: option.split sum.split prod.split)

text \<open>
  C22. One message can be routed by two goroutines at once. Whenever a cached message that is not being
  routed is among the messages a flush reads from the store, the flush adds a second entry whose key
  has the same contents and another pointer; if both chains want the message and the destination has
  not received it, visits of the two entries start a goroutine each, and both are inside the provider's
  \<^verbatim>\<open>Route\<close> with the same message, though not with the same object: the mark that keeps a message from being
  routed twice is on the object.
\<close>
theorem message_routed_twice:
  assumes "relayer_ok s" "cached_msg s src key = Some m" "wire_message (rm_msg m) = v" "m_sn v = Some i" "src = m_src v"
    and "map_of (r_chains s) (m_dst v) \<noteq> None"
    and "getActiveMessagesFromStore S C src maxFlushMessage (r_db s) = Inr ws" "w \<in> set ws" "rm_msg w = v"
    and "\<not> IsProcessing (ev_now (at_visit a)) m" "\<not> IsProcessing (ev_now (at_visit b)) w" "wanted v a" "wanted v b"
  shows "\<exists>key' ref ref' s'. key' \<noteq> key \<and> wire_key key' = wire_key key \<and> ref' \<noteq> ref \<and>
    run S C J [LFlush [src], LProcess (at_visit a) src key, LRoute (at_route a) 0,
      LProcess (at_visit b) src key', LRoute (at_route b) 0] s = Some s' \<and>
    r_tasks s' = \<lparr>tk_ref = ref', tk_src = src, tk_dst = m_dst v, tk_phase = Routing\<rparr> #
      \<lparr>tk_ref = ref, tk_src = src, tk_dst = m_dst v, tk_phase = Routing\<rparr> # r_tasks s \<and>
    map_option (\<lambda>m. wire_message (rm_msg m)) (hp_routes (r_heap s') ref) = Some v \<and>
    map_option (\<lambda>m. wire_message (rm_msg m)) (hp_routes (r_heap s') ref') = Some v"
proof -
  obtain ref where ref: "cached_ref s src key = Some ref" "hp_routes (r_heap s) ref = Some m"
    using assms(2) by (auto simp: cached_msg_Some)
  have key: "MessageKey (rm_msg m) = key" using cached_ref_object(1) [OF assms(1) ref(1)] ref(2) by auto
  then have wk: "wire_key key = MessageKey v" using assms(3) by (auto simp: wire_MessageKey [symmetric])
  obtain x where sn: "k_sn key = Some (x, i)"
    using wk assms(4) by (auto simp: wire_key_def MessageKey_def NewMessageKey_def unptr_def split: option.splits)
  let ?s1 = "flush_chain S C src s"
  have wkey: "MessageKey (rm_msg w) = wire_key key" using wk assms(9) by simp
  obtain key' ref' r' where f: "cached_ref ?s1 src key = Some ref" "hp_routes (r_heap ?s1) ref = Some m"
    "cached_ref ?s1 src key' = Some ref'" "hp_routes (r_heap ?s1) ref' = Some r'" "wire_route r' = w"
    "key' \<noteq> key" "wire_key key' = wire_key key"
    using flush_duplicates [OF assms(1) ref(1) sn assms(7,8) wkey] ref(2) by auto
  have ok1: "relayer_ok ?s1" by (rule wf_flush_chain [OF assms(1)])
  have key': "MessageKey (rm_msg r') = key'" using cached_ref_object(1) [OF ok1 f(3)] f(4) by auto
  have diff: "ref' \<noteq> ref" using key key' f(2,4,6) by auto
  have known: "map_of (r_chains ?s1) (m_dst v) \<noteq> None" using assms(6) flush_chain_same(1) by metis
  have c1: "cached_msg ?s1 src key = Some m" using f(1,2) by (simp add: cached_msg_Some)
  have w1: "v = wire_message (rm_msg m)" using assms(3) by simp
  obtain ref1 s2 where 2: "run S C J [LProcess (at_visit a) src key, LRoute (at_route a) 0] ?s1 = Some s2" "relayer_ok s2"
    "r_tasks s2 = \<lparr>tk_ref = ref1, tk_src = src, tk_dst = m_dst v, tk_phase = Routing\<rparr> # r_tasks ?s1"
    "cached_ref s2 src key = Some ref1" "r_chains s2 = r_chains ?s1"
    "hp_routes (r_heap s2) ref1 = Some (IncrementRetry (ev_now (at_route a)) (m\<lparr>rm_processing := True\<rparr>))"
    "\<forall>x. x \<noteq> ref1 \<longrightarrow> hp_routes (r_heap s2) x = hp_routes (r_heap ?s1) x"
    using attempt_starts [OF ok1 c1 w1 assms(10,5) known assms(12), of S C J] by blast
  have r1: "ref1 = ref" using 2(4,5) f(1) by (simp add: cached_ref_def)
  have rw: "wire_message (rm_msg r') = v" "\<not> IsProcessing (ev_now (at_visit b)) r'"
    using f(5) assms(9,11) by (auto simp: wire_route_def IsProcessing_def)
  have c2: "cached_msg s2 src key' = Some r'"
    using f(3,4) 2(5,7) diff r1 by (simp add: cached_msg_def cached_ref_def)
  have known2: "map_of (r_chains s2) (m_dst v) \<noteq> None" using known 2(5) by simp
  obtain ref2 s3 where 3: "run S C J [LProcess (at_visit b) src key', LRoute (at_route b) 0] s2 = Some s3"
    "r_tasks s3 = \<lparr>tk_ref = ref2, tk_src = src, tk_dst = m_dst v, tk_phase = Routing\<rparr> # r_tasks s2"
    "cached_ref s3 src key' = Some ref2" "r_chains s3 = r_chains s2"
    "hp_routes (r_heap s3) ref2 = Some (IncrementRetry (ev_now (at_route b)) (r'\<lparr>rm_processing := True\<rparr>))"
    "\<forall>x. x \<noteq> ref2 \<longrightarrow> hp_routes (r_heap s3) x = hp_routes (r_heap s2) x"
    using attempt_starts [OF 2(2) c2 rw(1) [symmetric] rw(2) assms(5) known2 assms(13), of S C J] by blast
  have r2: "ref2 = ref'" using 3(3,4) 2(5) f(3) by (simp add: cached_ref_def)
  have flush: "run S C J [LFlush [src]] s = Some ?s1" by (simp add: flushMessages_def)
  have "run S C J ([LFlush [src]] @ [LProcess (at_visit a) src key, LRoute (at_route a) 0] @
      [LProcess (at_visit b) src key', LRoute (at_route b) 0]) s = Some s3"
    using flush by (simp only: run_append 2(1) 3(1) Option.bind.bind_lunit)
  then show ?thesis
    using f(6,7) diff 2(3,6) 3(2,5,6) r1 r2 rw(1) w1 flush_chain_same(2) [of S C src s]
    by (intro exI [of _ key'] exI [of _ ref] exI [of _ ref'] exI [of _ s3]) (simp add: IncrementRetry_def AddNextTry_def)
qed

theorem message_routed_twice_witness:
  "\<exists>key ref ref' s'. key \<noteq> ex_key 0 ''a'' ''b'' 1 \<and> ref' \<noteq> ref \<and>
    run mem_store mem_codec mem_sock [LFlush [''a''], LProcess ex_env ''a'' (ex_key 0 ''a'' ''b'' 1), LRoute ex_env 0,
      LProcess ex_env ''a'' key, LRoute ex_env 0] ex_seen = Some s' \<and>
    map (\<lambda>t. (tk_phase t, tk_ref t)) (r_tasks s') = [(Routing, ref'), (Routing, ref)]"
proof -
  let ?v = "ex_msg ''a'' ''b'' 1" and ?k = "ex_key 0 ''a'' ''b'' 1"
  let ?a = "\<lparr>at_visit = ex_env, at_route = ex_env, at_cbs = [], at_err = None\<rparr>"
  have "(case cached_msg ex_seen ''a'' ?k of None \<Rightarrow> False
      | Some m \<Rightarrow> wire_message (rm_msg m) = ?v \<and> \<not> IsProcessing (ev_now ex_env) m)" by code_simp
  then obtain m where m: "cached_msg ex_seen ''a'' ?k = Some m" "wire_message (rm_msg m) = ?v"
    "\<not> IsProcessing (ev_now (at_visit ?a)) m" by (auto split: option.splits)
  have ws: "getActiveMessagesFromStore mem_store mem_codec ''a'' maxFlushMessage (r_db ex_seen) = Inr [NewRouteMessage ?v]"
    by code_simp
  have c: "(case map_of (r_chains ex_seen) ''b'' of None \<Rightarrow> False | Some rt \<Rightarrow> True)" by code_simp
  have "(case r_tasks ex_seen of [] \<Rightarrow> True | _ \<Rightarrow> False)" by code_simp
  then have t: "r_tasks ex_seen = []" by (simp split: list.splits)
  have v: "m_sn ?v = Some 1" "''a'' = m_src ?v" "m_dst ?v = ''b''" by (simp_all add: ex_msg_def)
  have d: "map_of (r_chains ex_seen) (m_dst ?v) \<noteq> None" using c unfolding v(3) by (auto split: option.splits)
  have w: "NewRouteMessage ?v \<in> set [NewRouteMessage ?v]" "rm_msg (NewRouteMessage ?v) = ?v"
    "\<not> IsProcessing (ev_now (at_visit ?a)) (NewRouteMessage ?v)"
    by (simp_all add: NewRouteMessage_def IsProcessing_def)
  have wanted: "wanted ?v ?a" by (simp add: wanted_def ex_env_def)
  from message_routed_twice [OF reachable_ok [OF ex_seen_reachable] m(1,2) v(1,2) d ws w(1,2) m(3) w(3) wanted wanted,
      of mem_sock] show ?thesis by (auto simp: t)
qed

end
