(* ===== verification/Resume.thy ===== *)
theory Resume
  imports Providers Relay_Blocks
begin

text \<open>
  Where a relayer resumes listening after a restart: the height it saved for the chain is loaded from
  the database, and the listener of each kind of provider chooses between the configured start
  height, the saved height and the latest one. The choice is stated once, as \<open>resume\<close>, and the
  three implementations are compared with it.
\<close>

text \<open>
  The common rule: a configured start height below the latest height, else a saved height below
  it, else the latest height.
\<close>

definition resume :: "u64 \<Rightarrow> u64 \<Rightarrow> u64 \<Rightarrow> u64" where
  "resume start saved latest =
     (if start \<noteq> 0 \<and> start < latest then start else if saved \<noteq> 0 \<and> saved < latest then saved else latest)"

lemma evm_resumes:
  "cl_GetBlockNumber cl = Inr latest \<Longrightarrow> Evm_startFromHeight cl p saved =
     Inr (resume (cc_StartHeight (ec_common p)) saved (latest - cc_FinalityBlock (ec_common p)))"
  by (simp add: Evm_startFromHeight_def resume_def Let_def)

lemma icon_resumes:
  "ic_GetLastBlock cl = Inr latest \<Longrightarrow>
     Icon_StartFromHeight cl p saved = Inr (resume (cc_StartHeight (nc_common p)) saved latest)"
  by (simp add: Icon_StartFromHeight_def Icon_QueryLatestHeight_def resume_def Let_def)

text \<open>CosmWasm alone refuses a saved height above the latest one, when no start height decides.\<close>

lemma wasm_resumes:
  assumes "wk_GetLatestBlockHeight cl = Inr latest"
  shows "Wasm_Listener_start cl p saved =
    (if latest < saved \<and> \<not> (cc_StartHeight (wc_common p) \<noteq> 0 \<and> cc_StartHeight (wc_common p) < latest)
     then Inl ''last saved height cannot be greater than latest height''
     else Inr (resume (cc_StartHeight (wc_common p)) saved latest, latest))"
proof -
  have "0 < cc_StartHeight (wc_common p) \<longleftrightarrow> cc_StartHeight (wc_common p) \<noteq> 0" by (simp add: word_neq_0_conv)
  then show ?thesis using assms by (simp add: Wasm_Listener_start_def getStartHeight_def resume_def)
qed

text \<open>
  C30. A height saved for a chain survives a restart, and it is the height the chain's listener
  resumes from unless the configuration or the chain decides otherwise: the restarted relayer
  hands it to the listener as its last saved height, and each of the three listeners then starts from
  the configured start height if that is not zero and below the latest height, else from the saved
  height if that is not zero and below the latest one, else from the latest height. On EVM chains
  "latest" is the chain's height less the finality blocks; CosmWasm refuses to start when the saved
  height is above the latest one and no start height decides, where the two others go on from the
  latest height.
\<close>

theorem saved_height_survives_restart:
  assumes "message_db S view C" "relayer_ok s" "map_of (r_chains s) nid = Some rt"
    and "SaveBlockHeight S C nid h s = (err, s1)"
    and "NewRelayer S C (r_db s1) chs False = Ok s2" "map_of (r_chains s2) nid = Some rt2"
  shows "err = None \<and> cr_LastSavedHeight rt2 = h \<and>
    map_option cr_LastSavedHeight (map_of (r_chains s1) nid) = Some h \<and>
    (\<forall>latest. cl_GetBlockNumber evm_cl = Inr latest \<longrightarrow>
      Evm_startFromHeight evm_cl evm_cfg (cr_LastSavedHeight rt2) =
        Inr (resume (cc_StartHeight (ec_common evm_cfg)) h (latest - cc_FinalityBlock (ec_common evm_cfg)))) \<and>
    (\<forall>latest. ic_GetLastBlock icon_cl = Inr latest \<longrightarrow>
      Icon_StartFromHeight icon_cl icon_cfg (cr_LastSavedHeight rt2) =
        Inr (resume (cc_StartHeight (nc_common icon_cfg)) h latest)) \<and>
    (\<forall>latest. wk_GetLatestBlockHeight wasm_cl = Inr latest \<longrightarrow>
      Wasm_Listener_start wasm_cl wasm_cfg (cr_LastSavedHeight rt2) =
        (if latest < h \<and> \<not> (cc_StartHeight (wc_common wasm_cfg) \<noteq> 0 \<and> cc_StartHeight (wc_common wasm_cfg) < latest)
         then Inl ''last saved height cannot be greater than latest height''
         else Inr (resume (cc_StartHeight (wc_common wasm_cfg)) h latest, latest)))"
proof -
  from saved_height_loaded [OF assms]
  have h: "err = None" "cr_LastSavedHeight rt2 = h" "map_option cr_LastSavedHeight (map_of (r_chains s1) nid) = Some h"
    by simp_all
  then show ?thesis by (auto simp only: evm_resumes icon_resumes wasm_resumes)
qed

text \<open>After the restart the EVM and the CosmWasm listener resume at 77, the height that was saved.\<close>

theorem saved_height_survives_restart_witness:
  "\<exists>s rt. NewRelayer mem_store mem_codec (r_db ex_saved) ex_chains False = Ok s \<and>
    map_of (r_chains s) ''a'' = Some rt \<and> cr_LastSavedHeight rt = 77 \<and>
    Evm_startFromHeight ex_client ex_evm_config (cr_LastSavedHeight rt) = Inr 77 \<and>
    Icon_StartFromHeight ex_icon_client ex_icon_config (cr_LastSavedHeight rt) = Inr 77 \<and>
    Wasm_Listener_start (ex_wasm_client []) ex_wasm_config (cr_LastSavedHeight rt) = Inr (77, 120)"
proof -
  have "(case NewRelayer mem_store mem_codec (r_db ex_saved) ex_chains False of
        Ok s \<Rightarrow> (case map_of (r_chains s) ''a'' of None \<Rightarrow> False | Some rt \<Rightarrow> True) | _ \<Rightarrow> False)"
    "(case map_of (r_chains ex_start) ''a'' of None \<Rightarrow> False | Some rt \<Rightarrow> True)"
    by code_simp+
  then obtain s rt rt0 where s: "NewRelayer mem_store mem_codec (r_db ex_saved) ex_chains False = Ok s"
    "map_of (r_chains s) ''a'' = Some rt" and a: "map_of (r_chains ex_start) ''a'' = Some rt0"
    by (auto split: option.splits result.splits)
  have e: "SaveBlockHeight mem_store mem_codec ''a'' 77 ex_start =
      (fst (SaveBlockHeight mem_store mem_codec ''a'' 77 ex_start), ex_saved)"
    by (simp add: ex_saved_def)
  have l: "cl_GetBlockNumber ex_client = Inr 120" "ic_GetLastBlock ex_icon_client = Inr 300"
    "wk_GetLatestBlockHeight (ex_wasm_client []) = Inr 120"
    by (simp_all add: ex_client_def ex_icon_client_def ex_wasm_client_def)
  have r: "resume (cc_StartHeight (ec_common ex_evm_config)) 77 (120 - cc_FinalityBlock (ec_common ex_evm_config)) = 77"
    "resume (cc_StartHeight (nc_common ex_icon_config)) 77 300 = 77"
    "resume (cc_StartHeight (wc_common ex_wasm_config)) 77 120 = 77" "\<not> (120 :: u64) < 77"
    by code_simp+
  from saved_height_survives_restart [OF mem.message_db_axioms reachable_ok [OF ex_start_reachable] a e s,
      of ex_client ex_evm_config ex_icon_client ex_icon_config "ex_wasm_client []" ex_wasm_config] s l r
  show ?thesis by auto
qed

end
