(* ===== verification/Evm_Monitor.thy ===== *)
theory Evm_Monitor
  imports Evm_Listen
begin

text \<open>
  The event loop of \<^verbatim>\<open>relayer/chains/evm/listener.go\<close>: the listener, the subscription goroutines it starts,
  and the chain that grows meanwhile, as a step relation. Shown are that never more than one
  subscription is alive, and which heights a pass and its subscription deliver between them.
\<close>

section \<open>Subscriptions\<close>

text \<open>
  An error carries whether it is the context's \<^verbatim>\<open>DeadlineExceeded\<close>. A goroutine of \<^verbatim>\<open>Subscribe\<close> asks the
  client for its subscription, or has the logs that arrived and were not read yet, or waits to send
  its error, possibly nil, to the listener.
\<close>

record sub_error =
  se_text :: error
  se_deadline :: bool

datatype sub = Starting | Active "elog list" | Failing "sub_error option"

definition isConnectionError :: "sub_error option \<Rightarrow> bool result" where
  "isConnectionError err = (case err of
      None \<Rightarrow> Panic ''nil pointer dereference''
    | Some e \<Rightarrow> Ok (Contains (se_text e) ''tcp'' \<or> se_deadline e))"

section \<open>The state of the listener\<close>

text \<open>
  The handler of the timer is three kinds of steps: it asks for the latest height, then fetches one
  batch after the other. \<open>mo_client\<close> counts the clients made by reconnecting.
\<close>

datatype pass = AtSelect | Querying | Syncing "(u64 \<times> u64) list"

record evm_monitor =
  mo_client :: nat
  mo_startHeight :: u64
  mo_ticker :: bool
  mo_subs :: "sub list"
  mo_pass :: pass
  mo_sent :: "block_info list"
  mo_done :: bool

definition monitor_start :: "u64 \<Rightarrow> evm_monitor" where
  "monitor_start startHeight = \<lparr>mo_client = 0, mo_startHeight = startHeight, mo_ticker = True, mo_subs = [],
     mo_pass = AtSelect, mo_sent = [], mo_done = False\<rparr>"

definition Evm_Listener_start :: "evm_client \<Rightarrow> evm_config \<Rightarrow> u64 \<Rightarrow> evm_monitor result" where
  "Evm_Listener_start cl p lastSavedHeight = (case Evm_startFromHeight cl p lastSavedHeight of
      Inl e \<Rightarrow> Err e | Inr startHeight \<Rightarrow> Ok (monitor_start startHeight))"

text \<open>The cases of the loop's \<^verbatim>\<open>select\<close>: an error of a subscription, and the timer.\<close>

definition on_sub_error ::
    "sub_error option \<Rightarrow> error option \<Rightarrow> u64 \<Rightarrow> 'a evm_monitor_scheme \<Rightarrow> 'a evm_monitor_scheme result" where
  "on_sub_error err reconnect lastSaved s = rmap (\<lambda>conn.
     let s1 = (if conn \<and> reconnect = None then s\<lparr>mo_client := Suc (mo_client s)\<rparr> else s)
     in s1\<lparr>mo_startHeight := lastSaved, mo_ticker := True\<rparr>) (isConnectionError err)"

definition on_timer :: "'a evm_monitor_scheme \<Rightarrow> 'a evm_monitor_scheme" where
  "on_timer s = s\<lparr>mo_ticker := False, mo_subs := mo_subs s @ [Starting], mo_pass := Querying\<rparr>"

definition latestHeight :: "error + u64 \<Rightarrow> u64" where
  "latestHeight answer = (case answer of Inl e \<Rightarrow> 0 | Inr height \<Rightarrow> height)"

definition on_latest ::
    "evm_config \<Rightarrow> error + u64 \<Rightarrow> 'a evm_monitor_scheme \<Rightarrow> 'a evm_monitor_scheme option" where
  "on_latest p answer s =
     (let start = (if mo_startHeight s = 0 then latestHeight answer else mo_startHeight s)
      in map_option (\<lambda>brs. s\<lparr>mo_startHeight := start, mo_pass := Syncing brs\<rparr>)
           (block_reqs (ec_BlockBatchSize p) (latestHeight answer) start))"

text \<open>One batch; \<open>answers\<close> are the client's answers to the attempts of \<^verbatim>\<open>getLogsRetry\<close>.\<close>

definition on_batch ::
    "evm_client \<Rightarrow> evm_config \<Rightarrow> (nat \<Rightarrow> error + elog list) \<Rightarrow> u64 \<times> u64 \<Rightarrow> (u64 \<times> u64) list
     \<Rightarrow> 'a evm_monitor_scheme \<Rightarrow> 'a evm_monitor_scheme" where
  "on_batch cl p answers br rest s = s\<lparr>mo_pass := Syncing rest,
     mo_sent := mo_sent s @ sync_batch (cl\<lparr>cl_FilterLogs := \<lambda>_. answers\<rparr>) p (Evm_GetMonitorEventFilters cl p) br\<rparr>"

text \<open>One log a subscription reads.\<close>

definition on_sub_log ::
    "evm_client \<Rightarrow> evm_config \<Rightarrow> nat \<Rightarrow> elog \<Rightarrow> elog list \<Rightarrow> 'a evm_monitor_scheme \<Rightarrow> 'a evm_monitor_scheme" where
  "on_sub_log cl p i log q s = s\<lparr>mo_subs := (mo_subs s)[i := Active q],
     mo_sent := mo_sent s @ (case Evm_Subscribe_log cl p log of None \<Rightarrow> [] | Some b \<Rightarrow> [b])\<rparr>"

definition drop_sub :: "nat \<Rightarrow> 'a evm_monitor_scheme \<Rightarrow> 'a evm_monitor_scheme" where
  "drop_sub i s = s\<lparr>mo_subs := take i (mo_subs s) @ drop (Suc i) (mo_subs s)\<rparr>"

section \<open>The system\<close>

text \<open>
  The listener with the chain's head, and a record of the last pass: its first height, the latest
  height it was told, the head when the subscription was established, and the heights of the
  batches that could not be fetched.
\<close>

record evm_world = evm_monitor +
  ew_head :: nat
  ew_from :: nat
  ew_latest :: nat
  ew_since :: nat
  ew_missed :: "nat list"

fun sub_receives :: "elog list \<Rightarrow> sub \<Rightarrow> sub" where
  "sub_receives logs (Active q) = Active (q @ logs)"
| "sub_receives logs sub = sub"

fun can_fail :: "sub \<Rightarrow> sub_error option \<Rightarrow> bool" where
  "can_fail Starting err = (err \<noteq> None)"
| "can_fail (Active q) err = True"
| "can_fail (Failing e) err = False"

definition chain_grows :: "(nat \<Rightarrow> elog list) \<Rightarrow> evm_world \<Rightarrow> evm_world" where
  "chain_grows logs s = s\<lparr>ew_head := Suc (ew_head s),
     mo_subs := map (sub_receives (logs (Suc (ew_head s)))) (mo_subs s)\<rparr>"

text \<open>
  The chain has the logs \<open>logs h\<close> at height \<open>h\<close>. The client answers a range of heights with their logs,
  or fails five times; it answers the latest height with the chain's head, or fails.
\<close>

inductive evm_step :: "evm_client \<Rightarrow> evm_config \<Rightarrow> (nat \<Rightarrow> elog list) \<Rightarrow> evm_world \<Rightarrow> evm_world \<Rightarrow> bool"
  for cl :: evm_client and p :: evm_config and logs :: "nat \<Rightarrow> elog list" where
  grow: "evm_step cl p logs s (chain_grows logs s)"
| established: "i < length (mo_subs s) \<Longrightarrow> mo_subs s ! i = Starting \<Longrightarrow>
    evm_step cl p logs s (s\<lparr>mo_subs := (mo_subs s)[i := Active []], ew_since := ew_head s\<rparr>)"
| failing: "i < length (mo_subs s) \<Longrightarrow> can_fail (mo_subs s ! i) err \<Longrightarrow>
    evm_step cl p logs s (s\<lparr>mo_subs := (mo_subs s)[i := Failing err]\<rparr>)"
| log: "i < length (mo_subs s) \<Longrightarrow> mo_subs s ! i = Active (l # q) \<Longrightarrow>
    evm_step cl p logs s (on_sub_log cl p i l q s)"
| timer: "\<not> mo_done s \<Longrightarrow> mo_pass s = AtSelect \<Longrightarrow> mo_ticker s \<Longrightarrow> evm_step cl p logs s (on_timer s)"
| latest: "mo_pass s = Querying \<Longrightarrow> answer \<in> {Inl e, Inr (word_of_nat (ew_head s))} \<Longrightarrow>
    on_latest p answer s = Some s' \<Longrightarrow>
    evm_step cl p logs s (s'\<lparr>ew_from := unat (mo_startHeight s'), ew_latest := unat (latestHeight answer), ew_missed := []\<rparr>)"
| batch: "mo_pass s = Syncing (br # rest) \<Longrightarrow> answered answers (concat (map logs (covers [br]))) \<Longrightarrow>
    evm_step cl p logs s (on_batch cl p answers br rest s)"
| batch_fails: "mo_pass s = Syncing (br # rest) \<Longrightarrow> list_all (failed answers) [0..<MaxRetryCount] \<Longrightarrow>
    evm_step cl p logs s ((on_batch cl p answers br rest s)\<lparr>ew_missed := ew_missed s @ covers [br]\<rparr>)"
| pass_ends: "mo_pass s = Syncing [] \<Longrightarrow> evm_step cl p logs s (s\<lparr>mo_pass := AtSelect\<rparr>)"
| sub_error: "\<not> mo_done s \<Longrightarrow> mo_pass s = AtSelect \<Longrightarrow> i < length (mo_subs s) \<Longrightarrow> mo_subs s ! i = Failing err \<Longrightarrow>
    on_sub_error err reconnect lastSaved (drop_sub i s) = Ok s' \<Longrightarrow> evm_step cl p logs s s'"
| ctx_done: "mo_pass s = AtSelect \<Longrightarrow> evm_step cl p logs s (s\<lparr>mo_done := True\<rparr>)"
| sub_done: "mo_done s \<Longrightarrow> i < length (mo_subs s) \<Longrightarrow> mo_subs s ! i = Active q \<Longrightarrow>
    evm_step cl p logs s (drop_sub i s)"

inductive evm_reachable :: "evm_client \<Rightarrow> evm_config \<Rightarrow> (nat \<Rightarrow> elog list) \<Rightarrow> evm_world \<Rightarrow> bool"
  for cl :: evm_client and p :: evm_config and logs :: "nat \<Rightarrow> elog list" where
  start: "Evm_Listener_start (cl\<lparr>cl_GetBlockNumber := Inr (word_of_nat head)\<rparr>) p lastSaved = Ok m \<Longrightarrow>
    evm_reachable cl p logs (evm_monitor.extend m
      \<lparr>ew_head = head, ew_from = 1, ew_latest = 0, ew_since = head, ew_missed = []\<rparr>)"
| step: "evm_reachable cl p logs s \<Longrightarrow> evm_step cl p logs s s' \<Longrightarrow> evm_reachable cl p logs s'"

section \<open>One subscription at a time\<close>

definition one_subscription :: "'a evm_monitor_scheme \<Rightarrow> bool" where
  "one_subscription s =
     (if mo_ticker s then mo_subs s = [] \<and> mo_pass s = AtSelect
      else length (mo_subs s) \<le> 1 \<and> (mo_done s \<or> mo_subs s \<noteq> []))"

lemma on_sub_error_fields:
  assumes "on_sub_error err reconnect lastSaved s = Ok s'"
  shows "mo_ticker s'" "mo_subs s' = mo_subs s" "mo_pass s' = mo_pass s" "mo_sent s' = mo_sent s"
    "mo_startHeight s' = lastSaved" "mo_done s' = mo_done s" "evm_monitor.more s' = evm_monitor.more s"
proof -
  obtain conn where "isConnectionError err = Ok conn"
    using assms by (cases "isConnectionError err") (auto simp: on_sub_error_def)
  with assms have s': "s' = (if conn \<and> reconnect = None then s\<lparr>mo_client := Suc (mo_client s)\<rparr> else s)
      \<lparr>mo_startHeight := lastSaved, mo_ticker := True\<rparr>" by (simp add: on_sub_error_def Let_def)
  show "mo_ticker s'" "mo_subs s' = mo_subs s" "mo_pass s' = mo_pass s" "mo_sent s' = mo_sent s"
    "mo_startHeight s' = lastSaved" "mo_done s' = mo_done s" "evm_monitor.more s' = evm_monitor.more s"
    by (simp_all add: s')
qed

lemma on_latest_fields:
  assumes "on_latest p answer s = Some s'"
  shows "mo_ticker s' = mo_ticker s" "mo_subs s' = mo_subs s" "mo_sent s' = mo_sent s" "mo_done s' = mo_done s"
    "evm_monitor.more s' = evm_monitor.more s"
    "\<exists>brs. mo_pass s' = Syncing brs \<and>
      block_reqs (ec_BlockBatchSize p) (latestHeight answer) (mo_startHeight s') = Some brs"
  using assms by (auto simp: on_latest_def Let_def)

lemma world_more:
  assumes "evm_monitor.more s = evm_monitor.more (s' :: evm_world)"
  shows "ew_head s = ew_head s'" "ew_from s = ew_from s'" "ew_latest s = ew_latest s'" "ew_since s = ew_since s'"
    "ew_missed s = ew_missed s'"
  using assms by (cases s; cases s'; simp)+

lemma one_subscription_step:
  assumes "evm_step cl p logs s s'" "one_subscription s"
  shows "one_subscription s'"
  using assms
proof (cases rule: evm_step.cases)
  case (latest answer e s1)
  then show ?thesis using assms(2) on_latest_fields [of p answer s s1] by (auto simp: one_subscription_def split: if_splits)
next
  case (sub_error i err reconnect lastSaved)
  then have "length (mo_subs s) = 1" "i = 0" "\<not> mo_ticker s" using assms(2)
    by (auto simp: one_subscription_def le_Suc_eq split: if_splits)
  then have "mo_subs (drop_sub i s) = []" by (simp add: drop_sub_def)
  with sub_error on_sub_error_fields [OF sub_error(5)] show ?thesis by (simp add: one_subscription_def drop_sub_def)
qed (auto simp: one_subscription_def chain_grows_def on_timer_def on_batch_def on_sub_log_def drop_sub_def
  split: if_splits)

lemma one_subscription_reachable: "evm_reachable cl p logs s \<Longrightarrow> one_subscription s"
proof (induction rule: evm_reachable.induct)
  case (start head lastSaved m)
  then show ?case by (auto simp: Evm_Listener_start_def monitor_start_def one_subscription_def evm_monitor.defs split: sum.splits)
next
  case (step s s')
  then show ?case using one_subscription_step by blast
qed

section \<open>What a pass and its subscription deliver\<close>

definition todo :: "'a evm_monitor_scheme \<Rightarrow> nat list" where
  "todo s = (case mo_pass s of Syncing brs \<Rightarrow> covers brs | _ \<Rightarrow> [])"

definition queued :: "'a evm_monitor_scheme \<Rightarrow> elog list" where
  "queued s = concat (map (\<lambda>sub. case sub of Active q \<Rightarrow> q | _ \<Rightarrow> []) (mo_subs s))"

definition synced :: "evm_world \<Rightarrow> nat \<Rightarrow> bool" where
  "synced s h = (ew_from s \<le> h \<and> h \<le> ew_latest s \<and> h \<notin> set (ew_missed s) \<and> h \<notin> set (todo s))"

definition live :: "evm_world \<Rightarrow> nat \<Rightarrow> bool" where
  "live s h = (list_ex (\<lambda>sub. case sub of Active q \<Rightarrow> True | _ \<Rightarrow> False) (mo_subs s) \<and> ew_since s < h \<and> h \<le> ew_head s)"

definition deliveries :: "evm_client \<Rightarrow> evm_config \<Rightarrow> (nat \<Rightarrow> elog list) \<Rightarrow> evm_world \<Rightarrow> bool" where
  "deliveries cl p logs s =
     ((\<forall>h. synced s h \<longrightarrow> set (delivered cl p (logs h)) \<subseteq> set (mo_sent s)) \<and>
      (\<forall>h. live s h \<longrightarrow> set (delivered cl p (logs h)) \<subseteq> set (mo_sent s) \<union> set (delivered cl p (queued s))))"

lemma message_client: "getRelayMessageFromLog (cl\<lparr>cl_FilterLogs := f\<rparr>) p log = getRelayMessageFromLog cl p log"
proof -
  let ?cl = "cl\<lparr>cl_FilterLogs := f\<rparr>"
  have c: "cl_Keccak256 ?cl = cl_Keccak256 cl" "cl_ParseConnectionMessage ?cl = cl_ParseConnectionMessage cl"
    "cl_ParseCallMessage ?cl = cl_ParseCallMessage cl" "cl_ParseRollbackMessage ?cl = cl_ParseRollbackMessage cl"
    by simp_all
  show ?thesis unfolding getRelayMessageFromLog_def c ..
qed

lemma delivered_client: "delivered (cl\<lparr>cl_FilterLogs := f\<rparr>) p = delivered cl p"
  by (simp add: fun_eq_iff delivered_def Evm_Subscribe_log_def message_client)

lemma event_address_client: "Evm_GetAddressByEventType (cl\<lparr>cl_FilterLogs := f\<rparr>) ev m = Evm_GetAddressByEventType cl ev m"
  by (induction m) auto

lemma filters_client: "Evm_GetMonitorEventFilters (cl\<lparr>cl_FilterLogs := f\<rparr>) p = Evm_GetMonitorEventFilters cl p"
  by (simp add: Evm_GetMonitorEventFilters_def event_address_client)

lemma sync_batch_answers:
  assumes "answered answers logs"
  shows "sync_batch (cl\<lparr>cl_FilterLogs := \<lambda>_. answers\<rparr>) p (Evm_GetMonitorEventFilters cl p) br = delivered cl p logs"
proof -
  obtain a b where br: "br = (a, b)" by (cases br)
  have "answered (cl_FilterLogs (cl\<lparr>cl_FilterLogs := \<lambda>_. answers\<rparr>)
      (range_query (cl\<lparr>cl_FilterLogs := \<lambda>_. answers\<rparr>) p a b)) logs" using assms by simp
  from sync_batch_delivers [OF this] show ?thesis by (simp add: br filters_client delivered_client)
qed

lemma delivered_mem: "h \<in> set hs \<Longrightarrow> set (delivered cl p (logs h)) \<subseteq> set (delivered cl p (concat (map logs hs)))"
  by (auto simp: delivered_concat)

text \<open>A subscription's queue, when one subscription is alive.\<close>

lemma single_sub:
  assumes "length (mo_subs s) \<le> 1" "i < length (mo_subs s)"
  shows "i = 0" "mo_subs s = [mo_subs s ! i]" "(mo_subs s)[i := x] = [x]"
    "mo_subs (drop_sub i s) = []"
  using assms by (auto simp: le_Suc_eq length_Suc_conv drop_sub_def)

lemma chain_grows_deliveries:
  assumes "deliveries cl p logs s" "length (mo_subs s) \<le> 1" "ew_latest s \<le> ew_head s"
  shows "deliveries cl p logs (chain_grows logs s)"
proof -
  have f: "mo_sent (chain_grows logs s) = mo_sent s" "synced (chain_grows logs s) = synced s"
    by (simp_all add: chain_grows_def synced_def todo_def fun_eq_iff)
  consider "mo_subs s = []" | "mo_subs s = [Starting]" | q where "mo_subs s = [Active q]" | e where "mo_subs s = [Failing e]"
    using assms(2) by (auto simp: le_Suc_eq length_Suc_conv) (metis sub.exhaust)
  then have "set (delivered cl p (logs h)) \<subseteq> set (mo_sent s) \<union> set (delivered cl p (queued (chain_grows logs s)))"
    if "live (chain_grows logs s) h" for h
  proof cases
    case 3
    have l: "live s h \<or> h = Suc (ew_head s)" using that 3 by (auto simp: live_def chain_grows_def)
    have "queued s = q" "queued (chain_grows logs s) = q @ logs (Suc (ew_head s))"
      using 3 by (simp_all add: queued_def chain_grows_def)
    with l assms(1) show ?thesis by (auto simp: deliveries_def)
  qed (use that in \<open>auto simp: live_def chain_grows_def\<close>)
  with assms(1) show ?thesis by (simp add: deliveries_def f)
qed

text \<open>A step that only adds to what was sent, and takes no height from the record, keeps the deliveries.\<close>

lemma deliveries_mono:
  assumes "deliveries cl p logs s" "set (mo_sent s) \<subseteq> set (mo_sent s')"
    and "\<And>h. synced s' h \<Longrightarrow> synced s h \<or> set (delivered cl p (logs h)) \<subseteq> set (mo_sent s')"
    and "\<And>h. live s' h \<Longrightarrow> live s h \<and> queued s' = queued s"
  shows "deliveries cl p logs s'"
  unfolding deliveries_def
proof (intro conjI allI impI)
  fix h
  show "set (delivered cl p (logs h)) \<subseteq> set (mo_sent s')" if "synced s' h"
    using assms(1,2) assms(3) [OF that] by (auto simp: deliveries_def)
  show "set (delivered cl p (logs h)) \<subseteq> set (mo_sent s') \<union> set (delivered cl p (queued s'))" if "live s' h"
    using assms(1,2) assms(4) [OF that] by (fastforce simp: deliveries_def)
qed

lemma not_live: "mo_subs s = [] \<Longrightarrow> \<not> live s h" "mo_subs s = [Starting] \<Longrightarrow> \<not> live s h"
  "mo_subs s = [Failing e] \<Longrightarrow> \<not> live s h"
  by (simp_all add: live_def)

lemma on_batch_fields [simp]:
  "mo_pass (on_batch cl p answers br rest s) = Syncing rest" "mo_subs (on_batch cl p answers br rest s) = mo_subs s"
  "mo_ticker (on_batch cl p answers br rest s) = mo_ticker s" "mo_done (on_batch cl p answers br rest s) = mo_done s"
  "evm_monitor.more (on_batch cl p answers br rest s) = evm_monitor.more s"
  "set (mo_sent s) \<subseteq> set (mo_sent (on_batch cl p answers br rest s))"
  by (simp_all add: on_batch_def)

lemma covers_Cons: "set (covers (br # rest)) = set (covers [br]) \<union> set (covers rest)"
  by (cases br) (simp del: upt_Suc)

lemma on_batch_deliveries:
  assumes "deliveries cl p logs s" "mo_pass s = Syncing (br # rest)"
    and "answered answers (concat (map logs (covers [br])))"
  shows "deliveries cl p logs (on_batch cl p answers br rest s)"
proof (rule deliveries_mono [OF assms(1)])
  fix h
  note m = world_more [OF on_batch_fields(5) [of cl p answers br rest s]]
  assume "synced (on_batch cl p answers br rest s) h"
  then have "synced s h \<or> h \<in> set (covers [br])"
    using assms(2) covers_Cons [of br rest] by (auto simp: synced_def todo_def m simp del: covers_simps)
  then show "synced s h \<or> set (delivered cl p (logs h)) \<subseteq> set (mo_sent (on_batch cl p answers br rest s))"
    using delivered_mem [of h "covers [br]" cl p logs]
    by (auto simp: on_batch_def sync_batch_answers [OF assms(3)] simp del: covers_simps)
qed (simp_all add: live_def queued_def world_more [OF on_batch_fields(5)])

lemma on_batch_fails_deliveries:
  assumes "deliveries cl p logs s" "mo_pass s = Syncing (br # rest)"
  shows "deliveries cl p logs ((on_batch cl p answers br rest s)\<lparr>ew_missed := ew_missed s @ covers [br]\<rparr>)"
proof (rule deliveries_mono [OF assms(1)])
  fix h
  note m = world_more [OF on_batch_fields(5) [of cl p answers br rest s]]
  let ?s = "(on_batch cl p answers br rest s)\<lparr>ew_missed := ew_missed s @ covers [br]\<rparr>"
  assume "synced ?s h"
  then show "synced s h \<or> set (delivered cl p (logs h)) \<subseteq> set (mo_sent ?s)"
    using assms(2) covers_Cons [of br rest] by (auto simp: synced_def todo_def m simp del: covers_simps)
qed (simp_all add: live_def queued_def world_more [OF on_batch_fields(5)])

lemma on_sub_log_deliveries:
  assumes "deliveries cl p logs s" "mo_subs s = [Active (l # q)]"
  shows "deliveries cl p logs (on_sub_log cl p 0 l q s)"
proof -
  let ?s = "on_sub_log cl p 0 l q s"
  have f: "synced ?s = synced s" "live ?s = live s"
    using assms(2) by (simp_all add: on_sub_log_def synced_def live_def todo_def fun_eq_iff)
  have q: "delivered cl p (queued s) = (case Evm_Subscribe_log cl p l of None \<Rightarrow> [] | Some b \<Rightarrow> [b]) @ delivered cl p q"
    "queued ?s = q" using assms(2) by (simp_all add: queued_def on_sub_log_def delivered_def)
  have "mo_sent ?s = mo_sent s @ (case Evm_Subscribe_log cl p l of None \<Rightarrow> [] | Some b \<Rightarrow> [b])"
    by (simp add: on_sub_log_def)
  then have "set (mo_sent s) \<subseteq> set (mo_sent ?s)"
    "set (mo_sent ?s) \<union> set (delivered cl p (queued ?s)) = set (mo_sent s) \<union> set (delivered cl p (queued s))"
    using q by auto
  with assms(1) show ?thesis unfolding deliveries_def f by blast
qed

lemma on_latest_deliveries:
  assumes "deliveries cl p logs s" "on_latest p answer s = Some s'" "0 < ec_BlockBatchSize p"
    and "unat (latestHeight answer) + unat (ec_BlockBatchSize p) < 2 ^ 64"
  shows "deliveries cl p logs (s'\<lparr>ew_from := unat (mo_startHeight s'), ew_latest := unat (latestHeight answer), ew_missed := []\<rparr>)"
proof (rule deliveries_mono [OF assms(1)])
  note f = on_latest_fields [OF assms(2)] and m = world_more [OF on_latest_fields(5) [OF assms(2)]]
  obtain brs where "mo_pass s' = Syncing brs" "covers brs = [unat (mo_startHeight s')..<Suc (unat (latestHeight answer))]"
    using f(6) block_reqs_covers [OF assms(3,4), of "mo_startHeight s'"] by auto
  then show "synced s h \<or> set (delivered cl p (logs h)) \<subseteq> set (mo_sent (s'\<lparr>ew_from := unat (mo_startHeight s'), ew_latest := unat (latestHeight answer), ew_missed := []\<rparr>))"
    if "synced (s'\<lparr>ew_from := unat (mo_startHeight s'), ew_latest := unat (latestHeight answer), ew_missed := []\<rparr>) h" for h
    using that by (auto simp: synced_def todo_def)
qed (simp_all add: live_def queued_def on_latest_fields [OF assms(2)] world_more [OF on_latest_fields(5) [OF assms(2)]])

lemma step_head: "evm_step cl p logs s s' \<Longrightarrow> ew_head s \<le> ew_head s'"
proof (induction rule: evm_step.induct)
  case (latest s answer e s')
  then show ?case using world_more(1) [OF on_latest_fields(5)] by fastforce
next
  case (sub_error s i err reconnect lastSaved s')
  then show ?case using world_more(1) [OF on_sub_error_fields(7) [OF sub_error(5)]] by (simp add: drop_sub_def)
qed (auto simp: chain_grows_def on_timer_def on_batch_def on_sub_log_def drop_sub_def)

definition monitor_ok :: "evm_client \<Rightarrow> evm_config \<Rightarrow> (nat \<Rightarrow> elog list) \<Rightarrow> evm_world \<Rightarrow> bool" where
  "monitor_ok cl p logs s = (one_subscription s \<and> deliveries cl p logs s \<and> ew_latest s \<le> ew_head s)"

text \<open>A step that leaves no log queued and sends nothing, and does not touch the record of the pass.\<close>

lemma quiet_step:
  assumes "monitor_ok cl p logs s" "one_subscription s'" "\<And>h. \<not> live s' h" "mo_sent s' = mo_sent s"
    and "synced s' = synced s" "ew_latest s' = ew_latest s" "ew_head s' = ew_head s"
  shows "monitor_ok cl p logs s'"
  using assms by (auto simp: monitor_ok_def deliveries_def)

lemma monitor_ok_step:
  assumes "evm_step cl p logs s s'" "monitor_ok cl p logs s"
    and "0 < ec_BlockBatchSize p" "ew_head s' + unat (ec_BlockBatchSize p) < 2 ^ 64"
  shows "monitor_ok cl p logs s'"
proof -
  have one: "one_subscription s'" using one_subscription_step assms(1,2) unfolding monitor_ok_def by blast
  have le: "length (mo_subs s) \<le> 1" and del: "deliveries cl p logs s" and lat: "ew_latest s \<le> ew_head s"
    using assms(2) by (auto simp: monitor_ok_def one_subscription_def split: if_splits)
  from assms(1) show ?thesis
  proof (cases rule: evm_step.cases)
    case grow
    then show ?thesis using one chain_grows_deliveries [OF del le lat] lat by (simp add: monitor_ok_def chain_grows_def)
  next
    case (established i)
    show ?thesis
      by (rule quiet_step [OF assms(2) one])
        (auto simp: established synced_def todo_def live_def list_ex_iff fun_eq_iff split: sub.splits)
  next
    case (failing i err)
    have "mo_subs s' = [Failing err]" using single_sub(3) [OF le failing(2)] by (simp add: failing(1))
    then show ?thesis by (intro quiet_step [OF assms(2) one]) (simp_all add: not_live, simp_all add: failing synced_def todo_def fun_eq_iff)
  next
    case (log i l q)
    then show ?thesis using one on_sub_log_deliveries [OF del, of l q] single_sub [OF le log(2)] lat
      by (auto simp: monitor_ok_def on_sub_log_def)
  next
    case timer
    then have "mo_subs s' = [Starting]" using assms(2) by (auto simp: monitor_ok_def one_subscription_def on_timer_def)
    then show ?thesis by (intro quiet_step [OF assms(2) one])
      (simp_all add: not_live, simp_all add: timer on_timer_def synced_def todo_def fun_eq_iff)
  next
    case (latest answer e s1)
    note m = world_more [OF on_latest_fields(5) [OF latest(4)]]
    have h: "ew_head s' = ew_head s" by (simp add: latest(1) m)
    have "unat (latestHeight answer) \<le> ew_head s"
      using latest(3) by (auto simp: latestHeight_def unat_of_nat le_trans [OF mod_less_eq_dividend])
    moreover from this have "unat (latestHeight answer) + unat (ec_BlockBatchSize p) < 2 ^ 64" using assms(4) h by simp
    ultimately show ?thesis using on_latest_deliveries [OF del latest(4) assms(3)] one
      unfolding monitor_ok_def latest(1) by (simp add: m)
  next
    case (batch br rest answers)
    note m = world_more [OF on_batch_fields(5) [of cl p answers br rest s]]
    show ?thesis using one on_batch_deliveries [OF del batch(2,3)] lat m by (simp add: monitor_ok_def batch(1))
  next
    case (batch_fails br rest answers)
    note m = world_more [OF on_batch_fields(5) [of cl p answers br rest s]]
    show ?thesis using one on_batch_fails_deliveries [OF del batch_fails(2)] lat m by (simp add: monitor_ok_def batch_fails(1))
  next
    case pass_ends
    have "deliveries cl p logs s'"
      by (rule deliveries_mono [OF del]) (simp_all add: pass_ends synced_def todo_def live_def queued_def)
    with one lat show ?thesis by (simp add: monitor_ok_def pass_ends)
  next
    case (sub_error i err reconnect lastSaved)
    note f = on_sub_error_fields [OF sub_error(5)]
    note m = world_more [OF f(7)]
    have "mo_subs s' = []" using single_sub(4) [OF le sub_error(3)] f(2) by simp
    then show ?thesis by (intro quiet_step [OF assms(2) one])
      (simp_all add: not_live, simp_all add: f m drop_sub_def synced_def todo_def fun_eq_iff)
  next
    case ctx_done
    have "deliveries cl p logs s'"
      by (rule deliveries_mono [OF del]) (simp_all add: ctx_done synced_def todo_def live_def queued_def)
    with one lat show ?thesis by (simp add: monitor_ok_def ctx_done)
  next
    case (sub_done i q)
    have "mo_subs s' = []" using single_sub(4) [OF le sub_done(3)] by (simp add: sub_done(1))
    then show ?thesis by (intro quiet_step [OF assms(2) one])
      (simp_all add: not_live, simp_all add: sub_done drop_sub_def synced_def todo_def fun_eq_iff)
  qed
qed

lemma reachable_monitor_ok:
  assumes "evm_reachable cl p logs s" "0 < ec_BlockBatchSize p" "ew_head s + unat (ec_BlockBatchSize p) < 2 ^ 64"
  shows "monitor_ok cl p logs s"
  using assms
proof (induction rule: evm_reachable.induct)
  case (start head lastSaved m)
  then obtain h where "m = monitor_start h" by (auto simp: Evm_Listener_start_def split: sum.splits)
  then show ?case by (auto simp: monitor_ok_def one_subscription_def deliveries_def synced_def live_def
      monitor_start_def evm_monitor.defs)
next
  case (step s s')
  have "ew_head s \<le> ew_head s'" using step_head [OF step.hyps(2)] .
  with step have "monitor_ok cl p logs s" by simp
  with step show ?case by (blast intro: monitor_ok_step)
qed

text \<open>
  C12. The event loop of the EVM listener. At every moment it waits for its timer and no
  subscription is alive, or there is at most one, and one unless the context is done. The messages
  of a height were sent to the relayer, or are queued in the subscription, whenever the height
  belongs to a batch of the last pass that was fetched, or came after the subscription was
  established; nothing is said of the heights between the latest one the pass was told and the
  establishment.
\<close>
theorem evm_monitor_invariant:
  assumes "evm_reachable cl p logs s" "0 < ec_BlockBatchSize p" "ew_head s + unat (ec_BlockBatchSize p) < 2 ^ 64"
  shows "(if mo_ticker s then mo_subs s = [] \<and> mo_pass s = AtSelect
      else length (mo_subs s) \<le> 1 \<and> (mo_done s \<or> mo_subs s \<noteq> [])) \<and>
    (synced s h \<or> live s h \<longrightarrow> set (delivered cl p (logs h)) \<subseteq> set (mo_sent s) \<union> set (delivered cl p (queued s)))"
  using reachable_monitor_ok [OF assms] by (auto simp: monitor_ok_def one_subscription_def deliveries_def split: if_splits)

section \<open>The gap\<close>

text \<open>
  A height the pass was not told of and the subscription does not get: the block was there before the
  subscription was established. \<open>evm_quiet\<close> are the runs in which the timer is not set again, which only
  an error of the subscription does.
\<close>

inductive evm_quiet :: "evm_client \<Rightarrow> evm_config \<Rightarrow> (nat \<Rightarrow> elog list) \<Rightarrow> evm_world \<Rightarrow> evm_world \<Rightarrow> bool"
  for cl :: evm_client and p :: evm_config and logs :: "nat \<Rightarrow> elog list" where
  stay: "evm_quiet cl p logs s s"
| more: "evm_quiet cl p logs s s' \<Longrightarrow> evm_step cl p logs s' s'' \<Longrightarrow> \<not> mo_ticker s'' \<Longrightarrow> evm_quiet cl p logs s s''"

definition skips :: "nat \<Rightarrow> evm_world \<Rightarrow> bool" where
  "skips h s = (\<not> mo_ticker s \<and> h \<le> ew_head s \<and> mo_pass s \<noteq> Querying \<and> h \<notin> set (todo s) \<and>
     (\<forall>q. Active q \<in> set (mo_subs s) \<longrightarrow> (\<forall>l \<in> set q. unat (lg_BlockNumber l) \<noteq> h)))"

definition sent_at :: "nat \<Rightarrow> 'a evm_monitor_scheme \<Rightarrow> block_info list" where
  "sent_at h s = filter (\<lambda>b. unat (bi_height b) = h) (mo_sent s)"

lemma delivered_height: "b \<in> set (delivered cl p ls) \<Longrightarrow> \<exists>l \<in> set ls. bi_height b = lg_BlockNumber l"
proof (induction ls)
  case (Cons l ls)
  then show ?case by (cases "getRelayMessageFromLog cl p l") (auto simp: delivered_def Evm_Subscribe_log_def)
qed (simp add: delivered_def)

lemma sync_batch_failed:
  assumes "list_all (failed answers) [0..<MaxRetryCount]"
  shows "sync_batch (cl\<lparr>cl_FilterLogs := \<lambda>_. answers\<rparr>) p q br = []"
proof -
  have f: "failed answers j" if "j < MaxRetryCount" for j using assms that by (simp add: list_all_iff)
  have "failed answers (MaxRetryCount - 1)" by (rule f) (simp add: MaxRetryCount_def)
  then obtain e where e: "answers (MaxRetryCount - 1) = Inl e" by (auto simp: failed_def split: sum.splits)
  have "fst (getLogsRetry_loop answers 0 e0) = Inl e" for e0
    using getLogsRetry_loop_fails [of 0 answers e0] f e by (simp add: MaxRetryCount_def)
  then show ?thesis by (simp add: sync_batch_def getLogsRetry_def)
qed

lemma set_drop_sub: "set (mo_subs (drop_sub i s)) \<subseteq> set (mo_subs s)"
  by (auto simp: drop_sub_def dest: in_set_takeD in_set_dropD)

lemma skips_step:
  assumes "evm_step cl p logs s s'" "skips h s" "\<not> mo_ticker s'"
    and logs: "\<And>k l. l \<in> set (logs k) \<Longrightarrow> unat (lg_BlockNumber l) = k"
  shows "skips h s' \<and> sent_at h s' = sent_at h s"
  using assms(1)
proof (cases rule: evm_step.cases)
  case grow
  have "\<forall>l \<in> set q. unat (lg_BlockNumber l) \<noteq> h" if mem: "Active q \<in> set (mo_subs s')" for q
  proof -
    have "Active q \<in> sub_receives (logs (Suc (ew_head s))) ` set (mo_subs s)"
      using mem by (simp add: grow chain_grows_def)
    then obtain sub where sub: "sub \<in> set (mo_subs s)" "Active q = sub_receives (logs (Suc (ew_head s))) sub" by blast
    from sub(2) obtain q0 where q0: "sub = Active q0" "q = q0 @ logs (Suc (ew_head s))" by (cases sub) auto
    with sub(1) assms(2) show ?thesis by (auto simp: skips_def dest!: logs)
  qed
  with assms(2,3) show ?thesis by (auto simp: skips_def grow chain_grows_def todo_def sent_at_def)
next
  case (established i)
  with assms(2,3) show ?thesis
    by (auto simp: skips_def todo_def sent_at_def dest!: set_update_subset_insert [THEN subsetD])
next
  case (failing i err)
  with assms(2,3) show ?thesis
    by (auto simp: skips_def todo_def sent_at_def dest!: set_update_subset_insert [THEN subsetD])
next
  case (log i l q)
  have a: "Active (l # q) \<in> set (mo_subs s)" using log(2,3) nth_mem by metis
  then have "unat (lg_BlockNumber l) \<noteq> h" using assms(2) by (auto simp: skips_def)
  then have "sent_at h s' = sent_at h s"
    by (auto simp: log sent_at_def on_sub_log_def Evm_Subscribe_log_def split: result.split)
  moreover have "skips h s'" using a assms(2,3)
    by (fastforce simp: log(1) skips_def todo_def on_sub_log_def dest!: set_update_subset_insert [THEN subsetD])
  ultimately show ?thesis by simp
next
  case timer
  then show ?thesis using assms(2) by (simp add: skips_def)
next
  case (latest answer e s1)
  then show ?thesis using assms(2) by (simp add: skips_def)
next
  case (batch br rest answers)
  note m = world_more [OF on_batch_fields(5) [of cl p answers br rest s]]
  have no: "h \<notin> set (covers [br])" "h \<notin> set (covers rest)"
    using assms(2) batch(2) covers_Cons [of br rest] by (auto simp: skips_def todo_def simp del: covers_simps)
  have "unat (bi_height b) \<noteq> h" if "b \<in> set (delivered cl p (concat (map logs (covers [br]))))" for b
    using delivered_height [OF that] no(1) by (auto dest!: logs simp del: covers_simps)
  then have "sent_at h s' = sent_at h s"
    by (auto simp: batch(1) sent_at_def on_batch_def sync_batch_answers [OF batch(3)] filter_empty_conv simp del: covers_simps)
  moreover have "skips h s'" using assms(2,3) no(2) by (simp add: batch(1) skips_def todo_def m)
  ultimately show ?thesis by simp
next
  case (batch_fails br rest answers)
  note m = world_more [OF on_batch_fields(5) [of cl p answers br rest s]]
  have "h \<notin> set (covers rest)"
    using assms(2) batch_fails(2) covers_Cons [of br rest] by (auto simp: skips_def todo_def simp del: covers_simps)
  then have "skips h s'" using assms(2,3) by (simp add: batch_fails(1) skips_def todo_def m)
  then show ?thesis by (simp add: batch_fails(1) sent_at_def on_batch_def sync_batch_failed [OF batch_fails(3)])
next
  case pass_ends
  with assms(2,3) show ?thesis by (simp add: skips_def todo_def sent_at_def)
next
  case (sub_error i err reconnect lastSaved)
  then show ?thesis using assms(3) on_sub_error_fields(1) [OF sub_error(5)] by simp
next
  case ctx_done
  with assms(2,3) show ?thesis by (simp add: skips_def todo_def sent_at_def)
next
  case (sub_done i q)
  have "set (mo_subs s') \<subseteq> set (mo_subs s)" unfolding sub_done(1) by (rule set_drop_sub)
  then show ?thesis using assms(2,3) by (auto simp: sub_done(1) skips_def todo_def sent_at_def drop_sub_def)
qed

lemma skips_quiet:
  assumes "evm_quiet cl p logs s s'" "skips h s" "\<And>k l. l \<in> set (logs k) \<Longrightarrow> unat (lg_BlockNumber l) = k"
  shows "skips h s' \<and> sent_at h s' = sent_at h s"
  using assms
proof (induction rule: evm_quiet.induct)
  case (more s s' s'')
  then show ?case using skips_step [OF more(2) _ more(3), of h] by simp
qed simp

text \<open>A pass fetches no height above the latest one it was told.\<close>

lemma todo_bounded:
  assumes "evm_reachable cl p logs s" "0 < ec_BlockBatchSize p" "ew_head s + unat (ec_BlockBatchSize p) < 2 ^ 64"
  shows "\<forall>h \<in> set (todo s). h \<le> ew_latest s"
  using assms
proof (induction rule: evm_reachable.induct)
  case (start head lastSaved m)
  then show ?case by (auto simp: Evm_Listener_start_def monitor_start_def todo_def evm_monitor.defs split: sum.splits)
next
  case (step s s')
  have "ew_head s \<le> ew_head s'" using step_head [OF step.hyps(2)] .
  with step have ih: "\<forall>h \<in> set (todo s). h \<le> ew_latest s" by simp
  from step.hyps(2) show ?case
  proof (cases rule: evm_step.cases)
    case (latest answer e s1)
    have "unat (latestHeight answer) \<le> ew_head s"
      using latest(3) by (auto simp: latestHeight_def unat_of_nat le_trans [OF mod_less_eq_dividend])
    moreover have "ew_head s' = ew_head s" using world_more [OF on_latest_fields(5) [OF latest(4)]] by (simp add: latest(1))
    ultimately have b: "unat (latestHeight answer) + unat (ec_BlockBatchSize p) < 2 ^ 64" using step.prems(2) by simp
    obtain brs where "mo_pass s1 = Syncing brs" "covers brs = [unat (mo_startHeight s1)..<Suc (unat (latestHeight answer))]"
      using on_latest_fields(6) [OF latest(4)] block_reqs_covers [OF step.prems(1) b, of "mo_startHeight s1"] by auto
    then show ?thesis by (auto simp: latest(1) todo_def)
  next
    case (batch br rest answers)
    then show ?thesis using ih covers_Cons [of br rest] world_more [OF on_batch_fields(5) [of cl p answers br rest s]]
      by (auto simp: todo_def simp del: covers_simps)
  next
    case (batch_fails br rest answers)
    then show ?thesis using ih covers_Cons [of br rest] world_more [OF on_batch_fields(5) [of cl p answers br rest s]]
      by (auto simp: todo_def simp del: covers_simps)
  next
    case (sub_error i err reconnect lastSaved)
    then show ?thesis using on_sub_error_fields [OF sub_error(5)] by (simp add: todo_def drop_sub_def)
  qed (use ih in \<open>auto simp: todo_def chain_grows_def on_timer_def on_sub_log_def drop_sub_def\<close>)
qed

text \<open>A run on the concrete chain, whose message at height 57 comes while the subscription starts.\<close>

definition ex_batch :: "nat \<Rightarrow> error + elog list" where
  "ex_batch attempt = Inr []"

definition ex_world :: "sub list \<Rightarrow> pass \<Rightarrow> nat \<Rightarrow> nat \<Rightarrow> evm_world" where
  "ex_world subs pass head since = \<lparr>mo_client = 0, mo_startHeight = 46, mo_ticker = False, mo_subs = subs,
     mo_pass = pass, mo_sent = [], mo_done = False, ew_head = head, ew_from = 46, ew_latest = 56, ew_since = since,
     ew_missed = []\<rparr>"

abbreviation ex_monitor :: "evm_world \<Rightarrow> bool" where
  "ex_monitor \<equiv> evm_reachable ex_client ex_evm_config ex_logs_at"

lemma ex_latest_reachable: "ex_monitor (ex_world [Starting] (Syncing [(46, 56)]) 56 56)"
proof -
  let ?s = "(ex_world [] AtSelect 56 56)\<lparr>ew_latest := 0, ew_from := 1\<rparr>"
  have "ex_monitor (?s\<lparr>mo_ticker := True\<rparr>)"
    using evm_reachable.start [where cl = ex_client and head = 56 and p = ex_evm_config and lastSaved = 0
      and m = "monitor_start 46" and logs = ex_logs_at]
    by (simp add: Evm_Listener_start_def Evm_startFromHeight_def ex_evm_config_def monitor_start_def ex_world_def
        evm_monitor.defs)
  from evm_reachable.step [OF this evm_step.timer]
  have "ex_monitor (?s\<lparr>mo_subs := [Starting], mo_pass := Querying\<rparr>)" by (simp add: ex_world_def on_timer_def)
  from evm_reachable.step [OF this evm_step.latest [where answer = "Inr 56"]] show ?thesis
    by (simp add: ex_world_def on_latest_def latestHeight_def ex_evm_config_def block_reqs.simps)
qed

lemma ex_pass_finishes:
  assumes "ex_monitor (ex_world subs (Syncing [(46, 56)]) head since)"
  shows "ex_monitor (ex_world subs AtSelect head since)"
proof -
  let ?s = "ex_world subs (Syncing [(46, 56)]) head since"
  have none: "concat (map ex_logs_at (covers [(46, 56)])) = []" by code_simp
  have a: "answered ex_batch (concat (map ex_logs_at (covers [(46, 56)])))"
    unfolding none answered_def list_ex_iff by (intro bexI [of _ 0]) (simp_all add: ex_batch_def MaxRetryCount_def)
  have b: "on_batch ex_client ex_evm_config ex_batch (46, 56) [] ?s = ex_world subs (Syncing []) head since"
    using sync_batch_answers [OF a, of ex_client ex_evm_config "(46, 56)"] unfolding none
    by (simp add: on_batch_def delivered_def ex_world_def)
  have "mo_pass ?s = Syncing [(46, 56)]" by (simp add: ex_world_def)
  from evm_reachable.step [OF assms evm_step.batch [OF this a]] b
  have "ex_monitor (ex_world subs (Syncing []) head since)" by simp
  from evm_reachable.step [OF this evm_step.pass_ends] show ?thesis by (simp add: ex_world_def)
qed

lemma ex_live_reachable: "ex_monitor (ex_world [Active [ex_log]] AtSelect 57 56)"
proof -
  from evm_reachable.step [OF ex_latest_reachable evm_step.established [of 0]]
  have "ex_monitor (ex_world [Active []] (Syncing [(46, 56)]) 56 56)" by (simp add: ex_world_def)
  from evm_reachable.step [OF this evm_step.grow]
  have "ex_monitor (ex_world [Active [ex_log]] (Syncing [(46, 56)]) 57 56)"
    by (simp add: ex_world_def chain_grows_def ex_logs_at_def)
  then show ?thesis by (rule ex_pass_finishes)
qed

theorem evm_monitor_invariant_witness:
  "live (ex_world [Active [ex_log]] AtSelect 57 56) 57 \<and>
    set (delivered ex_client ex_evm_config [ex_log]) \<subseteq>
      set (delivered ex_client ex_evm_config (queued (ex_world [Active [ex_log]] AtSelect 57 56)))"
proof -
  let ?s = "ex_world [Active [ex_log]] AtSelect 57 56"
  have c: "0 < ec_BlockBatchSize ex_evm_config" "ew_head ?s + unat (ec_BlockBatchSize ex_evm_config) < 2 ^ 64"
    by (simp_all add: ex_evm_config_def ex_world_def)
  have l: "live ?s 57" by (simp add: live_def ex_world_def)
  have "mo_sent ?s = []" by (simp add: ex_world_def)
  with evm_monitor_invariant [OF ex_live_reachable c, of 57] l show ?thesis by (simp add: ex_logs_at_def)
qed

text \<open>
  C13. Events can be missed, without any failure. When the pass was told its latest height, the chain
  has grown past it, and the subscription started with the pass is not established yet, no message of
  the heights in between is ever sent in whatever follows, until an error of the subscription sets the
  timer again: neither the batches of the pass nor the subscription, when it comes, have these heights.
\<close>
theorem evm_monitor_gap:
  assumes "evm_reachable cl p logs s" "0 < ec_BlockBatchSize p" "ew_head s + unat (ec_BlockBatchSize p) < 2 ^ 64"
    and "\<And>k l. l \<in> set (logs k) \<Longrightarrow> unat (lg_BlockNumber l) = k"
    and "mo_pass s = Syncing brs" "mo_subs s = [Starting]" "ew_latest s < h" "h \<le> ew_head s"
    and "evm_quiet cl p logs s s'"
  shows "filter (\<lambda>b. unat (bi_height b) = h) (mo_sent s') = filter (\<lambda>b. unat (bi_height b) = h) (mo_sent s)"
proof -
  have "h \<notin> set (todo s)" using todo_bounded [OF assms(1-3)] assms(7) by auto
  moreover have "\<not> mo_ticker s"
    using one_subscription_reachable [OF assms(1)] assms(6) by (auto simp: one_subscription_def split: if_splits)
  ultimately have "skips h s" using assms(5,6,8) by (simp add: skips_def)
  from skips_quiet [OF assms(9) this assms(4)] show ?thesis by (simp add: sent_at_def)
qed

text \<open>The message at height 57 of the concrete chain: the pass was told 56, the subscription comes at 57.\<close>

lemma ex_quiet_pass:
  "evm_quiet ex_client ex_evm_config ex_logs_at (ex_world [Starting] (Syncing [(46, 56)]) 57 56)
     (ex_world [Active []] AtSelect 57 57)"
proof -
  let ?quiet = "evm_quiet ex_client ex_evm_config ex_logs_at (ex_world [Starting] (Syncing [(46, 56)]) 57 56)"
  let ?s = "ex_world [Active []] (Syncing [(46, 56)]) 57 57"
  have "?quiet ?s"
    using evm_quiet.more [OF evm_quiet.stay evm_step.established [of 0], of "ex_world [Starting] (Syncing [(46, 56)]) 57 56"]
    by (simp add: ex_world_def)
  moreover have none: "concat (map ex_logs_at (covers [(46, 56)])) = []" by code_simp
  have a: "answered ex_batch (concat (map ex_logs_at (covers [(46, 56)])))"
    unfolding none answered_def list_ex_iff by (intro bexI [of _ 0]) (simp_all add: ex_batch_def MaxRetryCount_def)
  have b: "on_batch ex_client ex_evm_config ex_batch (46, 56) [] ?s = ex_world [Active []] (Syncing []) 57 57"
    using sync_batch_answers [OF a, of ex_client ex_evm_config "(46, 56)"] unfolding none
    by (simp add: on_batch_def delivered_def ex_world_def)
  have "mo_pass ?s = Syncing [(46, 56)]" by (simp add: ex_world_def)
  from evm_quiet.more [OF calculation evm_step.batch [OF this a]] b
  have "?quiet (ex_world [Active []] (Syncing []) 57 57)" by (simp add: ex_world_def)
  from evm_quiet.more [OF this evm_step.pass_ends] show ?thesis by (simp add: ex_world_def)
qed

theorem evm_monitor_gap_witness:
  "delivered ex_client ex_evm_config (ex_logs_at 57) \<noteq> [] \<and>
    filter (\<lambda>b. unat (bi_height b) = 57) (mo_sent (ex_world [Active []] AtSelect 57 57)) = []"
proof -
  let ?s = "ex_world [Starting] (Syncing [(46, 56)]) 57 56"
  have r: "ex_monitor ?s"
    using evm_reachable.step [OF ex_latest_reachable evm_step.grow] by (simp add: ex_world_def chain_grows_def)
  have c: "0 < ec_BlockBatchSize ex_evm_config" "ew_head ?s + unat (ec_BlockBatchSize ex_evm_config) < 2 ^ 64"
    by (simp_all add: ex_evm_config_def ex_world_def)
  have l: "unat (lg_BlockNumber l) = k" if "l \<in> set (ex_logs_at k)" for k l
    using that by (simp add: ex_logs_at_def ex_log_def split: if_splits)
  have s: "mo_pass ?s = Syncing [(46, 56)]" "mo_subs ?s = [Starting]" "ew_latest ?s < 57" "57 \<le> ew_head ?s" "mo_sent ?s = []"
    by (simp_all add: ex_world_def)
  have "delivered ex_client ex_evm_config (ex_logs_at 57) \<noteq> []" by code_simp
  with evm_monitor_gap [OF r c l s(1-4) ex_quiet_pass] s(5) show ?thesis by simp
qed

end
