(* ===== verification/Icon_Monitor.thy ===== *)
theory Icon_Monitor
  imports Icon_Props "HOL-Library.Sublist"
begin

text \<open>
  \<^verbatim>\<open>relayer/chains/icon/client.go\<close>, the websocket side, and the loop of \<^verbatim>\<open>listener.go\<close> that connects
  again after a monitor ended.

  A connection is what the node does on it: the answer to the request, the notifications, and how
  the connection ends. The client keeps the addresses of its open connections. A callback gets a
  \<open>ws_value\<close> and runs on a state \<^typ>\<open>'s\<close>.
\<close>

section \<open>Connections\<close>

datatype ws_end = ConnClosed int error | ReadFailed error | CtxDone

record 'v ws_conn =
  wc_LocalAddr :: string
  wc_Write :: "error option"
  wc_Response :: "error + (int \<times> string)"
  wc_Frames :: "'v list"
  wc_End :: ws_end

datatype 'v ws_value = WSEventInit | WSNotification 'v | WSError error

type_synonym ('v, 's) ws_callback = "'v ws_value \<Rightarrow> 's \<Rightarrow> (error option \<times> 's) result"

definition ContextCanceled :: error where "ContextCanceled = ''context canceled''"

definition CloseNormalClosure :: int where "CloseNormalClosure = 1000"

definition addWsConn :: "string \<Rightarrow> string list \<Rightarrow> string list" where
  "addWsConn la conns = List.insert la conns"

definition removeWsConn :: "string \<Rightarrow> string list \<Rightarrow> string list" where
  "removeWsConn la conns = removeAll la conns"

definition wsConnect :: "error + 'v ws_conn \<Rightarrow> string list \<Rightarrow> (error + 'v ws_conn) \<times> string list" where
  "wsConnect dial conns = (case dial of
      Inl e \<Rightarrow> (Inl e, conns) | Inr conn \<Rightarrow> (Inr conn, addWsConn (wc_LocalAddr conn) conns))"

definition wsRequest :: "'v ws_conn \<Rightarrow> error option" where
  "wsRequest conn = (case wc_Write conn of
      Some e \<Rightarrow> Some (''fail to WriteJSON err:'' @ e)
    | None \<Rightarrow> (case wc_Response conn of
        Inl e \<Rightarrow> Some (''fail to ReadJSON err:'' @ e)
      | Inr (code, message) \<Rightarrow>
         if code \<noteq> 0 then Some (''invalid WSResponse code:'' @ int_str 10 code @ '', message:'' @ message) else None))"

text \<open>\<^verbatim>\<open>wsClose\<close>; the errors of closing are only logged.\<close>

definition wsClose :: "'v ws_conn \<Rightarrow> string list \<Rightarrow> string list" where
  "wsClose conn conns = removeWsConn (wc_LocalAddr conn) conns"

definition end_error :: "ws_end \<Rightarrow> error" where
  "end_error fin = (case fin of ConnClosed code e \<Rightarrow> e | ReadFailed e \<Rightarrow> e | CtxDone \<Rightarrow> ContextCanceled)"

text \<open>The read that fails: a normal closure is not reported to the callback, whose error is dropped.\<close>

fun wsReadJSONLoop ::
    "('v, 's) ws_callback \<Rightarrow> string list \<Rightarrow> 'v ws_conn \<Rightarrow> 'v list \<Rightarrow> 's \<Rightarrow> (error \<times> 's) result" where
  "wsReadJSONLoop cb conns conn [] s =
     (if wc_End conn = CtxDone then Ok (ContextCanceled, s)
      else if wc_LocalAddr conn \<notin> set conns then Ok (''wsReadJSONLoop c.conns is nil'', s)
      else (case wc_End conn of
          ConnClosed code e \<Rightarrow>
            if code = CloseNormalClosure then Ok (e, s) else rmap (\<lambda>(_, s'). (e, s')) (cb (WSError e) s)
        | ReadFailed e \<Rightarrow> rmap (\<lambda>(_, s'). (e, s')) (cb (WSError e) s)
        | CtxDone \<Rightarrow> Ok (ContextCanceled, s)))"
| "wsReadJSONLoop cb conns conn (v # vs) s =
     (if wc_LocalAddr conn \<notin> set conns then Ok (''wsReadJSONLoop c.conns is nil'', s)
      else rbind (cb (WSNotification v) s) (\<lambda>(err, s').
        case err of Some e \<Rightarrow> Ok (e, s') | None \<Rightarrow> wsReadJSONLoop cb conns conn vs s'))"

definition Monitor ::
    "('v, 's) ws_callback \<Rightarrow> error + 'v ws_conn \<Rightarrow> string list \<Rightarrow> 's \<Rightarrow> (error \<times> string list \<times> 's) result" where
  "Monitor cb dial conns s = (case wsConnect dial conns of
      (Inl e, conns1) \<Rightarrow> Ok (e, conns1, s)
    | (Inr conn, conns1) \<Rightarrow>
       (case wsRequest conn of
          Some e \<Rightarrow> Ok (e, wsClose conn conns1, s)
        | None \<Rightarrow> rbind (cb WSEventInit s) (\<lambda>(err, s1).
            case err of
              Some e \<Rightarrow> Ok (e, wsClose conn conns1, s1)
            | None \<Rightarrow> rmap (\<lambda>(e, s2). (e, wsClose conn conns1, s2))
                (wsReadJSONLoop cb conns1 conn (wc_Frames conn) s1))))"

section \<open>Other monitors\<close>

record block_notification =
  bn_Hash :: hexbytes
  bn_Height :: hexint
  bn_Indexes :: "hexint list list"
  bn_Events :: "hexint list list list"

text \<open>
  The callback of \<^verbatim>\<open>MonitorBlock\<close>: without \<open>scb\<close>, the callback for an established connection, every monitor
  ends at once. \<^verbatim>\<open>CloseMonitor\<close> and \<^verbatim>\<open>CloseAllMonitor\<close> close connections from outside.
\<close>

fun MonitorBlock_cb ::
    "(block_notification \<Rightarrow> 's \<Rightarrow> (error option \<times> 's) result) \<Rightarrow> ('s \<Rightarrow> 's) option \<Rightarrow> (error \<Rightarrow> 's \<Rightarrow> 's)
     \<Rightarrow> (block_notification, 's) ws_callback" where
  "MonitorBlock_cb cb scb errCb (WSNotification v) s = cb v s"
| "MonitorBlock_cb cb scb errCb WSEventInit s = (case scb of
      None \<Rightarrow> Ok (Some ''Second Callback function (scb) is nil '', s) | Some f \<Rightarrow> Ok (None, f s))"
| "MonitorBlock_cb cb scb errCb (WSError e) s = Ok (Some e, errCb e s)"

definition MonitorBlock ::
    "(block_notification \<Rightarrow> 's \<Rightarrow> (error option \<times> 's) result) \<Rightarrow> ('s \<Rightarrow> 's) option \<Rightarrow> (error \<Rightarrow> 's \<Rightarrow> 's)
     \<Rightarrow> error + block_notification ws_conn \<Rightarrow> string list \<Rightarrow> 's \<Rightarrow> (error \<times> string list \<times> 's) result" where
  "MonitorBlock cb scb errCb dial conns s = Monitor (MonitorBlock_cb cb scb errCb) dial conns s"

definition CloseMonitor :: "'v ws_conn \<Rightarrow> string list \<Rightarrow> string list" where
  "CloseMonitor conn conns = wsClose conn conns"

definition CloseAllMonitor :: "string list \<Rightarrow> string list" where
  "CloseAllMonitor conns = fold removeWsConn conns conns"

lemma CloseAllMonitor_closes: "CloseAllMonitor conns = []"
proof -
  have "fold removeWsConn xs ys = filter (\<lambda>y. y \<notin> set xs) ys" for xs ys :: "string list"
    by (induction xs arbitrary: ys) (auto simp: removeWsConn_def removeAll_filter_not_eq intro: filter_cong)
  then show ?thesis by (simp add: CloseAllMonitor_def)
qed

text \<open>Whatever the callback does, a monitor closes what it opened; one without \<open>scb\<close> reads nothing.\<close>

lemma Monitor_closes:
  assumes "Monitor cb dial conns s = Ok (e, conns', s')"
    and "\<And>conn. dial = Inr conn \<Longrightarrow> wc_LocalAddr conn \<notin> set conns"
  shows "set conns' = set conns"
proof (cases dial)
  case (Inl e)
  with assms(1) show ?thesis by (simp add: Monitor_def wsConnect_def)
next
  case (Inr conn)
  with assms show ?thesis
    by (auto simp: Monitor_def wsConnect_def wsClose_def removeWsConn_def addWsConn_def split: option.splits)
qed

lemma MonitorBlock_needs_scb:
  assumes "MonitorBlock cb None errCb (Inr conn) conns s = Ok (e, conns', s')" "wsRequest conn = None"
  shows "s' = s \<and> e = ''Second Callback function (scb) is nil ''"
  using assms by (simp add: MonitorBlock_def Monitor_def wsConnect_def)

section \<open>The event monitor and its reconnection\<close>

text \<open>
  The state is the height of the next request and what the relayer was sent. The callback's error is
  only logged; errors and unknown values go to the listener's error callback, which does nothing.
\<close>

type_synonym monitor_state = "hexint \<times> block_info list"

fun MonitorEvent_cb :: "icon_config \<Rightarrow> (event_notification, monitor_state) ws_callback" where
  "MonitorEvent_cb p (WSNotification v) (req, bs) = rmap (\<lambda>(req', bs'). (None, (req', bs @ bs'))) (icon_on_event p v req)"
| "MonitorEvent_cb p WSEventInit s = Ok (None, s)"
| "MonitorEvent_cb p (WSError e) s = Ok (None, s)"

definition MonitorEvent ::
    "icon_config \<Rightarrow> (hexint \<Rightarrow> error + event_notification ws_conn) \<Rightarrow> string list \<Rightarrow> monitor_state
     \<Rightarrow> (error \<times> string list \<times> monitor_state) result" where
  "MonitorEvent p dial conns s = Monitor (MonitorEvent_cb p) (dial (fst s)) conns s"

text \<open>
  The loop of \<^verbatim>\<open>Listener\<close>: every attempt sends the request with the height reached so far; all errors
  but a cancelled context lead to another attempt.
\<close>

fun icon_reconnects ::
    "icon_config \<Rightarrow> (hexint \<Rightarrow> error + event_notification ws_conn) list \<Rightarrow> string list \<Rightarrow> monitor_state
     \<Rightarrow> (string list \<times> monitor_state) result" where
  "icon_reconnects p [] conns s = Ok (conns, s)"
| "icon_reconnects p (dial # dials) conns s = rbind (MonitorEvent p dial conns s) (\<lambda>(err, conns', s').
     if err = ContextCanceled then Ok (conns', s') else icon_reconnects p dials conns' s')"

definition Icon_Listener_loop ::
    "icon_client \<Rightarrow> icon_config \<Rightarrow> u64 \<Rightarrow> (hexint \<Rightarrow> error + event_notification ws_conn) list \<Rightarrow> (string list \<times> monitor_state) result" where
  "Icon_Listener_loop cl p lastSavedHeight dials =
     (case Icon_StartFromHeight cl p lastSavedHeight of
        Inl e \<Rightarrow> Err (''failed to calculate start height: '' @ e)
      | Inr processedheight \<Rightarrow> icon_reconnects p dials [] (NewHexInt processedheight, []))"

section \<open>One connection\<close>

lemma wsReadJSONLoop_events:
  assumes "wc_LocalAddr conn \<in> set conns"
  shows "rmap snd (wsReadJSONLoop (MonitorEvent_cb p) conns conn vs (req, bs)) =
    rmap (\<lambda>(req', bs'). (req', bs @ bs')) (icon_on_events p vs req)"
proof (induction vs arbitrary: req bs)
  case Nil
  show ?case using assms by (simp split: ws_end.split)
next
  case (Cons v vs)
  show ?case
  proof (cases "icon_on_event p v req")
    case (Ok r)
    obtain req' bs' where r: "r = (req', bs')" by (cases r)
    have "rmap (\<lambda>(h2, bs2). (h2, bs @ bs' @ bs2)) (icon_on_events p vs req') =
        rmap (\<lambda>(h2, bs2). (h2, bs @ bs2)) (rmap (\<lambda>(h2, bs2). (h2, bs' @ bs2)) (icon_on_events p vs req'))"
      by (cases "icon_on_events p vs req'") auto
    with Cons [of req' "bs @ bs'"] assms Ok r show ?thesis by simp
  qed (use assms in simp_all)
qed

text \<open>Whatever happens, a monitor leaves no connection open.\<close>

lemma MonitorEvent_closes:
  assumes "MonitorEvent p dial conns s = Ok (e, conns', s')"
    and "\<And>conn. dial (fst s) = Inr conn \<Longrightarrow> wc_LocalAddr conn \<notin> set conns"
  shows "set conns' = set conns"
  by (rule Monitor_closes [OF assms(1) [unfolded MonitorEvent_def] assms(2)])

lemma MonitorEvent_events:
  assumes "MonitorEvent p dial conns (req, bs) = Ok (e, conns', (req', bs'))"
  shows "(req', bs') = (req, bs) \<or> (\<exists>conn bs1. dial req = Inr conn \<and>
    icon_on_events p (wc_Frames conn) req = Ok (req', bs1) \<and> bs' = bs @ bs1)"
proof (cases "dial req")
  case (Inl e)
  with assms show ?thesis by (simp add: MonitorEvent_def Monitor_def wsConnect_def)
next
  case (Inr conn)
  let ?conns = "addWsConn (wc_LocalAddr conn) conns"
  show ?thesis
  proof (cases "wsRequest conn")
    case None
    with assms Inr have "rmap snd (wsReadJSONLoop (MonitorEvent_cb p) ?conns conn (wc_Frames conn) (req, bs)) = Ok (req', bs')"
      by (auto simp: MonitorEvent_def Monitor_def wsConnect_def)
    then have "rmap (\<lambda>(req', bs'). (req', bs @ bs')) (icon_on_events p (wc_Frames conn) req) = Ok (req', bs')"
      by (subst (asm) wsReadJSONLoop_events) (simp_all add: addWsConn_def)
    with Inr show ?thesis by auto
  next
    case (Some e)
    with assms Inr show ?thesis by (simp add: MonitorEvent_def Monitor_def wsConnect_def)
  qed
qed

section \<open>Nothing is lost\<close>

text \<open>
  What the node promises (documented for the event monitor of the ICON node): for a request from
  height \<open>h\<close> it sends the events of the chain, \<open>evs\<close> at each height, in order from \<open>h\<close> on; a progress
  notification says that it has passed all heights before. A connection may end anywhere.
\<close>

definition is_event :: "event_notification \<Rightarrow> bool" where
  "is_event v = (en_Progress v = '''')"

definition event_stream :: "(nat \<Rightarrow> event_notification list) \<Rightarrow> nat \<Rightarrow> nat \<Rightarrow> event_notification list" where
  "event_stream evs a b = concat (map evs [a..<b])"

definition progress_ok :: "(nat \<Rightarrow> event_notification list) \<Rightarrow> nat \<Rightarrow> event_notification list \<Rightarrow> event_notification \<Rightarrow> bool" where
  "progress_ok evs h us v = (\<exists>q < 2 ^ 63. h \<le> q \<and> en_Progress v = NewHexInt (word_of_nat q) \<and>
     prefix (event_stream evs h q) (filter is_event us))"

definition frames_ok :: "(nat \<Rightarrow> event_notification list) \<Rightarrow> nat \<Rightarrow> event_notification list \<Rightarrow> bool" where
  "frames_ok evs h vs = (\<forall>us v ws. vs = us @ v # ws \<and> \<not> is_event v \<longrightarrow> progress_ok evs h us v)"

definition node_serves :: "(nat \<Rightarrow> event_notification list) \<Rightarrow> (hexint \<Rightarrow> error + event_notification ws_conn) \<Rightarrow> bool" where
  "node_serves evs dial = (\<forall>h < 2 ^ 63. \<forall>conn. dial (NewHexInt (word_of_nat h)) = Inr conn \<longrightarrow> frames_ok evs h (wc_Frames conn))"

text \<open>What the listener makes of an event; an event that does not parse is dropped.\<close>

definition event_blocks :: "icon_config \<Rightarrow> event_notification \<Rightarrow> block_info list" where
  "event_blocks p v = (case parseMessageEvent p v of
      Ok msgs \<Rightarrow> map (\<lambda>m. \<lparr>bi_height = m_height m, bi_messages = [m]\<rparr>) msgs | _ \<Rightarrow> [])"

definition stream_blocks :: "icon_config \<Rightarrow> event_notification list \<Rightarrow> block_info list" where
  "stream_blocks p vs = concat (map (event_blocks p) vs)"

lemma stream_blocks_append [simp]: "stream_blocks p (us @ vs) = stream_blocks p us @ stream_blocks p vs"
  by (simp add: stream_blocks_def)

lemma event_stream_split: "a \<le> b \<Longrightarrow> b \<le> c \<Longrightarrow> event_stream evs a c = event_stream evs a b @ event_stream evs b c"
  using upt_add_eq_append [of a b "c - b"] by (simp add: event_stream_def)

lemma on_event:
  assumes "icon_on_event p v req = Ok (req', bs)" "is_event v"
  shows "req' = req \<and> bs = event_blocks p v"
  using assms by (auto simp: icon_on_event_def is_event_def event_blocks_def split: result.splits)

lemma on_progress:
  assumes "icon_on_event p v req = Ok (req', bs)" "en_Progress v = NewHexInt w"
  shows "(req' = req \<or> req' = NewHexInt w) \<and> bs = []"
proof -
  have "NewHexInt w \<noteq> ''''" by (simp add: NewHexInt_def)
  with assms show ?thesis by (auto simp: icon_on_event_def split: if_splits)
qed

text \<open>The request never gets ahead of what was sent.\<close>

lemma on_events_progress:
  assumes "frames_ok evs h (us @ vs)" "icon_on_events p vs req = Ok (req', bs)"
    and "\<exists>q < 2 ^ 63. h \<le> q \<and> req = NewHexInt (word_of_nat q) \<and> prefix (event_stream evs h q) (filter is_event us)"
  shows "(\<exists>q < 2 ^ 63. h \<le> q \<and> req' = NewHexInt (word_of_nat q) \<and>
      prefix (event_stream evs h q) (filter is_event (us @ vs))) \<and> bs = stream_blocks p (filter is_event vs)"
  using assms
proof (induction vs arbitrary: us req bs)
  case Nil
  then show ?case by (simp add: stream_blocks_def)
next
  case (Cons v vs)
  from Cons.prems(2) obtain r1 b1 b2 where
    v: "icon_on_event p v req = Ok (r1, b1)" and vs: "icon_on_events p vs r1 = Ok (req', b2)" and bs: "bs = b1 @ b2"
    by auto
  have "(\<exists>q < 2 ^ 63. h \<le> q \<and> r1 = NewHexInt (word_of_nat q) \<and>
      prefix (event_stream evs h q) (filter is_event (us @ [v]))) \<and> b1 = stream_blocks p (filter is_event [v])"
  proof (cases "is_event v")
    case True
    with Cons.prems(3) on_event [OF v True] show ?thesis by (auto simp: stream_blocks_def intro: prefix_prefix)
  next
    case False
    with Cons.prems(1) have "progress_ok evs h us v" by (simp add: frames_ok_def)
    then obtain q where q: "q < 2 ^ 63" "h \<le> q" "en_Progress v = NewHexInt (word_of_nat q)"
      "prefix (event_stream evs h q) (filter is_event us)" by (auto simp: progress_ok_def)
    from on_progress [OF v q(3)] Cons.prems(3) q False show ?thesis by (auto simp: stream_blocks_def)
  qed
  with Cons.IH [of "us @ [v]" r1 b2] Cons.prems(1) vs bs show ?case by (simp add: stream_blocks_def)
qed

lemma monitor_progress:
  assumes "node_serves evs dial" "h < 2 ^ 63"
    and "MonitorEvent p dial conns (NewHexInt (word_of_nat h), bs) = Ok (e, conns', (req', bs'))"
  shows "\<exists>q < 2 ^ 63. \<exists>bs1. h \<le> q \<and> req' = NewHexInt (word_of_nat q) \<and> bs' = bs @ bs1 \<and>
    subseq (stream_blocks p (event_stream evs h q)) bs1"
proof -
  have none: "event_stream evs h h = []" by (simp add: event_stream_def)
  from MonitorEvent_events [OF assms(3)] show ?thesis
  proof
    assume "(req', bs') = (NewHexInt (word_of_nat h), bs)"
    with assms(2) none show ?thesis by (auto simp: stream_blocks_def)
  next
    assume "\<exists>conn bs1. dial (NewHexInt (word_of_nat h)) = Inr conn \<and>
      icon_on_events p (wc_Frames conn) (NewHexInt (word_of_nat h)) = Ok (req', bs1) \<and> bs' = bs @ bs1"
    then obtain conn bs1 where c: "dial (NewHexInt (word_of_nat h)) = Inr conn"
      "icon_on_events p (wc_Frames conn) (NewHexInt (word_of_nat h)) = Ok (req', bs1)" "bs' = bs @ bs1" by blast
    from assms(1,2) c(1) have "frames_ok evs h ([] @ wc_Frames conn)" by (simp add: node_serves_def)
    from on_events_progress [OF this c(2)] assms(2) none obtain q where
      q: "q < 2 ^ 63" "h \<le> q" "req' = NewHexInt (word_of_nat q)"
        "prefix (event_stream evs h q) (filter is_event (wc_Frames conn))"
      and b: "bs1 = stream_blocks p (filter is_event (wc_Frames conn))" by auto
    from q(4) b have "subseq (stream_blocks p (event_stream evs h q)) bs1"
      by (auto simp: prefix_def)
    with q(1-3) c(3) show ?thesis by blast
  qed
qed

text \<open>
  C11. Reconnections lose no event. Whatever connections fail or break off, once the request has
  reached a height, the relayer was sent the messages of every event between the start and that
  height, in the order of the chain; what a reconnect reads again is sent again.
\<close>
theorem icon_monitor_loses_nothing:
  assumes "\<forall>dial \<in> set dials. node_serves evs dial" "h0 < 2 ^ 63"
    and "icon_reconnects p dials conns (NewHexInt (word_of_nat h0), []) = Ok (conns', (req, bs))"
  shows "\<exists>h \<ge> h0. h < 2 ^ 63 \<and> req = NewHexInt (word_of_nat h) \<and>
    subseq (stream_blocks p (event_stream evs h0 h)) bs"
proof -
  have "\<exists>h \<ge> h0. h < 2 ^ 63 \<and> req = NewHexInt (word_of_nat h) \<and> subseq (stream_blocks p (event_stream evs h0 h)) bs"
    if "icon_reconnects p dials conns (NewHexInt (word_of_nat h1), bs1) = Ok (conns', (req, bs))"
      "\<forall>dial \<in> set dials. node_serves evs dial"
      "h0 \<le> h1" "h1 < 2 ^ 63" "subseq (stream_blocks p (event_stream evs h0 h1)) bs1" for dials conns h1 bs1
    using that
  proof (induction dials arbitrary: conns h1 bs1)
    case Nil
    then show ?case by auto
  next
    case (Cons dial dials)
    from Cons.prems(1) obtain e conns2 req2 bs2 where
      m: "MonitorEvent p dial conns (NewHexInt (word_of_nat h1), bs1) = Ok (e, conns2, (req2, bs2))"
      and r: "(if e = ContextCanceled then Ok (conns2, (req2, bs2)) else icon_reconnects p dials conns2 (req2, bs2)) = Ok (conns', (req, bs))"
      by auto
    from Cons.prems(2) have "node_serves evs dial" by simp
    from monitor_progress [OF this Cons.prems(4) m] obtain q bs3 where
      q: "q < 2 ^ 63" "h1 \<le> q" "req2 = NewHexInt (word_of_nat q)" "bs2 = bs1 @ bs3"
        "subseq (stream_blocks p (event_stream evs h1 q)) bs3" by blast
    have s: "subseq (stream_blocks p (event_stream evs h0 q)) bs2"
      unfolding event_stream_split [OF Cons.prems(3) q(2)] stream_blocks_append q(4)
      using Cons.prems(5) q(5) by (rule list_emb_append_mono)
    have le: "h0 \<le> q" using Cons.prems(3) q(2) by simp
    show ?case
    proof (cases "e = ContextCanceled")
      case True
      with r have "(req, bs) = (req2, bs2)" by simp
      with le s q(1,3) show ?thesis by blast
    next
      case False
      with r q(3) have "icon_reconnects p dials conns2 (NewHexInt (word_of_nat q), bs2) = Ok (conns', (req, bs))" by simp
      from Cons.IH [OF this _ le q(1) s] Cons.prems(2) show ?thesis by simp
    qed
  qed
  from this [OF assms(3,1) _ assms(2)] show ?thesis by (simp add: event_stream_def stream_blocks_def)
qed

text \<open>A node with an event at 100 and one at 130; the first connection breaks off after the progress to 120.\<close>

definition ex_event :: "hexint \<Rightarrow> event_notification" where
  "ex_event height = \<lparr>en_Hash = ''0xaa'', en_Height = height, en_Logs = [emit_log ex_icon_config ''evm'' 7 ''hello''],
     en_Progress = ''''\<rparr>"

definition ex_progress :: "nat \<Rightarrow> event_notification" where
  "ex_progress q = \<lparr>en_Hash = '''', en_Height = '''', en_Logs = [], en_Progress = NewHexInt (word_of_nat q)\<rparr>"

definition ex_events :: "nat \<Rightarrow> event_notification list" where
  "ex_events h = (if h = 100 then [ex_event ''0x64''] else if h = 130 then [ex_event ''0x82''] else [])"

definition ex_dial :: "nat \<Rightarrow> event_notification list \<Rightarrow> ws_end \<Rightarrow> hexint \<Rightarrow> error + event_notification ws_conn" where
  "ex_dial h vs fin req = (if req = NewHexInt (word_of_nat h) then Inr \<lparr>wc_LocalAddr = ''127.0.0.1:9'', wc_Write = None,
     wc_Response = Inr (0, ''''), wc_Frames = vs, wc_End = fin\<rparr> else Inl ''no route to host'')"

definition ex_dials :: "(hexint \<Rightarrow> error + event_notification ws_conn) list" where
  "ex_dials = [\<lambda>req. Inl ''connection refused'',
     ex_dial 90 [ex_event ''0x64'', ex_progress 120, ex_event ''0x82''] (ReadFailed ''unexpected EOF''),
     ex_dial 120 [ex_event ''0x82'', ex_progress 145] (ConnClosed 1000 ''websocket: close 1000'')]"

lemma NewHexInt_nat_inj:
  assumes "NewHexInt (word_of_nat a) = NewHexInt (word_of_nat b)" "a < 2 ^ 63" "b < 2 ^ 63"
  shows "a = b"
proof -
  have "HexInt_Value (NewHexInt (word_of_nat a)) = HexInt_Value (NewHexInt (word_of_nat b))" using assms(1) by simp
  then have "(word_of_nat a :: i64) = word_of_nat b" by (simp only: HexInt_Value_New result.inject signed_word_eqI)
  then have "unat (word_of_nat a :: i64) = unat (word_of_nat b :: i64)" by simp
  with assms(2,3) show ?thesis by (simp add: unat_of_nat)
qed

lemma ex_dial_serves:
  assumes "frames_ok ex_events h vs" "h < 2 ^ 63"
  shows "node_serves ex_events (ex_dial h vs fin)"
  using assms by (auto simp: node_serves_def ex_dial_def dest: NewHexInt_nat_inj split: if_splits)

lemma frames_ok_snoc:
  "frames_ok evs h [] = True"
  "frames_ok evs h (vs @ [v]) = (frames_ok evs h vs \<and> (is_event v \<or> progress_ok evs h vs v))"
proof -
  have "vs @ [v] = us @ w # ws \<longleftrightarrow> ws = [] \<and> us = vs \<and> w = v \<or> (\<exists>ws'. ws = ws' @ [v] \<and> vs = us @ w # ws')" for us w ws
    by (cases ws rule: rev_cases) auto
  note snoc = this
  show "frames_ok evs h (vs @ [v]) = (frames_ok evs h vs \<and> (is_event v \<or> progress_ok evs h vs v))"
    unfolding frames_ok_def snoc by auto
qed (simp add: frames_ok_def)

theorem icon_monitor_loses_nothing_witness:
  "\<exists>conns bs. icon_reconnects ex_icon_config ex_dials [] (NewHexInt (word_of_nat 90), []) =
      Ok (conns, (NewHexInt (word_of_nat 145), bs)) \<and>
    subseq (stream_blocks ex_icon_config [ex_event ''0x64'', ex_event ''0x82'']) bs"
proof -
  let ?r = "icon_reconnects ex_icon_config ex_dials [] (NewHexInt (word_of_nat 90), [])"
  have ev: "is_event (ex_event h)" "\<not> is_event (ex_progress q)" for h q
    by (simp_all add: is_event_def ex_event_def ex_progress_def NewHexInt_def)
  have st: "event_stream ex_events 90 120 = [ex_event ''0x64'']" "event_stream ex_events 120 145 = [ex_event ''0x82'']"
    "event_stream ex_events 90 145 = [ex_event ''0x64'', ex_event ''0x82'']" by code_simp+
  have "progress_ok ex_events 90 [ex_event ''0x64''] (ex_progress 120)"
    unfolding progress_ok_def by (rule exI [of _ 120]) (simp add: st ev ex_progress_def)
  then have "frames_ok ex_events 90 (([] @ [ex_event ''0x64'']) @ [ex_progress 120] @ [ex_event ''0x82''])"
    unfolding append_assoc [symmetric] frames_ok_snoc by (simp add: ev)
  then have f1: "frames_ok ex_events 90 [ex_event ''0x64'', ex_progress 120, ex_event ''0x82'']" by simp
  have "progress_ok ex_events 120 [ex_event ''0x82''] (ex_progress 145)"
    unfolding progress_ok_def by (rule exI [of _ 145]) (simp add: st ev ex_progress_def)
  then have "frames_ok ex_events 120 (([] @ [ex_event ''0x82'']) @ [ex_progress 145])"
    unfolding frames_ok_snoc by (simp add: ev)
  then have f2: "frames_ok ex_events 120 [ex_event ''0x82'', ex_progress 145]" by simp
  have served: "\<forall>dial \<in> set ex_dials. node_serves ex_events dial"
    using ex_dial_serves [OF f1] ex_dial_serves [OF f2] by (simp add: ex_dials_def node_serves_def)
  have "(case ?r of Ok (conns, (req, bs)) \<Rightarrow> req = NewHexInt (word_of_nat 145) | _ \<Rightarrow> False)" by code_simp
  then obtain conns bs where r: "?r = Ok (conns, (NewHexInt (word_of_nat 145), bs))" by (auto split: result.splits)
  from icon_monitor_loses_nothing [OF served _ r] obtain h where
    h: "NewHexInt (word_of_nat 145) = NewHexInt (word_of_nat h)" "h < 2 ^ 63" "subseq (stream_blocks ex_icon_config (event_stream ex_events 90 h)) bs"
    by auto
  from NewHexInt_nat_inj [OF h(1)] h(2) have "h = 145" by simp
  with h(3) r show ?thesis by (simp add: st)
qed

end
