(* ===== verification/Icon_Options.thy ===== *)
theory Icon_Options
  imports Go_Files
begin

text \<open>
  \<^verbatim>\<open>IconOptions\<close> of \<^verbatim>\<open>relayer/chains/icon/client.go\<close>: the options the client sends in a header, and their
  text form. A nil map is \<open>None\<close>. Shown is that the text form is read back.
\<close>

type_synonym icon_options = "(string \<times> string) list option"

definition HeaderKeyIconOptions :: string where "HeaderKeyIconOptions = ''Icon-Options''"
definition IconOptionsDebug :: string where "IconOptionsDebug = ''debug''"
definition IconOptionsTimeout :: string where "IconOptionsTimeout = ''timeout''"

fun IconOptions_Set :: "string \<Rightarrow> string \<Rightarrow> icon_options \<Rightarrow> icon_options result" where
  "IconOptions_Set key v None = Panic ''assignment to entry in nil map''"
| "IconOptions_Set key v (Some m) = Ok (Some (AList.update key v m))"

definition IconOptions_Get :: "string \<Rightarrow> icon_options \<Rightarrow> string" where
  "IconOptions_Get key opts = (case Option.bind opts (\<lambda>m. map_of m key) of None \<Rightarrow> '''' | Some v \<Rightarrow> v)"

definition IconOptions_Del :: "string \<Rightarrow> icon_options \<Rightarrow> icon_options" where
  "IconOptions_Del key opts = map_option (AList.delete key) opts"

text \<open>\<^verbatim>\<open>strconv.FormatBool\<close> and \<^verbatim>\<open>strconv.ParseBool\<close>.\<close>

definition FormatBool :: "bool \<Rightarrow> string" where
  "FormatBool b = (if b then ''true'' else ''false'')"

definition ParseBool :: "string \<Rightarrow> bool result" where
  "ParseBool s =
     (if s \<in> {''1'', ''t'', ''T'', ''TRUE'', ''true'', ''True''} then Ok True
      else if s \<in> {''0'', ''f'', ''F'', ''FALSE'', ''false'', ''False''} then Ok False
      else Err ''invalid syntax'')"

definition IconOptions_SetBool :: "string \<Rightarrow> bool \<Rightarrow> icon_options \<Rightarrow> icon_options result" where
  "IconOptions_SetBool key v opts = IconOptions_Set key (FormatBool v) opts"

definition IconOptions_GetBool :: "string \<Rightarrow> icon_options \<Rightarrow> bool result" where
  "IconOptions_GetBool key opts = ParseBool (IconOptions_Get key opts)"

definition IconOptions_SetInt :: "string \<Rightarrow> i64 \<Rightarrow> icon_options \<Rightarrow> icon_options result" where
  "IconOptions_SetInt key v opts = IconOptions_Set key (int_str 10 (sint v)) opts"

definition IconOptions_GetInt :: "string \<Rightarrow> icon_options \<Rightarrow> int result" where
  "IconOptions_GetInt key opts = ParseInt (IconOptions_Get key opts) 10 64"

definition ToHeaderValue :: "icon_options \<Rightarrow> string" where
  "ToHeaderValue opts = (case opts of
      None \<Rightarrow> '''' | Some m \<Rightarrow> Join (map (\<lambda>(k, v). k @ ''='' @ v) m) '','')"

definition header_entry :: "string \<Rightarrow> (string \<times> string) list \<Rightarrow> (string \<times> string) list" where
  "header_entry kv m =
     (if kv = '''' then m
      else let key = takeWhile (\<lambda>c. c \<noteq> CHR ''='') kv in
        if key \<noteq> kv \<and> key \<noteq> '''' then AList.update key (drop (length key + 1) kv) m
        else AList.update kv '''' m)"

definition NewIconOptionsByHeader :: "string \<Rightarrow> icon_options" where
  "NewIconOptionsByHeader s =
     (if s \<noteq> '''' then Some (fold header_entry (Split s (CHR '','')) []) else None)"

text \<open>\<^verbatim>\<open>strings.Replace\<close> of the first occurrence, for a text that is not empty.\<close>

fun Replace_first :: "string \<Rightarrow> string \<Rightarrow> string \<Rightarrow> string" where
  "Replace_first old new [] = []"
| "Replace_first old new (c # cs) =
     (if HasPrefix (c # cs) old then new @ drop (length old) (c # cs) else c # Replace_first old new cs)"

definition guessDebugEndpoint :: "string \<Rightarrow> string" where
  "guessDebugEndpoint endpoint = Replace_first ''v3'' ''v3d'' endpoint"

text \<open>The options of a new client.\<close>

definition client_options :: icon_options where
  "client_options = Some [(IconOptionsTimeout, ''10s''), (IconOptionsDebug, ''true'')]"

section \<open>Reading back\<close>

definition option_ok :: "string \<times> string \<Rightarrow> bool" where
  "option_ok kv = (fst kv \<noteq> '''' \<and> CHR ''='' \<notin> set (fst kv) \<and> CHR '','' \<notin> set (fst kv) \<and> CHR '','' \<notin> set (snd kv))"

lemma Split_Join:
  "xs \<noteq> [] \<Longrightarrow> \<forall>x \<in> set xs. c \<notin> set x \<Longrightarrow> Split (Join xs [c]) c = xs"
proof (induction xs)
  case (Cons x xs)
  show ?case
  proof (cases xs)
    case Nil
    with Cons.prems show ?thesis by (simp add: Split_single)
  next
    case (Cons y ys)
    then have "Split (Join (x # xs) [c]) c = Split x c @ Split (Join xs [c]) c"
      using Split_append [of x c "Join xs [c]"] by simp
    with Cons Cons.IH Cons.prems show ?thesis by (simp add: Split_single)
  qed
qed simp

lemma header_entry_option:
  assumes "option_ok (k, v)"
  shows "header_entry (k @ ''='' @ v) m = AList.update k v m"
proof -
  have "CHR ''='' \<notin> set k" using assms by (simp add: option_ok_def)
  then have "takeWhile (\<lambda>c. c \<noteq> CHR ''='') (k @ ''='' @ v) = k"
    by (induction k) auto
  with assms show ?thesis by (simp add: header_entry_def option_ok_def)
qed

lemma update_new: "k \<notin> fst ` set m \<Longrightarrow> AList.update k v m = m @ [(k, v)]"
  by (induction m) auto

lemma fold_entries:
  "list_all option_ok m \<Longrightarrow> distinct (map fst (m0 @ m)) \<Longrightarrow>
     fold header_entry (map (\<lambda>(k, v). k @ ''='' @ v) m) m0 = m0 @ m"
proof (induction m arbitrary: m0)
  case (Cons kv m)
  obtain k v where kv: "kv = (k, v)" by (cases kv)
  with Cons.prems have "header_entry (k @ ''='' @ v) m0 = m0 @ [(k, v)]"
    using header_entry_option [of k v m0] update_new [of k m0 v] by simp
  with Cons kv show ?case by simp
qed simp

lemma options_roundtrip:
  assumes "m \<noteq> []" "list_all option_ok m" "distinct (map fst m)"
  shows "NewIconOptionsByHeader (ToHeaderValue (Some m)) = Some m"
proof -
  let ?xs = "map (\<lambda>(k, v). k @ ''='' @ v) m"
  have s: "Split (Join ?xs '','') (CHR '','') = ?xs"
    using assms(1,2) by (intro Split_Join) (auto simp: list_all_iff option_ok_def)
  then have "Join ?xs '','' \<noteq> ''''" using assms(1) by (cases m rule: remdups_adj.cases) auto
  with s fold_entries [of m "[]"] assms show ?thesis by (simp add: NewIconOptionsByHeader_def ToHeaderValue_def)
qed

lemma options_int_roundtrip:
  "IconOptions_SetInt key v opts = Ok opts' \<Longrightarrow> IconOptions_GetInt key opts' = Ok (sint v)"
  using sint_ge [of v] sint_lt [of v]
  by (cases opts) (auto simp: IconOptions_SetInt_def IconOptions_GetInt_def IconOptions_Get_def ParseInt_def update_conv')

lemma options_bool_roundtrip:
  "IconOptions_SetBool key b opts = Ok opts' \<Longrightarrow> IconOptions_GetBool key opts' = Ok b"
  by (cases opts; cases b) (auto simp: IconOptions_SetBool_def IconOptions_GetBool_def IconOptions_Get_def
      FormatBool_def ParseBool_def update_conv')

lemma Replace_first_at:
  "old \<noteq> [] \<Longrightarrow> (\<And>k. k < length p \<Longrightarrow> \<not> HasPrefix (drop k (p @ old @ q)) old) \<Longrightarrow>
     Replace_first old new (p @ old @ q) = p @ new @ q"
proof (induction p)
  case Nil
  then show ?case by (cases old) (auto simp: HasPrefix_def)
next
  case (Cons c p)
  have "\<not> HasPrefix (c # p @ old @ q) old" using Cons.prems(2) [of 0] by simp
  moreover have "Replace_first old new (p @ old @ q) = p @ new @ q"
  proof (rule Cons.IH [OF Cons.prems(1)])
    fix k assume "k < length p"
    then show "\<not> HasPrefix (drop k (p @ old @ q)) old" using Cons.prems(2) [of "Suc k"] by simp
  qed
  ultimately show ?case by simp
qed

lemma debug_endpoint:
  "guessDebugEndpoint ''https://ctz.solidwallet.io/api/v3/'' = ''https://ctz.solidwallet.io/api/v3d/''"
  by code_simp

lemma client_header: "NewIconOptionsByHeader (ToHeaderValue client_options) = client_options"
  unfolding client_options_def by (rule options_roundtrip) (auto simp: option_ok_def IconOptionsTimeout_def IconOptionsDebug_def)

end
