(* ===== verification/Go_Base64.thy ===== *)
theory Go_Base64
  imports Go_Strings
begin

text \<open>
  Go's \<^verbatim>\<open>encoding/base64\<close>, as far as the program uses it: the standard encoding with padding, and its
  decoder. The decoder skips line breaks, requires the padding and ignores the unused low bits of
  the last digit; the offset in its error text is left out.
\<close>

definition base64_char :: "nat \<Rightarrow> char" where
  "base64_char n =
     (if n < 26 then char_of (65 + n)
      else if n < 52 then char_of (71 + n)
      else if n < 62 then char_of (n - 4)
      else if n = 62 then CHR ''+'' else CHR 0x2F)"

definition base64_val :: "char \<Rightarrow> nat option" where
  "base64_val c = (let n = of_char c in
     if 65 \<le> n \<and> n \<le> 90 then Some (n - 65)
     else if 97 \<le> n \<and> n \<le> 122 then Some (n - 71)
     else if 48 \<le> n \<and> n \<le> 57 then Some (n + 4)
     else if n = 43 then Some 62 else if n = 47 then Some 63 else None)"

fun base64_EncodeToString :: "bytes \<Rightarrow> string" where
  "base64_EncodeToString [] = []"
| "base64_EncodeToString [a] =
     [base64_char (of_char a div 4), base64_char (of_char a mod 4 * 16), CHR ''='', CHR ''='']"
| "base64_EncodeToString [a, b] =
     [base64_char (of_char a div 4), base64_char (of_char a mod 4 * 16 + of_char b div 16),
      base64_char (of_char b mod 16 * 4), CHR ''='']"
| "base64_EncodeToString (a # b # c # bs) =
     base64_char (of_char a div 4) # base64_char (of_char a mod 4 * 16 + of_char b div 16) #
     base64_char (of_char b mod 16 * 4 + of_char c div 64) # base64_char (of_char c mod 64) #
     base64_EncodeToString bs"

definition base64_corrupt :: error where
  "base64_corrupt = ''illegal base64 data at input byte''"

fun base64_quanta :: "string \<Rightarrow> bytes result" where
  "base64_quanta [] = Ok []"
| "base64_quanta (a # b # c # d # cs) =
     (case (base64_val a, base64_val b) of
        (Some x, Some y) \<Rightarrow>
          if c = CHR ''='' then
            (if d = CHR ''='' \<and> cs = [] then Ok [char_of (x * 4 + y div 16)] else Err base64_corrupt)
          else (case base64_val c of
              None \<Rightarrow> Err base64_corrupt
            | Some z \<Rightarrow>
               if d = CHR ''='' then
                 (if cs = [] then Ok [char_of (x * 4 + y div 16), char_of (y mod 16 * 16 + z div 4)]
                  else Err base64_corrupt)
               else (case base64_val d of
                   None \<Rightarrow> Err base64_corrupt
                 | Some w \<Rightarrow> rmap (\<lambda>bs. char_of (x * 4 + y div 16) # char_of (y mod 16 * 16 + z div 4) #
                     char_of (z mod 4 * 64 + w) # bs) (base64_quanta cs)))
      | _ \<Rightarrow> Err base64_corrupt)"
| "base64_quanta cs = Err base64_corrupt"

definition base64_DecodeString :: "string \<Rightarrow> bytes result" where
  "base64_DecodeString s = base64_quanta (filter (\<lambda>c. c \<noteq> CHR 0x0A \<and> c \<noteq> CHR 0x0D) s)"

section \<open>The round trip\<close>

lemma base64_val_char: "n < 64 \<Longrightarrow> base64_val (base64_char n) = Some n"
  by (auto simp: base64_val_def base64_char_def Let_def)

lemma of_char_base64: "n < 64 \<Longrightarrow> (of_char (base64_char n) :: nat) \<notin> {61, 10, 13}"
  by (auto simp: base64_char_def)

lemma base64_char_plain: "n < 64 \<Longrightarrow> base64_char n \<notin> {CHR ''='', CHR 0x0A, CHR 0x0D}"
  using of_char_base64 [of n] by auto

lemma byte_parts:
  fixes x y z :: nat
  assumes "x < 256" "y < 256" "z < 256"
  shows "x div 4 < 64" "x mod 4 * 16 < 64" "x mod 4 * 16 + y div 16 < 64" "y mod 16 * 4 < 64"
    "y mod 16 * 4 + z div 64 < 64" "z mod 64 < 64"
proof -
  have "x mod 4 < 4" "y mod 16 < 16" "y div 16 < 16" "z div 64 < 4" "z mod 64 < 64" "x div 4 < 64"
    using assms by (simp_all add: less_mult_imp_div_less)
  then show "x div 4 < 64" "x mod 4 * 16 < 64" "x mod 4 * 16 + y div 16 < 64" "y mod 16 * 4 < 64"
    "y mod 16 * 4 + z div 64 < 64" "z mod 64 < 64" by linarith+
qed

lemma byte_join:
  fixes x y z :: nat
  assumes "y < 256" "z < 256"
  shows "x div 4 * 4 + (x mod 4 * 16 + y div 16) div 16 = x"
    "(x mod 4 * 16 + y div 16) mod 16 * 16 + (y mod 16 * 4 + z div 64) div 4 = y"
    "(y mod 16 * 4 + z div 64) mod 4 * 64 + z mod 64 = z"
proof -
  have "y div 16 < 16" "z div 64 < 4" using assms by (simp_all add: less_mult_imp_div_less)
  then show "x div 4 * 4 + (x mod 4 * 16 + y div 16) div 16 = x"
    "(x mod 4 * 16 + y div 16) mod 16 * 16 + (y mod 16 * 4 + z div 64) div 4 = y"
    "(y mod 16 * 4 + z div 64) mod 4 * 64 + z mod 64 = z" by simp_all
qed

lemma of_char_less: "(of_char c :: nat) < 256"
  by simp

lemma base64_Encode_plain: "c \<in> set (base64_EncodeToString bs) \<Longrightarrow> c \<noteq> CHR 0x0A \<and> c \<noteq> CHR 0x0D"
proof (induction bs rule: base64_EncodeToString.induct)
  case (2 a)
  then show ?case using byte_parts(1,2) [OF of_char_less [of a] of_char_less of_char_less] base64_char_plain by auto
next
  case (3 a b)
  then show ?case
    using byte_parts(1,3,4) [OF of_char_less [of a] of_char_less [of b] of_char_less] base64_char_plain by auto
next
  case (4 a b d bs)
  then show ?case
    using byte_parts(1,3,5,6) [OF of_char_less [of a] of_char_less [of b] of_char_less [of d]] base64_char_plain by auto
qed simp

lemma base64_quanta_Encode: "base64_quanta (base64_EncodeToString bs) = Ok bs"
proof (induction bs rule: base64_EncodeToString.induct)
  case (2 a)
  have "of_char a div 4 < (64::nat)" "of_char a mod 4 * 16 < (64::nat)"
    using byte_parts(1,2) [OF of_char_less [of a] of_char_less of_char_less] by blast+
  then show ?case by (simp add: base64_val_char)
next
  case (3 a b)
  note p = byte_parts(1,3,4) [OF of_char_less [of a] of_char_less [of b] of_char_less]
    byte_join(1,2) [of "of_char b" 0 "of_char a"]
  have "base64_char (of_char b mod 16 * 4) \<noteq> CHR ''=''" using base64_char_plain [OF p(3)] by simp
  then show ?case using p by (simp add: base64_val_char)
next
  case (4 a b c bs)
  note p = byte_parts(1,3,5,6) [OF of_char_less [of a] of_char_less [of b] of_char_less [of c]]
    byte_join(1,2) [of "of_char b" "of_char c" "of_char a"] byte_join(3) [of "of_char b" "of_char c"]
  have q: "(of_char b :: nat) div 16 mod 16 = of_char b div 16" "(of_char b :: nat) div 16 div 16 = 0"
    using of_char_less [of b] by (simp_all add: less_mult_imp_div_less)
  have "base64_char (of_char b mod 16 * 4 + of_char c div 64) \<noteq> CHR ''=''" "base64_char (of_char c mod 64) \<noteq> CHR ''=''"
    using base64_char_plain [OF p(3)] base64_char_plain [OF p(4)] by simp_all
  then show ?case using p 4 by (simp add: base64_val_char q)
qed simp

lemma base64_roundtrip [simp]: "base64_DecodeString (base64_EncodeToString bs) = Ok bs"
proof -
  have "filter (\<lambda>c. c \<noteq> CHR 0x0A \<and> c \<noteq> CHR 0x0D) (base64_EncodeToString bs) = base64_EncodeToString bs"
    using base64_Encode_plain by (intro filter_True) blast
  then show ?thesis by (simp add: base64_DecodeString_def base64_quanta_Encode)
qed

end
