(* ===== verification/Icon_Client.thy ===== *)
theory Icon_Client
  imports Icon_Monitor Icon_Options Go_Base64
begin

text \<open>
  The calls of \<^verbatim>\<open>relayer/chains/icon/client.go\<close>: the methods and parameters the client sends to the node,
  and the client the provider is given, over a node that answers JSON-RPC requests. The node, the
  decoding of its answers, serializing, hashing and signing are parameters. Shown is what the provider
  sees of them: which answers a wait goes on for, and what it ends with.
\<close>

section \<open>The node\<close>

datatype rpc_error = JsonrpcError int error | TransportError error

fun rpc_error_text :: "rpc_error \<Rightarrow> error" where
  "rpc_error_text (JsonrpcError code e) = e"
| "rpc_error_text (TransportError e) = e"

text \<open>What is put into a transaction before it is signed and sent.\<close>

record signed_param =
  sg_Tx :: tx_param
  sg_Timestamp :: hexint
  sg_Signature :: string

datatype rpc_param =
    SignedParam signed_param
  | TxParam tx_param hexint
  | TransactionHashParam hexbytes
  | BlockHeightParam hexint
  | DataHashParam hexbytes
  | ProofResultParam hexbytes hexint
  | ProofEventsParam hexbytes hexint "hexint list"
  | AddressParam address
  | CallDataParam call_param
  | NoParam

record icon_block =
  ib_Height :: i64
  ib_TxHashes :: "hexbytes list"

record network_info =
  ni_Platform :: string
  ni_NetworkID :: hexint
  ni_Channel :: string
  ni_Height :: hexint

text \<open>The node answers with a value \<^typ>\<open>'j\<close>; \<^verbatim>\<open>nd_Unmarshal\<dots>\<close> decode it for the type of a result.\<close>

record 'j icon_node =
  nd_Do :: "string \<Rightarrow> string \<Rightarrow> rpc_param \<Rightarrow> rpc_error + 'j"
  nd_Endpoint :: string
  nd_HexBytes :: "'j \<Rightarrow> error + hexbytes"
  nd_HexInt :: "'j \<Rightarrow> error + hexint"
  nd_Bytes :: "'j \<Rightarrow> error + bytes"
  nd_Proof :: "'j \<Rightarrow> error + bytes list"
  nd_Proofs :: "'j \<Rightarrow> error + bytes list list"
  nd_Result :: "'j \<Rightarrow> error + icon_result"
  nd_Block :: "'j \<Rightarrow> error + icon_block"
  nd_Info :: "'j \<Rightarrow> error + network_info"

definition DoURL :: "'j icon_node \<Rightarrow> ('j \<Rightarrow> error + 'a) \<Rightarrow> string \<Rightarrow> string \<Rightarrow> rpc_param \<Rightarrow> rpc_error + 'a" where
  "DoURL nd decode url method p = (case nd_Do nd url method p of
      Inl e \<Rightarrow> Inl e | Inr j \<Rightarrow> map_sum TransportError id (decode j))"

definition Do :: "'j icon_node \<Rightarrow> ('j \<Rightarrow> error + 'a) \<Rightarrow> string \<Rightarrow> rpc_param \<Rightarrow> rpc_error + 'a" where
  "Do nd decode method p = DoURL nd decode (nd_Endpoint nd) method p"

section \<open>The calls\<close>

definition IconClient_SendTransaction :: "'j icon_node \<Rightarrow> signed_param \<Rightarrow> rpc_error + hexbytes" where
  "IconClient_SendTransaction nd p = Do nd (nd_HexBytes nd) ''icx_sendTransaction'' (SignedParam p)"

definition IconClient_SendTransactionAndWait :: "'j icon_node \<Rightarrow> signed_param \<Rightarrow> rpc_error + hexbytes" where
  "IconClient_SendTransactionAndWait nd p = Do nd (nd_HexBytes nd) ''icx_sendTransactionAndWait'' (SignedParam p)"

definition IconClient_GetTransactionResult :: "'j icon_node \<Rightarrow> hexbytes \<Rightarrow> rpc_error + icon_result" where
  "IconClient_GetTransactionResult nd hash = Do nd (nd_Result nd) ''icx_getTransactionResult'' (TransactionHashParam hash)"

definition IconClient_WaitTransactionResult :: "'j icon_node \<Rightarrow> hexbytes \<Rightarrow> rpc_error + icon_result" where
  "IconClient_WaitTransactionResult nd hash = Do nd (nd_Result nd) ''icx_waitTransactionResult'' (TransactionHashParam hash)"

definition IconClient_Call :: "'j icon_node \<Rightarrow> ('j \<Rightarrow> error + 'a) \<Rightarrow> call_param \<Rightarrow> rpc_error + 'a" where
  "IconClient_Call nd decode p = Do nd decode ''icx_call'' (CallDataParam p)"

definition IconClient_GetLastBlock :: "'j icon_node \<Rightarrow> rpc_error + icon_block" where
  "IconClient_GetLastBlock nd = Do nd (nd_Block nd) ''icx_getLastBlock'' NoParam"

definition IconClient_GetBlockByHeight :: "'j icon_node \<Rightarrow> hexint \<Rightarrow> rpc_error + icon_block" where
  "IconClient_GetBlockByHeight nd height = Do nd (nd_Block nd) ''icx_getBlockByHeight'' (BlockHeightParam height)"

definition IconClient_GetBlockHeaderBytesByHeight :: "'j icon_node \<Rightarrow> hexint \<Rightarrow> rpc_error + bytes" where
  "IconClient_GetBlockHeaderBytesByHeight nd height = Do nd (nd_Bytes nd) ''icx_getBlockHeaderByHeight'' (BlockHeightParam height)"

definition IconClient_GetDataByHash :: "'j icon_node \<Rightarrow> hexbytes \<Rightarrow> rpc_error + bytes" where
  "IconClient_GetDataByHash nd hash = Do nd (nd_Bytes nd) ''icx_getDataByHash'' (DataHashParam hash)"

definition IconClient_GetProofForResult :: "'j icon_node \<Rightarrow> hexbytes \<Rightarrow> hexint \<Rightarrow> rpc_error + bytes list" where
  "IconClient_GetProofForResult nd hash idx = Do nd (nd_Proof nd) ''icx_getProofForResult'' (ProofResultParam hash idx)"

definition IconClient_GetProofForEvents :: "'j icon_node \<Rightarrow> hexbytes \<Rightarrow> hexint \<Rightarrow> hexint list \<Rightarrow> rpc_error + bytes list list" where
  "IconClient_GetProofForEvents nd hash idx events =
     Do nd (nd_Proofs nd) ''icx_getProofForEvents'' (ProofEventsParam hash idx events)"

definition IconClient_getBalance :: "'j icon_node \<Rightarrow> address \<Rightarrow> rpc_error + hexint" where
  "IconClient_getBalance nd addr = Do nd (nd_HexInt nd) ''icx_getBalance'' (AddressParam addr)"

definition IconClient_GetNetworkInfo :: "'j icon_node \<Rightarrow> rpc_error + network_info" where
  "IconClient_GetNetworkInfo nd = Do nd (nd_Info nd) ''icx_getNetworkInfo'' NoParam"

text \<open>
  \<^verbatim>\<open>GetBlockHeaderByHeight\<close>; \<open>rlp\<close> is the decoder of \<^verbatim>\<open>codec.RLP\<close>. Heights are sent as hexadecimal numbers.
\<close>

definition IconClient_GetBlockHeaderByHeight ::
    "'j icon_node \<Rightarrow> (bytes \<Rightarrow> error + 'h) \<Rightarrow> i64 \<Rightarrow> rpc_error + 'h" where
  "IconClient_GetBlockHeaderByHeight nd rlp height =
     (case IconClient_GetBlockHeaderBytesByHeight nd (NewHexInt height) of
        Inl e \<Rightarrow> Inl e | Inr b \<Rightarrow> map_sum TransportError id (rlp b))"

text \<open>\<open>now\<close> is \<^verbatim>\<open>UnixNano\<close>; \<^verbatim>\<open>time.Hour.Microseconds()\<close> is 3600000000.\<close>

definition IconClient_EstimateStep :: "'j icon_node \<Rightarrow> string \<Rightarrow> i64 \<Rightarrow> tx_param \<Rightarrow> rpc_error + hexint" where
  "IconClient_EstimateStep nd debugEndPoint now p =
     (if debugEndPoint = '''' then Inl (TransportError ''UnavailableDebugEndPoint'')
      else DoURL nd (nd_HexInt nd) debugEndPoint ''debug_estimateStep'' (TxParam p (NewHexInt (word_of_int (sint now sdiv 3600000000)))))"

section \<open>Signing\<close>

record icon_signer =
  sn_Serialize :: "tx_param \<Rightarrow> hexint \<Rightarrow> error + bytes"
  sn_SHA3 :: "bytes \<Rightarrow> bytes"
  sn_Sign :: "bytes \<Rightarrow> error + bytes"

definition IconClient_SignTransaction :: "icon_signer \<Rightarrow> i64 \<Rightarrow> tx_param \<Rightarrow> error + signed_param" where
  "IconClient_SignTransaction w now p =
     (let timestamp = NewHexInt (word_of_int (sint now sdiv 1000)) in
      case sn_Serialize w p timestamp of
        Inl e \<Rightarrow> Inl e
      | Inr bs \<Rightarrow>
         let txHash = sn_SHA3 w (''icx_sendTransaction.'' @ bs);
             p1 = p\<lparr>tp_TxHash := NewHexBytes txHash\<rparr>
         in map_sum id (\<lambda>sig. \<lparr>sg_Tx = p1, sg_Timestamp = timestamp, sg_Signature = base64_EncodeToString sig\<rparr>) (sn_Sign w txHash))"

text \<open>The signature reaches the node: its text decodes to what the wallet signed the hash with.\<close>

lemma signature_travels:
  assumes "IconClient_SignTransaction w now p = Inr s"
  shows "\<exists>hash sig. tp_TxHash (sg_Tx s) = NewHexBytes hash \<and> sn_Sign w hash = Inr sig \<and>
    base64_DecodeString (sg_Signature s) = Ok sig"
  using assms by (auto simp: IconClient_SignTransaction_def Let_def map_sum_def split: sum.splits)

section \<open>The client the provider is given\<close>

text \<open>
  The codes \<^verbatim>\<open>WaitForResults\<close> goes on for, of goloop's \<^verbatim>\<open>jsonrpc\<close>, are \<open>unfinished\<close>. The node may answer every
  poll differently: \<open>nds n\<close> is the node at the \<open>n\<close>-th poll of a transaction. The provider hands the parameter it signed to \<^verbatim>\<open>SendTransaction\<close>; here the
  signature, which its record does not have, is made again from the parameter.
\<close>

fun poll_answer :: "int list \<Rightarrow> rpc_error + icon_result \<Rightarrow> icon_answer" where
  "poll_answer unfinished (Inl (JsonrpcError code e)) = (if code \<in> set unfinished then Unfinished e else RpcError e)"
| "poll_answer unfinished (Inl (TransportError e)) = RpcError e"
| "poll_answer unfinished (Inr r) = TxResult r"

definition icon_client_of ::
    "(nat \<Rightarrow> 'j icon_node) \<Rightarrow> icon_signer \<Rightarrow> i64 \<Rightarrow> int list \<Rightarrow> hexint \<Rightarrow> error + bytes \<Rightarrow> icon_client" where
  "icon_client_of nds w now unfinished networkID keystore =
     (let nd = nds 0; text = map_sum rpc_error_text id in
      \<lparr>ic_GetLastBlock = map_sum rpc_error_text ib_Height (IconClient_GetLastBlock nd),
       ic_GetBlockByHeight = (\<lambda>h. map_sum rpc_error_text ib_TxHashes (IconClient_GetBlockByHeight nd h)),
       ic_GetTransactionResult = (\<lambda>hash n. Ticked (poll_answer unfinished (IconClient_GetTransactionResult (nds n) hash))),
       ic_EstimateStep = (\<lambda>p. text (IconClient_EstimateStep nd (guessDebugEndpoint (nd_Endpoint nd)) now p)),
       ic_SignTransaction = (\<lambda>p. map_sum id (\<lambda>s. tp_TxHash (sg_Tx s)) (IconClient_SignTransaction w now p)),
       ic_SendTransaction = (\<lambda>p. case IconClient_SignTransaction w now (p\<lparr>tp_TxHash := ''''\<rparr>) of
           Inl e \<Rightarrow> Inl e | Inr s \<Rightarrow> text (IconClient_SendTransaction nd s)),
       ic_Call = (\<lambda>p. text (IconClient_Call nd (nd_HexInt nd) p)),
       ic_getBalance = (\<lambda>addr. text (IconClient_getBalance nd addr)),
       ic_networkID = networkID, ic_RestoreKeystore = keystore\<rparr>)"

lemma icon_client_of_polls:
  "ic_GetTransactionResult (icon_client_of nds w now unfinished networkID keystore) hash n =
     Ticked (poll_answer unfinished (IconClient_GetTransactionResult (nds n) hash))"
  by (simp add: icon_client_of_def Let_def)

text \<open>A transaction the node does not know yet, or has not finished, is asked for again; the first other answer ends the wait.\<close>

definition unfinished_at :: "int list \<Rightarrow> (nat \<Rightarrow> 'j icon_node) \<Rightarrow> hexbytes \<Rightarrow> nat \<Rightarrow> bool" where
  "unfinished_at unfinished nds hash n = (case IconClient_GetTransactionResult (nds n) hash of
      Inl (JsonrpcError code e) \<Rightarrow> code \<in> set unfinished | _ \<Rightarrow> False)"

lemma wait_goes_on:
  assumes "unfinished_at unfinished nds hash n" "n < unat MaxTxRetry"
  shows "Icon_WaitForResults_loop (ic_GetTransactionResult (icon_client_of nds w now unfinished networkID keystore) hash) hash n =
    Icon_WaitForResults_loop (ic_GetTransactionResult (icon_client_of nds w now unfinished networkID keystore) hash) hash (Suc n)"
  using assms by (subst Icon_WaitForResults_loop.simps)
    (auto simp: icon_client_of_polls unfinished_at_def split: sum.splits rpc_error.splits)

lemma wait_for_result:
  assumes "\<And>i. i < k \<Longrightarrow> unfinished_at unfinished nds hash i" "k < unat MaxTxRetry"
    and "IconClient_GetTransactionResult (nds k) hash = Inr r"
  shows "Icon_WaitForResults (icon_client_of nds w now unfinished networkID keystore) hash = Ok r"
proof -
  let ?q = "ic_GetTransactionResult (icon_client_of nds w now unfinished networkID keystore) hash"
  have "Icon_WaitForResults_loop ?q hash n = Ok r" if "n \<le> k" for n
    using that
  proof (induction "k - n" arbitrary: n)
    case 0
    then have "n = k" by simp
    with assms(2,3) show ?case by (subst Icon_WaitForResults_loop.simps) (simp add: icon_client_of_polls)
  next
    case (Suc d)
    then have n: "n < k" by simp
    have "Icon_WaitForResults_loop ?q hash (Suc n) = Ok r" using Suc by simp
    then show ?case using wait_goes_on [OF assms(1) [OF n]] n assms(2) by simp
  qed
  then show ?thesis by (simp add: Icon_WaitForResults_def)
qed

text \<open>The hash the provider waits for is the hash of what was signed.\<close>

lemma sent_is_signed:
  assumes "ic_SignTransaction (icon_client_of nds w now unfinished networkID keystore) p = Inr hash"
    and "tp_TxHash p = ''''"
  shows "\<exists>s. tp_TxHash (sg_Tx s) = hash \<and> sg_Tx s = p\<lparr>tp_TxHash := hash\<rparr> \<and>
    ic_SendTransaction (icon_client_of nds w now unfinished networkID keystore) (p\<lparr>tp_TxHash := hash\<rparr>) =
      map_sum rpc_error_text id (IconClient_SendTransaction (nds 0) s)"
proof -
  obtain s where s: "IconClient_SignTransaction w now p = Inr s" "tp_TxHash (sg_Tx s) = hash"
    using assms(1) by (auto simp: icon_client_of_def map_sum_def Let_def split: sum.splits)
  moreover have "p\<lparr>tp_TxHash := ''''\<rparr> = p" using assms(2) by (cases p) simp
  moreover have "sg_Tx s = p\<lparr>tp_TxHash := hash\<rparr>"
    using s by (auto simp: IconClient_SignTransaction_def Let_def map_sum_def split: sum.splits)
  ultimately show ?thesis by (intro exI [of _ s]) (simp add: icon_client_of_def Let_def)
qed

end
