(* ===== verification/Icon_Utils.thy ===== *)
theory Icon_Utils
  imports Icon Go_Base64
begin

text \<open>
  \<^verbatim>\<open>relayer/chains/icon/utils.go\<close>: recognizing hexadecimal text, checking a Merkle proof of a receipt and
  decoding encoded data; and the data of the JSON-RPC interface that only the client's wrappers carry.
  goloop's trie over an empty database (\<open>prove\<close>) and its RLP codec (\<open>marshal\<close>, \<open>unmarshal\<close>) are parameters.
\<close>

section \<open>utils.go\<close>

definition isHexString :: "string \<Rightarrow> bool" where
  "isHexString s0 = (let s = ToLower s0 in
     HasPrefix s ''0x'' \<and>
     list_all (\<lambda>c. let n = (of_char c :: nat) in 48 \<le> n \<and> n \<le> 57 \<or> 97 \<le> n \<and> n \<le> 102) (drop 2 s))"

text \<open>\<open>prove root key proofs\<close> is \<^verbatim>\<open>Prove\<close> of a new trie with the root hash \<open>root\<close>.\<close>

definition MptProve ::
    "(int \<Rightarrow> bytes result) \<Rightarrow> (bytes \<Rightarrow> bytes \<Rightarrow> bytes list \<Rightarrow> bytes result)
     \<Rightarrow> hexint \<Rightarrow> bytes list \<Rightarrow> bytes \<Rightarrow> bytes result" where
  "MptProve marshal prove key proofs hash =
     rbind (HexInt_Value key) (\<lambda>index.
       rbind (marshal index) (\<lambda>indexKey. prove hash indexKey proofs))"

text \<open>The bytes that are left over after the value, and the value.\<close>

definition Base64ToData :: "(bytes \<Rightarrow> (bytes \<times> 'v) result) \<Rightarrow> string \<Rightarrow> (bytes \<times> 'v) result" where
  "Base64ToData unmarshal encoded =
     (if encoded = '''' then Err ''Encoded string is empty ''
      else rbind (base64_DecodeString encoded) unmarshal)"

section \<open>Data of the JSON-RPC interface\<close>

text \<open>
  The structs of \<^verbatim>\<open>types.go\<close> that no other theory needs: what the node decodes from RLP (a block's header,
  the roots in its result, a receipt), requests of the websocket, and its answer. A pointer to an
  optional text is an option.
\<close>

record block_header =
  bh_Version :: int
  bh_Height :: i64
  bh_Timestamp :: i64
  bh_Proposer :: bytes
  bh_PrevID :: bytes
  bh_VotesHash :: bytes
  bh_NextValidatorsHash :: bytes
  bh_PatchTransactionsHash :: bytes
  bh_NormalTransactionsHash :: bytes
  bh_LogsBloom :: bytes
  bh_Result :: bytes
  bh_NSFilter :: bytes

record block_header_result =
  br_StateHash :: bytes
  br_PatchReceiptHash :: bytes
  br_ReceiptHash :: bytes
  br_ExtensionData :: bytes

record tx_result =
  xr_Status :: i64
  xr_To :: bytes
  xr_CumulativeStepUsed :: bytes
  xr_StepUsed :: bytes
  xr_StepPrice :: bytes
  xr_LogsBloom :: bytes
  xr_EventLogs :: "raw_log list"
  xr_ScoreAddress :: bytes
  xr_EventLogsHash :: bytes
  xr_TxIndex :: hexint
  xr_BlockHeight :: hexint

record event_filter =
  ef_Addr :: address
  ef_Signature :: string
  ef_Indexed :: "string option list"
  ef_Data :: "string option list"

record block_request =
  bq_Height :: hexint
  bq_EventFilters :: "event_filter list"

record event_request =
  eq_EventFilter :: "event_filter list"
  eq_Height :: hexint
  eq_Logs :: hexint
  eq_ProgressInterval :: hexint

record ws_response =
  ws_Code :: int
  ws_Message :: string

record send_message =
  sm_TargetNetwork :: string
  sm_Svc :: string
  sm_Sn :: u64
  sm_Msg :: hexbytes
  sm_Data :: hexbytes

definition CallParam_Type :: "call_param \<Rightarrow> string" where
  "CallParam_Type c = cp_DataType c"

definition CallParam_MsgBytes :: "call_param \<Rightarrow> bytes result" where
  "CallParam_MsgBytes c = Ok ''''"

definition IconMessage_Type :: "icon_message \<Rightarrow> string" where
  "IconMessage_Type m = im_Method m"

definition IconMessage_MsgBytes :: "(icon_params \<Rightarrow> bytes result) \<Rightarrow> icon_message \<Rightarrow> bytes result" where
  "IconMessage_MsgBytes marshal m = marshal (im_Params m)"

definition HexBytes_String :: "hexbytes \<Rightarrow> string" where
  "HexBytes_String hs = hs"

text \<open>The request of the listener for events from a height on, with its filters and the logs themselves.\<close>

definition Icon_eventReq :: "icon_config \<Rightarrow> i64 \<Rightarrow> event_request" where
  "Icon_eventReq p processedheight =
     \<lparr>eq_EventFilter = map (\<lambda>(addr, sig). \<lparr>ef_Addr = addr, ef_Signature = sig, ef_Indexed = [], ef_Data = []\<rparr>)
        (Icon_GetMonitorEventFilters p),
      eq_Height = NewHexInt processedheight, eq_Logs = NewHexInt 1, eq_ProgressInterval = NewHexInt 25\<rparr>"

section \<open>Lemmas\<close>

text \<open>The node reads the height the listener means, and gets a filter for every contract and event.\<close>

lemma eventReq_height: "HexInt_Value (eq_Height (Icon_eventReq p h)) = Ok (sint h)"
  by (simp add: Icon_eventReq_def)

lemma eventReq_filters:
  "(\<lambda>ef. (ef_Addr ef, ef_Signature ef)) ` set (eq_EventFilter (Icon_eventReq p h)) = set (Icon_GetMonitorEventFilters p)"
  by (force simp: Icon_eventReq_def)

text \<open>What \<open>digit_val\<close> takes is a digit; the texts of the ICON client are hexadecimal.\<close>

lemma hex_digit_lower:
  "(let n = (of_char (lower_char c) :: nat) in 48 \<le> n \<and> n \<le> 57 \<or> 97 \<le> n \<and> n \<le> 102) = (\<exists>d < 16. digit_val c = Some d)"
  by (auto simp: lower_char_def digit_val_def Let_def)

lemma isHexString_iff:
  "isHexString s = (HasPrefix (ToLower s) ''0x'' \<and> list_all (\<lambda>c. \<exists>d < 16. digit_val c = Some d) (drop 2 s))"
  by (simp add: isHexString_def ToLower_def drop_map list_all_iff hex_digit_lower)

lemma hex_digits: "list_all (\<lambda>c. \<exists>d < 16. digit_val c = Some d) (hex_EncodeToString b)"
proof (induction b)
  case (Cons c b)
  have "of_char c div 16 < (16 :: nat)" "of_char c mod 16 < (16 :: nat)" by (simp_all add: less_mult_imp_div_less)
  then show ?case using Cons by auto
qed simp

lemma isHexString_HexBytes: "isHexString (NewHexBytes b)"
  using hex_digits [of b] by (simp add: isHexString_iff NewHexBytes_def ToLower_def HasPrefix_def lower_char_def)

text \<open>A hexadecimal text of an even number of digits has a value as bytes; of an odd number, it has none.\<close>

lemma hex_Decode_digits:
  "list_all (\<lambda>c. \<exists>d < 16. digit_val c = Some d) s \<Longrightarrow> is_ok (hex_DecodeString s) = even (length s)"
  by (induction s rule: hex_DecodeString.induct) (auto simp: is_ok_iff rmap_eq_Ok)

lemma isHexString_value:
  assumes "isHexString s"
  shows "is_ok (HexBytes_Value s) = even (length s)"
proof -
  have "2 \<le> length s"
    using assms by (auto simp: isHexString_def Let_def ToLower_def HasPrefix_def dest: arg_cong [of _ _ length])
  moreover have "list_all (\<lambda>c. \<exists>d < 16. digit_val c = Some d) (drop 2 s)" using assms by (simp add: isHexString_iff)
  ultimately show ?thesis
    using hex_Decode_digits [of "drop 2 s"] by (auto simp: HexBytes_Value_def is_ok_iff)
qed

lemma Base64ToData_encoded:
  assumes "b \<noteq> []"
  shows "Base64ToData unmarshal (base64_EncodeToString b) = unmarshal b"
proof -
  have "base64_EncodeToString b \<noteq> ''''" using assms by (cases b rule: base64_EncodeToString.cases) auto
  then show ?thesis by (simp add: Base64ToData_def)
qed

end
