(* ===== verification/Evm_Client.thy ===== *)
theory Evm_Client
  imports Evm_Listen
begin

text \<open>
  \<^verbatim>\<open>relayer/chains/evm/client.go\<close>: the client the provider is given, over go-ethereum's client, one for
  the RPC and one for the websocket endpoint, and the generated contract bindings.
\<close>

section \<open>The libraries\<close>

text \<open>An \<^verbatim>\<open>ethclient.Client\<close>, and the bindings of the connection and the xcall contract.\<close>

record eth_client =
  eth_BlockNumber :: "error + u64"
  eth_HeaderByNumber :: "u64 \<Rightarrow> error option"
  eth_FilterLogs :: "filter_query \<Rightarrow> nat \<Rightarrow> error + elog list"
  eth_SuggestGasPrice :: "error + int"
  eth_SuggestGasTipCap :: "error + int"
  eth_PendingNonceAt :: "string \<Rightarrow> error + u64"
  eth_TransactionReceipt :: "string \<Rightarrow> nat \<Rightarrow> receipt_answer"
  eth_EstimateGas :: "call_msg \<Rightarrow> error + u64"
  eth_CallContract :: "call_msg \<Rightarrow> error + bytes"
  eth_BalanceAt :: "string \<Rightarrow> error + int"
  eth_SendTransaction :: "bytes \<Rightarrow> error option"
  eth_SubscribeFilterLogs :: "filter_query \<Rightarrow> error option"
  eth_ChainID :: "error + int"

record connection_binding =
  cb_ParseMessage :: "elog \<Rightarrow> error + (string \<times> int \<times> bytes)"
  cb_SendMessage :: "string \<Rightarrow> string \<Rightarrow> wireint \<Rightarrow> bytes \<Rightarrow> error + string"
  cb_RecvMessage :: "string \<Rightarrow> wireint \<Rightarrow> bytes \<Rightarrow> error + string"
  cb_GetReceipt :: "string \<Rightarrow> wireint \<Rightarrow> error + bool"
  cb_SetAdmin :: "string \<Rightarrow> error + string"
  cb_RevertMessage :: "wireint \<Rightarrow> error + string"
  cb_GetFee :: "string \<Rightarrow> bool \<Rightarrow> error + int"
  cb_SetFee :: "string \<Rightarrow> wireint \<Rightarrow> wireint \<Rightarrow> error + string"
  cb_ClaimFees :: "error + string"

record xcall_binding =
  xb_ParseCallMessage :: "elog \<Rightarrow> error + (int \<times> int \<times> bytes)"
  xb_ParseRollbackMessage :: "elog \<Rightarrow> error + int"
  xb_ExecuteCall :: "wireint \<Rightarrow> bytes \<Rightarrow> error + string"
  xb_ExecuteRollback :: "wireint \<Rightarrow> error + string"

record evm_rpc =
  er_eth :: eth_client
  er_ethRpc :: eth_client
  er_EVMChainID :: int
  er_connection :: connection_binding
  er_xcall :: xcall_binding

text \<open>\<^verbatim>\<open>newClient\<close>; \<^verbatim>\<open>Reconnect\<close> calls it again with the same addresses.\<close>

definition newEvmClient ::
    "error + eth_client \<Rightarrow> error + eth_client \<Rightarrow> error + connection_binding \<Rightarrow> error + xcall_binding \<Rightarrow> error + evm_rpc" where
  "newEvmClient dialRpc dialWs connection xcall =
     (case dialRpc of Inl e \<Rightarrow> Inl e | Inr rpc \<Rightarrow>
      case dialWs of Inl e \<Rightarrow> Inl e | Inr ws \<Rightarrow>
      case connection of Inl e \<Rightarrow> Inl (''error occured when creating connection cobtract: '' @ e @ '' '') | Inr conn \<Rightarrow>
      case xcall of Inl e \<Rightarrow> Inl (''error occured when creating eth client: '' @ e @ '' '') | Inr xc \<Rightarrow>
      map_sum id (\<lambda>chain. \<lparr>er_eth = ws, er_ethRpc = rpc, er_EVMChainID = chain, er_connection = conn, er_xcall = xc\<rparr>)
        (eth_ChainID ws))"

section \<open>The calls\<close>

definition EvmClient_PendingNonceAt :: "evm_rpc \<Rightarrow> string \<Rightarrow> error + int" where
  "EvmClient_PendingNonceAt c account = map_sum id uint (eth_PendingNonceAt (er_eth c) account)"

definition EvmClient_TransactionReceipt :: "evm_rpc \<Rightarrow> string \<Rightarrow> nat \<Rightarrow> receipt_answer" where
  "EvmClient_TransactionReceipt c txHash = eth_TransactionReceipt (er_eth c) txHash"

definition EvmClient_CallContract :: "evm_rpc \<Rightarrow> call_msg \<Rightarrow> error + bytes" where
  "EvmClient_CallContract c msg = eth_CallContract (er_eth c) msg"

text \<open>\<^verbatim>\<open>common.IsHexAddress\<close>: twenty bytes in hexadecimal, with or without prefix.\<close>

definition is_hex_digit :: "char \<Rightarrow> bool" where
  "is_hex_digit c = (c \<in> set ''0123456789abcdefABCDEF'')"

definition IsHexAddress :: "string \<Rightarrow> bool" where
  "IsHexAddress s =
     (let digits = (if HasPrefix s ''0x'' \<or> HasPrefix s ''0X'' then drop 2 s else s)
      in length digits = 40 \<and> list_all is_hex_digit digits)"

definition EvmClient_GetBalance :: "evm_rpc \<Rightarrow> (string \<Rightarrow> string) \<Rightarrow> string \<Rightarrow> error + int" where
  "EvmClient_GetBalance c HexToAddress hexAddr =
     (if \<not> IsHexAddress hexAddr then Inl (''invalid hex address: '' @ hexAddr)
      else eth_BalanceAt (er_eth c) (HexToAddress hexAddr))"

text \<open>Logs are asked for over the RPC endpoint, everything else over the websocket.\<close>

definition EvmClient_FilterLogs :: "evm_rpc \<Rightarrow> filter_query \<Rightarrow> nat \<Rightarrow> error + elog list" where
  "EvmClient_FilterLogs c q = eth_FilterLogs (er_ethRpc c) q"

definition EvmClient_GetBlockNumber :: "evm_rpc \<Rightarrow> error + u64" where
  "EvmClient_GetBlockNumber c = eth_BlockNumber (er_eth c)"

definition EvmClient_SuggestGasPrice :: "evm_rpc \<Rightarrow> error + int" where
  "EvmClient_SuggestGasPrice c = eth_SuggestGasPrice (er_eth c)"

definition EvmClient_SuggestGasTip :: "evm_rpc \<Rightarrow> error + int" where
  "EvmClient_SuggestGasTip c = eth_SuggestGasTipCap (er_eth c)"

definition EvmClient_GetHeaderByHeight :: "evm_rpc \<Rightarrow> u64 \<Rightarrow> error option" where
  "EvmClient_GetHeaderByHeight c height = eth_HeaderByNumber (er_eth c) height"

definition EvmClient_GetChainID :: "evm_rpc \<Rightarrow> int" where
  "EvmClient_GetChainID c = er_EVMChainID c"

definition EvmClient_ParseConnectionMessage :: "evm_rpc \<Rightarrow> elog \<Rightarrow> error + (string \<times> int \<times> bytes)" where
  "EvmClient_ParseConnectionMessage c log = cb_ParseMessage (er_connection c) log"

definition EvmClient_SendMessage :: "evm_rpc \<Rightarrow> string \<Rightarrow> string \<Rightarrow> wireint \<Rightarrow> bytes \<Rightarrow> error + string" where
  "EvmClient_SendMessage c to svc sn msg = cb_SendMessage (er_connection c) to svc sn msg"

definition EvmClient_ReceiveMessage :: "evm_rpc \<Rightarrow> string \<Rightarrow> wireint \<Rightarrow> bytes \<Rightarrow> error + string" where
  "EvmClient_ReceiveMessage c srcNID sn msg = cb_RecvMessage (er_connection c) srcNID sn msg"

definition EvmClient_SendTransaction :: "evm_rpc \<Rightarrow> bytes \<Rightarrow> error option" where
  "EvmClient_SendTransaction c tx = eth_SendTransaction (er_eth c) tx"

definition EvmClient_MessageReceived :: "evm_rpc \<Rightarrow> string \<Rightarrow> wireint \<Rightarrow> error + bool" where
  "EvmClient_MessageReceived c srcNetwork sn = cb_GetReceipt (er_connection c) srcNetwork sn"

definition EvmClient_SetAdmin :: "evm_rpc \<Rightarrow> string \<Rightarrow> error + string" where
  "EvmClient_SetAdmin c newAdmin = cb_SetAdmin (er_connection c) newAdmin"

definition EvmClient_RevertMessage :: "evm_rpc \<Rightarrow> wireint \<Rightarrow> error + string" where
  "EvmClient_RevertMessage c sn = cb_RevertMessage (er_connection c) sn"

definition EvmClient_ParseCallMessage :: "evm_rpc \<Rightarrow> elog \<Rightarrow> error + (int \<times> int \<times> bytes)" where
  "EvmClient_ParseCallMessage c log = xb_ParseCallMessage (er_xcall c) log"

definition EvmClient_ParseRollbackMessage :: "evm_rpc \<Rightarrow> elog \<Rightarrow> error + int" where
  "EvmClient_ParseRollbackMessage c log = xb_ParseRollbackMessage (er_xcall c) log"

definition EvmClient_ExecuteCall :: "evm_rpc \<Rightarrow> wireint \<Rightarrow> bytes \<Rightarrow> error + string" where
  "EvmClient_ExecuteCall c reqID data = xb_ExecuteCall (er_xcall c) reqID data"

definition EvmClient_EstimateGas :: "evm_rpc \<Rightarrow> call_msg \<Rightarrow> error + u64" where
  "EvmClient_EstimateGas c msg = eth_EstimateGas (er_eth c) msg"

definition EvmClient_GetFee :: "evm_rpc \<Rightarrow> string \<Rightarrow> error + int" where
  "EvmClient_GetFee c networkID = cb_GetFee (er_connection c) networkID True"

definition EvmClient_SetFee :: "evm_rpc \<Rightarrow> string \<Rightarrow> wireint \<Rightarrow> wireint \<Rightarrow> error + string" where
  "EvmClient_SetFee c src msg res = cb_SetFee (er_connection c) src msg res"

definition EvmClient_ClaimFee :: "evm_rpc \<Rightarrow> error + string" where
  "EvmClient_ClaimFee c = cb_ClaimFees (er_connection c)"

definition EvmClient_ExecuteRollback :: "evm_rpc \<Rightarrow> wireint \<Rightarrow> error + string" where
  "EvmClient_ExecuteRollback c sn = xb_ExecuteRollback (er_xcall c) sn"

definition EvmClient_Subscribe :: "evm_rpc \<Rightarrow> filter_query \<Rightarrow> error option" where
  "EvmClient_Subscribe c q = eth_SubscribeFilterLogs (er_eth c) q"

section \<open>The client of the provider\<close>

fun EvmClient_transact :: "evm_rpc \<Rightarrow> evm_call \<Rightarrow> error + string" where
  "EvmClient_transact c (ReceiveMessageCall src sn msg) = EvmClient_ReceiveMessage c src sn msg"
| "EvmClient_transact c (ExecuteCallCall reqID data) = EvmClient_ExecuteCall c reqID data"
| "EvmClient_transact c (SetAdminCall admin) = EvmClient_SetAdmin c admin"
| "EvmClient_transact c (RevertMessageCall sn) = EvmClient_RevertMessage c sn"
| "EvmClient_transact c ClaimFeeCall = EvmClient_ClaimFee c"
| "EvmClient_transact c (SetFeeCall src msg res) = EvmClient_SetFee c src msg res"
| "EvmClient_transact c (ExecuteRollbackCall sn) = EvmClient_ExecuteRollback c sn"

text \<open>The keystore and the ABI functions of the provider are not part of the client: they are kept from \<open>base\<close>.\<close>

definition evm_client_of :: "evm_rpc \<Rightarrow> evm_client \<Rightarrow> evm_client" where
  "evm_client_of c base = base
     \<lparr>cl_GetBlockNumber := EvmClient_GetBlockNumber c, cl_GetHeaderByHeight := EvmClient_GetHeaderByHeight c,
      cl_FilterLogs := EvmClient_FilterLogs c, cl_SuggestGasPrice := EvmClient_SuggestGasPrice c,
      cl_SuggestGasTip := EvmClient_SuggestGasTip c, cl_PendingNonceAt := EvmClient_PendingNonceAt c,
      cl_TransactionReceipt := (\<lambda>hash n. Tick (EvmClient_TransactionReceipt c hash n)),
      cl_EstimateGas := EvmClient_EstimateGas c, cl_transact := EvmClient_transact c,
      cl_MessageReceived := EvmClient_MessageReceived c, cl_GetFee := EvmClient_GetFee c,
      cl_GetBalance := EvmClient_GetBalance c (cl_HexToAddress base),
      cl_ParseConnectionMessage := EvmClient_ParseConnectionMessage c, cl_ParseCallMessage := EvmClient_ParseCallMessage c,
      cl_ParseRollbackMessage := EvmClient_ParseRollbackMessage c\<rparr>"

text \<open>
  The listener of a provider over this client, when the RPC endpoint answers every range within five
  attempts: it delivers all heights up to the one the websocket endpoint reports.
\<close>

lemma listener_over_endpoints:
  assumes "eth_BlockNumber (er_eth c) = Inr latest" "start \<noteq> 0"
    and "0 < ec_BlockBatchSize p" "unat latest + unat (ec_BlockBatchSize p) < 2 ^ 64"
    and "\<And>a b. a \<le> b \<Longrightarrow> answered (eth_FilterLogs (er_ethRpc c) (range_query (evm_client_of c base) p a b))
      (concat (map logs_at [unat a..<Suc (unat b)]))"
  shows "Evm_Listener_sync (evm_client_of c base) p start = Some (start,
    concat (map (\<lambda>h. delivered (evm_client_of c base) p (logs_at h)) [unat start..<Suc (unat latest)]))"
proof -
  have f: "cl_GetBlockNumber (evm_client_of c base) = Inr latest"
    "cl_FilterLogs (evm_client_of c base) = eth_FilterLogs (er_ethRpc c)"
    using assms(1) by (simp_all add: evm_client_of_def EvmClient_GetBlockNumber_def EvmClient_FilterLogs_def fun_eq_iff)
  show ?thesis using sync_batches [of "evm_client_of c base" p logs_at] block_reqs_covers [OF assms(3,4), of start]
      assms(2,5) f by (force simp: Evm_Listener_sync_def)
qed

text \<open>A pending nonce is a 64-bit number; the balance of a text that is no address is not asked for.\<close>

lemma pending_nonce_bounds: "EvmClient_PendingNonceAt c account = Inr n \<Longrightarrow> 0 \<le> n \<and> n < 2 ^ 64"
  using uint_bounded [where 'a = 64] by (auto simp: EvmClient_PendingNonceAt_def map_sum_def split: sum.splits)

lemma IsHexAddress_length: "IsHexAddress s \<Longrightarrow> length s \<in> {40, 42}"
  by (auto simp: IsHexAddress_def Let_def split: if_splits)

section \<open>Transfers\<close>

text \<open>
  \<^verbatim>\<open>transferBalance\<close> of \<^verbatim>\<open>provider.go\<close>, which nothing calls. \<open>key\<close> is \<^verbatim>\<open>crypto.HexToECDSA\<close> with the address of the
  key, \<open>sign\<close> signs for a chain and returns the transaction with its hash.
\<close>

record transfer =
  tf_nonce :: u64
  tf_to :: string
  tf_amount :: int
  tf_gas :: u64
  tf_gasPrice :: int

definition transferBalance ::
    "evm_rpc \<Rightarrow> (string \<Rightarrow> error + string) \<Rightarrow> (string \<Rightarrow> string) \<Rightarrow> (int \<Rightarrow> transfer \<Rightarrow> error + (bytes \<times> string))
     \<Rightarrow> string \<Rightarrow> string \<Rightarrow> int \<Rightarrow> error + string" where
  "transferBalance c key HexToAddress sign senderKey recepientAddress amount =
     (case key senderKey of Inl e \<Rightarrow> Inl e | Inr fromAddress \<Rightarrow>
      case EvmClient_PendingNonceAt c fromAddress of Inl e \<Rightarrow> Inl (''PendingNonceAt : '' @ e) | Inr nonce \<Rightarrow>
      case EvmClient_SuggestGasPrice c of Inl e \<Rightarrow> Inl (''SuggestGasPrice : '' @ e) | Inr gasPrice \<Rightarrow>
      case sign (EvmClient_GetChainID c) \<lparr>tf_nonce = word_of_int nonce, tf_to = HexToAddress recepientAddress,
          tf_amount = amount, tf_gas = 30000000, tf_gasPrice = gasPrice\<rparr> of
        Inl e \<Rightarrow> Inl (''SignTx : '' @ e)
      | Inr (signedTx, hash) \<Rightarrow> (case EvmClient_SendTransaction c signedTx of
            Some e \<Rightarrow> Inl (''SendTransaction : '' @ e) | None \<Rightarrow> Inr hash))"

lemma transfer_uses_pending_nonce:
  assumes "transferBalance c key HexToAddress sign senderKey recepientAddress amount = Inr hash"
  shows "\<exists>from n gasPrice signedTx. key senderKey = Inr from \<and> eth_PendingNonceAt (er_eth c) from = Inr n \<and>
    sign (er_EVMChainID c) \<lparr>tf_nonce = n, tf_to = HexToAddress recepientAddress, tf_amount = amount,
      tf_gas = 30000000, tf_gasPrice = gasPrice\<rparr> = Inr (signedTx, hash) \<and> eth_SendTransaction (er_eth c) signedTx = None"
  using assms
  by (auto simp: transferBalance_def EvmClient_PendingNonceAt_def EvmClient_GetChainID_def EvmClient_SendTransaction_def
      map_sum_def split: sum.splits option.splits prod.splits) blast

end
