(* ===== verification/Evm_Abi.thy ===== *)
theory Evm_Abi
  imports Evm
begin

text \<open>
  \<^verbatim>\<open>relayer/chains/evm/abi\<close>: what the generated bindings of the two contracts are made from. The first part
  is the contracts' interface, which the files carry as one JSON text; \<open>ConnectionABI\<close> and \<open>XcallABI\<close> are the
  decoded texts, entry for entry. The second part is the code every binding repeats: a call with one
  answer, the decoding of an event, the iterator over filtered events and the loop that watches for new
  ones. go-ethereum's \<^verbatim>\<open>bind.BoundContract\<close> is third-party code: \<open>bound_contract\<close> is the record of its answers.
\<close>

section \<open>The interface of a contract\<close>

datatype abi_type = Uint256 | Int256 | Uint8 | AddressT | BoolT | StringT | BytesT | StringsT

datatype mutability = View | NonPayable | Payable

record abi_param =
  pr_name :: string
  pr_type :: abi_type
  pr_indexed :: bool

record abi_method =
  me_name :: string
  me_inputs :: "abi_param list"
  me_outputs :: "abi_param list"
  me_mutability :: mutability

record abi_event =
  ae_name :: string
  ae_inputs :: "abi_param list"

record abi =
  abi_methods :: "abi_method list"
  abi_events :: "abi_event list"

definition param :: "string \<Rightarrow> abi_type \<Rightarrow> abi_param" where
  "param name typ = \<lparr>pr_name = name, pr_type = typ, pr_indexed = False\<rparr>"

definition indexed :: "string \<Rightarrow> abi_type \<Rightarrow> abi_param" where
  "indexed name typ = \<lparr>pr_name = name, pr_type = typ, pr_indexed = True\<rparr>"

definition meth :: "string \<Rightarrow> abi_param list \<Rightarrow> abi_param list \<Rightarrow> mutability \<Rightarrow> abi_method" where
  "meth name inputs outputs mut = \<lparr>me_name = name, me_inputs = inputs, me_outputs = outputs, me_mutability = mut\<rparr>"

definition evt :: "string \<Rightarrow> abi_param list \<Rightarrow> abi_event" where
  "evt name inputs = \<lparr>ae_name = name, ae_inputs = inputs\<rparr>"

definition ConnectionABI :: abi where
  "ConnectionABI = \<lparr>
     abi_methods = [
       meth ''admin'' [] [param '''' AddressT] View,
       meth ''claimFees'' [] [] NonPayable,
       meth ''connSn'' [] [param '''' Uint256] View,
       meth ''getFee'' [param ''to'' StringT, param ''response'' BoolT] [param ''fee'' Uint256] View,
       meth ''getReceipt'' [param ''srcNetwork'' StringT, param ''_connSn'' Uint256] [param '''' BoolT] View,
       meth ''initialize'' [param ''_relayer'' AddressT, param ''_xCall'' AddressT] [] NonPayable,
       meth ''recvMessage'' [param ''srcNetwork'' StringT, param ''_connSn'' Uint256,
         param ''_msg'' BytesT] [] NonPayable,
       meth ''revertMessage'' [param ''sn'' Uint256] [] NonPayable,
       meth ''sendMessage'' [param ''to'' StringT, param ''svc'' StringT, param ''sn'' Int256,
         param ''_msg'' BytesT] [] Payable,
       meth ''setAdmin'' [param ''_address'' AddressT] [] NonPayable,
       meth ''setFee'' [param ''networkId'' StringT, param ''messageFee'' Uint256,
         param ''responseFee'' Uint256] [] NonPayable],
     abi_events = [
       evt ''Initialized'' [param ''version'' Uint8],
       evt ''Message'' [param ''targetNetwork'' StringT, param ''sn'' Uint256, param ''_msg'' BytesT]]\<rparr>"

definition XcallABI :: abi where
  "XcallABI = \<lparr>
     abi_methods = [
       meth ''admin'' [] [param '''' AddressT] View,
       meth ''executeCall'' [param ''_reqId'' Uint256, param ''_data'' BytesT] [] NonPayable,
       meth ''executeRollback'' [param ''_sn'' Uint256] [] NonPayable,
       meth ''getDefaultConnection'' [param ''_nid'' StringT] [param '''' AddressT] View,
       meth ''getFee'' [param ''_net'' StringT, param ''_rollback'' BoolT,
         param ''_sources'' StringsT] [param '''' Uint256] View,
       meth ''getFee'' [param ''_net'' StringT, param ''_rollback'' BoolT] [param '''' Uint256] View,
       meth ''getNetworkAddress'' [] [param '''' StringT] View,
       meth ''getNetworkId'' [] [param '''' StringT] View,
       meth ''getProtocolFee'' [] [param '''' Uint256] View,
       meth ''getProtocolFeeHandler'' [] [param '''' AddressT] View,
       meth ''handleBTPError'' [param ''_src'' StringT, param ''_svc'' StringT, param ''_sn'' Uint256,
         param ''_code'' Uint256, param ''_msg'' StringT] [] NonPayable,
       meth ''handleBTPMessage'' [param ''_from'' StringT, param ''_svc'' StringT, param ''_sn'' Uint256,
         param ''_msg'' BytesT] [] NonPayable,
       meth ''handleError'' [param ''_sn'' Uint256] [] NonPayable,
       meth ''handleMessage'' [param ''_from'' StringT, param ''_msg'' BytesT] [] NonPayable,
       meth ''initialize'' [param ''_nid'' StringT] [] NonPayable,
       meth ''sendCallMessage'' [param ''_to'' StringT, param ''_data'' BytesT,
         param ''_rollback'' BytesT] [param '''' Uint256] Payable,
       meth ''sendCallMessage'' [param ''_to'' StringT, param ''_data'' BytesT, param ''_rollback'' BytesT,
         param ''sources'' StringsT, param ''destinations'' StringsT] [param '''' Uint256] Payable,
       meth ''setAdmin'' [param ''_address'' AddressT] [] NonPayable,
       meth ''setDefaultConnection'' [param ''_nid'' StringT, param ''connection'' AddressT] [] NonPayable,
       meth ''setProtocolFee'' [param ''_value'' Uint256] [] NonPayable,
       meth ''setProtocolFeeHandler'' [param ''_addr'' AddressT] [] NonPayable,
       meth ''tryHandleCallMessage'' [param ''toAddr'' AddressT, param ''to'' StringT, param ''from'' StringT,
         param ''data'' BytesT, param ''protocols'' StringsT] [] NonPayable,
       meth ''verifySuccess'' [param ''_sn'' Uint256] [param '''' BoolT] View],
     abi_events = [
       evt ''CallExecuted'' [indexed ''_reqId'' Uint256, param ''_code'' Int256, param ''_msg'' StringT],
       evt ''CallMessage'' [indexed ''_from'' StringT, indexed ''_to'' StringT, indexed ''_sn'' Uint256,
         param ''_reqId'' Uint256, param ''_data'' BytesT],
       evt ''CallMessageSent'' [indexed ''_from'' AddressT, indexed ''_to'' StringT, indexed ''_sn'' Uint256],
       evt ''Initialized'' [param ''version'' Uint8],
       evt ''ResponseMessage'' [indexed ''_sn'' Uint256, param ''_code'' Int256],
       evt ''RollbackExecuted'' [indexed ''_sn'' Uint256],
       evt ''RollbackMessage'' [indexed ''_sn'' Uint256]]\<rparr>"

text \<open>The signature whose hash is the first topic of an event, or the selector of a method.\<close>

fun type_name :: "abi_type \<Rightarrow> string" where
  "type_name Uint256 = ''uint256''"
| "type_name Int256 = ''int256''"
| "type_name Uint8 = ''uint8''"
| "type_name AddressT = ''address''"
| "type_name BoolT = ''bool''"
| "type_name StringT = ''string''"
| "type_name BytesT = ''bytes''"
| "type_name StringsT = ''string[]''"

definition signature :: "string \<Rightarrow> abi_param list \<Rightarrow> string" where
  "signature name params = name @ ''('' @ Join (map (type_name \<circ> pr_type) params) '','' @ '')''"

definition event_signature :: "abi \<Rightarrow> string \<Rightarrow> string option" where
  "event_signature a name = map_option (\<lambda>e. signature name (ae_inputs e)) (find (\<lambda>e. ae_name e = name) (abi_events a))"

text \<open>
  The library files a method under its name; a name that is taken gets the first number that makes it
  new, starting with 0.
\<close>

definition resolve_name :: "string list \<Rightarrow> string \<Rightarrow> string" where
  "resolve_name used name =
     (if name \<notin> set used then name
      else hd (filter (\<lambda>n. n \<notin> set used) (map (\<lambda>i. name @ nat_str 10 i) [0..<Suc (length used)])))"

fun file_methods :: "abi_method list \<Rightarrow> (string \<times> abi_method) list \<Rightarrow> (string \<times> abi_method) list" where
  "file_methods [] ms = ms"
| "file_methods (m # rest) ms = file_methods rest (ms @ [(resolve_name (map fst ms) (me_name m), m)])"

definition abi_Methods :: "abi \<Rightarrow> (string \<times> abi_method) list" where
  "abi_Methods a = file_methods (abi_methods a) []"

section \<open>Values\<close>

text \<open>
  The Go values of the parameters. A big integer is a pointer that may be nil; an indexed string is
  only known by its hash.
\<close>

datatype abi_value =
    VBig wireint | VUint8 u8 | VAddress string | VBool bool | VString string | VBytes bytes
  | VStrings "string list" | VHash string

fun conforms :: "abi_type \<Rightarrow> abi_value \<Rightarrow> bool" where
  "conforms Uint256 (VBig _) = True"
| "conforms Int256 (VBig _) = True"
| "conforms Uint8 (VUint8 _) = True"
| "conforms AddressT (VAddress _) = True"
| "conforms BoolT (VBool _) = True"
| "conforms StringT (VString _) = True"
| "conforms BytesT (VBytes _) = True"
| "conforms StringsT (VStrings _) = True"
| "conforms _ _ = False"

text \<open>The library refuses to pack arguments that do not have the types of the method.\<close>

definition accepts :: "abi \<Rightarrow> string \<Rightarrow> abi_value list \<Rightarrow> bool" where
  "accepts a name args = (case map_of (abi_Methods a) name of
      None \<Rightarrow> False | Some m \<Rightarrow> list_all2 (\<lambda>p. conforms (pr_type p)) (me_inputs m) args)"

fun as_address :: "abi_value \<Rightarrow> string option" where
  "as_address (VAddress a) = Some a" | "as_address _ = None"

fun as_big :: "abi_value \<Rightarrow> int option" where
  "as_big (VBig n) = n" | "as_big _ = None"

fun as_bool :: "abi_value \<Rightarrow> bool option" where
  "as_bool (VBool b) = Some b" | "as_bool _ = None"

fun as_string :: "abi_value \<Rightarrow> string option" where
  "as_string (VString s) = Some s" | "as_string _ = None"

section \<open>A bound contract\<close>

text \<open>
  \<open>'o\<close> are the options of a call, which are passed on. \<^verbatim>\<open>Transact\<close> answers with the hash of the transaction.
  The logs of \<^verbatim>\<open>FilterLogs\<close> come through a channel next to the one of the subscription's end: \<open>fd_late\<close> are
  the logs still in the channel when the end is seen. \<open>bc_mismatch\<close> is the error of decoding values
  into a struct they do not fit.
\<close>

record log_feed =
  fd_logs :: "elog list"
  fd_late :: "elog list"
  fd_end :: "error option"

record 'o bound_contract =
  bc_Call :: "'o \<Rightarrow> string \<Rightarrow> abi_value list \<Rightarrow> error + abi_value list"
  bc_Transact :: "'o \<Rightarrow> string \<Rightarrow> abi_value list \<Rightarrow> error + string"
  bc_Transfer :: "'o \<Rightarrow> error + string"
  bc_FilterLogs :: "'o \<Rightarrow> string \<Rightarrow> abi_value list list \<Rightarrow> error + log_feed"
  bc_WatchLogs :: "'o \<Rightarrow> string \<Rightarrow> abi_value list list \<Rightarrow> error option"
  bc_UnpackLog :: "string \<Rightarrow> elog \<Rightarrow> error + abi_value list"
  bc_mismatch :: error

text \<open>A call with one answer: \<^verbatim>\<open>ConvertType\<close> panics when the answer has another type, the index when there is none.\<close>

definition call1 ::
    "(abi_value \<Rightarrow> 'a option) \<Rightarrow> 'o bound_contract \<Rightarrow> 'o \<Rightarrow> string \<Rightarrow> abi_value list \<Rightarrow> 'a result" where
  "call1 convert bc opts name params = (case bc_Call bc opts name params of
      Inl e \<Rightarrow> Err e
    | Inr out \<Rightarrow> rbind (index out 0) (\<lambda>v. case convert v of None \<Rightarrow> Panic ''interface conversion'' | Some x \<Rightarrow> Ok x))"

text \<open>
  A session is a contract with preset options; every method of a session is the method of the contract
  applied to them.
\<close>

record 'o session =
  ss_Contract :: "'o bound_contract"
  ss_CallOpts :: 'o
  ss_TransactOpts :: 'o

definition session_call :: "('o bound_contract \<Rightarrow> 'o \<Rightarrow> 'a) \<Rightarrow> 'o session \<Rightarrow> 'a" where
  "session_call f s = f (ss_Contract s) (ss_CallOpts s)"

definition session_transact :: "('o bound_contract \<Rightarrow> 'o \<Rightarrow> 'a) \<Rightarrow> 'o session \<Rightarrow> 'a" where
  "session_transact f s = f (ss_Contract s) (ss_TransactOpts s)"

text \<open>Binding a contract: the interface is parsed, the library makes the rest.\<close>

definition bind_contract :: "error + abi \<Rightarrow> (string \<Rightarrow> abi \<Rightarrow> 'o bound_contract) \<Rightarrow> string \<Rightarrow> error + 'o bound_contract" where
  "bind_contract parsed NewBoundContract address = map_sum id (NewBoundContract address) parsed"

section \<open>Events\<close>

record 'e event_binding =
  eb_name :: string
  eb_struct :: "abi_value list \<Rightarrow> elog \<Rightarrow> 'e option"

definition UnpackEvent :: "'o bound_contract \<Rightarrow> 'e event_binding \<Rightarrow> elog \<Rightarrow> error + 'e" where
  "UnpackEvent bc eb log = (case bc_UnpackLog bc (eb_name eb) log of
      Inl e \<Rightarrow> Inl e
    | Inr vs \<Rightarrow> (case eb_struct eb vs log of None \<Rightarrow> Inl (bc_mismatch bc) | Some e \<Rightarrow> Inr e))"

record 'e iterator =
  it_Event :: "'e option"
  it_feed :: log_feed
  it_done :: bool
  it_fail :: "error option"

definition new_iterator :: "log_feed \<Rightarrow> 'e iterator" where
  "new_iterator feed = \<lparr>it_Event = None, it_feed = feed, it_done = False, it_fail = None\<rparr>"

definition deliver :: "(elog \<Rightarrow> error + 'e) \<Rightarrow> elog \<Rightarrow> 'e iterator \<Rightarrow> bool \<times> 'e iterator" where
  "deliver unpack log it = (case unpack log of
      Inl err \<Rightarrow> (False, it\<lparr>it_fail := Some err\<rparr>)
    | Inr ev \<Rightarrow> (True, it\<lparr>it_Event := Some ev\<rparr>))"

text \<open>\<^verbatim>\<open>Next\<close>; the end of the subscription makes it call itself, once.\<close>

definition next_late :: "(elog \<Rightarrow> error + 'e) \<Rightarrow> 'e iterator \<Rightarrow> bool \<times> 'e iterator" where
  "next_late unpack it =
     (if it_fail it \<noteq> None then (False, it)
      else case fd_late (it_feed it) of
          [] \<Rightarrow> (False, it)
        | log # logs \<Rightarrow> deliver unpack log (it\<lparr>it_feed := (it_feed it)\<lparr>fd_late := logs\<rparr>\<rparr>))"

definition iterator_Next :: "(elog \<Rightarrow> error + 'e) \<Rightarrow> 'e iterator \<Rightarrow> bool \<times> 'e iterator" where
  "iterator_Next unpack it =
     (if it_fail it \<noteq> None then (False, it)
      else if it_done it then next_late unpack it
      else case fd_logs (it_feed it) of
          log # logs \<Rightarrow> deliver unpack log (it\<lparr>it_feed := (it_feed it)\<lparr>fd_logs := logs\<rparr>\<rparr>)
        | [] \<Rightarrow> next_late unpack (it\<lparr>it_done := True, it_fail := fd_end (it_feed it)\<rparr>))"

text \<open>
  The goroutine of \<^verbatim>\<open>Watch\<close>: it takes a log, decodes it and waits for the receiver, while further logs
  wait in the channel (\<open>queue\<close>). The end of the subscription and the receiver's quitting end it in both places.
\<close>

datatype watch_event = Arrives elog | Accepts | SubEnds "error option" | Quits

datatype watch_state = Watching | Returned "error option"

fun watch_loop :: "(elog \<Rightarrow> error + 'e) \<Rightarrow> 'e option \<Rightarrow> elog list \<Rightarrow> watch_event list \<Rightarrow> 'e list \<times> watch_state" where
  "watch_loop unpack pending queue [] = ([], Watching)"
| "watch_loop unpack pending queue (SubEnds e # evs) = ([], Returned e)"
| "watch_loop unpack pending queue (Quits # evs) = ([], Returned None)"
| "watch_loop unpack None queue (Arrives log # evs) = (case unpack log of
      Inl e \<Rightarrow> ([], Returned (Some e)) | Inr ev \<Rightarrow> watch_loop unpack (Some ev) queue evs)"
| "watch_loop unpack (Some ev) queue (Arrives log # evs) = watch_loop unpack (Some ev) (queue @ [log]) evs"
| "watch_loop unpack None queue (Accepts # evs) = watch_loop unpack None queue evs"
| "watch_loop unpack (Some ev) [] (Accepts # evs) =
     (let (sent, st) = watch_loop unpack None [] evs in (ev # sent, st))"
| "watch_loop unpack (Some ev) (log # queue) (Accepts # evs) = (case unpack log of
      Inl e \<Rightarrow> ([ev], Returned (Some e))
    | Inr ev' \<Rightarrow> let (sent, st) = watch_loop unpack (Some ev') queue evs in (ev # sent, st))"

definition watch_events ::
    "'o bound_contract \<Rightarrow> 'o \<Rightarrow> 'e event_binding \<Rightarrow> abi_value list list
     \<Rightarrow> error + (watch_event list \<Rightarrow> 'e list \<times> watch_state)" where
  "watch_events bc opts eb rules = (case bc_WatchLogs bc opts (eb_name eb) rules of
      Some e \<Rightarrow> Inl e | None \<Rightarrow> Inr (watch_loop (UnpackEvent bc eb) None []))"

section \<open>What a reader of events gets\<close>

fun iterator_events :: "(elog \<Rightarrow> error + 'e) \<Rightarrow> nat \<Rightarrow> 'e iterator \<Rightarrow> 'e list" where
  "iterator_events unpack 0 it = []"
| "iterator_events unpack (Suc n) it = (case iterator_Next unpack it of
      (False, it') \<Rightarrow> []
    | (True, it') \<Rightarrow> (case it_Event it' of None \<Rightarrow> [] | Some ev \<Rightarrow> ev # iterator_events unpack n it'))"

lemma iterator_late:
  assumes "it_done it" "it_fail it = None" "map unpack (fd_late (it_feed it)) = map Inr evs" "length evs \<le> n"
  shows "iterator_events unpack n it = evs"
  using assms
proof (induction evs arbitrary: it n)
  case Nil
  then show ?case by (cases n) (auto simp: iterator_Next_def next_late_def)
next
  case (Cons ev evs)
  then obtain log logs m where "fd_late (it_feed it) = log # logs" "unpack log = Inr ev" "n = Suc m"
    by (cases n) auto
  with Cons show ?case by (auto simp: iterator_Next_def next_late_def deliver_def)
qed

text \<open>
  The iterator gives the events of all logs in their order, those still in the channel at the end
  included, when the filter ends without an error and every log decodes.
\<close>

lemma iterator_gives_all:
  assumes "\<not> it_done it" "it_fail it = None" "fd_end (it_feed it) = None"
    and "map unpack (fd_logs (it_feed it) @ fd_late (it_feed it)) = map Inr evs" "length evs \<le> n"
  shows "iterator_events unpack n it = evs"
proof -
  have "iterator_events unpack n it = evs" if "fd_logs (it_feed it) = logs" "\<not> it_done it" "it_fail it = None"
      "fd_end (it_feed it) = None" "map unpack (logs @ fd_late (it_feed it)) = map Inr evs" "length evs \<le> n"
    for logs it evs n
    using that
  proof (induction logs arbitrary: it evs n)
    case Nil
    let ?it = "it\<lparr>it_done := True, it_fail := None\<rparr>"
    have "iterator_Next unpack it = iterator_Next unpack ?it" using Nil by (simp add: iterator_Next_def next_late_def)
    then have "iterator_events unpack n it = iterator_events unpack n ?it" by (cases n) simp_all
    also have "\<dots> = evs" using Nil by (intro iterator_late) auto
    finally show ?case .
  next
    case (Cons log logs)
    obtain ev evs' where e: "evs = ev # evs'" "unpack log = Inr ev" "map unpack (logs @ fd_late (it_feed it)) = map Inr evs'"
      using Cons.prems(5) by (cases evs) auto
    obtain m where n: "n = Suc m" "length evs' \<le> m" using Cons.prems(6) e(1) by (cases n) auto
    let ?it = "it\<lparr>it_feed := (it_feed it)\<lparr>fd_logs := logs\<rparr>, it_Event := Some ev\<rparr>"
    have "iterator_events unpack m ?it = evs'" using Cons.prems e(3) n(2) by (intro Cons.IH) simp_all
    moreover have "iterator_Next unpack it = (True, ?it)"
      using Cons.prems(1-3) e(2) by (simp add: iterator_Next_def deliver_def)
    ultimately show ?case by (simp add: n(1) e(1))
  qed
  with assms show ?thesis by blast
qed

text \<open>An error of the filter stops the iterator at once: the logs still in the channel are not given.\<close>

lemma iterator_error_drops_late:
  assumes "\<not> it_done it" "it_fail it = None" "fd_end (it_feed it) = Some e" "fd_logs (it_feed it) = []"
  shows "iterator_events unpack n it = [] \<and> it_fail (snd (iterator_Next unpack it)) = Some e"
  using assms by (cases n) (simp_all add: iterator_Next_def next_late_def)

text \<open>The watching loop sends the events of the logs in the order of their arrival.\<close>

definition arrivals :: "watch_event list \<Rightarrow> elog list" where
  "arrivals evs = concat (map (\<lambda>ev. case ev of Arrives log \<Rightarrow> [log] | _ \<Rightarrow> []) evs)"

lemma arrivals_simps [simp]:
  "arrivals [] = []" "arrivals (Arrives log # evs) = log # arrivals evs" "arrivals (Accepts # evs) = arrivals evs"
  "arrivals (SubEnds e # evs) = arrivals evs" "arrivals (Quits # evs) = arrivals evs"
  by (simp_all add: arrivals_def)

lemma watch_sends_in_order:
  assumes "\<And>log. log \<in> set (queue @ arrivals evs) \<Longrightarrow> unpack log = Inr (decoded log)" "pending = None \<longrightarrow> queue = []"
  shows "\<exists>k. fst (watch_loop unpack pending queue evs) =
    take k ((case pending of None \<Rightarrow> [] | Some ev \<Rightarrow> [ev]) @ map decoded (queue @ arrivals evs))"
  using assms
proof (induction unpack pending queue evs rule: watch_loop.induct)
  case (4 unpack queue log evs)
  then show ?case by (auto simp: take_Cons' intro: exI [of _ "Suc k" for k])
next
  case (5 unpack ev queue log evs)
  then show ?case by simp
next
  case (7 unpack ev evs)
  then obtain k where "fst (watch_loop unpack None [] evs) = take k (map decoded (arrivals evs))" by auto
  then show ?case by (auto split: prod.splits intro!: exI [of _ "Suc k"])
next
  case (8 unpack ev log queue evs)
  then obtain k where "fst (watch_loop unpack (Some (decoded log)) queue evs) =
      take k (decoded log # map decoded (queue @ arrivals evs))" by auto
  with 8 show ?case by (auto split: prod.splits intro!: exI [of _ "Suc k"])
qed (auto intro: exI [of _ 0])

section \<open>The interfaces\<close>

text \<open>The methods as the library files them; the two overloaded names get a number.\<close>

lemma Connection_methods: "abi_Methods ConnectionABI = [
     (''admin'', meth ''admin'' [] [param '''' AddressT] View),
     (''claimFees'', meth ''claimFees'' [] [] NonPayable),
     (''connSn'', meth ''connSn'' [] [param '''' Uint256] View),
     (''getFee'', meth ''getFee'' [param ''to'' StringT, param ''response'' BoolT] [param ''fee'' Uint256] View),
     (''getReceipt'', meth ''getReceipt'' [param ''srcNetwork'' StringT,
         param ''_connSn'' Uint256] [param '''' BoolT] View),
     (''initialize'', meth ''initialize'' [param ''_relayer'' AddressT, param ''_xCall'' AddressT] [] NonPayable),
     (''recvMessage'', meth ''recvMessage'' [param ''srcNetwork'' StringT, param ''_connSn'' Uint256,
         param ''_msg'' BytesT] [] NonPayable),
     (''revertMessage'', meth ''revertMessage'' [param ''sn'' Uint256] [] NonPayable),
     (''sendMessage'', meth ''sendMessage'' [param ''to'' StringT, param ''svc'' StringT, param ''sn'' Int256,
         param ''_msg'' BytesT] [] Payable),
     (''setAdmin'', meth ''setAdmin'' [param ''_address'' AddressT] [] NonPayable),
     (''setFee'', meth ''setFee'' [param ''networkId'' StringT, param ''messageFee'' Uint256,
         param ''responseFee'' Uint256] [] NonPayable)]"
  by code_simp

lemma Xcall_methods: "abi_Methods XcallABI = [
     (''admin'', meth ''admin'' [] [param '''' AddressT] View),
     (''executeCall'', meth ''executeCall'' [param ''_reqId'' Uint256, param ''_data'' BytesT] [] NonPayable),
     (''executeRollback'', meth ''executeRollback'' [param ''_sn'' Uint256] [] NonPayable),
     (''getDefaultConnection'', meth ''getDefaultConnection'' [param ''_nid'' StringT] [param '''' AddressT] View),
     (''getFee'', meth ''getFee'' [param ''_net'' StringT, param ''_rollback'' BoolT,
         param ''_sources'' StringsT] [param '''' Uint256] View),
     (''getFee0'', meth ''getFee'' [param ''_net'' StringT, param ''_rollback'' BoolT] [param '''' Uint256] View),
     (''getNetworkAddress'', meth ''getNetworkAddress'' [] [param '''' StringT] View),
     (''getNetworkId'', meth ''getNetworkId'' [] [param '''' StringT] View),
     (''getProtocolFee'', meth ''getProtocolFee'' [] [param '''' Uint256] View),
     (''getProtocolFeeHandler'', meth ''getProtocolFeeHandler'' [] [param '''' AddressT] View),
     (''handleBTPError'', meth ''handleBTPError'' [param ''_src'' StringT, param ''_svc'' StringT,
         param ''_sn'' Uint256, param ''_code'' Uint256, param ''_msg'' StringT] [] NonPayable),
     (''handleBTPMessage'', meth ''handleBTPMessage'' [param ''_from'' StringT, param ''_svc'' StringT,
         param ''_sn'' Uint256, param ''_msg'' BytesT] [] NonPayable),
     (''handleError'', meth ''handleError'' [param ''_sn'' Uint256] [] NonPayable),
     (''handleMessage'', meth ''handleMessage'' [param ''_from'' StringT, param ''_msg'' BytesT] [] NonPayable),
     (''initialize'', meth ''initialize'' [param ''_nid'' StringT] [] NonPayable),
     (''sendCallMessage'', meth ''sendCallMessage'' [param ''_to'' StringT, param ''_data'' BytesT,
         param ''_rollback'' BytesT] [param '''' Uint256] Payable),
     (''sendCallMessage0'', meth ''sendCallMessage'' [param ''_to'' StringT, param ''_data'' BytesT,
         param ''_rollback'' BytesT, param ''sources'' StringsT, param ''destinations'' StringsT] [param '''' Uint256] Payable),
     (''setAdmin'', meth ''setAdmin'' [param ''_address'' AddressT] [] NonPayable),
     (''setDefaultConnection'', meth ''setDefaultConnection'' [param ''_nid'' StringT,
         param ''connection'' AddressT] [] NonPayable),
     (''setProtocolFee'', meth ''setProtocolFee'' [param ''_value'' Uint256] [] NonPayable),
     (''setProtocolFeeHandler'', meth ''setProtocolFeeHandler'' [param ''_addr'' AddressT] [] NonPayable),
     (''tryHandleCallMessage'', meth ''tryHandleCallMessage'' [param ''toAddr'' AddressT, param ''to'' StringT,
         param ''from'' StringT, param ''data'' BytesT, param ''protocols'' StringsT] [] NonPayable),
     (''verifySuccess'', meth ''verifySuccess'' [param ''_sn'' Uint256] [param '''' BoolT] View)]"
  by code_simp
text \<open>The provider's topics are the hashes of the signatures of the contracts' own events.\<close>

lemma event_signatures:
  "event_signature ConnectionABI ''Message'' = Some EvmEmitMessage"
  "event_signature XcallABI ''CallMessage'' = Some EvmCallMessage"
  "event_signature XcallABI ''RollbackMessage'' = Some EvmRollbackMessage"
  by code_simp+

end
