(* ===== verification/Evm_Bindings.thy ===== *)
theory Evm_Bindings
  imports Evm_Client Evm_Abi
begin

text \<open>
  \<^verbatim>\<open>relayer/chains/evm/abi/connection.go\<close> and \<^verbatim>\<open>xcall.go\<close>: the generated bindings, one definition per method
  and four per event, over a bound contract of go-ethereum. A method's two session variants are
  \<open>session_call\<close> or \<open>session_transact\<close> of its definition. At the end the bindings are the ones of the
  provider's client, and what the provider estimates is compared with what it sends.
\<close>

section \<open>Making the bindings\<close>

record 'o contract_binding =
  bd_Caller :: "'o bound_contract"
  bd_Transactor :: "'o bound_contract"
  bd_Filterer :: "'o bound_contract"

definition bindConnection :: "(string \<Rightarrow> abi \<Rightarrow> 'o bound_contract) \<Rightarrow> string \<Rightarrow> error + 'o bound_contract" where
  "bindConnection = bind_contract (Inr ConnectionABI)"

definition bindXcall :: "(string \<Rightarrow> abi \<Rightarrow> 'o bound_contract) \<Rightarrow> string \<Rightarrow> error + 'o bound_contract" where
  "bindXcall = bind_contract (Inr XcallABI)"

definition NewConnection :: "(string \<Rightarrow> abi \<Rightarrow> 'o bound_contract) \<Rightarrow> string \<Rightarrow> error + 'o contract_binding" where
  "NewConnection NewBoundContract address = (case bindConnection NewBoundContract address of
      Inl e \<Rightarrow> Inl e | Inr bc \<Rightarrow> Inr \<lparr>bd_Caller = bc, bd_Transactor = bc, bd_Filterer = bc\<rparr>)"

definition NewXcall :: "(string \<Rightarrow> abi \<Rightarrow> 'o bound_contract) \<Rightarrow> string \<Rightarrow> error + 'o contract_binding" where
  "NewXcall NewBoundContract address = (case bindXcall NewBoundContract address of
      Inl e \<Rightarrow> Inl e | Inr bc \<Rightarrow> Inr \<lparr>bd_Caller = bc, bd_Transactor = bc, bd_Filterer = bc\<rparr>)"

text \<open>The raw bindings pass every call on.\<close>

definition Raw_Call :: "'o contract_binding \<Rightarrow> 'o \<Rightarrow> string \<Rightarrow> abi_value list \<Rightarrow> error + abi_value list" where
  "Raw_Call c opts name params = bc_Call (bd_Caller c) opts name params"

definition Raw_Transfer :: "'o contract_binding \<Rightarrow> 'o \<Rightarrow> error + string" where
  "Raw_Transfer c opts = bc_Transfer (bd_Transactor c) opts"

definition Raw_Transact :: "'o contract_binding \<Rightarrow> 'o \<Rightarrow> string \<Rightarrow> abi_value list \<Rightarrow> error + string" where
  "Raw_Transact c opts name params = bc_Transact (bd_Transactor c) opts name params"

section \<open>The contract \<^verbatim>\<open>Connection\<close> (\<^verbatim>\<open>connection.go\<close>)\<close>

definition Connection_Admin :: "'o bound_contract \<Rightarrow> 'o \<Rightarrow> string result" where
  "Connection_Admin bc opts = call1 as_address bc opts ''admin'' []"

definition Connection_ConnSn :: "'o bound_contract \<Rightarrow> 'o \<Rightarrow> int result" where
  "Connection_ConnSn bc opts = call1 as_big bc opts ''connSn'' []"

definition Connection_GetFee ::
    "'o bound_contract \<Rightarrow> 'o \<Rightarrow> string \<Rightarrow> bool \<Rightarrow> int result" where
  "Connection_GetFee bc opts dst response = call1 as_big bc opts ''getFee'' [VString dst, VBool response]"

definition Connection_GetReceipt ::
    "'o bound_contract \<Rightarrow> 'o \<Rightarrow> string \<Rightarrow> wireint \<Rightarrow> bool result" where
  "Connection_GetReceipt bc opts srcNetwork connSn =
     call1 as_bool bc opts ''getReceipt'' [VString srcNetwork, VBig connSn]"

definition Connection_ClaimFees :: "'o bound_contract \<Rightarrow> 'o \<Rightarrow> error + string" where
  "Connection_ClaimFees bc opts = bc_Transact bc opts ''claimFees'' []"

definition Connection_Initialize ::
    "'o bound_contract \<Rightarrow> 'o \<Rightarrow> string \<Rightarrow> string \<Rightarrow> error + string" where
  "Connection_Initialize bc opts relayer xCall =
     bc_Transact bc opts ''initialize'' [VAddress relayer, VAddress xCall]"

definition Connection_RecvMessage ::
    "'o bound_contract \<Rightarrow> 'o \<Rightarrow> string \<Rightarrow> wireint \<Rightarrow> bytes \<Rightarrow> error + string" where
  "Connection_RecvMessage bc opts srcNetwork connSn msg =
     bc_Transact bc opts ''recvMessage'' [VString srcNetwork, VBig connSn, VBytes msg]"

definition Connection_RevertMessage ::
    "'o bound_contract \<Rightarrow> 'o \<Rightarrow> wireint \<Rightarrow> error + string" where
  "Connection_RevertMessage bc opts sn = bc_Transact bc opts ''revertMessage'' [VBig sn]"

definition Connection_SendMessage ::
    "'o bound_contract \<Rightarrow> 'o \<Rightarrow> string \<Rightarrow> string \<Rightarrow> wireint \<Rightarrow> bytes \<Rightarrow> error + string" where
  "Connection_SendMessage bc opts dst svc sn msg =
     bc_Transact bc opts ''sendMessage'' [VString dst, VString svc, VBig sn, VBytes msg]"

definition Connection_SetAdmin ::
    "'o bound_contract \<Rightarrow> 'o \<Rightarrow> string \<Rightarrow> error + string" where
  "Connection_SetAdmin bc opts address = bc_Transact bc opts ''setAdmin'' [VAddress address]"

definition Connection_SetFee ::
    "'o bound_contract \<Rightarrow> 'o \<Rightarrow> string \<Rightarrow> wireint \<Rightarrow> wireint \<Rightarrow> error + string" where
  "Connection_SetFee bc opts networkId messageFee responseFee =
     bc_Transact bc opts ''setFee'' [VString networkId, VBig messageFee, VBig responseFee]"

record ConnectionInitialized =
  cni_Version :: u8
  cni_Raw :: elog

fun ConnectionInitialized_struct :: "abi_value list \<Rightarrow> elog \<Rightarrow> ConnectionInitialized option" where
  "ConnectionInitialized_struct [VUint8 version] log = Some \<lparr>cni_Version = version, cni_Raw = log\<rparr>"
| "ConnectionInitialized_struct _ log = None"

definition ConnectionInitialized_binding :: "ConnectionInitialized event_binding" where
  "ConnectionInitialized_binding =
     \<lparr>eb_name = ''Initialized'', eb_struct = ConnectionInitialized_struct\<rparr>"

definition ConnectionInitializedIterator_Next ::
    "'o bound_contract \<Rightarrow> ConnectionInitialized iterator \<Rightarrow> bool \<times> ConnectionInitialized iterator" where
  "ConnectionInitializedIterator_Next bc = iterator_Next (UnpackEvent bc ConnectionInitialized_binding)"

definition Connection_FilterInitialized ::
    "'o bound_contract \<Rightarrow> 'o \<Rightarrow> error + ConnectionInitialized iterator" where
  "Connection_FilterInitialized bc opts = map_sum id new_iterator (bc_FilterLogs bc opts ''Initialized'' [])"

definition Connection_WatchInitialized ::
    "'o bound_contract \<Rightarrow> 'o \<Rightarrow> error + (watch_event list \<Rightarrow> ConnectionInitialized list \<times> watch_state)" where
  "Connection_WatchInitialized bc opts = watch_events bc opts ConnectionInitialized_binding []"

definition Connection_ParseInitialized ::
    "'o bound_contract \<Rightarrow> elog \<Rightarrow> error + ConnectionInitialized" where
  "Connection_ParseInitialized bc log = UnpackEvent bc ConnectionInitialized_binding log"

record ConnectionMessage =
  cnm_TargetNetwork :: string
  cnm_Sn :: int
  cnm_Msg :: bytes
  cnm_Raw :: elog

fun ConnectionMessage_struct :: "abi_value list \<Rightarrow> elog \<Rightarrow> ConnectionMessage option" where
  "ConnectionMessage_struct [VString targetnetwork, VBig (Some sn), VBytes msg] log =
     Some \<lparr>cnm_TargetNetwork = targetnetwork, cnm_Sn = sn, cnm_Msg = msg, cnm_Raw = log\<rparr>"
| "ConnectionMessage_struct _ log = None"

definition ConnectionMessage_binding :: "ConnectionMessage event_binding" where
  "ConnectionMessage_binding = \<lparr>eb_name = ''Message'', eb_struct = ConnectionMessage_struct\<rparr>"

definition ConnectionMessageIterator_Next ::
    "'o bound_contract \<Rightarrow> ConnectionMessage iterator \<Rightarrow> bool \<times> ConnectionMessage iterator" where
  "ConnectionMessageIterator_Next bc = iterator_Next (UnpackEvent bc ConnectionMessage_binding)"

definition Connection_FilterMessage ::
    "'o bound_contract \<Rightarrow> 'o \<Rightarrow> error + ConnectionMessage iterator" where
  "Connection_FilterMessage bc opts = map_sum id new_iterator (bc_FilterLogs bc opts ''Message'' [])"

definition Connection_WatchMessage ::
    "'o bound_contract \<Rightarrow> 'o \<Rightarrow> error + (watch_event list \<Rightarrow> ConnectionMessage list \<times> watch_state)" where
  "Connection_WatchMessage bc opts = watch_events bc opts ConnectionMessage_binding []"

definition Connection_ParseMessage ::
    "'o bound_contract \<Rightarrow> elog \<Rightarrow> error + ConnectionMessage" where
  "Connection_ParseMessage bc log = UnpackEvent bc ConnectionMessage_binding log"

section \<open>The contract \<^verbatim>\<open>Xcall\<close> (\<^verbatim>\<open>xcall.go\<close>)\<close>

definition Xcall_Admin :: "'o bound_contract \<Rightarrow> 'o \<Rightarrow> string result" where
  "Xcall_Admin bc opts = call1 as_address bc opts ''admin'' []"

definition Xcall_GetDefaultConnection ::
    "'o bound_contract \<Rightarrow> 'o \<Rightarrow> string \<Rightarrow> string result" where
  "Xcall_GetDefaultConnection bc opts nid = call1 as_address bc opts ''getDefaultConnection'' [VString nid]"

definition Xcall_GetFee ::
    "'o bound_contract \<Rightarrow> 'o \<Rightarrow> string \<Rightarrow> bool \<Rightarrow> string list \<Rightarrow> int result" where
  "Xcall_GetFee bc opts net rollback sources =
     call1 as_big bc opts ''getFee'' [VString net, VBool rollback, VStrings sources]"

definition Xcall_GetFee0 ::
    "'o bound_contract \<Rightarrow> 'o \<Rightarrow> string \<Rightarrow> bool \<Rightarrow> int result" where
  "Xcall_GetFee0 bc opts net rollback = call1 as_big bc opts ''getFee0'' [VString net, VBool rollback]"

definition Xcall_GetNetworkAddress :: "'o bound_contract \<Rightarrow> 'o \<Rightarrow> string result" where
  "Xcall_GetNetworkAddress bc opts = call1 as_string bc opts ''getNetworkAddress'' []"

definition Xcall_GetNetworkId :: "'o bound_contract \<Rightarrow> 'o \<Rightarrow> string result" where
  "Xcall_GetNetworkId bc opts = call1 as_string bc opts ''getNetworkId'' []"

definition Xcall_GetProtocolFee :: "'o bound_contract \<Rightarrow> 'o \<Rightarrow> int result" where
  "Xcall_GetProtocolFee bc opts = call1 as_big bc opts ''getProtocolFee'' []"

definition Xcall_GetProtocolFeeHandler :: "'o bound_contract \<Rightarrow> 'o \<Rightarrow> string result" where
  "Xcall_GetProtocolFeeHandler bc opts = call1 as_address bc opts ''getProtocolFeeHandler'' []"

definition Xcall_VerifySuccess ::
    "'o bound_contract \<Rightarrow> 'o \<Rightarrow> wireint \<Rightarrow> bool result" where
  "Xcall_VerifySuccess bc opts sn = call1 as_bool bc opts ''verifySuccess'' [VBig sn]"

definition Xcall_ExecuteCall ::
    "'o bound_contract \<Rightarrow> 'o \<Rightarrow> wireint \<Rightarrow> bytes \<Rightarrow> error + string" where
  "Xcall_ExecuteCall bc opts reqId data = bc_Transact bc opts ''executeCall'' [VBig reqId, VBytes data]"

definition Xcall_ExecuteRollback ::
    "'o bound_contract \<Rightarrow> 'o \<Rightarrow> wireint \<Rightarrow> error + string" where
  "Xcall_ExecuteRollback bc opts sn = bc_Transact bc opts ''executeRollback'' [VBig sn]"

definition Xcall_HandleBTPError ::
    "'o bound_contract \<Rightarrow> 'o \<Rightarrow> string \<Rightarrow> string \<Rightarrow> wireint \<Rightarrow> wireint \<Rightarrow> string \<Rightarrow> error + string" where
  "Xcall_HandleBTPError bc opts src svc sn code msg =
     bc_Transact bc opts ''handleBTPError'' [VString src, VString svc, VBig sn, VBig code, VString msg]"

definition Xcall_HandleBTPMessage ::
    "'o bound_contract \<Rightarrow> 'o \<Rightarrow> string \<Rightarrow> string \<Rightarrow> wireint \<Rightarrow> bytes \<Rightarrow> error + string" where
  "Xcall_HandleBTPMessage bc opts src svc sn msg =
     bc_Transact bc opts ''handleBTPMessage'' [VString src, VString svc, VBig sn, VBytes msg]"

definition Xcall_HandleError ::
    "'o bound_contract \<Rightarrow> 'o \<Rightarrow> wireint \<Rightarrow> error + string" where
  "Xcall_HandleError bc opts sn = bc_Transact bc opts ''handleError'' [VBig sn]"

definition Xcall_HandleMessage ::
    "'o bound_contract \<Rightarrow> 'o \<Rightarrow> string \<Rightarrow> bytes \<Rightarrow> error + string" where
  "Xcall_HandleMessage bc opts src msg = bc_Transact bc opts ''handleMessage'' [VString src, VBytes msg]"

definition Xcall_Initialize ::
    "'o bound_contract \<Rightarrow> 'o \<Rightarrow> string \<Rightarrow> error + string" where
  "Xcall_Initialize bc opts nid = bc_Transact bc opts ''initialize'' [VString nid]"

definition Xcall_SendCallMessage ::
    "'o bound_contract \<Rightarrow> 'o \<Rightarrow> string \<Rightarrow> bytes \<Rightarrow> bytes \<Rightarrow> error + string" where
  "Xcall_SendCallMessage bc opts dst data rollbackData =
     bc_Transact bc opts ''sendCallMessage'' [VString dst, VBytes data, VBytes rollbackData]"

definition Xcall_SendCallMessage0 ::
    "'o bound_contract \<Rightarrow> 'o \<Rightarrow> string \<Rightarrow> bytes \<Rightarrow> bytes \<Rightarrow> string list \<Rightarrow> string list \<Rightarrow> error + string" where
  "Xcall_SendCallMessage0 bc opts dst data rollbackData sources destinations =
     bc_Transact bc opts ''sendCallMessage0'' [VString dst, VBytes data, VBytes rollbackData, VStrings sources,
       VStrings destinations]"

definition Xcall_SetAdmin ::
    "'o bound_contract \<Rightarrow> 'o \<Rightarrow> string \<Rightarrow> error + string" where
  "Xcall_SetAdmin bc opts address = bc_Transact bc opts ''setAdmin'' [VAddress address]"

definition Xcall_SetDefaultConnection ::
    "'o bound_contract \<Rightarrow> 'o \<Rightarrow> string \<Rightarrow> string \<Rightarrow> error + string" where
  "Xcall_SetDefaultConnection bc opts nid connection =
     bc_Transact bc opts ''setDefaultConnection'' [VString nid, VAddress connection]"

definition Xcall_SetProtocolFee ::
    "'o bound_contract \<Rightarrow> 'o \<Rightarrow> wireint \<Rightarrow> error + string" where
  "Xcall_SetProtocolFee bc opts value = bc_Transact bc opts ''setProtocolFee'' [VBig value]"

definition Xcall_SetProtocolFeeHandler ::
    "'o bound_contract \<Rightarrow> 'o \<Rightarrow> string \<Rightarrow> error + string" where
  "Xcall_SetProtocolFeeHandler bc opts addr = bc_Transact bc opts ''setProtocolFeeHandler'' [VAddress addr]"

definition Xcall_TryHandleCallMessage ::
    "'o bound_contract \<Rightarrow> 'o \<Rightarrow> string \<Rightarrow> string \<Rightarrow> string \<Rightarrow> bytes \<Rightarrow> string list \<Rightarrow> error + string" where
  "Xcall_TryHandleCallMessage bc opts toAddr dst src data protocols =
     bc_Transact bc opts ''tryHandleCallMessage'' [VAddress toAddr, VString dst, VString src, VBytes data,
       VStrings protocols]"

record XcallCallExecuted =
  xe_ReqId :: int
  xe_Code :: int
  xe_Msg :: string
  xe_Raw :: elog

fun XcallCallExecuted_struct :: "abi_value list \<Rightarrow> elog \<Rightarrow> XcallCallExecuted option" where
  "XcallCallExecuted_struct [VBig (Some reqid), VBig (Some code), VString msg] log =
     Some \<lparr>xe_ReqId = reqid, xe_Code = code, xe_Msg = msg, xe_Raw = log\<rparr>"
| "XcallCallExecuted_struct _ log = None"

definition XcallCallExecuted_binding :: "XcallCallExecuted event_binding" where
  "XcallCallExecuted_binding = \<lparr>eb_name = ''CallExecuted'', eb_struct = XcallCallExecuted_struct\<rparr>"

definition XcallCallExecutedIterator_Next ::
    "'o bound_contract \<Rightarrow> XcallCallExecuted iterator \<Rightarrow> bool \<times> XcallCallExecuted iterator" where
  "XcallCallExecutedIterator_Next bc = iterator_Next (UnpackEvent bc XcallCallExecuted_binding)"

definition Xcall_FilterCallExecuted ::
    "'o bound_contract \<Rightarrow> 'o \<Rightarrow> wireint list \<Rightarrow> error + XcallCallExecuted iterator" where
  "Xcall_FilterCallExecuted bc opts reqId =
     map_sum id new_iterator (bc_FilterLogs bc opts ''CallExecuted'' [map VBig reqId])"

definition Xcall_WatchCallExecuted ::
    "'o bound_contract \<Rightarrow> 'o \<Rightarrow> wireint list \<Rightarrow> error + (watch_event list \<Rightarrow> XcallCallExecuted list \<times> watch_state)" where
  "Xcall_WatchCallExecuted bc opts reqId = watch_events bc opts XcallCallExecuted_binding [map VBig reqId]"

definition Xcall_ParseCallExecuted ::
    "'o bound_contract \<Rightarrow> elog \<Rightarrow> error + XcallCallExecuted" where
  "Xcall_ParseCallExecuted bc log = UnpackEvent bc XcallCallExecuted_binding log"

record XcallCallMessage =
  xm_From :: string
  xm_To :: string
  xm_Sn :: int
  xm_ReqId :: int
  xm_Data :: bytes
  xm_Raw :: elog

fun XcallCallMessage_struct :: "abi_value list \<Rightarrow> elog \<Rightarrow> XcallCallMessage option" where
  "XcallCallMessage_struct [VHash src, VHash dst, VBig (Some sn), VBig (Some reqid), VBytes data] log =
     Some \<lparr>xm_From = src, xm_To = dst, xm_Sn = sn, xm_ReqId = reqid, xm_Data = data, xm_Raw = log\<rparr>"
| "XcallCallMessage_struct _ log = None"

definition XcallCallMessage_binding :: "XcallCallMessage event_binding" where
  "XcallCallMessage_binding = \<lparr>eb_name = ''CallMessage'', eb_struct = XcallCallMessage_struct\<rparr>"

definition XcallCallMessageIterator_Next ::
    "'o bound_contract \<Rightarrow> XcallCallMessage iterator \<Rightarrow> bool \<times> XcallCallMessage iterator" where
  "XcallCallMessageIterator_Next bc = iterator_Next (UnpackEvent bc XcallCallMessage_binding)"

definition Xcall_FilterCallMessage ::
    "'o bound_contract \<Rightarrow> 'o \<Rightarrow> string list \<Rightarrow> string list \<Rightarrow> wireint list \<Rightarrow> error + XcallCallMessage iterator" where
  "Xcall_FilterCallMessage bc opts src dst sn =
     map_sum id new_iterator (bc_FilterLogs bc opts ''CallMessage'' [map VString src, map VString dst, map VBig sn])"

definition Xcall_WatchCallMessage ::
    "'o bound_contract \<Rightarrow> 'o \<Rightarrow> string list \<Rightarrow> string list \<Rightarrow> wireint list \<Rightarrow> error + (watch_event list \<Rightarrow> XcallCallMessage list \<times> watch_state)" where
  "Xcall_WatchCallMessage bc opts src dst sn =
     watch_events bc opts XcallCallMessage_binding [map VString src, map VString dst, map VBig sn]"

definition Xcall_ParseCallMessage ::
    "'o bound_contract \<Rightarrow> elog \<Rightarrow> error + XcallCallMessage" where
  "Xcall_ParseCallMessage bc log = UnpackEvent bc XcallCallMessage_binding log"

record XcallCallMessageSent =
  xs_From :: string
  xs_To :: string
  xs_Sn :: int
  xs_Raw :: elog

fun XcallCallMessageSent_struct :: "abi_value list \<Rightarrow> elog \<Rightarrow> XcallCallMessageSent option" where
  "XcallCallMessageSent_struct [VAddress src, VHash dst, VBig (Some sn)] log =
     Some \<lparr>xs_From = src, xs_To = dst, xs_Sn = sn, xs_Raw = log\<rparr>"
| "XcallCallMessageSent_struct _ log = None"

definition XcallCallMessageSent_binding :: "XcallCallMessageSent event_binding" where
  "XcallCallMessageSent_binding =
     \<lparr>eb_name = ''CallMessageSent'', eb_struct = XcallCallMessageSent_struct\<rparr>"

definition XcallCallMessageSentIterator_Next ::
    "'o bound_contract \<Rightarrow> XcallCallMessageSent iterator \<Rightarrow> bool \<times> XcallCallMessageSent iterator" where
  "XcallCallMessageSentIterator_Next bc = iterator_Next (UnpackEvent bc XcallCallMessageSent_binding)"

definition Xcall_FilterCallMessageSent ::
    "'o bound_contract \<Rightarrow> 'o \<Rightarrow> string list \<Rightarrow> string list \<Rightarrow> wireint list \<Rightarrow> error + XcallCallMessageSent iterator" where
  "Xcall_FilterCallMessageSent bc opts src dst sn =
     map_sum id new_iterator (bc_FilterLogs bc opts ''CallMessageSent'' [map VAddress src, map VString dst,
       map VBig sn])"

definition Xcall_WatchCallMessageSent ::
    "'o bound_contract \<Rightarrow> 'o \<Rightarrow> string list \<Rightarrow> string list \<Rightarrow> wireint list \<Rightarrow> error + (watch_event list \<Rightarrow> XcallCallMessageSent list \<times> watch_state)" where
  "Xcall_WatchCallMessageSent bc opts src dst sn =
     watch_events bc opts XcallCallMessageSent_binding [map VAddress src, map VString dst, map VBig sn]"

definition Xcall_ParseCallMessageSent ::
    "'o bound_contract \<Rightarrow> elog \<Rightarrow> error + XcallCallMessageSent" where
  "Xcall_ParseCallMessageSent bc log = UnpackEvent bc XcallCallMessageSent_binding log"

record XcallInitialized =
  xi_Version :: u8
  xi_Raw :: elog

fun XcallInitialized_struct :: "abi_value list \<Rightarrow> elog \<Rightarrow> XcallInitialized option" where
  "XcallInitialized_struct [VUint8 version] log = Some \<lparr>xi_Version = version, xi_Raw = log\<rparr>"
| "XcallInitialized_struct _ log = None"

definition XcallInitialized_binding :: "XcallInitialized event_binding" where
  "XcallInitialized_binding = \<lparr>eb_name = ''Initialized'', eb_struct = XcallInitialized_struct\<rparr>"

definition XcallInitializedIterator_Next ::
    "'o bound_contract \<Rightarrow> XcallInitialized iterator \<Rightarrow> bool \<times> XcallInitialized iterator" where
  "XcallInitializedIterator_Next bc = iterator_Next (UnpackEvent bc XcallInitialized_binding)"

definition Xcall_FilterInitialized ::
    "'o bound_contract \<Rightarrow> 'o \<Rightarrow> error + XcallInitialized iterator" where
  "Xcall_FilterInitialized bc opts = map_sum id new_iterator (bc_FilterLogs bc opts ''Initialized'' [])"

definition Xcall_WatchInitialized ::
    "'o bound_contract \<Rightarrow> 'o \<Rightarrow> error + (watch_event list \<Rightarrow> XcallInitialized list \<times> watch_state)" where
  "Xcall_WatchInitialized bc opts = watch_events bc opts XcallInitialized_binding []"

definition Xcall_ParseInitialized ::
    "'o bound_contract \<Rightarrow> elog \<Rightarrow> error + XcallInitialized" where
  "Xcall_ParseInitialized bc log = UnpackEvent bc XcallInitialized_binding log"

record XcallResponseMessage =
  xr_Sn :: int
  xr_Code :: int
  xr_Raw :: elog

fun XcallResponseMessage_struct :: "abi_value list \<Rightarrow> elog \<Rightarrow> XcallResponseMessage option" where
  "XcallResponseMessage_struct [VBig (Some sn), VBig (Some code)] log =
     Some \<lparr>xr_Sn = sn, xr_Code = code, xr_Raw = log\<rparr>"
| "XcallResponseMessage_struct _ log = None"

definition XcallResponseMessage_binding :: "XcallResponseMessage event_binding" where
  "XcallResponseMessage_binding =
     \<lparr>eb_name = ''ResponseMessage'', eb_struct = XcallResponseMessage_struct\<rparr>"

definition XcallResponseMessageIterator_Next ::
    "'o bound_contract \<Rightarrow> XcallResponseMessage iterator \<Rightarrow> bool \<times> XcallResponseMessage iterator" where
  "XcallResponseMessageIterator_Next bc = iterator_Next (UnpackEvent bc XcallResponseMessage_binding)"

definition Xcall_FilterResponseMessage ::
    "'o bound_contract \<Rightarrow> 'o \<Rightarrow> wireint list \<Rightarrow> error + XcallResponseMessage iterator" where
  "Xcall_FilterResponseMessage bc opts sn =
     map_sum id new_iterator (bc_FilterLogs bc opts ''ResponseMessage'' [map VBig sn])"

definition Xcall_WatchResponseMessage ::
    "'o bound_contract \<Rightarrow> 'o \<Rightarrow> wireint list \<Rightarrow> error + (watch_event list \<Rightarrow> XcallResponseMessage list \<times> watch_state)" where
  "Xcall_WatchResponseMessage bc opts sn = watch_events bc opts XcallResponseMessage_binding [map VBig sn]"

definition Xcall_ParseResponseMessage ::
    "'o bound_contract \<Rightarrow> elog \<Rightarrow> error + XcallResponseMessage" where
  "Xcall_ParseResponseMessage bc log = UnpackEvent bc XcallResponseMessage_binding log"

record XcallRollbackExecuted =
  xre_Sn :: int
  xre_Raw :: elog

fun XcallRollbackExecuted_struct :: "abi_value list \<Rightarrow> elog \<Rightarrow> XcallRollbackExecuted option" where
  "XcallRollbackExecuted_struct [VBig (Some sn)] log = Some \<lparr>xre_Sn = sn, xre_Raw = log\<rparr>"
| "XcallRollbackExecuted_struct _ log = None"

definition XcallRollbackExecuted_binding :: "XcallRollbackExecuted event_binding" where
  "XcallRollbackExecuted_binding =
     \<lparr>eb_name = ''RollbackExecuted'', eb_struct = XcallRollbackExecuted_struct\<rparr>"

definition XcallRollbackExecutedIterator_Next ::
    "'o bound_contract \<Rightarrow> XcallRollbackExecuted iterator \<Rightarrow> bool \<times> XcallRollbackExecuted iterator" where
  "XcallRollbackExecutedIterator_Next bc = iterator_Next (UnpackEvent bc XcallRollbackExecuted_binding)"

definition Xcall_FilterRollbackExecuted ::
    "'o bound_contract \<Rightarrow> 'o \<Rightarrow> wireint list \<Rightarrow> error + XcallRollbackExecuted iterator" where
  "Xcall_FilterRollbackExecuted bc opts sn =
     map_sum id new_iterator (bc_FilterLogs bc opts ''RollbackExecuted'' [map VBig sn])"

definition Xcall_WatchRollbackExecuted ::
    "'o bound_contract \<Rightarrow> 'o \<Rightarrow> wireint list \<Rightarrow> error + (watch_event list \<Rightarrow> XcallRollbackExecuted list \<times> watch_state)" where
  "Xcall_WatchRollbackExecuted bc opts sn = watch_events bc opts XcallRollbackExecuted_binding [map VBig sn]"

definition Xcall_ParseRollbackExecuted ::
    "'o bound_contract \<Rightarrow> elog \<Rightarrow> error + XcallRollbackExecuted" where
  "Xcall_ParseRollbackExecuted bc log = UnpackEvent bc XcallRollbackExecuted_binding log"

record XcallRollbackMessage =
  xk_Sn :: int
  xk_Raw :: elog

fun XcallRollbackMessage_struct :: "abi_value list \<Rightarrow> elog \<Rightarrow> XcallRollbackMessage option" where
  "XcallRollbackMessage_struct [VBig (Some sn)] log = Some \<lparr>xk_Sn = sn, xk_Raw = log\<rparr>"
| "XcallRollbackMessage_struct _ log = None"

definition XcallRollbackMessage_binding :: "XcallRollbackMessage event_binding" where
  "XcallRollbackMessage_binding =
     \<lparr>eb_name = ''RollbackMessage'', eb_struct = XcallRollbackMessage_struct\<rparr>"

definition XcallRollbackMessageIterator_Next ::
    "'o bound_contract \<Rightarrow> XcallRollbackMessage iterator \<Rightarrow> bool \<times> XcallRollbackMessage iterator" where
  "XcallRollbackMessageIterator_Next bc = iterator_Next (UnpackEvent bc XcallRollbackMessage_binding)"

definition Xcall_FilterRollbackMessage ::
    "'o bound_contract \<Rightarrow> 'o \<Rightarrow> wireint list \<Rightarrow> error + XcallRollbackMessage iterator" where
  "Xcall_FilterRollbackMessage bc opts sn =
     map_sum id new_iterator (bc_FilterLogs bc opts ''RollbackMessage'' [map VBig sn])"

definition Xcall_WatchRollbackMessage ::
    "'o bound_contract \<Rightarrow> 'o \<Rightarrow> wireint list \<Rightarrow> error + (watch_event list \<Rightarrow> XcallRollbackMessage list \<times> watch_state)" where
  "Xcall_WatchRollbackMessage bc opts sn = watch_events bc opts XcallRollbackMessage_binding [map VBig sn]"

definition Xcall_ParseRollbackMessage ::
    "'o bound_contract \<Rightarrow> elog \<Rightarrow> error + XcallRollbackMessage" where
  "Xcall_ParseRollbackMessage bc log = UnpackEvent bc XcallRollbackMessage_binding log"


section \<open>The bindings call what the interfaces have\<close>

text \<open>
  \<open>checked\<close> is a contract that only answers when the arguments have the types of its interface, as the
  library does, with answers of the types of the outputs.
\<close>

fun default_value :: "abi_type \<Rightarrow> abi_value" where
  "default_value Uint256 = VBig (Some 0)"
| "default_value Int256 = VBig (Some 0)"
| "default_value Uint8 = VUint8 0"
| "default_value AddressT = VAddress ''''"
| "default_value BoolT = VBool False"
| "default_value StringT = VString ''''"
| "default_value BytesT = VBytes ''''"
| "default_value StringsT = VStrings []"

definition outputs_of :: "abi \<Rightarrow> string \<Rightarrow> abi_value list" where
  "outputs_of a name = (case map_of (abi_Methods a) name of
      None \<Rightarrow> [] | Some m \<Rightarrow> map (default_value \<circ> pr_type) (me_outputs m))"

definition checked :: "abi \<Rightarrow> 'o bound_contract" where
  "checked a = \<lparr>bc_Call = \<lambda>opts name args. if accepts a name args then Inr (outputs_of a name) else Inl ''refused'',
     bc_Transact = \<lambda>opts name args. if accepts a name args then Inr ''hash'' else Inl ''refused'',
     bc_Transfer = \<lambda>opts. Inl ''refused'', bc_FilterLogs = \<lambda>opts name rules. Inl ''refused'',
     bc_WatchLogs = \<lambda>opts name rules. Some ''refused'', bc_UnpackLog = \<lambda>name log. Inl ''refused'', bc_mismatch = ''refused''\<rparr>"

lemmas table_defs = Connection_methods Xcall_methods meth_def param_def

lemmas Connection_method_defs =
  Connection_Admin_def Connection_ConnSn_def Connection_GetFee_def Connection_GetReceipt_def
  Connection_ClaimFees_def Connection_Initialize_def Connection_RecvMessage_def Connection_RevertMessage_def
  Connection_SendMessage_def Connection_SetAdmin_def Connection_SetFee_def

lemma Connection_bindings_conform:
  "Connection_Admin (checked ConnectionABI) opts = Ok ''''"
  "Connection_ConnSn (checked ConnectionABI) opts = Ok 0"
  "Connection_GetFee (checked ConnectionABI) opts dst response = Ok 0"
  "Connection_GetReceipt (checked ConnectionABI) opts srcNetwork connSn = Ok False"
  "Connection_ClaimFees (checked ConnectionABI) opts = Inr ''hash''"
  "Connection_Initialize (checked ConnectionABI) opts relayer xCall = Inr ''hash''"
  "Connection_RecvMessage (checked ConnectionABI) opts srcNetwork connSn msg = Inr ''hash''"
  "Connection_RevertMessage (checked ConnectionABI) opts sn = Inr ''hash''"
  "Connection_SendMessage (checked ConnectionABI) opts dst svc sn msg = Inr ''hash''"
  "Connection_SetAdmin (checked ConnectionABI) opts address = Inr ''hash''"
  "Connection_SetFee (checked ConnectionABI) opts networkId messageFee responseFee = Inr ''hash''"
  by (simp_all add: Connection_method_defs call1_def index_def checked_def accepts_def outputs_of_def table_defs)

lemmas Xcall_method_defs =
  Xcall_Admin_def Xcall_GetDefaultConnection_def Xcall_GetFee_def Xcall_GetFee0_def Xcall_GetNetworkAddress_def
  Xcall_GetNetworkId_def Xcall_GetProtocolFee_def Xcall_GetProtocolFeeHandler_def Xcall_VerifySuccess_def
  Xcall_ExecuteCall_def Xcall_ExecuteRollback_def Xcall_HandleBTPError_def Xcall_HandleBTPMessage_def
  Xcall_HandleError_def Xcall_HandleMessage_def Xcall_Initialize_def Xcall_SendCallMessage_def
  Xcall_SendCallMessage0_def Xcall_SetAdmin_def Xcall_SetDefaultConnection_def Xcall_SetProtocolFee_def
  Xcall_SetProtocolFeeHandler_def Xcall_TryHandleCallMessage_def

lemma Xcall_bindings_conform:
  "Xcall_Admin (checked XcallABI) opts = Ok ''''"
  "Xcall_GetDefaultConnection (checked XcallABI) opts nid = Ok ''''"
  "Xcall_GetFee (checked XcallABI) opts net rollback sources = Ok 0"
  "Xcall_GetFee0 (checked XcallABI) opts net rollback = Ok 0"
  "Xcall_GetNetworkAddress (checked XcallABI) opts = Ok ''''"
  "Xcall_GetNetworkId (checked XcallABI) opts = Ok ''''"
  "Xcall_GetProtocolFee (checked XcallABI) opts = Ok 0"
  "Xcall_GetProtocolFeeHandler (checked XcallABI) opts = Ok ''''"
  "Xcall_VerifySuccess (checked XcallABI) opts sn = Ok False"
  "Xcall_ExecuteCall (checked XcallABI) opts reqId data = Inr ''hash''"
  "Xcall_ExecuteRollback (checked XcallABI) opts sn = Inr ''hash''"
  "Xcall_HandleBTPError (checked XcallABI) opts src svc sn code msg = Inr ''hash''"
  "Xcall_HandleBTPMessage (checked XcallABI) opts src svc sn msg = Inr ''hash''"
  "Xcall_HandleError (checked XcallABI) opts sn = Inr ''hash''"
  "Xcall_HandleMessage (checked XcallABI) opts src msg = Inr ''hash''"
  "Xcall_Initialize (checked XcallABI) opts nid = Inr ''hash''"
  "Xcall_SendCallMessage (checked XcallABI) opts dst data rollbackData = Inr ''hash''"
  "Xcall_SendCallMessage0 (checked XcallABI) opts dst data rollbackData sources destinations = Inr ''hash''"
  "Xcall_SetAdmin (checked XcallABI) opts address = Inr ''hash''"
  "Xcall_SetDefaultConnection (checked XcallABI) opts nid connection = Inr ''hash''"
  "Xcall_SetProtocolFee (checked XcallABI) opts value = Inr ''hash''"
  "Xcall_SetProtocolFeeHandler (checked XcallABI) opts addr = Inr ''hash''"
  "Xcall_TryHandleCallMessage (checked XcallABI) opts toAddr dst src data protocols = Inr ''hash''"
  by (simp_all add: Xcall_method_defs call1_def index_def checked_def accepts_def outputs_of_def table_defs)

section \<open>The client's bindings\<close>

text \<open>
  The bindings of the provider's client, with the options of its calls. A call that panics has no answer
  here; it does not happen with a contract that answers with the types of its interface.
\<close>

fun answer :: "'a result \<Rightarrow> error + 'a" where
  "answer (Ok x) = Inr x"
| "answer (Err e) = Inl e"
| "answer (Panic e) = Inl e"

definition connection_binding_of :: "'o contract_binding \<Rightarrow> 'o \<Rightarrow> 'o \<Rightarrow> connection_binding" where
  "connection_binding_of b copts topts = \<lparr>
     cb_ParseMessage = (\<lambda>log. map_sum id (\<lambda>ev. (cnm_TargetNetwork ev, cnm_Sn ev, cnm_Msg ev))
       (Connection_ParseMessage (bd_Filterer b) log)),
     cb_SendMessage = Connection_SendMessage (bd_Transactor b) topts,
     cb_RecvMessage = Connection_RecvMessage (bd_Transactor b) topts,
     cb_GetReceipt = (\<lambda>src sn. answer (Connection_GetReceipt (bd_Caller b) copts src sn)),
     cb_SetAdmin = Connection_SetAdmin (bd_Transactor b) topts,
     cb_RevertMessage = Connection_RevertMessage (bd_Transactor b) topts,
     cb_GetFee = (\<lambda>to response. answer (Connection_GetFee (bd_Caller b) copts to response)),
     cb_SetFee = Connection_SetFee (bd_Transactor b) topts,
     cb_ClaimFees = Connection_ClaimFees (bd_Transactor b) topts\<rparr>"

definition xcall_binding_of :: "'o contract_binding \<Rightarrow> 'o \<Rightarrow> xcall_binding" where
  "xcall_binding_of b topts = \<lparr>
     xb_ParseCallMessage = (\<lambda>log. map_sum id (\<lambda>ev. (xm_Sn ev, xm_ReqId ev, xm_Data ev))
       (Xcall_ParseCallMessage (bd_Filterer b) log)),
     xb_ParseRollbackMessage = (\<lambda>log. map_sum id xk_Sn (Xcall_ParseRollbackMessage (bd_Filterer b) log)),
     xb_ExecuteCall = Xcall_ExecuteCall (bd_Transactor b) topts,
     xb_ExecuteRollback = Xcall_ExecuteRollback (bd_Transactor b) topts\<rparr>"

text \<open>A contract whose answers have the types of its interface, as the library's decoder gives them.\<close>

definition typed_answers :: "abi \<Rightarrow> 'o bound_contract \<Rightarrow> bool" where
  "typed_answers a bc = (\<forall>opts name args m out. map_of (abi_Methods a) name = Some m \<longrightarrow> bc_Call bc opts name args = Inr out \<longrightarrow>
     list_all2 (\<lambda>p v. conforms (pr_type p) v \<and> v \<noteq> VBig None) (me_outputs m) out)"

lemma connection_calls_return:
  assumes "typed_answers ConnectionABI bc"
  shows "Connection_GetReceipt bc opts src sn \<noteq> Panic e" and "Connection_GetFee bc opts dst response \<noteq> Panic e"
proof -
  have m: "map_of (abi_Methods ConnectionABI) ''getReceipt'' =
      Some (meth ''getReceipt'' [param ''srcNetwork'' StringT, param ''_connSn'' Uint256] [param '''' BoolT] View)"
    "map_of (abi_Methods ConnectionABI) ''getFee'' =
      Some (meth ''getFee'' [param ''to'' StringT, param ''response'' BoolT] [param ''fee'' Uint256] View)"
    by code_simp+
  have "\<exists>b. out = [VBool b]" if "bc_Call bc opts ''getReceipt'' args = Inr out" for args out
  proof -
    have "list_all2 (\<lambda>p v. conforms (pr_type p) v \<and> v \<noteq> VBig None) [param '''' BoolT] out"
      using assms m(1) that unfolding typed_answers_def by (force simp: meth_def)
    then show ?thesis by (auto simp: list_all2_Cons1 param_def elim: conforms.elims)
  qed
  then show "Connection_GetReceipt bc opts src sn \<noteq> Panic e"
    by (fastforce simp: Connection_GetReceipt_def call1_def index_def split: sum.splits)
  have "\<exists>n. out = [VBig (Some n)]" if "bc_Call bc opts ''getFee'' args = Inr out" for args out
  proof -
    have "list_all2 (\<lambda>p v. conforms (pr_type p) v \<and> v \<noteq> VBig None) [param ''fee'' Uint256] out"
      using assms m(2) that unfolding typed_answers_def by (force simp: meth_def)
    then show ?thesis by (auto simp: list_all2_Cons1 param_def elim: conforms.elims)
  qed
  then show "Connection_GetFee bc opts dst response \<noteq> Panic e"
    by (fastforce simp: Connection_GetFee_def call1_def index_def split: sum.splits)
qed

section \<open>Estimated and sent calls\<close>

text \<open>The values the provider packs for an estimate.\<close>

fun arg_value :: "abi_arg \<Rightarrow> abi_value" where
  "arg_value (AString s) = VString s"
| "arg_value (ABig n) = VBig n"
| "arg_value (ABytes b) = VBytes b"

definition contract_abi :: "string \<Rightarrow> abi" where
  "contract_abi contract = (if contract = XcallContract then XcallABI else ConnectionABI)"

lemma packed_conforms:
  "accepts ConnectionABI ''recvMessage'' [VString src, VBig sn, VBytes msg]"
  "\<not> accepts ConnectionABI ''setAdmin'' [VString src]" "accepts ConnectionABI ''setAdmin'' [VAddress src]"
  "accepts ConnectionABI ''revertMessage'' [VBig sn]" "accepts ConnectionABI ''claimFees'' []"
  "accepts ConnectionABI ''setFee'' [VString src, VBig sn, VBig req]"
  "accepts XcallABI ''executeCall'' [VBig req, VBytes msg]" "accepts XcallABI ''executeRollback'' [VBig sn]"
  by (simp_all add: accepts_def table_defs)

lemmas method_names = MethodRecvMessage_def MethodSetAdmin_def MethodRevertMessage_def MethodClaimFees_def
  MethodSetFee_def MethodExecuteCall_def MethodExecuteRollback_def

lemmas transact_bindings = connection_binding_of_def xcall_binding_of_def EvmClient_ReceiveMessage_def
  EvmClient_ExecuteCall_def EvmClient_SetAdmin_def EvmClient_RevertMessage_def EvmClient_ClaimFee_def EvmClient_SetFee_def
  EvmClient_ExecuteRollback_def Connection_RecvMessage_def Connection_SetAdmin_def Connection_RevertMessage_def
  Connection_ClaimFees_def Connection_SetFee_def Xcall_ExecuteCall_def Xcall_ExecuteRollback_def

lemma contracts_differ: "XcallContract \<noteq> ConnectionContract"
  by (simp add: XcallContract_def ConnectionContract_def)

lemma transact_sends:
  assumes "er_connection c = connection_binding_of conn copts topts" "er_xcall c = xcall_binding_of xc topts"
  shows "EvmClient_transact c (ReceiveMessageCall src sn msg) =
      bc_Transact (bd_Transactor conn) topts MethodRecvMessage [VString src, VBig sn, VBytes msg]"
    and "EvmClient_transact c (ExecuteCallCall req msg) =
      bc_Transact (bd_Transactor xc) topts MethodExecuteCall [VBig req, VBytes msg]"
    and "EvmClient_transact c (SetAdminCall admin) = bc_Transact (bd_Transactor conn) topts MethodSetAdmin [VAddress admin]"
    and "EvmClient_transact c (RevertMessageCall sn) = bc_Transact (bd_Transactor conn) topts MethodRevertMessage [VBig sn]"
    and "EvmClient_transact c ClaimFeeCall = bc_Transact (bd_Transactor conn) topts MethodClaimFees []"
    and "EvmClient_transact c (SetFeeCall src m1 m2) =
      bc_Transact (bd_Transactor conn) topts MethodSetFee [VString src, VBig m1, VBig m2]"
    and "EvmClient_transact c (ExecuteRollbackCall sn) =
      bc_Transact (bd_Transactor xc) topts MethodExecuteRollback [VBig sn]"
  using assms by (simp_all add: transact_bindings method_names)

text \<open>Bindings over checked contracts, for a client whose node is not reached.\<close>

definition ex_bound :: "abi \<Rightarrow> unit contract_binding" where
  "ex_bound a = \<lparr>bd_Caller = checked a, bd_Transactor = checked a, bd_Filterer = checked a\<rparr>"

definition ex_eth :: eth_client where
  "ex_eth = \<lparr>eth_BlockNumber = Inl ''down'', eth_HeaderByNumber = \<lambda>h. Some ''down'', eth_FilterLogs = \<lambda>q n. Inl ''down'',
     eth_SuggestGasPrice = Inl ''down'', eth_SuggestGasTipCap = Inl ''down'', eth_PendingNonceAt = \<lambda>a. Inl ''down'',
     eth_TransactionReceipt = \<lambda>h n. QueryError ''down'', eth_EstimateGas = \<lambda>m. Inl ''down'', eth_CallContract = \<lambda>m. Inl ''down'',
     eth_BalanceAt = \<lambda>a. Inl ''down'', eth_SendTransaction = \<lambda>tx. Some ''down'', eth_SubscribeFilterLogs = \<lambda>q. Some ''down'',
     eth_ChainID = Inr 1\<rparr>"

definition ex_rpc :: evm_rpc where
  "ex_rpc = \<lparr>er_eth = ex_eth, er_ethRpc = ex_eth, er_EVMChainID = 1,
     er_connection = connection_binding_of (ex_bound ConnectionABI) () (), er_xcall = xcall_binding_of (ex_bound XcallABI) ()\<rparr>"

text \<open>
  C39. The call whose gas is estimated is the call that is sent: the same method of the same contract with
  the same arguments, which the contract's interface accepts. The exception is \<^verbatim>\<open>SetAdmin\<close>, whose estimate packs the
  text of the address where the method takes an address, so the interface refuses it.
\<close>
theorem estimated_call_is_sent:
  assumes "estimate_call m = Some (name, args, contract)"
    and "er_connection c = connection_binding_of conn copts topts" "er_xcall c = xcall_binding_of xc topts"
  shows "\<exists>call args'. transact_call cl m = Some call \<and>
    EvmClient_transact c call = bc_Transact (bd_Transactor (if contract = XcallContract then xc else conn)) topts name args' \<and>
    accepts (contract_abi contract) name args' \<and>
    (if m_event m = SetAdmin then \<not> accepts (contract_abi contract) name (map arg_value args) else args' = map arg_value args)"
proof -
  note sends = transact_sends [OF assms(2,3)]
  note abi = packed_conforms [folded method_names]
  have "m_event m \<in> {EmitMessage, SetAdmin, RevertMessage, ClaimFee, SetFee, CallMessage, RollbackMessage}"
    using assms(1) by (auto simp: estimate_call_def split: if_splits)
  then show ?thesis using assms(1) contracts_differ
    by (elim insertE emptyE)
      (auto simp: estimate_call_def transact_call_def sends abi contract_abi_def event_defs simp del: EvmClient_transact.simps)
qed

theorem estimated_call_is_sent_witness:
  "estimate_call ex_evm_message =
     Some (MethodRecvMessage, [AString ''icon'', ABig (Some 4), ABytes ''data''], ConnectionContract) \<and>
   transact_call ex_client ex_evm_message = Some (ReceiveMessageCall ''icon'' (Some 4) ''data'') \<and>
   (\<exists>args'. EvmClient_transact ex_rpc (ReceiveMessageCall ''icon'' (Some 4) ''data'') =
      bc_Transact (checked ConnectionABI) () MethodRecvMessage args' \<and>
      accepts ConnectionABI MethodRecvMessage args' \<and> args' = [VString ''icon'', VBig (Some 4), VBytes ''data''])"
proof -
  have e: "estimate_call ex_evm_message =
      Some (MethodRecvMessage, [AString ''icon'', ABig (Some 4), ABytes ''data''], ConnectionContract)"
    and t: "transact_call ex_client ex_evm_message = Some (ReceiveMessageCall ''icon'' (Some 4) ''data'')"
    and m: "m_event ex_evm_message \<noteq> SetAdmin"
    by (simp_all add: estimate_call_def transact_call_def ex_evm_message_def event_defs)
  from estimated_call_is_sent [OF e, of ex_rpc "ex_bound ConnectionABI" "()" "()" "ex_bound XcallABI" ex_client] e t m contracts_differ
  show ?thesis by (auto simp: ex_rpc_def ex_bound_def contract_abi_def simp del: EvmClient_transact.simps)
qed

end
