(* ===== verification/Wasm_Monitor.thy ===== *)
theory Wasm_Monitor
  imports Wasm_Props
begin

text \<open>
  The event loop of \<^verbatim>\<open>relayer/chains/wasm/provider.go\<close>: \<^verbatim>\<open>Listener\<close> with its two timers, and the goroutines
  of \<^verbatim>\<open>SubscribeMessageEvents\<close>, which restart them through \<^verbatim>\<open>resetFunc\<close>, as a step relation. Shown is how
  many subscriptions are alive, and that none is ever established again once the connection was
  lost.
\<close>

section \<open>The state of the listener\<close>

text \<open>
  A goroutine asks for its subscription, or has the events that arrived and were not read yet.
  \<open>wm_connected\<close> is \<^verbatim>\<open>IsConnected\<close> of the client in use. \<open>wm_starts\<close> and \<open>wm_resets\<close> count how often
  \<^verbatim>\<open>subscribeStarter\<close> fired and \<^verbatim>\<open>resetFunc\<close> was called.
\<close>

datatype wasm_sub = WStarting subscribe_opts | WActive subscribe_opts "tx_result_response list"

record wasm_monitor =
  wm_startHeight :: u64
  wm_latestHeight :: u64
  wm_starter :: bool
  wm_poll :: bool
  wm_connected :: bool
  wm_subs :: "wasm_sub list"
  wm_sent :: "block_info list"
  wm_starts :: nat
  wm_resets :: nat

definition Wasm_Listener_init :: "wasm_client \<Rightarrow> wasm_config \<Rightarrow> u64 \<Rightarrow> error + wasm_monitor" where
  "Wasm_Listener_init cl p lastSavedHeight = map_sum id (\<lambda>(startHeight, latestHeight).
     \<lparr>wm_startHeight = startHeight, wm_latestHeight = latestHeight, wm_starter = True, wm_poll = False,
      wm_connected = True, wm_subs = [], wm_sent = [], wm_starts = 0, wm_resets = 0\<rparr>)
     (Wasm_Listener_start cl p lastSavedHeight)"

definition resetFunc :: "wasm_monitor \<Rightarrow> wasm_monitor" where
  "resetFunc s = s\<lparr>wm_starter := True, wm_poll := True, wm_resets := Suc (wm_resets s)\<rparr>"

text \<open>The cases of the loop's \<^verbatim>\<open>select\<close>.\<close>

definition on_starter :: "wasm_client \<Rightarrow> wasm_config \<Rightarrow> wasm_monitor \<Rightarrow> wasm_monitor result option" where
  "on_starter cl p s = map_option (\<lambda>(blocks, startHeight, latestHeight). rmap (\<lambda>bs.
       s\<lparr>wm_starter := False, wm_startHeight := startHeight, wm_sent := wm_sent s @ bs, wm_starts := Suc (wm_starts s),
         wm_subs := wm_subs s @ map WStarting (Wasm_subscriptions (Wasm_eventMap p) latestHeight)\<rparr>) blocks)
     (Wasm_Listener_subscribe cl p (Wasm_GetMonitorEventFilters (Wasm_eventMap p)) (wm_startHeight s, wm_latestHeight s))"

definition on_poll :: "wasm_client \<Rightarrow> u64 \<Rightarrow> wasm_monitor \<Rightarrow> wasm_monitor" where
  "on_poll cl lastSaved s =
     (let (startHeight, latestHeight) = Wasm_Listener_poll cl lastSaved (wm_startHeight s, wm_latestHeight s)
      in s\<lparr>wm_startHeight := startHeight, wm_latestHeight := latestHeight,
           wm_poll := (case wk_GetLatestBlockHeight cl of Inl e \<Rightarrow> True | Inr h \<Rightarrow> False)\<rparr>)"

text \<open>The end of a subscription's goroutine, and its steps.\<close>

definition sub_returns :: "nat \<Rightarrow> wasm_monitor \<Rightarrow> wasm_monitor" where
  "sub_returns i s = s\<lparr>wm_subs := take i (wm_subs s) @ drop (Suc i) (wm_subs s)\<rparr>"

definition on_subscribe :: "nat \<Rightarrow> subscribe_opts \<Rightarrow> error option \<Rightarrow> wasm_monitor \<Rightarrow> wasm_monitor" where
  "on_subscribe i opts err s = (case err of
      Some e \<Rightarrow> sub_returns i (resetFunc s)
    | None \<Rightarrow> s\<lparr>wm_subs := (wm_subs s)[i := WActive opts []]\<rparr>)"

text \<open>\<open>decoded\<close> is the event after \<^verbatim>\<open>jsoniter\<close>, or nothing when that failed.\<close>

definition on_sub_event ::
    "wasm_config \<Rightarrow> nat \<Rightarrow> subscribe_opts \<Rightarrow> tx_result_response option \<Rightarrow> tx_result_response list
     \<Rightarrow> wasm_monitor \<Rightarrow> wasm_monitor result" where
  "on_sub_event p i opts decoded q s = (case decoded of
      None \<Rightarrow> Ok (s\<lparr>wm_subs := (wm_subs s)[i := WActive opts q]\<rparr>)
    | Some res \<Rightarrow> rmap (\<lambda>(block, opts').
        s\<lparr>wm_subs := (wm_subs s)[i := WActive opts' q],
          wm_sent := wm_sent s @ (case block of None \<Rightarrow> [] | Some b \<Rightarrow> [b])\<rparr>) (on_subscribed_event p opts res))"

text \<open>Two minutes without an event; \<open>fresh\<close> is whether a client that \<^verbatim>\<open>http.New\<close> just made is running.\<close>

definition on_idle :: "bool \<Rightarrow> error option \<Rightarrow> nat \<Rightarrow> wasm_monitor \<Rightarrow> wasm_monitor" where
  "on_idle fresh reconnect i s =
     (if wm_connected s then s
      else case reconnect of
          Some e \<Rightarrow> s
        | None \<Rightarrow> sub_returns i (resetFunc (s\<lparr>wm_connected := fresh\<rparr>)))"

section \<open>Steps\<close>

text \<open>
  The answers of the client are those of the moment. A subscription is refused by a client that is
  not running; the node may also refuse it.
\<close>

inductive wasm_step :: "wasm_config \<Rightarrow> bool \<Rightarrow> wasm_monitor \<Rightarrow> wasm_monitor \<Rightarrow> bool"
  for p :: wasm_config and fresh :: bool where
  starter: "wm_starter s \<Longrightarrow> on_starter cl p s = Some (Ok s') \<Longrightarrow> wasm_step p fresh s s'"
| poll: "wm_poll s \<Longrightarrow> wasm_step p fresh s (on_poll cl lastSaved s)"
| subscribe: "i < length (wm_subs s) \<Longrightarrow> wm_subs s ! i = WStarting opts \<Longrightarrow> err = None \<longrightarrow> wm_connected s \<Longrightarrow>
    wasm_step p fresh s (on_subscribe i opts err s)"
| arrives: "i < length (wm_subs s) \<Longrightarrow> wm_subs s ! i = WActive opts q \<Longrightarrow> wm_connected s \<Longrightarrow>
    wasm_step p fresh s (s\<lparr>wm_subs := (wm_subs s)[i := WActive opts (q @ [ev])]\<rparr>)"
| event: "i < length (wm_subs s) \<Longrightarrow> wm_subs s ! i = WActive opts (ev # q) \<Longrightarrow> decoded \<in> {None, Some ev} \<Longrightarrow>
    on_sub_event p i opts decoded q s = Ok s' \<Longrightarrow> wasm_step p fresh s s'"
| lost: "wasm_step p fresh s (s\<lparr>wm_connected := False\<rparr>)"
| idle: "i < length (wm_subs s) \<Longrightarrow> wm_subs s ! i = WActive opts [] \<Longrightarrow>
    wasm_step p fresh s (on_idle fresh reconnect i s)"

inductive wasm_steps :: "wasm_config \<Rightarrow> bool \<Rightarrow> wasm_monitor \<Rightarrow> wasm_monitor \<Rightarrow> bool"
  for p :: wasm_config and fresh :: bool where
  refl: "wasm_steps p fresh s s"
| step: "wasm_steps p fresh s s' \<Longrightarrow> wasm_step p fresh s' s'' \<Longrightarrow> wasm_steps p fresh s s''"

section \<open>How many subscriptions are alive\<close>

definition events_of :: "wasm_config \<Rightarrow> nat" where
  "events_of p = length (concat (map (\<lambda>(addr, event). em_sigtype event) (Wasm_eventMap p)))"

lemma length_subscriptions: "length (Wasm_subscriptions (Wasm_eventMap p) h) = events_of p"
  unfolding Wasm_subscriptions_def events_of_def by (simp add: length_concat comp_def case_prod_beta)

definition sub_count_ok :: "wasm_config \<Rightarrow> wasm_monitor \<Rightarrow> bool" where
  "sub_count_ok p s = (length (wm_subs s) + wm_resets s = events_of p * wm_starts s \<and>
     wm_starts s + (if wm_starter s then 1 else 0) \<le> Suc (wm_resets s) \<and>
     (wm_starter s \<or> events_of p \<le> length (wm_subs s)))"

lemma on_starter_fields:
  assumes "on_starter cl p s = Some (Ok s')"
  shows "length (wm_subs s') = length (wm_subs s) + events_of p" "wm_resets s' = wm_resets s"
    "wm_starts s' = Suc (wm_starts s)" "\<not> wm_starter s'" "wm_connected s' = wm_connected s"
    "\<exists>subs. wm_subs s' = wm_subs s @ map WStarting subs"
  using assms
  by (auto simp: on_starter_def length_subscriptions rmap_eq_Ok)

lemma on_sub_event_fields:
  assumes "on_sub_event p i opts decoded q s = Ok s'"
  shows "wm_resets s' = wm_resets s" "wm_starts s' = wm_starts s" "wm_starter s' = wm_starter s"
    "wm_connected s' = wm_connected s" "\<exists>opts'. wm_subs s' = (wm_subs s)[i := WActive opts' q]"
  using assms
  by (cases decoded; fastforce simp: on_sub_event_def)+

lemma sub_returns_fields [simp]:
  "wm_resets (sub_returns i s) = wm_resets s" "wm_starts (sub_returns i s) = wm_starts s"
  "wm_starter (sub_returns i s) = wm_starter s" "wm_connected (sub_returns i s) = wm_connected s"
  "i < length (wm_subs s) \<Longrightarrow> length (wm_subs (sub_returns i s)) = length (wm_subs s) - 1"
  by (simp_all add: sub_returns_def)

lemma resetFunc_fields [simp]:
  "wm_resets (resetFunc s) = Suc (wm_resets s)" "wm_starts (resetFunc s) = wm_starts s"
  "wm_starter (resetFunc s)" "wm_connected (resetFunc s) = wm_connected s" "wm_subs (resetFunc s) = wm_subs s"
  by (simp_all add: resetFunc_def)

text \<open>A goroutine that ends has called \<^verbatim>\<open>resetFunc\<close>, so the balance of the two counts stays.\<close>

lemma sub_count_returns:
  assumes "sub_count_ok p s" "i < length (wm_subs s)" "wm_subs t = wm_subs s" "wm_resets t = wm_resets s"
    "wm_starts t = wm_starts s" "wm_starter t = wm_starter s"
  shows "sub_count_ok p (sub_returns i (resetFunc t))"
  using assms by (auto simp: sub_count_ok_def split: if_splits)

lemma sub_count_step:
  assumes "wasm_step p fresh s s'" "sub_count_ok p s"
  shows "sub_count_ok p s'"
  using assms
proof (induction rule: wasm_step.induct)
  case (starter s cl s')
  then show ?case using on_starter_fields [OF starter(2)] by (auto simp: sub_count_ok_def)
next
  case (poll s cl lastSaved)
  then show ?case by (simp add: sub_count_ok_def on_poll_def case_prod_beta)
next
  case (subscribe i s opts err)
  then show ?case using sub_count_returns [of p s i s]
    by (cases err) (simp_all add: on_subscribe_def, simp add: sub_count_ok_def)
next
  case (event i s opts ev q decoded s')
  then show ?case using on_sub_event_fields [OF event(4)] by (auto simp: sub_count_ok_def)
next
  case (idle i s opts reconnect)
  then show ?case using sub_count_returns [of p s i "s\<lparr>wm_connected := fresh\<rparr>"]
    by (cases reconnect) (simp_all add: on_idle_def)
qed (simp_all add: sub_count_ok_def)

lemma sub_count_steps: "wasm_steps p fresh s s' \<Longrightarrow> sub_count_ok p s \<Longrightarrow> sub_count_ok p s'"
  by (induction rule: wasm_steps.induct) (auto intro: sub_count_step)

lemma sub_count_bound:
  assumes "sub_count_ok p s" "n = events_of p"
  shows "length (wm_subs s) \<le> n + (n - 1) * wm_resets s"
    "0 < n \<Longrightarrow> length (wm_subs s) = n + (n - 1) * wm_resets s \<longleftrightarrow> wm_starts s = Suc (wm_resets s)"
proof -
  have c: "length (wm_subs s) + wm_resets s = n * wm_starts s" "wm_starts s \<le> Suc (wm_resets s)"
    using assms by (auto simp: sub_count_ok_def split: if_splits)
  have full: "n + (n - 1) * wm_resets s + wm_resets s = n * Suc (wm_resets s)" if "0 < n"
    using that by (cases n) simp_all
  show "length (wm_subs s) \<le> n + (n - 1) * wm_resets s"
  proof (cases "n = 0")
    case False
    then show ?thesis using c(1) full mult_le_mono2 [OF c(2), of n] by linarith
  qed (use c in simp)
  show "length (wm_subs s) = n + (n - 1) * wm_resets s \<longleftrightarrow> wm_starts s = Suc (wm_resets s)" if "0 < n"
  proof -
    have "length (wm_subs s) = n + (n - 1) * wm_resets s \<longleftrightarrow> n * wm_starts s = n * Suc (wm_resets s)"
      using c(1) full [OF that] by linarith
    then show ?thesis using nat_mult_eq_cancel1 [OF that] by metis
  qed
qed

text \<open>
  C14. The subscriptions of the CosmWasm listener. Every goroutine that ends resets the timer once,
  and each time the timer fires, one goroutine is started for each of the \<open>n\<close> events of all contracts,
  whether the others are alive or not. So after \<open>starts\<close> firings and \<open>resets\<close> resets, in any order,
  \<open>n * starts - resets\<close> goroutines are alive. While the timer is not set, at least the \<open>n\<close> wanted ones
  are; with \<open>k\<close> resets at most \<open>n + (n - 1) * k\<close>, and exactly so many if and only if the timer fired
  after each reset on its own, instead of once for several goroutines lost together.
\<close>
theorem wasm_subscription_count:
  assumes "Wasm_Listener_init cl p lastSaved = Inr s0" "wasm_steps p fresh s0 s" "n = events_of p"
  shows "length (wm_subs s) + wm_resets s = n * wm_starts s \<and> wm_starts s \<le> Suc (wm_resets s) \<and>
    (\<not> wm_starter s \<longrightarrow> n \<le> length (wm_subs s)) \<and>
    length (wm_subs s) \<le> n + (n - 1) * wm_resets s \<and>
    (0 < n \<longrightarrow> (length (wm_subs s) = n + (n - 1) * wm_resets s) = (wm_starts s = Suc (wm_resets s)))"
proof -
  have "sub_count_ok p s0" using assms(1) by (auto simp: Wasm_Listener_init_def sub_count_ok_def map_sum_def split: sum.splits)
  then have ok: "sub_count_ok p s" using assms(2) sub_count_steps by blast
  then have "length (wm_subs s) + wm_resets s = n * wm_starts s" "wm_starts s \<le> Suc (wm_resets s)"
    "\<not> wm_starter s \<longrightarrow> n \<le> length (wm_subs s)"
    using assms(3) by (auto simp: sub_count_ok_def split: if_splits)
  with sub_count_bound [OF ok assms(3)] show ?thesis by blast
qed

text \<open>A listener that is up to date starts its three subscriptions; one is refused; the timer fires again.\<close>

definition ex_listener :: wasm_monitor where
  "ex_listener = \<lparr>wm_startHeight = 120, wm_latestHeight = 120, wm_starter = True, wm_poll = False, wm_connected = True,
     wm_subs = [], wm_sent = [], wm_starts = 0, wm_resets = 0\<rparr>"

definition ex_starts :: "wasm_monitor \<Rightarrow> wasm_monitor" where
  "ex_starts s = s\<lparr>wm_starter := False, wm_starts := Suc (wm_starts s),
     wm_subs := wm_subs s @ map WStarting (Wasm_subscriptions (Wasm_eventMap ex_wasm_config) (wm_latestHeight s))\<rparr>"

lemma ex_starter:
  assumes "wm_starter s" "wm_startHeight s = wm_latestHeight s"
  shows "wasm_step ex_wasm_config fresh s (ex_starts s)"
  using assms by (intro wasm_step.starter [where cl = "ex_wasm_client []"])
    (simp_all add: on_starter_def Wasm_Listener_subscribe_def ex_starts_def)

definition ex_subscribed :: wasm_monitor where
  "ex_subscribed = on_subscribe 0 (hd (Wasm_subscriptions (Wasm_eventMap ex_wasm_config) 120)) None (ex_starts ex_listener)"

definition ex_refused :: wasm_monitor where
  "ex_refused = on_subscribe 2 (last (Wasm_subscriptions (Wasm_eventMap ex_wasm_config) 120)) (Some ''refused'') ex_subscribed"

lemma ex_refused_steps: "wasm_steps ex_wasm_config fresh ex_listener (ex_starts ex_refused)"
proof -
  have a: "wasm_step ex_wasm_config fresh ex_listener (ex_starts ex_listener)"
    by (rule ex_starter) (simp_all add: ex_listener_def)
  have b: "wasm_step ex_wasm_config fresh (ex_starts ex_listener) ex_subscribed"
    unfolding ex_subscribed_def by (rule wasm_step.subscribe) (code_simp+)
  have c: "wasm_step ex_wasm_config fresh ex_subscribed ex_refused"
    unfolding ex_refused_def by (rule wasm_step.subscribe) (code_simp, code_simp, simp)
  have d: "wasm_step ex_wasm_config fresh ex_refused (ex_starts ex_refused)"
    by (rule ex_starter) (simp_all add: ex_refused_def ex_subscribed_def ex_listener_def on_subscribe_def ex_starts_def
        sub_returns_def resetFunc_def)
  show ?thesis
    by (rule wasm_steps.step [OF wasm_steps.step [OF wasm_steps.step [OF wasm_steps.step [OF wasm_steps.refl a] b] c] d])
qed

theorem wasm_subscription_count_witness: "length (wm_subs (ex_starts ex_refused)) = 5"
proof -
  have init: "Wasm_Listener_init (ex_wasm_client []) ex_wasm_config 0 = Inr ex_listener"
    by (simp add: Wasm_Listener_init_def Wasm_Listener_start_def getStartHeight_def ex_wasm_client_def ex_wasm_config_def
        ex_listener_def)
  have "events_of ex_wasm_config = 3" "wm_starts (ex_starts ex_refused) = 2" "wm_resets (ex_starts ex_refused) = 1"
    by code_simp+
  with wasm_subscription_count [OF init ex_refused_steps HOL.refl] show ?thesis by simp
qed

section \<open>After the connection is lost\<close>

fun is_active :: "wasm_sub \<Rightarrow> bool" where
  "is_active (WStarting opts) = False"
| "is_active (WActive opts q) = True"

definition active_subs :: "wasm_monitor \<Rightarrow> nat" where
  "active_subs s = length (filter is_active (wm_subs s))"

lemma filter_update_same:
  assumes "P x = P (xs ! i)"
  shows "length (filter P (xs[i := x])) = length (filter P xs)"
  using assms by (induction xs arbitrary: i) (auto split: nat.split)

lemma filter_remove_le: "length (filter P (take i xs @ drop (Suc i) xs)) \<le> length (filter P xs)"
proof (cases "i < length xs")
  case True
  show ?thesis by (subst (3) id_take_nth_drop [OF True]) simp
qed simp

lemma active_returns: "active_subs (sub_returns i s) \<le> active_subs s"
  using filter_remove_le by (simp add: active_subs_def sub_returns_def del: filter_append)

lemma disconnected_step:
  assumes "wasm_step p False s s'" "\<not> wm_connected s"
  shows "\<not> wm_connected s' \<and> active_subs s' \<le> active_subs s"
  using assms
proof (induction rule: wasm_step.induct)
  case (starter s cl s')
  then show ?case using on_starter_fields(5,6) [OF starter(2)] by (auto simp: active_subs_def)
next
  case (poll s cl lastSaved)
  then show ?case by (simp add: active_subs_def on_poll_def case_prod_beta)
next
  case (subscribe i s opts err)
  then show ?case using active_returns [of i "resetFunc s"]
    by (cases err) (simp_all add: on_subscribe_def active_subs_def)
next
  case (event i s opts ev q decoded s')
  then obtain opts' where "wm_subs s' = (wm_subs s)[i := WActive opts' q]" using on_sub_event_fields(5) by blast
  then show ?case using event on_sub_event_fields(4) [OF event(4)] by (simp add: active_subs_def filter_update_same)
next
  case (idle i s opts reconnect)
  then show ?case using active_returns [of i "resetFunc (s\<lparr>wm_connected := False\<rparr>)"]
    by (cases reconnect) (simp_all add: on_idle_def active_subs_def)
qed (simp_all add: active_subs_def)

text \<open>
  C15. \<^verbatim>\<open>Reconnect\<close> makes a client and does not start it. A client of the CometBFT library does not run
  before it is started, so once the connection was lost it never comes back, no subscription is
  established again, and the provider is left with the searches of its timers.
\<close>
theorem wasm_never_resubscribes:
  assumes "\<not> wm_connected s" "wasm_steps p False s s'"
  shows "\<not> wm_connected s' \<and> active_subs s' \<le> active_subs s"
  using assms(2,1) by (induction rule: wasm_steps.induct) (use disconnected_step in fastforce)+

theorem wasm_never_resubscribes_witness:
  "active_subs ex_subscribed = 1 \<and> active_subs (on_idle False None 0 (ex_subscribed\<lparr>wm_connected := False\<rparr>)) = 0 \<and>
    \<not> wm_connected (on_idle False None 0 (ex_subscribed\<lparr>wm_connected := False\<rparr>))"
proof -
  let ?s = "ex_subscribed\<lparr>wm_connected := False\<rparr>"
  have "wasm_steps ex_wasm_config False ?s (on_idle False None 0 ?s)"
    by (rule wasm_steps.step [OF wasm_steps.refl wasm_step.idle
        [of 0 _ "hd (Wasm_subscriptions (Wasm_eventMap ex_wasm_config) 120)"]]) (code_simp+)
  from wasm_never_resubscribes [OF _ this]
  have "\<not> wm_connected (on_idle False None 0 ?s)" by simp
  moreover have "active_subs ex_subscribed = 1" "active_subs (on_idle False None 0 ?s) = 0" by code_simp+
  ultimately show ?thesis by simp
qed

section \<open>Streams nothing calls\<close>

text \<open>
  \<^verbatim>\<open>getBlockInfoStream\<close> searches a range again until the search succeeds, which need not happen;
  \<open>fetch n\<close> is the \<open>n\<close>-th search.
\<close>

partial_function (option) fetch_until :: "(nat \<Rightarrow> block_info list result) \<Rightarrow> nat \<Rightarrow> block_info list result option" where
  "fetch_until fetch n = (case fetch n of
      Err e \<Rightarrow> fetch_until fetch (Suc n) | Ok bs \<Rightarrow> Some (Ok bs) | Panic e \<Rightarrow> Some (Panic e))"

fun getBlockInfoStream ::
    "(height_range \<Rightarrow> nat \<Rightarrow> block_info list result) \<Rightarrow> height_range list \<Rightarrow> block_info list result option" where
  "getBlockInfoStream fetch [] = Some (Ok [])"
| "getBlockInfoStream fetch (height # heights) = Option.bind (fetch_until (fetch height) 0) (\<lambda>r.
     map_option (\<lambda>rest. rbind r (\<lambda>bs. rmap ((@) bs) rest)) (getBlockInfoStream fetch heights))"

text \<open>\<^verbatim>\<open>pollTxResultStream\<close>: the answer of every tick with the time since the start; no answer when the ticks end.\<close>

fun pollTxResultStream :: "i64 \<Rightarrow> ((error + tx_response) \<times> i64) list \<Rightarrow> (error + tx_response) option" where
  "pollTxResultStream maxWaitInterval [] = None"
| "pollTxResultStream maxWaitInterval ((Inr res, elapsed) # ticks) = Some (Inr res)"
| "pollTxResultStream maxWaitInterval ((Inl e, elapsed) # ticks) =
     (if sint elapsed > sint maxWaitInterval then Some (Inl e) else pollTxResultStream maxWaitInterval ticks)"

lemma fetch_until_succeeds:
  assumes "fetch k = Ok bs" "n \<le> k" "\<And>i. n \<le> i \<Longrightarrow> i < k \<Longrightarrow> \<exists>e. fetch i = Err e"
  shows "fetch_until fetch n = Some (Ok bs)"
  using assms(2,3)
proof (induction "k - n" arbitrary: n)
  case 0
  then have "n = k" by simp
  with assms(1) show ?case by (simp add: fetch_until.simps [of fetch k])
next
  case (Suc d)
  then obtain e where "fetch n = Err e" by (metis diff_is_0_eq' linorder_not_less nat.simps(3) order_refl)
  moreover have "fetch_until fetch (Suc n) = Some (Ok bs)" using Suc by (intro Suc.hyps) auto
  ultimately show ?case by (simp add: fetch_until.simps [of fetch n])
qed

text \<open>When every range is served at some attempt, the stream has the blocks of all ranges in order.\<close>

lemma block_info_stream:
  assumes "\<And>h. h \<in> set heights \<Longrightarrow> \<exists>k. fetch h k = Ok (blocks h) \<and> (\<forall>i < k. \<exists>e. fetch h i = Err e)"
  shows "getBlockInfoStream fetch heights = Some (Ok (concat (map blocks heights)))"
  using assms
proof (induction heights)
  case (Cons h heights)
  then obtain k where "fetch h k = Ok (blocks h)" "\<forall>i < k. \<exists>e. fetch h i = Err e" by auto
  then have "fetch_until (fetch h) 0 = Some (Ok (blocks h))" by (intro fetch_until_succeeds) auto
  with Cons show ?case by simp
qed simp

lemma poll_stream_ends:
  assumes "(answer, elapsed) \<in> set ticks" "sint maxWaitInterval < sint elapsed"
  shows "pollTxResultStream maxWaitInterval ticks \<noteq> None"
  using assms by (induction maxWaitInterval ticks rule: pollTxResultStream.induct) auto

end
