(* ===== verification/Wasm_Client.thy ===== *)
theory Wasm_Client
  imports Wasm_Monitor
begin

text \<open>
  \<^verbatim>\<open>relayer/chains/wasm/client.go\<close> and \<^verbatim>\<open>newClientContext\<close> of \<^verbatim>\<open>config.go\<close>: the client the provider is given, over
  the CometBFT client, the gRPC queries of the Cosmos SDK and the keyring. The part of the client's
  context that it changes is \<open>sdk_context\<close>.
\<close>

section \<open>The context\<close>

text \<open>An \<^verbatim>\<open>http.HTTP\<close> client: whether it was started.\<close>

record comet_client =
  ch_Running :: bool

record sdk_context =
  cx_ChainID :: string
  cx_Client :: comet_client
  cx_NodeURI :: string
  cx_From :: bytes
  cx_FromName :: string
  cx_FeePayer :: bytes
  cx_FeeGranter :: bytes
  cx_Simulate :: bool

text \<open>\<^verbatim>\<open>http.New\<close> parses the address; the client it returns is not started.\<close>

definition http_New :: "error option \<Rightarrow> error + comet_client" where
  "http_New err = (case err of Some e \<Rightarrow> Inl e | None \<Rightarrow> Inr \<lparr>ch_Running = False\<rparr>)"

definition comet_Start :: "error option \<Rightarrow> comet_client \<Rightarrow> error option \<times> comet_client" where
  "comet_Start err c = (case err of Some e \<Rightarrow> (Some e, c) | None \<Rightarrow> (None, c\<lparr>ch_Running := True\<rparr>))"

text \<open>
  The answers are those of the keyring, \<^verbatim>\<open>http.New\<close>, gRPC, \<^verbatim>\<open>Status\<close> (the network) and \<^verbatim>\<open>Start\<close>. The context is
  returned beside the error of \<^verbatim>\<open>Start\<close>.
\<close>

definition newClientContext ::
    "error option \<Rightarrow> error option \<Rightarrow> error option \<Rightarrow> error + string \<Rightarrow> error option \<Rightarrow> string \<Rightarrow> bool
     \<Rightarrow> error + sdk_context" where
  "newClientContext keyringErr httpErr grpcErr network startErr rpcUrl simulate =
     (case keyringErr of Some e \<Rightarrow> Inl e | None \<Rightarrow>
      case http_New httpErr of Inl e \<Rightarrow> Inl e | Inr client \<Rightarrow>
      case grpcErr of Some e \<Rightarrow> Inl e | None \<Rightarrow>
      case network of Inl e \<Rightarrow> Inl e | Inr chain \<Rightarrow>
      case comet_Start startErr client of (Some e, c) \<Rightarrow> Inl e | (None, c) \<Rightarrow>
        Inr \<lparr>cx_ChainID = chain, cx_Client = c, cx_NodeURI = rpcUrl, cx_From = '''', cx_FromName = '''', cx_FeePayer = '''',
             cx_FeeGranter = '''', cx_Simulate = simulate\<rparr>)"

definition WasmClient_IsConnected :: "sdk_context \<Rightarrow> bool" where
  "WasmClient_IsConnected ctx = ch_Running (cx_Client ctx)"

definition WasmClient_Reconnect :: "error option \<Rightarrow> sdk_context \<Rightarrow> error option \<times> sdk_context" where
  "WasmClient_Reconnect err ctx = (case http_New err of
      Inl e \<Rightarrow> (Some e, ctx) | Inr client \<Rightarrow> (None, ctx\<lparr>cx_Client := client\<rparr>))"

text \<open>A client that does not run refuses every subscription; \<open>answer\<close> is the node's.\<close>

definition WasmClient_Subscribe :: "error option \<Rightarrow> sdk_context \<Rightarrow> error option" where
  "WasmClient_Subscribe answer ctx =
     (if \<not> ch_Running (cx_Client ctx) then Some ''client is not running. Use .Start() method to start'' else answer)"

text \<open>\<^verbatim>\<open>SetAddress\<close>; \<open>keyByAddress\<close> is the keyring's name of the key.\<close>

definition WasmClient_SetAddress :: "(bytes \<Rightarrow> error + string) \<Rightarrow> bytes \<Rightarrow> sdk_context \<Rightarrow> bytes \<times> sdk_context" where
  "WasmClient_SetAddress keyByAddress addr ctx = (case keyByAddress addr of
      Inl e \<Rightarrow> ('''', ctx)
    | Inr name \<Rightarrow> (addr, ctx\<lparr>cx_From := addr, cx_FeePayer := addr, cx_FromName := name, cx_FeeGranter := addr\<rparr>))"

section \<open>Queries\<close>

record sdk_queries =
  sq_Status :: "error + i64"
  sq_GetTx :: "string \<Rightarrow> error + tx_receipt"
  sq_Balance :: "string \<Rightarrow> string \<Rightarrow> error + (string \<times> int)"
  sq_Account :: "string \<Rightarrow> error + bytes"
  sq_UnpackAny :: "bytes \<Rightarrow> error + account"
  sq_SmartContractState :: "string \<Rightarrow> query_msg \<Rightarrow> error + bytes"
  sq_UnmarshalString :: "bytes \<Rightarrow> error + string"
  sq_TxSearch :: "string \<Rightarrow> int option \<Rightarrow> int option \<Rightarrow> error + (result_tx list \<times> int)"

definition WasmClient_GetLatestBlockHeight :: "sdk_queries \<Rightarrow> error + u64" where
  "WasmClient_GetLatestBlockHeight q = sq_Status q"

definition WasmClient_GetTransactionReceipt :: "sdk_queries \<Rightarrow> string \<Rightarrow> error + tx_receipt" where
  "WasmClient_GetTransactionReceipt q txHash = sq_GetTx q txHash"

definition WasmClient_GetBalance :: "sdk_queries \<Rightarrow> string \<Rightarrow> string \<Rightarrow> error + (string \<times> int)" where
  "WasmClient_GetBalance q addr denomination = sq_Balance q addr denomination"

text \<open>The account after the call that unpacks it, as the Go compiler orders the two.\<close>

definition WasmClient_GetAccountInfo :: "sdk_queries \<Rightarrow> string \<Rightarrow> error + account" where
  "WasmClient_GetAccountInfo q addr = (case sq_Account q addr of Inl e \<Rightarrow> Inl e | Inr any \<Rightarrow> sq_UnpackAny q any)"

definition WasmClient_TxSearch :: "sdk_queries \<Rightarrow> tx_search_param \<Rightarrow> error + (result_tx list \<times> int)" where
  "WasmClient_TxSearch q param = sq_TxSearch q (BuildQuery param) (sp_Page param) (sp_PerPage param)"

definition WasmClient_QuerySmartContract :: "sdk_queries \<Rightarrow> string \<Rightarrow> query_msg \<Rightarrow> error + bytes" where
  "WasmClient_QuerySmartContract q address queryData = sq_SmartContractState q address queryData"

text \<open>\<^verbatim>\<open>strconv.ParseUint\<close> with base 10 and 64 bits.\<close>

definition ParseUint64 :: "string \<Rightarrow> error + u64" where
  "ParseUint64 s =
     (if HasPrefix s ''+'' \<or> HasPrefix s ''-'' then Inl ''invalid syntax''
      else case str_int 10 s of
          None \<Rightarrow> Inl ''invalid syntax''
        | Some i \<Rightarrow> if i < 2 ^ 64 then Inr (word_of_int i) else Inl ''value out of range'')"

definition WasmClient_GetFee :: "sdk_queries \<Rightarrow> string \<Rightarrow> query_msg \<Rightarrow> error + u64" where
  "WasmClient_GetFee q addr queryData = (case WasmClient_QuerySmartContract q addr queryData of
      Inl e \<Rightarrow> Inl e
    | Inr res \<Rightarrow> (case sq_UnmarshalString q res of Inl e \<Rightarrow> Inl e | Inr feeStr \<Rightarrow> ParseUint64 feeStr))"

section \<open>Transactions\<close>

record sdk_tx =
  sx_NewFactory :: "sdk_context \<Rightarrow> error + tx_factory"
  sx_CalculateGas :: "sdk_context \<Rightarrow> tx_factory \<Rightarrow> execute_contract \<Rightarrow> error + u64"
  sx_BuildUnsigned :: "tx_factory \<Rightarrow> execute_contract \<Rightarrow> error + bytes"
  sx_Sign :: "tx_factory \<Rightarrow> string \<Rightarrow> bytes \<Rightarrow> error + bytes"
  sx_Encode :: "bytes \<Rightarrow> error + bytes"

definition WasmClient_BuildTxFactory :: "sdk_tx \<Rightarrow> sdk_context \<Rightarrow> error + tx_factory" where
  "WasmClient_BuildTxFactory x ctx = map_sum id (\<lambda>txf. txf\<lparr>tf_SimulateAndExecute := cx_Simulate ctx\<rparr>) (sx_NewFactory x ctx)"

definition WasmClient_EstimateGas :: "sdk_tx \<Rightarrow> sdk_context \<Rightarrow> tx_factory \<Rightarrow> execute_contract \<Rightarrow> error + u64" where
  "WasmClient_EstimateGas x ctx txf msg = sx_CalculateGas x ctx txf msg"

definition WasmClient_PrepareTx :: "sdk_tx \<Rightarrow> sdk_context \<Rightarrow> tx_factory \<Rightarrow> execute_contract \<Rightarrow> error + bytes" where
  "WasmClient_PrepareTx x ctx txf msg = (case sx_BuildUnsigned x txf msg of
      Inl e \<Rightarrow> Inl e
    | Inr tx \<Rightarrow> (case sx_Sign x txf (cx_FromName ctx) tx of Inl e \<Rightarrow> Inl e | Inr tx1 \<Rightarrow> sx_Encode x tx1))"

section \<open>What the provider sees\<close>

lemma new_context_runs: "newClientContext k h g n s url sim = Inr ctx \<Longrightarrow> WasmClient_IsConnected ctx"
  by (auto simp: newClientContext_def WasmClient_IsConnected_def comet_Start_def
      split: option.splits sum.splits prod.splits)

text \<open>
  After a reconnection the client does not run, whatever it did before, and refuses subscriptions: this
  is the value \<open>False\<close> the event loop of \<open>Wasm_Monitor\<close> is given for a fresh client.
\<close>

lemma reconnect_does_not_run:
  "WasmClient_Reconnect err ctx = (None, ctx') \<Longrightarrow> \<not> WasmClient_IsConnected ctx' \<and> WasmClient_Subscribe answer ctx' \<noteq> None"
  by (auto simp: WasmClient_Reconnect_def http_New_def WasmClient_IsConnected_def WasmClient_Subscribe_def
      split: option.splits sum.splits)

lemma on_idle_reconnects:
  assumes "wm_connected s = WasmClient_IsConnected ctx" "\<not> wm_connected s" "WasmClient_Reconnect err ctx = (e, ctx')"
  shows "wm_connected (on_idle (WasmClient_IsConnected ctx') e i s) = WasmClient_IsConnected ctx'"
  using assms by (auto simp: on_idle_def WasmClient_Reconnect_def http_New_def WasmClient_IsConnected_def
      split: option.splits sum.splits)

text \<open>A fee is read back from its decimal text.\<close>

lemma ParseUint64_decimal:
  fixes n :: u64
  shows "ParseUint64 (int_str 10 (uint n)) = Inr n"
proof -
  have "\<not> HasPrefix (int_str 10 (uint n)) ''+''" "\<not> HasPrefix (int_str 10 (uint n)) ''-''"
    using nat_str_no_sign [of 10 "nat (uint n)"] by (cases "nat_str 10 (nat (uint n))"; auto simp: int_str_def HasPrefix_def)+
  then show ?thesis using uint_lt2p [of n] by (simp add: ParseUint64_def)
qed

end
