(* ===== verification/Wasm_Sdk.thy ===== *)
theory Wasm_Sdk
  imports Go_Files
begin

text \<open>
  The Cosmos SDK as the CosmWasm client and its keystore use it: the global configuration with the
  prefixes of addresses (\<^verbatim>\<open>relayer/chains/wasm/codec.go\<close>), and the calls of \<^verbatim>\<open>client.go\<close> to the keyring. The
  SDK is third-party code: \<open>key_lib\<close> is the record of its answers, for a keyring that is a state \<^typ>\<open>'r\<close>.
\<close>

section \<open>The prefixes of addresses\<close>

record sdk_config =
  sc_Account :: "string \<times> string"
  sc_Validator :: "string \<times> string"
  sc_Consensus :: "string \<times> string"

definition sdk_prefixes :: "string \<Rightarrow> sdk_config" where
  "sdk_prefixes prefix = \<lparr>sc_Account = (prefix, prefix @ ''pub''), sc_Validator = (prefix @ ''valoper'', prefix @ ''valoperpub''),
     sc_Consensus = (prefix @ ''valcons'', prefix @ ''valconspub'')\<rparr>"

text \<open>The global state: the configuration, which starts with the SDK's own prefix, and the holder of the mutex.\<close>

record sdk_global =
  gl_config :: sdk_config
  gl_mutex :: "nat option"

definition sdk_start :: sdk_global where
  "sdk_start = \<lparr>gl_config = sdk_prefixes ''cosmos'', gl_mutex = None\<rparr>"

text \<open>\<^verbatim>\<open>SetSDKConfigContext\<close> waits for the mutex (\<^const>\<open>None\<close> while it is held) and returns its release.\<close>

definition SetSDKConfigContext :: "nat \<Rightarrow> string \<Rightarrow> sdk_global \<Rightarrow> sdk_global option" where
  "SetSDKConfigContext i prefix g = (case gl_mutex g of
      Some j \<Rightarrow> None | None \<Rightarrow> Some \<lparr>gl_config = sdk_prefixes prefix, gl_mutex = Some i\<rparr>)"

definition sdk_unlock :: "sdk_global \<Rightarrow> sdk_global" where
  "sdk_unlock g = g\<lparr>gl_mutex := None\<rparr>"

text \<open>The prefix of the text of an account address, and that text.\<close>

definition account_prefix :: "sdk_global \<Rightarrow> string" where
  "account_prefix g = fst (sc_Account (gl_config g))"

definition AccAddress_String :: "(string \<Rightarrow> bytes \<Rightarrow> string) \<Rightarrow> sdk_global \<Rightarrow> bytes \<Rightarrow> string" where
  "AccAddress_String bech32 g addr = bech32 (account_prefix g) addr"

lemma account_prefix_simps [simp]:
  "account_prefix \<lparr>gl_config = sdk_prefixes prefix, gl_mutex = m\<rparr> = prefix"
  "account_prefix sdk_start = ''cosmos''"
  "account_prefix (sdk_unlock g) = account_prefix g"
  by (simp_all add: account_prefix_def sdk_prefixes_def sdk_start_def sdk_unlock_def)

lemma SetSDKConfigContext_Some:
  "SetSDKConfigContext i prefix g = Some g' \<Longrightarrow> account_prefix g' = prefix \<and> gl_mutex g' = Some i \<and> gl_mutex g = None"
  by (auto simp: SetSDKConfigContext_def split: option.splits)

section \<open>The keyring\<close>

text \<open>
  An entry of a keyring (\<open>key\<close>) is an abstract sequence of bytes, an address is its bytes, and
  \<open>kl_bech32\<close> is the library's text of a prefix and an address.
\<close>

record 'r key_lib =
  kl_NewInMemory :: 'r
  kl_HDPath :: string
  kl_NewEntropy :: "error + bytes"
  kl_NewMnemonic :: "bytes \<Rightarrow> error + string"
  kl_NewSigningAlgo :: "error + string"
  kl_NewAccount :: "string \<Rightarrow> string \<Rightarrow> string \<Rightarrow> string \<Rightarrow> string \<Rightarrow> 'r \<Rightarrow> error + (bytes \<times> 'r)"
  kl_ExportPrivKeyArmor :: "string \<Rightarrow> string \<Rightarrow> 'r \<Rightarrow> error + string"
  kl_ImportPrivKey :: "string \<Rightarrow> bytes \<Rightarrow> string \<Rightarrow> 'r \<Rightarrow> error option \<times> 'r"
  kl_Key :: "string \<Rightarrow> 'r \<Rightarrow> error + bytes"
  kl_GetAddress :: "bytes \<Rightarrow> error + bytes"
  kl_bech32 :: "string \<Rightarrow> bytes \<Rightarrow> string"

text \<open>
  An account is made in a keyring of its own, in memory; its address is given as text, so with the
  prefix that is set at that time.
\<close>

definition WasmClient_CreateAccount ::
    "'r key_lib \<Rightarrow> sdk_global \<Rightarrow> string \<Rightarrow> string \<Rightarrow> error + (string \<times> string)" where
  "WasmClient_CreateAccount L g uid passphrase =
     ebind (kl_NewEntropy L) (\<lambda>bip39seed.
     ebind (kl_NewMnemonic L bip39seed) (\<lambda>mnemonic.
     ebind (kl_NewSigningAlgo L) (\<lambda>algo.
     ebind (kl_NewAccount L uid mnemonic passphrase (kl_HDPath L) algo (kl_NewInMemory L)) (\<lambda>(key, kb).
     ebind (kl_ExportPrivKeyArmor L uid passphrase kb) (\<lambda>armor.
     ebind (kl_GetAddress L key) (\<lambda>addr. Inr (armor, AccAddress_String (kl_bech32 L) g addr)))))))"

definition WasmClient_ImportArmor ::
    "'r key_lib \<Rightarrow> string \<Rightarrow> bytes \<Rightarrow> string \<Rightarrow> 'r \<Rightarrow> error option \<times> 'r" where
  "WasmClient_ImportArmor L uid armor passphrase keyring = kl_ImportPrivKey L uid armor passphrase keyring"

definition WasmClient_GetArmor :: "'r key_lib \<Rightarrow> string \<Rightarrow> string \<Rightarrow> 'r \<Rightarrow> error + string" where
  "WasmClient_GetArmor L uid passphrase keyring = kl_ExportPrivKeyArmor L uid passphrase keyring"

definition WasmClient_GetKey :: "'r key_lib \<Rightarrow> string \<Rightarrow> 'r \<Rightarrow> error + bytes" where
  "WasmClient_GetKey L uid keyring = kl_Key L uid keyring"

text \<open>
  What the SDK promises of a keyring without an entry of that name: the armor of an account made in
  another keyring can be imported under its password, and the entry then has the account's address.
\<close>

definition key_lib_good :: "string \<Rightarrow> 'r \<Rightarrow> 'r key_lib \<Rightarrow> bool" where
  "key_lib_good uid keyring L =
     (\<forall>mnemonic pw path algo key kb armor addr.
        kl_NewAccount L uid mnemonic pw path algo (kl_NewInMemory L) = Inr (key, kb) \<longrightarrow>
        kl_ExportPrivKeyArmor L uid pw kb = Inr armor \<longrightarrow> kl_GetAddress L key = Inr addr \<longrightarrow>
        (\<exists>keyring' key'. kl_ImportPrivKey L uid armor pw keyring = (None, keyring') \<and>
           kl_Key L uid keyring' = Inr key' \<and> kl_GetAddress L key' = Inr addr))"

lemma CreateAccount_made:
  assumes "WasmClient_CreateAccount L g uid pw = Inr (armor, text)" "key_lib_good uid keyring L"
  obtains addr keyring' key' where "text = kl_bech32 L (account_prefix g) addr"
    "WasmClient_ImportArmor L uid armor pw keyring = (None, keyring')"
    "WasmClient_GetKey L uid keyring' = Inr key'" "kl_GetAddress L key' = Inr addr"
proof -
  from assms(1) obtain mnemonic algo key kb addr where
    c: "kl_NewAccount L uid mnemonic pw (kl_HDPath L) algo (kl_NewInMemory L) = Inr (key, kb)"
      "kl_ExportPrivKeyArmor L uid pw kb = Inr armor" "kl_GetAddress L key = Inr addr"
      "text = kl_bech32 L (account_prefix g) addr"
    by (auto simp: WasmClient_CreateAccount_def AccAddress_String_def)
  with assms(2) obtain keyring' key' where "kl_ImportPrivKey L uid armor pw keyring = (None, keyring')"
    "kl_Key L uid keyring' = Inr key'" "kl_GetAddress L key' = Inr addr"
    unfolding key_lib_good_def by blast
  with that c(4) show thesis by (simp add: WasmClient_ImportArmor_def WasmClient_GetKey_def)
qed

end
