(* ===== verification/Wasm_Context.thy ===== *)
theory Wasm_Context
  imports Wasm_Client Wasm_Sdk
begin

text \<open>
  \<^verbatim>\<open>relayer/chains/wasm/codec.go\<close>: the codecs, and the address prefixes of several providers. The Cosmos SDK
  keeps the prefixes of addresses in one global configuration, which every CosmWasm provider sets to its own
  under a mutex before it works with addresses (\<open>Wasm_Sdk\<close>). The text of an address depends on what is set
  when it is made; \<open>bech32\<close> is the library's encoding of a prefix and an address.
\<close>

section \<open>Codecs\<close>

text \<open>The interfaces a codec knows are the registrations made on it, in their order.\<close>

datatype registration = StdInterfaces | WasmModule | AuthModule | BankModule | InjectiveInterfaces

definition moduleBasics :: "registration list" where
  "moduleBasics = [WasmModule, AuthModule, BankModule]"

record sdk_codec =
  co_InterfaceRegistry :: "registration list"
  co_LegacyInjective :: bool

definition makeCodecConfig :: sdk_codec where
  "makeCodecConfig = \<lparr>co_InterfaceRegistry = [], co_LegacyInjective = False\<rparr>"

definition register :: "registration list \<Rightarrow> sdk_codec \<Rightarrow> sdk_codec" where
  "register rs c = c\<lparr>co_InterfaceRegistry := co_InterfaceRegistry c @ rs\<rparr>"

definition extra_codec :: "string \<Rightarrow> sdk_codec \<Rightarrow> sdk_codec" where
  "extra_codec name c =
     (if name = ''injective'' then (register [InjectiveInterfaces] c)\<lparr>co_LegacyInjective := True\<rparr> else c)"

definition MakeCodec :: "registration list \<Rightarrow> string list \<Rightarrow> sdk_codec" where
  "MakeCodec basics extraCodecs = fold extra_codec extraCodecs (register basics (register [StdInterfaces] makeCodecConfig))"

lemma fold_extra_codec:
  "''injective'' \<notin> set names \<Longrightarrow> fold extra_codec names c = c"
  "''injective'' \<in> set names \<Longrightarrow> co_LegacyInjective (fold extra_codec names c) \<and>
     InjectiveInterfaces \<in> set (co_InterfaceRegistry (fold extra_codec names c))"
proof -
  have keep: "co_LegacyInjective c \<and> InjectiveInterfaces \<in> set (co_InterfaceRegistry c) \<Longrightarrow>
      co_LegacyInjective (fold extra_codec ns c) \<and> InjectiveInterfaces \<in> set (co_InterfaceRegistry (fold extra_codec ns c))" for ns c
    by (induction ns arbitrary: c) (auto simp: extra_codec_def register_def)
  show "''injective'' \<notin> set names \<Longrightarrow> fold extra_codec names c = c"
    by (induction names arbitrary: c) (auto simp: extra_codec_def)
  show "''injective'' \<in> set names \<Longrightarrow> co_LegacyInjective (fold extra_codec names c) \<and>
     InjectiveInterfaces \<in> set (co_InterfaceRegistry (fold extra_codec names c))"
  proof (induction names arbitrary: c)
    case (Cons name names)
    have "co_LegacyInjective (extra_codec ''injective'' c) \<and>
        InjectiveInterfaces \<in> set (co_InterfaceRegistry (extra_codec ''injective'' c))" by (simp add: extra_codec_def register_def)
    note new = keep [OF this]
    show ?case
    proof (cases "name = ''injective''")
      case True
      with new show ?thesis by simp
    next
      case False
      with Cons show ?thesis by simp
    qed
  qed simp
qed

text \<open>The codec of a configured provider: the extra codecs are separated by commas, without blanks.\<close>

definition provider_codec :: "string \<Rightarrow> sdk_codec" where
  "provider_codec extra = MakeCodec moduleBasics (Split extra (CHR '',''))"

lemma provider_codec_blank: "provider_codec '''' = \<lparr>co_InterfaceRegistry = StdInterfaces # moduleBasics, co_LegacyInjective = False\<rparr>"
  "co_LegacyInjective (provider_codec ''injective'')" "\<not> co_LegacyInjective (provider_codec ''archway, injective'')"
  by code_simp+

section \<open>Providers side by side\<close>

text \<open>
  \<^verbatim>\<open>p.Wallet().String()\<close> of several providers: each waits for the mutex, sets its prefix (\<open>Inside\<close>), releases
  the mutex when \<^verbatim>\<open>Wallet\<close> returns the address, and then makes the text of it. Inside, \<^verbatim>\<open>SetAddress\<close> makes a
  text as well.
\<close>

datatype phase = Before | Inside | Outside | Sender string

record providers =
  pg_global :: sdk_global
  pg_phase :: "nat \<Rightarrow> phase"

definition providers_start :: providers where
  "providers_start = \<lparr>pg_global = sdk_start, pg_phase = \<lambda>i. Before\<rparr>"

inductive wallet_step :: "(string \<Rightarrow> bytes \<Rightarrow> string) \<Rightarrow> (nat \<Rightarrow> string) \<Rightarrow> (nat \<Rightarrow> bytes) \<Rightarrow> providers \<Rightarrow> providers \<Rightarrow> bool"
  for bech32 prefix addr where
  enter: "pg_phase s i = Before \<Longrightarrow> SetSDKConfigContext i (prefix i) (pg_global s) = Some g \<Longrightarrow>
    wallet_step bech32 prefix addr s (s\<lparr>pg_global := g, pg_phase := (pg_phase s)(i := Inside)\<rparr>)"
| leave: "pg_phase s i = Inside \<Longrightarrow>
    wallet_step bech32 prefix addr s (s\<lparr>pg_global := sdk_unlock (pg_global s), pg_phase := (pg_phase s)(i := Outside)\<rparr>)"
| make_text: "pg_phase s i = Outside \<Longrightarrow>
    wallet_step bech32 prefix addr s
      (s\<lparr>pg_phase := (pg_phase s)(i := Sender (AccAddress_String bech32 (pg_global s) (addr i)))\<rparr>)"

definition wallet_reach :: "(string \<Rightarrow> bytes \<Rightarrow> string) \<Rightarrow> (nat \<Rightarrow> string) \<Rightarrow> (nat \<Rightarrow> bytes) \<Rightarrow> providers \<Rightarrow> bool" where
  "wallet_reach bech32 prefix addr = (wallet_step bech32 prefix addr)\<^sup>*\<^sup>* providers_start"

text \<open>A provider inside holds the mutex and its own prefix is set; nobody else is inside.\<close>

definition context_ok :: "(nat \<Rightarrow> string) \<Rightarrow> providers \<Rightarrow> bool" where
  "context_ok prefix s =
     ((\<forall>i. (pg_phase s i = Inside) = (gl_mutex (pg_global s) = Some i)) \<and>
      (\<forall>i. gl_mutex (pg_global s) = Some i \<longrightarrow> gl_config (pg_global s) = sdk_prefixes (prefix i)))"

lemma context_ok_step: "wallet_step bech32 prefix addr s s' \<Longrightarrow> context_ok prefix s \<Longrightarrow> context_ok prefix s'"
proof (induction rule: wallet_step.induct)
  case (make_text s i)
  then have "gl_mutex (pg_global s) \<noteq> Some i" unfolding context_ok_def by (metis phase.distinct(7))
  with make_text show ?case by (auto simp: context_ok_def)
qed (auto simp: context_ok_def SetSDKConfigContext_def sdk_unlock_def split: option.splits)

lemma wallet_reach_ok: "wallet_reach bech32 prefix addr s \<Longrightarrow> context_ok prefix s"
  unfolding wallet_reach_def
proof (induction rule: rtranclp_induct)
  case base
  then show ?case by (simp add: context_ok_def providers_start_def sdk_start_def)
qed (rule context_ok_step)

theorem inside_has_own_prefix:
  assumes "wallet_reach bech32 prefix addr s" "pg_phase s i = Inside"
  shows "AccAddress_String bech32 (pg_global s) a = bech32 (prefix i) a \<and> (\<forall>j. pg_phase s j = Inside \<longrightarrow> j = i)"
  using wallet_reach_ok [OF assms(1)] assms(2) by (auto simp: context_ok_def AccAddress_String_def account_prefix_def sdk_prefixes_def)

text \<open>
  The sender of a transaction is made outside: with one prefix for all providers it is right, with two it can
  be the address with the other provider's prefix.
\<close>

definition senders_ok :: "(string \<Rightarrow> bytes \<Rightarrow> string) \<Rightarrow> string \<Rightarrow> (nat \<Rightarrow> bytes) \<Rightarrow> providers \<Rightarrow> bool" where
  "senders_ok bech32 p addr s =
     ((\<exists>j. pg_phase s j \<noteq> Before) \<longrightarrow> gl_config (pg_global s) = sdk_prefixes p \<and>
        (\<forall>i t. pg_phase s i = Sender t \<longrightarrow> t = bech32 p (addr i)))"

lemma senders_ok_step:
  "wallet_step bech32 (\<lambda>i. p) addr s s' \<Longrightarrow> senders_ok bech32 p addr s \<Longrightarrow> senders_ok bech32 p addr s'"
proof (induction rule: wallet_step.induct)
  case (enter s i g)
  then have "gl_config g = sdk_prefixes p" by (auto simp: SetSDKConfigContext_def split: option.splits)
  moreover have "t = bech32 p (addr j)" if "pg_phase s j = Sender t" for j t
    using that enter.prems unfolding senders_ok_def by (metis phase.distinct(5))
  ultimately show ?case by (simp add: senders_ok_def)
next
  case (leave s i)
  then have "gl_config (pg_global s) = sdk_prefixes p \<and> (\<forall>i t. pg_phase s i = Sender t \<longrightarrow> t = bech32 p (addr i))"
    unfolding senders_ok_def by (metis phase.distinct(1))
  then show ?case by (simp add: senders_ok_def sdk_unlock_def)
next
  case (make_text s i)
  then have "gl_config (pg_global s) = sdk_prefixes p \<and> (\<forall>i t. pg_phase s i = Sender t \<longrightarrow> t = bech32 p (addr i))"
    unfolding senders_ok_def by (metis phase.distinct(3))
  then show ?case by (simp add: senders_ok_def AccAddress_String_def account_prefix_def sdk_prefixes_def)
qed

theorem sender_with_one_prefix:
  assumes "wallet_reach bech32 (\<lambda>i. p) addr s" "pg_phase s i = Sender t"
  shows "t = bech32 p (addr i)"
proof -
  have "senders_ok bech32 p addr s"
    using assms(1) unfolding wallet_reach_def
  proof (induction rule: rtranclp_induct)
    case base
    then show ?case by (simp add: senders_ok_def providers_start_def)
  qed (rule senders_ok_step)
  with assms(2) show ?thesis unfolding senders_ok_def by (metis phase.distinct(5))
qed

theorem sender_with_other_prefix:
  "\<exists>s. wallet_reach bech32 prefix addr s \<and> pg_phase s 0 = Sender (bech32 (prefix 1) (addr 0))"
proof -
  let ?step = "wallet_step bech32 prefix addr"
  let ?s1 = "\<lparr>pg_global = \<lparr>gl_config = sdk_prefixes (prefix 0), gl_mutex = Some 0\<rparr>, pg_phase = (\<lambda>i. Before)(0 := Inside)\<rparr>"
  let ?s2 = "\<lparr>pg_global = \<lparr>gl_config = sdk_prefixes (prefix 0), gl_mutex = None\<rparr>, pg_phase = (\<lambda>i. Before)(0 := Outside)\<rparr>"
  let ?s3 = "\<lparr>pg_global = \<lparr>gl_config = sdk_prefixes (prefix 1), gl_mutex = Some 1\<rparr>, pg_phase = (\<lambda>i. Before)(0 := Outside, 1 := Inside)\<rparr>"
  let ?s4 = "?s3\<lparr>pg_phase := (pg_phase ?s3)(0 := Sender (bech32 (prefix 1) (addr 0)))\<rparr>"
  have st1: "?step providers_start ?s1"
    using enter [of providers_start 0 prefix _ bech32 addr] by (simp add: providers_start_def sdk_start_def SetSDKConfigContext_def)
  have st2: "?step ?s1 ?s2" using leave [of ?s1 0 bech32 prefix addr] by (simp add: sdk_unlock_def)
  have st3: "?step ?s2 ?s3" using enter [of ?s2 1 prefix _ bech32 addr] by (simp add: SetSDKConfigContext_def)
  have st4: "?step ?s3 ?s4" using make_text [of ?s3 0 bech32 prefix addr] by (simp add: AccAddress_String_def account_prefix_def sdk_prefixes_def)
  have "wallet_reach bech32 prefix addr ?s4" unfolding wallet_reach_def
    by (rule converse_rtranclp_into_rtranclp [OF st1 converse_rtranclp_into_rtranclp [OF st2
      converse_rtranclp_into_rtranclp [OF st3 r_into_rtranclp [of ?step, OF st4]]]])
  moreover have "pg_phase ?s4 0 = Sender (bech32 (prefix 1) (addr 0))" by simp
  ultimately show ?thesis by blast
qed

end
