(* ===== verification/Mock_Chain.thy ===== *)
theory Mock_Chain
  imports Routing
begin

text \<open>
  \<^verbatim>\<open>relayer/chains/mockchain\<close>: a provider with its messages in its configuration. Shown is that it sends
  every message once, at its height, and that it keeps the contract of a route.
\<close>

section \<open>The provider\<close>

record mock_config =
  mk_NId :: string
  mk_SendMessages :: "(bigptr message_key \<times> wireint message) list"
  mk_ReceiveMessages :: "(bigptr message_key \<times> wireint message) list"
  mk_StartHeight :: u64
  mk_chainName :: string

record mock_provider =
  mp_PCfg :: mock_config
  mp_Height :: u64

definition Mock_Validate :: "mock_config \<Rightarrow> unit result" where
  "Mock_Validate pp = Ok ()"

definition Mock_NewProvider :: "mock_config \<Rightarrow> string \<Rightarrow> mock_provider result" where
  "Mock_NewProvider pp chainName = rbind (Mock_Validate pp) (\<lambda>_.
     Ok \<lparr>mp_PCfg = pp\<lparr>mk_chainName := chainName\<rparr>, mp_Height = mk_StartHeight pp\<rparr>)"

definition Mock_NID :: "mock_provider \<Rightarrow> string" where
  "Mock_NID p = mk_NId (mp_PCfg p)"

definition Mock_Name :: "mock_provider \<Rightarrow> string" where
  "Mock_Name p = mk_chainName (mp_PCfg p)"

definition Mock_ChainName :: "mock_provider \<Rightarrow> string" where
  "Mock_ChainName p = mk_chainName (mp_PCfg p)"

definition Mock_Type :: "mock_provider \<Rightarrow> string" where
  "Mock_Type p = ''evm''"

definition Mock_Config :: "mock_provider \<Rightarrow> mock_config" where
  "Mock_Config p = mp_PCfg p"

definition Mock_Enabled :: "mock_config \<Rightarrow> bool" where
  "Mock_Enabled pp = True"

definition Mock_GetWallet :: "mock_config \<Rightarrow> string" where
  "Mock_GetWallet pp = ''''"

definition Mock_SetWallet :: "string \<Rightarrow> mock_config \<Rightarrow> mock_config" where
  "Mock_SetWallet addr pp = pp"

definition Mock_FinalityBlock :: "mock_provider \<Rightarrow> u64" where
  "Mock_FinalityBlock p = 0"

definition Mock_QueryLatestHeight :: "mock_provider \<Rightarrow> error + u64" where
  "Mock_QueryLatestHeight p = Inr (mp_Height p)"

definition Mock_FindMessages :: "mock_provider \<Rightarrow> wireint message list" where
  "Mock_FindMessages p = filter (\<lambda>m. m_height m = mp_Height p) (map snd (mk_SendMessages (mp_PCfg p)))"

text \<open>The height the listener starts at, and its ticks.\<close>

definition Mock_Listener_start :: "u64 \<Rightarrow> mock_provider \<Rightarrow> mock_provider" where
  "Mock_Listener_start lastSavedHeight p =
     (if mp_Height p = 0 \<and> lastSavedHeight \<noteq> 0 then p\<lparr>mp_Height := lastSavedHeight\<rparr> else p)"

definition Mock_Listener_tick :: "mock_provider \<Rightarrow> block_info \<times> mock_provider" where
  "Mock_Listener_tick p =
     (\<lparr>bi_height = (case Mock_QueryLatestHeight p of Inl e \<Rightarrow> 0 | Inr h \<Rightarrow> h), bi_messages = Mock_FindMessages p\<rparr>,
      p\<lparr>mp_Height := mp_Height p + 1\<rparr>)"

fun Mock_Listener_ticks :: "nat \<Rightarrow> mock_provider \<Rightarrow> block_info list \<times> mock_provider" where
  "Mock_Listener_ticks 0 p = ([], p)"
| "Mock_Listener_ticks (Suc n) p =
     (let (b, p1) = Mock_Listener_tick p; (bs, p2) = Mock_Listener_ticks n p1 in (b # bs, p2))"

text \<open>
  \<^verbatim>\<open>DeleteMessage\<close> removes the first key with the number of the message; \<^verbatim>\<open>Cmp\<close> reads both through their
  pointers.
\<close>

fun delete_key :: "int \<Rightarrow> (bigptr message_key \<times> wireint message) list \<Rightarrow> bigptr message_key option result" where
  "delete_key sn [] = Ok None"
| "delete_key sn ((key, m) # rest) = (case k_sn key of
      None \<Rightarrow> Panic ''nil pointer dereference''
    | Some (a, i) \<Rightarrow> if i = sn then Ok (Some key) else delete_key sn rest)"

definition Mock_DeleteMessage :: "wireint message \<Rightarrow> mock_provider \<Rightarrow> mock_provider result" where
  "Mock_DeleteMessage msg p =
     (let received = mk_ReceiveMessages (mp_PCfg p) in
      case (received, m_sn msg) of
        ([], _) \<Rightarrow> Ok p
      | (_, None) \<Rightarrow> Panic ''nil pointer dereference''
      | (_, Some sn) \<Rightarrow> rmap (\<lambda>key. case key of
            None \<Rightarrow> p
          | Some k \<Rightarrow> p\<lparr>mp_PCfg := (mp_PCfg p)\<lparr>mk_ReceiveMessages := AList.delete k received\<rparr>\<rparr>) (delete_key sn received))"

definition Mock_Route :: "wireint message \<Rightarrow> mock_provider \<Rightarrow> outcome \<times> mock_provider" where
  "Mock_Route message p = (case Mock_DeleteMessage message p of
      Panic e \<Rightarrow> (Panic e, p)
    | Err e \<Rightarrow> (Err e, p)
    | Ok p1 \<Rightarrow> (Ok ([(MessageKey message,
        \<lparr>tr_height = 0, tr_txhash = '''', tr_codespace = '''', tr_code = Success, tr_data = ''''\<rparr>, None)], None), p1))"

definition Mock_ShouldReceiveMessage :: "wireint message \<Rightarrow> error + bool" where
  "Mock_ShouldReceiveMessage message = Inr True"

definition Mock_ShouldSendMessage :: "wireint message \<Rightarrow> error + bool" where
  "Mock_ShouldSendMessage message = Inr True"

definition Mock_MessageReceived :: "wireint message_key \<Rightarrow> error + bool" where
  "Mock_MessageReceived key = Inr False"

text \<open>The queries and administration return nothing: nil, zero or no error.\<close>

definition Mock_GenerateMessages :: "wireint message_key \<Rightarrow> error + wireint message list" where
  "Mock_GenerateMessages key = Inr []"

definition Mock_QueryTransactionReceipt :: "string \<Rightarrow> error + receipt option" where
  "Mock_QueryTransactionReceipt txHash = Inr None"

definition Mock_GetFee :: "string \<Rightarrow> bool \<Rightarrow> error + u64" where
  "Mock_GetFee networkID responseFee = Inr 0"

definition Mock_QueryBalance :: "string \<Rightarrow> error + coin option" where
  "Mock_QueryBalance addr = Inr None"

definition Mock_ClaimFee :: "mock_provider \<Rightarrow> unit result \<times> mock_provider" where
  "Mock_ClaimFee p = (Ok (), p)"

definition Mock_NewKeystore :: "string \<Rightarrow> mock_provider \<Rightarrow> string result \<times> mock_provider" where
  "Mock_NewKeystore password p = (Ok '''', p)"

definition Mock_RestoreKeystore :: "mock_provider \<Rightarrow> unit result \<times> mock_provider" where
  "Mock_RestoreKeystore p = (Ok (), p)"

definition Mock_ImportKeystore :: "string \<Rightarrow> string \<Rightarrow> mock_provider \<Rightarrow> string result \<times> mock_provider" where
  "Mock_ImportKeystore path password p = (Ok '''', p)"

definition Mock_Init :: "string \<Rightarrow> mock_provider \<Rightarrow> unit result \<times> mock_provider" where
  "Mock_Init homePath p = (Ok (), p)"

definition Mock_RevertMessage :: "wireint \<Rightarrow> mock_provider \<Rightarrow> unit result \<times> mock_provider" where
  "Mock_RevertMessage sn p = (Ok (), p)"

definition Mock_SetAdmin :: "string \<Rightarrow> mock_provider \<Rightarrow> unit result \<times> mock_provider" where
  "Mock_SetAdmin admin p = (Ok (), p)"

definition Mock_SetFee :: "string \<Rightarrow> wireint \<Rightarrow> wireint \<Rightarrow> mock_provider \<Rightarrow> unit result \<times> mock_provider" where
  "Mock_SetFee networkID msgFee resFee p = (Ok (), p)"

definition Mock_SetLastSavedHeightFunc :: "(unit \<Rightarrow> u64) \<Rightarrow> mock_provider \<Rightarrow> mock_provider" where
  "Mock_SetLastSavedHeightFunc f p = p"

section \<open>What it sends\<close>

lemma ticks_height: "mp_Height (snd (Mock_Listener_ticks n p)) = mp_Height p + of_nat n"
  by (induction n arbitrary: p) (auto simp: Mock_Listener_tick_def case_prod_beta Let_def)

lemma ticks_blocks:
  "fst (Mock_Listener_ticks n p) = map (\<lambda>i. \<lparr>bi_height = mp_Height p + of_nat i,
     bi_messages = filter (\<lambda>m. m_height m = mp_Height p + of_nat i) (map snd (mk_SendMessages (mp_PCfg p)))\<rparr>) [0..<n]"
proof (induction n arbitrary: p)
  case (Suc n)
  have "[0..<Suc n] = 0 # map Suc [0..<n]" by (simp add: upt_conv_Cons map_Suc_upt del: upt_Suc)
  then show ?case using Suc [of "p\<lparr>mp_Height := mp_Height p + 1\<rparr>"]
    by (simp add: Mock_Listener_tick_def Mock_QueryLatestHeight_def Mock_FindMessages_def case_prod_beta Let_def
        add.assoc del: upt_Suc)
qed simp

text \<open>A message at or after the height of the listener is sent in exactly one block, the one of its height.\<close>

lemma mock_sends_once:
  assumes "m \<in> set (map snd (mk_SendMessages (mp_PCfg p)))" "mp_Height p \<le> m_height m"
    and "unat (m_height m) < unat (mp_Height p) + n" "unat (mp_Height p) + n \<le> 2 ^ 64"
  shows "\<exists>!i. i < n \<and> m \<in> set (bi_messages (fst (Mock_Listener_ticks n p) ! i))"
proof -
  let ?h = "mp_Height p" and ?i = "unat (m_height m) - unat (mp_Height p)"
  have le: "unat ?h \<le> unat (m_height m)" using assms(2) by (simp add: word_le_nat_alt)
  have at: "m \<in> set (bi_messages (fst (Mock_Listener_ticks n p) ! i)) \<longleftrightarrow> m_height m = ?h + of_nat i" if "i < n" for i
    using assms(1) that by (auto simp: ticks_blocks)
  have eq: "m_height m = ?h + of_nat i \<longleftrightarrow> i = ?i" if "i < n" for i
  proof -
    have "unat (?h + of_nat i) = unat ?h + i"
      using that assms(4) by (simp add: unat_word_ariths unat_of_nat mod_add_right_eq)
    then show ?thesis using le by (auto simp: word_unat_eq_iff)
  qed
  have "?i < n" using assms(3) le by linarith
  with at eq show ?thesis by (intro ex1I [of _ ?i]) auto
qed

section \<open>The contract of a route\<close>

lemma Mock_Route_settles: "settles m (fst (Mock_Route m p))"
  by (auto simp: Mock_Route_def settles_def split: result.splits)

interpretation mock: routing_provider "\<lambda>p m. Mock_Route m p"
  by unfold_locales (rule Mock_Route_settles)

text \<open>The mock chain never fails a route, so every routed message whose number is not nil is delivered.\<close>

lemma Mock_Route_delivers:
  assumes "m_sn m \<noteq> None" "list_all (\<lambda>(k, m). k_sn k \<noteq> None) (mk_ReceiveMessages (mp_PCfg p))"
  shows "\<exists>cbs. fst (Mock_Route m p) = Ok (cbs, None)"
proof -
  have "\<exists>k. delete_key sn xs = Ok k" if "list_all (\<lambda>(k, m). k_sn k \<noteq> None) xs" for sn xs
    using that by (induction xs) auto
  from this [OF assms(2)] obtain k where k: "delete_key (the (m_sn m)) (mk_ReceiveMessages (mp_PCfg p)) = Ok k" by blast
  obtain sn where sn: "m_sn m = Some sn" using assms(1) by blast
  have "\<exists>p1. Mock_DeleteMessage m p = Ok p1"
  proof (cases "mk_ReceiveMessages (mp_PCfg p)")
    case Nil
    then show ?thesis by (simp add: Mock_DeleteMessage_def)
  next
    case (Cons x xs)
    then show ?thesis using k sn by (simp add: Mock_DeleteMessage_def Let_def del: delete_key.simps)
  qed
  then show ?thesis by (auto simp: Mock_Route_def)
qed

end
