(* ===== verification/Relay_Finality.thy ===== *)
theory Relay_Finality
  imports Relay_Blocks
begin

text \<open>
  The finality check and the cleaner of expired messages, which shows behaviour the code does not
  intend.
\<close>

section \<open>Finality\<close>

lemma merge_into_has:
  assumes "map_of (r_chains s) nid = Some rt" "w \<in> set ms" "m_sn w \<noteq> None"
  shows "\<exists>k m. cached_msg (merge_into nid ms s) nid k = Some m \<and> wire_key k = MessageKey w \<and>
    wire_route m = NewRouteMessage w"
proof -
  obtain c' h' where m: "mergeMessages ms (cr_MessageCache rt, r_heap s) = (c', h')"
    by (cases "mergeMessages ms (cr_MessageCache rt, r_heap s)")
  from mergeMessages_new [OF m assms(2,3)] obtain k ref r where "MessageCache_Get k c' = Some ref"
    "hp_routes h' ref = Some r" "wire_key k = MessageKey w" "wire_route r = NewRouteMessage w" by blast
  then show ?thesis using assms(1) m
    by (intro exI [of _ k] exI [of _ r]) (simp add: merge_into_def cached_msg_def cached_ref_upd_cache)
qed

lemma delete_tx_state:
  assumes "message_db S view C" "sn_ok (k_sn (to_key t))"
  shows "\<exists>s1. delete_tx S t s = (None, s1) \<and> r_chains s1 = r_chains s \<and> r_tasks s1 = r_tasks s \<and>
    stored_tx C (view (r_db s1)) ''finality'' (k_dst (to_key t)) (k_sn (to_key t)) = None"
proof -
  let ?key = "alloc_key (hp_next (r_heap s)) (to_key t)"
  have k: "k_dst ?key = k_dst (to_key t)" "unptr (k_sn ?key) = k_sn (to_key t)"
    by (simp_all add: alloc_key_def)
  obtain d' where d': "DeleteTxObject S ''finality'' ?key (r_db s) = (None, d')"
    "view d' = (view (r_db s))(GetKey [''finality'', k_dst ?key, sn_string (unptr (k_sn ?key))] := None)"
    using message_db.DeleteTxObject_view [OF assms(1), of "''finality''" ?key "r_db s"] by blast
  have "stored_tx C (view d') ''finality'' (k_dst (to_key t)) (k_sn (to_key t)) = None"
    unfolding d'(2) k by (simp add: stored_tx_upd assms(2))
  with d'(1) show ?thesis by (simp add: delete_tx_def prefixFinalityStore_def)
qed

text \<open>
  C21. The finality check of one transaction object. Until the destination is \<open>finalityBlock\<close>
  blocks past the transaction nothing happens; nor does it when the query for the receipt fails, as it
  does on every chain for a receipt that does not exist: the object stays, and no message is
  regenerated. With a receipt the object is removed; if it reports success that is all, if it reports
  failure every message the source regenerates is cached at the source as a fresh message. When the
  source fails to regenerate, the object is gone all the same and nothing is cached: the message is
  lost.
\<close>
theorem check_tx_behaviour:
  assumes "message_db S view C"
    and src: "map_of (r_chains s) (k_src (to_key t)) = Some srcrt"
    and nid: "pv_NID (cr_Provider srcrt) = k_src (to_key t)"
    and sn: "sn_ok (k_sn (to_key t))"
    and receipt: "answer = ev_QueryTransactionReceipt E n (to_txhash t)"
    and final: "final = (to_txheight t \<noteq> 0 \<and> to_txheight t + fb \<le> latest)"
    and gen: "gen = ev_GenerateMessages E (k_src (to_key t)) (to_key t) (to_msgheight t)"
    and s': "s' = check_tx S E n fb latest t s"
  shows "(\<not> final \<longrightarrow> s' = s) \<and>
    (\<forall>e. answer = Inl e \<longrightarrow> s' = s) \<and>
    (\<forall>receipt. answer = Inr receipt \<and> final \<longrightarrow>
      stored_tx C (view (r_db s')) ''finality'' (k_dst (to_key t)) (k_sn (to_key t)) = None \<and>
      (rc_status receipt \<longrightarrow> r_chains s' = r_chains s) \<and>
      (\<forall>e. \<not> rc_status receipt \<and> gen = Inl e \<longrightarrow> r_chains s' = r_chains s) \<and>
      (\<forall>ms w. \<not> rc_status receipt \<and> gen = Inr ms \<and> w \<in> set ms \<and> m_sn w \<noteq> None \<longrightarrow>
        (\<exists>k m. cached_msg s' (k_src (to_key t)) k = Some m \<and> wire_key k = MessageKey w \<and>
          wire_route m = NewRouteMessage w)))"
proof (intro conjI allI impI)
  show "s' = s" if "\<not> final" using that s' final by (auto simp: check_tx_def not_le)
  show "s' = s" if "answer = Inl e" for e using that s' receipt by (simp add: check_tx_def)
next
  obtain s1 where s1: "delete_tx S t s = (None, s1)" "r_chains s1 = r_chains s"
    "stored_tx C (view (r_db s1)) ''finality'' (k_dst (to_key t)) (k_sn (to_key t)) = None"
    using delete_tx_state [OF assms(1) sn, of s] by blast
  fix r
  assume "answer = Inr r \<and> final"
  then have q: "ev_QueryTransactionReceipt E n (to_txhash t) = Inr r" and f: "to_txheight t \<noteq> 0" "\<not> to_txheight t + fb > latest"
    using receipt final by auto
  have regen: "s' = merge_into (k_src (to_key t)) ms s1" if "\<not> rc_status r" "gen = Inr ms" for ms
    using that s' f q s1(1) src nid gen by (simp add: check_tx_def)
  have none: "s' = s1" if "rc_status r \<or> (\<exists>e. gen = Inl e)"
    using that s' f q s1(1) src nid gen by (cases "rc_status r") (auto simp: check_tx_def)
  have db: "r_db (merge_into nid ms s1) = r_db s1" for nid ms
    by (auto simp: merge_into_def split: option.split prod.split)
  show "stored_tx C (view (r_db s')) ''finality'' (k_dst (to_key t)) (k_sn (to_key t)) = None"
    using s1(3) none regen db by (cases gen) metis+
  show "r_chains s' = r_chains s" if "rc_status r" using none that s1(2) by simp
  show "r_chains s' = r_chains s" if "\<not> rc_status r \<and> gen = Inl e" for e using none that s1(2) by simp
  fix ms w
  assume w: "\<not> rc_status r \<and> gen = Inr ms \<and> w \<in> set ms \<and> m_sn w \<noteq> None"
  have "map_of (r_chains s1) (k_src (to_key t)) = Some srcrt" using src s1(2) by simp
  from merge_into_has [OF this, of w ms] w regen [of ms]
  show "\<exists>k m. cached_msg s' (k_src (to_key t)) k = Some m \<and> wire_key k = MessageKey w \<and> wire_route m = NewRouteMessage w"
    by simp
qed

definition ex_tx_wire :: "wireint tx_object" where
  "ex_tx_wire = \<lparr>to_key = wire_key (ex_key 0 ''a'' ''b'' 1), to_msgheight = 3, to_txhash = ''tx'', to_txheight = 9\<rparr>"

definition ex_lost_env :: env where
  "ex_lost_env = ex_env\<lparr>
     ev_QueryTransactionReceipt := \<lambda>_ h. Inr \<lparr>rc_txhash = h, rc_height = 0, rc_status = False\<rparr>,
     ev_GenerateMessages := \<lambda>_ _ _. Inr [ex_msg ''a'' ''b'' 1]\<rparr>"

theorem check_tx_behaviour_witness:
  "\<exists>k m. cached_msg (check_tx mem_store ex_lost_env ''b'' 5 20 ex_tx_wire ex_delivered) ''a'' k = Some m \<and>
    wire_route m = NewRouteMessage (ex_msg ''a'' ''b'' 1)"
proof -
  have "(case map_of (r_chains ex_delivered) ''a'' of None \<Rightarrow> False | Some rt \<Rightarrow> pv_NID (cr_Provider rt) = ''a'')"
    by code_simp
  then obtain rt where rt: "map_of (r_chains ex_delivered) ''a'' = Some rt" "pv_NID (cr_Provider rt) = ''a''"
    by (auto split: option.splits)
  have k: "k_src (to_key ex_tx_wire) = ''a''" "k_sn (to_key ex_tx_wire) = Some 1" "to_txheight ex_tx_wire = 9"
    by (simp_all add: ex_tx_wire_def wire_key_def ex_key_def unptr_def)
  have r: "ev_QueryTransactionReceipt ex_lost_env ''b'' (to_txhash ex_tx_wire) =
      Inr \<lparr>rc_txhash = to_txhash ex_tx_wire, rc_height = 0, rc_status = False\<rparr>"
    "ev_GenerateMessages ex_lost_env ''a'' (to_key ex_tx_wire) (to_msgheight ex_tx_wire) = Inr [ex_msg ''a'' ''b'' 1]"
    by (simp_all add: ex_lost_env_def)
  have sn: "sn_ok (k_sn (to_key ex_tx_wire))" "m_sn (ex_msg ''a'' ''b'' 1) \<noteq> None"
    by (simp_all add: k sn_ok_def ex_msg_def)
  have fin: "to_txheight ex_tx_wire \<noteq> 0" "to_txheight ex_tx_wire + 5 \<le> 20" by (simp_all add: k(3))
  from check_tx_behaviour [OF mem.message_db_axioms _ _ sn(1) refl refl refl refl, where s = ex_delivered and srcrt = rt
      and E = ex_lost_env and n = "''b''" and fb = 5 and latest = 20] rt k(1) r sn(2) fin
  show ?thesis by fastforce
qed

section \<open>Expired messages\<close>

text \<open>
  C36. A message that was never tried counts as expired: its last try is the zero time. The cleaner,
  which looks at stored messages only, deletes it from the database as soon as the clock is a day
  past year one, although it is still to be routed. It does not reach the cache: an entry with a
  number stays, because the cleaner's key holds a pointer of its own.
\<close>
theorem untried_message_is_deleted:
  assumes "message_db S view C" "relayer_ok s"
    and "rm_lasttry w = 0" "ev_now E > 86400000000000" "sn_ok (m_sn (rm_msg w))"
    and "cached_ref s n k = Some ref" "k_sn k \<noteq> None"
  shows "stored_msg C (view (r_db (clean_message S E nid w s))) ''message'' (m_src (rm_msg w)) (m_sn (rm_msg w)) = None \<and>
    cached_ref (clean_message S E nid w s) n k = Some ref"
proof -
  obtain r h' where nr: "new_stored_route w (r_heap s) = (r, h')" by (cases "new_stored_route w (r_heap s)")
  have r: "r = alloc_route (hp_next (r_heap s)) w" using nr by (simp add: new_stored_route_def)
  have e: "sint MessageExpiration = 86400000000000" by (simp add: MessageExpiration_def)
  have el: "IsElasped (ev_now E) MessageExpiration r" using assms(3,4) by (simp add: IsElasped_def r e)
  let ?k = "MessageKey (rm_msg r)"
  have k: "m_src (rm_msg r) = m_src (rm_msg w)" "unptr (m_sn (rm_msg r)) = m_sn (rm_msg w)" by (simp_all add: r)
  have "r_db (clean_message S E nid w s) = snd (DeleteMessage S ''message'' ?k (r_db s))"
    using nr el by (simp add: clean_message_def Let_def ClearMessages_db prefixMessageStore_def)
  moreover have "stored_msg C (view (snd (DeleteMessage S ''message'' ?k (r_db s)))) ''message''
      (m_src (rm_msg w)) (m_sn (rm_msg w)) = None"
    using message_db.DeleteMessage_refines [OF assms(1), of ?k "m_sn (rm_msg w)" "''message''" "r_db s" "m_src (rm_msg w)"]
      assms(5) by (simp add: k)
  ultimately show ?thesis using clean_message_keeps [OF assms(2,6,7)] by simp
qed

theorem untried_message_is_deleted_witness:
  "stored_msg mem_codec (map_of (r_db ex_seen)) ''message'' ''a'' (Some 1) = Some (NewRouteMessage (ex_msg ''a'' ''b'' 1)) \<and>
   stored_msg mem_codec (map_of (r_db (clean_message mem_store ex_env ''a'' (NewRouteMessage (ex_msg ''a'' ''b'' 1)) ex_seen)))
     ''message'' ''a'' (Some 1) = None"
proof -
  let ?w = "NewRouteMessage (ex_msg ''a'' ''b'' 1)"
  have before: "(stored_msg mem_codec (map_of (r_db ex_seen)) ''message'' ''a'' (Some 1) =
      Some (NewRouteMessage (ex_msg ''a'' ''b'' 1)))" by code_simp
  have c: "cached_ref ex_seen ''a'' (ex_key 0 ''a'' ''b'' 1) = Some 2" by code_simp
  have w: "rm_lasttry ?w = 0" "ev_now ex_env > 86400000000000" "sn_ok (m_sn (rm_msg ?w))"
    "k_sn (ex_key 0 ''a'' ''b'' 1) \<noteq> None"
    by (simp_all add: ex_env_def ex_now_def ex_msg_def sn_ok_def ex_key_def)
  have f: "m_src (ex_msg ''a'' ''b'' 1) = ''a''" "m_sn (ex_msg ''a'' ''b'' 1) = Some 1" by (simp_all add: ex_msg_def)
  from untried_message_is_deleted [OF mem.message_db_axioms reachable_ok [OF ex_seen_reachable] w(1-3) c w(4), of "''a''"]
    before show ?thesis by (simp add: f)
qed

end
