(* ===== verification/Socket_Props.thy ===== *)
theory Socket_Props
  imports Relay_Finality
begin

text \<open>
  The administration protocol end to end: what a client call returns when the server is a relayer
  in a given state, and what the call leaves behind.
\<close>

lemma ascii_events [simp]:
  "ascii EventGetBlock" "ascii EventMessageRemove" "ascii EventRelayMessage" "ascii EventError"
  "ascii EventGetFee" "ascii EventGetMessageList" "ascii EventPruneDB" "ascii EventRevertMessage"
  "ascii EventSetFee" "ascii EventClaimFee"
  by (simp_all add: ascii_def socket_event_defs)

section \<open>Removing a message\<close>

lemma on_MessageRemove_found:
  assumes "message_db S view C" "sn_ok sn" "stored_msg C (view (r_db s)) ''message'' chain sn = Some w"
  shows "\<exists>d'. on_MessageRemove S C J (ReqMessageRemove chain sn) s =
      (reply J EventMessageRemove (ResMessageRemove sn chain (m_dst (rm_msg w)) (m_height (rm_msg w)) (m_event (rm_msg w))),
       (bump s)\<lparr>r_db := d'\<rparr>) \<and>
    (\<forall>src n. sn_ok n \<longrightarrow> stored_msg C (view d') ''message'' src n =
      (if src = chain \<and> n = sn then None else stored_msg C (view (r_db s)) ''message'' src n))"
proof -
  let ?key = "request_key chain sn s"
  have k: "k_src ?key = chain" "unptr (k_sn ?key) = sn" by (simp_all add: request_key_def NewMessageKey_def)
  have g: "GetMessage_db S C ''message'' ?key (r_db s) = Inr w"
    using assms(3) message_db.GetMessage_iff [OF assms(1), of "''message''" ?key "r_db s" w] k by simp
  obtain d' where d': "DeleteMessage S ''message'' ?key (r_db s) = (None, d')"
    using message_db.DeleteMessage_view [OF assms(1)] by blast
  have "stored_msg C (view d') ''message'' src n =
      (if src = chain \<and> n = sn then None else stored_msg C (view (r_db s)) ''message'' src n)" if "sn_ok n" for src n
    using message_db.DeleteMessage_refines [OF assms(1), of ?key n "''message''" "r_db s" src] assms(2) that k d' by simp
  with g d' show ?thesis by (intro exI [of _ d']) (simp add: prefixMessageStore_def)
qed

text \<open>
  C37. The client's \<^verbatim>\<open>MessageRemove\<close> on a stored message returns the message's destination, height
  and event, and the server's relayer has exactly that message less in its database. The caches
  keep their entries: a message that is cached is still routed.
\<close>
theorem client_removes_message:
  assumes "message_db S view C" "sock_laws J"
    and "sn_ok sn" "stored_msg C (view (r_db s)) ''message'' chain sn = Some w"
    and "ascii chain" "ascii (m_dst (rm_msg w))" "ascii (m_event (rm_msg w))"
    and "Client_send J EventMessageRemove (ReqMessageRemove chain sn) = Inr bytes"
    and "s' = snd (Server_serve S C J E bytes s)"
  shows "Client_MessageRemove J (conn_to S C J E s) chain sn =
      Inr (ResMessageRemove sn chain (m_dst (rm_msg w)) (m_height (rm_msg w)) (m_event (rm_msg w))) \<and>
    (\<forall>src n. sn_ok n \<longrightarrow> stored_msg C (view (r_db s')) ''message'' src n =
      (if src = chain \<and> n = sn then None else stored_msg C (view (r_db s)) ''message'' src n)) \<and>
    (\<forall>nid k. cached_ref s' nid k = cached_ref s nid k)"
proof -
  let ?res = "ResMessageRemove sn chain (m_dst (rm_msg w)) (m_height (rm_msg w)) (m_event (rm_msg w))"
  let ?req = "ReqMessageRemove chain sn :: 'c payload"
  obtain d' where d': "on_MessageRemove S C J ?req s = (reply J EventMessageRemove ?res, (bump s)\<lparr>r_db := d'\<rparr>)"
    "\<And>src n. sn_ok n \<Longrightarrow> stored_msg C (view d') ''message'' src n =
      (if src = chain \<and> n = sn then None else stored_msg C (view (r_db s)) ''message'' src n)"
    using on_MessageRemove_found [OF assms(1,3,4), of J] by blast
  have "json_payload ?res" using assms(5-7) by simp
  then obtain out where out: "reply J EventMessageRemove ?res = Ok (SockMessage EventMessageRemove out)"
    "sj_Unmarshal J TResMessageRemove out = Inr ?res"
    using sock_laws.reply_ok [OF assms(2), of ?res EventMessageRemove] by auto
  have pe: "Server_parseEvent S C J E EventMessageRemove data s =
      (Ok (SockMessage EventMessageRemove out), (bump s)\<lparr>r_db := d'\<rparr>)"
    if "sj_Unmarshal J TReqMessageRemove data = Inr ?req" for data
    using that d'(1) out(1) by (simp add: Server_parseEvent_def with_req_def socket_event_defs)
  have req: "json_payload ?req" using assms(5) by simp
  have "Client_MessageRemove J (conn_to S C J E s) chain sn =
      (case Client_parseEvent J EventMessageRemove out of Inl e \<Rightarrow> Inl e
       | Inr p \<Rightarrow> if type_of p = TResMessageRemove then Inr p else Inl (ErrInvalidResponse None))"
    unfolding Client_MessageRemove_def
    by (rule sock_laws.call_answer [OF assms(2) req]) (use pe in auto)
  also have "\<dots> = Inr ?res" using out(2) by (simp add: Client_parseEvent_def socket_event_defs)
  finally have c: "Client_MessageRemove J (conn_to S C J E s) chain sn = Inr ?res" .
  obtain data where data: "sj_Unmarshal J TMessage bytes = Inr (SockMessage EventMessageRemove data)"
    "sj_Unmarshal J TReqMessageRemove data = Inr ?req"
    using sock_laws.send_ok [OF assms(2) req, of EventMessageRemove] assms(8) by auto
  obtain b where b: "of_sum (sj_Marshal J (SockMessage EventMessageRemove out)) = Ok b"
    using sock_laws.read_answer [OF assms(2), of EventMessageRemove out] by auto
  have "s' = (bump s)\<lparr>r_db := d'\<rparr>"
    using assms(9) data(1) pe [OF data(2)] b by (simp add: Server_serve_def Server_parse_def)
  with c d'(2) show ?thesis by simp
qed

theorem client_removes_message_witness:
  "Client_MessageRemove mem_sock (conn_to mem_store mem_codec mem_sock ex_env ex_seen) ''a'' (Some 1) =
    Inr (ResMessageRemove (Some 1) ''a'' ''b'' 3 ''emitMessage'')"
proof -
  let ?w = "NewRouteMessage (ex_msg ''a'' ''b'' 1)"
  have st: "stored_msg mem_codec (map_of (r_db ex_seen)) ''message'' ''a'' (Some 1) = Some ?w" by code_simp
  have f: "ascii ''a''" "ascii (m_dst (rm_msg ?w))" "ascii (m_event (rm_msg ?w))" "sn_ok (Some 1)"
    "m_dst (ex_msg ''a'' ''b'' 1) = ''b''" "m_height (ex_msg ''a'' ''b'' 1) = 3"
    "m_event (ex_msg ''a'' ''b'' 1) = ''emitMessage''"
    by (simp_all add: ex_msg_def ascii_def sn_ok_def)
  have "Client_send mem_sock EventMessageRemove (ReqMessageRemove ''a'' (Some 1)) =
      Inr (SJ (SockMessage EventMessageRemove (SJ (ReqMessageRemove ''a'' (Some 1)))))"
    by (simp add: Client_send_def mem_sock_def)
  from client_removes_message [OF mem.message_db_axioms memsock.sock_laws_axioms f(4) st f(1-3) this refl]
  show ?thesis by (simp add: f)
qed

section \<open>Heights\<close>

text \<open>
  \<^verbatim>\<open>GetBlock\<close> without a chain returns the last saved height of every chain of the relayer
  under its NID; with a chain it returns the height stored in the database for that chain.
\<close>
theorem client_gets_blocks:
  assumes "message_db S view C" "sock_laws J" "relayer_ok s"
    and "\<And>nid. nid \<in> set (map fst (r_chains s)) \<Longrightarrow> ascii nid"
    and "stored_block C (view (r_db s)) ''block'' chain = Some h" "ascii chain" "chain \<noteq> ''''"
  shows "Client_GetBlock J (conn_to S C J E s) '''' =
      Inr (ResGetBlocks (map (\<lambda>(nid, rt). (nid, cr_LastSavedHeight rt)) (r_chains s))) \<and>
    Client_GetBlock J (conn_to S C J E s) chain = Inr (ResGetBlocks [(chain, h)])"
proof -
  have call: "Client_call J (conn_to S C J E s) EventGetBlock (ReqGetBlock ch al) TResGetBlocks = Inr (ResGetBlocks bs)"
    if on: "on_GetBlock S C J (ReqGetBlock ch al) s = reply J EventGetBlock (ResGetBlocks bs)"
      and ch: "ascii ch" and bs: "list_all (\<lambda>(n, h). ascii n) bs" for ch al bs
  proof -
    have "json_payload (ResGetBlocks bs :: 'c payload)" using bs by simp
    then obtain out where out: "reply J EventGetBlock (ResGetBlocks bs) = Ok (SockMessage EventGetBlock out)"
      "sj_Unmarshal J TResGetBlocks out = Inr (ResGetBlocks bs)"
      using sock_laws.reply_ok [OF assms(2), of "ResGetBlocks bs" EventGetBlock] by auto
    have pe: "fst (Server_parseEvent S C J E EventGetBlock data s) = Ok (SockMessage EventGetBlock out)"
      if "sj_Unmarshal J (type_of (ReqGetBlock ch al :: 'c payload)) data = Inr (ReqGetBlock ch al)" for data
      using that on out(1) by (simp add: Server_parseEvent_def with_req_def)
    have req: "json_payload (ReqGetBlock ch al :: 'c payload)" using ch by simp
    have "Client_call J (conn_to S C J E s) EventGetBlock (ReqGetBlock ch al) TResGetBlocks =
      (case Client_parseEvent J EventGetBlock out of Inl e \<Rightarrow> Inl e
       | Inr p \<Rightarrow> if type_of p = TResGetBlocks then Inr p else Inl (ErrInvalidResponse None))"
      by (rule sock_laws.call_answer [OF assms(2) req]) (use pe in auto)
    with out(2) show ?thesis by (simp add: Client_parseEvent_def)
  qed
  have nids: "map (\<lambda>rt. (pv_NID (cr_Provider rt), cr_LastSavedHeight rt)) (GetAllChainsRuntime s) =
      map (\<lambda>(nid, rt). (nid, cr_LastSavedHeight rt)) (r_chains s)"
    using assms(3) by (auto simp: GetAllChainsRuntime_def relayer_ok_def chain_ok_def)
  have "on_GetBlock S C J (ReqGetBlock '''' True) s =
      reply J EventGetBlock (ResGetBlocks (map (\<lambda>(nid, rt). (nid, cr_LastSavedHeight rt)) (r_chains s)))"
    by (simp add: nids)
  moreover have "list_all (\<lambda>(n, h). ascii n) (map (\<lambda>(nid, rt). (nid, cr_LastSavedHeight rt)) (r_chains s))"
    using assms(4) by (force simp: list_all_iff)
  moreover have "on_GetBlock S C J (ReqGetBlock chain False) s = reply J EventGetBlock (ResGetBlocks [(chain, h)])"
    using assms(5) message_db.GetLastStoredBlock_iff [OF assms(1), of "''block''" chain "r_db s" h]
    by (simp add: prefixBlockStore_def of_sum_def)
  ultimately show ?thesis
    using call [of "''''" True] call [of chain False] assms(6,7) by (simp add: Client_GetBlock_def ascii_def)
qed

theorem client_gets_blocks_witness:
  "Client_GetBlock mem_sock (conn_to mem_store mem_codec mem_sock ex_env ex_saved) ''a'' =
    Inr (ResGetBlocks [(''a'', 77)])"
proof -
  have ok: "relayer_ok ex_saved"
    unfolding ex_saved_def by (rule wf_SaveBlockHeight [OF reachable_ok [OF ex_start_reachable]])
  have "map fst (r_chains ex_saved) = [''a'', ''b'']" by code_simp
  then have a: "\<And>nid. nid \<in> set (map fst (r_chains ex_saved)) \<Longrightarrow> ascii nid" by (auto simp: ascii_def)
  have st: "stored_block mem_codec (map_of (r_db ex_saved)) ''block'' ''a'' = Some 77" by code_simp
  have "ascii ''a''" by (simp add: ascii_def)
  from client_gets_blocks [OF mem.message_db_axioms memsock.sock_laws_axioms ok a st this]
  show ?thesis by simp
qed

section \<open>Errors and panics\<close>

text \<open>
  Whatever goes wrong inside the server, the client sees the same: an error of the server's
  event switch reaches it as \<^verbatim>\<open>unknown error\<close>, its text is dropped.
\<close>
theorem client_sees_unknown_error:
  assumes "sock_laws J" "json_payload req" "ascii ev"
    and "\<And>data. sj_Unmarshal J (type_of req) data = Inr req \<Longrightarrow>
           fst (Server_parseEvent S C J E ev data s) = Err e"
  shows "Client_call J (conn_to S C J E s) ev req T = Inl ErrUnknown"
  by (rule sock_laws.call_error [OF assms])

theorem client_sees_unknown_error_witness:
  "Client_GetFee mem_sock (conn_to mem_store mem_codec mem_sock ex_env ex_start) ''zz'' ''a'' False = Inl ErrUnknown"
  unfolding Client_GetFee_def
proof (rule client_sees_unknown_error [OF memsock.sock_laws_axioms])
  show "json_payload (ReqGetFee ''zz'' ''a'' False :: sjson payload)" by (simp add: ascii_def)
  show "ascii EventGetFee" by simp
  fix data
  assume "sj_Unmarshal mem_sock (type_of (ReqGetFee ''zz'' ''a'' False :: sjson payload)) data = Inr (ReqGetFee ''zz'' ''a'' False)"
  then show "fst (Server_parseEvent mem_store mem_codec mem_sock ex_env EventGetFee data ex_start) =
      Err ''chain runtime not found, nId:zz ''"
    by (simp add: Server_parseEvent_def with_req_def socket_event_defs FindChainRuntime_def ex_start_def)
qed

text \<open>
  A \<^verbatim>\<open>RelayMessage\<close> request for a height at which the chain generates no message panics the
  server, and with it the relayer: the answer takes the first of no messages.
\<close>
theorem relay_message_panics:
  assumes "map_of (r_chains s) chain = Some rt" "pv_NID (cr_Provider rt) = chain" "height \<noteq> 0"
    and "ev_GenerateMessages E chain (NewMessageKey sn chain '''' '''') height = Inr []"
    and "sj_Unmarshal J TMessage bytes = Inr (SockMessage EventRelayMessage data)"
    and "sj_Unmarshal J TReqRelayMessage data = Inr (ReqRelayMessage chain sn height)"
  shows "fst (Server_serve S C J E bytes s) = Panic ''index out of range''"
proof -
  have f: "FindChainRuntime chain s = Ok rt" using assms(1) by (simp add: FindChainRuntime_def)
  have "fst (Server_parseEvent S C J E EventRelayMessage data s) = Panic ''index out of range''"
    using assms f by (simp add: Server_parseEvent_def with_req_def socket_event_defs Let_def)
  then show ?thesis
    using assms(5) by (cases "Server_parseEvent S C J E EventRelayMessage data s")
      (simp add: Server_serve_def Server_parse_def)
qed

theorem relay_message_panics_witness:
  "fst (Server_serve mem_store mem_codec mem_sock ex_env
      (SJ (SockMessage EventRelayMessage (SJ (ReqRelayMessage ''a'' (Some 1) 12)))) ex_start) =
    Panic ''index out of range''"
proof -
  have "(case map_of (r_chains ex_start) ''a'' of None \<Rightarrow> False | Some rt \<Rightarrow> pv_NID (cr_Provider rt) = ''a'')" by code_simp
  then obtain rt where rt: "map_of (r_chains ex_start) ''a'' = Some rt" "pv_NID (cr_Provider rt) = ''a''"
    by (auto split: option.splits)
  show ?thesis
    by (rule relay_message_panics [OF rt, where height = 12 and sn = "Some 1" and
          data = "SJ (ReqRelayMessage ''a'' (Some 1) 12)"]) (simp_all add: ex_env_def mem_sock_def)
qed

end
