(* ===== verification/Keystore.thy ===== *)
theory Keystore
  imports Wasm_Sdk Chain
begin

text \<open>
  The keystores: \<^verbatim>\<open>relayer/kms\<close> and the \<^verbatim>\<open>keys.go\<close> of the three providers. A wallet is two files in the
  keystore directory of its network, the key and its password, both encrypted by a key service.

  The key service and the libraries of key files are third-party code: \<open>kms_client\<close>, \<open>evm_keys\<close>,
  \<open>icon_keys\<close> and \<open>key_lib\<close> (of the theory \<open>Wasm_Sdk\<close>) are the records of their answers. A key is an
  abstract value with an address; the keyring of a Cosmos client is an abstract state.
\<close>

section \<open>The key service\<close>

record kms_client =
  kc_CreateKey :: "error + string"
  kc_Encrypt :: "string \<Rightarrow> bytes \<Rightarrow> error + bytes"
  kc_Decrypt :: "string \<Rightarrow> bytes \<Rightarrow> error + bytes"

record kms_config =
  km_client :: kms_client
  km_key :: string

definition ErrKeyAlreadyExists :: error where "ErrKeyAlreadyExists = ''kms key already exists''"

definition KMS_Init :: "kms_config \<Rightarrow> error + string" where
  "KMS_Init k = (if length (km_key k) > 1 then Inl ErrKeyAlreadyExists else kc_CreateKey (km_client k))"

definition KMS_Encrypt :: "kms_config \<Rightarrow> bytes \<Rightarrow> error + bytes" where
  "KMS_Encrypt k data = kc_Encrypt (km_client k) (km_key k) data"

definition KMS_Decrypt :: "kms_config \<Rightarrow> bytes \<Rightarrow> error + bytes" where
  "KMS_Decrypt k data = kc_Decrypt (km_client k) (km_key k) data"

text \<open>What the service promises: what it encrypts it decrypts again under the same key.\<close>

definition kms_good :: "kms_config \<Rightarrow> bool" where
  "kms_good k = (\<forall>d c. KMS_Encrypt k d = Inr c \<longrightarrow> KMS_Decrypt k c = Inr d)"

section \<open>Files of a keystore\<close>

definition keystorePath :: "common_config \<Rightarrow> string \<Rightarrow> string" where
  "keystorePath p addr = path_Join [cc_HomeDir p, ''keystore'', cc_NID p, addr]"

text \<open>Reading and decrypting the two files of a wallet, as every \<^verbatim>\<open>RestoreKeystore\<close> begins.\<close>

definition read_keystore :: "kms_config \<Rightarrow> string \<Rightarrow> fs \<Rightarrow> error + (bytes \<times> bytes)" where
  "read_keystore k path fs =
     ebind (os_ReadFile path fs) (\<lambda>keystoreCipher.
     ebind (KMS_Decrypt k keystoreCipher) (\<lambda>keystoreJson.
     ebind (os_ReadFile (path @ ''.pass'') fs) (\<lambda>authCipher.
     ebind (KMS_Decrypt k authCipher) (\<lambda>secret. Inr (keystoreJson, secret)))))"

text \<open>Writing the two files when both are encrypted already.\<close>

definition write_keystore :: "string \<Rightarrow> bytes \<Rightarrow> bytes \<Rightarrow> fs \<Rightarrow> error option \<times> fs" where
  "write_keystore path keystoreEncrypted passwordEncrypted fs =
     (case os_WriteFile path keystoreEncrypted fs of
        (Some e, fs1) \<Rightarrow> (Some e, fs1)
      | (None, fs1) \<Rightarrow> os_WriteFile (path @ ''.pass'') passwordEncrypted fs1)"

text \<open>Where the password is encrypted only after the key is written.\<close>

definition write_encrypting :: "kms_config \<Rightarrow> string \<Rightarrow> bytes \<Rightarrow> string \<Rightarrow> fs \<Rightarrow> error option \<times> fs" where
  "write_encrypting k path encryptedArmor passphrase fs =
     (case os_WriteFile path encryptedArmor fs of
        (Some e, fs1) \<Rightarrow> (Some e, fs1)
      | (None, fs1) \<Rightarrow>
         (case KMS_Encrypt k passphrase of
            Inl e \<Rightarrow> (Some e, fs1)
          | Inr encryptedPassphrase \<Rightarrow> os_WriteFile (path @ ''.pass'') encryptedPassphrase fs1))"

section \<open>EVM\<close>

text \<open>
  \<open>ek_StoreKey\<close> makes a key file in the temporary directory: the address of the key, the path of the
  file and its content.
\<close>

record 'k evm_keys =
  ek_StoreKey :: "string \<Rightarrow> error + (string \<times> string \<times> bytes)"
  ek_DecryptKey :: "bytes \<Rightarrow> string \<Rightarrow> error + 'k"
  ek_Hex :: "'k \<Rightarrow> string"

definition Evm_RestoreKeystore :: "kms_config \<Rightarrow> 'k evm_keys \<Rightarrow> common_config \<Rightarrow> fs \<Rightarrow> error + 'k" where
  "Evm_RestoreKeystore k E p fs =
     ebind (read_keystore k (keystorePath p (cc_Address p)) fs) (\<lambda>(keystoreJson, secret).
       ek_DecryptKey E keystoreJson secret)"

definition Evm_NewKeystore ::
    "kms_config \<Rightarrow> 'k evm_keys \<Rightarrow> common_config \<Rightarrow> string \<Rightarrow> fs \<Rightarrow> (string \<times> error option) \<times> fs" where
  "Evm_NewKeystore k E p password fs =
     (case ek_StoreKey E password of
        Inl e \<Rightarrow> (('''', Some e), fs)
      | Inr (addr, tmp, content) \<Rightarrow>
         let fs1 = fs\<lparr>fs_files := AList.update tmp content (fs_files fs)\<rparr> in
         (case ebind (os_ReadFile tmp fs1) (\<lambda>data. ebind (KMS_Encrypt k data) (\<lambda>keystoreEncrypted.
               ebind (KMS_Encrypt k password) (\<lambda>passwordEncrypted. Inr (keystoreEncrypted, passwordEncrypted)))) of
            Inl e \<Rightarrow> (('''', Some e), fs1)
          | Inr (keystoreEncrypted, passwordEncrypted) \<Rightarrow>
             (case write_keystore (keystorePath p addr) keystoreEncrypted passwordEncrypted fs1 of
                (Some e, fs2) \<Rightarrow> (('''', Some e), fs2)
              | (None, fs2) \<Rightarrow> let (err, fs3) = os_Remove tmp fs2 in ((addr, err), fs3))))"

text \<open>The keystore is written under the address of the configuration, not under that of the imported key.\<close>

definition Evm_ImportKeystore ::
    "kms_config \<Rightarrow> 'k evm_keys \<Rightarrow> common_config \<Rightarrow> string \<Rightarrow> string \<Rightarrow> fs \<Rightarrow> (string \<times> error option) \<times> fs" where
  "Evm_ImportKeystore k E p keyPath passphrase fs =
     (case ebind (os_ReadFile keyPath fs) (\<lambda>keystoreContent.
           ebind (ek_DecryptKey E keystoreContent passphrase) (\<lambda>key.
           ebind (KMS_Encrypt k keystoreContent) (\<lambda>keystoreEncrypted.
           ebind (KMS_Encrypt k passphrase) (\<lambda>passwordEncrypted.
             Inr (key, keystoreEncrypted, passwordEncrypted))))) of
        Inl e \<Rightarrow> (('''', Some e), fs)
      | Inr (key, keystoreEncrypted, passwordEncrypted) \<Rightarrow>
         (case write_keystore (keystorePath p (cc_Address p)) keystoreEncrypted passwordEncrypted fs of
            (Some e, fs1) \<Rightarrow> (('''', Some e), fs1)
          | (None, fs1) \<Rightarrow> ((ek_Hex E key, None), fs1)))"

section \<open>ICON\<close>

record ('p, 'k) icon_keys =
  ik_GenerateKeyPair :: 'p
  ik_EncryptKeyAsKeyStore :: "'p \<Rightarrow> bytes \<Rightarrow> error + bytes"
  ik_NewFromKeyStore :: "bytes \<Rightarrow> bytes \<Rightarrow> error + 'k"
  ik_Address :: "'k \<Rightarrow> string"

definition Icon_RestoreKeystore ::
    "kms_config \<Rightarrow> ('p, 'k) icon_keys \<Rightarrow> common_config \<Rightarrow> fs \<Rightarrow> error + 'k" where
  "Icon_RestoreKeystore k I p fs =
     ebind (read_keystore k (keystorePath p (cc_Address p)) fs) (\<lambda>(keystoreJson, secret).
       ik_NewFromKeyStore I keystoreJson secret)"

definition Icon_NewKeystore ::
    "kms_config \<Rightarrow> ('p, 'k) icon_keys \<Rightarrow> common_config \<Rightarrow> string \<Rightarrow> fs \<Rightarrow> (string \<times> error option) \<times> fs" where
  "Icon_NewKeystore k I p password fs =
     (case ebind (ik_EncryptKeyAsKeyStore I (ik_GenerateKeyPair I) password) (\<lambda>data.
           ebind (KMS_Encrypt k data) (\<lambda>keystoreEncrypted.
           ebind (KMS_Encrypt k password) (\<lambda>passwordEncrypted.
           ebind (ik_NewFromKeyStore I data password) (\<lambda>wallet.
             Inr (ik_Address I wallet, keystoreEncrypted, passwordEncrypted))))) of
        Inl e \<Rightarrow> (('''', Some e), fs)
      | Inr (addr, keystoreEncrypted, passwordEncrypted) \<Rightarrow>
         (case write_keystore (keystorePath p addr) keystoreEncrypted passwordEncrypted fs of
            (Some e, fs1) \<Rightarrow> (('''', Some e), fs1)
          | (None, fs1) \<Rightarrow> ((addr, None), fs1)))"

definition Icon_ImportKeystore ::
    "kms_config \<Rightarrow> ('p, 'k) icon_keys \<Rightarrow> common_config \<Rightarrow> string \<Rightarrow> string \<Rightarrow> fs \<Rightarrow> (string \<times> error option) \<times> fs" where
  "Icon_ImportKeystore k I p keyPath passphrase fs =
     (case ebind (os_ReadFile keyPath fs) (\<lambda>keystore.
           ebind (ik_NewFromKeyStore I keystore passphrase) (\<lambda>wallet.
           ebind (KMS_Encrypt k keystore) (\<lambda>keyStoreEncrypted.
             Inr (ik_Address I wallet, keyStoreEncrypted)))) of
        Inl e \<Rightarrow> (('''', Some e), fs)
      | Inr (addr, keyStoreEncrypted) \<Rightarrow>
         (case write_encrypting k (keystorePath p addr) keyStoreEncrypted passphrase fs of
            (Some e, fs1) \<Rightarrow> (('''', Some e), fs1)
          | (None, fs1) \<Rightarrow> ((addr, None), fs1)))"

section \<open>CosmWasm\<close>

text \<open>The client's keyring is a state \<^typ>\<open>'r\<close>; its entry is named by the network.\<close>

definition Wasm_RestoreKeystore ::
    "kms_config \<Rightarrow> 'r key_lib \<Rightarrow> common_config \<Rightarrow> fs \<Rightarrow> 'r \<Rightarrow> error option \<times> 'r" where
  "Wasm_RestoreKeystore k L p fs ring =
     (case read_keystore k (keystorePath p (cc_Address p)) fs of
        Inl e \<Rightarrow> (Some e, ring)
      | Inr (priv, pass) \<Rightarrow>
         (case WasmClient_ImportArmor L (cc_NID p) priv pass ring of
            (None, ring') \<Rightarrow> (None, ring')
          | (Some e, ring') \<Rightarrow> (if Contains e ''cannot overwrite key'' then None else Some e, ring')))"

text \<open>
  The account is created, and its address made into text, before the provider \<open>i\<close> sets its own
  prefix; the mutex is released when the function returns. The value is \<^const>\<open>None\<close> when the mutex
  is held, so that the function waits.
\<close>

definition Wasm_NewKeystore ::
    "nat \<Rightarrow> kms_config \<Rightarrow> 'r key_lib \<Rightarrow> common_config \<Rightarrow> string \<Rightarrow> string \<Rightarrow> sdk_global \<Rightarrow> fs
     \<Rightarrow> ((string \<times> error option) \<times> fs \<times> sdk_global) option" where
  "Wasm_NewKeystore i k L p accountPrefix passphrase g fs =
     (case WasmClient_CreateAccount L g (cc_NID p) passphrase of
        Inl e \<Rightarrow> Some (('''', Some e), fs, g)
      | Inr (armor, addr) \<Rightarrow>
         map_option (\<lambda>g1.
             (case KMS_Encrypt k armor of
                Inl e \<Rightarrow> (('''', Some e), fs, sdk_unlock g1)
              | Inr encryptedArmor \<Rightarrow>
                 (case write_encrypting k (keystorePath p addr) encryptedArmor passphrase fs of
                    (Some e, fs1) \<Rightarrow> (('''', Some e), fs1, sdk_unlock g1)
                  | (None, fs1) \<Rightarrow> ((addr, None), fs1, sdk_unlock g1))))
           (SetSDKConfigContext i accountPrefix g))"

text \<open>An import makes the text of the address after the prefix is set.\<close>

definition Wasm_ImportKeystore ::
    "nat \<Rightarrow> kms_config \<Rightarrow> 'r key_lib \<Rightarrow> common_config \<Rightarrow> string \<Rightarrow> string \<Rightarrow> string \<Rightarrow> sdk_global \<Rightarrow> fs \<Rightarrow> 'r
     \<Rightarrow> ((string \<times> error option) \<times> fs \<times> 'r \<times> sdk_global) option" where
  "Wasm_ImportKeystore i k L p accountPrefix keyPath passphrase g fs ring =
     (case os_ReadFile keyPath fs of
        Inl e \<Rightarrow> Some (('''', Some e), fs, ring, g)
      | Inr privFile \<Rightarrow>
         map_option (\<lambda>g1.
             (case WasmClient_ImportArmor L (cc_NID p) privFile passphrase ring of
                (Some e, ring') \<Rightarrow> (('''', Some e), fs, ring', sdk_unlock g1)
              | (None, ring') \<Rightarrow>
                 (case ebind (WasmClient_GetArmor L (cc_NID p) passphrase ring') (\<lambda>armor.
                       ebind (WasmClient_GetKey L (cc_NID p) ring') (\<lambda>record.
                       ebind (kl_GetAddress L record) (\<lambda>addr.
                       ebind (KMS_Encrypt k armor) (\<lambda>armorCipher.
                       ebind (KMS_Encrypt k passphrase) (\<lambda>passphraseCipher.
                         Inr (AccAddress_String (kl_bech32 L) g1 addr, armorCipher, passphraseCipher)))))) of
                    Inl e \<Rightarrow> (('''', Some e), fs, ring', sdk_unlock g1)
                  | Inr (addr, armorCipher, passphraseCipher) \<Rightarrow>
                     (case write_keystore (keystorePath p addr) armorCipher passphraseCipher fs of
                        (Some e, fs1) \<Rightarrow> (('''', Some e), fs1, ring', sdk_unlock g1)
                      | (None, fs1) \<Rightarrow> ((addr, None), fs1, ring', sdk_unlock g1)))))
           (SetSDKConfigContext i accountPrefix g))"

end
