(* ===== verification/Keystore_Props.thy ===== *)
theory Keystore_Props
  imports Keystore
begin

text \<open>
  Properties of the keystores: a new wallet is the one that is restored when its address is
  configured, and it leaves all other wallets as they are; an imported ICON wallet behaves the same,
  an imported EVM wallet takes the place of the configured one.
\<close>

section \<open>Paths of wallets\<close>

definition keystore_dir :: "common_config \<Rightarrow> string" where
  "keystore_dir p = Join (dropWhile (\<lambda>e. e = '''') [cc_HomeDir p, ''keystore'', cc_NID p]) ''/''"

text \<open>Two wallets whose files have different names.\<close>

definition apart :: "string \<Rightarrow> string \<Rightarrow> bool" where
  "apart a b = (plain_name a \<and> plain_name b \<and> a \<noteq> b \<and> a \<noteq> b @ ''.pass'' \<and> a @ ''.pass'' \<noteq> b)"

lemma keystorePath_wallet [simp]:
  "keystorePath (CommonConfig_SetWallet a p) b = keystorePath p b"
  "cc_Address (CommonConfig_SetWallet a p) = a"
  "cc_NID (CommonConfig_SetWallet a p) = cc_NID p"
  by (simp_all add: keystorePath_def CommonConfig_SetWallet_def)

lemma keystorePath_name:
  assumes "plain_name a"
  shows "keystorePath p a = path_of (HasPrefix (keystore_dir p) ''/'') (path_elems (keystore_dir p) @ [a])"
proof -
  have "keystorePath p a = path_Clean (keystore_dir p @ ''/'' @ a)"
    by (simp add: keystorePath_def path_Join_def keystore_dir_def)
  also have "keystore_dir p \<noteq> ''''" by (simp add: keystore_dir_def)
  then have "path_Clean (keystore_dir p @ ''/'' @ a) =
      path_of (HasPrefix (keystore_dir p) ''/'') (path_elems (keystore_dir p) @ [a])"
    using assms by (rule path_Clean_name)
  finally show ?thesis .
qed

lemma keystorePath_inj [simp]:
  "plain_name a \<Longrightarrow> plain_name b \<Longrightarrow> keystorePath p a = keystorePath p b \<longleftrightarrow> a = b"
  by (simp add: keystorePath_name path_of_snoc)

lemma keystorePath_pass: "plain_name a \<Longrightarrow> keystorePath p a @ ''.pass'' = keystorePath p (a @ ''.pass'')"
  using plain_pass [of a] by (simp add: keystorePath_name path_of_snoc)

lemma apart_paths:
  assumes "apart a b"
  shows "keystorePath p a \<noteq> keystorePath p b" "keystorePath p a \<noteq> keystorePath p b @ ''.pass''"
    "keystorePath p a @ ''.pass'' \<noteq> keystorePath p b"
    "keystorePath p a @ ''.pass'' \<noteq> keystorePath p b @ ''.pass''"
  using assms by (simp_all add: apart_def keystorePath_pass plain_pass)

section \<open>Writing and reading the two files\<close>

lemma write_keystore_None:
  "write_keystore path c d fs = (None, fs') \<Longrightarrow>
     fs' = fs\<lparr>fs_files := AList.update (path @ ''.pass'') d (AList.update path c (fs_files fs))\<rparr> \<and>
     fs_fault fs path = None \<and> path \<notin> set (fs_dirs fs) \<and>
     fs_fault fs (path @ ''.pass'') = None \<and> path @ ''.pass'' \<notin> set (fs_dirs fs)"
  by (auto simp: write_keystore_def split: prod.splits option.splits dest!: os_WriteFile_None)

lemma write_encrypting_None:
  "write_encrypting k path c pass fs = (None, fs') \<Longrightarrow>
     \<exists>d. KMS_Encrypt k pass = Inr d \<and> write_keystore path c d fs = (None, fs')"
  by (auto simp: write_encrypting_def write_keystore_def split: prod.splits option.splits sum.splits)

lemma written_is_read:
  assumes "write_keystore path c d fs = (None, fs')" "kms_good k"
    and "KMS_Encrypt k key = Inr c" "KMS_Encrypt k pass = Inr d"
  shows "read_keystore k path fs' = Inr (key, pass)"
proof -
  have "os_ReadFile path fs' = Inr c" "os_ReadFile (path @ ''.pass'') fs' = Inr d"
    using write_keystore_None [OF assms(1)] by (auto simp: os_ReadFile_def)
  moreover have "KMS_Decrypt k c = Inr key" "KMS_Decrypt k d = Inr pass" using assms(2-4) by (auto simp: kms_good_def)
  ultimately show ?thesis by (simp add: read_keystore_def)
qed

lemma read_other:
  assumes "write_keystore (keystorePath p b) c d fs = (None, fs')" "apart a b"
  shows "read_keystore k (keystorePath p a) fs' = read_keystore k (keystorePath p a) fs"
proof -
  have "os_ReadFile q fs' = os_ReadFile q fs" if "q \<noteq> keystorePath p b" "q \<noteq> keystorePath p b @ ''.pass''" for q
    using write_keystore_None [OF assms(1)] that by (auto simp: os_ReadFile_def split: option.splits)
  then show ?thesis using apart_paths [OF assms(2), of p] by (simp add: read_keystore_def)
qed

lemma read_temporary:
  "path \<noteq> tmp \<Longrightarrow> path @ ''.pass'' \<noteq> tmp \<Longrightarrow>
     read_keystore k path (fs\<lparr>fs_files := AList.update tmp d (fs_files fs)\<rparr>) = read_keystore k path fs \<and>
     read_keystore k path (fs\<lparr>fs_files := AList.delete tmp (fs_files fs)\<rparr>) = read_keystore k path fs"
  by (simp add: read_keystore_def read_update read_delete)

section \<open>The contract of a keystore\<close>

text \<open>
  \<open>new\<close> makes a wallet, \<open>restore\<close> is the wallet that is unlocked when an address is configured, and
  \<open>named\<close> is the text of a wallet's address when \<open>new\<close> makes it. \<open>good\<close> says that the third-party code
  behind a provider keeps its promises.
\<close>

locale keystore_provider =
  fixes good :: "'e \<Rightarrow> bool"
    and new :: "'e \<Rightarrow> string \<Rightarrow> fs \<Rightarrow> (string \<times> error option) \<times> fs"
    and restore :: "'e \<Rightarrow> string \<Rightarrow> fs \<Rightarrow> error + 'w"
    and named :: "'e \<Rightarrow> 'w \<Rightarrow> string"
  assumes new_restores: "good e \<Longrightarrow> new e pw fs = ((addr, None), fs') \<Longrightarrow>
      \<exists>w. restore e addr fs' = Inr w \<and> named e w = addr"
    and new_keeps: "good e \<Longrightarrow> new e pw fs = ((addr, None), fs') \<Longrightarrow> apart a addr \<Longrightarrow>
      restore e a fs' = restore e a fs"
begin

lemma restored_stay:
  assumes "good e" "new e pw fs = ((addr, None), fs')"
    and "list_all (\<lambda>a. (\<exists>w. restore e a fs = Inr w \<and> named e w = a) \<and> apart a addr) as"
  shows "list_all (\<lambda>a. \<exists>w. restore e a fs' = Inr w \<and> named e w = a) (addr # as)"
  using assms new_restores [OF assms(1,2)] new_keeps [OF assms(1,2)] by (auto simp: list_all_iff)

end

section \<open>The three keystores\<close>

text \<open>What the key file library of go-ethereum promises of a key it stores in the temporary directory.\<close>

definition evm_keys_good :: "common_config \<Rightarrow> 'k evm_keys \<Rightarrow> bool" where
  "evm_keys_good p E = (\<forall>pw addr tmp content. ek_StoreKey E pw = Inr (addr, tmp, content) \<longrightarrow>
     plain_name addr \<and> (\<forall>a. plain_name a \<longrightarrow> tmp \<noteq> keystorePath p a) \<and>
     (\<exists>key. ek_DecryptKey E content pw = Inr key \<and> ek_Hex E key = addr))"

definition evm_good :: "kms_config \<times> 'k evm_keys \<times> common_config \<Rightarrow> bool" where
  "evm_good e = (case e of (k, E, p) \<Rightarrow> kms_good k \<and> evm_keys_good p E)"

definition evm_new where "evm_new e = (case e of (k, E, p) \<Rightarrow> Evm_NewKeystore k E p)"

definition evm_restored :: "kms_config \<times> 'k evm_keys \<times> common_config \<Rightarrow> string \<Rightarrow> fs \<Rightarrow> error + string" where
  "evm_restored e a fs = (case e of (k, E, p) \<Rightarrow>
     map_sum id (ek_Hex E) (Evm_RestoreKeystore k E (CommonConfig_SetWallet a p) fs))"

lemma Evm_NewKeystore_writes:
  assumes "Evm_NewKeystore k E p pw fs = ((addr, None), fs')" "evm_keys_good p E"
  obtains tmp content c d fs2 where
    "ek_StoreKey E pw = Inr (addr, tmp, content)" "KMS_Encrypt k content = Inr c" "KMS_Encrypt k pw = Inr d"
    "write_keystore (keystorePath p addr) c d (fs\<lparr>fs_files := AList.update tmp content (fs_files fs)\<rparr>) = (None, fs2)"
    "fs' = fs2 \<or> fs' = fs2\<lparr>fs_files := AList.delete tmp (fs_files fs2)\<rparr>" "plain_name addr"
    "\<And>a. plain_name a \<Longrightarrow> tmp \<noteq> keystorePath p a"
proof -
  from assms(1) obtain tmp content where st: "ek_StoreKey E pw = Inr (addr, tmp, content)"
    by (auto simp: Evm_NewKeystore_def Let_def split: sum.splits prod.splits option.splits)
  let ?fs1 = "fs\<lparr>fs_files := AList.update tmp content (fs_files fs)\<rparr>"
  from assms(1) st obtain data c d fs2 where r: "os_ReadFile tmp ?fs1 = Inr data"
    "KMS_Encrypt k data = Inr c" "KMS_Encrypt k pw = Inr d"
    "write_keystore (keystorePath p addr) c d ?fs1 = (None, fs2)" "os_Remove tmp fs2 = (None, fs')"
    by (auto simp: Evm_NewKeystore_def Let_def split: sum.splits prod.splits option.splits)
  have "data = content" using r(1) by (auto simp: os_ReadFile_def split: option.splits if_splits)
  with r that [OF st] os_Remove_cases [OF r(5)] st assms(2) show thesis
    by (simp add: evm_keys_good_def)
qed

interpretation evm_ks: keystore_provider evm_good evm_new evm_restored "\<lambda>e w. w"
proof
  fix e :: "kms_config \<times> 'k evm_keys \<times> common_config" and pw addr a :: string and fs fs' :: fs
  assume g: "evm_good e" and n: "evm_new e pw fs = ((addr, None), fs')"
  obtain k E p where e: "e = (k, E, p)" by (cases e)
  from n g e have n': "Evm_NewKeystore k E p pw fs = ((addr, None), fs')" and k: "kms_good k" and E: "evm_keys_good p E"
    by (simp_all add: evm_new_def evm_good_def)
  from Evm_NewKeystore_writes [OF n' E] obtain tmp content c d fs2 where
    w: "ek_StoreKey E pw = Inr (addr, tmp, content)" "KMS_Encrypt k content = Inr c" "KMS_Encrypt k pw = Inr d"
    "write_keystore (keystorePath p addr) c d (fs\<lparr>fs_files := AList.update tmp content (fs_files fs)\<rparr>) = (None, fs2)"
    "fs' = fs2 \<or> fs' = fs2\<lparr>fs_files := AList.delete tmp (fs_files fs2)\<rparr>" "plain_name addr"
    "\<And>a. plain_name a \<Longrightarrow> tmp \<noteq> keystorePath p a" by blast
  have away: "read_keystore k (keystorePath p b) fs' = read_keystore k (keystorePath p b) fs2" if "plain_name b" for b
    using read_temporary [of "keystorePath p b" tmp k _ fs2] w(5) w(7) [OF that] w(7) [OF plain_pass [OF that]]
      keystorePath_pass [OF that, of p] by auto
  {
    have "read_keystore k (keystorePath p addr) fs' = Inr (content, pw)"
      using written_is_read [OF w(4) k w(2,3)] away [OF w(6)] by simp
    moreover obtain key where "ek_DecryptKey E content pw = Inr key" "ek_Hex E key = addr"
      using E w(1) unfolding evm_keys_good_def by blast
    ultimately show "\<exists>w. evm_restored e addr fs' = Inr w \<and> w = addr"
      by (simp add: evm_restored_def e Evm_RestoreKeystore_def)
  next
    assume ap: "apart a addr"
    then have "plain_name a" by (simp add: apart_def)
    then have "read_keystore k (keystorePath p a) fs' = read_keystore k (keystorePath p a) fs"
      using read_other [OF w(4) ap, of k] away read_temporary [of "keystorePath p a" tmp k content fs]
        w(7) [OF plain_pass, of a] w(7) keystorePath_pass [of a p] by fastforce
    then show "evm_restored e a fs' = evm_restored e a fs"
      by (simp add: evm_restored_def e Evm_RestoreKeystore_def)
  }
qed

text \<open>The library of goloop promises nothing the code relies on beyond the address.\<close>

definition icon_good :: "kms_config \<times> ('p, 'k) icon_keys \<times> common_config \<Rightarrow> bool" where
  "icon_good e = (case e of (k, I, p) \<Rightarrow> kms_good k)"

definition icon_new where "icon_new e = (case e of (k, I, p) \<Rightarrow> Icon_NewKeystore k I p)"

definition icon_restored :: "kms_config \<times> ('p, 'k) icon_keys \<times> common_config \<Rightarrow> string \<Rightarrow> fs \<Rightarrow> error + string" where
  "icon_restored e a fs = (case e of (k, I, p) \<Rightarrow>
     map_sum id (ik_Address I) (Icon_RestoreKeystore k I (CommonConfig_SetWallet a p) fs))"

lemma Icon_NewKeystore_writes:
  assumes "Icon_NewKeystore k I p pw fs = ((addr, None), fs')"
  obtains data w c d where "KMS_Encrypt k data = Inr c" "KMS_Encrypt k pw = Inr d"
    "ik_NewFromKeyStore I data pw = Inr w" "ik_Address I w = addr"
    "write_keystore (keystorePath p addr) c d fs = (None, fs')"
proof -
  let ?r = "ebind (ik_EncryptKeyAsKeyStore I (ik_GenerateKeyPair I) pw) (\<lambda>data.
     ebind (KMS_Encrypt k data) (\<lambda>keystoreEncrypted. ebind (KMS_Encrypt k pw) (\<lambda>passwordEncrypted.
     ebind (ik_NewFromKeyStore I data pw) (\<lambda>wallet. Inr (ik_Address I wallet, keystoreEncrypted, passwordEncrypted)))))"
  from assms obtain c d where "?r = Inr (addr, c, d)" "write_keystore (keystorePath p addr) c d fs = (None, fs')"
    unfolding Icon_NewKeystore_def by (cases ?r) (auto split: prod.splits option.splits)
  with that show thesis by auto
qed

interpretation icon_ks: keystore_provider icon_good icon_new icon_restored "\<lambda>e w. w"
proof
  fix e :: "kms_config \<times> ('p, 'k) icon_keys \<times> common_config" and pw addr a :: string and fs fs' :: fs
  assume g: "icon_good e" and n: "icon_new e pw fs = ((addr, None), fs')"
  obtain k I p where e: "e = (k, I, p)" by (cases e)
  from n g e have n': "Icon_NewKeystore k I p pw fs = ((addr, None), fs')" and k: "kms_good k"
    by (simp_all add: icon_new_def icon_good_def)
  from n' obtain data w c d where
    w: "KMS_Encrypt k data = Inr c" "KMS_Encrypt k pw = Inr d" "ik_NewFromKeyStore I data pw = Inr w"
    "ik_Address I w = addr" "write_keystore (keystorePath p addr) c d fs = (None, fs')"
    by (rule Icon_NewKeystore_writes)
  {
    show "\<exists>w. icon_restored e addr fs' = Inr w \<and> w = addr"
      using written_is_read [OF w(5) k w(1,2)] w(3,4) by (simp add: icon_restored_def e Icon_RestoreKeystore_def)
  next
    assume "apart a addr"
    from read_other [OF w(5) this, of k] show "icon_restored e a fs' = icon_restored e a fs"
      by (simp add: icon_restored_def e Icon_RestoreKeystore_def)
  }
qed

text \<open>
  A new CosmWasm wallet is made by the provider \<open>i\<close> with its prefix, in a process whose SDK is in the
  state \<open>g\<close>; restored is the address of the keyring's entry, in bytes.
\<close>

definition wasm_good :: "nat \<times> kms_config \<times> 'r key_lib \<times> 'r \<times> common_config \<times> string \<times> sdk_global \<Rightarrow> bool" where
  "wasm_good e = (case e of (i, k, L, ring, p, prefix, g) \<Rightarrow> kms_good k \<and> key_lib_good (cc_NID p) ring L)"

definition wasm_new ::
    "nat \<times> kms_config \<times> 'r key_lib \<times> 'r \<times> common_config \<times> string \<times> sdk_global \<Rightarrow> string \<Rightarrow> fs
     \<Rightarrow> (string \<times> error option) \<times> fs" where
  "wasm_new e pw fs = (case e of (i, k, L, ring, p, prefix, g) \<Rightarrow>
     (case Wasm_NewKeystore i k L p prefix pw g fs of
        None \<Rightarrow> (('''', Some ''waits for the mutex''), fs)
      | Some (r, fs', g') \<Rightarrow> (r, fs')))"

definition wasm_restored :: "kms_config \<times> 'r key_lib \<times> 'r \<times> common_config \<Rightarrow> string \<Rightarrow> fs \<Rightarrow> error + bytes" where
  "wasm_restored e a fs = (case e of (k, L, ring, p) \<Rightarrow>
     (case Wasm_RestoreKeystore k L (CommonConfig_SetWallet a p) fs ring of
        (Some err, ring') \<Rightarrow> Inl err
      | (None, ring') \<Rightarrow> ebind (WasmClient_GetKey L (cc_NID p) ring') (kl_GetAddress L)))"

lemma Wasm_NewKeystore_writes:
  assumes "Wasm_NewKeystore i k L p prefix pw g fs = Some ((addr, None), fs', g')"
  obtains armor c d where "WasmClient_CreateAccount L g (cc_NID p) pw = Inr (armor, addr)"
    "KMS_Encrypt k armor = Inr c" "KMS_Encrypt k pw = Inr d"
    "write_keystore (keystorePath p addr) c d fs = (None, fs')"
    "account_prefix g' = prefix" "gl_mutex g = None" "gl_mutex g' = None"
proof -
  from assms obtain armor named where m: "WasmClient_CreateAccount L g (cc_NID p) pw = Inr (armor, named)"
    by (cases "WasmClient_CreateAccount L g (cc_NID p) pw") (auto simp: Wasm_NewKeystore_def)
  from assms m obtain g1 where g1: "SetSDKConfigContext i prefix g = Some g1"
    by (auto simp: Wasm_NewKeystore_def)
  from assms m g1 obtain c where e: "KMS_Encrypt k armor = Inr c"
    by (cases "KMS_Encrypt k armor") (auto simp: Wasm_NewKeystore_def)
  from assms m g1 e have c: "named = addr" "g' = sdk_unlock g1"
    "write_encrypting k (keystorePath p addr) c pw fs = (None, fs')"
    by (auto simp: Wasm_NewKeystore_def split: prod.splits option.splits)
  from write_encrypting_None [OF c(3)] obtain d where
    "KMS_Encrypt k pw = Inr d" "write_keystore (keystorePath p addr) c d fs = (None, fs')" by blast
  with SetSDKConfigContext_Some [OF g1] m c e show thesis by (intro that) (simp_all add: sdk_unlock_def account_prefix_def)
qed

interpretation wasm_ks: keystore_provider wasm_good wasm_new "\<lambda>(i, k, L, ring, p, prefix, g). wasm_restored (k, L, ring, p)"
  "\<lambda>(i, k, L, ring, p, prefix, g). kl_bech32 L (account_prefix g)"
proof
  fix e :: "nat \<times> kms_config \<times> 'r key_lib \<times> 'r \<times> common_config \<times> string \<times> sdk_global"
    and pw addr a :: string and fs fs' :: fs
  assume gd: "wasm_good e" and n: "wasm_new e pw fs = ((addr, None), fs')"
  obtain i k L ring p prefix g where e: "e = (i, k, L, ring, p, prefix, g)" by (cases e)
  from n gd e obtain g' where n': "Wasm_NewKeystore i k L p prefix pw g fs = Some ((addr, None), fs', g')"
    and k: "kms_good k" and L: "key_lib_good (cc_NID p) ring L"
    by (auto simp: wasm_new_def wasm_good_def split: option.splits)
  from n' obtain armor c d where
    w: "WasmClient_CreateAccount L g (cc_NID p) pw = Inr (armor, addr)" "KMS_Encrypt k armor = Inr c" "KMS_Encrypt k pw = Inr d"
    "write_keystore (keystorePath p addr) c d fs = (None, fs')" by (rule Wasm_NewKeystore_writes)
  {
    from CreateAccount_made [OF w(1) L] obtain raw ring' key' where
      "addr = kl_bech32 L (account_prefix g) raw" "WasmClient_ImportArmor L (cc_NID p) armor pw ring = (None, ring')"
      "WasmClient_GetKey L (cc_NID p) ring' = Inr key'" "kl_GetAddress L key' = Inr raw" by blast
    then show "\<exists>w. (case e of (i, k, L, ring, p, prefix, g) \<Rightarrow> wasm_restored (k, L, ring, p)) addr fs' = Inr w \<and>
        (case e of (i, k, L, ring, p, prefix, g) \<Rightarrow> kl_bech32 L (account_prefix g)) w = addr"
      using written_is_read [OF w(4) k w(2,3)] by (simp add: e wasm_restored_def Wasm_RestoreKeystore_def)
  next
    assume "apart a addr"
    from read_other [OF w(4) this, of k]
    show "(case e of (i, k, L, ring, p, prefix, g) \<Rightarrow> wasm_restored (k, L, ring, p)) a fs' =
        (case e of (i, k, L, ring, p, prefix, g) \<Rightarrow> wasm_restored (k, L, ring, p)) a fs"
      by (simp add: e wasm_restored_def Wasm_RestoreKeystore_def)
  }
qed

section \<open>A new wallet, an imported wallet\<close>

text \<open>
  C31. A new keystore is what is restored once the returned address is configured, on all three
  kinds of chain, and every wallet whose files have other names is restored as before. On EVM and ICON
  the wallet unlocked from the two files has the address that was returned. On CosmWasm it is the
  account that was made, but the returned text, which is also the name of the file, has the prefix
  that was set before the call: the provider's own prefix is set only afterwards, so in a fresh
  process, where the prefix is "cosmos", the text is not the one the provider has for the wallet.
\<close>
theorem new_keystore_is_restored:
  assumes "kms_good k" "evm_keys_good p E" "key_lib_good (cc_NID p) ring L"
  shows "(Evm_NewKeystore k E p pw fs = ((addr, None), fs') \<longrightarrow> evm_restored (k, E, p) addr fs' = Inr addr \<and>
      (\<forall>a. apart a addr \<longrightarrow> evm_restored (k, E, p) a fs' = evm_restored (k, E, p) a fs)) \<and>
    (Icon_NewKeystore k I p pw fs = ((addr, None), fs') \<longrightarrow> icon_restored (k, I, p) addr fs' = Inr addr \<and>
      (\<forall>a. apart a addr \<longrightarrow> icon_restored (k, I, p) a fs' = icon_restored (k, I, p) a fs)) \<and>
    (Wasm_NewKeystore i k L p prefix pw g fs = Some ((addr, None), fs', g') \<longrightarrow>
      (\<exists>raw. wasm_restored (k, L, ring, p) addr fs' = Inr raw \<and>
        addr = AccAddress_String (kl_bech32 L) g raw \<and>
        (g = sdk_start \<longrightarrow> addr = kl_bech32 L ''cosmos'' raw) \<and>
        AccAddress_String (kl_bech32 L) g' raw = kl_bech32 L prefix raw) \<and> gl_mutex g' = None \<and>
      (\<forall>a. apart a addr \<longrightarrow> wasm_restored (k, L, ring, p) a fs' = wasm_restored (k, L, ring, p) a fs))"
proof -
  let ?e = "(i, k, L, ring, p, prefix, g)"
  have good: "evm_good (k, E, p)" "icon_good (k, I, p)" "wasm_good ?e"
    using assms by (simp_all add: evm_good_def icon_good_def wasm_good_def)
  have wasm: "(\<exists>raw. wasm_restored (k, L, ring, p) addr fs' = Inr raw \<and>
        addr = AccAddress_String (kl_bech32 L) g raw \<and>
        (g = sdk_start \<longrightarrow> addr = kl_bech32 L ''cosmos'' raw) \<and>
        AccAddress_String (kl_bech32 L) g' raw = kl_bech32 L prefix raw) \<and> gl_mutex g' = None \<and>
      (\<forall>a. apart a addr \<longrightarrow> wasm_restored (k, L, ring, p) a fs' = wasm_restored (k, L, ring, p) a fs)"
    if n: "Wasm_NewKeystore i k L p prefix pw g fs = Some ((addr, None), fs', g')"
  proof -
    have new: "wasm_new ?e pw fs = ((addr, None), fs')" by (simp add: wasm_new_def n)
    have "account_prefix g' = prefix \<and> gl_mutex g' = None" by (rule Wasm_NewKeystore_writes [OF n]) simp
    moreover obtain raw where "wasm_restored (k, L, ring, p) addr fs' = Inr raw" "addr = kl_bech32 L (account_prefix g) raw"
      using wasm_ks.new_restores [OF good(3) new] by auto
    moreover have "apart a addr \<Longrightarrow> wasm_restored (k, L, ring, p) a fs' = wasm_restored (k, L, ring, p) a fs" for a
      using wasm_ks.new_keeps [OF good(3) new] by simp
    ultimately show ?thesis by (simp add: AccAddress_String_def)
  qed
  from evm_ks.new_restores [OF good(1), of pw fs addr fs'] evm_ks.new_keeps [OF good(1), of pw fs addr fs']
    icon_ks.new_restores [OF good(2), of pw fs addr fs'] icon_ks.new_keeps [OF good(2), of pw fs addr fs'] wasm
  show ?thesis unfolding evm_new_def icon_new_def prod.case by blast
qed

definition ex_kms :: kms_config where
  "ex_kms = \<lparr>km_client = \<lparr>kc_CreateKey = Inr ''key-1'', kc_Encrypt = \<lambda>key d. Inr (rev d),
     kc_Decrypt = \<lambda>key c. Inr (rev c)\<rparr>, km_key = ''key-1''\<rparr>"

definition ex_common :: common_config where
  "ex_common = \<lparr>cc_ChainName = ''b'', cc_RPCUrl = '''', cc_StartHeight = 0, cc_Address = ''0xold'',
     cc_Contracts = [], cc_FinalityBlock = 0, cc_NID = ''0x1.b'', cc_HomeDir = ''/relay'', cc_Disabled = False\<rparr>"

text \<open>Key files that spell out their address and password.\<close>

definition ex_evm_keys :: "string evm_keys" where
  "ex_evm_keys = \<lparr>ek_StoreKey = \<lambda>pw. Inr (''0xnew'', ''/tmp/key'', ''0xnew:'' @ pw),
     ek_DecryptKey = \<lambda>content pw. if HasSuffix content ('':'' @ pw) then Inr (TrimSuffix content ('':'' @ pw))
       else Inl ''could not decrypt key with given password'', ek_Hex = id\<rparr>"

definition ex_icon_keys :: "(string, string) icon_keys" where
  "ex_icon_keys = \<lparr>ik_GenerateKeyPair = ''hxnew'', ik_EncryptKeyAsKeyStore = \<lambda>a pw. Inr (a @ '':'' @ pw),
     ik_NewFromKeyStore = \<lambda>content pw. if HasSuffix content ('':'' @ pw) then Inr (TrimSuffix content ('':'' @ pw))
       else Inl ''wrong password'', ik_Address = id\<rparr>"

text \<open>A keyring of one entry, which is an address.\<close>

definition ex_key_lib :: "string option key_lib" where
  "ex_key_lib = \<lparr>kl_NewInMemory = None, kl_HDPath = ''m'', kl_NewEntropy = Inr ''seed'', kl_NewMnemonic = Inr,
     kl_NewSigningAlgo = Inr ''secp256k1'', kl_NewAccount = \<lambda>uid mnemonic pw path algo ring. Inr (''new'', Some ''new''),
     kl_ExportPrivKeyArmor = \<lambda>uid pw ring. (case ring of None \<Rightarrow> Inl ''key not found'' | Some a \<Rightarrow> Inr (a @ '':'' @ pw)),
     kl_ImportPrivKey = \<lambda>uid armor pw ring. (case ring of Some a \<Rightarrow> (Some ''cannot overwrite key'', ring)
       | None \<Rightarrow> (None, Some (TrimSuffix armor ('':'' @ pw)))),
     kl_Key = \<lambda>uid ring. (case ring of None \<Rightarrow> Inl ''key not found'' | Some a \<Rightarrow> Inr a),
     kl_GetAddress = Inr, kl_bech32 = \<lambda>prefix addr. prefix @ ''1'' @ addr\<rparr>"

text \<open>A home with one wallet, and a key file to import.\<close>

definition ex_fs :: fs where
  "ex_fs = \<lparr>fs_files = [(''/relay/keystore/0x1.b/0xold'', rev ''0xold:a''), (''/relay/keystore/0x1.b/0xold.pass'', rev ''a''),
       (''/home/key.json'', ''0xmine:b'')],
     fs_dirs = [''/'', ''/relay'', ''/relay/keystore'', ''/relay/keystore/0x1.b'', ''/tmp'', ''/home''],
     fs_fault = \<lambda>p. None\<rparr>"

lemma ex_kms_good: "kms_good ex_kms"
  by (auto simp: kms_good_def ex_kms_def KMS_Encrypt_def KMS_Decrypt_def)

lemma ex_evm_keys_good: "evm_keys_good ex_common ex_evm_keys"
proof -
  have "''/tmp/key'' \<noteq> keystorePath ex_common a" if "plain_name a" for a
  proof -
    have d: "HasPrefix (keystore_dir ex_common) ''/''"
      "path_elems (keystore_dir ex_common) = [''relay'', ''keystore'', ''0x1.b'']" by code_simp+
    show ?thesis
      using that path_of_snoc [OF that, of True "[''relay'', ''keystore'', ''0x1.b'']"] by (simp add: keystorePath_name d)
  qed
  moreover have "ek_DecryptKey ex_evm_keys (''0xnew:'' @ pw) pw = Inr ''0xnew''" for pw
    using HasSuffix_append [of "''0xnew''" "'':'' @ pw"] TrimSuffix_append [of "''0xnew''" "'':'' @ pw"]
    by (simp add: ex_evm_keys_def del: HasSuffix_append TrimSuffix_append)
  ultimately show ?thesis by (simp add: evm_keys_good_def ex_evm_keys_def plain_name_def)
qed

lemma ex_key_lib_good: "key_lib_good uid None ex_key_lib"
proof -
  have "TrimSuffix (''new:'' @ pw) ('':'' @ pw) = ''new''" for pw
    using TrimSuffix_append [of "''new''" "'':'' @ pw"] by (simp del: TrimSuffix_append)
  then show ?thesis by (simp add: key_lib_good_def ex_key_lib_def)
qed

text \<open>
  An EVM wallet beside an older one, and a CosmWasm wallet made by a provider with the prefix "archway" in
  a fresh process: it is filed and restored under "cosmos1new".
\<close>

theorem new_keystore_is_restored_witness:
  "evm_restored (ex_kms, ex_evm_keys, ex_common) ''0xnew''
     (snd (Evm_NewKeystore ex_kms ex_evm_keys ex_common ''c'' ex_fs)) = Inr ''0xnew'' \<and>
   evm_restored (ex_kms, ex_evm_keys, ex_common) ''0xold''
     (snd (Evm_NewKeystore ex_kms ex_evm_keys ex_common ''c'' ex_fs)) = Inr ''0xold'' \<and>
   (\<exists>fs' g'. Wasm_NewKeystore 0 ex_kms ex_key_lib ex_common ''archway'' ''c'' sdk_start ex_fs =
       Some ((''cosmos1new'', None), fs', g') \<and>
     wasm_restored (ex_kms, ex_key_lib, None, ex_common) ''cosmos1new'' fs' = Inr ''new'' \<and>
     AccAddress_String (kl_bech32 ex_key_lib) g' ''new'' = ''archway1new'')"
proof -
  let ?r = "Evm_NewKeystore ex_kms ex_evm_keys ex_common ''c'' ex_fs"
  have r: "fst ?r = (''0xnew'', None)" by code_simp
  then have e: "?r = ((''0xnew'', None), snd ?r)" by (metis prod.collapse)
  have o: "evm_restored (ex_kms, ex_evm_keys, ex_common) ''0xold'' ex_fs = Inr ''0xold''" by code_simp
  have ap: "apart ''0xold'' ''0xnew''" by code_simp
  let ?w = "Wasm_NewKeystore 0 ex_kms ex_key_lib ex_common ''archway'' ''c'' sdk_start ex_fs"
  have "map_option fst ?w = Some (''cosmos1new'', None)" by code_simp
  then obtain fs' g' where w: "?w = Some ((''cosmos1new'', None), fs', g')" by (cases ?w) auto
  note restored = new_keystore_is_restored [OF ex_kms_good ex_evm_keys_good ex_key_lib_good]
  from restored [THEN conjunct1, THEN mp, OF e] o ap
  have "evm_restored (ex_kms, ex_evm_keys, ex_common) ''0xnew'' (snd ?r) = Inr ''0xnew''"
    "evm_restored (ex_kms, ex_evm_keys, ex_common) ''0xold'' (snd ?r) = Inr ''0xold''" by auto
  moreover from restored [THEN conjunct2, THEN conjunct2, THEN mp, OF w]
  have "wasm_restored (ex_kms, ex_key_lib, None, ex_common) ''cosmos1new'' fs' = Inr ''new'' \<and>
      AccAddress_String (kl_bech32 ex_key_lib) g' ''new'' = ''archway1new''"
    by (auto simp: ex_key_lib_def)
  ultimately show ?thesis using w by blast
qed

text \<open>
  C34. Importing a key file. On ICON the imported wallet is what is restored once its address is
  configured. On EVM its files are written over those of the configured address: that address now
  unlocks the imported key, its own key is gone, and the imported address has no keystore.
\<close>
theorem import_keystore:
  assumes "kms_good k"
  shows "(Icon_ImportKeystore k I p keyPath pw fs = ((addr, None), fs') \<longrightarrow>
      icon_restored (k, I, p) addr fs' = Inr addr) \<and>
    (Evm_ImportKeystore k E p keyPath pw fs = ((addr, None), fs') \<longrightarrow>
      evm_restored (k, E, p) (cc_Address p) fs' = Inr addr \<and>
      (apart addr (cc_Address p) \<longrightarrow> evm_restored (k, E, p) addr fs' = evm_restored (k, E, p) addr fs))"
proof (intro conjI impI)
  let ?r = "ebind (os_ReadFile keyPath fs) (\<lambda>keystore. ebind (ik_NewFromKeyStore I keystore pw) (\<lambda>wallet.
     ebind (KMS_Encrypt k keystore) (\<lambda>keyStoreEncrypted. Inr (ik_Address I wallet, keyStoreEncrypted))))"
  assume "Icon_ImportKeystore k I p keyPath pw fs = ((addr, None), fs')"
  then obtain c where r: "?r = Inr (addr, c)" and w: "write_encrypting k (keystorePath p addr) c pw fs = (None, fs')"
    unfolding Icon_ImportKeystore_def by (cases ?r) (auto split: prod.splits option.splits)
  from r obtain data w where "ik_NewFromKeyStore I data pw = Inr w" "KMS_Encrypt k data = Inr c" "ik_Address I w = addr"
    by auto
  moreover from write_encrypting_None [OF w] obtain d where
    "KMS_Encrypt k pw = Inr d" "write_keystore (keystorePath p addr) c d fs = (None, fs')" by blast
  ultimately show "icon_restored (k, I, p) addr fs' = Inr addr"
    using written_is_read [OF _ assms] by (simp add: icon_restored_def Icon_RestoreKeystore_def)
next
  let ?r = "ebind (os_ReadFile keyPath fs) (\<lambda>keystoreContent. ebind (ek_DecryptKey E keystoreContent pw) (\<lambda>key.
     ebind (KMS_Encrypt k keystoreContent) (\<lambda>keystoreEncrypted. ebind (KMS_Encrypt k pw) (\<lambda>passwordEncrypted.
       Inr (key, keystoreEncrypted, passwordEncrypted)))))"
  assume "Evm_ImportKeystore k E p keyPath pw fs = ((addr, None), fs')"
  then obtain key c d where r: "?r = Inr (key, c, d)" and "ek_Hex E key = addr"
    and w: "write_keystore (keystorePath p (cc_Address p)) c d fs = (None, fs')"
    unfolding Evm_ImportKeystore_def by (cases ?r) (auto split: prod.splits option.splits)
  moreover from r obtain content where "ek_DecryptKey E content pw = Inr key" "KMS_Encrypt k content = Inr c"
    "KMS_Encrypt k pw = Inr d" by auto
  ultimately show "evm_restored (k, E, p) (cc_Address p) fs' = Inr addr"
    using written_is_read [OF w assms] by (simp add: evm_restored_def Evm_RestoreKeystore_def)
  assume "apart addr (cc_Address p)"
  from read_other [OF w this, of k]
  show "evm_restored (k, E, p) addr fs' = evm_restored (k, E, p) addr fs"
    by (simp add: evm_restored_def Evm_RestoreKeystore_def)
qed

theorem import_keystore_witness:
  "fst (Evm_ImportKeystore ex_kms ex_evm_keys ex_common ''/home/key.json'' ''b'' ex_fs) = (''0xmine'', None) \<and>
   evm_restored (ex_kms, ex_evm_keys, ex_common) ''0xold''
     (snd (Evm_ImportKeystore ex_kms ex_evm_keys ex_common ''/home/key.json'' ''b'' ex_fs)) = Inr ''0xmine'' \<and>
   (\<exists>e. evm_restored (ex_kms, ex_evm_keys, ex_common) ''0xmine''
     (snd (Evm_ImportKeystore ex_kms ex_evm_keys ex_common ''/home/key.json'' ''b'' ex_fs)) = Inl e)"
proof -
  let ?r = "Evm_ImportKeystore ex_kms ex_evm_keys ex_common ''/home/key.json'' ''b'' ex_fs"
  have r: "fst ?r = (''0xmine'', None)" by code_simp
  then have e: "?r = ((''0xmine'', None), snd ?r)" by (metis prod.collapse)
  have o: "evm_restored (ex_kms, ex_evm_keys, ex_common) ''0xmine'' ex_fs =
      Inl ''open /relay/keystore/0x1.b/0xmine: no such file or directory''" by code_simp
  have "apart ''0xmine'' (cc_Address ex_common)" "cc_Address ex_common = ''0xold''" by code_simp+
  with import_keystore [OF ex_kms_good, of ex_icon_keys ex_common "''/home/key.json''" "''b''" ex_fs "''0xmine''" "snd ?r" ex_evm_keys]
    e o r show ?thesis by simp
qed

end
