(* ===== verification/Cmd.thy ===== *)
theory Cmd
  imports Keystore Evm Icon Wasm
begin

text \<open>
  Package \<^verbatim>\<open>cmd\<close>: the configuration file and the commands that change it, \<^verbatim>\<open>chains\<close> and \<^verbatim>\<open>keystore\<close>.

  The YAML and JSON libraries are third-party code (\<open>config_codec\<close>): what they decode into is a tree
  of type \<^typ>\<open>'n\<close> per chain, which a second call decodes into the configuration of the chain's type.
  A provider holds its configuration by pointer, so a chain is its configuration here. \<open>connect\<close> is
  the error of connecting a new provider.
\<close>

section \<open>Configurations of chains\<close>

datatype chain_config = EvmConfig evm_config | IconConfig icon_config | WasmConfig wasm_config

fun config_common :: "chain_config \<Rightarrow> common_config" where
  "config_common (EvmConfig c) = ec_common c"
| "config_common (IconConfig c) = nc_common c"
| "config_common (WasmConfig c) = wc_common c"

fun map_common :: "(common_config \<Rightarrow> common_config) \<Rightarrow> chain_config \<Rightarrow> chain_config" where
  "map_common f (EvmConfig c) = EvmConfig (c\<lparr>ec_common := f (ec_common c)\<rparr>)"
| "map_common f (IconConfig c) = IconConfig (c\<lparr>nc_common := f (nc_common c)\<rparr>)"
| "map_common f (WasmConfig c) = WasmConfig (c\<lparr>wc_common := f (wc_common c)\<rparr>)"

fun provider_Type :: "chain_config \<Rightarrow> string" where
  "provider_Type (EvmConfig c) = ''evm''"
| "provider_Type (IconConfig c) = ''icon''"
| "provider_Type (WasmConfig c) = ''cosmos''"

definition provider_NID :: "chain_config \<Rightarrow> string" where
  "provider_NID c = cc_NID (config_common c)"

definition provider_Name :: "chain_config \<Rightarrow> string" where
  "provider_Name c = cc_ChainName (config_common c)"

fun NewProvider :: "error option \<Rightarrow> string \<Rightarrow> string \<Rightarrow> chain_config \<Rightarrow> chain_config result" where
  "NewProvider connect homePath chainName (EvmConfig c) = rmap EvmConfig (Evm_NewProvider connect c homePath chainName)"
| "NewProvider connect homePath chainName (IconConfig c) = rmap IconConfig (Icon_NewProvider connect c homePath chainName)"
| "NewProvider connect homePath chainName (WasmConfig c) = rmap WasmConfig (Wasm_NewProvider connect c homePath chainName)"

text \<open>\<^verbatim>\<open>Init\<close>; only the CosmWasm provider checks anything.\<close>

fun provider_Init :: "chain_config \<Rightarrow> unit result" where
  "provider_Init (WasmConfig c) = Wasm_Init c"
| "provider_Init _ = Ok ()"

section \<open>The configuration\<close>

record global_config =
  gc_Timeout :: string
  gc_KMSKeyID :: string

definition newDefaultGlobalConfig :: global_config where
  "newDefaultGlobalConfig = \<lparr>gc_Timeout = ''10s'', gc_KMSKeyID = ''''\<rparr>"

type_synonym cmd_chains = "(string \<times> chain_config) list"

record cmd_config =
  cf_Global :: "global_config option"
  cf_Chains :: cmd_chains

definition DefaultConfig :: cmd_config where
  "DefaultConfig = \<lparr>cf_Global = Some newDefaultGlobalConfig, cf_Chains = []\<rparr>"

definition validateConfig :: "cmd_config \<Rightarrow> unit result" where
  "validateConfig c = Ok ()"

text \<open>The file: the global part, and type and value of every chain under its name.\<close>

record output_wrapper =
  ow_Global :: "global_config option"
  ow_ProviderConfigs :: "(string \<times> string \<times> chain_config) list"

record 'n input_wrapper =
  iw_Global :: "global_config option"
  iw_ProviderConfigs :: "(string \<times> string \<times> 'n) list"

text \<open>Decoding a tree into a configuration; \<open>dc_Nil\<close> decodes into a nil interface.\<close>

record 'n decoder =
  dc_Evm :: "'n \<Rightarrow> error + evm_config"
  dc_Icon :: "'n \<Rightarrow> error + icon_config"
  dc_Wasm :: "'n \<Rightarrow> error + wasm_config"
  dc_Nil :: "'n \<Rightarrow> error option"

record 'n config_codec =
  cd_Marshal :: "output_wrapper \<Rightarrow> error + bytes"
  cd_MarshalConfig :: "cmd_config \<Rightarrow> error + bytes"
  cd_Unmarshal :: "bytes \<Rightarrow> error + 'n input_wrapper"
  cd_yaml :: "'n decoder"
  cd_UnmarshalJSON :: "bytes \<Rightarrow> error + (string option \<times> 'n)"
  cd_json :: "'n decoder"

text \<open>\<^verbatim>\<open>None\<close> for a type that is not known.\<close>

definition decode_type :: "'n decoder \<Rightarrow> string \<Rightarrow> 'n \<Rightarrow> (error + chain_config) option" where
  "decode_type dc typ node =
     (if typ = ''icon'' then Some (map_sum id IconConfig (dc_Icon dc node))
      else if typ = ''evm'' then Some (map_sum id EvmConfig (dc_Evm dc node))
      else if typ = ''cosmos'' then Some (map_sum id WasmConfig (dc_Wasm dc node))
      else None)"

definition UnmarshalYAML :: "'n config_codec \<Rightarrow> string \<Rightarrow> 'n \<Rightarrow> chain_config result" where
  "UnmarshalYAML cd typ node = (case decode_type (cd_yaml cd) typ node of
      None \<Rightarrow> Err (typ @ '' is an invalid chain type, check your config file'')
    | Some (Inl e) \<Rightarrow> Err e
    | Some (Inr c) \<Rightarrow> Ok c)"

text \<open>A missing type and an unknown type whose value decodes fail a type assertion.\<close>

definition UnmarshalJSONProviderConfig :: "'n config_codec \<Rightarrow> bytes \<Rightarrow> chain_config result" where
  "UnmarshalJSONProviderConfig cd data = (case cd_UnmarshalJSON cd data of
      Inl e \<Rightarrow> Err e
    | Inr (None, node) \<Rightarrow> Panic ''interface conversion''
    | Inr (Some typeName, node) \<Rightarrow> (case decode_type (cd_json cd) typeName node of
        None \<Rightarrow> (case dc_Nil (cd_json cd) node of Some e \<Rightarrow> Err e | None \<Rightarrow> Panic ''interface conversion'')
      | Some (Inl e) \<Rightarrow> Err e
      | Some (Inr c) \<Rightarrow> Ok c))"

text \<open>
  \<^verbatim>\<open>ProviderConfigWrapper.UnmarshalJSON\<close>: the type of the wrapper, here its first component, is not set; only its
  value is.
\<close>

definition UnmarshalJSON ::
    "'n config_codec \<Rightarrow> bytes \<Rightarrow> string \<times> chain_config option \<Rightarrow> (string \<times> chain_config option) result" where
  "UnmarshalJSON cd data pcw = rmap (\<lambda>pc. (fst pcw, Some pc)) (UnmarshalJSONProviderConfig cd data)"

definition decode_wrapper ::
    "'n config_codec \<Rightarrow> bytes \<Rightarrow> (global_config option \<times> (string \<times> chain_config) list) result" where
  "decode_wrapper cd file = (case cd_Unmarshal cd file of
      Inl e \<Rightarrow> Err e
    | Inr w \<Rightarrow> rmap (Pair (iw_Global w)) (rlist (\<lambda>(name, typ, node).
        rmap (Pair name) (UnmarshalYAML cd typ node)) (iw_ProviderConfigs w)))"

text \<open>
  \<^verbatim>\<open>RuntimeConfig\<close> makes a provider of every enabled chain and files it under its NID. The
  global part is read through its pointer for every chain; the key service is kept in the state.
\<close>

fun runtime_chains ::
    "(string \<Rightarrow> error option) \<Rightarrow> (string \<Rightarrow> error + kms_config) \<Rightarrow> global_config option \<Rightarrow> string
     \<Rightarrow> (string \<times> chain_config) list \<Rightarrow> cmd_chains \<times> kms_config option \<Rightarrow> (cmd_chains \<times> kms_config option) result" where
  "runtime_chains connect newKMS glob homePath [] st = Ok st"
| "runtime_chains connect newKMS glob homePath ((chainName, pcfg) # rest) (chs, kms) =
     (if \<not> CommonConfig_Enabled (config_common pcfg)
      then runtime_chains connect newKMS glob homePath rest (chs, kms)
      else case NewProvider (connect chainName) homePath chainName pcfg of
          Panic e \<Rightarrow> Panic e
        | Err e \<Rightarrow> Err (''failed to build ChainProviders: '' @ e)
        | Ok prov \<Rightarrow>
           (case glob of
              None \<Rightarrow> Panic ''nil pointer dereference''
            | Some g \<Rightarrow>
               (case newKMS (gc_KMSKeyID g) of
                  Inl e \<Rightarrow> Err e
                | Inr kmsProvider \<Rightarrow>
                   (case provider_Init prov of
                      Panic e \<Rightarrow> Panic e
                    | Err e \<Rightarrow> Err (''failed to initialize provider: '' @ e)
                    | Ok _ \<Rightarrow> runtime_chains connect newKMS glob homePath rest
                        (AList.update (provider_NID prov) prov chs, Some kmsProvider)))))"

fun wrap_chains :: "cmd_chains \<Rightarrow> (string \<times> string \<times> chain_config) list \<Rightarrow> (string \<times> string \<times> chain_config) list" where
  "wrap_chains [] providers = providers"
| "wrap_chains ((key, chain) # rest) providers =
     wrap_chains rest (AList.update (provider_Name chain) (provider_Type chain, chain) providers)"

definition Wrapped :: "cmd_config \<Rightarrow> output_wrapper" where
  "Wrapped c = \<lparr>ow_Global = cf_Global c, ow_ProviderConfigs = wrap_chains (cf_Chains c) []\<rparr>"

definition Config_Save :: "'n config_codec \<Rightarrow> cmd_config \<Rightarrow> string \<Rightarrow> fs \<Rightarrow> error option \<times> fs" where
  "Config_Save cd c cfgPath fs = (case cd_Marshal cd (Wrapped c) of
      Inl e \<Rightarrow> (Some e, fs) | Inr out \<Rightarrow> os_WriteFile cfgPath out fs)"

fun cmd_Chains_Get :: "string \<Rightarrow> cmd_chains \<Rightarrow> (string \<times> chain_config) option" where
  "cmd_Chains_Get nid [] = None"
| "cmd_Chains_Get nid ((key, chain) # rest) =
     (if nid = provider_NID chain then Some (key, chain) else cmd_Chains_Get nid rest)"

definition AddChain :: "chain_config \<Rightarrow> cmd_config \<Rightarrow> cmd_config result" where
  "AddChain chain c =
     (let nId = provider_NID chain in
      if nId = '''' then Err ''chain ID cannot be empty''
      else if cmd_Chains_Get nId (cf_Chains c) \<noteq> None then
        Err (''chain with NID '' @ nId @ '' already exists in config'')
      else Ok (c\<lparr>cf_Chains := AList.update (provider_Name chain) chain (cf_Chains c)\<rparr>))"

definition DeleteChain :: "string \<Rightarrow> cmd_config \<Rightarrow> cmd_config" where
  "DeleteChain chain c = c\<lparr>cf_Chains := AList.delete chain (cf_Chains c)\<rparr>"

section \<open>The application\<close>

text \<open>
  What the commands get from outside: the configuration library, the connections, the key service
  and the key libraries, the lock of the configuration file, balances, and the chains' \<^verbatim>\<open>SetAdmin\<close>.
\<close>

record ('n, 'k, 'p, 'w, 'r) cmd_env =
  ce_codec :: "'n config_codec"
  ce_connect :: "string \<Rightarrow> error option"
  ce_NewKMSConfig :: "string \<Rightarrow> error + kms_config"
  ce_evm_keys :: "'k evm_keys"
  ce_icon_keys :: "('p, 'w) icon_keys"
  ce_key_lib :: "'r key_lib"
  ce_keyring :: 'r
  ce_TryLock :: "error + bool"
  ce_QueryBalance :: "string \<Rightarrow> string \<Rightarrow> error + coin"
  ce_SetAdmin :: "string \<Rightarrow> string \<Rightarrow> error option"

text \<open>
  \<open>ap_admin\<close> records the calls of \<^verbatim>\<open>SetAdmin\<close>. After an error the program ends, and only the files
  matter.
\<close>

record app_state =
  ap_homePath :: string
  ap_configPath :: string
  ap_config :: "cmd_config option"
  ap_kms :: "kms_config option"
  ap_fs :: fs
  ap_admin :: "(string \<times> string) list"

definition loadConfigFile :: "('n, 'k, 'p, 'w, 'r) cmd_env \<Rightarrow> app_state \<Rightarrow> unit result \<times> app_state" where
  "loadConfigFile E a =
     (if \<not> os_Exists (ap_configPath a) (ap_fs a) then (Ok (), a)
      else case os_ReadFile (ap_configPath a) (ap_fs a) of
          Inl e \<Rightarrow> (Err (''error reading file: '' @ e), a)
        | Inr file \<Rightarrow>
           (case decode_wrapper (ce_codec E) file of
              Panic e \<Rightarrow> (Panic e, a)
            | Err e \<Rightarrow> (Err (''error unmarshalling config: '' @ e), a)
            | Ok (glob, pcfgs) \<Rightarrow>
               (case runtime_chains (ce_connect E) (ce_NewKMSConfig E) glob (ap_homePath a) pcfgs ([], ap_kms a) of
                  Panic e \<Rightarrow> (Panic e, a)
                | Err e \<Rightarrow> (Err e, a)
                | Ok (chs, kms) \<Rightarrow>
                    (Ok (), a\<lparr>ap_config := Some \<lparr>cf_Global = glob, cf_Chains = chs\<rparr>, ap_kms := kms\<rparr>))))"

text \<open>
  The lock is tried, but whether it was taken is not looked at. The configuration is loaded, changed
  by the operation and written back.
\<close>

definition performConfigLockingOperation ::
    "('n, 'k, 'p, 'w, 'r) cmd_env \<Rightarrow> (app_state \<Rightarrow> unit result \<times> app_state) \<Rightarrow> app_state \<Rightarrow> unit result \<times> app_state" where
  "performConfigLockingOperation E oper a =
     (case ce_TryLock E of
        Inl e \<Rightarrow> (Err (''failed to acquire config lock: '' @ e), a)
      | Inr locked \<Rightarrow>
         (case loadConfigFile E a of
            (Panic e, a1) \<Rightarrow> (Panic e, a1)
          | (Err e, a1) \<Rightarrow> (Err (''failed to initialize config from file: '' @ e), a1)
          | (Ok _, a1) \<Rightarrow>
             (case oper a1 of
                (Panic e, a2) \<Rightarrow> (Panic e, a2)
              | (Err e, a2) \<Rightarrow> (Err e, a2)
              | (Ok _, a2) \<Rightarrow>
                 (case ap_config a2 of
                    None \<Rightarrow> (Panic ''nil pointer dereference'', a2)
                  | Some c \<Rightarrow>
                     (case cd_Marshal (ce_codec E) (Wrapped c) of
                        Inl e \<Rightarrow> (Err e, a2)
                      | Inr out \<Rightarrow>
                         (case os_WriteFile (ap_configPath a2) out (ap_fs a2) of
                            (Some e, fs') \<Rightarrow> (Err (''failed to write config file at '' @ ap_configPath a2 @ '': '' @ e),
                              a2\<lparr>ap_fs := fs'\<rparr>)
                          | (None, fs') \<Rightarrow> (Ok (), a2\<lparr>ap_fs := fs'\<rparr>)))))))"

section \<open>The command \<^verbatim>\<open>config\<close>\<close>

text \<open>\<^verbatim>\<open>init\<close> creates the file and writes the default configuration to it.\<close>

definition configInit :: "('n, 'k, 'p, 'w, 'r) cmd_env \<Rightarrow> app_state \<Rightarrow> unit result \<times> app_state" where
  "configInit E a =
     (case os_MkdirAll (ap_homePath a) (ap_fs a) of
        (Some e, fs1) \<Rightarrow> (Err e, a\<lparr>ap_fs := fs1\<rparr>)
      | (None, fs1) \<Rightarrow>
         if os_Exists (ap_configPath a) fs1 then (Err (''config already exists: '' @ ap_configPath a), a\<lparr>ap_fs := fs1\<rparr>)
         else (case os_WriteFile (ap_configPath a) '''' fs1 of
            (Some e, fs2) \<Rightarrow> (Err e, a\<lparr>ap_fs := fs2\<rparr>)
          | (None, fs2) \<Rightarrow>
             (case cd_MarshalConfig (ce_codec E) DefaultConfig of
                Inl e \<Rightarrow> (Panic e, a\<lparr>ap_fs := fs2\<rparr>)
              | Inr out \<Rightarrow>
                 (case os_WriteFile (ap_configPath a) out fs2 of
                    (Some e, fs3) \<Rightarrow> (Err e, a\<lparr>ap_fs := fs3\<rparr>)
                  | (None, fs3) \<Rightarrow> (Ok (), a\<lparr>ap_fs := fs3\<rparr>)))))"

section \<open>The command \<^verbatim>\<open>chains\<close>\<close>

definition addChainFromFile ::
    "('n, 'k, 'p, 'w, 'r) cmd_env \<Rightarrow> string \<Rightarrow> string \<Rightarrow> app_state \<Rightarrow> unit result \<times> app_state" where
  "addChainFromFile E chainName file a =
     (case os_ReadFile file (ap_fs a) of
        Inl e \<Rightarrow> (Err e, a)
      | Inr byt \<Rightarrow>
         (case UnmarshalJSONProviderConfig (ce_codec E) byt of
            Panic e \<Rightarrow> (Panic e, a)
          | Err e \<Rightarrow> (Err e, a)
          | Ok pcfg \<Rightarrow>
             (case NewProvider (ce_connect E chainName) (ap_homePath a) chainName pcfg of
                Panic e \<Rightarrow> (Panic e, a)
              | Err e \<Rightarrow> (Err (''failed to build ChainProvider for '' @ file @ '': '' @ e), a)
              | Ok prov \<Rightarrow>
                 (case ap_config a of
                    None \<Rightarrow> (Panic ''nil pointer dereference'', a)
                  | Some c \<Rightarrow>
                     (case AddChain prov c of
                        Ok c' \<Rightarrow> (Ok (), a\<lparr>ap_config := Some c'\<rparr>)
                      | Err e \<Rightarrow> (Err e, a)
                      | Panic e \<Rightarrow> (Panic e, a))))))"

definition chainsAdd ::
    "('n, 'k, 'p, 'w, 'r) cmd_env \<Rightarrow> string \<Rightarrow> string list \<Rightarrow> app_state \<Rightarrow> unit result \<times> app_state" where
  "chainsAdd E file args a =
     (if ap_config a = None then
        (Err ''config not initialized, consider running `rly config init`'', a)
      else performConfigLockingOperation E (\<lambda>a.
        if file = '''' then (Err ''file not present'', a)
        else (case args of
            [] \<Rightarrow> addChainFromFile E (hd (Split (path_Base file) (CHR ''.''))) file a
          | [chainName] \<Rightarrow> addChainFromFile E chainName file a
          | _ \<Rightarrow> (Err ''one chain name is required'', a))) a)"

definition errChainNotFound :: "string \<Rightarrow> error" where
  "errChainNotFound chainName = ''chain with name '' @ [CHR 0x22] @ chainName @ [CHR 0x22]
     @ '' not found in config. consider running `rly chains add '' @ chainName @ ''`''"

definition chainsDelete ::
    "('n, 'k, 'p, 'w, 'r) cmd_env \<Rightarrow> string \<Rightarrow> app_state \<Rightarrow> unit result \<times> app_state" where
  "chainsDelete E chain a = performConfigLockingOperation E (\<lambda>a.
     case ap_config a of
       None \<Rightarrow> (Panic ''nil pointer dereference'', a)
     | Some c \<Rightarrow>
        if map_of (cf_Chains c) chain = None then (Err (errChainNotFound chain), a)
        else (Ok (), a\<lparr>ap_config := Some (DeleteChain chain c)\<rparr>)) a"

definition chainsList :: "cmd_config \<Rightarrow> (string \<times> string) list" where
  "chainsList c = map (\<lambda>(key, chain). (provider_NID chain, provider_Type chain)) (cf_Chains c)"

section \<open>The command \<^verbatim>\<open>keystore\<close>\<close>

text \<open>
  The key service is known once a chain is loaded; without one its interface is nil.
\<close>

definition keystoreInit :: "('n, 'k, 'p, 'w, 'r) cmd_env \<Rightarrow> app_state \<Rightarrow> unit result \<times> app_state" where
  "keystoreInit E a = (case ap_kms a of
      None \<Rightarrow> (Panic ''nil pointer dereference'', a)
    | Some k \<Rightarrow>
       (case KMS_Init k of
          Inl e \<Rightarrow> (Err e, a)
        | Inr keyID \<Rightarrow>
           (case ap_config a of
              None \<Rightarrow> (Panic ''nil pointer dereference'', a)
            | Some c \<Rightarrow>
               (case cf_Global c of
                  None \<Rightarrow> (Panic ''nil pointer dereference'', a)
                | Some g \<Rightarrow>
                   let c' = c\<lparr>cf_Global := Some (g\<lparr>gc_KMSKeyID := keyID\<rparr>)\<rparr> in
                   (case Config_Save (ce_codec E) c' (ap_configPath a) (ap_fs a) of
                      (Some e, fs') \<Rightarrow> (Err e, a\<lparr>ap_config := Some c', ap_fs := fs'\<rparr>)
                    | (None, fs') \<Rightarrow> (Ok (), a\<lparr>ap_config := Some c', ap_fs := fs'\<rparr>))))))"

text \<open>
  A command is a process of its own, so the SDK's prefixes are as it starts and the mutex is free: the
  CosmWasm provider does not wait.
\<close>

fun provider_NewKeystore ::
    "('n, 'k, 'p, 'w, 'r) cmd_env \<Rightarrow> kms_config \<Rightarrow> chain_config \<Rightarrow> string \<Rightarrow> fs \<Rightarrow> (string \<times> error option) \<times> fs" where
  "provider_NewKeystore E k (EvmConfig c) password fs = Evm_NewKeystore k (ce_evm_keys E) (ec_common c) password fs"
| "provider_NewKeystore E k (IconConfig c) password fs = Icon_NewKeystore k (ce_icon_keys E) (nc_common c) password fs"
| "provider_NewKeystore E k (WasmConfig c) password fs =
     (case Wasm_NewKeystore 0 k (ce_key_lib E) (wc_common c) (wc_AccountPrefix c) password sdk_start fs of
        None \<Rightarrow> (('''', Some ''all goroutines are asleep - deadlock!''), fs)
      | Some (r, fs', g') \<Rightarrow> (r, fs'))"

fun provider_ImportKeystore ::
    "('n, 'k, 'p, 'w, 'r) cmd_env \<Rightarrow> kms_config \<Rightarrow> chain_config \<Rightarrow> string \<Rightarrow> string \<Rightarrow> fs \<Rightarrow> (string \<times> error option) \<times> fs" where
  "provider_ImportKeystore E k (EvmConfig c) path password fs =
     Evm_ImportKeystore k (ce_evm_keys E) (ec_common c) path password fs"
| "provider_ImportKeystore E k (IconConfig c) path password fs =
     Icon_ImportKeystore k (ce_icon_keys E) (nc_common c) path password fs"
| "provider_ImportKeystore E k (WasmConfig c) path password fs =
     (case Wasm_ImportKeystore 0 k (ce_key_lib E) (wc_common c) (wc_AccountPrefix c) path password sdk_start fs (ce_keyring E) of
        None \<Rightarrow> (('''', Some ''all goroutines are asleep - deadlock!''), fs)
      | Some (r, fs', ring', g') \<Rightarrow> (r, fs'))"

lemma commands_do_not_wait:
  "Wasm_NewKeystore i k L p prefix password sdk_start fs \<noteq> None"
  "Wasm_ImportKeystore i k L p prefix path password sdk_start fs ring \<noteq> None"
proof -
  have g: "SetSDKConfigContext i prefix sdk_start = Some \<lparr>gl_config = sdk_prefixes prefix, gl_mutex = Some i\<rparr>"
    by (simp add: SetSDKConfigContext_def sdk_start_def)
  show "Wasm_NewKeystore i k L p prefix password sdk_start fs \<noteq> None"
    by (cases "WasmClient_CreateAccount L sdk_start (cc_NID p) password") (simp_all add: Wasm_NewKeystore_def g del: not_None_eq split: prod.splits)
  show "Wasm_ImportKeystore i k L p prefix path password sdk_start fs ring \<noteq> None"
    by (cases "os_ReadFile path fs") (simp_all add: Wasm_ImportKeystore_def g del: not_None_eq)
qed

text \<open>The commands below start with the loaded configuration; \<open>with_chain\<close> is their lookup of the chain.\<close>

definition with_chain ::
    "string \<Rightarrow> (error \<Rightarrow> error) \<Rightarrow> (string \<times> chain_config \<Rightarrow> app_state \<Rightarrow> 'a result \<times> app_state)
     \<Rightarrow> app_state \<Rightarrow> 'a result \<times> app_state" where
  "with_chain nid msg f a = (case ap_config a of
      None \<Rightarrow> (Panic ''nil pointer dereference'', a)
    | Some c \<Rightarrow> (case cmd_Chains_Get nid (cf_Chains c) of
        None \<Rightarrow> (Err (msg (''chain with NID '' @ nid @ '' is not configured'')), a)
      | Some kc \<Rightarrow> f kc a))"

text \<open>A provider's key service; it is set when the provider is made.\<close>

definition keystore_call ::
    "(kms_config \<Rightarrow> fs \<Rightarrow> (string \<times> error option) \<times> fs) \<Rightarrow> app_state \<Rightarrow> string result \<times> app_state" where
  "keystore_call f a = (case ap_kms a of
      None \<Rightarrow> (Panic ''nil pointer dereference'', a)
    | Some k \<Rightarrow> (case f k (ap_fs a) of
        ((addr, Some e), fs') \<Rightarrow> (Err e, a\<lparr>ap_fs := fs'\<rparr>)
      | ((addr, None), fs') \<Rightarrow> (Ok addr, a\<lparr>ap_fs := fs'\<rparr>)))"

definition keystoreNew ::
    "('n, 'k, 'p, 'w, 'r) cmd_env \<Rightarrow> string \<Rightarrow> string \<Rightarrow> app_state \<Rightarrow> string result \<times> app_state" where
  "keystoreNew E nid password = with_chain nid (\<lambda>_. ''chain not found'') (\<lambda>(key, chain) a.
     case os_MkdirAll (path_Join [ap_homePath a, ''keystore'', nid]) (ap_fs a) of
       (Some e, fs1) \<Rightarrow> (Err e, a\<lparr>ap_fs := fs1\<rparr>)
     | (None, fs1) \<Rightarrow> keystore_call (\<lambda>k. provider_NewKeystore E k chain password) (a\<lparr>ap_fs := fs1\<rparr>))"

definition keystoreImport ::
    "('n, 'k, 'p, 'w, 'r) cmd_env \<Rightarrow> string \<Rightarrow> string \<Rightarrow> string \<Rightarrow> app_state \<Rightarrow> string result \<times> app_state" where
  "keystoreImport E nid path password = with_chain nid id (\<lambda>(key, chain) a.
     case os_MkdirAll (path_Join [ap_homePath a, ''keystore'', nid]) (ap_fs a) of
       (Some e, fs1) \<Rightarrow> (Err e, a\<lparr>ap_fs := fs1\<rparr>)
     | (None, fs1) \<Rightarrow>
        if \<not> os_Exists path fs1 then (Err ''file not found'', a\<lparr>ap_fs := fs1\<rparr>)
        else keystore_call (\<lambda>k. provider_ImportKeystore E k chain path password) (a\<lparr>ap_fs := fs1\<rparr>))"

text \<open>
  The wallets of a chain with their balances, the configured one marked. A balance that could not be
  read is a nil pointer, which formatting the row dereferences.
\<close>

definition keystoreList ::
    "('n, 'k, 'p, 'w, 'r) cmd_env \<Rightarrow> string \<Rightarrow> app_state \<Rightarrow> (string \<times> coin) list result \<times> app_state" where
  "keystoreList E nid a = (case os_ReadDir (path_Join [ap_homePath a, ''keystore'', nid]) (ap_fs a) of
      Inl e \<Rightarrow> (Err e, a)
    | Inr files \<Rightarrow> with_chain nid id (\<lambda>(key, chain) a.
        (rlist (\<lambda>wallet. case ce_QueryBalance E nid wallet of
             Inl e \<Rightarrow> Panic ''nil pointer dereference''
           | Inr balance \<Rightarrow> Ok (if wallet = cc_Address (config_common chain) then ''* -> '' @ wallet else wallet, balance))
          (map (\<lambda>f. TrimSuffix f ''.pass'') (filter (\<lambda>f. HasSuffix f ''.pass'') files)), a)) a)"

text \<open>
  \<^verbatim>\<open>use\<close> changes the wallet in the configuration, saves it, and makes the wallet the admin of the
  contract. It saves to the path of the home directory.
\<close>

definition set_wallet :: "string \<Rightarrow> string \<Rightarrow> cmd_config \<Rightarrow> cmd_config" where
  "set_wallet key addr c =
     c\<lparr>cf_Chains := AList.map_entry key (map_common (CommonConfig_SetWallet addr)) (cf_Chains c)\<rparr>"

definition keystoreUse ::
    "('n, 'k, 'p, 'w, 'r) cmd_env \<Rightarrow> string \<Rightarrow> string \<Rightarrow> app_state \<Rightarrow> unit result \<times> app_state" where
  "keystoreUse E nid addr = with_chain nid id (\<lambda>(key, chain) a.
     let path = path_Join [ap_homePath a, ''keystore'', nid, addr] in
     if \<not> os_Exists path (ap_fs a) then (Err ''keystore not found'', a)
     else if \<not> os_Exists (path @ ''.pass'') (ap_fs a) then (Err ''password not found'', a)
     else if CommonConfig_GetWallet (config_common chain) = addr then (Ok (), a)
     else (case ap_config a of
         None \<Rightarrow> (Panic ''nil pointer dereference'', a)
       | Some c \<Rightarrow>
          let a1 = a\<lparr>ap_config := Some (set_wallet key addr c)\<rparr> in
          (case Config_Save (ce_codec E) (set_wallet key addr c) (ap_homePath a) (ap_fs a) of
             (Some e, fs') \<Rightarrow> (Err e, a1\<lparr>ap_fs := fs'\<rparr>)
           | (None, fs') \<Rightarrow>
              (case ce_SetAdmin E nid addr of
                 Some e \<Rightarrow> (Err e, a1\<lparr>ap_fs := fs', ap_admin := ap_admin a @ [(nid, addr)]\<rparr>)
               | None \<Rightarrow> (Ok (), a1\<lparr>ap_fs := fs', ap_admin := ap_admin a @ [(nid, addr)]\<rparr>)))))"

end
