(* ===== verification/Cmd_Props.thy ===== *)
theory Cmd_Props
  imports Cmd Keystore_Props Evm_Example
begin

text \<open>
  Properties of the commands: what rewriting the configuration file keeps, and how far
  \<^verbatim>\<open>keystore use\<close> gets.
\<close>

section \<open>Names in the configuration file\<close>

definition enabled_names :: "(string \<times> chain_config) list \<Rightarrow> string set" where
  "enabled_names pcfgs = fst ` {np \<in> set pcfgs. CommonConfig_Enabled (config_common (snd np))}"

definition config_names :: "cmd_config \<Rightarrow> string set" where
  "config_names c = (provider_Name \<circ> snd) ` set (cf_Chains c)"

text \<open>The names a file lists.\<close>

definition file_names :: "'n config_codec \<Rightarrow> bytes \<Rightarrow> string set \<Rightarrow> bool" where
  "file_names cd file N = (case cd_Unmarshal cd file of Inl e \<Rightarrow> False | Inr w \<Rightarrow> fst ` set (iw_ProviderConfigs w) = N)"

text \<open>What the code relies on: a written file lists the names of the map it was written from.\<close>

definition codec_names :: "'n config_codec \<Rightarrow> bool" where
  "codec_names cd = (\<forall>w b. cd_Marshal cd w = Inr b \<longrightarrow> file_names cd b (fst ` set (ow_ProviderConfigs w)))"

lemma Evm_NewProvider_Name:
  "Evm_NewProvider e c homePath chainName = Ok prov \<Longrightarrow> cc_ChainName (ec_common prov) = chainName"
  by (cases e) (auto simp: Evm_NewProvider_def Let_def)

lemma Icon_NewProvider_Name:
  "Icon_NewProvider e c homePath chainName = Ok prov \<Longrightarrow> cc_ChainName (nc_common prov) = chainName"
  by (cases e) (auto simp: Icon_NewProvider_def Let_def)

lemma Wasm_NewProvider_Name:
  "Wasm_NewProvider e c homePath chainName = Ok prov \<Longrightarrow> cc_ChainName (wc_common prov) = chainName"
  by (cases e) (auto simp: Wasm_NewProvider_def Wasm_sanitize_def Let_def)

lemma NewProvider_Name: "NewProvider e homePath chainName pcfg = Ok prov \<Longrightarrow> provider_Name prov = chainName"
  by (cases pcfg) (auto simp: provider_Name_def Evm_NewProvider_Name Icon_NewProvider_Name Wasm_NewProvider_Name)

lemma set_update_insert: "set (AList.update k v al) \<subseteq> insert (k, v) (set al)"
  by (induction al) auto

lemma runtime_chains_step:
  assumes "runtime_chains connect newKMS glob homePath ((name, pcfg) # pcfgs) (chs, kms) = Ok r"
    and "CommonConfig_Enabled (config_common pcfg)"
  shows "\<exists>prov k. NewProvider (connect name) homePath name pcfg = Ok prov \<and>
    runtime_chains connect newKMS glob homePath pcfgs (AList.update (provider_NID prov) prov chs, Some k) = Ok r"
proof (cases "NewProvider (connect name) homePath name pcfg")
  case (Ok prov)
  with assms show ?thesis
    by (cases glob; cases "newKMS (gc_KMSKeyID (the glob))"; cases "provider_Init prov") auto
qed (use assms in simp_all)

lemma runtime_chains_names:
  "runtime_chains connect newKMS glob homePath pcfgs (chs, kms) = Ok (chs', kms') \<Longrightarrow>
     (provider_Name \<circ> snd) ` set chs' \<subseteq> (provider_Name \<circ> snd) ` set chs \<union> enabled_names pcfgs"
proof (induction pcfgs arbitrary: chs kms)
  case (Cons np pcfgs)
  obtain name pcfg where np: "np = (name, pcfg)" by (cases np)
  have sub: "enabled_names pcfgs \<subseteq> enabled_names (np # pcfgs)" by (auto simp: enabled_names_def)
  show ?case
  proof (cases "CommonConfig_Enabled (config_common pcfg)")
    case False
    with Cons.prems np have "runtime_chains connect newKMS glob homePath pcfgs (chs, kms) = Ok (chs', kms')" by simp
    from Cons.IH [OF this] sub show ?thesis by blast
  next
    case True
    from runtime_chains_step [OF Cons.prems [unfolded np] True] obtain prov k where
      p: "NewProvider (connect name) homePath name pcfg = Ok prov"
      "runtime_chains connect newKMS glob homePath pcfgs (AList.update (provider_NID prov) prov chs, Some k) = Ok (chs', kms')"
      by blast
    have "name \<in> enabled_names (np # pcfgs)" using True np by (auto simp: enabled_names_def image_iff)
    moreover have "(provider_Name \<circ> snd) ` set (AList.update (provider_NID prov) prov chs) \<subseteq>
        insert name ((provider_Name \<circ> snd) ` set chs)"
      using image_mono [OF set_update_insert, of "provider_Name \<circ> snd" "provider_NID prov" prov chs]
      by (simp add: NewProvider_Name [OF p(1)])
    ultimately show ?thesis using Cons.IH [OF p(2)] sub by blast
  qed
qed auto

lemma wrap_chains_names:
  "fst ` set (wrap_chains chs providers) = (provider_Name \<circ> snd) ` set chs \<union> fst ` set providers"
proof (induction chs providers rule: wrap_chains.induct)
  case (2 key chain rest providers)
  have "fst ` set (AList.update k v al) = insert k (fst ` set al)" for k v and al :: "(string \<times> string \<times> chain_config) list"
    by (simp add: dom_update [symmetric] flip: dom_map_of_conv_image_fst)
  with 2 show ?case by auto
qed simp

lemma loaded_names:
  assumes "loadConfigFile E a = (Ok (), a1)" "os_ReadFile (ap_configPath a) (ap_fs a) = Inr file"
    and "decode_wrapper (ce_codec E) file = Ok (glob, pcfgs)"
  shows "ap_configPath a1 = ap_configPath a \<and> ap_fs a1 = ap_fs a \<and>
    (\<exists>c. ap_config a1 = Some c \<and> config_names c \<subseteq> enabled_names pcfgs)"
proof -
  have "os_Exists (ap_configPath a) (ap_fs a)"
    using assms(2) by (auto simp: os_ReadFile_def os_Exists_def split: option.splits if_splits)
  with assms obtain chs kms where
    "runtime_chains (ce_connect E) (ce_NewKMSConfig E) glob (ap_homePath a) pcfgs ([], ap_kms a) = Ok (chs, kms)"
    "a1 = a\<lparr>ap_config := Some \<lparr>cf_Global = glob, cf_Chains = chs\<rparr>, ap_kms := kms\<rparr>"
    by (auto simp: loadConfigFile_def split: result.splits)
  with runtime_chains_names show ?thesis by (fastforce simp: config_names_def)
qed

text \<open>An operation on the loaded configuration that adds at most the names \<open>N\<close>.\<close>

definition adds_names :: "(app_state \<Rightarrow> unit result \<times> app_state) \<Rightarrow> string set \<Rightarrow> bool" where
  "adds_names oper N = (\<forall>a1 a2. oper a1 = (Ok (), a2) \<longrightarrow>
     ap_configPath a2 = ap_configPath a1 \<and> ap_fs a2 = ap_fs a1 \<and>
     (\<exists>c1 c2. ap_config a1 = Some c1 \<and> ap_config a2 = Some c2 \<and> config_names c2 \<subseteq> config_names c1 \<union> N))"

lemma rewritten_names:
  assumes "performConfigLockingOperation E oper a = (Ok (), a')" "adds_names oper N"
    and "codec_names (ce_codec E)"
    and "os_ReadFile (ap_configPath a) (ap_fs a) = Inr file" "decode_wrapper (ce_codec E) file = Ok (glob, pcfgs)"
  shows "\<exists>file' M. os_ReadFile (ap_configPath a) (ap_fs a') = Inr file' \<and>
    file_names (ce_codec E) file' M \<and> M \<subseteq> enabled_names pcfgs \<union> N"
proof -
  from assms(1) obtain a1 a2 c out where
    l: "loadConfigFile E a = (Ok (), a1)" and o: "oper a1 = (Ok (), a2)" and c: "ap_config a2 = Some c"
    and m: "cd_Marshal (ce_codec E) (Wrapped c) = Inr out"
    and w: "os_WriteFile (ap_configPath a2) out (ap_fs a2) = (None, ap_fs a')"
    by (auto simp: performConfigLockingOperation_def split: sum.splits result.splits prod.splits option.splits)
  note k = loaded_names [OF l assms(4,5)]
  from assms(2) o c k have n: "config_names c \<subseteq> enabled_names pcfgs \<union> N" and p: "ap_configPath a2 = ap_configPath a"
    unfolding adds_names_def by fastforce+
  have "os_ReadFile (ap_configPath a) (ap_fs a') = Inr out"
    using os_WriteFile_None [OF w] p by (auto simp: os_ReadFile_def)
  moreover have "file_names (ce_codec E) out (config_names c)"
    using assms(3) m by (fastforce simp: codec_names_def Wrapped_def config_names_def wrap_chains_names)
  ultimately show ?thesis using n by blast
qed

lemma delete_adds_nothing:
  "adds_names (\<lambda>a. case ap_config a of None \<Rightarrow> (Panic ''nil pointer dereference'', a)
     | Some c \<Rightarrow> if map_of (cf_Chains c) chain = None then (Err (errChainNotFound chain), a)
        else (Ok (), a\<lparr>ap_config := Some (DeleteChain chain c)\<rparr>)) {}"
  using set_delete_subset by (fastforce simp: adds_names_def config_names_def DeleteChain_def split: option.splits if_splits)

lemma addChainFromFile_adds: "adds_names (addChainFromFile E chainName file) {chainName}"
proof -
  have "config_names c2 \<subseteq> insert (provider_Name prov) (config_names c1)" if "AddChain prov c1 = Ok c2" for prov c1 c2
    using that set_update_insert [of "provider_Name prov" prov "cf_Chains c1"]
    by (auto simp: AddChain_def config_names_def Let_def split: if_splits)
  then show ?thesis
    by (fastforce simp: adds_names_def addChainFromFile_def dest!: NewProvider_Name
        split: sum.splits result.splits option.splits)
qed

section \<open>Rewriting the file\<close>

text \<open>
  C33. Adding or deleting one chain drops all disabled chains: the file that is written back lists
  only chains that were enabled in the file before, and the one that was added. The settings of a
  disabled chain are lost.
\<close>
theorem rewritten_config_loses_disabled:
  assumes "codec_names (ce_codec E)"
    and "os_ReadFile (ap_configPath a) (ap_fs a) = Inr old" "decode_wrapper (ce_codec E) old = Ok (glob, pcfgs)"
    and "chainsDelete E nid a = (Ok (), a') \<and> N = {} \<or> chainsAdd E file [chainName] a = (Ok (), a') \<and> N = {chainName}"
  shows "\<exists>new M. os_ReadFile (ap_configPath a) (ap_fs a') = Inr new \<and>
    file_names (ce_codec E) new M \<and> M \<subseteq> enabled_names pcfgs \<union> N"
  using assms(4)
proof
  assume d: "chainsDelete E nid a = (Ok (), a') \<and> N = {}"
  then have "performConfigLockingOperation E (\<lambda>a. case ap_config a of None \<Rightarrow> (Panic ''nil pointer dereference'', a)
     | Some c \<Rightarrow> if map_of (cf_Chains c) nid = None then (Err (errChainNotFound nid), a)
        else (Ok (), a\<lparr>ap_config := Some (DeleteChain nid c)\<rparr>)) a = (Ok (), a')"
    by (simp add: chainsDelete_def)
  from rewritten_names [OF this delete_adds_nothing assms(1-3)] d show ?thesis by simp
next
  assume d: "chainsAdd E file [chainName] a = (Ok (), a') \<and> N = {chainName}"
  then have "performConfigLockingOperation E (addChainFromFile E chainName file) a = (Ok (), a')"
    by (auto simp: chainsAdd_def performConfigLockingOperation_def split: if_splits sum.splits result.splits prod.splits)
  from rewritten_names [OF this addChainFromFile_adds assms(1-3)] d show ?thesis by simp
qed

text \<open>
  Files that list the names of the chains, each ended by a semicolon; a chain's value is the entry of
  a table under its name.
\<close>

definition ex_chain :: "string \<Rightarrow> string \<Rightarrow> bool \<Rightarrow> evm_config" where
  "ex_chain name nid disabled = ex_evm_config\<lparr>ec_common := (ec_common ex_evm_config)\<lparr>cc_ChainName := name,
     cc_NID := nid, cc_Address := ''0xold'', cc_HomeDir := ''/relay'', cc_Disabled := disabled\<rparr>\<rparr>"

definition ex_pcfgs :: "(string \<times> chain_config) list" where
  "ex_pcfgs = [(''a'', EvmConfig (ex_chain ''a'' ''0x1.a'' False)), (''b'', EvmConfig (ex_chain ''b'' ''0x1.b'' False)),
     (''c'', EvmConfig (ex_chain ''c'' ''0x1.c'' True))]"

fun ex_table :: "string \<Rightarrow> error + evm_config" where
  "ex_table n = (case map_of ex_pcfgs n of Some (EvmConfig c) \<Rightarrow> Inr c | _ \<Rightarrow> Inl ''no such chain'')"

definition ex_decoder :: "string decoder" where
  "ex_decoder = \<lparr>dc_Evm = ex_table, dc_Icon = \<lambda>n. Inl ''not an icon chain'', dc_Wasm = \<lambda>n. Inl ''not a cosmos chain'',
     dc_Nil = \<lambda>n. None\<rparr>"

definition ex_codec :: "string config_codec" where
  "ex_codec = \<lparr>cd_Marshal = \<lambda>w. let ns = map fst (ow_ProviderConfigs w) in
       if list_all (\<lambda>n. n \<noteq> '''' \<and> CHR '';'' \<notin> set n) ns then Inr (concat (map (\<lambda>n. n @ '';'') ns)) else Inl ''bad name'',
     cd_MarshalConfig = \<lambda>c. Inr '''',
     cd_Unmarshal = \<lambda>b. Inr \<lparr>iw_Global = Some newDefaultGlobalConfig,
       iw_ProviderConfigs = map (\<lambda>n. (n, ''evm'', n)) (filter (\<lambda>n. n \<noteq> '''') (Split b (CHR '';'')))\<rparr>,
     cd_yaml = ex_decoder, cd_UnmarshalJSON = \<lambda>b. Inr (Some ''evm'', b), cd_json = ex_decoder\<rparr>"

definition ex_cmd_env :: "(string, string, string, string, string option) cmd_env" where
  "ex_cmd_env = \<lparr>ce_codec = ex_codec, ce_connect = \<lambda>n. None, ce_NewKMSConfig = \<lambda>key. Inr ex_kms,
     ce_evm_keys = ex_evm_keys, ce_icon_keys = ex_icon_keys, ce_key_lib = ex_key_lib, ce_keyring = None,
     ce_TryLock = Inr True, ce_QueryBalance = \<lambda>nid wallet. Inl ''not connected'', ce_SetAdmin = \<lambda>nid addr. None\<rparr>"

definition ex_app :: app_state where
  "ex_app = \<lparr>ap_homePath = ''/relay'', ap_configPath = ''/relay/config.yaml'',
     ap_config = Some \<lparr>cf_Global = Some newDefaultGlobalConfig,
       cf_Chains = [(''0x1.b'', EvmConfig (ex_chain ''b'' ''0x1.b'' False))]\<rparr>, ap_kms = Some ex_kms,
     ap_fs = ex_fs\<lparr>fs_files := [(''/relay/config.yaml'', ''a;b;c;''), (''/relay/keystore/0x1.b/0xnew'', ''''),
       (''/relay/keystore/0x1.b/0xnew.pass'', '''')]\<rparr>, ap_admin = []\<rparr>"

lemma Split_names:
  "list_all (\<lambda>n. n \<noteq> '''' \<and> CHR '';'' \<notin> set n) ns \<Longrightarrow>
     filter (\<lambda>n. n \<noteq> '''') (Split (concat (map (\<lambda>n. n @ '';'') ns)) (CHR '';'')) = ns"
  by (induction ns) (auto simp: Split_append Split_single)

lemma ex_codec_names: "codec_names ex_codec"
proof -
  have "file_names ex_codec b (set ns)" if "filter (\<lambda>n. n \<noteq> '''') (Split b (CHR '';'')) = ns" for b ns
    by (simp add: file_names_def ex_codec_def that image_image del: set_filter)
  note names = this
  have "file_names ex_codec b (fst ` set (ow_ProviderConfigs w))" if "cd_Marshal ex_codec w = Inr b" for w b
  proof -
    have "list_all (\<lambda>n. n \<noteq> '''' \<and> CHR '';'' \<notin> set n) (map fst (ow_ProviderConfigs w)) \<and>
        b = concat (map (\<lambda>n. n @ '';'') (map fst (ow_ProviderConfigs w)))"
      using that by (simp add: ex_codec_def Let_def split: if_splits del: map_map)
    with names [OF Split_names, of "map fst (ow_ProviderConfigs w)"] show ?thesis by (simp del: map_map)
  qed
  then show ?thesis by (simp add: codec_names_def)
qed

theorem rewritten_config_loses_disabled_witness:
  "decode_wrapper ex_codec ''a;b;c;'' = Ok (Some newDefaultGlobalConfig, ex_pcfgs) \<and>
   fst (chainsDelete ex_cmd_env ''0x1.a'' ex_app) = Ok () \<and>
   (\<exists>new M. os_ReadFile ''/relay/config.yaml'' (ap_fs (snd (chainsDelete ex_cmd_env ''0x1.a'' ex_app))) = Inr new \<and>
     file_names ex_codec new M \<and> M \<subseteq> {''a'', ''b''})"
proof -
  let ?r = "chainsDelete ex_cmd_env ''0x1.a'' ex_app"
  have p: "ap_configPath ex_app = ''/relay/config.yaml''" "ce_codec ex_cmd_env = ex_codec"
    by (simp_all add: ex_app_def ex_cmd_env_def)
  have f: "os_ReadFile (ap_configPath ex_app) (ap_fs ex_app) = Inr ''a;b;c;''" by code_simp
  have d: "decode_wrapper (ce_codec ex_cmd_env) ''a;b;c;'' = Ok (Some newDefaultGlobalConfig, ex_pcfgs)" by code_simp
  have r: "fst ?r = Ok ()" by code_simp
  then have "?r = (Ok (), snd ?r)" by (simp add: prod_eq_iff)
  moreover have "enabled_names ex_pcfgs = {''a'', ''b''}"
    by (auto simp: enabled_names_def ex_pcfgs_def ex_chain_def CommonConfig_Enabled_def image_iff)
  ultimately show ?thesis
    using rewritten_config_loses_disabled [of ex_cmd_env ex_app _ _ _ "''0x1.a''" "snd ?r" "{}" "''''" "''''",
        OF _ f d] ex_codec_names r d p by simp
qed

text \<open>
  \<^verbatim>\<open>keystore use\<close> never changes the wallet of a chain: it saves the configuration to the path of
  the home directory, which cannot be written, and so neither writes the configuration file nor
  calls the contract.
\<close>
theorem keystore_use_never_succeeds:
  assumes "ap_config a = Some c" "cmd_Chains_Get nid (cf_Chains c) = Some (key, chain)"
    and "cc_Address (config_common chain) \<noteq> addr" "ap_homePath a \<in> set (fs_dirs (ap_fs a))"
  shows "(\<exists>e. fst (keystoreUse E nid addr a) = Err e) \<and>
    ap_fs (snd (keystoreUse E nid addr a)) = ap_fs a \<and> ap_admin (snd (keystoreUse E nid addr a)) = ap_admin a"
proof -
  have "\<exists>e. Config_Save (ce_codec E) c' (ap_homePath a) (ap_fs a) = (Some e, ap_fs a)" for c'
    using assms(4) by (auto simp: Config_Save_def os_WriteFile_def split: sum.split option.split)
  then obtain e where "Config_Save (ce_codec E) (set_wallet key addr c) (ap_homePath a) (ap_fs a) = (Some e, ap_fs a)"
    by blast
  with assms(1-3) show ?thesis
    by (simp add: keystoreUse_def with_chain_def Let_def CommonConfig_GetWallet_def)
qed

theorem keystore_use_never_succeeds_witness:
  "(\<exists>e. fst (keystoreUse ex_cmd_env ''0x1.b'' ''0xnew'' ex_app) = Err e) \<and>
   ap_fs (snd (keystoreUse ex_cmd_env ''0x1.b'' ''0xnew'' ex_app)) = ap_fs ex_app \<and>
   ap_admin (snd (keystoreUse ex_cmd_env ''0x1.b'' ''0xnew'' ex_app)) = ap_admin ex_app"
proof -
  have 1: "ap_config ex_app = Some \<lparr>cf_Global = Some newDefaultGlobalConfig,
      cf_Chains = [(''0x1.b'', EvmConfig (ex_chain ''b'' ''0x1.b'' False))]\<rparr>" by (simp add: ex_app_def)
  have 2: "cmd_Chains_Get ''0x1.b'' [(''0x1.b'', EvmConfig (ex_chain ''b'' ''0x1.b'' False))] =
      Some (''0x1.b'', EvmConfig (ex_chain ''b'' ''0x1.b'' False))"
    by (simp add: ex_chain_def provider_NID_def)
  have 3: "cc_Address (config_common (EvmConfig (ex_chain ''b'' ''0x1.b'' False))) \<noteq> ''0xnew''"
    by (simp add: ex_chain_def)
  have 4: "ap_homePath ex_app \<in> set (fs_dirs (ap_fs ex_app))" by (simp add: ex_app_def ex_fs_def)
  show ?thesis by (rule keystore_use_never_succeeds [OF 1 _ 3 4, unfolded cmd_config.simps, OF 2])
qed

end
