(* ===== verification/Cmd_Db.thy ===== *)
theory Cmd_Db
  imports Socket
begin

text \<open>
  Package \<^verbatim>\<open>cmd\<close>: the commands \<^verbatim>\<open>start\<close>, \<^verbatim>\<open>database\<close> and \<^verbatim>\<open>contract\<close> (\<^verbatim>\<open>start.go\<close>, \<^verbatim>\<open>db.go\<close>,
  \<^verbatim>\<open>contracts.go\<close>). A command talks to the relayer behind the unix socket; when none listens there it
  opens the database, makes a relayer of its own and serves the socket itself until it is done.

  \<open>machine\<close> is what the commands of one computer share: the relayer that serves the socket, the
  database while no process has it open, and whether the socket's file exists. \<^verbatim>\<open>net.Listen\<close> fails on
  a file that exists; closing a listener removes it, the end of the process does not.
\<close>

section \<open>The shared state\<close>

record 'd machine =
  mc_server :: "'d relayer option"
  mc_db :: 'd
  mc_file :: bool

text \<open>\<open>de_open\<close> is the error of opening the database, given whether another process has it open.\<close>

record ('d, 'v, 'w) db_env =
  de_store :: "('d, 'v) store"
  de_codec :: "'v codec"
  de_sock :: "'w sock_codec"
  de_env :: env
  de_chains :: chains
  de_open :: "bool \<Rightarrow> error option"

definition ErrSocketClosed :: error where "ErrSocketClosed = ''socket closed''"

definition NewClient :: "'d machine \<Rightarrow> error + 'd relayer" where
  "NewClient mc = (case mc_server mc of None \<Rightarrow> Inl ErrSocketClosed | Some s \<Rightarrow> Inr s)"

definition NewSocket :: "'d relayer \<Rightarrow> 'd machine \<Rightarrow> error option \<times> 'd machine" where
  "NewSocket rly mc =
     (if mc_file mc then (Some ''listen unix: bind: address already in use'', mc)
      else (None, mc\<lparr>mc_server := Some rly, mc_file := True\<rparr>))"

definition db_chains :: "('d, 'v, 'w) db_env \<Rightarrow> (string \<times> chain option) list" where
  "db_chains D = map (\<lambda>(nid, chain). (nid, Some chain)) (Chains_GetAll (de_chains D))"

definition getRelayer :: "('d, 'v, 'w) db_env \<Rightarrow> 'd machine \<Rightarrow> 'd relayer result" where
  "getRelayer D mc = (case de_open D (mc_server mc \<noteq> None) of
      Some e \<Rightarrow> Err e
    | None \<Rightarrow> NewRelayer (de_store D) (de_codec D) (mc_db mc) (db_chains D) False)"

text \<open>The relayer the command talks to, and whether it is the command's own.\<close>

definition getSocket :: "('d, 'v, 'w) db_env \<Rightarrow> 'd machine \<Rightarrow> 'd relayer result \<times> bool \<times> 'd machine" where
  "getSocket D mc = (case NewClient mc of
      Inr s \<Rightarrow> (Ok s, False, mc)
    | Inl err \<Rightarrow>
       if err = ErrSocketClosed then
         (case getRelayer D mc of
            Err e \<Rightarrow> (Err e, False, mc)
          | Panic e \<Rightarrow> (Panic e, False, mc)
          | Ok rly \<Rightarrow>
             (case NewSocket rly mc of
                (Some e, mc1) \<Rightarrow> (Err e, False, mc1)
              | (None, mc1) \<Rightarrow> (of_sum (NewClient mc1), True, mc1)))
       else (of_sum (NewClient mc), False, mc))"

section \<open>One command\<close>

definition closeSocket :: "bool \<Rightarrow> 'd machine \<Rightarrow> 'd machine" where
  "closeSocket own mc = (if own then mc\<lparr>mc_file := False\<rparr> else mc)"

text \<open>The end of a process that serves the socket.\<close>

definition process_exit :: "bool \<Rightarrow> 'd machine \<Rightarrow> 'd machine" where
  "process_exit own mc = (case mc_server mc of
      None \<Rightarrow> mc
    | Some s \<Rightarrow> if own then mc\<lparr>mc_server := None, mc_db := r_db s\<rparr> else mc)"

text \<open>A request and its answer; a panic of the server ends its process.\<close>

definition serve_call ::
    "('d, 'v, 'w) db_env \<Rightarrow> bool \<Rightarrow> string \<Rightarrow> 'w payload \<Rightarrow> ptype \<Rightarrow> 'd relayer \<Rightarrow> 'd machine
     \<Rightarrow> 'w payload result \<times> 'd machine" where
  "serve_call D own ev req T s mc =
     (let conn = conn_to (de_store D) (de_codec D) (de_sock D) (de_env D) s
      in case Client_send (de_sock D) ev req of
          Inl e \<Rightarrow> (Err e, mc)
        | Inr w \<Rightarrow>
           (case Server_serve (de_store D) (de_codec D) (de_sock D) (de_env D) w s of
              (Panic e, s1) \<Rightarrow> (if own then Panic e else of_sum (Client_call (de_sock D) conn ev req T),
                process_exit True (mc\<lparr>mc_server := Some s1\<rparr>))
            | (_, s1) \<Rightarrow> (of_sum (Client_call (de_sock D) conn ev req T), mc\<lparr>mc_server := Some s1\<rparr>)))"

text \<open>
  The library runs \<^verbatim>\<open>PostRunE\<close>, where the socket is closed, only for a command that has one
  (\<open>closes\<close>) and only after \<^verbatim>\<open>RunE\<close> returned without an error.
\<close>

definition db_command ::
    "('d, 'v, 'w) db_env \<Rightarrow> bool \<Rightarrow> string \<Rightarrow> 'w payload \<Rightarrow> ptype \<Rightarrow> 'd machine \<Rightarrow> 'w payload result \<times> 'd machine" where
  "db_command D closes ev req T mc = (case getSocket D mc of
      (Err e, own, mc1) \<Rightarrow> (Err e, process_exit own mc1)
    | (Panic e, own, mc1) \<Rightarrow> (Panic e, process_exit own mc1)
    | (Ok s, own, mc1) \<Rightarrow>
       let (r, mc2) = serve_call D own ev req T s mc1
       in (r, process_exit own (case r of Ok _ \<Rightarrow> if closes then closeSocket own mc2 else mc2 | _ \<Rightarrow> mc2)))"

section \<open>The commands \<^verbatim>\<open>database\<close>\<close>

definition db_prune :: "('d, 'v, 'w) db_env \<Rightarrow> 'd machine \<Rightarrow> 'w payload result \<times> 'd machine" where
  "db_prune D = db_command D True EventPruneDB (ReqPruneDB '''') TResPruneDB"

definition messagesList ::
    "('d, 'v, 'w) db_env \<Rightarrow> string \<Rightarrow> u64 \<Rightarrow> u64 \<Rightarrow> 'd machine \<Rightarrow> 'w payload result \<times> 'd machine" where
  "messagesList D chain page limit = db_command D True EventGetMessageList
     (ReqMessageList chain (Some (WithPage page limit NewPagination))) TResMessageList"

definition messagesRelay ::
    "('d, 'v, 'w) db_env \<Rightarrow> string \<Rightarrow> u64 \<Rightarrow> u64 \<Rightarrow> 'd machine \<Rightarrow> 'w payload result \<times> 'd machine" where
  "messagesRelay D chain height sn = db_command D True EventRelayMessage
     (ReqRelayMessage chain (Some (uint sn)) height) TResRelayMessage"

definition messagesRm ::
    "('d, 'v, 'w) db_env \<Rightarrow> string \<Rightarrow> u64 \<Rightarrow> 'd machine \<Rightarrow> 'w payload result \<times> 'd machine" where
  "messagesRm D chain sn = db_command D True EventMessageRemove (ReqMessageRemove chain (Some (uint sn))) TResMessageRemove"

definition blockInfo :: "('d, 'v, 'w) db_env \<Rightarrow> string \<Rightarrow> 'd machine \<Rightarrow> 'w payload result \<times> 'd machine" where
  "blockInfo D chain = db_command D True EventGetBlock (ReqGetBlock chain (chain = '''')) TResGetBlocks"

definition revertMessage ::
    "('d, 'v, 'w) db_env \<Rightarrow> string \<Rightarrow> u64 \<Rightarrow> 'd machine \<Rightarrow> 'w payload result \<times> 'd machine" where
  "revertMessage D chain sn = db_command D True EventRevertMessage (ReqRevertMessage chain sn) TResRevertMessage"

section \<open>The commands \<^verbatim>\<open>contract fee\<close>\<close>

text \<open>Their \<^verbatim>\<open>PostRunE\<close> belongs to the parent command, which is not the one that runs.\<close>

definition cmd_getFee ::
    "('d, 'v, 'w) db_env \<Rightarrow> string \<Rightarrow> string \<Rightarrow> 'd machine \<Rightarrow> 'w payload result \<times> 'd machine" where
  "cmd_getFee D chain network = db_command D False EventGetFee (ReqGetFee chain network True) TResGetFee"

definition cmd_setFee ::
    "('d, 'v, 'w) db_env \<Rightarrow> string \<Rightarrow> string \<Rightarrow> u64 \<Rightarrow> u64 \<Rightarrow> 'd machine \<Rightarrow> 'w payload result \<times> 'd machine" where
  "cmd_setFee D chain network msgFee resFee = db_command D False EventSetFee
     (ReqSetFee chain network (Some (uint msgFee)) (Some (uint resFee))) TResSetFee"

definition cmd_claimFee :: "('d, 'v, 'w) db_env \<Rightarrow> string \<Rightarrow> 'd machine \<Rightarrow> 'w payload result \<times> 'd machine" where
  "cmd_claimFee D chain = db_command D False EventClaimFee (ReqClaimFee chain) TResClaimFee"

section \<open>The command \<^verbatim>\<open>start\<close>\<close>

text \<open>
  The relayer's goroutines are started before the socket is opened; they are the steps of the
  relayer. With \<^verbatim>\<open>--fresh\<close> the database is cleared first.
\<close>

definition cmd_start :: "('d, 'v, 'w) db_env \<Rightarrow> bool \<Rightarrow> 'd machine \<Rightarrow> unit result \<times> 'd machine" where
  "cmd_start D fresh mc = (case de_open D (mc_server mc \<noteq> None) of
      Some e \<Rightarrow> (Err e, mc)
    | None \<Rightarrow>
       let db1 = (if fresh then snd (st_ClearStore (de_store D) (mc_db mc)) else mc_db mc);
           mc1 = mc\<lparr>mc_db := db1\<rparr>
       in case NewRelayer (de_store D) (de_codec D) (mc_db mc) (db_chains D) fresh of
           Panic e \<Rightarrow> (Panic e, mc1)
         | Err e \<Rightarrow> (Err (''error creating new relayer '' @ e), mc1)
         | Ok rly \<Rightarrow>
            (case NewSocket rly mc1 of
               (Some e, mc2) \<Rightarrow> (Err e, mc2)
             | (None, mc2) \<Rightarrow> (Ok (), mc2)))"

section \<open>What is printed\<close>

text \<open>
  A row of values: \<^verbatim>\<open>printValues\<close> builds one verb per value it knows the type of; a big integer and
  the retry count, a \<^verbatim>\<open>uint8\<close>, are none of them.
\<close>

datatype cell = CellString string | CellUint64 u64 | CellUint8 u8 | CellBig wireint

fun cell_verb :: "cell \<Rightarrow> string list" where
  "cell_verb (CellString s) = [''%-10s'']"
| "cell_verb (CellUint64 n) = [''%-10d'']"
| "cell_verb (CellUint8 n) = []"
| "cell_verb (CellBig n) = []"

definition printValues :: "cell list \<Rightarrow> string" where
  "printValues vals = concat (map (\<lambda>v. v @ '' '') (concat (map cell_verb vals))) @ [CHR 0x0A]"

text \<open>\<open>pad10\<close> is the verb \<^verbatim>\<open>%-10s\<close> on ASCII text: \<^verbatim>\<open>printLabels\<close> prints the labels and a rule below them.\<close>

definition pad10 :: "string \<Rightarrow> string" where
  "pad10 s = s @ replicate (10 - length s) (CHR '' '')"

definition printLabels :: "string list \<Rightarrow> string" where
  "printLabels labels =
     concat (map (\<lambda>l. pad10 l @ '' '') labels) @ [CHR 0x0A] @
     concat (map (\<lambda>l. pad10 (replicate 10 (CHR ''-'')) @ '' '') labels) @ [CHR 0x0A]"

text \<open>Labels of at most ten characters stand in columns eleven wide, as long as the rule below.\<close>

lemma printLabels_columns:
  assumes "list_all (\<lambda>l. length l \<le> 10) labels"
  shows "length (printLabels labels) = 2 * (11 * length labels + 1)"
proof -
  have "length (concat (map (\<lambda>l. pad10 l @ '' '') ls)) = 11 * length ls" if "list_all (\<lambda>l. length l \<le> 10) ls" for ls
    using that by (induction ls) (auto simp: pad10_def)
  moreover have "length (concat (map (\<lambda>l. pad10 (replicate 10 (CHR ''-'')) @ '' '') labels)) = 11 * length labels"
    by (induction labels) (auto simp: pad10_def)
  ultimately show ?thesis using assms by (simp add: printLabels_def)
qed

fun payload_row :: "'w payload \<Rightarrow> cell list" where
  "payload_row (ResPruneDB st) = [CellString st]"
| "payload_row (ResRelayMessage m) = [CellBig (m_sn (rm_msg m)), CellString (m_src (rm_msg m)),
     CellString (m_dst (rm_msg m)), CellUint64 (m_height (rm_msg m)), CellString (m_event (rm_msg m)), CellUint8 (rm_retry m)]"
| "payload_row (ResMessageRemove sn chain dst height event) =
     [CellBig sn, CellString chain, CellString dst, CellUint64 height, CellString event]"
| "payload_row (ResSetFee st) = [CellString st]"
| "payload_row (ResClaimFee st) = [CellString st]"
| "payload_row _ = []"

definition fee_row :: "string \<Rightarrow> u64 \<Rightarrow> cell list" where
  "fee_row network fee = [CellString network, CellUint64 fee]"

definition block_rows :: "(string \<times> u64) list \<Rightarrow> cell list list" where
  "block_rows blocks = map (\<lambda>(chain, height). [CellString chain, CellUint64 height]) blocks"

text \<open>A value for every verb and a verb for every value: only then a row prints as its values.\<close>

definition row_prints :: "cell list \<Rightarrow> bool" where
  "row_prints vals = (length (concat (map cell_verb vals)) = length vals)"

lemma rows_that_print:
  "row_prints (payload_row (ResPruneDB st))" "row_prints (payload_row (ResSetFee st))"
  "row_prints (payload_row (ResClaimFee st))" "row_prints (fee_row network fee)"
  "list_all row_prints (block_rows blocks)"
  by (auto simp: row_prints_def fee_row_def block_rows_def list_all_iff)

lemma rows_that_do_not_print:
  "\<not> row_prints (payload_row (ResRelayMessage m))" "\<not> row_prints (payload_row (ResMessageRemove sn chain dst height event))"
  by (simp_all add: row_prints_def)

section \<open>Own servers\<close>

lemma getSocket_own:
  assumes "mc_server mc = None" "mc_file mc = False" "getRelayer D mc = Ok rly"
  shows "getSocket D mc = (Ok rly, True, mc\<lparr>mc_server := Some rly, mc_file := True\<rparr>)"
  using assms by (simp add: getSocket_def NewClient_def NewSocket_def of_sum_def)

lemma getRelayer_db: "getRelayer D mc = Ok rly \<Longrightarrow> r_db rly = mc_db mc"
  by (auto simp: getRelayer_def NewRelayer_def split: option.splits)

text \<open>A machine whose socket file nobody serves: no command gets past it.\<close>

definition stuck :: "'d machine \<Rightarrow> bool" where
  "stuck mc = (mc_server mc = None \<and> mc_file mc)"

lemma stuck_getSocket:
  assumes "stuck mc"
  shows "\<exists>r. getSocket D mc = (r, False, mc) \<and> (\<forall>s. r \<noteq> Ok s)"
  using assms by (cases "getRelayer D mc") (simp_all add: stuck_def getSocket_def NewClient_def NewSocket_def)

lemma stuck_command:
  assumes "stuck mc"
  shows "(\<forall>p. fst (db_command D closes ev req T mc) \<noteq> Ok p) \<and> snd (db_command D closes ev req T mc) = mc"
proof -
  obtain r where r: "getSocket D mc = (r, False, mc)" "\<forall>s. r \<noteq> Ok s" using stuck_getSocket [OF assms] by blast
  with assms show ?thesis by (cases r) (auto simp: db_command_def process_exit_def stuck_def)
qed

lemma stuck_start:
  assumes "stuck mc"
  shows "fst (cmd_start D fresh mc) \<noteq> Ok () \<and> stuck (snd (cmd_start D fresh mc))"
  using assms by (auto simp: cmd_start_def NewSocket_def stuck_def Let_def split: option.split result.split)

end
