(* ===== verification/Cmd_Tree.thy ===== *)
theory Cmd_Tree
  imports Prelude
begin

text \<open>
  Package \<^verbatim>\<open>cmd\<close>: the tree of commands the root command is built from, with the names, flags and
  arguments every constructor declares (\<^verbatim>\<open>root.go\<close>, \<^verbatim>\<open>flags.go\<close> and the constructors of the other
  files). What a command does is in \<open>Cmd\<close>, \<open>Cmd_Db\<close> and \<open>Cmd_Root\<close>; the parser of the command line is
  third-party code and is not modelled. The library panics when a flag set gets the same name or
  shorthand twice, and the code panics when it requires a flag it did not declare, so building a command
  has no panic exactly when it is \<open>well_formed\<close>.
\<close>

section \<open>Flags\<close>

datatype flag_value = FlagString string | FlagBool bool | FlagUint u64 | FlagDuration int

record flag =
  fl_name :: string
  fl_short :: "char option"
  fl_default :: flag_value

text \<open>
  The arguments a command accepts; \<open>ci_RunE\<close> and \<open>ci_PostRunE\<close> say whether the command sets these
  functions.
\<close>

datatype positional_args = AnyArgs | NoArgs | MinimumNArgs nat | MaximumNArgs nat | ExactArgs nat

fun args_ok :: "positional_args \<Rightarrow> string list \<Rightarrow> bool" where
  "args_ok AnyArgs args = True"
| "args_ok NoArgs args = (args = [])"
| "args_ok (MinimumNArgs n) args = (n \<le> length args)"
| "args_ok (MaximumNArgs n) args = (length args \<le> n)"
| "args_ok (ExactArgs n) args = (length args = n)"

record cmd_info =
  ci_Use :: string
  ci_Aliases :: "string list"
  ci_Args :: positional_args
  ci_Flags :: "flag list"
  ci_Required :: "string list"
  ci_Together :: "string list list"
  ci_RunE :: bool
  ci_PostRunE :: bool

definition new_cmd :: "string \<Rightarrow> string list \<Rightarrow> cmd_info" where
  "new_cmd use aliases = \<lparr>ci_Use = use, ci_Aliases = aliases, ci_Args = AnyArgs, ci_Flags = [], ci_Required = [],
     ci_Together = [], ci_RunE = True, ci_PostRunE = False\<rparr>"

definition add_flag :: "string \<Rightarrow> char option \<Rightarrow> flag_value \<Rightarrow> cmd_info \<Rightarrow> cmd_info" where
  "add_flag name short def ci =
     ci\<lparr>ci_Flags := ci_Flags ci @ [\<lparr>fl_name = name, fl_short = short, fl_default = def\<rparr>]\<rparr>"

definition MarkFlagRequired :: "string \<Rightarrow> cmd_info \<Rightarrow> cmd_info" where
  "MarkFlagRequired name ci = ci\<lparr>ci_Required := ci_Required ci @ [name]\<rparr>"

datatype command = Command (cmd_of: cmd_info) (AddCommand: "command list")

definition group_of :: "string \<Rightarrow> string list \<Rightarrow> command list \<Rightarrow> command" where
  "group_of use aliases subs = Command ((new_cmd use aliases)\<lparr>ci_RunE := False\<rparr>) subs"

section \<open>The flags of \<^verbatim>\<open>flags.go\<close>\<close>

definition DefaultFlushInterval :: int where
  "DefaultFlushInterval = 5 * 60 * 1000000000"

definition flushIntervalFlag :: "cmd_info \<Rightarrow> cmd_info" where
  "flushIntervalFlag = add_flag ''flush-interval'' (Some CHR ''i'') (FlagDuration DefaultFlushInterval)"

definition freshFlag :: "cmd_info \<Rightarrow> cmd_info" where
  "freshFlag = add_flag ''fresh'' None (FlagBool False)"

definition yamlFlag :: "cmd_info \<Rightarrow> cmd_info" where
  "yamlFlag = add_flag ''yaml'' (Some CHR ''y'') (FlagBool False)"

definition jsonFlag :: "cmd_info \<Rightarrow> cmd_info" where
  "jsonFlag = add_flag ''json'' (Some CHR ''j'') (FlagBool False)"

definition fileFlag :: "cmd_info \<Rightarrow> cmd_info" where
  "fileFlag = add_flag ''file'' (Some CHR ''f'') (FlagString '''')"

section \<open>The commands \<^verbatim>\<open>start\<close>, \<^verbatim>\<open>config\<close> and \<^verbatim>\<open>chains\<close>\<close>

definition startCmd :: command where
  "startCmd = Command (freshFlag (flushIntervalFlag
     ((new_cmd ''start path_name'' [''st''])\<lparr>ci_Args := MinimumNArgs 0\<rparr>))) []"

definition configShowCmd :: command where
  "configShowCmd = Command (yamlFlag (jsonFlag ((new_cmd ''show'' [''s'', ''list'', ''l''])\<lparr>ci_Args := NoArgs\<rparr>))) []"

definition configInitCmd :: command where
  "configInitCmd = Command ((new_cmd ''init'' [''i''])\<lparr>ci_Args := NoArgs\<rparr>) []"

definition configCmd :: command where
  "configCmd = group_of ''config'' [''cfg''] [configShowCmd, configInitCmd]"

definition chainsListCmd :: command where
  "chainsListCmd = Command (yamlFlag (jsonFlag ((new_cmd ''list'' [''l''])\<lparr>ci_Args := NoArgs\<rparr>))) []"

definition chainsAddCmd :: command where
  "chainsAddCmd = Command (fileFlag ((new_cmd ''add [chain-name...]'' [''a''])\<lparr>ci_Args := MinimumNArgs 0\<rparr>)) []"

definition chainsDeleteCmd :: command where
  "chainsDeleteCmd = Command ((new_cmd ''delete chain_name'' [''d''])\<lparr>ci_Args := ExactArgs 1\<rparr>) []"

definition chainsCmd :: command where
  "chainsCmd = group_of ''chains'' [''ch''] [chainsListCmd, chainsAddCmd, chainsDeleteCmd]"

section \<open>The commands \<^verbatim>\<open>database\<close>\<close>

definition messageMsgIDFlag :: "bool \<Rightarrow> cmd_info \<Rightarrow> cmd_info" where
  "messageMsgIDFlag markRequired ci =
     (let ci1 = add_flag ''sn'' None (FlagUint 0) ci in if markRequired then MarkFlagRequired ''sn'' ci1 else ci1)"

definition messageHeightFlag :: "cmd_info \<Rightarrow> cmd_info" where
  "messageHeightFlag = add_flag ''height'' None (FlagUint 0)"

definition messageChainFlag :: "bool \<Rightarrow> cmd_info \<Rightarrow> cmd_info" where
  "messageChainFlag markRequired ci =
     (let ci1 = add_flag ''chain'' (Some CHR ''c'') (FlagString '''') ci
      in if markRequired then MarkFlagRequired ''chain'' ci1 else ci1)"

definition dbMessageFlagsListFlags :: "cmd_info \<Rightarrow> cmd_info" where
  "dbMessageFlagsListFlags ci =
     MarkFlagRequired ''chain''
       (add_flag ''page'' (Some CHR ''p'') (FlagUint 1)
         (add_flag ''chain'' (Some CHR ''c'') (FlagString '''')
           (add_flag ''limit'' (Some CHR ''l'') (FlagUint 10) ci)))"

text \<open>Every command of the database closes the socket after it ran.\<close>

definition db_cmd :: "string \<Rightarrow> string list \<Rightarrow> cmd_info" where
  "db_cmd use aliases = (new_cmd use aliases)\<lparr>ci_PostRunE := True\<rparr>"

definition messagesListCmd :: command where
  "messagesListCmd = Command (dbMessageFlagsListFlags (db_cmd ''list'' [''ls''])) []"

definition messagesRelayCmd :: command where
  "messagesRelayCmd = Command (messageHeightFlag (messageChainFlag True (messageMsgIDFlag True
     (db_cmd ''relay'' [''rly''])))) []"

definition messagesRmCmd :: command where
  "messagesRmCmd = Command (messageChainFlag True (messageMsgIDFlag True (db_cmd ''rm'' []))) []"

definition revertMessageCmd :: command where
  "revertMessageCmd = Command (messageChainFlag True (messageMsgIDFlag True (db_cmd ''revert'' [''rv'']))) []"

definition blockInfoCmd :: command where
  "blockInfoCmd = Command (messageChainFlag False (db_cmd ''view'' [''get''])) []"

definition dbCmd :: command where
  "dbCmd = group_of ''database'' [''db'']
     [group_of ''messages'' [''m''] [messagesListCmd, messagesRelayCmd, messagesRmCmd, revertMessageCmd],
      group_of ''block'' [''b''] [blockInfoCmd],
      Command (db_cmd ''prune'' []) []]"

section \<open>The commands \<^verbatim>\<open>keystore\<close>\<close>

definition chainFlag :: "cmd_info \<Rightarrow> cmd_info" where
  "chainFlag ci = MarkFlagRequired ''chain'' (add_flag ''chain'' (Some CHR ''c'') (FlagString '''') ci)"

definition passwordFlag :: "bool \<Rightarrow> cmd_info \<Rightarrow> cmd_info" where
  "passwordFlag isConfirmRequired ci =
     (let ci1 = MarkFlagRequired ''password'' (add_flag ''password'' (Some CHR ''p'') (FlagString '''') ci)
      in if isConfirmRequired
         then MarkFlagRequired ''confirm'' (add_flag ''confirm'' (Some CHR ''c'') (FlagString '''') ci1)
         else ci1)"

definition addressFlag :: "cmd_info \<Rightarrow> cmd_info" where
  "addressFlag ci = MarkFlagRequired ''address'' (add_flag ''address'' (Some CHR ''a'') (FlagString '''') ci)"

definition keystorePathFlag :: "cmd_info \<Rightarrow> cmd_info" where
  "keystorePathFlag ci = MarkFlagRequired ''keystore'' (add_flag ''keystore'' (Some CHR ''k'') (FlagString '''') ci)"

definition keystoreInitCmd :: command where
  "keystoreInitCmd = Command (new_cmd ''init'' []) []"

definition keystoreNewCmd :: command where
  "keystoreNewCmd = Command (passwordFlag False (chainFlag (new_cmd ''new'' []))) []"

definition keystoreListCmd :: command where
  "keystoreListCmd = Command (chainFlag (new_cmd ''list'' [''ls''])) []"

definition keystoreImportCmd :: command where
  "keystoreImportCmd = Command (keystorePathFlag (passwordFlag False (chainFlag (new_cmd ''import'' [])))) []"

definition keystoreUseCmd :: command where
  "keystoreUseCmd = Command (addressFlag (chainFlag (new_cmd ''use'' []))) []"

text \<open>\<^verbatim>\<open>change-password\<close> is written but not a command of \<^verbatim>\<open>keystore\<close>.\<close>

definition changePasswordCmd :: command where
  "changePasswordCmd = Command (passwordFlag True (addressFlag (chainFlag (new_cmd ''change-password'' [])))) []"

definition changePassword :: "string \<Rightarrow> string \<Rightarrow> unit result" where
  "changePassword password confirmPassword =
     (if password \<noteq> confirmPassword then Err ''password and confirm password does not match'' else Err ''not implemented'')"

definition keystoreCmd :: command where
  "keystoreCmd = Command ((new_cmd ''keystore'' [''ks''])\<lparr>ci_Args := MaximumNArgs 0, ci_RunE := False\<rparr>)
     [keystoreInitCmd, keystoreNewCmd, keystoreListCmd, keystoreImportCmd, keystoreUseCmd]"

section \<open>The commands \<^verbatim>\<open>contract\<close>\<close>

definition getFeeCmd :: command where
  "getFeeCmd = Command ((add_flag ''network'' None (FlagString '''') (add_flag ''chain'' None (FlagString '''')
     (new_cmd ''get'' [''g''])))\<lparr>ci_Together := [[''chain'', ''network'']]\<rparr>) []"

definition setFeeCmd :: command where
  "setFeeCmd = Command ((add_flag ''res-fee'' None (FlagUint 0) (add_flag ''msg-fee'' None (FlagUint 0)
     (add_flag ''network'' None (FlagString '''') (add_flag ''chain'' None (FlagString '''')
       (new_cmd ''set'' [''s''])))))\<lparr>ci_Together := [[''chain'', ''network'', ''msg-fee'', ''res-fee'']]\<rparr>) []"

definition claimFeeCmd :: command where
  "claimFeeCmd = Command (MarkFlagRequired ''chain'' (add_flag ''chain'' None (FlagString '''')
     (new_cmd ''claim'' [''cm'']))) []"

text \<open>\<^verbatim>\<open>fee\<close> sets \<^verbatim>\<open>PostRunE\<close>, but it is its subcommands that run. \<^verbatim>\<open>deploy\<close> does nothing.\<close>

definition contractCMD :: command where
  "contractCMD = group_of ''contract'' [''c'']
     [Command ((new_cmd ''fee'' [])\<lparr>ci_RunE := False, ci_PostRunE := True\<rparr>) [getFeeCmd, setFeeCmd, claimFeeCmd],
      group_of ''deploy'' [] []]"

section \<open>The root command\<close>

text \<open>The persistent flags, which every command has; \<open>cfg\<close> and \<open>db\<close> are the defaults of the two paths.\<close>

definition persistent_flags :: "string \<Rightarrow> string \<Rightarrow> string \<Rightarrow> flag list" where
  "persistent_flags home cfg db =
     [\<lparr>fl_name = ''home'', fl_short = None, fl_default = FlagString home\<rparr>,
      \<lparr>fl_name = ''debug'', fl_short = Some CHR ''d'', fl_default = FlagBool False\<rparr>,
      \<lparr>fl_name = ''log-format'', fl_short = None, fl_default = FlagString ''auto''\<rparr>,
      \<lparr>fl_name = ''config'', fl_short = None, fl_default = FlagString cfg\<rparr>,
      \<lparr>fl_name = ''db'', fl_short = None, fl_default = FlagString db\<rparr>,
      \<lparr>fl_name = ''profile'', fl_short = None, fl_default = FlagBool False\<rparr>]"

definition NewRootCmd :: command where
  "NewRootCmd = group_of ''centralized-relay'' [''crly'']
     [startCmd, configCmd, chainsCmd, dbCmd, keystoreCmd, contractCMD]"

section \<open>The tree is well formed\<close>

text \<open>The name of a command is the first word of its use.\<close>

definition cmd_Name :: "cmd_info \<Rightarrow> string" where
  "cmd_Name ci = takeWhile (\<lambda>c. c \<noteq> CHR '' '') (ci_Use ci)"

definition called_as :: "command \<Rightarrow> string list" where
  "called_as c = cmd_Name (cmd_of c) # ci_Aliases (cmd_of c)"

definition shorthands :: "flag list \<Rightarrow> char list" where
  "shorthands fs = concat (map (\<lambda>f. case fl_short f of None \<Rightarrow> [] | Some s \<Rightarrow> [s]) fs)"

definition flags_ok :: "flag list \<Rightarrow> cmd_info \<Rightarrow> bool" where
  "flags_ok inherited ci =
     (let fs = inherited @ ci_Flags ci; names = map fl_name (ci_Flags ci)
      in distinct (map fl_name fs) \<and> distinct (shorthands fs) \<and> list_all (\<lambda>n. n \<in> set names) (ci_Required ci) \<and>
         list_all (list_all (\<lambda>n. n \<in> set names)) (ci_Together ci))"

fun well_formed :: "flag list \<Rightarrow> command \<Rightarrow> bool" where
  "well_formed inherited (Command ci subs) =
     (flags_ok inherited ci \<and> distinct (concat (map called_as subs)) \<and> list_all (well_formed inherited) subs)"

text \<open>The names that lead to the commands that run, with whether they have a \<^verbatim>\<open>PostRunE\<close>.\<close>

fun runnable :: "command \<Rightarrow> (string list \<times> bool) list" where
  "runnable (Command ci subs) = (if ci_RunE ci then [([cmd_Name ci], ci_PostRunE ci)] else []) @
     map (\<lambda>(path, post). (cmd_Name ci # path, post)) (concat (map runnable subs))"

lemmas tree_defs = new_cmd_def add_flag_def MarkFlagRequired_def group_of_def db_cmd_def
  flushIntervalFlag_def freshFlag_def yamlFlag_def jsonFlag_def fileFlag_def
  messageMsgIDFlag_def messageHeightFlag_def messageChainFlag_def dbMessageFlagsListFlags_def
  chainFlag_def passwordFlag_def addressFlag_def keystorePathFlag_def

lemmas command_defs = startCmd_def configShowCmd_def configInitCmd_def configCmd_def chainsListCmd_def
  chainsAddCmd_def chainsDeleteCmd_def chainsCmd_def messagesListCmd_def messagesRelayCmd_def messagesRmCmd_def
  revertMessageCmd_def blockInfoCmd_def dbCmd_def keystoreInitCmd_def keystoreNewCmd_def keystoreListCmd_def
  keystoreImportCmd_def keystoreUseCmd_def keystoreCmd_def getFeeCmd_def setFeeCmd_def claimFeeCmd_def
  contractCMD_def NewRootCmd_def

text \<open>The defaults of the flags do not matter for the names.\<close>

lemma well_formed_defaults:
  "well_formed (persistent_flags home cfg db) c = well_formed (persistent_flags home' cfg' db') c"
proof (induction c)
  case (Command ci subs)
  have "flags_ok (persistent_flags home cfg db) ci = flags_ok (persistent_flags home' cfg' db') ci"
    by (simp add: flags_ok_def persistent_flags_def shorthands_def Let_def)
  moreover have "list_all (well_formed (persistent_flags home cfg db)) subs =
      list_all (well_formed (persistent_flags home' cfg' db')) subs"
    using Command by (auto simp: list_all_iff)
  ultimately show ?case by simp
qed

theorem command_tree_is_built:
  "well_formed (persistent_flags home cfg db) NewRootCmd"
proof -
  have "well_formed (persistent_flags '''' '''' '''') NewRootCmd" by code_simp
  with well_formed_defaults show ?thesis by metis
qed

text \<open>
  \<^verbatim>\<open>change-password\<close> cannot be built: the shorthand of \<^verbatim>\<open>chain\<close> is also that of \<^verbatim>\<open>confirm\<close>. It would answer
  with an error for any password.
\<close>

theorem change_password_is_not_built:
  "\<not> well_formed (persistent_flags home cfg db) changePasswordCmd \<and> \<not> is_ok (changePassword password confirmPassword)"
proof -
  have "\<not> well_formed (persistent_flags '''' '''' '''') changePasswordCmd" by code_simp
  with well_formed_defaults have "\<not> well_formed (persistent_flags home cfg db) changePasswordCmd" by metis
  then show ?thesis by (simp add: changePassword_def)
qed

text \<open>No command of \<^verbatim>\<open>contract\<close> closes the socket it opened, and \<^verbatim>\<open>change-password\<close> is not among the commands.\<close>

lemma runnable_commands:
  "list_all (\<lambda>(path, post). post = (path ! 1 = ''database'') \<and> ''change-password'' \<notin> set path) (runnable NewRootCmd) \<and>
   length (runnable NewRootCmd) = 20"
  by code_simp

end
