(* ===== verification/Cmd_Root.thy ===== *)
theory Cmd_Root
  imports Cmd_Props Cmd_Db Cmd_Tree
begin

text \<open>
  Package \<^verbatim>\<open>cmd\<close>: the root command (\<^verbatim>\<open>root.go\<close>) and what is run around a command: the home directory, the
  defaults of the flags, the logger, the loading of the configuration, the exit of the process and its
  signals; and the commands that only print (\<^verbatim>\<open>config show\<close>, \<^verbatim>\<open>chains list\<close>). The library that parses the
  command line gives the flags that are set, in their order.
\<close>

section \<open>The state of the application\<close>

text \<open>\<open>userHomeDir\<close> is the home directory of the user, when it is known.\<close>

definition homePath :: "string \<Rightarrow> error + string \<Rightarrow> fs \<Rightarrow> string" where
  "homePath RELAY_HOME userHomeDir fs =
     (if RELAY_HOME \<noteq> '''' \<and> RELAY_HOME \<in> set (fs_dirs fs) then RELAY_HOME
      else path_Join [case userHomeDir of Inl e \<Rightarrow> ''.'' | Inr home \<Rightarrow> home, ''.centralized-relay''])"

definition defaultDBName :: string where "defaultDBName = ''data''"
definition defaultConfig :: string where "defaultConfig = ''config.yaml''"

record root_state =
  rs_app :: app_state
  rs_dbPath :: string
  rs_debug :: bool
  rs_log_format :: string
  rs_profile :: bool

text \<open>
  Registering a flag stores its default in its variable. The paths of the configuration and of the
  database are made from the home directory at this time.
\<close>

definition register_flags :: "string \<Rightarrow> fs \<Rightarrow> root_state" where
  "register_flags home fs =
     (let a = \<lparr>ap_homePath = home, ap_configPath = '''', ap_config = None, ap_kms = None, ap_fs = fs, ap_admin = []\<rparr>;
          a1 = a\<lparr>ap_configPath := ap_homePath a @ ''/'' @ defaultConfig\<rparr>
      in \<lparr>rs_app = a1, rs_dbPath = path_Join [ap_homePath a, defaultDBName], rs_debug = False,
          rs_log_format = ''auto'', rs_profile = False\<rparr>)"

datatype root_flag =
  HomeFlag string | DebugFlag bool | LogFormatFlag string | ConfigFlag string | DbFlag string | ProfileFlag bool

fun set_flag :: "root_flag \<Rightarrow> root_state \<Rightarrow> root_state" where
  "set_flag (HomeFlag v) s = s\<lparr>rs_app := (rs_app s)\<lparr>ap_homePath := v\<rparr>\<rparr>"
| "set_flag (DebugFlag b) s = s\<lparr>rs_debug := b\<rparr>"
| "set_flag (LogFormatFlag v) s = s\<lparr>rs_log_format := v\<rparr>"
| "set_flag (ConfigFlag v) s = s\<lparr>rs_app := (rs_app s)\<lparr>ap_configPath := v\<rparr>\<rparr>"
| "set_flag (DbFlag v) s = s\<lparr>rs_dbPath := v\<rparr>"
| "set_flag (ProfileFlag b) s = s\<lparr>rs_profile := b\<rparr>"

definition root_app :: "string \<Rightarrow> root_flag list \<Rightarrow> fs \<Rightarrow> root_state" where
  "root_app home flags fs = fold set_flag flags (register_flags home fs)"

section \<open>The logger\<close>

datatype log_encoder = JSONEncoder | ConsoleEncoder | LogfmtEncoder
datatype log_level = DebugLevel | InfoLevel

record logger =
  lg_encoder :: log_encoder
  lg_level :: log_level

text \<open>\<open>quote\<close> is the quoting of the verb \<^verbatim>\<open>%q\<close>.\<close>

definition newRootLogger :: "(string \<Rightarrow> string) \<Rightarrow> string \<Rightarrow> bool \<Rightarrow> error + logger" where
  "newRootLogger quote format debug =
     (let level = (if debug then DebugLevel else InfoLevel)
      in if format = ''json'' then Inr \<lparr>lg_encoder = JSONEncoder, lg_level = level\<rparr>
         else if format = ''auto'' \<or> format = ''console'' then Inr \<lparr>lg_encoder = ConsoleEncoder, lg_level = level\<rparr>
         else if format = ''logfmt'' then Inr \<lparr>lg_encoder = LogfmtEncoder, lg_level = level\<rparr>
         else Inl (''unrecognized log format '' @ quote format))"

section \<open>Running a command\<close>

text \<open>\<^verbatim>\<open>PersistentPreRunE\<close> runs before every command; no other command has one.\<close>

definition PersistentPreRunE ::
    "('n, 'k, 'p, 'w, 'r) cmd_env \<Rightarrow> (string \<Rightarrow> string) \<Rightarrow> root_state \<Rightarrow> unit result \<times> root_state" where
  "PersistentPreRunE E quote s = (case newRootLogger quote (rs_log_format s) (rs_debug s) of
      Inl e \<Rightarrow> (Err e, s)
    | Inr log \<Rightarrow> (let (r, a) = loadConfigFile E (rs_app s) in (r, s\<lparr>rs_app := a\<rparr>)))"

definition run_command ::
    "('n, 'k, 'p, 'w, 'r) cmd_env \<Rightarrow> (string \<Rightarrow> string) \<Rightarrow> (app_state \<Rightarrow> 'a result \<times> app_state)
     \<Rightarrow> root_state \<Rightarrow> 'a result \<times> root_state" where
  "run_command E quote RunE s = (case PersistentPreRunE E quote s of
      (Err e, s1) \<Rightarrow> (Err e, s1)
    | (Panic e, s1) \<Rightarrow> (Panic e, s1)
    | (Ok _, s1) \<Rightarrow> (let (r, a) = RunE (rs_app s1) in (r, s1\<lparr>rs_app := a\<rparr>)))"

text \<open>\<^verbatim>\<open>config show\<close> and \<^verbatim>\<open>chains list\<close>; \<open>json\<close> and \<open>yaml\<close> are the encoders of what they print.\<close>

definition configShow ::
    "(output_wrapper \<Rightarrow> error + bytes) \<Rightarrow> (output_wrapper \<Rightarrow> error + bytes) \<Rightarrow> bool \<Rightarrow> bool
     \<Rightarrow> app_state \<Rightarrow> bytes result \<times> app_state" where
  "configShow json yaml jsn yml a =
     (if \<not> os_Exists (ap_configPath a) (ap_fs a) then
        (if \<not> os_Exists (ap_homePath a) (ap_fs a) then (Err (''home path does not exist: '' @ ap_homePath a), a)
         else (Err (''config does not exist: '' @ ap_configPath a), a))
      else if yml \<and> jsn then (Err (''can'' @ [CHR 0x27] @ ''t pass both --json and --yaml, must pick one''), a)
      else (case ap_config a of
          None \<Rightarrow> (Panic ''nil pointer dereference'', a)
        | Some c \<Rightarrow> (of_sum ((if jsn then json else yaml) (Wrapped c)), a)))"

type_synonym provider_configs = "(string \<times> string \<times> chain_config) list"

datatype listing = Encoded bytes | Lines "(nat \<times> string \<times> string) list"

definition chainsListRun ::
    "(provider_configs \<Rightarrow> error + bytes) \<Rightarrow> (provider_configs \<Rightarrow> error + bytes) \<Rightarrow> bool \<Rightarrow> bool
     \<Rightarrow> app_state \<Rightarrow> listing result \<times> app_state" where
  "chainsListRun json yaml jsn yml a = (case ap_config a of
      None \<Rightarrow> (Panic ''nil pointer dereference'', a)
    | Some c \<Rightarrow>
       let configs = ow_ProviderConfigs (Wrapped c) in
       if yml \<and> jsn then (Err (''can'' @ [CHR 0x27] @ ''t pass both --json and --yaml, must pick one''), a)
       else if yml then (rmap Encoded (of_sum (yaml configs)), a)
       else if jsn then (rmap Encoded (of_sum (json configs)), a)
       else (Ok (Lines (map (\<lambda>(i, nid, typ). (Suc i, nid, typ)) (enumerate 0 (chainsList c)))), a))"

section \<open>The process\<close>

text \<open>
  \<^verbatim>\<open>Execute\<close> prints the error of a command and returns, so the process ends with status 0; a panic ends
  it with status 2.
\<close>

fun exit_status :: "'a result \<Rightarrow> nat" where
  "exit_status (Ok _) = 0"
| "exit_status (Err _) = 0"
| "exit_status (Panic _) = 2"

text \<open>
  The goroutine of \<^verbatim>\<open>Execute\<close>: the first interrupt cancels the command's context, after which a second one, or
  a minute, ends the process. The interrupt of the state \<open>Running\<close> that has none yet has cancelled nothing.
\<close>

datatype process = Running bool | Exited nat

datatype process_event = Interrupt | Minute | Returned "unit result"

fun process_step :: "process \<Rightarrow> process_event \<Rightarrow> process" where
  "process_step (Exited n) ev = Exited n"
| "process_step (Running cancelled) (Returned r) = Exited (exit_status r)"
| "process_step (Running cancelled) Interrupt = (if cancelled then Exited 2 else Running True)"
| "process_step (Running cancelled) Minute = (if cancelled then Exited 2 else Running False)"

definition Execute :: "process_event list \<Rightarrow> process" where
  "Execute evs = foldl process_step (Running False) evs"

lemma Exited_stays [simp]: "foldl process_step (Exited n) evs = Exited n"
  by (induction evs) auto

lemma Execute_running: "foldl process_step (Running cancelled) evs = Running cancelled' \<Longrightarrow>
    length (filter (\<lambda>ev. ev = Interrupt) evs) + (if cancelled then 1 else 0) = (if cancelled' then 1 else (0::nat))"
proof (induction evs arbitrary: cancelled)
  case (Cons ev evs)
  from Cons.prems Cons.IH [of True] Cons.IH [of False] show ?case
    by (cases ev; cases cancelled; cases cancelled') simp_all
qed simp

text \<open>A second interrupt ends the process whatever the command does.\<close>

lemma two_interrupts_end: "2 \<le> length (filter (\<lambda>ev. ev = Interrupt) evs) \<Longrightarrow> \<exists>n. Execute evs = Exited n"
  using Execute_running [of False evs] unfolding Execute_def
  by (cases "foldl process_step (Running False) evs") (auto split: if_splits)

section \<open>Where the files are\<close>

text \<open>Only their own flags move the configuration and the database; the home directory does not.\<close>

lemma set_flags_config:
  "(\<forall>v. ConfigFlag v \<notin> set flags) \<Longrightarrow> ap_configPath (rs_app (fold set_flag flags s)) = ap_configPath (rs_app s)"
proof (induction flags arbitrary: s)
  case (Cons f flags)
  then show ?case by (cases f) auto
qed simp

lemma set_flags_db: "(\<forall>v. DbFlag v \<notin> set flags) \<Longrightarrow> rs_dbPath (fold set_flag flags s) = rs_dbPath s"
proof (induction flags arbitrary: s)
  case (Cons f flags)
  then show ?case by (cases f) auto
qed simp

lemma home_flag_keeps_paths:
  assumes "\<forall>v. ConfigFlag v \<notin> set flags" "\<forall>v. DbFlag v \<notin> set flags"
  shows "ap_configPath (rs_app (root_app home flags fs)) = home @ ''/config.yaml'' \<and>
    rs_dbPath (root_app home flags fs) = path_Join [home, ''data'']"
  using assms by (simp add: root_app_def set_flags_config set_flags_db register_flags_def Let_def defaultConfig_def
    defaultDBName_def)

text \<open>
  So \<^verbatim>\<open>config init --home\<close> makes the directory it is given and writes the configuration to the default home;
  it fails on a machine where that is no directory.
\<close>

lemma root_app_home:
  "rs_app (root_app home [HomeFlag h] fs) = \<lparr>ap_homePath = h, ap_configPath = home @ ''/config.yaml'', ap_config = None,
     ap_kms = None, ap_fs = fs, ap_admin = []\<rparr>"
  by (simp add: root_app_def register_flags_def Let_def defaultConfig_def)

lemma configInit_Ok:
  assumes "configInit E a = (Ok (), a')"
  obtains fs1 fs2 out fs3 where "os_MkdirAll (ap_homePath a) (ap_fs a) = (None, fs1)"
    "\<not> os_Exists (ap_configPath a) fs1" "os_WriteFile (ap_configPath a) '''' fs1 = (None, fs2)"
    "cd_MarshalConfig (ce_codec E) DefaultConfig = Inr out" "os_WriteFile (ap_configPath a) out fs2 = (None, fs3)"
    "a' = a\<lparr>ap_fs := fs3\<rparr>"
  using assms by (auto simp: configInit_def split: prod.splits option.splits if_splits sum.splits)

lemma MkdirAll_files: "os_MkdirAll p fs = (None, fs1) \<Longrightarrow> fs_files fs1 = fs_files fs \<and> fs_fault fs1 = fs_fault fs"
  by (auto simp: os_MkdirAll_def Let_def split: option.splits if_splits)

theorem config_init_ignores_home:
  assumes init: "configInit E (rs_app (root_app home [HomeFlag h] fs)) = (Ok (), a')"
  shows "\<exists>out. cd_MarshalConfig (ce_codec E) DefaultConfig = Inr out \<and> ap_homePath a' = h \<and>
    os_ReadFile (home @ ''/config.yaml'') (ap_fs a') = Inr out \<and>
    (\<forall>p. p \<noteq> home @ ''/config.yaml'' \<longrightarrow> map_of (fs_files (ap_fs a')) p = map_of (fs_files fs) p)"
proof -
  let ?p = "home @ ''/config.yaml''"
  obtain fs1 fs2 out fs3 where m: "os_MkdirAll h fs = (None, fs1)" and w2: "os_WriteFile ?p '''' fs1 = (None, fs2)"
    and out: "cd_MarshalConfig (ce_codec E) DefaultConfig = Inr out" and w3: "os_WriteFile ?p out fs2 = (None, fs3)"
    and a': "a' = (rs_app (root_app home [HomeFlag h] fs))\<lparr>ap_fs := fs3\<rparr>"
    using init by (rule configInit_Ok) (auto simp: root_app_home)
  note f = MkdirAll_files [OF m] os_WriteFile_None [OF w2] os_WriteFile_None [OF w3]
  have "os_ReadFile ?p fs3 = Inr out" using f by (auto simp: os_ReadFile_def map_of_update)
  moreover have "map_of (fs_files fs3) p = map_of (fs_files fs) p" if "p \<noteq> ?p" for p
    using f that by (auto simp: map_of_update)
  ultimately show ?thesis using out a' by (auto simp: root_app_home)
qed

theorem config_init_needs_default_home:
  assumes "fs_fault fs = (\<lambda>p. None)" "\<not> os_Exists (home @ ''/config.yaml'') (snd (os_MkdirAll h fs))"
    "fst (os_MkdirAll h fs) = None" "path_Dir (home @ ''/config.yaml'') \<notin> set (fs_dirs (snd (os_MkdirAll h fs)))"
  shows "fst (configInit E (rs_app (root_app home [HomeFlag h] fs))) = Err (no_file ''open'' (home @ ''/config.yaml''))"
proof -
  obtain fs1 where m: "os_MkdirAll h fs = (None, fs1)" using assms(3) by (cases "os_MkdirAll h fs") auto
  with assms have "os_WriteFile (home @ ''/config.yaml'') d fs1 = (Some (no_file ''open'' (home @ ''/config.yaml'')), fs1)" for d
    by (auto simp: os_WriteFile_def os_Exists_def dest: MkdirAll_files)
  with assms m show ?thesis by (simp add: configInit_def root_app_home)
qed

section \<open>Before and after \<^verbatim>\<open>config init\<close>\<close>

text \<open>
  Without a configuration file \<^verbatim>\<open>config show\<close> answers with an error and \<^verbatim>\<open>chains list\<close> panics. After
  \<^verbatim>\<open>config init\<close>, when the file that was written decodes to what it was encoded from, every command starts
  with the default configuration.
\<close>

lemma no_config:
  assumes "\<not> os_Exists (ap_configPath (rs_app s)) (ap_fs (rs_app s))" "ap_config (rs_app s) = None"
    "newRootLogger quote (rs_log_format s) (rs_debug s) = Inr log"
  shows "\<exists>e. fst (run_command E quote (configShow json yaml jsn yml) s) = Err e"
    and "fst (run_command E quote (chainsListRun json' yaml' jsn yml) s) = Panic ''nil pointer dereference''"
  using assms by (auto simp: run_command_def PersistentPreRunE_def loadConfigFile_def configShow_def chainsListRun_def)

lemma init_then_run:
  assumes init: "configInit E a = (Ok (), a1)" and out: "cd_MarshalConfig (ce_codec E) DefaultConfig = Inr out"
    and decoded: "cd_Unmarshal (ce_codec E) out = Inr \<lparr>iw_Global = Some newDefaultGlobalConfig, iw_ProviderConfigs = []\<rparr>"
    and log: "newRootLogger quote (rs_log_format s) (rs_debug s) = Inr log"
  shows "run_command E quote RunE (s\<lparr>rs_app := a1\<rparr>) =
    (let (r, a2) = RunE (a1\<lparr>ap_config := Some DefaultConfig\<rparr>) in (r, s\<lparr>rs_app := a2\<rparr>))"
proof -
  obtain fs2 fs3 where w: "os_WriteFile (ap_configPath a) out fs2 = (None, fs3)" and a1: "a1 = a\<lparr>ap_fs := fs3\<rparr>"
    using init out by (elim configInit_Ok) auto
  note f = os_WriteFile_None [OF w]
  have "os_ReadFile (ap_configPath a1) (ap_fs a1) = Inr out" "os_Exists (ap_configPath a1) (ap_fs a1)"
    using f a1 by (auto simp: os_ReadFile_def os_Exists_def map_of_update)
  then have "loadConfigFile E a1 = (Ok (), a1\<lparr>ap_config := Some DefaultConfig\<rparr>)"
    using decoded by (simp add: loadConfigFile_def decode_wrapper_def DefaultConfig_def a1)
  with log show ?thesis by (simp add: run_command_def PersistentPreRunE_def split: prod.splits)
qed

end
