(* ===== verification/Cmd_Db_Props.thy ===== *)
theory Cmd_Db_Props
  imports Cmd_Db Socket_Props
begin

text \<open>
  Properties of the commands that talk to a relayer: what a failed command leaves behind, the page of
  a listing, and a relay request without a running relayer.
\<close>

section \<open>A machine for the witnesses\<close>

definition ex_db_env :: "(memdb, json, sjson) db_env" where
  "ex_db_env = \<lparr>de_store = mem_store, de_codec = mem_codec, de_sock = mem_sock, de_env = ex_env,
     de_chains = map (\<lambda>(nid, ch). (nid, the ch)) ex_chains, de_open = \<lambda>used. if used then Some ''locked'' else None\<rparr>"

definition ex_machine :: "memdb machine" where
  "ex_machine = \<lparr>mc_server = None, mc_db = r_db ex_seen, mc_file = False\<rparr>"

lemma ex_getRelayer: "\<exists>rly rt. getRelayer ex_db_env ex_machine = Ok rly \<and> FindChainRuntime ''a'' rly = Ok rt"
proof -
  have "(case getRelayer ex_db_env ex_machine of Ok rly \<Rightarrow> (case FindChainRuntime ''a'' rly of Ok rt \<Rightarrow> True | _ \<Rightarrow> False) | _ \<Rightarrow> False)"
    by code_simp
  then show ?thesis by (auto split: result.splits)
qed

section \<open>The socket's file\<close>

text \<open>
  C32. A command that fails while it serves the socket itself leaves the socket's file behind, and so
  does every command about fees, even when it succeeds. From then on no command and no start
  succeeds on this machine, whatever comes in between.
\<close>
theorem failed_command_blocks_socket:
  assumes "mc_server mc = None" "\<not> mc_file mc" "getRelayer D mc = Ok rly"
    and "db_command D closes ev req T mc = (r, mc')" "(\<forall>p. r \<noteq> Ok p) \<or> \<not> closes"
  shows "stuck mc' \<and>
    (\<forall>closes ev req T. (\<forall>p. fst (db_command D closes ev req T mc') \<noteq> Ok p) \<and> snd (db_command D closes ev req T mc') = mc') \<and>
    (\<forall>fresh. fst (cmd_start D fresh mc') \<noteq> Ok () \<and> stuck (snd (cmd_start D fresh mc')))"
proof -
  let ?mc1 = "mc\<lparr>mc_server := Some rly, mc_file := True\<rparr>"
  obtain r2 mc2 where sc: "serve_call D True ev req T rly ?mc1 = (r2, mc2)" by fastforce
  then have f: "mc_file mc2"
    by (auto simp: serve_call_def process_exit_def Let_def split: sum.splits result.splits prod.splits)
  have "getSocket D mc = (Ok rly, True, ?mc1)" using assms(1-3) by (simp add: getSocket_own)
  with assms(4,5) sc have "mc' = process_exit True mc2"
    by (cases r2) (auto simp: db_command_def)
  with f have "stuck mc'" by (simp add: stuck_def process_exit_def split: option.split)
  with stuck_command stuck_start show ?thesis by blast
qed

theorem failed_command_blocks_socket_witness:
  "\<exists>r mc'. messagesRm ex_db_env ''zz'' 9 ex_machine = (r, mc') \<and> stuck mc' \<and>
    fst (cmd_start ex_db_env False mc') \<noteq> Ok ()"
proof -
  let ?r = "messagesRm ex_db_env ''zz'' 9 ex_machine"
  obtain rly where rly: "getRelayer ex_db_env ex_machine = Ok rly" using ex_getRelayer by blast
  have "(case fst ?r of Ok p \<Rightarrow> False | _ \<Rightarrow> True)" by code_simp
  then have "\<forall>p. fst ?r \<noteq> Ok p" by (auto split: result.splits)
  moreover have "mc_server ex_machine = None" "\<not> mc_file ex_machine" by (simp_all add: ex_machine_def)
  ultimately show ?thesis
    using failed_command_blocks_socket [OF _ _ rly, of True EventMessageRemove
        "ReqMessageRemove ''zz'' (Some (uint (9 :: u64)))" TResMessageRemove "fst ?r" "snd ?r"]
    by (intro exI [of _ "fst ?r"] exI [of _ "snd ?r"]) (simp add: messagesRm_def)
qed

section \<open>Requests the server answers alike\<close>

context sock_laws
begin

lemma serve_cong:
  assumes "json_payload req1" "json_payload req2" "ascii ev"
    and "\<And>data1 data2. sj_Unmarshal J (type_of req1) data1 = Inr req1 \<Longrightarrow> sj_Unmarshal J (type_of req2) data2 = Inr req2 \<Longrightarrow>
      Server_parseEvent S C J E ev data1 s = Server_parseEvent S C J E ev data2 s"
  shows "\<exists>w1 w2. Client_send J ev req1 = Inr w1 \<and> Client_send J ev req2 = Inr w2 \<and>
    Server_serve S C J E w1 s = Server_serve S C J E w2 s"
proof -
  obtain w1 d1 where 1: "Client_send J ev req1 = Inr w1" "sj_Unmarshal J TMessage w1 = Inr (SockMessage ev d1)"
    "sj_Unmarshal J (type_of req1) d1 = Inr req1" using send_ok [OF assms(1,3)] by blast
  obtain w2 d2 where 2: "Client_send J ev req2 = Inr w2" "sj_Unmarshal J TMessage w2 = Inr (SockMessage ev d2)"
    "sj_Unmarshal J (type_of req2) d2 = Inr req2" using send_ok [OF assms(2,3)] by blast
  have "Server_serve S C J E w1 s = Server_serve S C J E w2 s"
    using 1 2 assms(4) [OF 1(3) 2(3)] by (simp add: Server_serve_def Server_parse_def)
  with 1 2 show ?thesis by blast
qed

lemma command_cong:
  assumes "J = de_sock D" "json_payload req1" "json_payload req2" "ascii ev"
    and "\<And>data1 data2 s. sj_Unmarshal J (type_of req1) data1 = Inr req1 \<Longrightarrow> sj_Unmarshal J (type_of req2) data2 = Inr req2 \<Longrightarrow>
      Server_parseEvent (de_store D) (de_codec D) J (de_env D) ev data1 s =
      Server_parseEvent (de_store D) (de_codec D) J (de_env D) ev data2 s"
  shows "db_command D closes ev req1 T mc = db_command D closes ev req2 T mc"
proof -
  have sc: "serve_call D own ev req1 T s mc1 = serve_call D own ev req2 T s mc1" for own s mc1
  proof -
    let ?conn = "conn_to (de_store D) (de_codec D) J (de_env D) s"
    obtain w1 w2 where w: "Client_send J ev req1 = Inr w1" "Client_send J ev req2 = Inr w2"
      "Server_serve (de_store D) (de_codec D) J (de_env D) w1 s = Server_serve (de_store D) (de_codec D) J (de_env D) w2 s"
      using serve_cong [OF assms(2-4), of "de_store D" "de_codec D" "de_env D" s] assms(5) by blast
    then have c: "Client_call J ?conn ev req1 T = Client_call J ?conn ev req2 T"
      by (simp add: Client_call_def conn_to_def)
    show ?thesis unfolding serve_call_def Let_def assms(1) [symmetric] w c by (simp only: sum.case w(3))
  qed
  show ?thesis unfolding db_command_def sc by (rule refl)
qed

end

text \<open>The page does not matter: the store does not look at the offset.\<close>

lemma page_number_is_ignored:
  assumes "sock_laws (de_sock D)" "ascii chain"
  shows "messagesList D chain page limit mc = messagesList D chain 1 limit mc"
proof -
  have "GetMessages_at (de_store D) (de_codec D) chain (Some (WithPage page limit NewPagination)) d =
      GetMessages_at (de_store D) (de_codec D) chain (Some (WithPage 1 limit NewPagination)) d" for d
    by (simp add: GetMessages_at_def GetMessages_def WithPage_def Let_def)
  then show ?thesis
    unfolding messagesList_def using assms(2)
    by (intro sock_laws.command_cong [OF assms(1) refl])
      (simp_all add: Server_parseEvent_def with_req_def socket_event_defs ascii_def)
qed

section \<open>Relaying without a relayer\<close>

lemma on_RelayMessage_stored:
  assumes "message_db S view C" "FindChainRuntime chain s = Ok rt"
    and "stored_msg C (view (r_db s)) ''message'' chain sn = Some w"
  shows "\<exists>s'. on_RelayMessage S C J E (ReqRelayMessage chain sn 0) s = (reply J EventRelayMessage (ResRelayMessage w), s') \<and>
    r_db s' = r_db s"
proof -
  let ?key = "request_key chain sn s"
  have "GetMessage_db S C ''message'' ?key (r_db s) = Inr w"
    using assms(3) message_db.GetMessage_iff [OF assms(1), of "''message''" ?key "r_db s" w]
    by (simp add: request_key_def NewMessageKey_def)
  with assms(2) show ?thesis
    by (simp add: prefixMessageStore_def case_prod_unfold Let_def upd_cache_def upd_chain_def del: add_stored.simps)
qed

text \<open>
  Without a running relayer, \<^verbatim>\<open>messages relay\<close> on a stored message prints the message and
  changes nothing: the message is put in the cache of a relayer that is never started and ends with
  the command.
\<close>
theorem relay_command_does_nothing:
  assumes "message_db (de_store D) view (de_codec D)" "sock_laws (de_sock D)"
    and "mc_server mc = None" "\<not> mc_file mc" "getRelayer D mc = Ok rly" "FindChainRuntime chain rly = Ok rt"
    and "stored_msg (de_codec D) (view (mc_db mc)) ''message'' chain (Some (uint sn)) = Some w"
    and "ascii chain" "json_route w"
  shows "messagesRelay D chain 0 sn mc = (Ok (ResRelayMessage w), mc)"
proof -
  let ?J = "de_sock D" and ?S = "de_store D" and ?C = "de_codec D" and ?E = "de_env D"
  let ?req = "ReqRelayMessage chain (Some (uint sn)) 0 :: 'c payload" and ?res = "ResRelayMessage w :: 'c payload"
  have db: "r_db rly = mc_db mc" by (rule getRelayer_db [OF assms(5)])
  obtain s' where on: "on_RelayMessage ?S ?C ?J ?E ?req rly = (reply ?J EventRelayMessage ?res, s')" "r_db s' = mc_db mc"
    using on_RelayMessage_stored [OF assms(1,6), of "Some (uint sn)" w ?J ?E] assms(7) db by auto
  obtain out where out: "reply ?J EventRelayMessage ?res = Ok (SockMessage EventRelayMessage out)"
    "sj_Unmarshal ?J TResRelayMessage out = Inr ?res"
    using sock_laws.reply_ok [OF assms(2), of ?res EventRelayMessage] assms(9) by auto
  have pe: "Server_parseEvent ?S ?C ?J ?E EventRelayMessage data rly = (Ok (SockMessage EventRelayMessage out), s')"
    if "sj_Unmarshal ?J TReqRelayMessage data = Inr ?req" for data
    using that on(1) out(1) by (simp add: Server_parseEvent_def with_req_def socket_event_defs del: on_RelayMessage.simps)
  have req: "json_payload ?req" using assms(8) by simp
  have call: "Client_call ?J (conn_to ?S ?C ?J ?E rly) EventRelayMessage ?req TResRelayMessage = Inr ?res"
  proof -
    have "Client_call ?J (conn_to ?S ?C ?J ?E rly) EventRelayMessage ?req TResRelayMessage =
      (case Client_parseEvent ?J EventRelayMessage out of Inl e \<Rightarrow> Inl e
       | Inr p \<Rightarrow> if type_of p = TResRelayMessage then Inr p else Inl (ErrInvalidResponse None))"
      by (rule sock_laws.call_answer [OF assms(2) req]) (use pe in auto)
    with out(2) show ?thesis by (simp add: Client_parseEvent_def socket_event_defs)
  qed
  obtain bytes data where b: "Client_send ?J EventRelayMessage ?req = Inr bytes"
    "sj_Unmarshal ?J TMessage bytes = Inr (SockMessage EventRelayMessage data)" "sj_Unmarshal ?J TReqRelayMessage data = Inr ?req"
    using sock_laws.send_ok [OF assms(2) req, of EventRelayMessage] by auto
  obtain m where m: "of_sum (sj_Marshal ?J (SockMessage EventRelayMessage out)) = Ok m"
    using sock_laws.read_answer [OF assms(2), of EventRelayMessage out] by auto
  have "Server_serve ?S ?C ?J ?E bytes rly = (Ok m, s')"
    using b(2) pe [OF b(3)] m by (simp add: Server_serve_def Server_parse_def)
  with b(1) call have "serve_call D True EventRelayMessage ?req TResRelayMessage rly mc1 =
      (Ok ?res, mc1\<lparr>mc_server := Some s'\<rparr>)" for mc1
    by (simp add: serve_call_def of_sum_def)
  with getSocket_own [OF assms(3) _ assms(5)] assms(3,4) on(2) show ?thesis
    by (simp add: messagesRelay_def db_command_def closeSocket_def process_exit_def)
qed

theorem relay_command_does_nothing_witness:
  "messagesRelay ex_db_env ''a'' 0 1 ex_machine =
     (Ok (ResRelayMessage (NewRouteMessage (ex_msg ''a'' ''b'' 1))), ex_machine)"
proof -
  let ?w = "NewRouteMessage (ex_msg ''a'' ''b'' 1)"
  obtain rly rt where rly: "getRelayer ex_db_env ex_machine = Ok rly" "FindChainRuntime ''a'' rly = Ok rt"
    using ex_getRelayer by blast
  have st: "stored_msg mem_codec (map_of (mc_db ex_machine)) ''message'' ''a'' (Some 1) = Some ?w" by code_simp
  have f: "mc_server ex_machine = None" "\<not> mc_file ex_machine" "ascii ''a''" "json_route ?w" by code_simp+
  have D: "de_store ex_db_env = mem_store" "de_codec ex_db_env = mem_codec" "de_sock ex_db_env = mem_sock"
    by (simp_all add: ex_db_env_def)
  show ?thesis
    by (rule relay_command_does_nothing [OF _ _ f(1,2) rly _ f(3,4), where view = map_of])
      (simp_all add: D mem.message_db_axioms memsock.sock_laws_axioms st)
qed

end
