(* ===== verification/Coin_Text.thy ===== *)
theory Coin_Text
  imports Relay_Types Complex_Main
begin

text \<open>
  \<^verbatim>\<open>Coin.Calculate\<close> of \<^verbatim>\<open>relayer/types/types.go\<close>: the text of a balance in units of ten to the eighteenth. The
  quotient is a \<^verbatim>\<open>big.Float\<close> of 64 bits, then a \<^verbatim>\<open>float64\<close> of 53, then a text with eighteen decimals; every
  step rounds to the nearest value, a tie to the even one. A number is a fraction of two integers here.
\<close>

section \<open>Rounding\<close>

definition round_half_even :: "int \<Rightarrow> int \<Rightarrow> int" where
  "round_half_even n d = (let q = n div d; r = n mod d in if 2 * r < d \<or> 2 * r = d \<and> even q then q else q + 1)"

text \<open>
  The nearest number with \<open>p\<close> significant bits, for a fraction below \<open>2 ^ (p - 1)\<close>: \<open>k\<close> is the number of
  binary places that gives \<open>p\<close> bits. The quotients of the code need less than 128 places.
\<close>

definition places :: "nat \<Rightarrow> int \<Rightarrow> int \<Rightarrow> nat option" where
  "places p n d = find (\<lambda>k. d * 2 ^ (p - 1) \<le> n * 2 ^ k) [0..<128]"

definition round_bits :: "nat \<Rightarrow> int \<times> int \<Rightarrow> int \<times> int" where
  "round_bits p x = (case places p (fst x) (snd x) of
      None \<Rightarrow> x | Some k \<Rightarrow> (round_half_even (fst x * 2 ^ k) (snd x), 2 ^ k))"

text \<open>The value in units of the last of eighteen decimals.\<close>

definition float_units :: "u64 \<Rightarrow> int" where
  "float_units amount =
     (if amount = 0 then 0
      else let (n, d) = round_bits 53 (round_bits 64 (uint amount, 10 ^ 18)) in round_half_even (n * 10 ^ 18) d)"

definition fixed18 :: "int \<Rightarrow> string" where
  "fixed18 u = (let digits = nat_str 10 (nat (u mod 10 ^ 18))
     in int_str 10 (u div 10 ^ 18) @ ''.'' @ replicate (18 - length digits) (CHR ''0'') @ digits)"

definition Coin_Calculate :: "coin \<Rightarrow> string" where
  "Coin_Calculate c = fixed18 (float_units (co_amount c)) @ '' '' @ co_denom c"

section \<open>When the text is exact\<close>

lemma round_half_even_error:
  assumes "0 < d"
  shows "\<bar>real_of_int (round_half_even n d) - of_int n / of_int d\<bar> \<le> 1 / 2"
proof -
  define q r where "q = n div d" and "r = n mod d"
  have "real_of_int n = of_int q * of_int d + of_int r"
    unfolding q_def r_def by (metis div_mult_mod_eq of_int_add of_int_mult)
  with assms have n: "real_of_int n / of_int d = of_int q + of_int r / of_int d" by (simp add: add_divide_distrib)
  have r: "0 \<le> real_of_int r / of_int d" "real_of_int r / of_int d \<le> 1"
    using assms by (simp_all add: r_def order.strict_implies_order)
  have "real_of_int r / of_int d \<le> 1 / 2" if "2 * r \<le> d"
  proof -
    have "real_of_int (2 * r) \<le> of_int d" using that by (simp only: of_int_le_iff)
    with assms show ?thesis by (simp add: pos_divide_le_eq)
  qed
  moreover have "1 / 2 \<le> real_of_int r / of_int d" if "d \<le> 2 * r"
  proof -
    have "real_of_int d \<le> of_int (2 * r)" using that by (simp only: of_int_le_iff)
    with assms show ?thesis by (simp add: pos_le_divide_eq)
  qed
  moreover obtain t where t: "t = real_of_int r / of_int d" by blast
  ultimately show ?thesis
    using r unfolding n round_half_even_def Let_def q_def [symmetric] r_def [symmetric] t [symmetric]
    by (cases "2 * r < d \<or> 2 * r = d \<and> even q") (simp_all, linarith+)
qed

lemma round_half_even_exact: "0 < d \<Longrightarrow> \<bar>real_of_int n / of_int d - of_int m\<bar> < 1 / 2 \<Longrightarrow> round_half_even n d = m"
  using round_half_even_error [of d n] by linarith

text \<open>Rounding to \<open>p\<close> bits changes a number by at most a part in \<open>2 ^ p\<close>.\<close>

lemma round_bits_error:
  assumes "0 < d" "0 < n" "0 < p" "places p n d \<noteq> None"
  shows "\<exists>n' d'. round_bits p (n, d) = (n', d') \<and> 0 < d' \<and> 0 < n' \<and>
    \<bar>real_of_int n' / of_int d' - of_int n / of_int d\<bar> \<le> of_int n / of_int d / 2 ^ p"
proof -
  obtain k where k: "places p n d = Some k" and le: "d * 2 ^ (p - 1) \<le> n * 2 ^ k"
    using assms(4) unfolding places_def by (auto simp: find_Some_iff)
  let ?x = "real_of_int n / of_int d" and ?m = "round_half_even (n * 2 ^ k) d"
  have x: "2 ^ (p - 1) \<le> ?x * 2 ^ k"
  proof -
    have "real_of_int (d * 2 ^ (p - 1)) \<le> of_int (n * 2 ^ k)" using le by (simp only: of_int_le_iff)
    with assms(1) show ?thesis by (simp add: field_simps)
  qed
  have err: "\<bar>real_of_int ?m - ?x * 2 ^ k\<bar> \<le> 1 / 2" using round_half_even_error [OF assms(1), of "n * 2 ^ k"] by simp
  have "(1::real) \<le> 2 ^ (p - 1)" by simp
  with err x have pos: "0 < ?m" by linarith
  have "(2::real) ^ p = 2 * 2 ^ (p - 1)" using assms(3) by (cases p) simp_all
  moreover have "1 \<le> ?x * 2 ^ k / 2 ^ (p - 1)" using x by (subst le_divide_eq_1_pos) simp_all
  ultimately have "1 / 2 \<le> ?x * 2 ^ k / 2 ^ p" by simp
  with err have "\<bar>real_of_int ?m - ?x * 2 ^ k\<bar> \<le> ?x * 2 ^ k / 2 ^ p" by linarith
  moreover have "real_of_int ?m / 2 ^ k - ?x = (of_int ?m - ?x * 2 ^ k) / 2 ^ k" by (simp add: field_simps)
  ultimately have "\<bar>real_of_int ?m / 2 ^ k - ?x\<bar> \<le> ?x / 2 ^ p"
    by (simp add: abs_divide divide_le_eq mult.commute mult.left_commute)
  with k pos show ?thesis by (auto simp: round_bits_def)
qed

lemma Some_places: "d * 2 ^ (p - 1) \<le> n * 2 ^ 127 \<Longrightarrow> places p n d \<noteq> None"
proof
  assume "d * 2 ^ (p - 1) \<le> n * 2 ^ 127" "places p n d = None"
  moreover from this(2) have "\<forall>k < 128. \<not> d * 2 ^ (p - 1) \<le> n * 2 ^ k" unfolding places_def find_None_iff by simp
  from this [rule_format, of 127] have "\<not> d * 2 ^ (p - 1) \<le> n * 2 ^ 127" by simp
  ultimately show False by simp
qed

text \<open>
  Two roundings change a balance by less than half a unit of the last decimal up to \<open>2 ^ 51\<close> units, so
  the text is the balance. Above, it need not be: a unit more than a whole coin is not seen.
\<close>

theorem balance_text_exact:
  assumes "uint a \<le> 2 ^ 51"
  shows "float_units a = uint a"
proof (cases "a = 0")
  case True
  then show ?thesis by (simp add: float_units_def)
next
  case False
  define b where "b = uint a"
  have a: "0 < b" "b \<le> 2 ^ 51" using False assms by (simp_all add: b_def uint_0_iff order_less_le)
  let ?D = "10 ^ 18 :: int" and ?x = "real_of_int b / 10 ^ 18"
  have "?D * 2 ^ (64 - 1) \<le> b * 2 ^ 127" using a by simp
  then obtain n1 d1 where r1: "round_bits 64 (b, ?D) = (n1, d1)" "0 < d1" "0 < n1"
    and e1: "\<bar>real_of_int n1 / of_int d1 - ?x\<bar> \<le> ?x / 2 ^ 64"
    using round_bits_error [of ?D b 64] a Some_places [of ?D 64 b] by auto
  obtain y where y: "y = real_of_int n1 / of_int d1" by blast
  have x: "10 ^ 18 * ?x \<le> 2 ^ 51" "0 < ?x" using a by simp_all
  have "places 53 n1 d1 \<noteq> None"
  proof (rule Some_places)
    have "1 / 10 ^ 18 \<le> ?x" using a by (simp add: divide_le_eq)
    moreover have "?x - ?x / 2 ^ 64 \<le> y" using e1 [folded y] by linarith
    ultimately have "1 / 10 ^ 19 \<le> y" by (simp add: divide_le_eq)
    then have "real_of_int d1 \<le> 10 ^ 19 * of_int n1" using r1(2) y by (simp add: field_simps)
    then have "d1 \<le> 10 ^ 19 * n1" by (metis of_int_le_iff of_int_mult of_int_numeral of_int_power)
    then show "d1 * 2 ^ (53 - 1) \<le> n1 * 2 ^ 127" using r1(3) by simp
  qed
  then obtain n2 d2 where r2: "round_bits 53 (n1, d1) = (n2, d2)" "0 < d2"
    and e2: "\<bar>real_of_int n2 / of_int d2 - y\<bar> \<le> y / 2 ^ 53"
    using round_bits_error [of d1 n1 53] r1 y by auto
  obtain z where z: "z = real_of_int n2 / of_int d2" by blast
  obtain v where v: "v = ?x" by blast
  have "\<bar>y - v\<bar> \<le> v / 18446744073709551616" "\<bar>z - y\<bar> \<le> y / 9007199254740992"
    "1000000000000000000 * v \<le> 2251799813685248" "0 < v"
    using e1 [folded y v] e2 [folded z] x [folded v] by simp_all
  then have "\<bar>1000000000000000000 * z - 1000000000000000000 * v\<bar> < 1 / 2" by linarith
  then have "\<bar>10 ^ 18 * z - 10 ^ 18 * ?x\<bar> < 1 / 2" by (simp add: v)
  then have "\<bar>real_of_int (n2 * 10 ^ 18) / of_int d2 - of_int b\<bar> < 1 / 2" by (simp add: z mult.commute)
  then have "round_half_even (n2 * 10 ^ 18) d2 = b" by (rule round_half_even_exact [OF r2(2)])
  with False r1(1) r2(1) show ?thesis by (simp add: float_units_def b_def)
qed

lemma balance_text_inexact:
  "Coin_Calculate \<lparr>co_denom = ''eth'', co_amount = 10 ^ 18 + 1\<rparr> = Coin_Calculate \<lparr>co_denom = ''eth'', co_amount = 10 ^ 18\<rparr>"
  "Coin_Calculate \<lparr>co_denom = ''eth'', co_amount = 10 ^ 18\<rparr> = ''1.000000000000000000 eth''"
  by code_simp+

end
