(* ===== verification/Sorter.thy ===== *)
theory Sorter
  imports "HOL-Library.Multiset"
begin

text \<open>
  \<^verbatim>\<open>utils/sorter/sort.go\<close>: a slice with its order, as \<^verbatim>\<open>sort.Interface\<close> wants it. The standard library's
  \<^verbatim>\<open>sort.Sort\<close> works on a value through \<^verbatim>\<open>Len\<close>, \<^verbatim>\<open>Less\<close> and \<^verbatim>\<open>Swap\<close> alone; a slice of at most twelve items
  it sorts by insertion, in the order of steps written out here, a longer one by its pattern-defeating
  quicksort, which is a parameter.
\<close>

record 'a generic_sorter =
  gs_Items :: "'a list"
  gs_By :: "'a \<Rightarrow> 'a \<Rightarrow> bool"

text \<open>An index out of range is a panic: \<open>None\<close>.\<close>

definition Sorter_Len :: "'a generic_sorter \<Rightarrow> nat" where
  "Sorter_Len gs = length (gs_Items gs)"

definition Sorter_Swap :: "nat \<Rightarrow> nat \<Rightarrow> 'a generic_sorter \<Rightarrow> 'a generic_sorter option" where
  "Sorter_Swap i j gs =
     (if i < Sorter_Len gs \<and> j < Sorter_Len gs
      then Some (gs\<lparr>gs_Items := (gs_Items gs)[i := gs_Items gs ! j, j := gs_Items gs ! i]\<rparr>)
      else None)"

definition Sorter_Less :: "nat \<Rightarrow> nat \<Rightarrow> 'a generic_sorter \<Rightarrow> bool option" where
  "Sorter_Less i j gs =
     (if i < Sorter_Len gs \<and> j < Sorter_Len gs then Some (gs_By gs (gs_Items gs ! i) (gs_Items gs ! j)) else None)"

text \<open>Insertion: the item at \<open>j\<close> moves to the front while it is less than the one before it.\<close>

fun insertion_step :: "nat \<Rightarrow> 'a generic_sorter \<Rightarrow> 'a generic_sorter option" where
  "insertion_step 0 gs = Some gs"
| "insertion_step (Suc j) gs = (case Sorter_Less (Suc j) j gs of
      None \<Rightarrow> None
    | Some False \<Rightarrow> Some gs
    | Some True \<Rightarrow> Option.bind (Sorter_Swap (Suc j) j gs) (insertion_step j))"

fun insertion_sort :: "nat list \<Rightarrow> 'a generic_sorter \<Rightarrow> 'a generic_sorter option" where
  "insertion_sort [] gs = Some gs"
| "insertion_sort (i # is) gs = Option.bind (insertion_step i gs) (insertion_sort is)"

definition sort_Sort ::
    "('a generic_sorter \<Rightarrow> 'a generic_sorter option) \<Rightarrow> 'a generic_sorter \<Rightarrow> 'a generic_sorter option" where
  "sort_Sort pdq gs =
     (if Sorter_Len gs \<le> 12 then insertion_sort [1..<Sorter_Len gs] gs else pdq gs)"

text \<open>The slice is sorted in place: what is left in it is the result.\<close>

definition Sorter_Sort ::
    "('a generic_sorter \<Rightarrow> 'a generic_sorter option) \<Rightarrow> 'a list \<Rightarrow> ('a \<Rightarrow> 'a \<Rightarrow> bool) \<Rightarrow> 'a list option" where
  "Sorter_Sort pdq items by = map_option gs_Items (sort_Sort pdq \<lparr>gs_Items = items, gs_By = by\<rparr>)"

section \<open>Lemmas\<close>

text \<open>
  One insertion into a slice whose first \<open>i\<close> items are in order: no panic, the same items, and the
  first \<open>i + 1\<close> in order. \<open>hole\<close> is the state of the inner loop: all but the moving item are in order, and
  it is less than those it has passed.
\<close>

definition before :: "('a \<Rightarrow> 'a \<Rightarrow> bool) \<Rightarrow> 'a \<Rightarrow> 'a \<Rightarrow> bool" where
  "before lt x y = (\<not> lt y x)"

definition hole :: "('a \<Rightarrow> 'a \<Rightarrow> bool) \<Rightarrow> nat \<Rightarrow> nat \<Rightarrow> 'a list \<Rightarrow> bool" where
  "hole lt i j xs = (\<forall>a b. a < b \<and> b \<le> i \<and> b \<noteq> j \<longrightarrow> before lt (xs ! a) (xs ! b))"

definition ordered :: "('a \<Rightarrow> 'a \<Rightarrow> bool) \<Rightarrow> nat \<Rightarrow> 'a list \<Rightarrow> bool" where
  "ordered lt n xs = (\<forall>a b. a < b \<and> b < n \<longrightarrow> before lt (xs ! a) (xs ! b))"

lemma hole_done:
  assumes "hole lt i j xs" and "\<forall>a < j. before lt (xs ! a) (xs ! j)"
  shows "ordered lt (Suc i) xs"
  using assms by (auto simp: hole_def ordered_def less_Suc_eq_le)

lemma hole_swap:
  assumes h: "hole lt i (Suc j) xs" and lt: "lt (xs ! Suc j) (xs ! j)" and asym: "asymp lt"
    and len: "i < length xs" "Suc j \<le> i"
  shows "hole lt i j (xs[Suc j := xs ! j, j := xs ! Suc j])"
proof -
  have "before lt (xs ! Suc j) (xs ! j)" using lt asym by (auto simp: before_def dest: asympD)
  moreover have "before lt (xs ! a) (xs ! b)" if "a < b" "b \<le> i" "b \<noteq> Suc j" for a b
    using h that by (auto simp: hole_def)
  ultimately show ?thesis using len by (auto simp: hole_def nth_list_update)
qed

lemma insertion_step_ordered:
  assumes "asymp lt" "transp (before lt)" "i < length (gs_Items gs)" "j \<le> i" "hole lt i j (gs_Items gs)" "gs_By gs = lt"
  shows "\<exists>gs'. insertion_step j gs = Some gs' \<and> gs_By gs' = lt \<and> length (gs_Items gs') = length (gs_Items gs) \<and>
    mset (gs_Items gs') = mset (gs_Items gs) \<and> ordered lt (Suc i) (gs_Items gs')"
  using assms
proof (induction j arbitrary: gs)
  case 0
  then show ?case by (auto intro: hole_done)
next
  case (Suc j)
  let ?xs = "gs_Items gs"
  show ?case
  proof (cases "lt (?xs ! Suc j) (?xs ! j)")
    case True
    have "hole lt i j (?xs[Suc j := ?xs ! j, j := ?xs ! Suc j])" using hole_swap True Suc.prems by blast
    then show ?thesis
      using Suc.IH [of "gs\<lparr>gs_Items := ?xs[Suc j := ?xs ! j, j := ?xs ! Suc j]\<rparr>"] Suc.prems True
      by (auto simp: Sorter_Less_def Sorter_Swap_def Sorter_Len_def mset_swap)
  next
    case False
    then have "before lt (?xs ! j) (?xs ! Suc j)" by (simp add: before_def)
    moreover have "before lt (?xs ! a) (?xs ! j)" if "a < j" for a
      using Suc.prems that by (simp add: hole_def)
    ultimately have "\<forall>a < Suc j. before lt (?xs ! a) (?xs ! Suc j)"
      using Suc.prems(2) by (auto simp: less_Suc_eq dest: transpD)
    then have "ordered lt (Suc i) ?xs" using Suc.prems(5) by (rule hole_done [rotated])
    then show ?thesis using False Suc.prems by (simp add: Sorter_Less_def Sorter_Len_def)
  qed
qed

lemma insertion_sort_ordered:
  assumes "asymp lt" "transp (before lt)" "n \<le> length (gs_Items gs)" "m \<le> n" "ordered lt m (gs_Items gs)" "gs_By gs = lt"
  shows "\<exists>gs'. insertion_sort [m..<n] gs = Some gs' \<and> mset (gs_Items gs') = mset (gs_Items gs) \<and>
    ordered lt n (gs_Items gs')"
  using assms
proof (induction "n - m" arbitrary: m gs)
  case (Suc k)
  have m: "m < length (gs_Items gs)" using Suc by simp
  have "hole lt m m (gs_Items gs)" using Suc.prems(5) by (auto simp: hole_def ordered_def)
  then obtain gs' where "insertion_step m gs = Some gs'" "gs_By gs' = lt" "length (gs_Items gs') = length (gs_Items gs)"
      "mset (gs_Items gs') = mset (gs_Items gs)" "ordered lt (Suc m) (gs_Items gs')"
    using insertion_step_ordered [of lt m gs m] Suc.prems m by auto
  then show ?case using Suc.hyps(1) [of "Suc m" gs'] Suc.hyps(2) Suc.prems by (auto simp: upt_conv_Cons)
qed auto

text \<open>Twelve items or fewer come out in order, none lost, whatever strict weak order they are compared by.\<close>

lemma Sorter_Sort_sorts:
  assumes "asymp lt" "transp (before lt)" "length items \<le> 12"
  shows "\<exists>xs. Sorter_Sort pdq items lt = Some xs \<and> mset xs = mset items \<and> sorted_wrt (before lt) xs"
proof -
  let ?gs = "\<lparr>gs_Items = items, gs_By = lt\<rparr>"
  consider "items = []" | "1 \<le> length items" by (cases items) auto
  then show ?thesis
  proof cases
    case 1
    then show ?thesis by (simp add: Sorter_Sort_def sort_Sort_def Sorter_Len_def)
  next
    case 2
    have "ordered lt 1 items" by (simp add: ordered_def)
    then obtain gs' where "insertion_sort [1..<length items] ?gs = Some gs'" "mset (gs_Items gs') = mset items"
        "ordered lt (length items) (gs_Items gs')"
      using insertion_sort_ordered [of lt "length items" ?gs 1] assms 2 by auto
    then show ?thesis using assms(3) mset_eq_length [of "gs_Items gs'" items]
      by (auto simp: Sorter_Sort_def sort_Sort_def Sorter_Len_def ordered_def sorted_wrt_iff_nth_less)
  qed
qed

lemma Sorter_Sort_example: "Sorter_Sort pdq [3, 1, 2, 1] (\<lambda>x y. x < (y :: nat)) = Some [1, 1, 2, 3]"
  by (simp add: Sorter_Sort_def sort_Sort_def Sorter_Len_def Sorter_Less_def Sorter_Swap_def upt_rec)

end
