(* ===== verification/Spec2Isabelle.thy ===== *)
theory Spec2Isabelle
  imports Relay_Retry Resume Evm_Intake Evm_Monitor Icon_Client Icon_Utils Evm_Bindings Wasm_Context Mock_Chain Relay_Finality Socket_Props Keystore_Props
    Cmd_Root Cmd_Db_Props Coin_Text Sorter
begin

text \<open>
  A verification development for the centralized relay: a service that watches contracts on several
  chains, carries the messages they emit to the chains they are addressed to, and keeps what it has
  not delivered in a database.

  \<^bold>\<open>The program.\<close> A \<^verbatim>\<open>Relayer\<close> (\<^verbatim>\<open>relayer/relay.go\<close>) owns a runtime per chain with a cache of messages,
  and three stores in one LevelDB database: messages, block heights, and transactions that wait for
  finality. A provider per chain listens for contract events and sends transactions. The listener
  hands blocks to the relayer, which caches and stores their messages; a router visits the caches,
  asks the destination's provider whether a message was received, and starts a goroutine that calls
  its \<^verbatim>\<open>Route\<close>; a success callback removes the message, a failure leaves it for another attempt. Timers
  flush stored messages back into the caches, save heights, delete expired messages and check
  finality. A socket server lets an operator read and change all this.

  \<^bold>\<open>The theories\<close>, in the order of their dependency.

  \<^item> \<open>Prelude\<close>, \<open>Go_Strings\<close>: results with errors and panics (\<open>result\<close>), machine integers (\<open>u64\<close>, \<open>i64\<close>),
    big integers with their pointers, association lists for Go maps; the string, hexadecimal and
    number functions of Go's library the code calls.
  \<^item> \<open>Relay_Types\<close>: \<^verbatim>\<open>relayer/types/types.go\<close> and \<^verbatim>\<open>relayer/events\<close>. Messages, keys, route messages with
    retries and back-off, the message cache. Sequence numbers are pointers, so a key of the cache
    (\<open>bigptr message_key\<close>) is the pair of an address and a value; \<open>wireint\<close> is a number without one.
    Route messages are shared by pointer between cache and goroutines: \<open>heap\<close> holds them.
    \<open>Coin_Text\<close> has the text of a balance and when it is exact.
  \<^item> \<open>Store\<close>, \<open>Store_Spec\<close>, \<open>Store_Props\<close>: \<^verbatim>\<open>relayer/store\<close> and \<^verbatim>\<open>relayer/lvldb\<close> over an abstract LevelDB and
    JSON codec (\<open>leveldb\<close>, \<open>codec\<close>; the laws are the locales \<open>leveldb_laws\<close> and \<open>codec_laws\<close>,
    interpreted on an in-memory instance). The message store refines a map keyed by source and
    number, the finality store one keyed by destination and number.
  \<^item> \<open>Chain\<close>: \<^verbatim>\<open>relayer/provider\<close>, \<^verbatim>\<open>relayer/chain.go\<close>, \<^verbatim>\<open>relayer/chain_runtime.go\<close>. The answers of all
    providers during a step are a record (\<open>env\<close>).
  \<^item> \<open>Relay\<close>, \<open>Relay_Inv\<close>, \<open>Relay_Steps\<close>: the handlers of \<^verbatim>\<open>relay.go\<close> as functions on \<open>relayer\<close>, the
    invariant \<open>relayer_ok\<close> they all keep, and the goroutines as a labelled step relation
    (\<open>relay_step\<close>, reachable states \<open>reach\<close>).
  \<^item> \<open>Relay_Safety\<close>, \<open>Relay_Props\<close>, \<open>Relay_Blocks\<close>, \<open>Relay_Finality\<close>: the properties of the relayer: why
    messages leave a cache, one goroutine per message, what every handler does on each of its
    branches, restarts, finality; and that the cleaner deletes messages that were never tried.
  \<^item> \<open>Socket\<close>, \<open>Socket_Props\<close>: \<^verbatim>\<open>relayer/socket\<close>, server and client, over a codec of the protocol's structs
    (locale \<open>sock_laws\<close>).
  \<^item> \<open>Evm_Nonce\<close>, \<open>Evm\<close>, \<open>Evm_Example\<close>, \<open>Evm_Listen\<close>, \<open>Evm_Send\<close>, \<open>Evm_Routes\<close>: \<^verbatim>\<open>relayer/chains/evm\<close>. The
    nonce tracker with the big integers its values share; the provider's configuration, events,
    listener, gas estimates, transactions, receipts and administration, over the record \<open>evm_client\<close>
    of the answers of its client. Shown: the listener
    delivers every message of the heights it covers, nonces go strictly up within the tracker's
    interval, gas limits stay within their bounds, the wait for a receipt ends.
  \<^item> \<open>Evm_Intake\<close>: the listener and the relayer together: the blocks of a pass, processed in order, leave every
    message of the covered heights in the cache of its chain, and in the message store the last one of
    every source and number.
  \<^item> \<open>Evm_Monitor\<close>: the event loop of \<^verbatim>\<open>evm/listener.go\<close> as a step relation (\<open>evm_step\<close>) over the listener, its
    subscription goroutines and the growing chain, with failures and reconnections in any order.
    Shown: never more than one subscription, what a pass and its subscription deliver between them,
    and the heights they can both miss.
  \<^item> \<open>Icon_Types\<close>, \<open>Icon\<close>, \<open>Icon_Props\<close>, \<open>Icon_Send\<close>: \<^verbatim>\<open>relayer/chains/icon\<close>, over \<open>icon_client\<close>. Hex texts,
    event logs and their parsers, the monitor's callback, regeneration of messages from blocks,
    step limits, transaction results, administration. \<open>Icon_Monitor\<close> has the websocket side of
    \<^verbatim>\<open>client.go\<close> and the loop that connects again: no event is lost over a reconnection.
    \<open>Icon_Options\<close> has the header of options of the client and its text form, \<open>Icon_Utils\<close> \<^verbatim>\<open>utils.go\<close> and
    the remaining data of the JSON-RPC interface, \<open>Go_Base64\<close> the encoding of signatures and payloads.
  \<^item> \<open>Wasm_Types\<close>, \<open>Wasm\<close>, \<open>Wasm_Props\<close>, \<open>Wasm_Send\<close>: \<^verbatim>\<open>relayer/chains/wasm\<close> and \<^verbatim>\<open>utils/hexstr\<close>, over
    \<open>wasm_client\<close>. Contract messages and queries, event attributes, paged searches, height ranges,
    subscriptions, and transactions with the wallet's sequence number, retried once after a
    mismatch. \<open>Wasm_Monitor\<close> has the event loop of \<^verbatim>\<open>provider.go\<close> as a step relation (\<open>wasm_step\<close>): how
    many subscriptions are alive after failures, and what is left after a lost connection.
  \<^item> \<open>Evm_Client\<close>, \<open>Icon_Client\<close>, \<open>Wasm_Client\<close>: the \<^verbatim>\<open>client.go\<close> of the chains, and the client record of the
    provider it makes, over the RPC libraries. \<open>Wasm_Context\<close> has \<^verbatim>\<open>wasm/codec.go\<close>: the codecs, and the
    providers that share the address prefix behind a mutex, as a step relation.
  \<^item> \<open>Evm_Abi\<close>, \<open>Evm_Bindings\<close>: \<^verbatim>\<open>relayer/chains/evm/abi\<close>, the generated bindings of the two contracts over
    go-ethereum's bound contract (\<open>bound_contract\<close>): the interfaces, a definition per method, and iterator,
    watching loop and parser per event. Shown: every method passes arguments its interface accepts, the
    provider's topics are the contracts' events, and what the provider estimates is what it sends.
  \<^item> \<open>Mock_Chain\<close>: \<^verbatim>\<open>relayer/chains/mockchain\<close>, a provider that satisfies the contract of \<^verbatim>\<open>Route\<close>.
  \<^item> \<open>Routing\<close>, \<open>Providers\<close>: the contract between the relayer and a provider's \<^verbatim>\<open>Route\<close> (locale
    \<open>routing_provider\<close>), interpreted on \<open>Evm_Route\<close>, \<open>Icon_Route\<close> and \<open>Wasm_Route\<close>: a routed message is
    settled, and \<^verbatim>\<open>Route\<close> returns unless one of the panics \<open>Providers\<close> names occurs. \<open>Delivery\<close> follows one
    message all the way, from the block it is observed in to its delivery or its next attempt.
    \<open>Relay_Retry\<close> strings the attempts together: a message whose first attempts fail is delivered by the
    one that succeeds, however the failures came; and it shows that a flush can bring a message that
    is cached into the cache a second time, so that it is routed twice. \<open>Resume\<close> compares where the
    three listeners start after a restart.
  \<^item> \<open>Go_Files\<close>, \<open>Wasm_Sdk\<close>, \<open>Keystore\<close>, \<open>Keystore_Props\<close>: \<^verbatim>\<open>relayer/kms\<close> and the \<^verbatim>\<open>keys.go\<close> of the providers
    over a file system (\<open>fs\<close>), a key service and the key file libraries; \<open>Wasm_Sdk\<close> is the global address
    prefix of the Cosmos SDK with its mutex, and the keyring calls of \<^verbatim>\<open>wasm/client.go\<close>. The contract of a
    provider's keystore is the locale \<open>keystore_provider\<close>, interpreted for the three chains: a new wallet
    is the one restored under the address it was given, and no other wallet changes. On CosmWasm that
    address has the prefix that was set before.
  \<^item> \<open>Cmd\<close>, \<open>Cmd_Props\<close>: \<^verbatim>\<open>cmd/config.go\<close>, \<^verbatim>\<open>appstate.go\<close>, \<^verbatim>\<open>chains.go\<close>, \<^verbatim>\<open>keystore.go\<close>. The configuration
    file (\<open>config_codec\<close> stands for the YAML and JSON libraries), how it is loaded into chains and
    written back, and the commands that change it; shown is what a rewrite loses, and that
    \<^verbatim>\<open>keystore use\<close> cannot succeed.
  \<^item> \<open>Cmd_Db\<close>, \<open>Cmd_Db_Props\<close>: \<^verbatim>\<open>cmd/start.go\<close>, \<^verbatim>\<open>db.go\<close>, \<^verbatim>\<open>contracts.go\<close>. The commands as transitions of
    \<open>machine\<close>: the relayer behind the socket, the database, the socket's file. Shown is when the file
    is left behind, and what a request does without a running relayer.
  \<^item> \<open>Cmd_Tree\<close>, \<open>Cmd_Root\<close>: \<^verbatim>\<open>cmd/root.go\<close>, \<^verbatim>\<open>flags.go\<close> and the declarations of all commands: the tree of
    commands with their flags (\<open>well_formed\<close>: it can be built), the defaults of the flags, the logger, what
    runs before a command, the exit of the process. Shown is that \<^verbatim>\<open>--home\<close> does not move the
    configuration and that \<^verbatim>\<open>change-password\<close> cannot be built.
  \<^item> \<open>Sorter\<close>: \<^verbatim>\<open>utils/sorter\<close>, a slice that the standard library sorts by a given order.
  \<^item> \<open>Example\<close>, \<open>Evm_Example\<close>: concrete states on which the witnesses evaluate.

  \<^bold>\<open>Conventions.\<close> Names of definitions are the source's, with the chain's name in front where the
  three providers share one. A function that can fail returns \<open>error + 'a\<close>, one that can also
  panic returns \<open>'a result\<close>; a panic has no successor in the step relation. 64-bit integers are words
  and wrap around; Go maps are association lists whose order is the order of the iteration. Log
  lines are left out except where their arguments dereference a pointer that may be nil.

  \<^bold>\<open>Bounds and loops.\<close> The loops the code bounds are modelled with its bounds: five attempts to fetch
  EVM logs, fifteen polls for an EVM receipt, the retry count of a route, ten messages per flush. The
  loops that cut heights into batches may run forever (batch size 0, wrap-around), so they are
  partial functions, and the properties prove that they end under the condition that excludes
  this. The witnesses of parameters that poll are functions of the number of the attempt.

  \<^bold>\<open>Not modelled.\<close> Third-party clients, cryptography, the parser of the command line, and the
  tests. Timers are left to the step relation: any interleaving of ticks is a run. Data races inside
  one handler are not modelled.
\<close>

end
